(* ===== verification/Prelude.thy ===== *)
theory Prelude
  imports Main "HOL-Library.List_Lexorder" "HOL-Library.Char_ord" "HOL-Library.Multiset"
begin

section \<open>Prelude: errors as values, sequencing, association lists\<close>

text \<open>
  What every component shares: the exceptions of \<open>continuity_kernel/errors.py\<close> as a
  datatype, the result type (a raised exception is \<open>Inl\<close>, a returned value is \<open>Inr\<close>),
  sequencing of fallible steps, and association lists for Python dictionaries, which keep
  their insertion order.
\<close>

named_theorems result_simps \<open>how a fallible step evaluates\<close>
named_theorems dict_simps \<open>how dictionary operations evaluate\<close>

subsection \<open>Exceptions\<close>

text \<open>
  The public exception classes; the argument is the message. \<open>ControlStorageError\<close> and
  \<open>OAuthPermissionGrantError\<close> are subclasses of \<open>ValidationError\<close>, so
  \<open>except ValidationError\<close> catches them too: \<open>is_ValidationError\<close>.
  \<open>OtherError\<close> is an exception of another class (an \<open>OSError\<close>, say).
\<close>

datatype exc =
    ValidationError string
  | OAuthPermissionGrantError string
  | ControlStorageError string
  | ConflictError string
  | NotFoundError string
  | MutationCommittedError string
  | DegradedIntegrityError string
  | SetupError string
  | OtherError string

type_synonym 'a result = "exc + 'a"

fun is_ValidationError :: "exc \<Rightarrow> bool" where
  "is_ValidationError (ValidationError _) = True"
| "is_ValidationError (OAuthPermissionGrantError _) = True"
| "is_ValidationError (ControlStorageError _) = True"
| "is_ValidationError _ = False"

fun is_PersistenceError :: "exc \<Rightarrow> bool" where
  "is_PersistenceError (MutationCommittedError _) = True"
| "is_PersistenceError (DegradedIntegrityError _) = True"
| "is_PersistenceError _ = False"

subsection \<open>Sequencing\<close>

text \<open>
  \<open>bindE m f\<close> runs \<open>m\<close> and, unless it raised, continues with its value; the error type is that of
  the steps, \<^typ>\<open>exc\<close> for the program's own functions.
\<close>

definition bindE :: "'e + 'a \<Rightarrow> ('a \<Rightarrow> 'e + 'b) \<Rightarrow> 'e + 'b" where
  "bindE m f = (case m of Inl e \<Rightarrow> Inl e | Inr x \<Rightarrow> f x)"

text \<open>\<open>raise_unless c e\<close> is the guard \<open>if not c: raise e\<close>.\<close>

definition raise_unless :: "bool \<Rightarrow> exc \<Rightarrow> unit result" where
  "raise_unless c e = (if c then Inr () else Inl e)"

fun mapE :: "('a \<Rightarrow> 'b result) \<Rightarrow> 'a list \<Rightarrow> 'b list result" where
  "mapE f [] = Inr []"
| "mapE f (x # xs) = bindE (f x) (\<lambda>y. bindE (mapE f xs) (\<lambda>ys. Inr (y # ys)))"

lemma bindE_case [code_unfold]: "bindE m f = (case m of Inl e \<Rightarrow> Inl e | Inr x \<Rightarrow> f x)"
  by (simp add: bindE_def)

lemma bindE_simps [simp, result_simps]:
  "bindE (Inl e) f = Inl e"
  "bindE (Inr x) f = f x"
  by (simp_all add: bindE_def)

lemma bindE_cong [fundef_cong]:
  "m = m' \<Longrightarrow> (\<And>x. m' = Inr x \<Longrightarrow> f x = f' x) \<Longrightarrow> bindE m f = bindE m' f'"
  by (cases m') (simp_all add: bindE_def)

lemma bindE_Inr_iff: "bindE m f = Inr y \<longleftrightarrow> (\<exists>x. m = Inr x \<and> f x = Inr y)"
  by (cases m) (simp_all add: bindE_def)

lemma bindE_Inl_iff:
  "bindE m f = Inl e \<longleftrightarrow> m = Inl e \<or> (\<exists>x. m = Inr x \<and> f x = Inl e)"
  by (cases m) (simp_all add: bindE_def)

lemma bindE_assoc: "bindE (bindE m f) g = bindE m (\<lambda>x. bindE (f x) g)"
  by (cases m) simp_all

lemma raise_unless_Inr_iff [simp]: "raise_unless c e = Inr u \<longleftrightarrow> c"
  by (simp add: raise_unless_def)

lemma raise_unless_simps [simp, result_simps]:
  "raise_unless True e = Inr ()" "raise_unless False e = Inl e"
  by (simp_all add: raise_unless_def)

lemma mapE_cong [fundef_cong]:
  "xs = ys \<Longrightarrow> (\<And>x. x \<in> set ys \<Longrightarrow> f x = g x) \<Longrightarrow> mapE f xs = mapE g ys"
proof (induction ys arbitrary: xs)
  case Nil
  then show ?case by simp
next
  case (Cons y ys)
  then show ?case by (auto intro!: bindE_cong)
qed

text \<open>A successful \<open>mapE\<close> is a pointwise successful list.\<close>

lemma mapE_Inr_iff: "mapE f xs = Inr ys \<longleftrightarrow> list_all2 (\<lambda>x y. f x = Inr y) xs ys"
proof (induction xs arbitrary: ys)
  case Nil
  then show ?case by auto
next
  case (Cons x xs)
  then show ?case by (cases ys) (auto simp: bindE_Inr_iff)
qed

lemma mapE_Inr_length: "mapE f xs = Inr ys \<Longrightarrow> length ys = length xs"
  by (auto simp: mapE_Inr_iff list_all2_lengthD)

lemma mapE_Inr_id: "mapE f xs = Inr ys \<Longrightarrow> (\<And>x y. x \<in> set xs \<Longrightarrow> f x = Inr y \<Longrightarrow> y = x) \<Longrightarrow> ys = xs"
proof (induction xs arbitrary: ys)
  case Nil
  then show ?case by simp
next
  case (Cons x xs)
  then show ?case by (auto simp: bindE_Inr_iff)
qed

fun is_ok :: "'a result \<Rightarrow> bool" where
  "is_ok (Inr _) = True"
| "is_ok (Inl _) = False"

lemma is_ok_iff: "is_ok r \<longleftrightarrow> (\<exists>y. r = Inr y)"
  by (cases r) simp_all

lemma mapE_fixed: "(\<And>x. x \<in> set xs \<Longrightarrow> f x = Inr x) \<Longrightarrow> mapE f xs = Inr xs"
  by (induction xs) simp_all

lemma mapE_map_Inr: "(\<And>x. x \<in> set xs \<Longrightarrow> f x = Inr (g x)) \<Longrightarrow> mapE f xs = Inr (map g xs)"
  by (induction xs) simp_all

lemma mapE_in_set:
  "mapE f xs = Inr ys \<Longrightarrow> y \<in> set ys \<Longrightarrow> \<exists>x \<in> set xs. f x = Inr y"
  by (fastforce simp: mapE_Inr_iff list_all2_conv_all_nth in_set_conv_nth)

lemma mapE_in_set_arg:
  "mapE f xs = Inr ys \<Longrightarrow> x \<in> set xs \<Longrightarrow> \<exists>y \<in> set ys. f x = Inr y"
  by (auto simp: mapE_Inr_iff list_all2_conv_all_nth in_set_conv_nth)

lemma is_ok_bindE: "is_ok (bindE m f) \<longleftrightarrow> (\<exists>x. m = Inr x \<and> is_ok (f x))"
  by (cases m) simp_all

lemma is_ok_mapE: "is_ok (mapE f xs) \<longleftrightarrow> list_all (\<lambda>x. is_ok (f x)) xs"
  by (induction xs) (auto simp: is_ok_iff bindE_Inr_iff)

subsection \<open>Evaluating comparisons of lists\<close>

text \<open>Code equations that stop a comparison at the first difference.\<close>

definition list_eq_if :: "bool \<Rightarrow> 'a list \<Rightarrow> 'a list \<Rightarrow> bool" where
  "list_eq_if b xs ys = (b \<and> xs = ys)"

lemma list_eq_if_code [code]:
  "list_eq_if True (xs :: 'a :: equal list) ys = HOL.equal xs ys"
  "list_eq_if False xs ys = False"
  by (simp_all add: list_eq_if_def equal_eq)

lemma equal_list_code [code]:
  "HOL.equal [] ([] :: 'a :: equal list) = True"
  "HOL.equal [] (y # ys) = False"
  "HOL.equal (x # xs) [] = False"
  "HOL.equal (x # xs) (y # ys) = list_eq_if (HOL.equal x y) xs ys"
  by (simp_all add: list_eq_if_def equal_eq)

subsection \<open>Lengths as integers\<close>

text \<open>Python's integers are unbounded; \<open>len\<close> and every count and bound is an \<^typ>\<open>int\<close>.\<close>

definition ilen :: "'a list \<Rightarrow> int" where
  "ilen xs = int (length xs)"

lemma ilen_simps [simp, code]: "ilen [] = 0" "ilen (x # xs) = 1 + ilen xs"
  by (simp_all add: ilen_def)

lemma ilen_nonneg [simp]: "0 \<le> ilen xs"
  by (simp add: ilen_def)

lemma ilen_append [simp]: "ilen (xs @ ys) = ilen xs + ilen ys"
  by (simp add: ilen_def)

lemma ilen_map [simp]: "ilen (map f xs) = ilen xs"
  by (simp add: ilen_def)

subsection \<open>Sorting association lists by key\<close>

text \<open>
  \<open>sorted(d.items())\<close> for keys that are distinct strings: insertion sort on the key, whose
  order is that of the code points, which on UTF-8 is the order of the bytes.
\<close>

fun insert_item :: "string \<times> 'a \<Rightarrow> (string \<times> 'a) list \<Rightarrow> (string \<times> 'a) list" where
  "insert_item x [] = [x]"
| "insert_item x (y # ys) = (if fst x \<le> fst y then x # y # ys else y # insert_item x ys)"

definition sort_items :: "(string \<times> 'a) list \<Rightarrow> (string \<times> 'a) list" where
  "sort_items xs = foldr insert_item xs []"

lemma insert_item_insort_key: "insert_item x ys = insort_key fst x ys"
  by (induction ys) simp_all

lemma sort_items_sort_key: "sort_items xs = sort_key fst xs"
  unfolding sort_items_def sort_key_def
  by (rule arg_cong [where f = "\<lambda>f. foldr f xs []"]) (auto simp: insert_item_insort_key fun_eq_iff)

lemma set_sort_items [simp]: "set (sort_items xs) = set xs"
  by (simp add: sort_items_sort_key)

lemma length_sort_items [simp]: "length (sort_items xs) = length xs"
  by (simp add: sort_items_sort_key)

lemma ilen_sort_items [simp]: "ilen (sort_items xs) = ilen xs"
  by (simp add: ilen_def)

lemma distinct_sort_items [simp]:
  "distinct (map fst (sort_items xs)) = distinct (map fst xs)"
  unfolding sort_items_sort_key
  by (metis mset_map mset_sort mset_eq_imp_distinct_iff)

lemma sorted_sort_items [simp]: "sorted (map fst (sort_items xs))"
  by (simp add: sort_items_sort_key)

lemma sort_items_id: "sorted (map fst xs) \<Longrightarrow> sort_items xs = xs"
  by (simp add: sort_items_sort_key sorted_sort_id sort_key_id_if_sorted)

lemma sort_items_idem [simp]: "sort_items (sort_items xs) = sort_items xs"
  by (rule sort_items_id) simp

lemma map_of_sort_items:
  "distinct (map fst xs) \<Longrightarrow> map_of (sort_items xs) = map_of xs"
  by (rule map_of_inject_set [THEN iffD2]) simp_all

lemma sort_items_map_snd:
  "sort_items (map (\<lambda>(k, v). (k, f v)) xs) = map (\<lambda>(k, v). (k, f v)) (sort_items xs)"
proof -
  have ins: "insert_item (k, f v) (map (\<lambda>(k, v). (k, f v)) ys)
      = map (\<lambda>(k, v). (k, f v)) (insert_item (k, v) ys)" for k v ys
    by (induction ys) auto
  show ?thesis
    by (induction xs) (auto simp: sort_items_def ins)
qed

end
