(* ===== verification/PyStr.thy ===== *)
theory PyStr
  imports Prelude
begin

section \<open>Python strings\<close>

text \<open>
  A Python \<open>str\<close> is modelled by its UTF-8 bytes (\<^typ>\<open>string\<close>, a list of bytes), so
  \<open>s.encode("utf-8")\<close> is the identity, byte bounds are \<^const>\<open>length\<close>, and the order of
  code points is the order of bytes. What the code counts or classifies by code point goes
  through \<open>codepoints\<close>: \<open>len(s)\<close> is \<open>py_len s\<close>, \<open>c.isspace()\<close> is \<open>is_space\<close>.
  A \<open>str\<close> with a lone surrogate, which cannot be encoded at all, has no such bytes:
  \<open>valid_utf8 s\<close> fails for it, and the code's \<open>except UnicodeError\<close> branches are taken exactly then.
\<close>

subsection \<open>Code points\<close>

text \<open>A continuation byte is \<open>10xxxxxx\<close>; every other byte starts a code point.\<close>

definition utf8_cont :: "char \<Rightarrow> bool" where
  "utf8_cont c = (digit7 c \<and> \<not> digit6 c)"

definition py_len :: "string \<Rightarrow> int" where
  "py_len s = ilen (filter (\<lambda>c. \<not> utf8_cont c) s)"

text \<open>A byte's value.\<close>

fun byte :: "char \<Rightarrow> int" where
  "byte (Char b0 b1 b2 b3 b4 b5 b6 b7) =
     (if b0 then 1 else 0) + (if b1 then 2 else 0) + (if b2 then 4 else 0) + (if b3 then 8 else 0)
     + (if b4 then 16 else 0) + (if b5 then 32 else 0) + (if b6 then 64 else 0)
     + (if b7 then 128 else 0)"

text \<open>The code point that \<open>n\<close> continuation bytes complete, and what follows them.\<close>

fun utf8_take :: "nat \<Rightarrow> int \<Rightarrow> string \<Rightarrow> (int \<times> string) option" where
  "utf8_take 0 acc cs = Some (acc, cs)"
| "utf8_take (Suc n) acc [] = None"
| "utf8_take (Suc n) acc (c # cs) =
     (if utf8_cont c then utf8_take n (acc * 64 + (byte c - 128)) cs else None)"

text \<open>How many continuation bytes follow a lead byte, and the bits the lead byte carries.\<close>

definition utf8_lead :: "char \<Rightarrow> (nat \<times> int) option" where
  "utf8_lead c =
     (let b = byte c in
      if b < 128 then Some (0, b)
      else if b < 192 then None
      else if b < 224 then Some (1, b - 192)
      else if b < 240 then Some (2, b - 224)
      else if b < 248 then Some (3, b - 240)
      else None)"

lemma utf8_take_length: "utf8_take n acc cs = Some (p, rest) \<Longrightarrow> length rest \<le> length cs"
proof (induction n arbitrary: acc cs)
  case 0
  then show ?case by simp
next
  case (Suc n)
  then show ?case by (cases cs) (auto split: if_splits dest!: Suc.IH)
qed

text \<open>Smallest code point each length may encode: shorter ones are overlong and invalid.\<close>

fun utf8_least :: "nat \<Rightarrow> int" where
  "utf8_least 0 = 0"
| "utf8_least (Suc 0) = 128"
| "utf8_least (Suc (Suc 0)) = 2048"
| "utf8_least _ = 65536"

function utf8_decode :: "string \<Rightarrow> int list option" where
  "utf8_decode [] = Some []"
| "utf8_decode (c # cs) =
     (case utf8_lead c of
        None \<Rightarrow> None
      | Some (n, b) \<Rightarrow>
          (case utf8_take n b cs of
             None \<Rightarrow> None
           | Some (p, rest) \<Rightarrow>
               if p < utf8_least n \<or> (55296 \<le> p \<and> p \<le> 57343) \<or> 1114111 < p then None
               else map_option ((#) p) (utf8_decode rest)))"
  by pat_completeness auto
termination
  by (relation "measure length") (auto dest: utf8_take_length)

definition valid_utf8 :: "string \<Rightarrow> bool" where
  "valid_utf8 s = (utf8_decode s \<noteq> None)"

definition codepoints :: "string \<Rightarrow> int list" where
  "codepoints s = (case utf8_decode s of Some ps \<Rightarrow> ps | None \<Rightarrow> map byte s)"

subsection \<open>ASCII\<close>

definition ascii :: "string \<Rightarrow> bool" where
  "ascii s = list_all (\<lambda>c. \<not> digit7 c) s"

lemma byte_ascii: "\<not> digit7 c \<Longrightarrow> byte c < 128"
  by (cases c) simp

lemma byte_nonneg [simp]: "0 \<le> byte c"
  by (cases c) simp

lemma utf8_lead_ascii: "\<not> digit7 c \<Longrightarrow> utf8_lead c = Some (0, byte c)"
  by (simp add: utf8_lead_def Let_def byte_ascii)

lemma utf8_decode_ascii: "ascii s \<Longrightarrow> utf8_decode s = Some (map byte s)"
proof (induction s)
  case Nil
  then show ?case by simp
next
  case (Cons c s)
  then show ?case
    using byte_ascii [of c] by (simp add: ascii_def utf8_lead_ascii not_less)
qed

lemma codepoints_ascii: "ascii s \<Longrightarrow> codepoints s = map byte s"
  by (simp add: codepoints_def utf8_decode_ascii)

lemma valid_utf8_ascii: "ascii s \<Longrightarrow> valid_utf8 s"
  by (simp add: valid_utf8_def utf8_decode_ascii)

lemma py_len_le_ilen: "py_len s \<le> ilen s"
  by (simp add: py_len_def ilen_def)

lemma py_len_ascii: "ascii s \<Longrightarrow> py_len s = ilen s"
  by (induction s) (auto simp: py_len_def ascii_def utf8_cont_def)

text \<open>Decoding a concatenation.\<close>

lemma utf8_take_append:
  "utf8_take n acc cs = Some (p, rest) \<Longrightarrow> utf8_take n acc (cs @ t) = Some (p, rest @ t)"
proof (induction n arbitrary: acc cs)
  case 0
  then show ?case by simp
next
  case (Suc n)
  then show ?case by (cases cs) (auto split: if_splits)
qed

lemma utf8_decode_append:
  "utf8_decode s = Some ps \<Longrightarrow> utf8_decode (s @ t) = map_option ((@) ps) (utf8_decode t)"
proof (induction s arbitrary: ps rule: utf8_decode.induct)
  case 1
  then show ?case by (simp add: option.map_id0 [unfolded id_def, symmetric] option.map_ident)
next
  case (2 c cs)
  from "2.prems" obtain n b p rest qs where
    lead: "utf8_lead c = Some (n, b)" and take: "utf8_take n b cs = Some (p, rest)"
    and ok: "\<not> (p < utf8_least n \<or> (55296 \<le> p \<and> p \<le> 57343) \<or> 1114111 < p)"
    and qs: "utf8_decode rest = Some qs" "ps = p # qs"
    by (auto split: option.splits if_splits prod.splits)
  have "utf8_decode (rest @ t) = map_option ((@) qs) (utf8_decode t)"
    using "2.IH" [OF lead _ take _ ok qs(1)] by simp
  then show ?case
    using lead utf8_take_append [OF take] ok qs
    by (auto simp add: option.map_comp comp_def)
qed

lemma valid_utf8_append: "valid_utf8 s \<Longrightarrow> valid_utf8 t \<Longrightarrow> valid_utf8 (s @ t)"
  by (auto simp: valid_utf8_def utf8_decode_append)

lemma valid_utf8_Nil [simp]: "valid_utf8 []"
  by (simp add: valid_utf8_def)

text \<open>Code equations that decode a string only when it is not ASCII.\<close>

definition valid_utf8_if :: "bool \<Rightarrow> string \<Rightarrow> bool" where
  "valid_utf8_if b s = (b \<or> utf8_decode s \<noteq> None)"

lemma valid_utf8_if_code [code]:
  "valid_utf8_if True s = True"
  "valid_utf8_if False s = (utf8_decode s \<noteq> None)"
  by (simp_all add: valid_utf8_if_def)

lemma valid_utf8_code [code]: "valid_utf8 s = valid_utf8_if (ascii s) s"
  by (auto simp: valid_utf8_if_def valid_utf8_def utf8_decode_ascii)

definition py_len_if :: "bool \<Rightarrow> string \<Rightarrow> int" where
  "py_len_if b s = (if b then py_len s else 1 + py_len s)"

lemma py_len_if_code [code]:
  "py_len_if True s = py_len s"
  "py_len_if False s = 1 + py_len s"
  by (simp_all add: py_len_if_def)

lemma py_len_code [code]:
  "py_len [] = 0"
  "py_len (c # cs) = py_len_if (utf8_cont c) cs"
  by (simp_all add: py_len_def py_len_if_def)

subsection \<open>Classes of code points\<close>

text \<open>\<open>str.isspace\<close>, which is also the regular-expression class \<open>\s\<close> and what \<open>strip\<close> removes.\<close>

definition in_ranges :: "(int \<times> int) list \<Rightarrow> int \<Rightarrow> bool" where
  "in_ranges rs p = list_ex (\<lambda>(lo, hi). lo \<le> p \<and> p \<le> hi) rs"

definition space_ranges :: "(int \<times> int) list" where
  "space_ranges =
     [(9, 13), (28, 32), (133, 133), (160, 160), (5760, 5760), (8192, 8202), (8232, 8233),
      (8239, 8239), (8287, 8287), (12288, 12288)]"

definition is_space :: "int \<Rightarrow> bool" where
  "is_space p = in_ranges space_ranges p"

text \<open>The Unicode decimal digits, the class \<open>\d\<close>: first code point of each run of ten.\<close>

definition digit_ranges :: "(int \<times> int) list" where
  "digit_ranges = map (\<lambda>z. (z, z + 9))
     [48, 1632, 1776, 1984, 2406, 2534, 2662, 2790, 2918, 3046, 3174, 3302, 3430, 3558, 3664,
      3792, 3872, 4160, 4240, 6112, 6160, 6470, 6608, 6784, 6800, 6992, 7088, 7232, 7248, 42528,
      43216, 43264, 43472, 43504, 43600, 44016, 65296, 66720, 68912, 69734, 69872, 69942, 70096,
      70384, 70736, 70864, 71248, 71360, 71472, 71904, 72016, 72784, 73040, 73120, 92768, 92864,
      93008, 120782, 120792, 120802, 120812, 120822, 123200, 123632, 125264, 130032]"

text \<open>
  \<open>re.sub(r"[^a-z0-9]", "", s.casefold())\<close>, code point by code point: ASCII letters in
  lower case, ASCII digits, and the code points whose case folding holds ASCII letters.
\<close>

definition fold_special :: "(int \<times> string) list" where
  "fold_special =
     [(223, ''ss''), (304, ''i''), (329, ''n''), (383, ''s''), (496, ''j''), (7830, ''h''),
      (7831, ''t''), (7832, ''w''), (7833, ''y''), (7834, ''a''), (7838, ''ss''), (8490, ''k''),
      (64256, ''ff''), (64257, ''fi''), (64258, ''fl''), (64259, ''ffi''), (64260, ''ffl''),
      (64261, ''st''), (64262, ''st'')]"

definition fold_alnum :: "int \<Rightarrow> string" where
  "fold_alnum p =
     (if (97 \<le> p \<and> p \<le> 122) \<or> (48 \<le> p \<and> p \<le> 57) then [char_of p]
      else if 65 \<le> p \<and> p \<le> 90 then [char_of (p + 32)]
      else case map_of fold_special p of Some s \<Rightarrow> s | None \<Rightarrow> [])"

definition casefold_alnum :: "string \<Rightarrow> string" where
  "casefold_alnum s = concat (map fold_alnum (codepoints s))"

text \<open>\<open>"\x00" in s\<close>: a zero byte occurs in UTF-8 only as the code point zero.\<close>

definition has_nul :: "string \<Rightarrow> bool" where
  "has_nul s = list_ex (\<lambda>c. c = CHR 0x00) s"

definition has_space :: "string \<Rightarrow> bool" where
  "has_space s = list_ex is_space (codepoints s)"

text \<open>\<open>s.endswith(t)\<close>.\<close>

definition ends_with :: "string \<Rightarrow> string \<Rightarrow> bool" where
  "ends_with s t = (length t \<le> length s \<and> drop (length s - length t) s = t)"

lemma ends_with_iff: "ends_with s t \<longleftrightarrow> (\<exists>u. s = u @ t)"
proof
  assume "ends_with s t"
  then have "s = take (length s - length t) s @ t"
    by (metis ends_with_def append_take_drop_id)
  then show "\<exists>u. s = u @ t" ..
next
  assume "\<exists>u. s = u @ t"
  then show "ends_with s t" by (auto simp: ends_with_def)
qed

text \<open>Code equations for prefixes that stop at the first difference.\<close>

fun starts_with :: "string \<Rightarrow> string \<Rightarrow> bool"
  and starts_with_if :: "bool \<Rightarrow> string \<Rightarrow> string \<Rightarrow> bool" where
  "starts_with s [] = True"
| "starts_with [] (y # ys) = False"
| "starts_with (x # xs) (y # ys) = starts_with_if (x = y) xs ys"
| "starts_with_if True xs ys = starts_with xs ys"
| "starts_with_if False xs ys = False"

lemma starts_with_iff: "starts_with s t \<longleftrightarrow> (\<exists>u. s = t @ u)"
proof (induction t arbitrary: s)
  case Nil
  then show ?case by simp
next
  case (Cons y ys)
  then show ?case by (cases s; cases "hd s = y") auto
qed

lemma ends_with_code [code]: "ends_with s t = starts_with (rev s) (rev t)"
proof -
  have "(\<exists>u. s = u @ t) \<longleftrightarrow> (\<exists>u. rev s = rev t @ u)"
    by (metis rev_append rev_rev_ident)
  then show ?thesis by (simp add: ends_with_iff starts_with_iff)
qed

end
