(* ===== verification/Regex.thy ===== *)
theory Regex
  imports PyStr
begin

section \<open>Regular expressions of the connector schemas\<close>

text \<open>
  Python's \<open>re\<close> on the syntax the schemas and name checks use, and more of it: literals, \<open>.\<close>, sets,
  groups with and without capture, alternation, greedy and lazy quantifiers, the anchors \<open>^ $ \A \Z\<close>
  and the escapes of characters and of the classes \<open>\d \D \s \S\<close>. \<open>re_compile\<close> reads a pattern from
  left to right as \<open>re.compile\<close> does and tells four outcomes apart: an expression, \<open>Invalid\<close> where
  \<open>re.error\<close> is raised, \<open>Too_Large\<close> where a repetition number raises \<open>OverflowError\<close>, and \<open>Unmodelled\<close>
  where it meets a construct outside this syntax (\<open>\w\<close>, word boundaries, references, numeric and named
  characters, possessive quantifiers, other forms of \<open>(?...)\<close>). Matching is on code points, and computes
  every place where a match can end; since there are no references, which of them Python reports does
  not matter to the boolean answers the code uses. The anchor \<open>$\<close> also matches before a final
  newline, as in Python.
\<close>

datatype rx =
    RSet bool "(int \<times> int) list"   \<comment> \<open>negated?, ranges\<close>
  | REps
  | RSeq rx rx
  | RAlt rx rx
  | RRep rx int "int option"
  | RBegin
  | REnd
  | RStop   \<comment> \<open>\<open>\Z\<close>, the very end\<close>

subsection \<open>Matching\<close>

text \<open>
  A position is what is left of the text, with whether it is its beginning. \<open>ends r p\<close>
  lists the positions where a match of \<open>r\<close> that starts at \<open>p\<close> can end.
\<close>

type_synonym pos = "bool \<times> int list"

definition set_matches :: "bool \<Rightarrow> (int \<times> int) list \<Rightarrow> int \<Rightarrow> bool" where
  "set_matches neg rs p = (in_ranges rs p \<noteq> neg)"

fun rep_exact :: "(pos \<Rightarrow> pos list) \<Rightarrow> nat \<Rightarrow> pos list \<Rightarrow> pos list" where
  "rep_exact f 0 ps = ps"
| "rep_exact f (Suc n) ps = rep_exact f n (remdups (concat (map f ps)))"

fun rep_upto :: "(pos \<Rightarrow> pos list) \<Rightarrow> nat \<Rightarrow> pos list \<Rightarrow> pos list" where
  "rep_upto f 0 ps = ps"
| "rep_upto f (Suc n) ps =
     (if ps = [] then [] else remdups (ps @ rep_upto f n (remdups (concat (map f ps)))))"

fun ends :: "rx \<Rightarrow> pos \<Rightarrow> pos list" where
  "ends (RSet neg rs) (st, t) =
     (case t of [] \<Rightarrow> [] | c # t' \<Rightarrow> if set_matches neg rs c then [(False, t')] else [])"
| "ends REps p = [p]"
| "ends (RSeq a b) p = remdups (concat (map (ends b) (ends a p)))"
| "ends (RAlt a b) p = remdups (ends a p @ ends b p)"
| "ends (RRep a lo hi) p =
     rep_upto (ends a) (case hi of None \<Rightarrow> length (snd p) | Some h \<Rightarrow> nat (h - lo))
       (rep_exact (ends a) (nat lo) [p])"
| "ends RBegin (st, t) = (if st then [(st, t)] else [])"
| "ends REnd (st, t) = (if t = [] \<or> t = [10] then [(st, t)] else [])"
| "ends RStop (st, t) = (if t = [] then [(st, t)] else [])"

fun search_from :: "rx \<Rightarrow> bool \<Rightarrow> int list \<Rightarrow> bool" where
  "search_from r st t =
     (ends r (st, t) \<noteq> [] \<or> (case t of [] \<Rightarrow> False | _ # t' \<Rightarrow> search_from r False t'))"

declare search_from.simps [simp del]

definition rx_search :: "rx \<Rightarrow> int list \<Rightarrow> bool" where
  "rx_search r s = search_from r True s"

definition rx_fullmatch :: "rx \<Rightarrow> int list \<Rightarrow> bool" where
  "rx_fullmatch r s = list_ex (\<lambda>p. snd p = []) (ends r (True, s))"

subsection \<open>Parsing patterns\<close>

datatype refusal = Invalid | Too_Large | Unmodelled

abbreviation pt :: "char \<Rightarrow> int" where
  "pt c \<equiv> byte c"

definition is_digit :: "int \<Rightarrow> bool" where
  "is_digit p = (48 \<le> p \<and> p \<le> 57)"

definition is_letter :: "int \<Rightarrow> bool" where
  "is_letter p = (65 \<le> p \<and> p \<le> 90 \<or> 97 \<le> p \<and> p \<le> 122)"

text \<open>The digits in front, their value, and the rest.\<close>

definition parse_nat :: "int list \<Rightarrow> (int option \<times> int list)" where
  "parse_nat s =
     (let ds = takeWhile is_digit s in
      (if ds = [] then None else Some (foldl (\<lambda>acc d. acc * 10 + (d - 48)) 0 ds), dropWhile is_digit s))"

text \<open>The code points outside ascending ranges.\<close>

fun gaps :: "int \<Rightarrow> (int \<times> int) list \<Rightarrow> (int \<times> int) list" where
  "gaps lo [] = [(lo, 1114111)]"
| "gaps lo ((a, b) # rs) = (if lo < a then (lo, a - 1) # gaps (b + 1) rs else gaps (b + 1) rs)"

text \<open>What an escaped character stands for: a character, or a class of them.\<close>

datatype escape = Single int | Class "(int \<times> int) list" | Anchor rx

definition control_escape :: "int \<Rightarrow> int option" where
  "control_escape e =
     (if e = pt CHR ''a'' then Some 7 else if e = pt CHR ''t'' then Some 9 else if e = pt CHR ''n'' then Some 10
      else if e = pt CHR ''v'' then Some 11 else if e = pt CHR ''f'' then Some 12 else if e = pt CHR ''r'' then Some 13
      else None)"

definition parse_escape :: "bool \<Rightarrow> int \<Rightarrow> refusal + escape" where
  "parse_escape in_set e =
     (if e = pt CHR ''d'' then Inr (Class digit_ranges)
      else if e = pt CHR ''s'' then Inr (Class space_ranges)
      else if e = pt CHR ''D'' then Inr (Class (gaps 0 digit_ranges))
      else if e = pt CHR ''S'' then Inr (Class (gaps 0 space_ranges))
      else case control_escape e of
        Some c \<Rightarrow> Inr (Single c)
      | None \<Rightarrow>
          if is_digit e \<or> e \<in> {pt CHR ''w'', pt CHR ''W'', pt CHR ''x'', pt CHR ''u'', pt CHR ''U'', pt CHR ''N''}
          then Inl Unmodelled
          else if in_set \<and> e = pt CHR ''b'' then Inr (Single 8)
          else if \<not> in_set \<and> (e = pt CHR ''b'' \<or> e = pt CHR ''B'') then Inl Unmodelled
          else if \<not> in_set \<and> e = pt CHR ''A'' then Inr (Anchor RBegin)
          else if \<not> in_set \<and> e = pt CHR ''Z'' then Inr (Anchor RStop)
          else if is_letter e then Inl Invalid
          else Inr (Single e))"

text \<open>The members of a set \<open>[...]\<close>: a range has single characters as its ends.\<close>

definition set_member :: "int \<Rightarrow> int list \<Rightarrow> refusal + (escape \<times> int list)" where
  "set_member c s =
     (if c = 92 then
        (case s of [] \<Rightarrow> Inl Invalid | e # r \<Rightarrow> bindE (parse_escape True e) (\<lambda>x. Inr (x, r)))
      else Inr (Single c, s))"

fun escape_ranges :: "escape \<Rightarrow> (int \<times> int) list" where
  "escape_ranges (Single c) = [(c, c)]"
| "escape_ranges (Class rs) = rs"
| "escape_ranges (Anchor r) = []"

fun range_between :: "escape \<Rightarrow> escape \<Rightarrow> refusal + (int \<times> int)" where
  "range_between (Single lo) (Single hi) = (if hi < lo then Inl Invalid else Inr (lo, hi))"
| "range_between _ _ = Inl Invalid"

text \<open>
  Up to the closing bracket, which is a member in the first place. Each step consumes a character, so
  the length of the text is enough fuel; the same holds of the fuel below.
\<close>

fun parse_set :: "nat \<Rightarrow> int list \<Rightarrow> (int \<times> int) list \<Rightarrow> refusal + ((int \<times> int) list \<times> int list)" where
  "parse_set 0 s acc = Inl Unmodelled"
| "parse_set (Suc n) s acc =
     (case s of
        [] \<Rightarrow> Inl Invalid
      | c # cs \<Rightarrow>
          if c = pt CHR '']'' \<and> acc \<noteq> [] then Inr (acc, cs)
          else bindE (set_member c cs) (\<lambda>(x, r).
            if take 1 r = [pt CHR ''-''] then
              (case tl r of
                 [] \<Rightarrow> Inl Invalid
               | d # r' \<Rightarrow>
                   if d = pt CHR '']'' then Inr (acc @ escape_ranges x @ [(pt CHR ''-'', pt CHR ''-'')], r')
                   else bindE (set_member d r') (\<lambda>(y, r''). bindE (range_between x y) (\<lambda>range.
                     parse_set n r'' (acc @ [range]))))
            else parse_set n r (acc @ escape_ranges x)))"

text \<open>The quantifier that starts here, if any. A brace that starts none is a literal.\<close>

definition MAXREPEAT :: int where "MAXREPEAT = 4294967295"

definition too_large :: "int option \<Rightarrow> bool" where
  "too_large n = (case n of Some i \<Rightarrow> MAXREPEAT \<le> i | None \<Rightarrow> False)"

definition brace_quantifier :: "int list \<Rightarrow> refusal + ((int \<times> int option) \<times> int list) option" where
  "brace_quantifier s =
     (let (lo, r) = parse_nat s;
          (hi, r') = (if take 1 r = [pt CHR '',''] then parse_nat (tl r) else (lo, r)) in
      if take 1 s = [pt CHR ''}''] \<or> take 1 r' \<noteq> [pt CHR ''}''] then Inr None
      else if too_large lo \<or> too_large hi then Inl (if tl r' = [92] then Invalid else Too_Large)
      else case (lo, hi) of
        (Some l, Some h) \<Rightarrow> if h < l then Inl Invalid else Inr (Some ((l, Some h), tl r'))
      | (None, _) \<Rightarrow> Inr (Some ((0, hi), tl r'))
      | (Some l, None) \<Rightarrow> Inr (Some ((l, None), tl r')))"

definition quantifier :: "int list \<Rightarrow> refusal + ((int \<times> int option) \<times> int list) option" where
  "quantifier s =
     (case s of
        [] \<Rightarrow> Inr None
      | c # r \<Rightarrow>
          if c = pt CHR ''*'' then Inr (Some ((0, None), r))
          else if c = pt CHR ''+'' then Inr (Some ((1, None), r))
          else if c = pt CHR ''?'' then Inr (Some ((0, Some 1), r))
          else if c = pt CHR ''{'' then brace_quantifier r
          else Inr None)"

fun is_anchor :: "rx \<Rightarrow> bool" where
  "is_anchor RBegin = True"
| "is_anchor REnd = True"
| "is_anchor RStop = True"
| "is_anchor _ = False"

definition no_quantifier :: "int list \<Rightarrow> refusal + unit" where
  "no_quantifier s = bindE (quantifier s) (\<lambda>q. if q = None then Inr () else Inl Invalid)"

definition with_quantifier :: "rx \<Rightarrow> int list \<Rightarrow> refusal + (rx \<times> int list)" where
  "with_quantifier a s =
     bindE (quantifier s) (\<lambda>q.
     case q of
       None \<Rightarrow> Inr (a, s)
     | Some ((lo, hi), r) \<Rightarrow>
         if is_anchor a then Inl Invalid
         else if take 1 r = [pt CHR ''+''] then Inl Unmodelled
         else let r' = (if take 1 r = [pt CHR ''?''] then tl r else r) in
           bindE (no_quantifier r') (\<lambda>_. Inr (RRep a lo hi, r')))"

text \<open>What follows an opening parenthesis.\<close>

definition group_body :: "int list \<Rightarrow> refusal + int list" where
  "group_body s =
     (if take 1 s = [pt CHR ''?''] then
        (if take 1 (tl s) = [pt CHR '':''] then Inr (drop 2 s) else Inl Unmodelled)
      else Inr s)"

definition not_newline :: rx where
  "not_newline = RSet True [(10, 10)]"

fun escape_atom :: "escape \<Rightarrow> rx" where
  "escape_atom (Single c) = RSet False [(c, c)]"
| "escape_atom (Class rs) = RSet False rs"
| "escape_atom (Anchor r) = r"

fun parse_alt :: "nat \<Rightarrow> int list \<Rightarrow> refusal + (rx \<times> int list)"
  and parse_seq :: "nat \<Rightarrow> int list \<Rightarrow> refusal + (rx \<times> int list)"
  and parse_atom :: "nat \<Rightarrow> int list \<Rightarrow> refusal + (rx \<times> int list)" where
  "parse_alt 0 s = Inl Unmodelled"
| "parse_alt (Suc n) s =
     bindE (parse_seq n s) (\<lambda>(a, r).
     if take 1 r = [pt CHR ''|''] then bindE (parse_alt n (tl r)) (\<lambda>(b, r'). Inr (RAlt a b, r'))
     else Inr (a, r))"
| "parse_seq 0 s = Inl Unmodelled"
| "parse_seq (Suc n) s =
     (if s = [] \<or> hd s = pt CHR ''|'' \<or> hd s = pt CHR '')'' then Inr (REps, s)
      else bindE (no_quantifier s) (\<lambda>_.
        bindE (parse_atom n s) (\<lambda>(a, r).
        bindE (with_quantifier a r) (\<lambda>(a', r').
        bindE (parse_seq n r') (\<lambda>(b, r''). Inr (RSeq a' b, r''))))))"
| "parse_atom 0 s = Inl Unmodelled"
| "parse_atom (Suc n) s =
     (case s of
        [] \<Rightarrow> Inl Invalid
      | c # cs \<Rightarrow>
          if c = pt CHR ''^'' then Inr (RBegin, cs)
          else if c = pt CHR ''$'' then Inr (REnd, cs)
          else if c = pt CHR ''.'' then Inr (not_newline, cs)
          else if c = pt CHR ''('' then
            bindE (group_body cs) (\<lambda>body.
            bindE (parse_alt n body) (\<lambda>(a, r).
            if take 1 r = [pt CHR '')''] then Inr (a, tl r) else Inl Invalid))
          else if c = pt CHR ''['' then
            (if take 1 cs = [pt CHR ''^'']
             then bindE (parse_set (length cs) (tl cs) []) (\<lambda>(rs, r). Inr (RSet True rs, r))
             else bindE (parse_set (Suc (length cs)) cs []) (\<lambda>(rs, r). Inr (RSet False rs, r)))
          else if c = 92 then
            (case cs of
               [] \<Rightarrow> Inl Invalid
             | e # r \<Rightarrow> bindE (parse_escape False e) (\<lambda>x. Inr (escape_atom x, r)))
          else Inr (RSet False [(c, c)], cs))"

text \<open>A pattern that is no Unicode text is outside the model.\<close>

definition re_compile :: "string \<Rightarrow> refusal + rx" where
  "re_compile p =
     (if \<not> valid_utf8 p then Inl Unmodelled
      else bindE (parse_alt (3 * length p + 3) (codepoints p)) (\<lambda>(r, rest). if rest = [] then Inr r else Inl Invalid))"

definition re_compiles :: "string \<Rightarrow> bool" where
  "re_compiles p = (case re_compile p of Inr _ \<Rightarrow> True | Inl _ \<Rightarrow> False)"

text \<open>\<open>re.search(pattern, text) is not None\<close> and \<open>re.fullmatch\<close>, on a compiled pattern.\<close>

definition re_search :: "string \<Rightarrow> string \<Rightarrow> bool" where
  "re_search p t = (case re_compile p of Inl _ \<Rightarrow> False | Inr r \<Rightarrow> rx_search r (codepoints t))"

definition re_fullmatch :: "string \<Rightarrow> string \<Rightarrow> bool" where
  "re_fullmatch p t = (case re_compile p of Inl _ \<Rightarrow> False | Inr r \<Rightarrow> rx_fullmatch r (codepoints t))"

text \<open>The corners of the syntax: what may be repeated, what ends a range, what a brace may be.\<close>

lemma re_compile_corners:
  "re_compile ''^*'' = Inl Invalid" "re_compile (''['' @ [CHR 0x5C] @ ''d-z]'') = Inl Invalid"
  "re_compile ''a{5000000000}'' = Inl Too_Large" "re_compile ''a{2,1}'' = Inl Invalid" "re_compile ''a**'' = Inl Invalid"
  "re_compile ''.'' = Inr (RSeq not_newline REps)" "re_compile ([CHR 0x5C] @ ''w'') = Inl Unmodelled"
  "re_compile ''a{,3}'' = Inr (RSeq (RRep (RSet False [(97, 97)]) 0 (Some 3)) REps)"
  "re_compile ''a{,x'' = Inr (foldr (\<lambda>c r. RSeq (RSet False [(c, c)]) r) [97, 123, 44, 120] REps)"
  "re_compile ''[]a]'' = Inr (RSeq (RSet False [(93, 93), (97, 97)]) REps)"
  by code_simp+

subsection \<open>The positions a repetition of a set reaches\<close>

text \<open>Repeating a step \<open>k\<close> times, as a set of positions.\<close>

fun step_set :: "(pos \<Rightarrow> pos list) \<Rightarrow> nat \<Rightarrow> pos set \<Rightarrow> pos set" where
  "step_set f 0 S = S"
| "step_set f (Suc k) S = step_set f k (\<Union>p \<in> S. set (f p))"

lemma set_rep_exact: "set (rep_exact f n ps) = step_set f n (set ps)"
  by (induction n arbitrary: ps) simp_all

lemma step_set_empty [simp]: "step_set f k {} = {}"
  by (induction k) simp_all

lemma set_rep_upto: "set (rep_upto f n ps) = (\<Union>k \<le> n. step_set f k (set ps))"
proof (induction n arbitrary: ps)
  case 0
  then show ?case by simp
next
  case (Suc n)
  show ?case
  proof (cases "ps = []")
    case True
    then show ?thesis by simp
  next
    case False
    have "(\<Union>k \<le> Suc n. step_set f k (set ps))
        = step_set f 0 (set ps) \<union> (\<Union>k \<le> n. step_set f (Suc k) (set ps))"
      by (simp add: atMost_Suc_eq_insert_0 image_Union [symmetric] image_image)
    then show ?thesis using False by (simp add: Suc)
  qed
qed

lemma step_set_RSet:
  "step_set (ends (RSet neg rs)) k {(st, t)} =
     (if k \<le> length t \<and> list_all (set_matches neg rs) (take k t)
      then {(if k = 0 then st else False, drop k t)} else {})"
proof (induction k arbitrary: st t)
  case 0
  then show ?case by simp
next
  case (Suc k)
  show ?case
  proof (cases t)
    case Nil
    then show ?thesis by simp
  next
    case (Cons c u)
    then show ?thesis using Suc [of False u] by (cases "set_matches neg rs c") auto
  qed
qed

lemma UN_if_singleton: "(\<Union>k \<in> K. if P k then {g k} else {}) = {g k | k. k \<in> K \<and> P k}"
  by auto

lemma ends_RRep_RSet:
  assumes "0 \<le> lo" "lo \<le> hi"
  shows "set (ends (RRep (RSet neg rs) lo (Some hi)) (st, t)) =
     {(if k = 0 then st else False, drop k t) | k.
        nat lo \<le> k \<and> k \<le> nat hi \<and> k \<le> length t \<and> list_all (set_matches neg rs) (take k t)}"
    (is "?L = ?R")
proof -
  let ?f = "ends (RSet neg rs)"
  have comp: "step_set ?f j (step_set ?f i {(st, t)}) = step_set ?f (i + j) {(st, t)}" for i j
  proof -
    have "step_set f j (step_set f i S) = step_set f (i + j) S" for f S
      by (induction i arbitrary: S) simp_all
    then show ?thesis .
  qed
  have "?L = (\<Union>j \<le> nat (hi - lo). step_set ?f (nat lo + j) {(st, t)})"
    by (simp add: set_rep_upto set_rep_exact comp)
  also have "\<dots> = (\<Union>k \<in> {nat lo..nat hi}. step_set ?f k {(st, t)})"
  proof -
    have "nat hi = nat lo + nat (hi - lo)" using assms by simp
    then have "{nat lo..nat hi} = (\<lambda>j. nat lo + j) ` {..nat (hi - lo)}"
      by (simp add: atMost_atLeast0 add.commute)
    then show ?thesis by simp
  qed
  also have "\<dots> = ?R" by (simp only: step_set_RSet UN_if_singleton atLeastAtMost_iff conj_assoc)
  finally show ?thesis .
qed

lemma ends_REnd_finished: "(\<exists>p \<in> set (ends REnd y). snd p = []) \<longleftrightarrow> snd y = []"
  by (cases y) auto

text \<open>
  The shape of the identifier patterns: one character of a first set, then at most \<open>hi\<close> of a
  second, between the anchors.
\<close>

lemma fullmatch_identifier:
  assumes "0 \<le> hi"
  shows "rx_fullmatch (RSeq RBegin (RSeq (RSet False as)
            (RSeq (RRep (RSet False bs) 0 (Some hi)) (RSeq REnd REps)))) s
     \<longleftrightarrow> (case s of [] \<Rightarrow> False
          | c # cs \<Rightarrow> in_ranges as c \<and> list_all (in_ranges bs) cs \<and> ilen cs \<le> hi)"
proof (cases s)
  case Nil
  then show ?thesis by (simp add: rx_fullmatch_def)
next
  case (Cons c cs)
  let ?rep = "RRep (RSet False bs) 0 (Some hi)"
  have "rx_fullmatch (RSeq RBegin (RSeq (RSet False as) (RSeq ?rep (RSeq REnd REps)))) s
     \<longleftrightarrow> in_ranges as c \<and> (\<exists>b. (b, []) \<in> set (ends ?rep (False, cs)))"
    unfolding Cons rx_fullmatch_def list_ex_iff
    by (simp del: ends.simps(5) add: set_matches_def ends_REnd_finished Bex_def)
  also have "(\<exists>b. (b, []) \<in> set (ends ?rep (False, cs)))
     \<longleftrightarrow> list_all (in_ranges bs) cs \<and> ilen cs \<le> hi"
  proof -
    have "set_matches False bs = in_ranges bs" by (simp add: set_matches_def fun_eq_iff)
    then show ?thesis
      using ends_RRep_RSet [of 0 hi False bs False cs] assms
      by (auto simp: ilen_def nat_le_iff)
  qed
  finally show ?thesis by (simp add: Cons)
qed

end
