(* ===== verification/PyObj.thy ===== *)
theory PyObj
  imports Complex_Main Regex
begin

section \<open>Python objects\<close>

text \<open>
  The dynamically typed values that cross the connector boundary. A \<open>dict\<close> is an association
  list in insertion order; a \<open>MappingProxyType\<close> is a read-only view of one, a type of its own.
  A finite \<open>float\<close> is the rational number it denotes, so comparisons with integers are exact,
  as Python's are. \<open>POther\<close> stands for an object of any other type (bytes, a set, a class).
\<close>

datatype pyfloat = Finite rat | PosInf | NegInf | NaN

datatype pyobj =
    PNone
  | PBool bool
  | PInt int
  | PFloat pyfloat
  | PStr string
  | PList "pyobj list"
  | PTuple "pyobj list"
  | PDict "(pyobj \<times> pyobj) list"
  | PProxy "(pyobj \<times> pyobj) list"
  | POther nat

type_synonym items = "(pyobj \<times> pyobj) list"

subsection \<open>Dictionaries\<close>

fun dget :: "items \<Rightarrow> string \<Rightarrow> pyobj option" where
  "dget [] k = None"
| "dget ((k', v) # d) k = (if k' = PStr k then Some v else dget d k)"

text \<open>Code equations that do not carry the rest of the dictionary through a comparison.\<close>

definition dget_if :: "bool \<Rightarrow> pyobj \<Rightarrow> items \<Rightarrow> string \<Rightarrow> pyobj option" where
  "dget_if b v d k = (if b then Some v else dget d k)"

fun key_eq :: "pyobj \<Rightarrow> string \<Rightarrow> bool" where
  "key_eq (PStr s) k = (s = k)"
| "key_eq _ k = False"

lemma dget_code [code]:
  "dget [] k = None"
  "dget ((k', v) # d) k = dget_if (key_eq k' k) v d k"
  by (cases k'; simp add: dget_if_def)+

lemma dget_if_code [code]:
  "dget_if True v d k = Some v"
  "dget_if False v d k = dget d k"
  by (simp_all add: dget_if_def)

definition dhas :: "items \<Rightarrow> string \<Rightarrow> bool" where
  "dhas d k = (dget d k \<noteq> None)"

text \<open>\<open>d[k] = v\<close>: replace in place, or append.\<close>

fun dset :: "items \<Rightarrow> string \<Rightarrow> pyobj \<Rightarrow> items" where
  "dset [] k v = [(PStr k, v)]"
| "dset ((k', v') # d) k v = (if k' = PStr k then (k', v) # d else (k', v') # dset d k v)"

text \<open>\<open>{**a, **b}\<close>.\<close>

fun dmerge :: "items \<Rightarrow> items \<Rightarrow> items" where
  "dmerge a [] = a"
| "dmerge a ((PStr k, v) # b) = dmerge (dset a k v) b"
| "dmerge a ((k, v) # b) = dmerge (a @ [(k, v)]) b"

text \<open>A dictionary literal with string keys.\<close>

definition items :: "(string \<times> pyobj) list \<Rightarrow> items" where
  "items kvs = map (\<lambda>(k, v). (PStr k, v)) kvs"

definition obj :: "(string \<times> pyobj) list \<Rightarrow> pyobj" where
  "obj kvs = PDict (items kvs)"

lemma items_simps [simp, code]: "items [] = []" "items ((k, v) # kvs) = (PStr k, v) # items kvs"
  by (simp_all add: items_def)

lemma items_append: "items (a @ b) = items a @ items b"
  by (simp add: items_def)

lemma dget_append: "dget (a @ b) k = (case dget a k of Some v \<Rightarrow> Some v | None \<Rightarrow> dget b k)"
  by (induction a) auto

lemma dget_items: "dget (items kvs) k = map_of kvs k"
  by (induction kvs) auto

lemma dget_dset: "dget (dset d k v) k' = (if k' = k then Some v else dget d k')"
  by (induction d) auto

lemma dhas_dset: "dhas (dset d k v) k' \<longleftrightarrow> k' = k \<or> dhas d k'"
  by (simp add: dhas_def dget_dset)

lemma dset_new: "\<not> dhas d k \<Longrightarrow> dset d k v = d @ [(PStr k, v)]"
  by (induction d) (auto simp: dhas_def split: if_splits)

lemma dset_items: "\<exists>kvs'. dset (items kvs) k v = items kvs'"
proof (induction kvs)
  case Nil
  have "dset (items []) k v = items [(k, v)]" by simp
  then show ?case by blast
next
  case (Cons p kvs)
  obtain a b where p: "p = (a, b)" by (cases p)
  from Cons obtain kvs' where "dset (items kvs) k v = items kvs'" by blast
  then have "dset (items (p # kvs)) k v = items (if a = k then (a, v) # kvs else (a, b) # kvs')"
    by (simp add: p)
  then show ?case by blast
qed

text \<open>The items of a \<open>Mapping\<close>, and of a \<open>list\<close> or \<open>tuple\<close>.\<close>

fun as_mapping :: "pyobj \<Rightarrow> items option" where
  "as_mapping (PDict d) = Some d"
| "as_mapping (PProxy d) = Some d"
| "as_mapping _ = None"

fun as_sequence :: "pyobj \<Rightarrow> pyobj list option" where
  "as_sequence (PList xs) = Some xs"
| "as_sequence (PTuple xs) = Some xs"
| "as_sequence _ = None"

fun as_str :: "pyobj \<Rightarrow> string option" where
  "as_str (PStr s) = Some s"
| "as_str _ = None"

lemma as_str_eq_Some [simp]: "as_str v = Some s \<longleftrightarrow> v = PStr s"
  by (cases v) auto

lemma as_mapping_eq_Some: "as_mapping v = Some d \<longleftrightarrow> v = PDict d \<or> v = PProxy d"
  by (cases v) auto

lemma as_sequence_eq_Some: "as_sequence v = Some xs \<longleftrightarrow> v = PList xs \<or> v = PTuple xs"
  by (cases v) auto

text \<open>
  The string keys of a dictionary with their values, in order; a key of another type is left
  out here, and refused where the code refuses it.
\<close>

fun str_items :: "items \<Rightarrow> (string \<times> pyobj) list" where
  "str_items [] = []"
| "str_items ((PStr k, v) # d) = (k, v) # str_items d"
| "str_items ((_, v) # d) = str_items d"

lemma str_items_items [simp]: "str_items (items kvs) = kvs"
  by (induction kvs) auto

lemma all_str_keys_items:
  "list_all (\<lambda>(k, _). as_str k \<noteq> None) d \<Longrightarrow> d = items (str_items d)"
  by (induction d rule: str_items.induct) auto

subsection \<open>Numbers\<close>

text \<open>
  \<open>math.isfinite\<close> converts an integer to a float first, which raises \<open>OverflowError\<close> when the
  integer rounds to \<open>2 ** 1024\<close> or beyond.
\<close>

definition float_overflows :: "int \<Rightarrow> bool" where
  "float_overflows i = (2 ^ 1024 - 2 ^ 970 \<le> \<bar>i\<bar>)"

lemma float_overflows_code [code]:
  "float_overflows i = (9007199254740992 \<le> \<bar>i\<bar> \<and> 2 ^ 1024 - 2 ^ 970 \<le> \<bar>i\<bar>)"
  by (auto simp: float_overflows_def)

fun py_isfinite :: "pyobj \<Rightarrow> bool result" where
  "py_isfinite (PFloat (Finite _)) = Inr True"
| "py_isfinite (PFloat _) = Inr False"
| "py_isfinite (PInt i) =
     (if float_overflows i then Inl (OtherError ''OverflowError'') else Inr True)"
| "py_isfinite _ = Inl (OtherError ''TypeError'')"

text \<open>\<open>a < b\<close> on numbers that are not infinite or NaN; false on anything else.\<close>

fun num_less :: "pyobj \<Rightarrow> pyobj \<Rightarrow> bool" where
  "num_less (PInt a) (PInt b) = (a < b)"
| "num_less (PInt a) (PFloat (Finite b)) = (of_int a < b)"
| "num_less (PFloat (Finite a)) (PInt b) = (a < of_int b)"
| "num_less (PFloat (Finite a)) (PFloat (Finite b)) = (a < b)"
| "num_less _ _ = False"

subsection \<open>Equality with a constant\<close>

text \<open>Python's \<open>==\<close> between a value and an expected string or integer, and \<open>d[k]\<close> where the key is known.\<close>

fun py_eq_str :: "pyobj \<Rightarrow> string \<Rightarrow> bool" where
  "py_eq_str (PStr s) t = (s = t)"
| "py_eq_str _ t = False"

fun py_eq_int :: "pyobj \<Rightarrow> int \<Rightarrow> bool" where
  "py_eq_int (PInt i) n = (i = n)"
| "py_eq_int (PBool b) n = ((if b then 1 else 0) = n)"
| "py_eq_int (PFloat (Finite r)) n = (r = of_int n)"
| "py_eq_int _ n = False"

definition payload_field :: "items \<Rightarrow> string \<Rightarrow> pyobj" where
  "payload_field d k = (case dget d k of Some v \<Rightarrow> v | None \<Rightarrow> PNone)"

end
