(* ===== verification/Contract.thy ===== *)
theory Contract
  imports PyObj
begin

section \<open>Closed operation contracts (\<open>connector_contract.py\<close>)\<close>

text \<open>
  The schema language of the connector operations: canonical JSON values, the normalisation
  every schema must pass, the validation of a value against a normalised schema, operation
  specifications and the catalogue that looks them up. Function names are the source's
  without the leading underscore.
\<close>

subsection \<open>Bounds and keyword tables\<close>

definition MAX_JSON_DEPTH :: int where "MAX_JSON_DEPTH = 16"
definition MAX_COLLECTION_ITEMS :: int where "MAX_COLLECTION_ITEMS = 128"
definition MAX_JSON_ARRAY_ITEMS :: int where "MAX_JSON_ARRAY_ITEMS = 1000"
definition MAX_STRING_LENGTH :: int where "MAX_STRING_LENGTH = 256000"
definition MAX_SCHEMA_BRANCHES :: int where "MAX_SCHEMA_BRANCHES = 64"
definition MAX_SEALED_TOKEN_LENGTH :: int where "MAX_SEALED_TOKEN_LENGTH = 8192"

definition NAME_PATTERN :: string where "NAME_PATTERN = ''^[a-z][a-z0-9._-]{0,127}$''"
definition CONNECTION_ID_PATTERN :: string where
  "CONNECTION_ID_PATTERN = ''^con-[A-Za-z0-9_-]{32}$''"
definition TOKEN_PATTERN :: string where
  "TOKEN_PATTERN = ''^v1'' @ [CHR 0x5C] @ ''.[A-Za-z0-9_-]+'' @ [CHR 0x5C] @ ''.[A-Za-z0-9_-]+$''"

definition SCHEMA_TYPES :: "string list" where
  "SCHEMA_TYPES =
     [''array'', ''boolean'', ''integer'', ''null'', ''number'', ''object'', ''string'']"

definition SCHEMA_KEYWORDS :: "string list" where
  "SCHEMA_KEYWORDS =
     [''additionalProperties'', ''const'', ''enum'', ''items'', ''maxItems'', ''maxLength'',
      ''maximum'', ''minItems'', ''minLength'', ''minimum'', ''oneOf'', ''pattern'',
      ''properties'', ''required'', ''type'']"

definition FORBIDDEN_TRANSPORT_FIELDS :: "string list" where
  "FORBIDDEN_TRANSPORT_FIELDS =
     [''authorization'', ''cursor'', ''header'', ''headers'', ''host'', ''method'', ''nextlink'',
      ''token'', ''tokens'', ''uploadurl'', ''url'', ''urls'']"

definition FORBIDDEN_TRANSPORT_SUFFIXES :: "string list" where
  "FORBIDDEN_TRANSPORT_SUFFIXES =
     [''authorization'', ''endpoint'', ''headers'', ''method'', ''nextlink'', ''token'',
      ''uploadurl'', ''url'']"

datatype connector_mode = READ | WRITE

datatype connector_effect = E_READ | SAFE_MUTATION | OUTWARD | DESTRUCTIVE | PERMANENT

definition CALENDAR_ATTACHMENT_OPERATIONS :: "(string \<times> connector_mode \<times> string) list" where
  "CALENDAR_ATTACHMENT_OPERATIONS =
     [(''google_calendar'', WRITE, ''events.create''),
      (''google_calendar'', WRITE, ''events.update'')]"

definition CALENDAR_ATTACHMENT_FILE_URL_PATH :: "string list" where
  "CALENDAR_ATTACHMENT_FILE_URL_PATH = [''attachments'', ''[]'', ''file_url'']"

lemmas contract_bounds [simp] =
  MAX_JSON_DEPTH_def MAX_COLLECTION_ITEMS_def MAX_JSON_ARRAY_ITEMS_def MAX_STRING_LENGTH_def
  MAX_SCHEMA_BRANCHES_def MAX_SEALED_TOKEN_LENGTH_def

subsection \<open>Names and scopes\<close>

definition operation_name :: "string \<Rightarrow> string \<Rightarrow> string result" where
  "operation_name value label =
     (if re_fullmatch NAME_PATTERN value then Inr value
      else Inl (ValidationError (''connector '' @ label @ '' name is invalid'')))"

lemma re_compile_NAME_PATTERN:
  "re_compile NAME_PATTERN =
     Inr (RSeq RBegin (RSeq (RSet False [(97, 122)])
       (RSeq (RRep (RSet False [(97, 122), (48, 57), (46, 46), (95, 95), (45, 45)]) 0 (Some 127))
         (RSeq REnd REps))))"
  by code_simp

lemma operation_name_code [code]:
  "operation_name value label =
     (if (case codepoints value of [] \<Rightarrow> False
          | c # cs \<Rightarrow> in_ranges [(97, 122)] c \<and>
              list_all (in_ranges [(97, 122), (48, 57), (46, 46), (95, 95), (45, 45)]) cs \<and>
              ilen cs \<le> 127)
      then Inr value
      else Inl (ValidationError (''connector '' @ label @ '' name is invalid'')))"
  by (simp add: operation_name_def re_fullmatch_def re_compile_NAME_PATTERN fullmatch_identifier)

definition scope_text :: "string \<Rightarrow> string result" where
  "scope_text value =
     (if value = [] \<or> 2048 < ilen value \<or> has_nul value \<or> has_space value
      then Inl (ValidationError ''connector scope is invalid'') else Inr value)"

text \<open>A frozenset of scopes is a set; its members are checked one by one.\<close>

fun scope_texts :: "string list \<Rightarrow> unit result" where
  "scope_texts [] = Inr ()"
| "scope_texts (s # ss) = bindE (scope_text s) (\<lambda>_. scope_texts ss)"

fun check_alternatives :: "string list list \<Rightarrow> unit result" where
  "check_alternatives [] = Inr ()"
| "check_alternatives (a # as) =
     (if MAX_COLLECTION_ITEMS < ilen (remdups a)
      then Inl (ValidationError ''operation scope alternative is invalid'')
      else bindE (scope_texts a) (\<lambda>_. check_alternatives as))"

text \<open>Each alternative lists the members of a frozenset; two lists with the same members are equal sets.\<close>

definition validate_scope_alternatives :: "string list list \<Rightarrow> string set list result" where
  "validate_scope_alternatives alternatives =
     (if alternatives = []
      then Inl (ValidationError ''operation scope alternatives must be a non-empty tuple'')
      else if MAX_COLLECTION_ITEMS < ilen alternatives
      then Inl (ValidationError ''operation scope alternatives exceed their bound'')
      else bindE (check_alternatives alternatives) (\<lambda>_.
        if \<not> distinct (map set alternatives)
        then Inl (ValidationError ''operation scope alternatives contain duplicates'')
        else Inr (map set alternatives)))"

subsection \<open>Canonical JSON values\<close>

text \<open>
  \<open>_clone_json\<close>: a detached copy with sorted object keys, refused when it is too deep, too
  big or not JSON. The recursion stops because the depth is bounded.
\<close>

definition clone_string :: "string \<Rightarrow> pyobj result" where
  "clone_string s =
     (if has_nul s \<or> MAX_STRING_LENGTH < py_len s
      then Inl (ValidationError ''JSON string is invalid or too large'')
      else if \<not> valid_utf8 s then Inl (ValidationError ''JSON string is invalid Unicode'')
      else Inr (PStr s))"

definition clone_key :: "pyobj \<Rightarrow> string result" where
  "clone_key k =
     (case k of
        PStr s \<Rightarrow>
          if s = [] \<or> has_nul s
          then Inl (ValidationError ''JSON object keys must be non-empty strings'') else Inr s
      | _ \<Rightarrow> Inl (ValidationError ''JSON object keys must be non-empty strings''))"

function clone_json :: "int \<Rightarrow> pyobj \<Rightarrow> pyobj result" where
  "clone_json depth value =
     (if MAX_JSON_DEPTH < depth then Inl (ValidationError ''JSON value is too deeply nested'')
      else case value of
        PNone \<Rightarrow> Inr value
      | PBool _ \<Rightarrow> Inr value
      | PInt _ \<Rightarrow> Inr value
      | PFloat (Finite _) \<Rightarrow> Inr value
      | PFloat _ \<Rightarrow> Inl (ValidationError ''JSON number must be finite'')
      | PStr s \<Rightarrow> clone_string s
      | PList xs \<Rightarrow>
          if MAX_JSON_ARRAY_ITEMS < ilen xs
          then Inl (ValidationError ''JSON array exceeds its collection bound'')
          else bindE (mapE (clone_json (depth + 1)) xs) (\<lambda>ys. Inr (PList ys))
      | PTuple _ \<Rightarrow> Inl (ValidationError ''value is not JSON'')
      | POther _ \<Rightarrow> Inl (ValidationError ''value is not JSON'')
      | _ \<Rightarrow>
          (case as_mapping value of
             None \<Rightarrow> Inl (ValidationError ''value is not JSON'')
           | Some d \<Rightarrow>
               if MAX_COLLECTION_ITEMS < ilen d
               then Inl (ValidationError ''JSON object exceeds its collection bound'')
               else bindE (mapE (\<lambda>(k, v). bindE (clone_key k) (\<lambda>s.
                                 bindE (clone_json (depth + 1) v) (\<lambda>w. Inr (s, w)))) d)
                      (\<lambda>kvs. Inr (obj (sort_items kvs)))))"
  by pat_completeness auto
termination
  by (relation "measure (\<lambda>(depth, _). nat (17 - depth))") auto

declare clone_json.simps [simp del]

definition canonicalize_json :: "pyobj \<Rightarrow> pyobj result" where
  "canonicalize_json value = clone_json 0 value"

subsection \<open>Strict equality\<close>

text \<open>
  \<open>_strict_equal\<close>: equal types, and dictionaries and lists compared member by member. Two
  read-only views, tuples or other objects never reach it with both sides of that type.
\<close>

fun strict_equal :: "pyobj \<Rightarrow> pyobj \<Rightarrow> bool"
  and strict_equal_lists :: "pyobj list \<Rightarrow> pyobj list \<Rightarrow> bool"
  and strict_equal_items :: "items \<Rightarrow> items \<Rightarrow> bool" where
  "strict_equal (PDict a) (PDict b) = (length a = length b \<and> strict_equal_items a b)"
| "strict_equal (PList a) (PList b) = (length a = length b \<and> strict_equal_lists a b)"
| "strict_equal (PFloat NaN) (PFloat NaN) = False"
| "strict_equal a b = (a = b)"
| "strict_equal_lists [] _ = True"
| "strict_equal_lists (x # xs) [] = True"
| "strict_equal_lists (x # xs) (y # ys) = (strict_equal x y \<and> strict_equal_lists xs ys)"
| "strict_equal_items [] b = True"
| "strict_equal_items ((k, v) # a) b =
     ((case map_of b k of None \<Rightarrow> False | Some w \<Rightarrow> strict_equal v w) \<and> strict_equal_items a b)"

subsection \<open>Transport fields\<close>

text \<open>
  A property name that would smuggle a transport control (a URL, a token, a header, a cursor)
  into an operation's input is refused, whatever its case and punctuation.
\<close>

definition is_transport_name :: "string \<Rightarrow> bool" where
  "is_transport_name normalized =
     (normalized \<in> set FORBIDDEN_TRANSPORT_FIELDS \<or>
      list_ex (ends_with normalized) FORBIDDEN_TRANSPORT_SUFFIXES)"

definition transport_suffix :: "string \<Rightarrow> bool" where
  "transport_suffix reversed = list_ex (starts_with reversed) (map rev FORBIDDEN_TRANSPORT_SUFFIXES)"

lemma transport_suffix_code [code]:
  "transport_suffix reversed = list_ex (starts_with reversed)
     [''noitazirohtua'', ''tniopdne'', ''sredaeh'', ''dohtem'', ''kniltxen'', ''nekot'',
      ''lrudaolpu'', ''lru'']"
  by (simp add: transport_suffix_def FORBIDDEN_TRANSPORT_SUFFIXES_def)

lemma is_transport_name_code [code]:
  "is_transport_name normalized =
     (normalized \<in> set FORBIDDEN_TRANSPORT_FIELDS \<or> transport_suffix (rev normalized))"
  by (simp add: is_transport_name_def transport_suffix_def list_ex_iff ends_with_code)

definition is_transport_field :: "string \<Rightarrow> bool" where
  "is_transport_field name = is_transport_name (casefold_alnum name)"

definition reject_transport_field :: "string \<Rightarrow> unit result" where
  "reject_transport_field name =
     raise_unless (\<not> is_transport_field name)
       (ValidationError ''operation input contains a forbidden transport field'')"

definition operation_transport_field_paths ::
    "string \<Rightarrow> connector_mode \<Rightarrow> string \<Rightarrow> string list list" where
  "operation_transport_field_paths provider mode name =
     (if (provider, mode, name) \<in> set CALENDAR_ATTACHMENT_OPERATIONS
      then [CALENDAR_ATTACHMENT_FILE_URL_PATH] else [])"

subsection \<open>Normalising a schema\<close>

text \<open>
  \<open>_normalize_schema\<close> in the order of the source, one helper per block: keywords, \<open>type\<close>,
  \<open>const\<close>, \<open>enum\<close>, \<open>oneOf\<close>, the object block, the array block, the size bounds, \<open>pattern\<close>,
  the numeric bounds and the final check. Each helper takes the schema's items and extends
  the normalised items.
\<close>

definition check_keywords :: "items \<Rightarrow> unit result" where
  "check_keywords d =
     (if list_ex (\<lambda>(k, _). as_str k = None) d
      then Inl (ValidationError ''JSON schema keys must be strings'')
      else if list_ex (\<lambda>(k, _). k \<notin> set (map PStr SCHEMA_KEYWORDS)) d
      then Inl (ValidationError ''JSON schema contains an unsupported keyword'')
      else if d = [] then Inl (ValidationError ''JSON schema cannot be empty'')
      else Inr ())"

text \<open>\<open>schema.get("type")\<close>, where a stored \<open>None\<close> counts as absent.\<close>

definition schema_type :: "items \<Rightarrow> pyobj option" where
  "schema_type d = (case dget d ''type'' of Some PNone \<Rightarrow> None | t \<Rightarrow> t)"

definition has_type :: "items \<Rightarrow> string \<Rightarrow> bool" where
  "has_type d t = (schema_type d = Some (PStr t))"

definition normalize_type :: "items \<Rightarrow> items result" where
  "normalize_type d =
     (case schema_type d of
        None \<Rightarrow> Inr []
      | Some t \<Rightarrow>
          if t \<in> set (map PStr SCHEMA_TYPES) then Inr [(PStr ''type'', t)]
          else Inl (ValidationError ''JSON schema type is unsupported''))"

definition normalize_const :: "items \<Rightarrow> items \<Rightarrow> items result" where
  "normalize_const d n =
     (case dget d ''const'' of
        None \<Rightarrow> Inr n
      | Some c \<Rightarrow> bindE (canonicalize_json c) (\<lambda>c'. Inr (n @ [(PStr ''const'', c')])))"

fun has_strict_duplicate :: "pyobj list \<Rightarrow> bool" where
  "has_strict_duplicate [] = False"
| "has_strict_duplicate (x # xs) = (list_ex (strict_equal x) xs \<or> has_strict_duplicate xs)"

definition normalize_enum :: "items \<Rightarrow> items \<Rightarrow> items result" where
  "normalize_enum d n =
     (case dget d ''enum'' of
        None \<Rightarrow> Inr n
      | Some e \<Rightarrow>
          (case as_sequence e of
             None \<Rightarrow> Inl (ValidationError ''JSON schema enum is invalid'')
           | Some xs \<Rightarrow>
               if xs = [] \<or> MAX_COLLECTION_ITEMS < ilen xs
               then Inl (ValidationError ''JSON schema enum is invalid'')
               else bindE (mapE canonicalize_json xs) (\<lambda>values.
                 if has_strict_duplicate values
                 then Inl (ValidationError ''JSON schema enum contains duplicates'')
                 else Inr (n @ [(PStr ''enum'', PList values)]))))"

definition one_of_branches :: "pyobj \<Rightarrow> pyobj list result" where
  "one_of_branches v =
     (case as_sequence v of
        None \<Rightarrow> Inl (ValidationError ''JSON schema oneOf is invalid'')
      | Some bs \<Rightarrow>
          if bs = [] \<or> MAX_SCHEMA_BRANCHES < ilen bs
          then Inl (ValidationError ''JSON schema oneOf is invalid'') else Inr bs)"

text \<open>The properties and required names of an exact, closed object schema.\<close>

definition object_parts :: "items \<Rightarrow> (items \<times> pyobj list) result" where
  "object_parts d =
     (case (Option.bind (dget d ''properties'') as_mapping,
            Option.bind (dget d ''required'') as_sequence) of
        (Some properties, Some required) \<Rightarrow>
          if MAX_COLLECTION_ITEMS < ilen properties \<or> MAX_COLLECTION_ITEMS < ilen required \<or>
             dget d ''additionalProperties'' \<noteq> Some (PBool False)
          then Inl (ValidationError ''JSON object schema must be exact and closed'')
          else Inr (properties, required)
      | _ \<Rightarrow> Inl (ValidationError ''JSON object schema must be exact and closed''))"

definition check_property_name ::
    "bool \<Rightarrow> string list list \<Rightarrow> string list \<Rightarrow> pyobj \<Rightarrow> string result" where
  "check_property_name allow_control_fields allowed_paths path k =
     (case as_str k of
        None \<Rightarrow> Inl (ValidationError ''JSON schema property name is invalid'')
      | Some name \<Rightarrow>
          if name = [] \<or> has_nul name
          then Inl (ValidationError ''JSON schema property name is invalid'')
          else if path @ [name] \<notin> set allowed_paths \<and>
                  \<not> (allow_control_fields \<and> name \<in> {''confirmation_token'', ''cursor''})
          then bindE (reject_transport_field name) (\<lambda>_. Inr name)
          else Inr name)"

fun normalize_required :: "string list \<Rightarrow> pyobj list \<Rightarrow> string list \<Rightarrow> string list result" where
  "normalize_required names [] acc = Inr acc"
| "normalize_required names (r # rs) acc =
     (case as_str r of
        None \<Rightarrow> Inl (ValidationError ''JSON schema requires an undeclared property'')
      | Some name \<Rightarrow>
          if name \<notin> set names
          then Inl (ValidationError ''JSON schema requires an undeclared property'')
          else if name \<in> set acc
          then Inl (ValidationError ''JSON schema required fields contain duplicates'')
          else normalize_required names rs (acc @ [name]))"

definition object_block :: "(string \<times> pyobj) list \<Rightarrow> string list \<Rightarrow> items" where
  "object_block properties required =
     [(PStr ''additionalProperties'', PBool False),
      (PStr ''properties'', obj (sort_items properties)),
      (PStr ''required'', PList (map PStr required))]"

definition copy_size :: "items \<Rightarrow> string \<Rightarrow> int \<Rightarrow> items \<Rightarrow> items result" where
  "copy_size d name hard_maximum n =
     (case dget d name of
        None \<Rightarrow> Inr n
      | Some (PInt i) \<Rightarrow>
          if 0 \<le> i \<and> i \<le> hard_maximum then Inr (n @ [(PStr name, PInt i)])
          else Inl (ValidationError ''JSON schema size bound is invalid'')
      | Some _ \<Rightarrow> Inl (ValidationError ''JSON schema size bound is invalid''))"

definition check_ordered_bounds :: "items \<Rightarrow> string \<Rightarrow> string \<Rightarrow> string \<Rightarrow> unit result" where
  "check_ordered_bounds d minimum_name maximum_name label =
     (case (dget d minimum_name, dget d maximum_name) of
        (Some lo, Some hi) \<Rightarrow>
          raise_unless (\<not> num_less hi lo)
            (ValidationError (''JSON schema '' @ label @ '' bounds are reversed''))
      | _ \<Rightarrow> Inr ())"

definition copy_integer_bounds ::
    "items \<Rightarrow> items \<Rightarrow> string \<Rightarrow> string \<Rightarrow> int \<Rightarrow> items result" where
  "copy_integer_bounds d n minimum_name maximum_name hard_maximum =
     bindE (copy_size d minimum_name hard_maximum n) (\<lambda>n1.
     bindE (copy_size d maximum_name hard_maximum n1) (\<lambda>n2.
     bindE (check_ordered_bounds n2 minimum_name maximum_name ''size'') (\<lambda>_. Inr n2)))"

definition normalize_sizes :: "items \<Rightarrow> items \<Rightarrow> items result" where
  "normalize_sizes d n =
     bindE (copy_integer_bounds d n ''minLength'' ''maxLength'' MAX_STRING_LENGTH) (\<lambda>n1.
     bindE (copy_integer_bounds d n1 ''minItems'' ''maxItems'' MAX_JSON_ARRAY_ITEMS) (\<lambda>n2.
     if (dhas n2 ''minLength'' \<or> dhas n2 ''maxLength'') \<and> \<not> has_type d ''string''
     then Inl (ValidationError ''JSON string bounds require a string type'')
     else if (dhas n2 ''minItems'' \<or> dhas n2 ''maxItems'') \<and> \<not> has_type d ''array''
     then Inl (ValidationError ''JSON array bounds require an array type'')
     else Inr n2))"

text \<open>
  Only \<open>re.error\<close> is turned into a \<open>ValidationError\<close>. For a pattern outside the modelled syntax the model
  has an error of its own, which the program never raises.
\<close>

definition UNMODELLED_PATTERN :: exc where
  "UNMODELLED_PATTERN = OtherError ''pattern outside the modelled syntax''"

definition normalize_pattern :: "items \<Rightarrow> items \<Rightarrow> items result" where
  "normalize_pattern d n =
     (case dget d ''pattern'' of
        None \<Rightarrow> Inr n
      | Some (PStr p) \<Rightarrow>
          if p = [] \<or> 1024 < py_len p then Inl (ValidationError ''JSON schema pattern is invalid'')
          else (case re_compile p of
              Inl Invalid \<Rightarrow> Inl (ValidationError ''JSON schema pattern is invalid'')
            | Inl Too_Large \<Rightarrow> Inl (OtherError ''OverflowError'')
            | Inl Unmodelled \<Rightarrow> Inl UNMODELLED_PATTERN
            | Inr _ \<Rightarrow>
                if \<not> has_type d ''string''
                then Inl (ValidationError ''JSON schema pattern requires a string type'')
                else Inr (n @ [(PStr ''pattern'', PStr p)]))
      | Some _ \<Rightarrow> Inl (ValidationError ''JSON schema pattern is invalid''))"

definition copy_number :: "items \<Rightarrow> string \<Rightarrow> items \<Rightarrow> items result" where
  "copy_number d name n =
     (case dget d name of
        None \<Rightarrow> Inr n
      | Some b \<Rightarrow>
          (case b of
             PInt _ \<Rightarrow> bindE (py_isfinite b) (\<lambda>_. Inr (n @ [(PStr name, b)]))
           | PFloat _ \<Rightarrow>
               bindE (py_isfinite b) (\<lambda>finite.
                 if finite then Inr (n @ [(PStr name, b)])
                 else Inl (ValidationError ''JSON schema numeric bound is invalid''))
           | _ \<Rightarrow> Inl (ValidationError ''JSON schema numeric bound is invalid'')))"

definition normalize_numeric :: "items \<Rightarrow> items \<Rightarrow> items result" where
  "normalize_numeric d n =
     bindE (copy_number d ''minimum'' n) (\<lambda>n1.
     bindE (copy_number d ''maximum'' n1) (\<lambda>n2.
     if (dhas n2 ''minimum'' \<or> dhas n2 ''maximum'') \<and> \<not> has_type d ''integer'' \<and> \<not> has_type d ''number''
     then Inl (ValidationError ''JSON numeric bounds require a numeric type'')
     else bindE (check_ordered_bounds n2 ''minimum'' ''maximum'' ''numeric'') (\<lambda>_. Inr n2)))"

definition check_constrained :: "items \<Rightarrow> pyobj result" where
  "check_constrained n =
     (if dhas n ''type'' \<or> dhas n ''const'' \<or> dhas n ''enum'' \<or> dhas n ''oneOf'' then Inr (PDict n)
      else Inl (ValidationError ''JSON schema does not constrain its value''))"

definition normalize_tail :: "items \<Rightarrow> items \<Rightarrow> pyobj result" where
  "normalize_tail d n =
     bindE (normalize_sizes d n) (\<lambda>n1.
     bindE (normalize_pattern d n1) (\<lambda>n2.
     bindE (normalize_numeric d n2) check_constrained))"

definition normalize_head :: "items \<Rightarrow> items result" where
  "normalize_head d =
     bindE (check_keywords d) (\<lambda>_.
     bindE (normalize_type d) (\<lambda>n1.
     bindE (normalize_const d n1) (normalize_enum d)))"

function normalize_schema ::
    "int \<Rightarrow> bool \<Rightarrow> bool \<Rightarrow> string list list \<Rightarrow> string list \<Rightarrow> pyobj \<Rightarrow> pyobj result" where
  "normalize_schema depth require_closed_object allow_control allowed path schema =
     (case as_mapping schema of
        None \<Rightarrow> Inl (ValidationError ''JSON schema is invalid or too deeply nested'')
      | Some d \<Rightarrow>
          if MAX_JSON_DEPTH < depth
          then Inl (ValidationError ''JSON schema is invalid or too deeply nested'')
          else
            bindE (normalize_head d) (\<lambda>n1.
            bindE (case dget d ''oneOf'' of
                     None \<Rightarrow> Inr n1
                   | Some v \<Rightarrow>
                       bindE (one_of_branches v) (\<lambda>branches.
                       bindE (mapE (\<lambda>b. normalize_schema (depth + 1) False allow_control allowed path b)
                                branches) (\<lambda>bs.
                       Inr (n1 @ [(PStr ''oneOf'', PList bs)])))) (\<lambda>n2.
            bindE (if has_type d ''object'' then
                     bindE (object_parts d) (\<lambda>(properties, required).
                     bindE (mapE (\<lambda>(k, child).
                              bindE (check_property_name allow_control allowed path k) (\<lambda>name.
                              bindE (normalize_schema (depth + 1) False allow_control allowed
                                       (path @ [name]) child) (\<lambda>c. Inr (name, c)))) properties) (\<lambda>ps.
                     bindE (normalize_required (map fst ps) required []) (\<lambda>req.
                     Inr (n2 @ object_block ps req))))
                   else if dhas d ''additionalProperties'' \<or> dhas d ''properties'' \<or> dhas d ''required''
                   then Inl (ValidationError ''JSON object keywords require an object type'')
                   else if require_closed_object
                   then Inl (ValidationError ''operation input schema must be an exact closed object'')
                   else Inr n2) (\<lambda>n3.
            bindE (case dget d ''items'' of
                     None \<Rightarrow>
                       if has_type d ''array''
                       then Inl (ValidationError ''JSON array schema requires exact item semantics'')
                       else Inr n3
                   | Some item \<Rightarrow>
                       if has_type d ''array'' then
                         bindE (normalize_schema (depth + 1) False allow_control allowed
                                  (path @ [''[]'']) item) (\<lambda>s.
                         Inr (n3 @ [(PStr ''items'', s)]))
                       else Inl (ValidationError ''JSON schema items require an array type''))
              (normalize_tail d)))))"
  by pat_completeness auto
termination
  by (relation "measure (\<lambda>(depth, _). nat (17 - depth))") auto

declare normalize_schema.simps [simp del]

subsection \<open>Validating a value against a normalised schema\<close>

fun matches_type :: "pyobj \<Rightarrow> string \<Rightarrow> bool result" where
  "matches_type value t =
     (if t = ''null'' then Inr (value = PNone)
      else if t = ''boolean'' then Inr (case value of PBool _ \<Rightarrow> True | _ \<Rightarrow> False)
      else if t = ''integer'' then Inr (case value of PInt _ \<Rightarrow> True | _ \<Rightarrow> False)
      else if t = ''number'' then
        (case value of PInt _ \<Rightarrow> py_isfinite value | PFloat _ \<Rightarrow> py_isfinite value | _ \<Rightarrow> Inr False)
      else if t = ''string'' then Inr (case value of PStr _ \<Rightarrow> True | _ \<Rightarrow> False)
      else if t = ''array'' then Inr (case value of PList _ \<Rightarrow> True | _ \<Rightarrow> False)
      else if t = ''object'' then Inr (case value of PDict _ \<Rightarrow> True | _ \<Rightarrow> False)
      else Inr False)"

definition validate_length :: "int \<Rightarrow> items \<Rightarrow> string \<Rightarrow> string \<Rightarrow> string \<Rightarrow> unit result" where
  "validate_length n schema minimum_name maximum_name label =
     (if (case dget schema minimum_name of Some (PInt m) \<Rightarrow> n < m | _ \<Rightarrow> False)
      then Inl (ValidationError (''JSON '' @ label @ '' is shorter than allowed''))
      else if (case dget schema maximum_name of Some (PInt m) \<Rightarrow> m < n | _ \<Rightarrow> False)
      then Inl (ValidationError (''JSON '' @ label @ '' exceeds its bound''))
      else Inr ())"

text \<open>The checks of \<open>const\<close>, \<open>enum\<close> and \<open>type\<close>, in that order.\<close>

definition validate_constants :: "pyobj \<Rightarrow> items \<Rightarrow> unit result" where
  "validate_constants value schema =
     (if (case dget schema ''const'' of Some c \<Rightarrow> \<not> strict_equal value c | None \<Rightarrow> False)
      then Inl (ValidationError ''JSON value does not match its constant'')
      else if (case Option.bind (dget schema ''enum'') as_sequence of
                 Some xs \<Rightarrow> \<not> list_ex (strict_equal value) xs | None \<Rightarrow> False)
      then Inl (ValidationError ''JSON value is not an allowed enum member'')
      else (case dget schema ''type'' of
              Some (PStr t) \<Rightarrow>
                bindE (matches_type value t) (\<lambda>ok.
                  raise_unless ok (ValidationError ''JSON value has the wrong type''))
            | _ \<Rightarrow> Inr ()))"

definition validate_string :: "string \<Rightarrow> items \<Rightarrow> pyobj result" where
  "validate_string text schema =
     bindE (validate_length (py_len text) schema ''minLength'' ''maxLength'' ''string'') (\<lambda>_.
       case dget schema ''pattern'' of
         Some (PStr p) \<Rightarrow>
           if re_search p text then Inr (PStr text)
           else Inl (ValidationError ''JSON string does not match its pattern'')
       | _ \<Rightarrow> Inr (PStr text))"

definition validate_number :: "pyobj \<Rightarrow> items \<Rightarrow> pyobj result" where
  "validate_number number schema =
     (if (case dget schema ''minimum'' of Some m \<Rightarrow> num_less number m | None \<Rightarrow> False)
      then Inl (ValidationError ''JSON number is below its minimum'')
      else if (case dget schema ''maximum'' of Some m \<Rightarrow> num_less m number | None \<Rightarrow> False)
      then Inl (ValidationError ''JSON number is above its maximum'')
      else Inr number)"

text \<open>
  The exact members of an object: the required ones are all there and no other than the
  declared ones is, each paired with its schema in the order of the sorted names.
\<close>

definition schema_properties :: "items \<Rightarrow> items" where
  "schema_properties schema =
     (case Option.bind (dget schema ''properties'') as_mapping of Some p \<Rightarrow> p | None \<Rightarrow> [])"

definition schema_required :: "items \<Rightarrow> pyobj list" where
  "schema_required schema =
     (case Option.bind (dget schema ''required'') as_sequence of Some r \<Rightarrow> r | None \<Rightarrow> [])"

definition pair_members :: "items \<Rightarrow> items \<Rightarrow> pyobj list \<Rightarrow> (string \<times> pyobj \<times> pyobj) list result" where
  "pair_members d properties required =
     (if list_ex (\<lambda>r. map_of d r = None) required
      then Inl (ValidationError ''JSON object is missing a required field'')
      else if list_ex (\<lambda>(k, _). map_of properties k = None) d
      then Inl (ValidationError ''JSON object contains an unknown field'')
      else Inr (map (\<lambda>(k, v). (k, v, the (dget properties k))) (sort_items (str_items d))))"

definition object_members :: "items \<Rightarrow> items \<Rightarrow> (string \<times> pyobj \<times> pyobj) list result" where
  "object_members d schema = pair_members d (schema_properties schema) (schema_required schema)"

text \<open>
  The matches among the branches of \<open>oneOf\<close>: a branch that raises \<open>ValidationError\<close> is
  skipped, any other exception escapes.
\<close>

fun collect_matches :: "('a \<Rightarrow> 'b result) \<Rightarrow> 'a list \<Rightarrow> 'b list result" where
  "collect_matches f [] = Inr []"
| "collect_matches f (b # bs) =
     (case f b of
        Inr v \<Rightarrow> bindE (collect_matches f bs) (\<lambda>vs. Inr (v # vs))
      | Inl e \<Rightarrow> if is_ValidationError e then collect_matches f bs else Inl e)"

lemma collect_matches_cong [fundef_cong]:
  "xs = ys \<Longrightarrow> (\<And>x. x \<in> set ys \<Longrightarrow> f x = g x) \<Longrightarrow> collect_matches f xs = collect_matches g ys"
proof (induction ys arbitrary: xs)
  case Nil
  then show ?case by simp
next
  case (Cons y ys)
  from Cons.prems have "f y = g y" by simp
  moreover from Cons.prems have "collect_matches f ys = collect_matches g ys"
    by (intro Cons.IH) auto
  ultimately show ?case using Cons.prems(1) by (simp split: sum.splits)
qed

definition the_one_match :: "pyobj list \<Rightarrow> pyobj result" where
  "the_one_match ms =
     (case ms of [m] \<Rightarrow> Inr m
      | _ \<Rightarrow> Inl (ValidationError ''JSON oneOf does not select exactly one variant''))"

function validate_value :: "int \<Rightarrow> pyobj \<Rightarrow> pyobj \<Rightarrow> pyobj result" where
  "validate_value depth value0 schema0 =
     (if MAX_JSON_DEPTH < depth then Inl (ValidationError ''JSON value is too deeply nested'')
      else let schema = (case as_mapping schema0 of Some d \<Rightarrow> d | None \<Rightarrow> []) in
        bindE (case Option.bind (dget schema ''oneOf'') as_sequence of
                 None \<Rightarrow> Inr value0
               | Some branches \<Rightarrow>
                   bindE (collect_matches (\<lambda>b. validate_value (depth + 1) value0 b) branches)
                     the_one_match) (\<lambda>value.
        bindE (validate_constants value schema) (\<lambda>_.
        if has_type schema ''object'' then
          (case value of
             PDict d \<Rightarrow>
               bindE (object_members d schema) (\<lambda>members.
               bindE (mapE (\<lambda>(k, v, s).
                        bindE (validate_value (depth + 1) v s) (\<lambda>w. Inr (k, w))) members) (\<lambda>kvs.
               Inr (obj kvs)))
           | _ \<Rightarrow> Inl (OtherError ''TypeError''))
        else if has_type schema ''array'' then
          (case value of
             PList xs \<Rightarrow>
               bindE (validate_length (ilen xs) schema ''minItems'' ''maxItems'' ''array'') (\<lambda>_.
               case dget schema ''items'' of
                 None \<Rightarrow> Inl (OtherError ''KeyError'')
               | Some item \<Rightarrow>
                   bindE (mapE (\<lambda>x. validate_value (depth + 1) x item) xs) (\<lambda>ys. Inr (PList ys)))
           | _ \<Rightarrow> Inl (OtherError ''TypeError''))
        else if has_type schema ''string'' then
          (case value of PStr t \<Rightarrow> validate_string t schema | _ \<Rightarrow> Inl (OtherError ''TypeError''))
        else if has_type schema ''integer'' \<or> has_type schema ''number'' then
          validate_number value schema
        else Inr value)))"
  by pat_completeness auto
termination
  by (relation "measure (\<lambda>(depth, _). nat (17 - depth))") auto

declare validate_value.simps [simp del]

text \<open>
  \<open>validate_json\<close>: the schema comes with the transport paths its tool schema retains, none
  for an ordinary mapping.
\<close>

definition validate_json :: "pyobj \<Rightarrow> pyobj \<Rightarrow> string list list \<Rightarrow> pyobj result" where
  "validate_json value schema allowed_transport_field_paths =
     bindE (normalize_schema 0 False True allowed_transport_field_paths [] schema) (\<lambda>normalized.
     bindE (canonicalize_json value) (\<lambda>v.
     validate_value 0 v normalized))"

subsection \<open>Freezing\<close>

text \<open>\<open>_freeze_json\<close> makes dictionaries read-only views and lists tuples; \<open>_thaw_json\<close> undoes it.\<close>

fun freeze_json :: "pyobj \<Rightarrow> pyobj" where
  "freeze_json (PDict d) = PProxy (map (\<lambda>(k, v). (k, freeze_json v)) d)"
| "freeze_json (PList xs) = PTuple (map freeze_json xs)"
| "freeze_json v = v"

fun thaw_json :: "pyobj \<Rightarrow> pyobj" where
  "thaw_json (PDict d) = PDict (map (\<lambda>(k, v). (k, thaw_json v)) d)"
| "thaw_json (PProxy d) = PDict (map (\<lambda>(k, v). (k, thaw_json v)) d)"
| "thaw_json (PTuple xs) = PList (map thaw_json xs)"
| "thaw_json v = v"

subsection \<open>Operation specifications\<close>

record operation_spec =
  spec_provider :: string
  spec_mode :: connector_mode
  spec_name :: string
  spec_effect :: connector_effect
  spec_endpoint :: string
  spec_required_scopes :: "string set list"
  spec_input_schema :: pyobj

text \<open>
  The constructor and \<open>__post_init__\<close>: names, the agreement of mode and effect, the scope
  alternatives, and the closed input schema, which is normalised and frozen.
\<close>

definition OperationSpec ::
    "string \<Rightarrow> connector_mode \<Rightarrow> string \<Rightarrow> connector_effect \<Rightarrow> string \<Rightarrow> string list list \<Rightarrow> pyobj
     \<Rightarrow> operation_spec result" where
  "OperationSpec p m n e ep scopes schema =
     bindE (operation_name p ''provider'') (\<lambda>_.
     bindE (operation_name n ''operation'') (\<lambda>_.
     bindE (operation_name ep ''endpoint'') (\<lambda>_.
     if m = READ \<and> e \<noteq> E_READ
     then Inl (ValidationError ''read operations must have a read effect'')
     else if m = WRITE \<and> e = E_READ
     then Inl (ValidationError ''write operations cannot have a read effect'')
     else
       bindE (validate_scope_alternatives scopes) (\<lambda>alternatives.
       bindE (normalize_schema 0 True False (operation_transport_field_paths p m n) [] schema)
         (\<lambda>normalized.
       Inr \<lparr>spec_provider = p, spec_mode = m, spec_name = n, spec_effect = e, spec_endpoint = ep,
            spec_required_scopes = alternatives,
            spec_input_schema = freeze_json normalized\<rparr>)))))"

type_synonym spec_key = "string \<times> connector_mode \<times> string"

definition spec_key :: "operation_spec \<Rightarrow> spec_key" where
  "spec_key s = (spec_provider s, spec_mode s, spec_name s)"

definition scope_grant_satisfies :: "operation_spec \<Rightarrow> string list \<Rightarrow> bool result" where
  "scope_grant_satisfies s granted_scopes =
     bindE (scope_texts granted_scopes) (\<lambda>_.
     Inr (list_ex (\<lambda>alternative. alternative \<subseteq> set granted_scopes) (spec_required_scopes s)))"

definition validate_input :: "operation_spec \<Rightarrow> pyobj \<Rightarrow> pyobj result" where
  "validate_input s value =
     bindE (canonicalize_json value) (\<lambda>v. validate_value 0 v (spec_input_schema s))"

subsection \<open>The catalogue\<close>

record operation_catalog =
  cat_operations :: "operation_spec list"
  cat_by_key :: "spec_key \<rightharpoonup> operation_spec"

fun index_operations ::
    "operation_spec list \<Rightarrow> (spec_key \<rightharpoonup> operation_spec) \<Rightarrow> (spec_key \<rightharpoonup> operation_spec) result" where
  "index_operations [] m = Inr m"
| "index_operations (s # ss) m =
     (if m (spec_key s) \<noteq> None
      then Inl (ValidationError ''operation catalog contains duplicate keys'')
      else index_operations ss (m(spec_key s \<mapsto> s)))"

definition OperationCatalog :: "operation_spec list \<Rightarrow> operation_catalog result" where
  "OperationCatalog ops =
     bindE (index_operations ops Map.empty) (\<lambda>m. Inr \<lparr>cat_operations = ops, cat_by_key = m\<rparr>)"

definition catalog_lookup ::
    "operation_catalog \<Rightarrow> string \<Rightarrow> connector_mode \<Rightarrow> string \<Rightarrow> operation_spec result" where
  "catalog_lookup c p m n =
     bindE (operation_name p ''provider'') (\<lambda>_.
     bindE (operation_name n ''operation'') (\<lambda>_.
     case cat_by_key c (p, m, n) of
       None \<Rightarrow> Inl (ValidationError ''connector operation is not in the catalog'')
     | Some s \<Rightarrow> Inr s))"

definition list_operations ::
    "operation_catalog \<Rightarrow> string option \<Rightarrow> connector_mode option \<Rightarrow> operation_spec list result" where
  "list_operations c p m =
     bindE (case p of None \<Rightarrow> Inr [] | Some x \<Rightarrow> operation_name x ''provider'') (\<lambda>_.
     Inr (filter (\<lambda>s. (p = None \<or> p = Some (spec_provider s)) \<and> (m = None \<or> m = Some (spec_mode s)))
            (cat_operations c)))"

definition catalog_providers :: "operation_catalog \<Rightarrow> string list" where
  "catalog_providers c =
     map fst (sort_items (map (\<lambda>p. (p, ())) (remdups (map spec_provider (cat_operations c)))))"

definition catalog_validate_input ::
    "operation_catalog \<Rightarrow> string \<Rightarrow> connector_mode \<Rightarrow> string \<Rightarrow> pyobj \<Rightarrow> pyobj result" where
  "catalog_validate_input c p m n value =
     bindE (catalog_lookup c p m n) (\<lambda>s. validate_input s value)"

text \<open>The closed \<open>oneOf\<close> envelope of one provider's read or write tool, with the paths it allows.\<close>

definition token_schema :: pyobj where
  "token_schema = obj
     [(''maxLength'', PInt MAX_SEALED_TOKEN_LENGTH), (''pattern'', PStr TOKEN_PATTERN),
      (''type'', PStr ''string'')]"

definition tool_variant :: "connector_mode \<Rightarrow> operation_spec \<Rightarrow> pyobj" where
  "tool_variant m s = obj
     [(''additionalProperties'', PBool False),
      (''properties'', obj
         [(''connection_id'', obj
             [(''maxLength'', PInt 36), (''pattern'', PStr CONNECTION_ID_PATTERN),
              (''type'', PStr ''string'')]),
          (''input'', thaw_json (spec_input_schema s)),
          (''operation'', obj [(''const'', PStr (spec_name s))]),
          (case m of READ \<Rightarrow> (''cursor'', token_schema)
                   | WRITE \<Rightarrow> (''confirmation_token'', token_schema))]),
      (''required'', PList [PStr ''connection_id'', PStr ''input'', PStr ''operation'']),
      (''type'', PStr ''object'')]"

definition tool_input_schema ::
    "operation_catalog \<Rightarrow> string \<Rightarrow> connector_mode \<Rightarrow> (pyobj \<times> string list list) result" where
  "tool_input_schema c p m =
     bindE (list_operations c (Some p) (Some m)) (\<lambda>ops.
     if ops = [] then Inl (ValidationError ''operation catalog has no matching operations'')
     else Inr (obj [(''oneOf'', PList (map (tool_variant m) ops))],
               concat (map (\<lambda>s. map ((#) ''input'')
                 (operation_transport_field_paths (spec_provider s) (spec_mode s) (spec_name s))) ops)))"

end
