(* ===== verification/Schema_Wf.thy ===== *)
theory Schema_Wf
  imports Contract
begin

section \<open>Which schemas are accepted\<close>

text \<open>
  A declarative reading of \<open>_normalize_schema\<close>: \<open>schema_wf\<close> says keyword by keyword, without
  accumulating a result, when a schema is well formed. \<open>normalize_schema_ok\<close> proves that the
  normalisation succeeds exactly then, and \<open>normalize_schema_Inr\<close> lists what it returns.
\<close>

subsection \<open>The conditions of each keyword\<close>

fun is_keyword :: "pyobj \<Rightarrow> bool" where
  "is_keyword (PStr k) = (k \<in> set SCHEMA_KEYWORDS)"
| "is_keyword _ = False"

fun type_wf :: "pyobj option \<Rightarrow> bool" where
  "type_wf None = True"
| "type_wf (Some (PStr t)) = (t \<in> set SCHEMA_TYPES)"
| "type_wf (Some _) = False"

fun const_wf :: "pyobj option \<Rightarrow> bool" where
  "const_wf None = True"
| "const_wf (Some c) = is_ok (canonicalize_json c)"

fun members_wf :: "pyobj list result \<Rightarrow> bool" where
  "members_wf (Inl _) = False"
| "members_wf (Inr vs) = (\<not> has_strict_duplicate vs)"

fun sequence_wf :: "int \<Rightarrow> pyobj list option \<Rightarrow> bool" where
  "sequence_wf hi None = False"
| "sequence_wf hi (Some xs) = (xs \<noteq> [] \<and> ilen xs \<le> hi)"

definition elements :: "pyobj option \<Rightarrow> pyobj list" where
  "elements v = (case Option.bind v as_sequence of Some xs \<Rightarrow> xs | None \<Rightarrow> [])"

definition enum_wf :: "pyobj option \<Rightarrow> bool" where
  "enum_wf e =
     (e = None \<or>
      (sequence_wf MAX_COLLECTION_ITEMS (Option.bind e as_sequence) \<and>
       members_wf (mapE canonicalize_json (elements e))))"

definition one_of_wf :: "pyobj option \<Rightarrow> bool" where
  "one_of_wf v = (v = None \<or> sequence_wf MAX_SCHEMA_BRANCHES (Option.bind v as_sequence))"

definition property_items :: "items \<Rightarrow> items" where
  "property_items d =
     (case Option.bind (dget d ''properties'') as_mapping of Some p \<Rightarrow> p | None \<Rightarrow> [])"

definition item_schemas :: "items \<Rightarrow> pyobj list" where
  "item_schemas d = (case dget d ''items'' of Some s \<Rightarrow> [s] | None \<Rightarrow> [])"

definition required_wf :: "pyobj list \<Rightarrow> pyobj list \<Rightarrow> bool" where
  "required_wf names rs = (distinct rs \<and> list_all (\<lambda>r. r \<in> set names) rs)"

definition closed_object_wf :: "items \<Rightarrow> bool" where
  "closed_object_wf d =
     (Option.bind (dget d ''properties'') as_mapping \<noteq> None \<and>
      Option.bind (dget d ''required'') as_sequence \<noteq> None \<and>
      ilen (property_items d) \<le> MAX_COLLECTION_ITEMS \<and>
      ilen (elements (dget d ''required'')) \<le> MAX_COLLECTION_ITEMS \<and>
      dget d ''additionalProperties'' = Some (PBool False) \<and>
      required_wf (map fst (property_items d)) (elements (dget d ''required'')))"

definition no_object_keywords :: "items \<Rightarrow> bool" where
  "no_object_keywords d =
     (\<not> dhas d ''additionalProperties'' \<and> \<not> dhas d ''properties'' \<and> \<not> dhas d ''required'')"

fun object_wf :: "bool \<Rightarrow> bool \<Rightarrow> items \<Rightarrow> bool" where
  "object_wf True required_closed d = closed_object_wf d"
| "object_wf False required_closed d = (\<not> required_closed \<and> no_object_keywords d)"

fun size_wf :: "int \<Rightarrow> pyobj option \<Rightarrow> bool" where
  "size_wf hard None = True"
| "size_wf hard (Some (PInt i)) = (0 \<le> i \<and> i \<le> hard)"
| "size_wf hard (Some _) = False"

fun ordered_wf :: "pyobj option \<Rightarrow> pyobj option \<Rightarrow> bool" where
  "ordered_wf (Some lo) (Some hi) = (\<not> num_less hi lo)"
| "ordered_wf _ _ = True"

definition sizes_wf :: "items \<Rightarrow> bool" where
  "sizes_wf d =
     (size_wf MAX_STRING_LENGTH (dget d ''minLength'') \<and>
      size_wf MAX_STRING_LENGTH (dget d ''maxLength'') \<and>
      ordered_wf (dget d ''minLength'') (dget d ''maxLength'') \<and>
      size_wf MAX_JSON_ARRAY_ITEMS (dget d ''minItems'') \<and>
      size_wf MAX_JSON_ARRAY_ITEMS (dget d ''maxItems'') \<and>
      ordered_wf (dget d ''minItems'') (dget d ''maxItems'') \<and>
      (dhas d ''minLength'' \<or> dhas d ''maxLength'' \<longrightarrow> has_type d ''string'') \<and>
      (dhas d ''minItems'' \<or> dhas d ''maxItems'' \<longrightarrow> has_type d ''array''))"

fun pattern_wf :: "bool \<Rightarrow> pyobj option \<Rightarrow> bool" where
  "pattern_wf is_string None = True"
| "pattern_wf is_string (Some (PStr p)) =
     (is_string \<and> p \<noteq> [] \<and> py_len p \<le> 1024 \<and> re_compiles p)"
| "pattern_wf is_string (Some _) = False"

fun number_wf :: "pyobj option \<Rightarrow> bool" where
  "number_wf None = True"
| "number_wf (Some (PInt i)) = (\<not> float_overflows i)"
| "number_wf (Some (PFloat (Finite q))) = True"
| "number_wf (Some _) = False"

definition numeric_wf :: "items \<Rightarrow> bool" where
  "numeric_wf d =
     (number_wf (dget d ''minimum'') \<and> number_wf (dget d ''maximum'') \<and>
      ordered_wf (dget d ''minimum'') (dget d ''maximum'') \<and>
      (dhas d ''minimum'' \<or> dhas d ''maximum'' \<longrightarrow> has_type d ''integer'' \<or> has_type d ''number''))"

definition constrained_wf :: "items \<Rightarrow> bool" where
  "constrained_wf d =
     (schema_type d \<noteq> None \<or> dhas d ''const'' \<or> dhas d ''enum'' \<or> dhas d ''oneOf'')"

definition keywords_wf :: "items \<Rightarrow> bool" where
  "keywords_wf d =
     (d \<noteq> [] \<and> list_all is_keyword (map fst d) \<and> type_wf (schema_type d) \<and>
      const_wf (dget d ''const'') \<and> enum_wf (dget d ''enum'') \<and> one_of_wf (dget d ''oneOf'') \<and>
      (dhas d ''items'' \<longleftrightarrow> has_type d ''array'') \<and> sizes_wf d \<and>
      pattern_wf (has_type d ''string'') (dget d ''pattern'') \<and> numeric_wf d \<and> constrained_wf d)"

definition property_name_wf :: "bool \<Rightarrow> string list list \<Rightarrow> string list \<Rightarrow> string \<Rightarrow> bool" where
  "property_name_wf allow_control allowed path name =
     (name \<noteq> [] \<and> \<not> has_nul name \<and>
      (path @ [name] \<in> set allowed \<or> allow_control \<and> name \<in> {''confirmation_token'', ''cursor''} \<or>
       \<not> is_transport_field name))"

subsection \<open>Well-formed schemas\<close>

fun mapping_items :: "pyobj \<Rightarrow> items" where
  "mapping_items (PDict d) = d"
| "mapping_items (PProxy d) = d"
| "mapping_items _ = []"

function schema_wf :: "int \<Rightarrow> bool \<Rightarrow> bool \<Rightarrow> string list list \<Rightarrow> string list \<Rightarrow> pyobj \<Rightarrow> bool"
  and schemas_wf :: "int \<Rightarrow> bool \<Rightarrow> string list list \<Rightarrow> string list \<Rightarrow> pyobj list \<Rightarrow> bool"
  and properties_wf :: "int \<Rightarrow> bool \<Rightarrow> string list list \<Rightarrow> string list \<Rightarrow> items \<Rightarrow> bool" where
  "schema_wf depth required_closed allow_control allowed path s =
     (if MAX_JSON_DEPTH < depth then False
      else keywords_wf (mapping_items s) \<and>
           schemas_wf (depth + 1) allow_control allowed path
             (elements (dget (mapping_items s) ''oneOf'')) \<and>
           object_wf (has_type (mapping_items s) ''object'') required_closed (mapping_items s) \<and>
           properties_wf (depth + 1) allow_control allowed path (property_items (mapping_items s)) \<and>
           schemas_wf (depth + 1) allow_control allowed (path @ [''[]''])
             (item_schemas (mapping_items s)))"
| "schemas_wf depth allow_control allowed path [] = True"
| "schemas_wf depth allow_control allowed path (s # ss) =
     (schema_wf depth False allow_control allowed path s \<and>
      schemas_wf depth allow_control allowed path ss)"
| "properties_wf depth allow_control allowed path [] = True"
| "properties_wf depth allow_control allowed path ((PStr name, s) # ps) =
     (property_name_wf allow_control allowed path name \<and>
      schema_wf depth False allow_control allowed (path @ [name]) s \<and>
      properties_wf depth allow_control allowed path ps)"
| "properties_wf depth allow_control allowed path ((PNone, s) # ps) = False"
| "properties_wf depth allow_control allowed path ((PBool b, s) # ps) = False"
| "properties_wf depth allow_control allowed path ((PInt i, s) # ps) = False"
| "properties_wf depth allow_control allowed path ((PFloat f, s) # ps) = False"
| "properties_wf depth allow_control allowed path ((PList xs, s) # ps) = False"
| "properties_wf depth allow_control allowed path ((PTuple xs, s) # ps) = False"
| "properties_wf depth allow_control allowed path ((PDict d, s) # ps) = False"
| "properties_wf depth allow_control allowed path ((PProxy d, s) # ps) = False"
| "properties_wf depth allow_control allowed path ((POther n, s) # ps) = False"
  by pat_completeness auto
termination
  by (relation "measures
        [\<lambda>x. case x of Inl (depth, _) \<Rightarrow> nat (17 - depth)
           | Inr (Inl (depth, _)) \<Rightarrow> nat (17 - depth) | Inr (Inr (depth, _)) \<Rightarrow> nat (17 - depth),
         \<lambda>x. case x of Inl _ \<Rightarrow> 0
           | Inr (Inl (_, _, _, _, ss)) \<Rightarrow> Suc (length ss)
           | Inr (Inr (_, _, _, _, ps)) \<Rightarrow> Suc (length ps)]") auto

declare schema_wf.simps [simp del]

subsection \<open>Evaluating well-formedness\<close>

text \<open>
  The conditions of a schema's own keywords do not look inside its sub-schemas, so they are
  evaluated on a copy without them.
\<close>

fun shell :: "pyobj \<Rightarrow> pyobj" where
  "shell (PDict d) = PDict (map (\<lambda>(k, v). (k, PNone)) d)"
| "shell (PProxy d) = PProxy (map (\<lambda>(k, v). (k, PNone)) d)"
| "shell (PList xs) = PList (map (\<lambda>_. PNone) xs)"
| "shell (PTuple xs) = PTuple (map (\<lambda>_. PNone) xs)"
| "shell v = v"

definition shell_if :: "bool \<Rightarrow> pyobj \<Rightarrow> pyobj" where
  "shell_if b v = (if b then shell v else v)"

lemma shell_if_code [code]: "shell_if True v = shell v" "shell_if False v = v"
  by (simp_all add: shell_if_def)

definition nested_keyword :: "pyobj \<Rightarrow> bool" where
  "nested_keyword k = (key_eq k ''properties'' \<or> key_eq k ''items'' \<or> key_eq k ''oneOf'')"

fun strip_nested :: "items \<Rightarrow> items" where
  "strip_nested [] = []"
| "strip_nested ((k, v) # d) = (k, shell_if (nested_keyword k) v) # strip_nested d"

lemma key_eq_iff: "key_eq k s \<longleftrightarrow> k = PStr s"
  by (cases k) auto

lemma dget_strip_nested:
  "dget (strip_nested d) k = map_option (shell_if (nested_keyword (PStr k))) (dget d k)"
  by (induction d) auto

lemma dget_strip_own:
  "k \<notin> {''properties'', ''items'', ''oneOf''} \<Longrightarrow> dget (strip_nested d) k = dget d k"
  by (cases "dget d k") (auto simp: dget_strip_nested nested_keyword_def shell_if_def)

lemma as_mapping_shell [simp]:
  "as_mapping (shell v) = map_option (map (\<lambda>(k, v). (k, PNone))) (as_mapping v)"
  by (cases v) auto

lemma as_sequence_shell [simp]:
  "as_sequence (shell v) = map_option (map (\<lambda>_. PNone)) (as_sequence v)"
  by (cases v) auto

lemma map_fst_strip_nested [simp]: "map fst (strip_nested d) = map fst d"
  by (induction d) auto

lemma strip_nested_Nil [simp]: "strip_nested d = [] \<longleftrightarrow> d = []"
  by (cases d) auto

lemma sequence_wf_shell [simp]: "sequence_wf hi (map_option (map (\<lambda>_. PNone)) xs) = sequence_wf hi xs"
  by (cases xs) auto

lemma bind_as_sequence_shell:
  "Option.bind (map_option shell v) as_sequence =
     map_option (map (\<lambda>_. PNone)) (Option.bind v as_sequence)"
  by (cases v) auto

lemma bind_as_mapping_shell:
  "Option.bind (map_option shell v) as_mapping =
     map_option (map (\<lambda>(k, v). (k, PNone))) (Option.bind v as_mapping)"
  by (cases v) auto

lemmas dget_strip_nested_keys =
  dget_strip_nested [of d "''properties''" for d] dget_strip_nested [of d "''items''" for d]
  dget_strip_nested [of d "''oneOf''" for d]

lemma shell_if_nested:
  "shell_if (nested_keyword (PStr ''properties'')) = shell"
  "shell_if (nested_keyword (PStr ''items'')) = shell"
  "shell_if (nested_keyword (PStr ''oneOf'')) = shell"
  by (simp_all add: nested_keyword_def shell_if_def fun_eq_iff)

lemma schema_type_strip [simp]: "schema_type (strip_nested d) = schema_type d"
  by (simp add: schema_type_def dget_strip_own)

lemma has_type_strip [simp]: "has_type (strip_nested d) t = has_type d t"
  by (simp add: has_type_def)

lemma dhas_strip [simp]: "dhas (strip_nested d) k = dhas d k"
  by (simp add: dhas_def dget_strip_nested)

lemma one_of_wf_strip [simp]:
  "one_of_wf (dget (strip_nested d) ''oneOf'') = one_of_wf (dget d ''oneOf'')"
  by (simp add: one_of_wf_def dget_strip_nested_keys shell_if_nested bind_as_sequence_shell)

lemma keywords_wf_strip: "keywords_wf (strip_nested d) = keywords_wf d"
  by (simp add: keywords_wf_def sizes_wf_def numeric_wf_def constrained_wf_def dget_strip_own)

lemma map_fst_property_items_strip:
  "map fst (property_items (strip_nested d)) = map fst (property_items d)"
proof (cases "Option.bind (dget d ''properties'') as_mapping")
  case None
  then show ?thesis
    by (simp add: property_items_def dget_strip_nested_keys shell_if_nested bind_as_mapping_shell)
next
  case (Some p)
  then show ?thesis
    by (simp add: property_items_def dget_strip_nested_keys shell_if_nested bind_as_mapping_shell
        split_def)
qed

lemma object_wf_strip: "object_wf b rc (strip_nested d) = object_wf b rc d"
proof -
  have names: "map fst (property_items (strip_nested d)) = map fst (property_items d)"
    by (rule map_fst_property_items_strip)
  then have "ilen (property_items (strip_nested d)) = ilen (property_items d)"
    by (metis ilen_map)
  with names show ?thesis
    by (cases b) (simp_all add: closed_object_wf_def no_object_keywords_def dget_strip_own
        dget_strip_nested_keys(1) shell_if_nested bind_as_mapping_shell)
qed

definition own_wf :: "items \<Rightarrow> bool \<Rightarrow> bool" where
  "own_wf d required_closed =
     (keywords_wf d \<and> object_wf (has_type d ''object'') required_closed d)"

lemma schema_wf_code [code]:
  "schema_wf depth required_closed allow_control allowed path s =
     (if MAX_JSON_DEPTH < depth then False
      else own_wf (strip_nested (mapping_items s)) required_closed \<and>
           schemas_wf (depth + 1) allow_control allowed path
             (elements (dget (mapping_items s) ''oneOf'')) \<and>
           properties_wf (depth + 1) allow_control allowed path (property_items (mapping_items s)) \<and>
           schemas_wf (depth + 1) allow_control allowed (path @ [''[]''])
             (item_schemas (mapping_items s)))"
  by (subst schema_wf.simps)
     (auto simp: own_wf_def keywords_wf_strip object_wf_strip)

end
