(* ===== verification/Normalize.thy ===== *)
theory Normalize
  imports Schema_Wf
begin

section \<open>Normalisation of schemas\<close>

text \<open>
  What \<open>_normalize_schema\<close> computes: each stage succeeds exactly when the conditions of its
  keywords hold, and appends the keywords it copied. Together, the normalisation succeeds
  exactly on the well-formed schemas, and applying it again changes nothing.
\<close>

text \<open>The part of the normalised items that copies keyword \<open>k\<close>.\<close>

definition entry :: "items \<Rightarrow> string \<Rightarrow> items" where
  "entry d k = (case dget d k of None \<Rightarrow> [] | Some v \<Rightarrow> [(PStr k, v)])"

lemma dget_entry [simp]: "dget (entry d k) k' = (if k' = k then dget d k else None)"
  by (auto simp: entry_def split: option.splits)

lemma copy_size_Inr: "copy_size d k hard n = Inr n' \<longleftrightarrow> size_wf hard (dget d k) \<and> n' = n @ entry d k"
  by (auto simp: copy_size_def entry_def split: option.splits pyobj.splits)

lemma copy_number_Inr: "copy_number d k n = Inr n' \<longleftrightarrow> number_wf (dget d k) \<and> n' = n @ entry d k"
proof (cases "dget d k")
  case None
  then show ?thesis by (auto simp: copy_number_def entry_def)
next
  case (Some b)
  show ?thesis
  proof (cases b)
    case (PFloat f)
    then show ?thesis by (cases f) (auto simp: Some copy_number_def entry_def)
  qed (auto simp: Some copy_number_def entry_def)
qed

lemma check_ordered_bounds_Inr:
  "check_ordered_bounds d lo hi label = Inr u \<longleftrightarrow> ordered_wf (dget d lo) (dget d hi)"
  by (auto simp: check_ordered_bounds_def split: option.splits)

lemma copy_integer_bounds_Inr:
  "dget n lo = None \<Longrightarrow> dget n hi = None \<Longrightarrow> lo \<noteq> hi \<Longrightarrow>
   copy_integer_bounds d n lo hi hard = Inr n' \<longleftrightarrow>
     size_wf hard (dget d lo) \<and> size_wf hard (dget d hi) \<and> ordered_wf (dget d lo) (dget d hi) \<and>
     n' = n @ entry d lo @ entry d hi"
  by (auto simp: copy_integer_bounds_def bindE_Inr_iff copy_size_Inr check_ordered_bounds_Inr
      dget_append split: option.splits)

definition size_entries :: "items \<Rightarrow> items" where
  "size_entries d = entry d ''minLength'' @ entry d ''maxLength'' @ entry d ''minItems'' @ entry d ''maxItems''"

definition unset :: "items \<Rightarrow> string list \<Rightarrow> bool" where
  "unset n ks = list_all (\<lambda>k. dget n k = None) ks"

lemma normalize_sizes_Inr:
  assumes "unset n [''minLength'', ''maxLength'', ''minItems'', ''maxItems'']"
  shows "normalize_sizes d n = Inr n' \<longleftrightarrow> sizes_wf d \<and> n' = n @ size_entries d"
proof -
  let ?n1 = "n @ entry d ''minLength'' @ entry d ''maxLength''"
  have fresh: "dget n ''minLength'' = None" "dget n ''maxLength'' = None"
    "dget n ''minItems'' = None" "dget n ''maxItems'' = None"
    using assms by (simp_all add: unset_def)
  then have fresh1: "dget ?n1 ''minItems'' = None" "dget ?n1 ''maxItems'' = None"
    by (simp_all add: dget_append)
  have has: "dhas (n @ size_entries d) k \<longleftrightarrow> dhas d k"
    if "k \<in> {''minLength'', ''maxLength'', ''minItems'', ''maxItems''}" for k
    using that fresh by (auto simp: dhas_def size_entries_def dget_append split: option.splits)
  show ?thesis
    unfolding normalize_sizes_def bindE_Inr_iff
    using copy_integer_bounds_Inr [OF fresh(1,2)] copy_integer_bounds_Inr [OF fresh1] has
    by (auto simp: sizes_wf_def size_entries_def)
qed

lemma normalize_pattern_Inr:
  "normalize_pattern d n = Inr n' \<longleftrightarrow>
     pattern_wf (has_type d ''string'') (dget d ''pattern'') \<and> n' = n @ entry d ''pattern''"
  by (auto simp: normalize_pattern_def entry_def re_compiles_def
      split: option.splits pyobj.splits sum.splits refusal.splits)

lemma normalize_numeric_Inr:
  assumes "unset n [''minimum'', ''maximum'']"
  shows "normalize_numeric d n = Inr n' \<longleftrightarrow>
    numeric_wf d \<and> n' = n @ entry d ''minimum'' @ entry d ''maximum''"
proof -
  let ?n2 = "n @ entry d ''minimum'' @ entry d ''maximum''"
  have got: "dget ?n2 ''minimum'' = dget d ''minimum''" "dget ?n2 ''maximum'' = dget d ''maximum''"
    using assms by (auto simp: unset_def dget_append split: option.splits)
  show ?thesis
    unfolding normalize_numeric_def bindE_Inr_iff copy_number_Inr
    using got by (auto simp: numeric_wf_def dhas_def check_ordered_bounds_Inr bindE_Inr_iff)
qed

definition tail_entries :: "items \<Rightarrow> items" where
  "tail_entries d =
     size_entries d @ entry d ''pattern'' @ entry d ''minimum'' @ entry d ''maximum''"

definition tail_keywords :: "string list" where
  "tail_keywords =
     [''minLength'', ''maxLength'', ''minItems'', ''maxItems'', ''pattern'', ''minimum'', ''maximum'']"

definition constrained :: "items \<Rightarrow> bool" where
  "constrained n = (dhas n ''type'' \<or> dhas n ''const'' \<or> dhas n ''enum'' \<or> dhas n ''oneOf'')"

lemma normalize_tail_Inr:
  assumes "unset n tail_keywords"
  shows "normalize_tail d n = Inr r \<longleftrightarrow>
    sizes_wf d \<and> pattern_wf (has_type d ''string'') (dget d ''pattern'') \<and> numeric_wf d \<and>
    constrained n \<and> r = PDict (n @ tail_entries d)"
proof -
  let ?n1 = "n @ size_entries d" and ?n2 = "(n @ size_entries d) @ entry d ''pattern''"
  have 1: "unset n [''minLength'', ''maxLength'', ''minItems'', ''maxItems'']"
    and 2: "unset ?n2 [''minimum'', ''maximum'']"
    using assms by (simp_all add: unset_def tail_keywords_def dget_append size_entries_def)
  have "dhas (n @ tail_entries d) k \<longleftrightarrow> dhas n k"
    if "k \<in> {''type'', ''const'', ''enum'', ''oneOf''}" for k
  proof -
    have "dget (tail_entries d) k = None"
      using that by (auto simp: tail_entries_def size_entries_def dget_append)
    then show ?thesis by (cases "dget n k") (simp_all add: dhas_def dget_append)
  qed
  then have 3: "check_constrained (n @ tail_entries d) = Inr r \<longleftrightarrow>
      constrained n \<and> r = PDict (n @ tail_entries d)"
    by (auto simp: check_constrained_def constrained_def)
  have 4: "?n2 @ entry d ''minimum'' @ entry d ''maximum'' = n @ tail_entries d"
    by (simp add: tail_entries_def)
  show ?thesis
    unfolding normalize_tail_def
    by (simp only: bindE_Inr_iff normalize_sizes_Inr [OF 1] normalize_pattern_Inr ex_simps
        conj_assoc simp_thms normalize_numeric_Inr [OF 2] 4 3 cong: conj_cong)
qed

definition type_entry :: "items \<Rightarrow> items" where
  "type_entry d = (case schema_type d of None \<Rightarrow> [] | Some t \<Rightarrow> [(PStr ''type'', t)])"

definition const_entry :: "items \<Rightarrow> items" where
  "const_entry d =
     (case dget d ''const'' of None \<Rightarrow> [] | Some c \<Rightarrow> [(PStr ''const'', projr (canonicalize_json c))])"

definition enum_entry :: "items \<Rightarrow> items" where
  "enum_entry d =
     (case dget d ''enum'' of None \<Rightarrow> []
      | Some e \<Rightarrow> [(PStr ''enum'', PList (projr (mapE canonicalize_json (elements (Some e)))))])"

lemma check_keywords_Inr:
  "check_keywords d = Inr u \<longleftrightarrow> d \<noteq> [] \<and> list_all is_keyword (map fst d)"
proof -
  have "is_keyword k \<longleftrightarrow> as_str k \<noteq> None \<and> k \<in> set (map PStr SCHEMA_KEYWORDS)" for k
    by (cases k) auto
  then show ?thesis
    by (auto simp: check_keywords_def list_ex_iff list_all_iff split_def)
qed

lemma normalize_type_Inr: "normalize_type d = Inr n \<longleftrightarrow> type_wf (schema_type d) \<and> n = type_entry d"
  by (auto simp: normalize_type_def type_entry_def split: option.splits)
     (auto elim: type_wf.elims)

lemma normalize_const_Inr:
  "normalize_const d n = Inr n' \<longleftrightarrow> const_wf (dget d ''const'') \<and> n' = n @ const_entry d"
  by (auto simp: normalize_const_def const_entry_def bindE_Inr_iff is_ok_iff split: option.splits)

lemma members_wf_iff: "members_wf r \<longleftrightarrow> (\<exists>vs. r = Inr vs \<and> \<not> has_strict_duplicate vs)"
  by (cases r) auto

lemma normalize_enum_Inr:
  "normalize_enum d n = Inr n' \<longleftrightarrow> enum_wf (dget d ''enum'') \<and> n' = n @ enum_entry d"
  by (auto simp: normalize_enum_def enum_entry_def enum_wf_def elements_def members_wf_iff
      bindE_Inr_iff split: option.splits if_splits)

lemma normalize_head_Inr:
  "normalize_head d = Inr n \<longleftrightarrow>
     d \<noteq> [] \<and> list_all is_keyword (map fst d) \<and> type_wf (schema_type d) \<and>
     const_wf (dget d ''const'') \<and> enum_wf (dget d ''enum'') \<and>
     n = type_entry d @ const_entry d @ enum_entry d"
  by (auto simp: normalize_head_def bindE_Inr_iff check_keywords_Inr normalize_type_Inr
      normalize_const_Inr normalize_enum_Inr)

lemma normalize_required_Inr:
  "normalize_required names rs acc = Inr req \<longleftrightarrow>
     (\<exists>ks. rs = map PStr ks \<and> set ks \<subseteq> set names \<and> distinct ks \<and> set ks \<inter> set acc = {} \<and> req = acc @ ks)"
proof (induction rs arbitrary: acc)
  case Nil
  then show ?case by auto
next
  case (Cons r rs)
  show ?case
  proof (cases r)
    case (PStr k)
    then show ?thesis
      by (auto simp: Cons.IH Cons_eq_map_conv split: if_splits)
  qed (auto simp: Cons_eq_map_conv)
qed

lemma normalize_required_ok:
  "is_ok (normalize_required names rs []) \<longleftrightarrow> required_wf (map PStr names) rs"
proof
  assume "is_ok (normalize_required names rs [])"
  then show "required_wf (map PStr names) rs"
    by (auto simp: is_ok_iff normalize_required_Inr required_wf_def distinct_map inj_on_def
        list_all_iff subset_iff)
next
  assume wf: "required_wf (map PStr names) rs"
  define ks where "ks = map (\<lambda>r. the (as_str r)) rs"
  have "rs = map PStr ks"
    using wf unfolding ks_def required_wf_def by (induction rs) auto
  with wf show "is_ok (normalize_required names rs [])"
    by (auto simp: is_ok_iff normalize_required_Inr required_wf_def distinct_map list_all_iff)
qed

lemma check_property_name_Inr:
  "check_property_name ac al path k = Inr name \<longleftrightarrow> k = PStr name \<and> property_name_wf ac al path name"
  by (cases k) (auto simp: check_property_name_def property_name_wf_def reject_transport_field_def
      bindE_Inr_iff)

lemma object_parts_Inr:
  "object_parts d = Inr (ps, rs) \<longleftrightarrow>
     Option.bind (dget d ''properties'') as_mapping = Some ps \<and>
     Option.bind (dget d ''required'') as_sequence = Some rs \<and>
     ilen ps \<le> MAX_COLLECTION_ITEMS \<and> ilen rs \<le> MAX_COLLECTION_ITEMS \<and>
     dget d ''additionalProperties'' = Some (PBool False)"
  by (auto simp: object_parts_def split: option.splits if_splits)

lemma one_of_branches_Inr:
  "one_of_branches v = Inr bs \<longleftrightarrow> as_sequence v = Some bs \<and> bs \<noteq> [] \<and> ilen bs \<le> MAX_SCHEMA_BRANCHES"
  by (auto simp: one_of_branches_def split: option.splits if_splits)

lemma schemas_wf_iff:
  "schemas_wf depth ac al path ss \<longleftrightarrow> list_all (schema_wf depth False ac al path) ss"
  by (induction ss) simp_all

lemma properties_wf_iff:
  "properties_wf depth ac al path ps \<longleftrightarrow>
     list_all (\<lambda>(k, s). \<exists>name. k = PStr name \<and> property_name_wf ac al path name \<and>
                 schema_wf depth False ac al (path @ [name]) s) ps"
proof (induction ps)
  case Nil
  then show ?case by simp
next
  case (Cons p ps)
  obtain k s where "p = (k, s)" by (cases p)
  with Cons show ?case by (cases k) auto
qed


lemma object_wf_parts:
  "object_wf True rc d \<longleftrightarrow>
     (\<exists>ps rs. object_parts d = Inr (ps, rs) \<and> property_items d = ps \<and>
        required_wf (map fst ps) rs)"
  by (auto simp: object_parts_Inr closed_object_wf_def property_items_def elements_def
      split: option.splits)

text \<open>The intermediate results of the stages before the tail.\<close>

definition head_entries :: "items \<Rightarrow> items" where
  "head_entries d = type_entry d @ const_entry d @ enum_entry d"

lemma unset_append: "unset (a @ b) ks \<longleftrightarrow> unset a ks \<and> unset b ks"
  by (auto simp: unset_def dget_append list_all_iff split: option.splits)

lemma unset_head: "unset (head_entries d) tail_keywords"
  by (simp add: head_entries_def unset_def tail_keywords_def type_entry_def const_entry_def
      enum_entry_def split: option.split)

lemma constrained_head:
  "constrained (head_entries d) \<longleftrightarrow> schema_type d \<noteq> None \<or> dhas d ''const'' \<or> dhas d ''enum''"
  by (auto simp: constrained_def head_entries_def type_entry_def const_entry_def enum_entry_def
      dhas_def dget_append split: option.splits)

lemma unset_blocks:
  "unset [(PStr ''oneOf'', v)] tail_keywords"
  "unset (object_block ps req) tail_keywords"
  "unset [(PStr ''items'', v)] tail_keywords"
  "unset [] tail_keywords"
  by (simp_all add: unset_def tail_keywords_def object_block_def)

lemma dhas_append: "dhas (a @ b) k \<longleftrightarrow> dhas a k \<or> dhas b k"
  by (auto simp: dhas_def dget_append split: option.splits)

lemma constrained_append: "constrained (a @ b) \<longleftrightarrow> constrained a \<or> constrained b"
  by (auto simp: constrained_def dhas_append)

lemma constrained_blocks:
  "constrained [(PStr ''oneOf'', v)]"
  "\<not> constrained (object_block ps req)"
  "\<not> constrained [(PStr ''items'', v)]"
  "\<not> constrained []"
  by (simp_all add: constrained_def dhas_def object_block_def)

lemma mapE_property_names:
  assumes "mapE (\<lambda>(k, child). bindE (check_property_name ac al path k) (\<lambda>name.
              bindE (f name child) (\<lambda>c. Inr (name, c)))) ps = Inr qs"
  shows "map fst ps = map PStr (map fst qs)"
  using assms
proof (induction ps arbitrary: qs)
  case Nil
  then show ?case by simp
next
  case (Cons p ps)
  then show ?case by (cases p) (auto simp: bindE_Inr_iff check_property_name_Inr)
qed

text \<open>The three stages that recurse, with the recursive call as an argument.\<close>

definition one_of_stage :: "(pyobj \<Rightarrow> pyobj result) \<Rightarrow> items \<Rightarrow> items \<Rightarrow> items result" where
  "one_of_stage f d n =
     (case dget d ''oneOf'' of
        None \<Rightarrow> Inr n
      | Some v \<Rightarrow>
          bindE (one_of_branches v) (\<lambda>branches.
          bindE (mapE f branches) (\<lambda>bs. Inr (n @ [(PStr ''oneOf'', PList bs)]))))"

definition object_stage ::
    "((pyobj \<times> pyobj) \<Rightarrow> (string \<times> pyobj) result) \<Rightarrow> bool \<Rightarrow> items \<Rightarrow> items \<Rightarrow> items result" where
  "object_stage g rc d n =
     (if has_type d ''object'' then
        bindE (object_parts d) (\<lambda>(properties, required).
        bindE (mapE g properties) (\<lambda>ps.
        bindE (normalize_required (map fst ps) required []) (\<lambda>req.
        Inr (n @ object_block ps req))))
      else if dhas d ''additionalProperties'' \<or> dhas d ''properties'' \<or> dhas d ''required''
      then Inl (ValidationError ''JSON object keywords require an object type'')
      else if rc
      then Inl (ValidationError ''operation input schema must be an exact closed object'')
      else Inr n)"

definition items_stage :: "(pyobj \<Rightarrow> pyobj result) \<Rightarrow> items \<Rightarrow> items \<Rightarrow> items result" where
  "items_stage h d n =
     (case dget d ''items'' of
        None \<Rightarrow>
          if has_type d ''array''
          then Inl (ValidationError ''JSON array schema requires exact item semantics'')
          else Inr n
      | Some item \<Rightarrow>
          if has_type d ''array''
          then bindE (h item) (\<lambda>s. Inr (n @ [(PStr ''items'', s)]))
          else Inl (ValidationError ''JSON schema items require an array type''))"

definition normalize_property ::
    "int \<Rightarrow> bool \<Rightarrow> string list list \<Rightarrow> string list \<Rightarrow> pyobj \<times> pyobj \<Rightarrow> (string \<times> pyobj) result" where
  "normalize_property depth ac al path = (\<lambda>(k, child).
     bindE (check_property_name ac al path k) (\<lambda>name.
     bindE (normalize_schema depth False ac al (path @ [name]) child) (\<lambda>c. Inr (name, c))))"

lemma normalize_schema_stages:
  "as_mapping s = Some d \<Longrightarrow> depth \<le> MAX_JSON_DEPTH \<Longrightarrow>
   normalize_schema depth rc ac al path s =
     bindE (normalize_head d) (\<lambda>n1.
     bindE (one_of_stage (normalize_schema (depth + 1) False ac al path) d n1) (\<lambda>n2.
     bindE (object_stage (normalize_property (depth + 1) ac al path) rc d n2) (\<lambda>n3.
     bindE (items_stage (normalize_schema (depth + 1) False ac al (path @ [''[]''])) d n3)
       (normalize_tail d))))"
  by (subst normalize_schema.simps)
     (simp add: one_of_stage_def object_stage_def items_stage_def normalize_property_def)

definition one_of_entry :: "items \<Rightarrow> pyobj list \<Rightarrow> items" where
  "one_of_entry d bs = (if dhas d ''oneOf'' then [(PStr ''oneOf'', PList bs)] else [])"

definition object_entry :: "items \<Rightarrow> (string \<times> pyobj) list \<Rightarrow> items" where
  "object_entry d ps =
     (if has_type d ''object''
      then object_block ps (map (\<lambda>r. the (as_str r)) (elements (dget d ''required''))) else [])"

definition item_entry :: "items \<Rightarrow> pyobj list \<Rightarrow> items" where
  "item_entry d ss = (if dhas d ''items'' then [(PStr ''items'', hd ss)] else [])"

lemma one_of_stage_Inr:
  "one_of_stage f d n = Inr n' \<longleftrightarrow>
     one_of_wf (dget d ''oneOf'') \<and>
     (\<exists>bs. mapE f (elements (dget d ''oneOf'')) = Inr bs \<and> n' = n @ one_of_entry d bs)"
  by (auto simp: one_of_stage_def one_of_wf_def one_of_entry_def elements_def dhas_def
      bindE_Inr_iff one_of_branches_Inr split: option.splits)

lemma items_stage_Inr:
  "items_stage h d n = Inr n' \<longleftrightarrow>
     (dhas d ''items'' \<longleftrightarrow> has_type d ''array'') \<and>
     (\<exists>ss. mapE h (item_schemas d) = Inr ss \<and> n' = n @ item_entry d ss)"
  by (auto simp: items_stage_def item_schemas_def item_entry_def dhas_def bindE_Inr_iff
      split: option.splits)

lemma object_stage_Inr:
  assumes names: "\<And>ps qs. mapE g ps = Inr qs \<Longrightarrow> map fst ps = map PStr (map fst qs)"
  shows "object_stage g rc d n = Inr n' \<longleftrightarrow>
     object_wf (has_type d ''object'') rc d \<and>
     (\<exists>ps. mapE g (property_items d) = Inr ps \<and> n' = n @ object_entry d ps)"
proof (cases "has_type d ''object''")
  case False
  have "property_items d = []" if "\<not> dhas d ''properties''"
    using that by (simp add: property_items_def dhas_def)
  with False show ?thesis
    by (auto simp: object_stage_def object_entry_def no_object_keywords_def)
next
  case True
  have req: "normalize_required (map fst qs) rs [] = Inr req \<longleftrightarrow>
      required_wf (map fst ps) rs \<and> req = map (\<lambda>r. the (as_str r)) rs"
    if "mapE g ps = Inr qs" for ps qs rs req
  proof -
    have "is_ok (normalize_required (map fst qs) rs []) \<longleftrightarrow> required_wf (map fst ps) rs"
      using names [OF that] by (simp add: normalize_required_ok)
    moreover have "req = map (\<lambda>r. the (as_str r)) rs"
      if "normalize_required (map fst qs) rs [] = Inr req" for req
      using that by (auto simp: normalize_required_Inr o_def)
    ultimately show ?thesis by (auto simp: is_ok_iff)
  qed
  show ?thesis (is "?l \<longleftrightarrow> ?r")
  proof
    assume ?l
    then obtain ps rs qs rq where "object_parts d = Inr (ps, rs)" "mapE g ps = Inr qs"
      "normalize_required (map fst qs) rs [] = Inr rq" "n' = n @ object_block qs rq"
      using True by (auto simp: object_stage_def bindE_Inr_iff)
    then show ?r
      using True req [of ps qs rs rq]
      by (auto simp: object_parts_Inr closed_object_wf_def property_items_def elements_def
          object_entry_def)
  next
    assume r: ?r
    then obtain qs where wf: "closed_object_wf d" and qs: "mapE g (property_items d) = Inr qs"
      and n': "n' = n @ object_entry d qs"
      using True by auto
    from wf obtain ps rs where parts: "object_parts d = Inr (ps, rs)" "property_items d = ps"
      "elements (dget d ''required'') = rs" "required_wf (map fst ps) rs"
      by (auto simp: object_parts_Inr closed_object_wf_def property_items_def elements_def)
    with qs n' show ?l
      using True req [of ps qs rs "map (\<lambda>r. the (as_str r)) rs"]
      by (auto simp: object_stage_def object_entry_def)
  qed
qed

definition normal_items ::
    "items \<Rightarrow> pyobj list \<Rightarrow> (string \<times> pyobj) list \<Rightarrow> pyobj list \<Rightarrow> items" where
  "normal_items d bs ps ss =
     head_entries d @ one_of_entry d bs @ object_entry d ps @ item_entry d ss @ tail_entries d"

lemma keywords_wf_stages:
  "keywords_wf d \<longleftrightarrow>
     (d \<noteq> [] \<and> list_all is_keyword (map fst d) \<and> type_wf (schema_type d) \<and>
      const_wf (dget d ''const'') \<and> enum_wf (dget d ''enum'')) \<and> one_of_wf (dget d ''oneOf'') \<and>
     (dhas d ''items'' \<longleftrightarrow> has_type d ''array'') \<and>
     sizes_wf d \<and> pattern_wf (has_type d ''string'') (dget d ''pattern'') \<and> numeric_wf d \<and>
     constrained (head_entries d @ one_of_entry d bs @ object_entry d ps @ item_entry d ss)"
  by (auto simp: keywords_wf_def constrained_wf_def constrained_append constrained_head
      one_of_entry_def object_entry_def item_entry_def constrained_blocks)

lemma unset_stages:
  "unset (head_entries d @ one_of_entry d bs @ object_entry d ps @ item_entry d ss) tail_keywords"
  by (auto simp: unset_append unset_head one_of_entry_def object_entry_def item_entry_def unset_blocks)

theorem normalize_schema_Inr:
  assumes "as_mapping s = Some d"
  shows "normalize_schema depth rc ac al path s = Inr r \<longleftrightarrow>
    depth \<le> MAX_JSON_DEPTH \<and> keywords_wf d \<and> object_wf (has_type d ''object'') rc d \<and>
    (\<exists>bs ps ss.
       mapE (normalize_schema (depth + 1) False ac al path) (elements (dget d ''oneOf'')) = Inr bs \<and>
       mapE (normalize_property (depth + 1) ac al path) (property_items d) = Inr ps \<and>
       mapE (normalize_schema (depth + 1) False ac al (path @ [''[]''])) (item_schemas d) = Inr ss \<and>
       r = PDict (normal_items d bs ps ss))"
proof (cases "depth \<le> MAX_JSON_DEPTH")
  case False
  with assms show ?thesis by (subst normalize_schema.simps) simp
next
  case True
  let ?f = "normalize_schema (depth + 1) False ac al path"
    and ?g = "normalize_property (depth + 1) ac al path"
    and ?h = "normalize_schema (depth + 1) False ac al (path @ [''[]''])"
  have names: "map fst ps = map PStr (map fst qs)" if "mapE ?g ps = Inr qs" for ps qs
    using that unfolding normalize_property_def by (rule mapE_property_names)
  have tail: "normalize_tail d (head_entries d @ one_of_entry d bs @ object_entry d ps @ item_entry d ss)
      = Inr r \<longleftrightarrow>
      sizes_wf d \<and> pattern_wf (has_type d ''string'') (dget d ''pattern'') \<and> numeric_wf d \<and>
      constrained (head_entries d @ one_of_entry d bs @ object_entry d ps @ item_entry d ss) \<and>
      r = PDict (normal_items d bs ps ss)" for bs ps ss
    using normalize_tail_Inr [OF unset_stages] by (simp add: normal_items_def)
  have chain: "normalize_schema depth rc ac al path s = Inr r \<longleftrightarrow>
     (\<exists>bs ps ss.
       (d \<noteq> [] \<and> list_all is_keyword (map fst d) \<and> type_wf (schema_type d) \<and>
        const_wf (dget d ''const'') \<and> enum_wf (dget d ''enum'')) \<and> one_of_wf (dget d ''oneOf'') \<and>
       mapE ?f (elements (dget d ''oneOf'')) = Inr bs \<and> object_wf (has_type d ''object'') rc d \<and>
       mapE ?g (property_items d) = Inr ps \<and> (dhas d ''items'' \<longleftrightarrow> has_type d ''array'') \<and>
       mapE ?h (item_schemas d) = Inr ss \<and>
       normalize_tail d (head_entries d @ one_of_entry d bs @ object_entry d ps @ item_entry d ss) = Inr r)"
    unfolding normalize_schema_stages [OF assms True]
    by (auto simp only: bindE_Inr_iff normalize_head_Inr head_entries_def one_of_stage_Inr
        object_stage_Inr [OF names] items_stage_Inr append_assoc simp_thms sum.inject ex_simps)
  show ?thesis
    unfolding chain tail
    using True keywords_wf_stages [of d] by blast
qed

lemma schema_wf_step:
  assumes "as_mapping s = Some d"
  shows "schema_wf depth rc ac al path s \<longleftrightarrow>
    depth \<le> MAX_JSON_DEPTH \<and> keywords_wf d \<and> object_wf (has_type d ''object'') rc d \<and>
    schemas_wf (depth + 1) ac al path (elements (dget d ''oneOf'')) \<and>
    properties_wf (depth + 1) ac al path (property_items d) \<and>
    schemas_wf (depth + 1) ac al (path @ [''[]'']) (item_schemas d)"
proof -
  have "mapping_items s = d" using assms by (cases s) auto
  then show ?thesis by (auto simp: schema_wf.simps [of depth rc ac al path s])
qed

lemma not_mapping:
  assumes "as_mapping s = None"
  shows "\<not> is_ok (normalize_schema depth rc ac al path s)" and "\<not> schema_wf depth rc ac al path s"
proof -
  have "mapping_items s = []" using assms by (cases s) auto
  then show "\<not> schema_wf depth rc ac al path s"
    by (simp add: schema_wf.simps [of depth rc ac al path s] keywords_wf_def)
  show "\<not> is_ok (normalize_schema depth rc ac al path s)"
    using assms by (simp add: normalize_schema.simps [of depth rc ac al path s])
qed

lemma normalize_property_ok:
  "is_ok (normalize_property depth ac al path (k, c)) \<longleftrightarrow>
     (\<exists>name. k = PStr name \<and> property_name_wf ac al path name \<and>
        is_ok (normalize_schema depth False ac al (path @ [name]) c))"
  by (auto simp: normalize_property_def is_ok_bindE check_property_name_Inr
      is_ok_iff [of "normalize_schema depth False ac al p c" for p])

lemma list_all_is_ok: "list_all (\<lambda>x. is_ok (f x)) xs \<longleftrightarrow> (\<exists>ys. mapE f xs = Inr ys)"
  using is_ok_mapE [of f xs] is_ok_iff [of "mapE f xs"] by simp

lemma normalize_schema_ok_step:
  assumes "as_mapping s = Some d"
  shows "is_ok (normalize_schema depth rc ac al path s) \<longleftrightarrow>
    depth \<le> MAX_JSON_DEPTH \<and> keywords_wf d \<and> object_wf (has_type d ''object'') rc d \<and>
    list_all (\<lambda>b. is_ok (normalize_schema (depth + 1) False ac al path b)) (elements (dget d ''oneOf'')) \<and>
    list_all (\<lambda>p. is_ok (normalize_property (depth + 1) ac al path p)) (property_items d) \<and>
    list_all (\<lambda>b. is_ok (normalize_schema (depth + 1) False ac al (path @ [''[]'']) b)) (item_schemas d)"
  unfolding list_all_is_ok is_ok_iff [of "normalize_schema depth rc ac al path s"]
    normalize_schema_Inr [OF assms]
  by blast

lemma normalize_schema_ok:
  "is_ok (normalize_schema depth rc ac al path s) = schema_wf depth rc ac al path s"
  "list_all (\<lambda>b. is_ok (normalize_schema depth False ac al path b)) ss = schemas_wf depth ac al path ss"
  "list_all (\<lambda>p. is_ok (normalize_property depth ac al path p)) ps = properties_wf depth ac al path ps"
proof (induction depth rc ac al path s and depth ac al path ss and depth ac al path ps
    rule: schema_wf_schemas_wf_properties_wf.induct)
  case (1 depth rc ac al path s)
  show ?case
  proof (cases "as_mapping s")
    case None
    then show ?thesis by (simp add: not_mapping)
  next
    case (Some d)
    then have "mapping_items s = d" by (cases s) auto
    with 1 show ?thesis
      by (auto simp: normalize_schema_ok_step [OF Some] schema_wf_step [OF Some])
  qed
qed (simp_all add: normalize_property_ok)

end
