(* ===== verification/Canonical.thy ===== *)
theory Canonical
  imports Normalize
begin

section \<open>Canonical values and normal schemas\<close>

text \<open>
  Canonicalisation and normalisation are idempotent: a stored canonical value or schema is a
  fixed point, so recomputing it (as the digest of a confirmation and the tool schemas do)
  cannot change it.
\<close>

subsection \<open>Canonical JSON\<close>

lemma clone_key_Inr: "clone_key k = Inr s \<longleftrightarrow> k = PStr s \<and> s \<noteq> [] \<and> \<not> has_nul s"
  by (cases k) (auto simp: clone_key_def)

lemma clone_string_Inr: "clone_string s = Inr v \<Longrightarrow> v = PStr s \<and> clone_string s = Inr (PStr s)"
  by (auto simp: clone_string_def split: if_splits)

definition clone_item :: "int \<Rightarrow> pyobj \<times> pyobj \<Rightarrow> (string \<times> pyobj) result" where
  "clone_item depth = (\<lambda>(k, v). bindE (clone_key k) (\<lambda>s. bindE (clone_json depth v) (\<lambda>w. Inr (s, w))))"

lemma clone_json_mapping:
  "as_mapping v = Some d \<Longrightarrow>
   clone_json depth v =
     (if MAX_JSON_DEPTH < depth then Inl (ValidationError ''JSON value is too deeply nested'')
      else if MAX_COLLECTION_ITEMS < ilen d
      then Inl (ValidationError ''JSON object exceeds its collection bound'')
      else bindE (mapE (clone_item (depth + 1)) d) (\<lambda>kvs. Inr (obj (sort_items kvs))))"
  by (subst clone_json.simps) (cases v; simp add: clone_item_def)

lemma clone_json_list:
  "clone_json depth (PList xs) =
     (if MAX_JSON_DEPTH < depth then Inl (ValidationError ''JSON value is too deeply nested'')
      else if MAX_JSON_ARRAY_ITEMS < ilen xs
      then Inl (ValidationError ''JSON array exceeds its collection bound'')
      else bindE (mapE (clone_json (depth + 1)) xs) (\<lambda>ys. Inr (PList ys)))"
  by (subst clone_json.simps) simp

lemma clone_json_scalar:
  "as_mapping v = None \<Longrightarrow> (\<forall>xs. v \<noteq> PList xs) \<Longrightarrow> clone_json depth v = Inr w \<Longrightarrow> w = v"
  by (subst (asm) clone_json.simps)
     (cases v; auto split: if_splits pyfloat.splits dest: clone_string_Inr)

lemma mapE_clone_items_fixed:
  assumes "mapE (clone_item depth) d = Inr kvs"
    and fixed: "\<And>k v w. (k, v) \<in> set d \<Longrightarrow> clone_json depth v = Inr w \<Longrightarrow> clone_json depth w = Inr w"
  shows "mapE (clone_item depth) (items (sort_items kvs)) = Inr (sort_items kvs)"
proof -
  have "clone_item depth (PStr s, w) = Inr (s, w)" if "(s, w) \<in> set kvs" for s w
  proof -
    from mapE_in_set [OF assms(1) that] obtain k v where "(k, v) \<in> set d" "clone_item depth (k, v) = Inr (s, w)"
      by auto
    then show ?thesis
      using fixed [of k v w] by (auto simp: clone_item_def bindE_Inr_iff clone_key_Inr)
  qed
  then have "mapE (clone_item depth) (map (\<lambda>(k, v). (PStr k, v)) ys) = Inr ys"
    if "set ys \<subseteq> set kvs" for ys
    using that by (induction ys) auto
  then show ?thesis by (simp add: items_def)
qed

text \<open>Induction on the nesting depth, which the recursions of the contract bound.\<close>

lemma depth_induct [case_names step]:
  assumes step: "\<And>depth x. (\<And>y. depth \<le> MAX_JSON_DEPTH \<Longrightarrow> P (depth + 1) y) \<Longrightarrow> P depth x"
  shows "P (depth :: int) x"
proof (induction "nat (17 - depth)" arbitrary: depth x rule: less_induct)
  case less
  show ?case
  proof (rule step)
    fix y
    assume "depth \<le> MAX_JSON_DEPTH"
    then have "nat (17 - (depth + 1)) < nat (17 - depth)" by simp
    then show "P (depth + 1) y" by (rule less)
  qed
qed

lemma clone_json_idem: "clone_json depth v = Inr w \<Longrightarrow> clone_json depth w = Inr w"
proof (induction depth v arbitrary: w rule: depth_induct)
  case (step depth v)
  consider d where "as_mapping v = Some d" | xs where "v = PList xs"
    | "as_mapping v = None" "\<forall>xs. v \<noteq> PList xs"
    by (cases "as_mapping v") auto
  then show ?case
  proof cases
    case (1 d)
    then obtain kvs where kvs: "mapE (clone_item (depth + 1)) d = Inr kvs" and w: "w = obj (sort_items kvs)"
      and bounds: "\<not> MAX_JSON_DEPTH < depth" "\<not> MAX_COLLECTION_ITEMS < ilen d"
      using step.prems by (auto simp: clone_json_mapping [OF 1] bindE_Inr_iff split: if_splits)
    have "ilen kvs = ilen d" using mapE_Inr_length [OF kvs] by (simp add: ilen_def)
    moreover have "mapE (clone_item (depth + 1)) (items (sort_items kvs)) = Inr (sort_items kvs)"
      by (rule mapE_clone_items_fixed [OF kvs]) (use step.IH bounds in auto)
    ultimately show ?thesis
      using bounds by (simp add: w obj_def clone_json_mapping items_def)
  next
    case (2 xs)
    then obtain ys where ys: "mapE (clone_json (depth + 1)) xs = Inr ys" and w: "w = PList ys"
      and bounds: "\<not> MAX_JSON_DEPTH < depth" "\<not> MAX_JSON_ARRAY_ITEMS < ilen xs"
      using step.prems by (auto simp: clone_json_list bindE_Inr_iff split: if_splits)
    have "ilen ys = ilen xs" using mapE_Inr_length [OF ys] by (simp add: ilen_def)
    moreover have "mapE (clone_json (depth + 1)) ys = Inr ys"
      by (rule mapE_fixed) (use mapE_in_set [OF ys] step.IH bounds in fastforce)
    ultimately show ?thesis using bounds by (simp add: w clone_json_list)
  next
    case 3
    with step.prems show ?thesis by (metis clone_json_scalar)
  qed
qed

lemma canonicalize_json_idem: "canonicalize_json v = Inr w \<Longrightarrow> canonicalize_json w = Inr w"
  unfolding canonicalize_json_def by (rule clone_json_idem)

text \<open>Insertion order does not matter.\<close>

lemma mapE_Inr_map: "mapE f xs = Inr ys \<Longrightarrow> ys = map (\<lambda>x. projr (f x)) xs"
  by (induction xs arbitrary: ys) (auto simp: bindE_Inr_iff)

lemma mapE_perm:
  assumes "mapE f xs = Inr ys" and "mset xs' = mset xs"
  shows "\<exists>ys'. mapE f xs' = Inr ys' \<and> mset ys' = mset ys"
proof -
  have "\<exists>y. f x = Inr y" if "x \<in> set xs'" for x
    using mapE_in_set_arg [OF assms(1)] that mset_eq_setD [OF assms(2)] by blast
  then have "mapE f xs' = Inr (map (\<lambda>x. projr (f x)) xs')"
    by (intro mapE_map_Inr) fastforce
  then show ?thesis using assms mapE_Inr_map [OF assms(1)] by (metis mset_map)
qed

lemma sort_items_perm:
  "mset xs = mset ys \<Longrightarrow> distinct (map fst xs) \<Longrightarrow> sort_items xs = sort_items ys"
  unfolding sort_items_sort_key
  by (rule sort_key_inj_key_eq) (auto simp: distinct_map)

lemma clone_json_order:
  assumes "clone_json depth (PDict d) = Inr w" and "mset d' = mset d" and "distinct (map fst d)"
  shows "clone_json depth (PDict d') = Inr w"
proof -
  obtain kvs where kvs: "mapE (clone_item (depth + 1)) d = Inr kvs" and w: "w = obj (sort_items kvs)"
    and bounds: "\<not> MAX_JSON_DEPTH < depth" "\<not> MAX_COLLECTION_ITEMS < ilen d"
    using assms(1) by (auto simp: clone_json_mapping bindE_Inr_iff split: if_splits)
  from mapE_perm [OF kvs assms(2)] obtain kvs' where
    kvs': "mapE (clone_item (depth + 1)) d' = Inr kvs'" "mset kvs' = mset kvs" by blast
  have "map fst d = map PStr (map fst kvs)"
    using kvs by (induction d arbitrary: kvs) (auto simp: clone_item_def bindE_Inr_iff clone_key_Inr)
  with assms(3) have "distinct (map fst kvs)" by (metis distinct_map)
  then have "sort_items kvs' = sort_items kvs"
    using kvs'(2) by (metis sort_items_perm mset_map mset_eq_imp_distinct_iff)
  moreover have "ilen d' = ilen d" using assms(2) by (metis ilen_def size_mset)
  ultimately show ?thesis using bounds kvs'(1) by (simp add: clone_json_mapping w)
qed

subsection \<open>Normal schemas\<close>

lemma dget_stage_entries:
  "dget (type_entry d) k = (if k = ''type'' then schema_type d else None)"
  "dget (const_entry d) k =
     (if k = ''const'' then map_option (\<lambda>c. projr (canonicalize_json c)) (dget d ''const'') else None)"
  "dget (enum_entry d) k =
     (if k = ''enum''
      then map_option (\<lambda>e. PList (projr (mapE canonicalize_json (elements (Some e))))) (dget d ''enum'')
      else None)"
  "dget (one_of_entry d bs) k = (if k = ''oneOf'' \<and> dhas d ''oneOf'' then Some (PList bs) else None)"
  "dget (object_entry d ps) k =
     (if has_type d ''object'' then
        (if k = ''additionalProperties'' then Some (PBool False)
         else if k = ''properties'' then Some (obj (sort_items ps))
         else if k = ''required''
         then Some (PList (map PStr (map (\<lambda>r. the (as_str r)) (elements (dget d ''required'')))))
         else None)
      else None)"
  "dget (item_entry d ss) k = (if k = ''items'' \<and> dhas d ''items'' then Some (hd ss) else None)"
  "dget (tail_entries d) k = (if k \<in> set tail_keywords then dget d k else None)"
  by (simp_all add: type_entry_def const_entry_def enum_entry_def one_of_entry_def object_entry_def
      item_entry_def object_block_def tail_entries_def size_entries_def tail_keywords_def dget_append
      split: option.split)

lemma case_option_same: "(case x of None \<Rightarrow> None | Some v \<Rightarrow> Some v) = x"
  by (cases x) simp_all

lemmas dget_normal = normal_items_def head_entries_def dget_append dget_stage_entries
  tail_keywords_def case_option_same

lemma normal_items_keywords:
  "schema_type (normal_items d bs ps ss) = schema_type d"
  "dget (normal_items d bs ps ss) ''const'' =
     map_option (\<lambda>c. projr (canonicalize_json c)) (dget d ''const'')"
  "dget (normal_items d bs ps ss) ''enum'' =
     map_option (\<lambda>e. PList (projr (mapE canonicalize_json (elements (Some e))))) (dget d ''enum'')"
  "dget (normal_items d bs ps ss) ''oneOf'' = (if dhas d ''oneOf'' then Some (PList bs) else None)"
  "dget (normal_items d bs ps ss) ''properties'' =
     (if has_type d ''object'' then Some (obj (sort_items ps)) else None)"
  "dget (normal_items d bs ps ss) ''additionalProperties'' =
     (if has_type d ''object'' then Some (PBool False) else None)"
  "dget (normal_items d bs ps ss) ''required'' =
     (if has_type d ''object''
      then Some (PList (map PStr (map (\<lambda>r. the (as_str r)) (elements (dget d ''required'')))))
      else None)"
  "dget (normal_items d bs ps ss) ''items'' = (if dhas d ''items'' then Some (hd ss) else None)"
  "k \<in> set tail_keywords \<Longrightarrow> dget (normal_items d bs ps ss) k = dget d k"
proof -
  have "schema_type d \<noteq> Some PNone" by (simp add: schema_type_def split: option.split pyobj.split)
  moreover have "dget (normal_items d bs ps ss) ''type'' = schema_type d"
    by (cases "schema_type d") (simp_all add: dget_normal)
  ultimately show "schema_type (normal_items d bs ps ss) = schema_type d"
    unfolding schema_type_def [of "normal_items d bs ps ss"]
    by (cases "schema_type d") (auto split: pyobj.split)
  show "dget (normal_items d bs ps ss) k = dget d k" if "k \<in> set tail_keywords"
  proof -
    have "dget (head_entries d @ one_of_entry d bs @ object_entry d ps @ item_entry d ss) k = None"
      using unset_stages [of d bs ps ss] that by (simp add: unset_def list_all_iff)
    then have "dget ((head_entries d @ one_of_entry d bs @ object_entry d ps @ item_entry d ss)
        @ tail_entries d) k = dget d k"
      using that by (simp only: dget_append [of _ "tail_entries d"] dget_stage_entries if_True option.case)
    then show ?thesis by (simp add: normal_items_def)
  qed
qed (simp_all add: dget_normal split: option.split)

lemma normal_items_has_type [simp]: "has_type (normal_items d bs ps ss) t = has_type d t"
  by (simp add: has_type_def normal_items_keywords)

lemma normal_items_dhas [simp]:
  "k \<in> {''const'', ''enum'', ''oneOf'', ''items''} \<Longrightarrow> dhas (normal_items d bs ps ss) k = dhas d k"
  "k \<in> set tail_keywords \<Longrightarrow> dhas (normal_items d bs ps ss) k = dhas d k"
  by (auto simp: dhas_def normal_items_keywords split: if_splits)

lemma normal_const:
  "const_wf (dget d ''const'') \<Longrightarrow> const_wf (dget (normal_items d bs ps ss) ''const'')"
  "const_wf (dget d ''const'') \<Longrightarrow> const_entry (normal_items d bs ps ss) = const_entry d"
  by (cases "dget d ''const''";
      auto simp: normal_items_keywords const_entry_def is_ok_iff canonicalize_json_idem)+

lemma normal_enum_values:
  assumes "enum_wf (Some e)"
  obtains vs where "mapE canonicalize_json (elements (Some e)) = Inr vs"
    "mapE canonicalize_json vs = Inr vs" "enum_wf (Some (PList vs))"
proof -
  from assms obtain vs where vs: "mapE canonicalize_json (elements (Some e)) = Inr vs"
    "\<not> has_strict_duplicate vs"
    by (auto simp: enum_wf_def members_wf_iff)
  have "mapE canonicalize_json vs = Inr vs"
    by (rule mapE_fixed) (use mapE_in_set [OF vs(1)] canonicalize_json_idem in blast)
  moreover have "length vs = length (elements (Some e))"
    using mapE_Inr_length [OF vs(1)] .
  then have "vs \<noteq> [] \<and> ilen vs \<le> MAX_COLLECTION_ITEMS"
    using assms by (cases "as_sequence e") (auto simp: enum_wf_def elements_def ilen_def)
  ultimately have "enum_wf (Some (PList vs))"
    using vs(2) by (simp add: enum_wf_def elements_def)
  with vs(1) \<open>mapE canonicalize_json vs = Inr vs\<close> show thesis by (rule that)
qed

lemma normal_enum:
  assumes "enum_wf (dget d ''enum'')"
  shows "enum_wf (dget (normal_items d bs ps ss) ''enum'')"
    and "enum_entry (normal_items d bs ps ss) = enum_entry d"
proof -
  have "enum_wf (dget (normal_items d bs ps ss) ''enum'') \<and>
      enum_entry (normal_items d bs ps ss) = enum_entry d"
  proof (cases "dget d ''enum''")
    case None
    then show ?thesis by (simp add: normal_items_keywords enum_entry_def enum_wf_def)
  next
    case (Some e)
    with assms obtain vs where "mapE canonicalize_json (elements (Some e)) = Inr vs"
      "mapE canonicalize_json vs = Inr vs" "enum_wf (Some (PList vs))"
      by (metis normal_enum_values)
    with Some show ?thesis
      by (simp add: normal_items_keywords enum_entry_def elements_def)
  qed
  then show "enum_wf (dget (normal_items d bs ps ss) ''enum'')"
    and "enum_entry (normal_items d bs ps ss) = enum_entry d" by simp_all
qed

lemma keyword_entries:
  "list_all is_keyword (map fst (entry d k)) \<longleftrightarrow> dget d k = None \<or> k \<in> set SCHEMA_KEYWORDS"
  "list_all is_keyword (map fst (type_entry d))"
  "list_all is_keyword (map fst (const_entry d))"
  "list_all is_keyword (map fst (enum_entry d))"
  "list_all is_keyword (map fst (one_of_entry d bs))"
  "list_all is_keyword (map fst (object_entry d ps))"
  "list_all is_keyword (map fst (item_entry d ss))"
  by (simp_all add: entry_def type_entry_def const_entry_def enum_entry_def one_of_entry_def
      object_entry_def object_block_def item_entry_def SCHEMA_KEYWORDS_def split: option.split)

lemma normal_items_only_keywords: "list_all is_keyword (map fst (normal_items d bs ps ss))"
  by (simp add: normal_items_def head_entries_def tail_entries_def size_entries_def keyword_entries)
     (simp add: SCHEMA_KEYWORDS_def)

lemma normal_keywords_wf:
  assumes "keywords_wf d" and "length bs = length (elements (dget d ''oneOf''))"
  shows "keywords_wf (normal_items d bs ps ss)" (is "keywords_wf ?n")
proof -
  have own: "constrained_wf ?n = constrained_wf d" "sizes_wf ?n = sizes_wf d" "numeric_wf ?n = numeric_wf d"
    "dget ?n ''pattern'' = dget d ''pattern''"
    by (simp_all add: constrained_wf_def sizes_wf_def numeric_wf_def normal_items_keywords
        tail_keywords_def)
  have "?n \<noteq> []"
  proof
    assume "?n = []"
    then have "\<not> constrained_wf ?n" by (simp add: constrained_wf_def schema_type_def dhas_def)
    with own(1) assms show False by (simp add: keywords_wf_def)
  qed
  moreover have "one_of_wf (dget ?n ''oneOf'')"
  proof (cases "dget d ''oneOf''")
    case (Some v)
    with assms obtain xs where "as_sequence v = Some xs" "xs \<noteq> []" "ilen xs \<le> 64"
      by (cases "as_sequence v") (auto simp: keywords_wf_def one_of_wf_def)
    with Some assms(2) show ?thesis
      by (auto simp: normal_items_keywords one_of_wf_def dhas_def elements_def ilen_def)
  qed (simp add: normal_items_keywords one_of_wf_def dhas_def)
  ultimately show ?thesis
    using assms(1) normal_items_only_keywords [of d bs ps ss]
    by (simp add: keywords_wf_def own normal_const(1) normal_enum(1) normal_items_keywords(1))
qed

text \<open>What normalising the normal form sees of its nested schemas.\<close>

lemma normal_nested:
  assumes "keywords_wf d" and "object_wf (has_type d ''object'') rc d"
    and "length bs = length (elements (dget d ''oneOf''))" and "length ss = length (item_schemas d)"
  shows "elements (dget (normal_items d bs ps ss) ''oneOf'') = bs"
    and "property_items (normal_items d bs ps ss) =
      (if has_type d ''object'' then items (sort_items ps) else [])"
    and "item_schemas (normal_items d bs ps ss) = ss"
proof -
  show "elements (dget (normal_items d bs ps ss) ''oneOf'') = bs"
    using assms(3) by (cases "dget d ''oneOf''") (simp_all add: normal_items_keywords elements_def dhas_def)
  show "property_items (normal_items d bs ps ss) =
      (if has_type d ''object'' then items (sort_items ps) else [])"
    by (simp add: property_items_def normal_items_keywords obj_def)
  show "item_schemas (normal_items d bs ps ss) = ss"
    using assms(4) by (cases "dget d ''items''"; cases ss)
      (simp_all add: item_schemas_def normal_items_keywords dhas_def)
qed

lemma normal_required:
  assumes "required_wf (map PStr names) rs"
  shows "map PStr (map (\<lambda>r. the (as_str r)) rs) = rs"
  using assms unfolding required_wf_def by (induction rs) auto

lemma normal_object_wf:
  assumes wf: "object_wf (has_type d ''object'') rc d"
    and names: "map fst (property_items d) = map PStr (map fst ps)"
  shows "object_wf (has_type d ''object'') rc (normal_items d bs ps ss)"
proof (cases "has_type d ''object''")
  case False
  with wf show ?thesis
    by (simp add: no_object_keywords_def dhas_def normal_items_keywords)
next
  case True
  let ?n = "normal_items d bs ps ss"
  have closed: "closed_object_wf d" using wf True by simp
  then have req: "required_wf (map PStr (map fst ps)) (elements (dget d ''required''))"
    by (simp add: closed_object_wf_def names)
  have "ilen ps = ilen (property_items d)"
    using arg_cong [OF names, of length] by (simp add: ilen_def)
  moreover have "required_wf (map fst (items (sort_items ps))) (elements (dget d ''required''))"
    using req unfolding required_wf_def by (simp add: items_def list_all_iff image_image split_def)
  moreover have "property_items ?n = items (sort_items ps)"
    using True by (simp add: property_items_def normal_items_keywords obj_def)
  moreover have "elements (dget ?n ''required'') = elements (dget d ''required'')"
    using True normal_required [OF req] by (simp add: normal_items_keywords elements_def)
  ultimately show ?thesis
    using closed True
    by (simp add: closed_object_wf_def normal_items_keywords obj_def items_def)
qed

lemma normal_items_fixed:
  assumes "keywords_wf d" and wf: "object_wf (has_type d ''object'') rc d"
    and names: "map fst (property_items d) = map PStr (map fst ps)"
  shows "normal_items (normal_items d bs ps ss) bs (if has_type d ''object'' then sort_items ps else []) ss
    = normal_items d bs ps ss"
proof -
  let ?n = "normal_items d bs ps ss"
  have "head_entries ?n = head_entries d"
    using assms(1) by (simp add: head_entries_def type_entry_def normal_items_keywords(1)
        normal_const(2) normal_enum(2) keywords_wf_def)
  moreover have "one_of_entry ?n bs = one_of_entry d bs" "item_entry ?n ss = item_entry d ss"
    by (simp_all add: one_of_entry_def item_entry_def)
  moreover have "tail_entries ?n = tail_entries d"
    by (simp add: tail_entries_def size_entries_def entry_def normal_items_keywords(9) tail_keywords_def)
  moreover have "object_entry ?n (if has_type d ''object'' then sort_items ps else []) = object_entry d ps"
  proof (cases "has_type d ''object''")
    case True
    then have "required_wf (map PStr (map fst ps)) (elements (dget d ''required''))"
      using wf by (simp add: closed_object_wf_def names)
    with True show ?thesis
      by (simp add: object_entry_def normal_items_keywords elements_def object_block_def
          normal_required o_def)
  qed (simp add: object_entry_def)
  ultimately show ?thesis
    unfolding normal_items_def [of "normal_items d bs ps ss"] by (simp add: normal_items_def [of d])
qed

lemma normalize_property_Inr:
  "normalize_property depth ac al path (k, c) = Inr (name, c') \<longleftrightarrow>
     k = PStr name \<and> property_name_wf ac al path name \<and>
     normalize_schema depth False ac al (path @ [name]) c = Inr c'"
  by (auto simp: normalize_property_def bindE_Inr_iff check_property_name_Inr)

lemma normalize_schema_idem_aux:
  "case x of (rc, path, s) \<Rightarrow>
     \<forall>r. normalize_schema depth rc ac al path s = Inr r \<longrightarrow> normalize_schema depth rc ac al path r = Inr r"
proof (induction depth x rule: depth_induct)
  case (step depth x)
  obtain rc path s where x: "x = (rc, path, s)" by (cases x)
  have "normalize_schema depth rc ac al path r = Inr r"
    if r: "normalize_schema depth rc ac al path s = Inr r" for r
  proof -
    from r obtain d where d: "as_mapping s = Some d"
      using not_mapping(1) [of s depth rc ac al path] by (cases "as_mapping s") auto
    let ?f = "normalize_schema (depth + 1) False ac al path"
      and ?g = "normalize_property (depth + 1) ac al path"
      and ?h = "normalize_schema (depth + 1) False ac al (path @ [''[]''])"
    from r d obtain bs ps ss where depth: "depth \<le> MAX_JSON_DEPTH"
      and wf: "keywords_wf d" "object_wf (has_type d ''object'') rc d"
      and bs: "mapE ?f (elements (dget d ''oneOf'')) = Inr bs"
      and ps: "mapE ?g (property_items d) = Inr ps"
      and ss: "mapE ?h (item_schemas d) = Inr ss"
      and rn: "r = PDict (normal_items d bs ps ss)"
      by (auto simp: normalize_schema_Inr)
    have IH: "normalize_schema (depth + 1) False ac al path' t' = Inr t'"
      if "normalize_schema (depth + 1) False ac al path' t = Inr t'" for path' t t'
      using step.IH [OF depth, of "(False, path', t)"] that by simp
    have names: "map fst (property_items d) = map PStr (map fst ps)"
      using ps unfolding normalize_property_def by (rule mapE_property_names)
    have len: "length bs = length (elements (dget d ''oneOf''))" "length ss = length (item_schemas d)"
      using mapE_Inr_length [OF bs] mapE_Inr_length [OF ss] by simp_all
    have bs': "mapE ?f bs = Inr bs"
      by (rule mapE_fixed) (use mapE_in_set [OF bs] IH in blast)
    have ss': "mapE ?h ss = Inr ss"
      by (rule mapE_fixed) (use mapE_in_set [OF ss] IH in blast)
    have "?g (PStr n, c) = Inr (n, c)" if nc: "(n, c) \<in> set ps" for n c
    proof -
      from mapE_in_set [OF ps nc] obtain k t where "?g (k, t) = Inr (n, c)" by auto
      then show ?thesis using IH by (auto simp: normalize_property_Inr)
    qed
    then have "mapE ?g (items qs) = Inr qs" if "set qs \<subseteq> set ps" for qs
      using that by (induction qs) auto
    then have ps': "mapE ?g (if has_type d ''object'' then items (sort_items ps) else [])
        = Inr (if has_type d ''object'' then sort_items ps else [])" by simp
    show ?thesis
      unfolding rn normalize_schema_Inr [of "PDict (normal_items d bs ps ss)", OF as_mapping.simps(1)]
      using depth normal_keywords_wf [OF wf(1) len(1), of ps ss] normal_object_wf [OF wf(2) names, of bs ss]
        normal_nested [OF wf len, of ps] bs' ps' ss' normal_items_fixed [OF wf names, of bs ss]
      by (auto intro!: exI)
  qed
  then show ?case by (simp add: x)
qed

lemma normalize_schema_idem:
  "normalize_schema depth rc ac al path s = Inr r \<Longrightarrow> normalize_schema depth rc ac al path r = Inr r"
  using normalize_schema_idem_aux [where x = "(rc, path, s)"] by simp

end
