(* ===== verification/Validate.thy ===== *)
theory Validate
  imports Canonical
begin

section \<open>Validating inputs\<close>

text \<open>
  What \<open>OperationSpec.validate_input\<close> returns: an accepted input comes back unchanged but for its
  canonical form. What it accepts is the subject of \<open>Conform\<close>.
\<close>

subsection \<open>Accepted values come back unchanged\<close>

definition canonical :: "pyobj \<Rightarrow> bool" where
  "canonical v = (\<exists>depth. clone_json depth v = Inr v)"

lemma canonical_dict:
  assumes "canonical (PDict d)"
  obtains kvs where "d = items kvs" "sort_items kvs = kvs" "\<And>k v. (k, v) \<in> set kvs \<Longrightarrow> canonical v"
proof -
  from assms obtain depth kvs where kvs: "mapE (clone_item (depth + 1)) d = Inr kvs"
    and d: "d = items (sort_items kvs)"
    by (auto simp: canonical_def clone_json_mapping bindE_Inr_iff obj_def split: if_splits)
  have "canonical v" if "(k, v) \<in> set (sort_items kvs)" for k v
  proof -
    from that mapE_in_set [OF kvs] obtain k' v' where "clone_item (depth + 1) (k', v') = Inr (k, v)"
      by (metis set_sort_items surj_pair)
    then have "clone_json (depth + 1) v' = Inr v" by (auto simp: clone_item_def bindE_Inr_iff)
    then show ?thesis unfolding canonical_def by (blast dest: clone_json_idem)
  qed
  then show thesis using that [of "sort_items kvs"] d by simp
qed

lemma canonical_list:
  assumes "canonical (PList xs)" and "x \<in> set xs"
  shows "canonical x"
proof -
  from assms(1) obtain depth where "mapE (clone_json (depth + 1)) xs = Inr xs"
    by (auto simp: canonical_def clone_json_list bindE_Inr_iff split: if_splits)
  from mapE_in_set [OF this assms(2)] show ?thesis
    unfolding canonical_def by (blast dest: clone_json_idem)
qed

lemma canonicalize_canonical: "canonicalize_json v = Inr w \<Longrightarrow> canonical w"
  unfolding canonical_def canonicalize_json_def by (blast dest: clone_json_idem)

lemma collect_matches_in:
  "collect_matches f bs = Inr ms \<Longrightarrow> m \<in> set ms \<Longrightarrow> \<exists>b \<in> set bs. f b = Inr m"
  by (induction bs arbitrary: ms)
     (auto simp: bindE_Inr_iff split: sum.splits if_splits)

lemma the_one_match_Inr: "the_one_match ms = Inr m \<longleftrightarrow> ms = [m]"
  by (auto simp: the_one_match_def split: list.splits)

lemma pair_members_Inr:
  "pair_members d properties required = Inr ms \<longleftrightarrow>
     list_all (\<lambda>r. map_of d r \<noteq> None) required \<and> list_all (\<lambda>(k, _). map_of properties k \<noteq> None) d \<and>
     ms = map (\<lambda>(k, v). (k, v, the (dget properties k))) (sort_items (str_items d))"
  by (auto simp: pair_members_def list_ex_iff list_all_iff split_def)

lemma mapE_members_same:
  assumes "mapE (\<lambda>(k, v, s). bindE (f v s) (\<lambda>w. Inr (k, w))) (map (\<lambda>(k, v). (k, v, g k)) kvs) = Inr ws"
    and "\<And>k v w s. (k, v) \<in> set kvs \<Longrightarrow> f v s = Inr w \<Longrightarrow> w = v"
  shows "ws = kvs"
  using assms
proof (induction kvs arbitrary: ws)
  case Nil
  then show ?case by simp
next
  case (Cons p kvs)
  obtain k v where p: "p = (k, v)" by (cases p)
  from Cons.prems(1) obtain w ws' where "f v (g k) = Inr w" "ws = (k, w) # ws'"
    "mapE (\<lambda>(k, v, s). bindE (f v s) (\<lambda>w. Inr (k, w))) (map (\<lambda>(k, v). (k, v, g k)) kvs) = Inr ws'"
    by (auto simp: p bindE_Inr_iff)
  moreover from this have "ws' = kvs" using Cons.IH Cons.prems(2) by auto
  ultimately show ?case using Cons.prems(2) [of k v] by (auto simp: p)
qed

text \<open>The branch after \<open>oneOf\<close>, with the recursive call as an argument.\<close>

definition validate_typed :: "(pyobj \<Rightarrow> pyobj \<Rightarrow> pyobj result) \<Rightarrow> pyobj \<Rightarrow> items \<Rightarrow> pyobj result" where
  "validate_typed f v schema =
     (if has_type schema ''object'' then
        (case v of
           PDict d \<Rightarrow>
             bindE (object_members d schema) (\<lambda>members.
             bindE (mapE (\<lambda>(k, v, s). bindE (f v s) (\<lambda>w. Inr (k, w))) members) (\<lambda>kvs. Inr (obj kvs)))
         | _ \<Rightarrow> Inl (OtherError ''TypeError''))
      else if has_type schema ''array'' then
        (case v of
           PList xs \<Rightarrow>
             bindE (validate_length (ilen xs) schema ''minItems'' ''maxItems'' ''array'') (\<lambda>_.
             case dget schema ''items'' of
               None \<Rightarrow> Inl (OtherError ''KeyError'')
             | Some item \<Rightarrow> bindE (mapE (\<lambda>x. f x item) xs) (\<lambda>ys. Inr (PList ys)))
         | _ \<Rightarrow> Inl (OtherError ''TypeError''))
      else if has_type schema ''string'' then
        (case v of PStr t \<Rightarrow> validate_string t schema | _ \<Rightarrow> Inl (OtherError ''TypeError''))
      else if has_type schema ''integer'' \<or> has_type schema ''number'' then validate_number v schema
      else Inr v)"

lemma validate_value_step:
  "validate_value depth v0 s =
     (if MAX_JSON_DEPTH < depth then Inl (ValidationError ''JSON value is too deeply nested'')
      else
        bindE (case Option.bind (dget (mapping_items s) ''oneOf'') as_sequence of
                 None \<Rightarrow> Inr v0
               | Some bs \<Rightarrow> bindE (collect_matches (validate_value (depth + 1) v0) bs) the_one_match) (\<lambda>v.
        bindE (validate_constants v (mapping_items s)) (\<lambda>_.
        validate_typed (validate_value (depth + 1)) v (mapping_items s))))"
proof -
  have "(case as_mapping s of Some d \<Rightarrow> d | None \<Rightarrow> []) = mapping_items s"
    by (cases s) simp_all
  then show ?thesis
    by (subst validate_value.simps) (simp add: validate_typed_def Let_def)
qed

lemma validate_typed_same:
  assumes same: "\<And>v s w. canonical v \<Longrightarrow> f v s = Inr w \<Longrightarrow> w = v"
    and "canonical v" and "validate_typed f v schema = Inr w"
  shows "w = v"
proof (cases v)
  case (PDict d)
  then obtain kvs where d: "d = items kvs" "sort_items kvs = kvs"
    and sub: "\<And>k v. (k, v) \<in> set kvs \<Longrightarrow> canonical v"
    using assms(2) by (metis canonical_dict)
  show ?thesis
  proof (cases "has_type schema ''object''")
    case True
    then obtain ws where ws: "mapE (\<lambda>(k, v, s). bindE (f v s) (\<lambda>w. Inr (k, w)))
          (map (\<lambda>(k, v). (k, v, the (dget (schema_properties schema) k))) kvs) = Inr ws" "w = obj ws"
      using assms(3) by (auto simp: PDict validate_typed_def object_members_def pair_members_Inr
          bindE_Inr_iff d)
    then have "ws = kvs" using sub same by (intro mapE_members_same [OF ws(1)]) blast
    with ws show ?thesis by (simp add: PDict d obj_def)
  next
    case False
    with assms(3) show ?thesis
      by (auto simp: PDict validate_typed_def validate_number_def split: if_splits)
  qed
next
  case (PList xs)
  show ?thesis
  proof (cases "has_type schema ''array'' \<and> \<not> has_type schema ''object''")
    case True
    then obtain item ys where "mapE (\<lambda>x. f x item) xs = Inr ys" "w = PList ys"
      using assms(3) by (auto simp: PList validate_typed_def bindE_Inr_iff split: option.splits)
    then show ?thesis
      using mapE_Inr_id [of "\<lambda>x. f x item" xs ys] canonical_list assms(2) same PList by blast
  next
    case False
    with assms(3) show ?thesis
      by (auto simp: PList validate_typed_def validate_number_def split: if_splits)
  qed
qed (use assms(3) in \<open>auto simp: validate_typed_def validate_number_def validate_string_def
       bindE_Inr_iff split: if_splits option.splits pyobj.splits\<close>)

lemma validate_value_same_aux:
  "case x of (v, s) \<Rightarrow> \<forall>w. canonical v \<longrightarrow> validate_value depth v s = Inr w \<longrightarrow> w = v"
proof (induction depth x rule: depth_induct)
  case (step depth x)
  obtain v s where x: "x = (v, s)" by (cases x)
  have "w = v" if v: "canonical v" and w: "validate_value depth v s = Inr w" for w
  proof -
    from w have depth: "depth \<le> MAX_JSON_DEPTH"
      by (auto simp: validate_value_step split: if_splits)
    have IH: "\<And>v s w. canonical v \<Longrightarrow> validate_value (depth + 1) v s = Inr w \<Longrightarrow> w = v"
      using step.IH [OF depth] by fastforce
    from w obtain u where u: "(case Option.bind (dget (mapping_items s) ''oneOf'') as_sequence of
                 None \<Rightarrow> Inr v
               | Some bs \<Rightarrow> bindE (collect_matches (validate_value (depth + 1) v) bs) the_one_match) = Inr u"
      and wu: "validate_typed (validate_value (depth + 1)) u (mapping_items s) = Inr w"
      by (auto simp: validate_value_step [of depth] bindE_Inr_iff split: if_splits)
    from u have "u = v"
      using IH [OF v] by (auto simp: bindE_Inr_iff the_one_match_Inr split: option.splits
          dest!: collect_matches_in)
    with wu v show ?thesis by (blast intro: validate_typed_same [of "validate_value (depth + 1)"] IH)
  qed
  then show ?case by (simp add: x)
qed

lemma validate_value_same: "canonical v \<Longrightarrow> validate_value depth v s = Inr w \<Longrightarrow> w = v"
  using validate_value_same_aux [where x = "(v, s)"] by simp

lemma validate_input_canonical:
  "validate_input spec v = Inr w \<Longrightarrow> canonicalize_json v = Inr w"
  by (auto simp: validate_input_def bindE_Inr_iff dest: validate_value_same canonicalize_canonical)

subsection \<open>Frozen schemas\<close>

lemma freeze_items:
  "dget (map (\<lambda>(k, v). (k, freeze_json v)) d) k = map_option freeze_json (dget d k)"
  by (induction d) auto

lemma schema_type_freeze:
  "schema_type (map (\<lambda>(k, v). (k, freeze_json v)) d) = map_option freeze_json (schema_type d)"
proof -
  have "freeze_json v = PNone \<longleftrightarrow> v = PNone" for v by (cases v) simp_all
  then show ?thesis
    by (cases "dget d ''type''") (auto simp: schema_type_def freeze_items split: pyobj.split)
qed

lemma freeze_PStr: "freeze_json v = PStr t \<longleftrightarrow> v = PStr t"
  by (cases v) simp_all

lemma has_type_freeze [simp]:
  "has_type (map (\<lambda>(k, v). (k, freeze_json v)) d) t = has_type d t"
  by (auto simp: has_type_def schema_type_freeze freeze_PStr)

end
