(* ===== verification/Catalog_Base.thy ===== *)
theory Catalog_Base
  imports Contract
begin

section \<open>Building the operation catalogues\<close>

text \<open>
  The dictionary operations with which the catalogue modules assemble their schemas. A
  property map is a list of named schemas in insertion order: \<open>fmerge a b\<close> is \<open>{**a, **b}\<close> and
  \<open>a.update(b)\<close>, \<open>field a k\<close> is \<open>a[k]\<close>, and \<open>with_key s k v\<close> is a schema after \<open>s[k] = v\<close>.
  A row of an operation table is the argument tuple of the modules' \<open>_operation\<close>.
\<close>

type_synonym fields = "(string \<times> pyobj) list"

type_synonym operation_args =
  "string \<times> connector_mode \<times> string \<times> connector_effect \<times> string list list \<times> pyobj"

fun fset :: "fields \<Rightarrow> string \<Rightarrow> pyobj \<Rightarrow> fields" where
  "fset [] k v = [(k, v)]"
| "fset ((k', v') # d) k v = (if k' = k then (k', v) # d else (k', v') # fset d k v)"

fun fmerge :: "fields \<Rightarrow> fields \<Rightarrow> fields" where
  "fmerge a [] = a"
| "fmerge a ((k, v) # b) = fmerge (fset a k v) b"

definition field :: "fields \<Rightarrow> string \<Rightarrow> pyobj" where
  "field a k = (case map_of a k of Some v \<Rightarrow> v | None \<Rightarrow> PNone)"

fun with_key :: "pyobj \<Rightarrow> string \<Rightarrow> pyobj \<Rightarrow> pyobj" where
  "with_key (PDict d) k v = PDict (dset d k v)"
| "with_key s k v = s"

lemma map_of_fset: "map_of (fset a k v) = (map_of a)(k \<mapsto> v)"
  by (induction a) auto

end
