(* ===== verification/Catalog_Wf.thy ===== *)
theory Catalog_Wf
  imports Schema_Wf Catalog_Base
begin

section \<open>Well-formed catalogue schemas\<close>

text \<open>
  How \<open>schema_wf\<close> evaluates on the shapes the catalogue modules build, one rule per shape, so
  that a whole operation table is settled by rewriting without expanding the shared schemas
  more than they are used. Outside the calendar attachments no transport path is allowed, and
  then a schema's place in its parent does not matter.
\<close>

named_theorems schema_shapes \<open>well-formedness of the schema shapes of the catalogue\<close>

lemma wf_path_irrelevant:
  "allowed = [] \<Longrightarrow> schema_wf depth rc ac allowed path s = schema_wf depth rc ac allowed path' s"
  "allowed = [] \<Longrightarrow> schemas_wf depth ac allowed path ss = schemas_wf depth ac allowed path' ss"
  "allowed = [] \<Longrightarrow> properties_wf depth ac allowed path ps = properties_wf depth ac allowed path' ps"
proof (induction depth rc ac allowed path s and depth ac allowed path ss and depth ac allowed path ps
    arbitrary: path' and path' and path' rule: schema_wf_schemas_wf_properties_wf.induct)
  case (1 depth rc ac allowed path s path')
  have "schema_wf depth rc ac allowed path s = schema_wf depth rc ac allowed path' s" (is "?l = ?r")
    if "\<not> MAX_JSON_DEPTH < depth"
    by (simp only: schema_wf.simps [of depth rc ac allowed path s]
          schema_wf.simps [of depth rc ac allowed path' s]
          "1.IH"(1) [OF that "1.prems", of path']
          "1.IH"(2) [OF that "1.prems", of path']
          "1.IH"(3) [OF that "1.prems", of "path' @ [''[]'']"])
  moreover have "schema_wf depth rc ac allowed p s = False" if "MAX_JSON_DEPTH < depth" for p
    using that by (simp add: schema_wf.simps [of depth])
  ultimately show ?case by blast
next
  case (3 depth ac allowed path s ss path')
  show ?case
    by (simp only: schemas_wf.simps "3.IH"(1) [OF "3.prems", of path'] "3.IH"(2) [OF "3.prems", of path'])
next
  case (5 depth ac allowed path name s ps path')
  have "property_name_wf ac allowed path name = property_name_wf ac allowed path' name"
    using \<open>allowed = []\<close> by (simp add: property_name_wf_def)
  then show ?case
    by (simp only: properties_wf.simps "5.IH"(1) [OF "5.prems", of "path' @ [name]"]
        "5.IH"(2) [OF "5.prems", of path'])
qed simp_all
definition swf :: "bool \<Rightarrow> int \<Rightarrow> pyobj \<Rightarrow> bool" where
  "swf rc depth s = schema_wf depth rc False [] [] s"

definition swfs :: "int \<Rightarrow> pyobj list \<Rightarrow> bool" where
  "swfs depth ss = schemas_wf depth False [] [] ss"

definition fwf :: "int \<Rightarrow> fields \<Rightarrow> bool" where
  "fwf depth fs = properties_wf depth False [] [] (items fs)"

definition name_wf :: "string \<Rightarrow> bool" where
  "name_wf name = property_name_wf False [] [] name"

lemma swfs_simps [schema_shapes]:
  "swfs depth [] = True"
  "swfs depth (s # ss) = (swf False depth s \<and> swfs depth ss)"
  by (simp_all add: swfs_def swf_def)

lemma fwf_simps [schema_shapes]:
  "fwf depth [] = True"
  "fwf depth ((k, s) # fs) = (name_wf k \<and> swf False depth s \<and> fwf depth fs)"
  by (simp_all add: fwf_def swf_def name_wf_def wf_path_irrelevant(1) [of "[]" depth False False "[k]" s "[]"]
      property_name_wf_def)


lemma with_key_obj [schema_shapes]: "with_key (obj kvs) k v = obj (fset kvs k v)"
  by (induction kvs) (auto simp: obj_def)

text \<open>Scalars that an enumeration or a constant may list.\<close>

fun plain :: "pyobj \<Rightarrow> bool" where
  "plain (PStr s) = is_ok (clone_string s)"
| "plain (PInt _) = True"
| "plain (PBool _) = True"
| "plain _ = False"

definition plain_text :: "string \<Rightarrow> bool" where
  "plain_text s = is_ok (clone_string s)"

lemma plain_simps [schema_shapes]:
  "plain (PStr s) = plain_text s" "plain (PInt i) = True" "plain (PBool b) = True"
  by (simp_all add: plain_text_def plain.simps)

declare plain.simps(1) [simp del]

lemma canonicalize_plain: "plain v \<Longrightarrow> canonicalize_json v = Inr v"
  by (cases v) (auto simp: plain.simps canonicalize_json_def clone_json.simps [of 0] clone_string_def
      split: if_splits)

lemma mapE_canonicalize_plain: "list_all plain vs \<Longrightarrow> mapE canonicalize_json vs = Inr vs"
  by (rule mapE_fixed) (auto simp: canonicalize_plain list_all_iff)

lemma strict_equal_plain: "plain v \<Longrightarrow> strict_equal v w \<longleftrightarrow> v = w"
  by (cases v; cases w) auto

lemma has_strict_duplicate_plain:
  "list_all plain vs \<Longrightarrow> has_strict_duplicate vs \<longleftrightarrow> \<not> distinct vs"
  by (induction vs) (auto simp: strict_equal_plain list_ex_iff)

lemma enum_wf_plain:
  "list_all plain vs \<Longrightarrow> vs \<noteq> [] \<Longrightarrow> ilen vs \<le> 128 \<Longrightarrow> distinct vs \<Longrightarrow> enum_wf (Some (PList vs))"
  by (simp add: enum_wf_def elements_def mapE_canonicalize_plain has_strict_duplicate_plain)

lemmas wf_defs =
  keywords_wf_def sizes_wf_def numeric_wf_def constrained_wf_def one_of_wf_def
  property_items_def item_schemas_def elements_def obj_def dhas_def has_type_def schema_type_def
  SCHEMA_KEYWORDS_def SCHEMA_TYPES_def no_object_keywords_def closed_object_wf_def required_wf_def

lemma enum_wf_None [simp]: "enum_wf None"
  by (simp add: enum_wf_def)

lemma swf_type [schema_shapes]:
  "depth \<le> 16 \<Longrightarrow> t \<in> {''boolean'', ''null''} \<Longrightarrow> swf False depth (obj [(''type'', PStr t)])"
  by (auto simp: swf_def schema_wf.simps [of depth] wf_defs)

lemma swf_enum [schema_shapes]:
  "depth \<le> 16 \<Longrightarrow> t \<in> {''string'', ''integer''} \<Longrightarrow> list_all plain vs \<Longrightarrow> vs \<noteq> [] \<Longrightarrow> ilen vs \<le> 128 \<Longrightarrow>
   distinct vs \<Longrightarrow> swf False depth (obj [(''enum'', PList vs), (''type'', PStr t)])"
  by (frule (3) enum_wf_plain) (auto simp: swf_def schema_wf.simps [of depth] wf_defs)

lemma swf_enum_untyped [schema_shapes]:
  "depth \<le> 16 \<Longrightarrow> list_all plain vs \<Longrightarrow> vs \<noteq> [] \<Longrightarrow> ilen vs \<le> 128 \<Longrightarrow> distinct vs \<Longrightarrow>
   swf False depth (obj [(''enum'', PList vs)])"
  by (frule (3) enum_wf_plain) (auto simp: swf_def schema_wf.simps [of depth] wf_defs)

lemma swf_const [schema_shapes]:
  "depth \<le> 16 \<Longrightarrow> plain v \<Longrightarrow> swf False depth (obj [(''const'', v)])"
  "depth \<le> 16 \<Longrightarrow> plain v \<Longrightarrow> t \<in> {''string'', ''boolean'', ''integer''} \<Longrightarrow>
     swf False depth (obj [(''const'', v), (''type'', PStr t)])"
  by (auto simp: swf_def schema_wf.simps [of depth] wf_defs canonicalize_plain)

definition int_bound_wf :: "int \<Rightarrow> bool" where
  "int_bound_wf i = (\<not> float_overflows i)"

lemma int_bound_wf_small [schema_shapes]: "\<bar>i\<bar> \<le> 9007199254740992 \<Longrightarrow> int_bound_wf i"
  by (simp add: int_bound_wf_def float_overflows_def)

lemma swf_integer [schema_shapes]:
  "depth \<le> 16 \<Longrightarrow> int_bound_wf lo \<Longrightarrow> int_bound_wf hi \<Longrightarrow> lo \<le> hi \<Longrightarrow>
     swf False depth (obj [(''maximum'', PInt hi), (''minimum'', PInt lo), (''type'', PStr ''integer'')])"
  "depth \<le> 16 \<Longrightarrow> int_bound_wf lo \<Longrightarrow>
     swf False depth (obj [(''minimum'', PInt lo), (''type'', PStr ''integer'')])"
  by (auto simp: swf_def schema_wf.simps [of depth] wf_defs int_bound_wf_def)

lemma swf_text [schema_shapes]:
  "depth \<le> 16 \<Longrightarrow> 0 \<le> hi \<Longrightarrow> hi \<le> 256000 \<Longrightarrow>
     swf False depth (obj [(''maxLength'', PInt hi), (''type'', PStr ''string'')])"
  "depth \<le> 16 \<Longrightarrow> 0 \<le> lo \<Longrightarrow> lo \<le> hi \<Longrightarrow> hi \<le> 256000 \<Longrightarrow>
     swf False depth (obj [(''maxLength'', PInt hi), (''minLength'', PInt lo), (''type'', PStr ''string'')])"
  "depth \<le> 16 \<Longrightarrow> 0 \<le> lo \<Longrightarrow> lo \<le> hi \<Longrightarrow> hi \<le> 256000 \<Longrightarrow>
     swf False depth (obj [(''maxLength'', PInt hi), (''type'', PStr ''string''), (''minLength'', PInt lo)])"
  by (auto simp: swf_def schema_wf.simps [of depth] wf_defs)

definition pattern_text_wf :: "string \<Rightarrow> bool" where
  "pattern_text_wf p = pattern_wf True (Some (PStr p))"

lemma swf_pattern [schema_shapes]:
  "depth \<le> 16 \<Longrightarrow> 0 \<le> lo \<Longrightarrow> lo \<le> hi \<Longrightarrow> hi \<le> 256000 \<Longrightarrow> pattern_text_wf p \<Longrightarrow>
     swf False depth (obj [(''maxLength'', PInt hi), (''minLength'', PInt lo), (''pattern'', PStr p),
       (''type'', PStr ''string'')])"
  "depth \<le> 16 \<Longrightarrow> 0 \<le> lo \<Longrightarrow> lo \<le> hi \<Longrightarrow> hi \<le> 256000 \<Longrightarrow> pattern_text_wf p \<Longrightarrow>
     swf False depth (obj [(''maxLength'', PInt hi), (''minLength'', PInt lo),
       (''type'', PStr ''string''), (''pattern'', PStr p)])"
  "depth \<le> 16 \<Longrightarrow> 0 \<le> lo \<Longrightarrow> lo \<le> hi \<Longrightarrow> hi \<le> 256000 \<Longrightarrow> pattern_text_wf p \<Longrightarrow>
     swf False depth (obj [(''maxLength'', PInt hi), (''type'', PStr ''string''), (''minLength'', PInt lo),
       (''pattern'', PStr p)])"
  by (auto simp: swf_def schema_wf.simps [of depth] wf_defs pattern_text_wf_def)

lemma swf_array [schema_shapes]:
  "depth \<le> 16 \<Longrightarrow> 0 \<le> lo \<Longrightarrow> lo \<le> hi \<Longrightarrow> hi \<le> 1000 \<Longrightarrow> swf False (depth + 1) s \<Longrightarrow>
     swf False depth (obj [(''items'', s), (''maxItems'', PInt hi), (''minItems'', PInt lo),
       (''type'', PStr ''array'')])"
  "depth \<le> 16 \<Longrightarrow> 0 \<le> lo \<Longrightarrow> lo \<le> hi \<Longrightarrow> hi \<le> 1000 \<Longrightarrow> swf False (depth + 1) s \<Longrightarrow>
     swf False depth (obj [(''items'', s), (''maxItems'', PInt hi), (''type'', PStr ''array''),
       (''minItems'', PInt lo)])"
  "depth \<le> 16 \<Longrightarrow> 0 \<le> hi \<Longrightarrow> hi \<le> 1000 \<Longrightarrow> swf False (depth + 1) s \<Longrightarrow>
     swf False depth (obj [(''items'', s), (''maxItems'', PInt hi), (''type'', PStr ''array'')])"
  by (auto simp: swf_def schema_wf.simps [of depth] wf_defs wf_path_irrelevant(1) [of "[]" "depth + 1" False False "[''[]'']" s "[]"])

lemma swf_one_of [schema_shapes]:
  "depth \<le> 16 \<Longrightarrow> bs \<noteq> [] \<Longrightarrow> ilen bs \<le> 64 \<Longrightarrow> swfs (depth + 1) bs \<Longrightarrow>
     swf False depth (obj [(''oneOf'', PList bs)])"
  by (auto simp: swf_def swfs_def schema_wf.simps [of depth] wf_defs)

definition object_fields_wf :: "int \<Rightarrow> fields \<Rightarrow> string list \<Rightarrow> bool" where
  "object_fields_wf depth fs req =
     (ilen fs \<le> 128 \<and> ilen req \<le> 128 \<and> distinct req \<and> list_all (\<lambda>r. r \<in> fst ` set fs) req \<and>
      fwf (depth + 1) fs)"

lemma ilen_items [simp]: "ilen (items fs) = ilen fs"
  by (simp add: items_def)

lemma required_in_items: "list_all (\<lambda>r. r \<in> fst ` set fs) req \<Longrightarrow>
    list_all (\<lambda>r. r \<in> fst ` set (items fs)) (map PStr req)"
  by (induction req) (auto simp: items_def image_image split_def)

lemma swf_object [schema_shapes]:
  "depth \<le> 16 \<Longrightarrow> object_fields_wf depth fs req \<Longrightarrow>
     swf rc depth (obj [(''additionalProperties'', PBool False), (''properties'', obj fs),
       (''required'', PList (map PStr req)), (''type'', PStr ''object'')])"
  "depth \<le> 16 \<Longrightarrow> object_fields_wf depth fs req \<Longrightarrow> bs \<noteq> [] \<Longrightarrow> ilen bs \<le> 64 \<Longrightarrow> swfs (depth + 1) bs \<Longrightarrow>
     swf rc depth (obj [(''additionalProperties'', PBool False), (''properties'', obj fs),
       (''required'', PList (map PStr req)), (''type'', PStr ''object''), (''oneOf'', PList bs)])"
  by (auto simp: swf_def swfs_def schema_wf.simps [of depth] wf_defs object_fields_wf_def fwf_def inj_on_def distinct_map
      dest!: required_in_items)

lemmas [schema_shapes] = object_fields_wf_def Let_def field_def

text \<open>A row of an operation table, with the transport paths its operation may use.\<close>

fun row_schema_wf :: "operation_args \<Rightarrow> bool" where
  "row_schema_wf (p, m, n, e, sc, i) =
     schema_wf 0 True False (operation_transport_field_paths p m n) [] i"

declare row_schema_wf.simps [simp del]

lemma row_schema_wf_plain:
  "(p, m, n) \<noteq> (''google_calendar'', WRITE, ''events.create'') \<Longrightarrow>
   (p, m, n) \<noteq> (''google_calendar'', WRITE, ''events.update'') \<Longrightarrow>
   row_schema_wf (p, m, n, e, sc, i) = swf True 0 i"
  by (auto simp: row_schema_wf.simps swf_def operation_transport_field_paths_def
      CALENDAR_ATTACHMENT_OPERATIONS_def)

subsection \<open>Calendar attachments\<close>

text \<open>
  The two calendar operations that may name an attachment's URL: allowing a path only makes
  more schemas well formed, so every field but the attachments is checked as elsewhere.
\<close>

lemma schema_wf_allowed_mono:
  "allowed = [] \<Longrightarrow> schema_wf depth rc ac allowed path s \<Longrightarrow> schema_wf depth rc ac allowed' path s"
  "allowed = [] \<Longrightarrow> schemas_wf depth ac allowed path ss \<Longrightarrow> schemas_wf depth ac allowed' path ss"
  "allowed = [] \<Longrightarrow> properties_wf depth ac allowed path ps \<Longrightarrow> properties_wf depth ac allowed' path ps"
proof (induction depth rc ac allowed path s and depth ac allowed path ss and depth ac allowed path ps
    rule: schema_wf_schemas_wf_properties_wf.induct)
  case (1 depth rc ac allowed path s)
  then show ?case
    by (simp add: schema_wf.simps [of depth rc ac "[]" path s]
        schema_wf.simps [of depth rc ac allowed' path s] split: if_splits)
qed (simp_all add: property_name_wf_def)

definition awf :: "int \<Rightarrow> string \<Rightarrow> pyobj \<Rightarrow> bool" where
  "awf depth k s = schema_wf depth False False [CALENDAR_ATTACHMENT_FILE_URL_PATH] [k] s"

definition afwf :: "int \<Rightarrow> fields \<Rightarrow> bool" where
  "afwf depth fs = properties_wf depth False [CALENDAR_ATTACHMENT_FILE_URL_PATH] [] (items fs)"

lemma awf_swf [schema_shapes]: "swf False depth s \<Longrightarrow> awf depth k s"
  unfolding swf_def awf_def
  by (rule schema_wf_allowed_mono(1) [OF refl])
     (simp add: wf_path_irrelevant(1) [of "[]" depth False False "[k]" s "[]"])

lemma afwf_simps [schema_shapes]:
  "afwf depth [] = True"
  "afwf depth ((k, s) # fs) = (name_wf k \<and> awf depth k s \<and> afwf depth fs)"
  by (simp_all add: afwf_def awf_def name_wf_def property_name_wf_def
      CALENDAR_ATTACHMENT_FILE_URL_PATH_def)

definition attachment_fields_wf :: "fields \<Rightarrow> string list \<Rightarrow> bool" where
  "attachment_fields_wf fs req =
     (ilen fs \<le> 128 \<and> ilen req \<le> 128 \<and> distinct req \<and> list_all (\<lambda>r. r \<in> fst ` set fs) req \<and>
      afwf 1 fs)"

lemma row_schema_wf_attachment:
  "n \<in> {''events.create'', ''events.update''} \<Longrightarrow> attachment_fields_wf fs req \<Longrightarrow>
     row_schema_wf (''google_calendar'', WRITE, n, e, sc,
       obj [(''additionalProperties'', PBool False), (''properties'', obj fs),
         (''required'', PList (map PStr req)), (''type'', PStr ''object'')])"
  by (auto simp: row_schema_wf.simps operation_transport_field_paths_def attachment_fields_wf_def
      CALENDAR_ATTACHMENT_OPERATIONS_def schema_wf.simps [of 0] wf_defs afwf_def inj_on_def
      distinct_map dest!: required_in_items)

lemmas [schema_shapes] = attachment_fields_wf_def

end
