(* ===== verification/Catalog_Google.thy ===== *)
theory Catalog_Google
  imports Catalog_Base
begin

section \<open>Gmail, Calendar and Drive operations (\<open>connector_operations_google.py\<close>)\<close>

text \<open>
  The Google catalogue, definition by definition: schema builders with the prefix \<open>g_\<close>, scope
  names and alternatives with the prefix \<open>G_\<close>, and the operation table, cut into one
  definition per run of a provider and mode.
\<close>

definition G_GMAIL_READONLY :: "string" where
  "G_GMAIL_READONLY =
     ''https://www.googleapis.com/auth/gmail.readonly''"

definition G_GMAIL_MODIFY :: "string" where
  "G_GMAIL_MODIFY =
     ''https://www.googleapis.com/auth/gmail.modify''"

definition G_GMAIL_SETTINGS_BASIC :: "string" where
  "G_GMAIL_SETTINGS_BASIC =
     ''https://www.googleapis.com/auth/gmail.settings.basic''"

definition G_MAIL :: "string" where
  "G_MAIL =
     ''https://mail.google.com/''"

definition G_CALENDAR_LIST :: "string" where
  "G_CALENDAR_LIST =
     ''https://www.googleapis.com/auth/calendar.calendarlist''"

definition G_CALENDAR_LIST_READONLY :: "string" where
  "G_CALENDAR_LIST_READONLY =
     ''https://www.googleapis.com/auth/calendar.calendarlist.readonly''"

definition G_CALENDAR_READONLY :: "string" where
  "G_CALENDAR_READONLY =
     ''https://www.googleapis.com/auth/calendar.readonly''"

definition G_CALENDAR_EVENTS_READONLY :: "string" where
  "G_CALENDAR_EVENTS_READONLY =
     ''https://www.googleapis.com/auth/calendar.events.readonly''"

definition G_CALENDAR_EVENTS :: "string" where
  "G_CALENDAR_EVENTS =
     ''https://www.googleapis.com/auth/calendar.events''"

definition G_CALENDAR_FREEBUSY :: "string" where
  "G_CALENDAR_FREEBUSY =
     ''https://www.googleapis.com/auth/calendar.freebusy''"

definition G_CALENDAR_CALENDARS_READONLY :: "string" where
  "G_CALENDAR_CALENDARS_READONLY =
     ''https://www.googleapis.com/auth/calendar.calendars.readonly''"

definition G_CALENDAR_CALENDARS :: "string" where
  "G_CALENDAR_CALENDARS =
     ''https://www.googleapis.com/auth/calendar.calendars''"

definition G_CALENDAR :: "string" where
  "G_CALENDAR =
     ''https://www.googleapis.com/auth/calendar''"

definition G_DRIVE_METADATA_READONLY :: "string" where
  "G_DRIVE_METADATA_READONLY =
     ''https://www.googleapis.com/auth/drive.metadata.readonly''"

definition G_DRIVE_READONLY :: "string" where
  "G_DRIVE_READONLY =
     ''https://www.googleapis.com/auth/drive.readonly''"

definition G_DRIVE_MEET_READONLY :: "string" where
  "G_DRIVE_MEET_READONLY =
     ''https://www.googleapis.com/auth/drive.meet.readonly''"

definition G_DRIVE_FILE :: "string" where
  "G_DRIVE_FILE =
     ''https://www.googleapis.com/auth/drive.file''"

definition G_DRIVE :: "string" where
  "G_DRIVE =
     ''https://www.googleapis.com/auth/drive''"

definition G_MAX_DRIVE_BYTE_OFFSET :: "int" where
  "G_MAX_DRIVE_BYTE_OFFSET =
     5 * 1024 ^ 4"

definition G_MAX_PROVIDER_SNAPSHOT_TEXT :: "int" where
  "G_MAX_PROVIDER_SNAPSHOT_TEXT =
     MAX_STRING_LENGTH"

definition G_GMAIL_MAX_METADATA_HEADER_NAMES :: "int" where
  "G_GMAIL_MAX_METADATA_HEADER_NAMES =
     127"

definition g_object :: "fields \<Rightarrow> string list \<Rightarrow> pyobj" where
  "g_object properties required =
     obj [(''additionalProperties'', PBool False),
          (''properties'', obj properties),
          (''required'', PList (map PStr required)),
          (''type'', PStr ''object'')]"

definition g_text :: "int \<Rightarrow> int \<Rightarrow> pyobj" where
  "g_text maximum minimum =
     obj [(''maxLength'', PInt maximum), (''minLength'', PInt minimum), (''type'', PStr ''string'')]"

definition g_id :: "pyobj" where
  "g_id =
     g_text 512 1"

definition g_calendar_event_id :: "pyobj" where
  "g_calendar_event_id =
     g_text 1024 1"

definition g_calendar_client_event_id :: "pyobj" where
  "g_calendar_client_event_id =
     obj [(''maxLength'', PInt 1024), (''minLength'', PInt 5), (''pattern'', PStr ''^[0-9a-v]+$''),
          (''type'', PStr ''string'')]"

definition g_drive_resource_key :: "pyobj" where
  "g_drive_resource_key =
     obj [(''maxLength'', PInt 512),
          (''minLength'', PInt 1),
          (''pattern'', PStr ''^[A-Za-z0-9_-]+$''),
          (''type'', PStr ''string'')]"

definition g_drive_version :: "pyobj" where
  "g_drive_version =
     obj [(''maxLength'', PInt 32), (''minLength'', PInt 1), (''pattern'', PStr ''^[0-9]+$''),
          (''type'', PStr ''string'')]"

definition g_array :: "pyobj \<Rightarrow> int \<Rightarrow> int \<Rightarrow> pyobj" where
  "g_array items' maximum minimum =
     obj [(''items'', items'), (''maxItems'', PInt maximum), (''minItems'', PInt minimum),
          (''type'', PStr ''array'')]"

definition g_scopes :: "string list \<Rightarrow> string list list" where
  "g_scopes alternatives =
     map (\<lambda>scope. [scope]) alternatives"

fun g_operation :: "operation_args \<Rightarrow> operation_spec result" where
  "g_operation (provider, mode, name, effect, scopes, input_schema) =
     OperationSpec provider mode name effect name scopes input_schema"

definition g_email_addresses :: "pyobj" where
  "g_email_addresses =
     g_array (g_text 512 1) 64 1"

definition g_local_file :: "pyobj" where
  "g_local_file =
     g_object [(''grant_id'', g_text 128 1), (''relative_path'', g_text (16 * 1024) 1)]
       [''grant_id'', ''relative_path'']"

definition g_attachment :: "pyobj" where
  "g_attachment =
     (let metadata = [(''filename'', g_text 512 1), (''mime_type'', g_text 256 1)];
          source_fields = (fmerge metadata [(''content_base64'', g_text 240000 1),
                                            (''local_file'', g_local_file)]);
          schema = g_object source_fields [];
          schema = with_key schema ''oneOf''
                     (PList [g_object (fmerge metadata [(''content_base64'',
                                                         field source_fields ''content_base64'')])
                               [''content_base64'', ''filename'', ''mime_type''],
                             g_object (fmerge metadata [(''local_file'',
                                                         field source_fields ''local_file'')])
                               [''filename'', ''local_file'', ''mime_type'']])
      in schema)"

definition g_gmail_attachment_delivery :: "pyobj" where
  "g_gmail_attachment_delivery =
     obj [(''enum'', PList [PStr ''artifact'', PStr ''inline_chunk'']), (''type'', PStr ''string'')]"

definition g_gmail_attachment_content :: "pyobj" where
  "g_gmail_attachment_content =
     (let identifiers = [(''attachment_id'', g_id), (''message_id'', g_id)];
          schema = g_object (fmerge identifiers [(''delivery'', g_gmail_attachment_delivery)])
                     [''attachment_id'', ''message_id''];
          schema = with_key schema ''oneOf''
                     (PList [g_object identifiers [''attachment_id'', ''message_id''],
                             g_object (fmerge identifiers
                                         [(''delivery'',
                                           obj [(''const'', PStr ''artifact''),
                                                (''type'', PStr ''string'')])])
                               [''attachment_id'', ''delivery'', ''message_id''],
                             g_object (fmerge identifiers
                                         [(''delivery'',
                                           obj [(''const'', PStr ''inline_chunk''),
                                                (''type'', PStr ''string'')])])
                               [''attachment_id'', ''delivery'', ''message_id'']])
      in schema)"

definition g_mail_fields :: "fields" where
  "g_mail_fields =
     [(''attachments'', g_array g_attachment 16 0),
      (''bcc'', g_email_addresses),
      (''cc'', g_email_addresses),
      (''html_body'', g_text 200000 0),
      (''reply_to_message_id'', g_id),
      (''subject'', g_text 998 0),
      (''text_body'', g_text 200000 0),
      (''thread_id'', g_id),
      (''to'', g_email_addresses)]"

definition g_gmail_send :: "pyobj" where
  "g_gmail_send =
     (let fields = g_mail_fields;
          local_file = g_local_file;
          schema = g_object (fmerge fields [(''local_file'', local_file)]) [];
          schema = with_key schema ''oneOf''
                     (PList [g_object fields [''to''],
                             g_object (filter (\<lambda>(name, _). name \<noteq> ''to'') fields)
                               [''cc''],
                             g_object (filter (\<lambda>(name, _). name \<notin> {''cc'', ''to''})
                                         fields) [''bcc''],
                             g_object [(''local_file'', local_file)] [''local_file'']])
      in schema)"

definition g_gmail_migration :: "bool \<Rightarrow> pyobj" where
  "g_gmail_migration importing =
     (let fields = [(''deleted'', obj [(''type'', PStr ''boolean'')]),
                    (''internal_date_source'',
                     obj [(''enum'', PList [PStr ''dateHeader'', PStr ''receivedTime'']),
                          (''type'', PStr ''string'')]),
                    (''label_ids'', g_array g_id 100 1),
                    (''local_file'', g_local_file)];
          fields = if importing then fmerge fields
                     [(''never_mark_spam'', obj [(''type'', PStr ''boolean'')]),
                      (''process_for_calendar'', obj [(''type'', PStr ''boolean'')])] else fields
      in g_object fields [''local_file''])"

definition g_gmail_filter_criteria :: "pyobj" where
  "g_gmail_filter_criteria =
     g_object [(''exclude_chats'', obj [(''type'', PStr ''boolean'')]),
               (''from'', g_text 8192 1),
               (''has_attachment'', obj [(''type'', PStr ''boolean'')]),
               (''negated_query'', g_text 8192 1),
               (''query'', g_text 8192 1),
               (''size'',
                obj [(''maximum'', PInt 2147483647), (''minimum'', PInt 0),
                     (''type'', PStr ''integer'')]),
               (''size_comparison'',
                obj [(''enum'', PList [PStr ''larger'', PStr ''smaller'']),
                     (''type'', PStr ''string'')]),
               (''subject'', g_text 8192 1),
               (''to'', g_text 8192 1)] []"

definition g_gmail_filter_action :: "pyobj" where
  "g_gmail_filter_action =
     g_object [(''add_label_ids'', g_array g_id 100 1),
               (''forward'', g_text 512 1),
               (''remove_label_ids'', g_array g_id 100 1)] []"

definition g_gmail_filter_create :: "pyobj" where
  "g_gmail_filter_create =
     g_object [(''action'', g_gmail_filter_action), (''criteria'', g_gmail_filter_criteria)]
       [''action'', ''criteria'']"

definition g_gmail_filter_snapshot :: "pyobj" where
  "g_gmail_filter_snapshot =
     g_object [(''action'',
                g_object [(''addLabelIds'', g_array g_id 100 1),
                          (''forward'', g_text 512 1),
                          (''removeLabelIds'', g_array g_id 100 1)] []),
               (''criteria'',
                g_object [(''excludeChats'', obj [(''type'', PStr ''boolean'')]),
                          (''from'', g_text 8192 1),
                          (''hasAttachment'', obj [(''type'', PStr ''boolean'')]),
                          (''negatedQuery'', g_text 8192 1),
                          (''query'', g_text 8192 1),
                          (''size'',
                           obj [(''maximum'', PInt 2147483647), (''minimum'', PInt 0),
                                (''type'', PStr ''integer'')]),
                          (''sizeComparison'',
                           obj [(''enum'', PList [PStr ''larger'', PStr ''smaller'']),
                                (''type'', PStr ''string'')]),
                          (''subject'', g_text 8192 1),
                          (''to'', g_text 8192 1)] []),
               (''id'', g_id)] [''action'', ''criteria'', ''id'']"

definition g_gmail_label_color :: "pyobj" where
  "g_gmail_label_color =
     (let color = obj [(''maxLength'', PInt 7), (''minLength'', PInt 7),
                       (''pattern'', PStr ''^#[0-9a-f]{6}$''), (''type'', PStr ''string'')]
      in g_object [(''background_color'', color), (''text_color'', color)]
           [''background_color'', ''text_color''])"

definition g_gmail_label_fields :: "fields" where
  "g_gmail_label_fields =
     [(''color'', g_gmail_label_color),
      (''label_list_visibility'',
       obj [(''enum'', PList [PStr ''labelHide'', PStr ''labelShow'', PStr ''labelShowIfUnread'']),
            (''type'', PStr ''string'')]),
      (''message_list_visibility'',
       obj [(''enum'', PList [PStr ''hide'', PStr ''show'']), (''type'', PStr ''string'')]),
      (''name'', g_text 225 1)]"

definition g_gmail_label_snapshot :: "pyobj" where
  "g_gmail_label_snapshot =
     g_object [(''id'', g_id),
               (''name'', g_text 225 1),
               (''type'', obj [(''const'', PStr ''user''), (''type'', PStr ''string'')])]
       [''id'', ''name'', ''type'']"

definition g_gmail_imap_update :: "pyobj" where
  "g_gmail_imap_update =
     g_object [(''auto_expunge'', obj [(''type'', PStr ''boolean'')]),
               (''enabled'', obj [(''type'', PStr ''boolean'')]),
               (''expunge_behavior'',
                obj [(''enum'', PList [PStr ''archive'', PStr ''deleteForever'', PStr ''trash'']),
                     (''type'', PStr ''string'')]),
               (''max_folder_size'',
                obj [(''enum'', PList [PInt 0, PInt 1000, PInt 2000, PInt 5000, PInt 10000])])]
       [''auto_expunge'', ''enabled'', ''expunge_behavior'', ''max_folder_size'']"

definition g_gmail_pop_update :: "pyobj" where
  "g_gmail_pop_update =
     g_object [(''access_window'',
                obj [(''enum'', PList [PStr ''allMail'', PStr ''disabled'', PStr ''fromNowOn'']),
                     (''type'', PStr ''string'')]),
               (''disposition'',
                obj [(''enum'',
                      PList [PStr ''archive'', PStr ''leaveInInbox'', PStr ''markRead'',
                             PStr ''trash'']),
                     (''type'', PStr ''string'')])] [''access_window'', ''disposition'']"

definition g_gmail_vacation_update :: "pyobj" where
  "g_gmail_vacation_update =
     (let epoch_millis = obj [(''maxLength'', PInt 20), (''minLength'', PInt 1),
                              (''pattern'', PStr ''^[0-9]+$''), (''type'', PStr ''string'')]
      in g_object [(''enable_auto_reply'', obj [(''type'', PStr ''boolean'')]),
                   (''end_time'',
                    obj [(''oneOf'', PList [epoch_millis, obj [(''type'', PStr ''null'')]])]),
                   (''response_body_html'', g_text 200000 0),
                   (''response_body_plain_text'', g_text 200000 0),
                   (''response_subject'', g_text 998 0),
                   (''restrict_to_contacts'', obj [(''type'', PStr ''boolean'')]),
                   (''restrict_to_domain'', obj [(''type'', PStr ''boolean'')]),
                   (''start_time'',
                    obj [(''oneOf'', PList [epoch_millis, obj [(''type'', PStr ''null'')]])])]
           [''enable_auto_reply'', ''end_time'', ''response_body_html'',
            ''response_body_plain_text'', ''response_subject'', ''restrict_to_contacts'',
            ''restrict_to_domain'', ''start_time''])"

definition g_gmail_send_as_patch :: "pyobj" where
  "g_gmail_send_as_patch =
     g_object [(''display_name'', g_text 998 0),
               (''is_default'', obj [(''const'', PBool True), (''type'', PStr ''boolean'')]),
               (''reply_to_address'', g_text 512 0),
               (''send_as_email'', g_text 512 1),
               (''signature'', g_text 200000 0)] [''send_as_email'']"

definition g_mail_list :: "pyobj" where
  "g_mail_list =
     g_object [(''include_spam_trash'', obj [(''type'', PStr ''boolean'')]),
               (''label_ids'', g_array g_id 64 0),
               (''page_size'',
                obj [(''maximum'', PInt 500), (''minimum'', PInt 1), (''type'', PStr ''integer'')]),
               (''query'', g_text 8192 0)] []"

definition g_draft_list :: "pyobj" where
  "g_draft_list =
     g_object [(''include_spam_trash'', obj [(''type'', PStr ''boolean'')]),
               (''page_size'',
                obj [(''maximum'', PInt 500), (''minimum'', PInt 1), (''type'', PStr ''integer'')]),
               (''query'', g_text 8192 0)] []"

definition g_gmail_message_get :: "pyobj" where
  "g_gmail_message_get =
     (let identifier = [(''message_id'', g_id)];
          schema = g_object (fmerge identifier
                               [(''format'',
                                 obj [(''enum'',
                                       PList [PStr ''full'', PStr ''metadata'', PStr ''minimal'',
                                              PStr ''raw'']),
                                      (''type'', PStr ''string'')]),
                                (''metadata_header_names'',
                                 g_array (g_text 998 1) G_GMAIL_MAX_METADATA_HEADER_NAMES 0)])
                     [''message_id''];
          schema = with_key schema ''oneOf''
                     (PList [g_object (fmerge identifier
                                         [(''format'',
                                           obj [(''enum'',
                                                 PList [PStr ''full'', PStr ''minimal'',
                                                        PStr ''raw'']),
                                                (''type'', PStr ''string'')])]) [''message_id''],
                             g_object (fmerge identifier
                                         [(''format'',
                                           obj [(''const'', PStr ''metadata''),
                                                (''type'', PStr ''string'')]),
                                          (''metadata_header_names'',
                                           g_array (g_text 998 1) G_GMAIL_MAX_METADATA_HEADER_NAMES
                                             0)]) [''format'', ''message_id'']])
      in schema)"

definition g_gmail_modify :: "string \<Rightarrow> pyobj \<Rightarrow> pyobj" where
  "g_gmail_modify identifier_name identifier =
     (let properties = [(''add_label_ids'', g_array g_id 100 1),
                        (identifier_name, identifier),
                        (''remove_label_ids'', g_array g_id 100 1)];
          schema = g_object properties [identifier_name];
          schema = with_key schema ''oneOf''
                     (PList [g_object properties [''add_label_ids'', identifier_name],
                             g_object (filter (\<lambda>(name, _). name \<noteq> ''add_label_ids'')
                                         properties) [identifier_name, ''remove_label_ids'']])
      in schema)"

definition g_gmail_thread_get :: "pyobj" where
  "g_gmail_thread_get =
     (let identifier = [(''thread_id'', g_id)];
          schema = g_object (fmerge identifier
                               [(''format'',
                                 obj [(''enum'',
                                       PList [PStr ''full'', PStr ''metadata'', PStr ''minimal'']),
                                      (''type'', PStr ''string'')]),
                                (''metadata_header_names'',
                                 g_array (g_text 998 1) G_GMAIL_MAX_METADATA_HEADER_NAMES 0)])
                     [''thread_id''];
          schema = with_key schema ''oneOf''
                     (PList [g_object (fmerge identifier
                                         [(''format'',
                                           obj [(''enum'', PList [PStr ''full'', PStr ''minimal'']),
                                                (''type'', PStr ''string'')])]) [''thread_id''],
                             g_object (fmerge identifier
                                         [(''format'',
                                           obj [(''const'', PStr ''metadata''),
                                                (''type'', PStr ''string'')]),
                                          (''metadata_header_names'',
                                           g_array (g_text 998 1) G_GMAIL_MAX_METADATA_HEADER_NAMES
                                             0)]) [''format'', ''thread_id'']])
      in schema)"

definition g_event_time :: "pyobj" where
  "g_event_time =
     obj [(''oneOf'',
           PList [g_object [(''date'', g_text 32 1), (''time_zone'', g_text 128 1)] [''date''],
                  g_object [(''date_time'', g_text 64 1), (''time_zone'', g_text 128 1)]
                    [''date_time'']])]"

definition g_nullable :: "pyobj \<Rightarrow> pyobj" where
  "g_nullable schema =
     obj [(''oneOf'', PList [schema, obj [(''type'', PStr ''null'')]])]"

definition g_expected_event_time :: "pyobj" where
  "g_expected_event_time =
     obj [(''oneOf'',
           PList [g_object [(''date'', g_text 32 1), (''timeZone'', g_text 128 1)] [''date''],
                  g_object [(''dateTime'', g_text 64 1), (''timeZone'', g_text 128 1)]
                    [''dateTime'']])]"

definition g_expected_event :: "pyobj" where
  "g_expected_event =
     g_object [(''end'', g_nullable g_expected_event_time),
               (''etag'', g_text 1024 1),
               (''eventType'',
                obj [(''enum'',
                      PList [PStr ''birthday'', PStr ''default'', PStr ''focusTime'',
                             PStr ''fromGmail'', PStr ''outOfOffice'', PStr ''workingLocation'']),
                     (''type'', PStr ''string'')]),
               (''id'', g_calendar_event_id),
               (''organizer'',
                g_nullable (g_object [(''displayName'', g_text 1024 0),
                                      (''email'', g_text 512 1),
                                      (''self'', obj [(''type'', PStr ''boolean'')])] [''email''])),
               (''start'', g_nullable g_expected_event_time),
               (''status'',
                obj [(''enum'', PList [PStr ''cancelled'', PStr ''confirmed'', PStr ''tentative'']),
                     (''type'', PStr ''string'')]),
               (''summary'', g_nullable (g_text G_MAX_PROVIDER_SNAPSHOT_TEXT 0))]
       [''end'', ''etag'', ''eventType'', ''id'', ''organizer'', ''start'', ''status'', ''summary'']"

definition g_expected_calendar_list_entry :: "pyobj" where
  "g_expected_calendar_list_entry =
     g_object [(''accessRole'',
                obj [(''enum'',
                      PList [PStr ''freeBusyReader'', PStr ''owner'', PStr ''reader'',
                             PStr ''writer'', PStr ''writerWithoutPrivateAccess'']),
                     (''type'', PStr ''string'')]),
               (''id'', g_id),
               (''primary'', obj [(''type'', PStr ''boolean'')]),
               (''summary'', g_nullable (g_text G_MAX_PROVIDER_SNAPSHOT_TEXT 0))]
       [''accessRole'', ''id'', ''primary'', ''summary'']"

definition g_event_attendee :: "pyobj" where
  "g_event_attendee =
     g_object [(''additional_guests'', obj [(''minimum'', PInt 0), (''type'', PStr ''integer'')]),
               (''comment'', g_text 16384 0),
               (''display_name'', g_text 1024 0),
               (''email'', g_text 512 1),
               (''optional'', obj [(''type'', PStr ''boolean'')]),
               (''resource'', obj [(''type'', PStr ''boolean'')]),
               (''response_status'',
                obj [(''enum'',
                      PList [PStr ''accepted'', PStr ''declined'', PStr ''needsAction'',
                             PStr ''tentative'']),
                     (''type'', PStr ''string'')])] [''email'']"

definition g_event_attachment :: "pyobj" where
  "g_event_attachment =
     g_object [(''file_url'', g_text MAX_STRING_LENGTH 1)] [''file_url'']"

definition g_event_extended_property :: "bool \<Rightarrow> pyobj" where
  "g_event_extended_property allow_deletion =
     (let value = g_text 1024 0;
          value = if allow_deletion then g_nullable value else value
      in g_object [(''key'', g_text 44 1), (''value'', value)] [''key'', ''value''])"

definition g_event_reminder :: "pyobj" where
  "g_event_reminder =
     g_object [(''delivery'',
                obj [(''enum'', PList [PStr ''email'', PStr ''popup'']),
                     (''type'', PStr ''string'')]),
               (''minutes'',
                obj [(''maximum'', PInt 40320), (''minimum'', PInt 0), (''type'', PStr ''integer'')])]
       [''delivery'', ''minutes'']"

definition g_event_reminders :: "pyobj" where
  "g_event_reminders =
     obj [(''oneOf'',
           PList [g_object [(''use_default'',
                             obj [(''const'', PBool True), (''type'', PStr ''boolean'')])]
                    [''use_default''],
                  g_object [(''overrides'', g_array g_event_reminder 5 0),
                            (''use_default'',
                             obj [(''const'', PBool False), (''type'', PStr ''boolean'')])]
                    [''use_default'']])]"

definition g_focus_time_properties :: "pyobj" where
  "g_focus_time_properties =
     g_object [(''auto_decline_mode'',
                obj [(''enum'',
                      PList [PStr ''declineAllConflictingInvitations'',
                             PStr ''declineNone'',
                             PStr ''declineOnlyNewConflictingInvitations'']),
                     (''type'', PStr ''string'')]),
               (''chat_status'',
                obj [(''enum'', PList [PStr ''available'', PStr ''doNotDisturb'']),
                     (''type'', PStr ''string'')]),
               (''decline_message'', g_text MAX_STRING_LENGTH 0)] []"

definition g_out_of_office_properties :: "pyobj" where
  "g_out_of_office_properties =
     g_object [(''auto_decline_mode'',
                obj [(''enum'',
                      PList [PStr ''declineAllConflictingInvitations'',
                             PStr ''declineNone'',
                             PStr ''declineOnlyNewConflictingInvitations'']),
                     (''type'', PStr ''string'')]),
               (''decline_message'', g_text MAX_STRING_LENGTH 0)] []"

definition g_working_location_properties :: "pyobj" where
  "g_working_location_properties =
     (let custom_location = g_object [(''label'', g_text MAX_STRING_LENGTH 0)] [];
          office_location = g_object [(''building_id'', g_text MAX_STRING_LENGTH 1),
                                      (''desk_id'', g_text MAX_STRING_LENGTH 1),
                                      (''floor_id'', g_text MAX_STRING_LENGTH 1),
                                      (''floor_section_id'', g_text MAX_STRING_LENGTH 1),
                                      (''label'', g_text MAX_STRING_LENGTH 0)] [];
          properties = [(''custom_location'', custom_location),
                        (''office_location'', office_location),
                        (''type'',
                         obj [(''enum'',
                               PList [PStr ''customLocation'', PStr ''homeOffice'',
                                      PStr ''officeLocation'']),
                              (''type'', PStr ''string'')])];
          schema = g_object properties [''type''];
          schema = with_key schema ''oneOf''
                     (PList [g_object [(''type'',
                                        obj [(''const'', PStr ''homeOffice''),
                                             (''type'', PStr ''string'')])] [''type''],
                             g_object [(''custom_location'', custom_location),
                                       (''type'',
                                        obj [(''const'', PStr ''customLocation''),
                                             (''type'', PStr ''string'')])] [''type''],
                             g_object [(''office_location'', office_location),
                                       (''type'',
                                        obj [(''const'', PStr ''officeLocation''),
                                             (''type'', PStr ''string'')])] [''type'']])
      in schema)"

definition g_event_fields :: "bool \<Rightarrow> fields" where
  "g_event_fields allow_property_deletion =
     (let fields = [(''attachments'', g_array g_event_attachment 25 0),
                    (''attendee_emails'', g_email_addresses),
                    (''attendees'', g_array g_event_attendee 64 0),
                    (''color_id'', g_text 64 1),
                    (''description'', g_text 200000 0),
                    (''end'', g_event_time),
                    (''event_id'', g_calendar_event_id),
                    (''guests_can_invite_others'', obj [(''type'', PStr ''boolean'')]),
                    (''guests_can_modify'', obj [(''type'', PStr ''boolean'')]),
                    (''guests_can_see_other_guests'', obj [(''type'', PStr ''boolean'')]),
                    (''location'', g_text 4096 0),
                    (''meet_request_id'', g_text 1024 1),
                    (''private_extended_properties'',
                     g_array (g_event_extended_property allow_property_deletion) 300 1),
                    (''recurrence'', g_array (g_text 2048 1) 32 0),
                    (''reminders'', g_event_reminders),
                    (''send_updates'',
                     obj [(''enum'', PList [PStr ''all'', PStr ''externalOnly'', PStr ''none'']),
                          (''type'', PStr ''string'')]),
                    (''shared_extended_properties'',
                     g_array (g_event_extended_property allow_property_deletion) 300 1),
                    (''start'', g_event_time),
                    (''summary'', g_text 4096 0),
                    (''transparency'',
                     obj [(''enum'', PList [PStr ''opaque'', PStr ''transparent'']),
                          (''type'', PStr ''string'')]),
                    (''visibility'',
                     obj [(''enum'',
                           PList [PStr ''default'', PStr ''private'', PStr ''public'',
                                  PStr ''confidential'']),
                          (''type'', PStr ''string'')])];
          fields = fmerge fields [(''focus_time_properties'', g_focus_time_properties),
                                  (''out_of_office_properties'', g_out_of_office_properties),
                                  (''working_location_properties'', g_working_location_properties)]
      in fields)"

definition g_calendar_event_create_schema :: "pyobj" where
  "g_calendar_event_create_schema =
     (let event_fields = g_event_fields False
      in g_object (fmerge (fmerge [(''calendar_id'', g_id)] event_fields)
                     [(''event_id'', g_calendar_client_event_id),
                      (''event_type'',
                       obj [(''enum'',
                             PList [PStr ''birthday'', PStr ''focusTime'', PStr ''outOfOffice'',
                                    PStr ''workingLocation'']),
                            (''type'', PStr ''string'')])]) [''calendar_id'', ''start'', ''end''])"

definition g_calendar_fields :: "fields" where
  "g_calendar_fields =
     [(''description'', g_text 16384 0), (''location'', g_text 4096 0),
      (''summary'', g_text 4096 0), (''time_zone'', g_text 128 1)]"

definition g_calendar_list :: "pyobj" where
  "g_calendar_list =
     g_object [(''min_access_role'',
                obj [(''enum'',
                      PList [PStr ''freeBusyReader'', PStr ''owner'', PStr ''reader'',
                             PStr ''writer'', PStr ''writerWithoutPrivateAccess'']),
                     (''type'', PStr ''string'')]),
               (''page_size'',
                obj [(''maximum'', PInt 250), (''minimum'', PInt 1), (''type'', PStr ''integer'')]),
               (''show_deleted'', obj [(''type'', PStr ''boolean'')]),
               (''show_hidden'', obj [(''type'', PStr ''boolean'')]),
               (''show_own_organization_only'', obj [(''type'', PStr ''boolean'')])] []"

definition g_calendar_list_color :: "pyobj" where
  "g_calendar_list_color =
     (let color = obj [(''maxLength'', PInt 7), (''minLength'', PInt 7),
                       (''pattern'', PStr ''^#[0-9a-f]{6}$''), (''type'', PStr ''string'')]
      in g_object [(''background_color'', color), (''foreground_color'', color)]
           [''background_color'', ''foreground_color''])"

definition g_calendar_list_fields :: "fields" where
  "g_calendar_list_fields =
     [(''color'', g_calendar_list_color),
      (''default_reminders'', g_array g_event_reminder 5 0),
      (''hidden'', obj [(''type'', PStr ''boolean'')]),
      (''notification_types'',
       g_array (obj [(''enum'',
                      PList [PStr ''agenda'', PStr ''eventCancellation'', PStr ''eventChange'',
                             PStr ''eventCreation'', PStr ''eventResponse'']),
                     (''type'', PStr ''string'')]) 5 0),
      (''selected'', obj [(''type'', PStr ''boolean'')]),
      (''summary_override'', g_nullable (g_text 4096 0))]"

definition g_calendar_event_list :: "pyobj" where
  "g_calendar_event_list =
     (let extended_property = g_event_extended_property False
      in g_object [(''calendar_id'', g_id),
                   (''event_types'',
                    g_array (obj [(''enum'',
                                   PList [PStr ''birthday'', PStr ''default'', PStr ''focusTime'',
                                          PStr ''fromGmail'', PStr ''outOfOffice'',
                                          PStr ''workingLocation'']),
                                  (''type'', PStr ''string'')]) 6 1),
                   (''i_cal_uid'', g_text 1024 1),
                   (''max_attendees'',
                    obj [(''maximum'', PInt 1000), (''minimum'', PInt 1),
                         (''type'', PStr ''integer'')]),
                   (''order_by'',
                    obj [(''enum'', PList [PStr ''startTime'', PStr ''updated'']),
                         (''type'', PStr ''string'')]),
                   (''page_size'',
                    obj [(''maximum'', PInt 2500), (''minimum'', PInt 1),
                         (''type'', PStr ''integer'')]),
                   (''private_extended_properties'',
                    g_array extended_property MAX_JSON_ARRAY_ITEMS 1),
                   (''query'', g_text 8192 0),
                   (''shared_extended_properties'',
                    g_array extended_property MAX_JSON_ARRAY_ITEMS 1),
                   (''show_deleted'', obj [(''type'', PStr ''boolean'')]),
                   (''show_hidden_invitations'', obj [(''type'', PStr ''boolean'')]),
                   (''single_events'', obj [(''type'', PStr ''boolean'')]),
                   (''time_max'', g_text 64 1),
                   (''time_min'', g_text 64 1),
                   (''time_zone'', g_text 128 1),
                   (''updated_min'', g_text 64 1)] [''calendar_id''])"

definition g_calendar_instance_list :: "pyobj" where
  "g_calendar_instance_list =
     g_object [(''calendar_id'', g_id),
               (''event_id'', g_calendar_event_id),
               (''max_attendees'',
                obj [(''maximum'', PInt 1000), (''minimum'', PInt 1), (''type'', PStr ''integer'')]),
               (''page_size'',
                obj [(''maximum'', PInt 2500), (''minimum'', PInt 1), (''type'', PStr ''integer'')]),
               (''time_max'', g_text 64 1),
               (''time_min'', g_text 64 1),
               (''time_zone'', g_text 128 1)] [''calendar_id'', ''event_id'']"

definition g_app_property :: "bool \<Rightarrow> pyobj" where
  "g_app_property allow_deletion =
     (let value = g_text 124 1;
          value = if allow_deletion then obj
                    [(''oneOf'', PList [value, obj [(''type'', PStr ''null'')]])] else value
      in g_object [(''key'', g_text 124 1), (''value'', value)] [''key'', ''value''])"

definition g_file_metadata_fields :: "bool \<Rightarrow> bool \<Rightarrow> fields" where
  "g_file_metadata_fields allow_parent_id allow_property_deletion =
     (let fields = [(''app_properties'', g_array (g_app_property allow_property_deletion) 30 1),
                    (''description'', g_text 32768 0),
                    (''mime_type'', g_text 256 1),
                    (''name'', g_text 1024 1),
                    (''supports_all_drives'', obj [(''type'', PStr ''boolean'')])];
          fields = if allow_parent_id then fmerge fields [(''parent_id'', g_id)] else fields
      in fields)"

definition g_quoted_file_content :: "pyobj" where
  "g_quoted_file_content =
     g_object [(''mime_type'', g_text 256 1), (''value'', g_text 200000 0)] []"

definition g_drive_file_mutation_schema :: "string list \<Rightarrow> fields \<Rightarrow> bool \<Rightarrow> bool \<Rightarrow> pyobj" where
  "g_drive_file_mutation_schema required leading_fields allow_parent_id allow_property_deletion =
     (let metadata_fields = (fmerge leading_fields
                               (g_file_metadata_fields allow_parent_id allow_property_deletion));
          source_fields = (fmerge metadata_fields
                             [(''content_base64'', g_text 240000 1), (''local_file'', g_local_file)]);
          schema = g_object source_fields required;
          schema = with_key schema ''oneOf''
                     (PList [g_object (fmerge metadata_fields
                                         [(''content_base64'',
                                           field source_fields ''content_base64'')])
                               (required @ [''content_base64'']),
                             g_object (fmerge metadata_fields
                                         [(''local_file'', field source_fields ''local_file'')])
                               (required @ [''local_file'']),
                             g_object metadata_fields required])
      in schema)"

definition g_drive_delivery :: "pyobj" where
  "g_drive_delivery =
     obj [(''enum'', PList [PStr ''artifact'', PStr ''inline_chunk'']), (''type'', PStr ''string'')]"

definition g_drive_content_schema :: "fields \<Rightarrow> string list \<Rightarrow> fields \<Rightarrow> pyobj" where
  "g_drive_content_schema properties required inline_fields =
     (let artifact_fields = (fmerge properties
                               [(''delivery'',
                                 obj [(''const'', PStr ''artifact''), (''type'', PStr ''string'')]),
                                (''filename'', g_text 512 1),
                                (''mime_type'', g_text 256 1)]);
          inline_properties = (fmerge (fmerge properties
                                         [(''delivery'',
                                           obj [(''const'', PStr ''inline_chunk''),
                                                (''type'', PStr ''string'')])]) inline_fields);
          schema = g_object (fmerge (fmerge properties
                                       [(''delivery'', g_drive_delivery),
                                        (''filename'', g_text 512 1), (''mime_type'', g_text 256 1)])
                               inline_fields) required;
          schema = with_key schema ''oneOf''
                     (PList [g_object artifact_fields required,
                             g_object inline_properties (required @ [''delivery''])])
      in schema)"

definition g_drive_list :: "pyobj" where
  "g_drive_list =
     g_object [(''corpora'',
                obj [(''enum'',
                      PList [PStr ''allDrives'', PStr ''domain'', PStr ''drive'', PStr ''user'']),
                     (''type'', PStr ''string'')]),
               (''drive_id'', g_id),
               (''include_items_from_all_drives'', obj [(''type'', PStr ''boolean'')]),
               (''include_trashed'', obj [(''type'', PStr ''boolean'')]),
               (''mime_type'', g_text 256 1),
               (''order_by'',
                g_array (obj [(''enum'',
                               PList [PStr ''createdTime'', PStr ''createdTime desc'',
                                      PStr ''folder'', PStr ''folder desc'',
                                      PStr ''modifiedByMeTime'', PStr ''modifiedByMeTime desc'',
                                      PStr ''modifiedTime'', PStr ''modifiedTime desc'',
                                      PStr ''name'', PStr ''name desc'', PStr ''name_natural'',
                                      PStr ''name_natural desc'', PStr ''quotaBytesUsed'',
                                      PStr ''quotaBytesUsed desc'', PStr ''recency'',
                                      PStr ''recency desc'', PStr ''sharedWithMeTime'',
                                      PStr ''sharedWithMeTime desc'', PStr ''starred'',
                                      PStr ''starred desc'', PStr ''viewedByMeTime'',
                                      PStr ''viewedByMeTime desc'']),
                              (''type'', PStr ''string'')]) 10 1),
               (''page_size'',
                obj [(''maximum'', PInt 1000), (''minimum'', PInt 1), (''type'', PStr ''integer'')]),
               (''parent_id'', g_id),
               (''query'', g_text 8192 0),
               (''spaces'',
                g_array (obj [(''enum'', PList [PStr ''appDataFolder'', PStr ''drive'']),
                              (''type'', PStr ''string'')]) 2 1),
               (''supports_all_drives'', obj [(''type'', PStr ''boolean'')])] []"

definition g_drive_changes :: "pyobj" where
  "g_drive_changes =
     g_object [(''page_size'',
                obj [(''maximum'', PInt 1000), (''minimum'', PInt 1), (''type'', PStr ''integer'')]),
               (''start_change_id'', g_text 4096 1)] [''start_change_id'']"

definition g_shared_drive_list :: "pyobj" where
  "g_shared_drive_list =
     g_object [(''page_size'',
                obj [(''maximum'', PInt 100), (''minimum'', PInt 1), (''type'', PStr ''integer'')]),
               (''query'', g_text 8192 0)] []"

definition g_drive_capabilities_snapshot :: "pyobj" where
  "g_drive_capabilities_snapshot =
     (let marker = g_nullable (obj [(''type'', PStr ''boolean'')])
      in g_object [(''canAddChildren'', marker),
                   (''canAddFolderFromAnotherDrive'', marker),
                   (''canDelete'', marker),
                   (''canMoveItemOutOfDrive'', marker),
                   (''canMoveItemWithinDrive'', marker),
                   (''canTrash'', marker),
                   (''canUntrash'', marker)]
           [''canAddChildren'', ''canAddFolderFromAnotherDrive'', ''canDelete'',
            ''canMoveItemOutOfDrive'', ''canMoveItemWithinDrive'', ''canTrash'', ''canUntrash''])"

definition g_drive_file_snapshot :: "pyobj" where
  "g_drive_file_snapshot =
     g_object [(''capabilities'', g_drive_capabilities_snapshot),
               (''driveId'', g_nullable g_id),
               (''explicitlyTrashed'', obj [(''type'', PStr ''boolean'')]),
               (''id'', g_id),
               (''mimeType'', g_text 256 1),
               (''name'', g_text 1024 0),
               (''ownedByMe'', g_nullable (obj [(''type'', PStr ''boolean'')])),
               (''parents'', g_array g_id 32 0),
               (''resourceKey'', g_nullable g_drive_resource_key),
               (''trashed'', obj [(''type'', PStr ''boolean'')]),
               (''version'', g_drive_version)]
       [''capabilities'', ''driveId'', ''explicitlyTrashed'', ''id'', ''mimeType'', ''name'',
        ''ownedByMe'', ''parents'', ''resourceKey'', ''trashed'', ''version'']"

definition g_drive_lifecycle_schema :: "bool \<Rightarrow> pyobj" where
  "g_drive_lifecycle_schema move =
     (let properties = [(''expected_file'', g_drive_file_snapshot), (''file_id'', g_id)];
          required = [''expected_file'', ''file_id''];
          properties = if move then fmerge properties
                         [(''current_parent_resource_key'', g_drive_resource_key),
                          (''expected_destination'', g_drive_file_snapshot)] else properties;
          required = if move then required @ [''expected_destination''] else required
      in g_object properties required)"

definition g_permission_create_schema :: "pyobj" where
  "g_permission_create_schema =
     (let common = [(''file_id'', g_id),
                    (''permission_type'',
                     obj [(''enum'',
                           PList [PStr ''user'', PStr ''group'', PStr ''domain'', PStr ''anyone'']),
                          (''type'', PStr ''string'')]),
                    (''role'',
                     obj [(''enum'',
                           PList [PStr ''reader'', PStr ''commenter'', PStr ''writer'',
                                  PStr ''fileOrganizer'', PStr ''organizer'']),
                          (''type'', PStr ''string'')]),
                    (''supports_all_drives'', obj [(''type'', PStr ''boolean'')])];
          schema = g_object (fmerge common [(''allow_file_discovery'',
                                             obj [(''type'', PStr ''boolean'')]),
                                            (''domain'', g_text 253 1),
                                            (''email_address'', g_text 512 1),
                                            (''expiration_time'', g_text 64 1),
                                            (''notification_message'', g_text 16384 0),
                                            (''send_notification_email'',
                                             obj [(''type'', PStr ''boolean'')])])
                     [''file_id'', ''permission_type'', ''role''];
          user_group_base = (fmerge common [(''email_address'', g_text 512 1),
                                            (''expiration_time'', g_text 64 1),
                                            (''notification_message'', g_text 16384 0),
                                            (''send_notification_email'',
                                             obj [(''type'', PStr ''boolean'')])]);
          schema = with_key schema ''oneOf''
                     (PList [g_object (fmerge user_group_base
                                         [(''permission_type'',
                                           obj [(''const'', PStr ''user''),
                                                (''type'', PStr ''string'')])])
                               [''email_address'', ''file_id'', ''permission_type'', ''role''],
                             g_object (fmerge user_group_base
                                         [(''permission_type'',
                                           obj [(''const'', PStr ''group''),
                                                (''type'', PStr ''string'')])])
                               [''email_address'', ''file_id'', ''permission_type'', ''role''],
                             g_object (fmerge common [(''allow_file_discovery'',
                                                       obj [(''type'', PStr ''boolean'')]),
                                                      (''domain'', g_text 253 1),
                                                      (''permission_type'',
                                                       obj [(''const'', PStr ''domain''),
                                                            (''type'', PStr ''string'')])])
                               [''domain'', ''file_id'', ''permission_type'', ''role''],
                             g_object (fmerge common [(''allow_file_discovery'',
                                                       obj [(''type'', PStr ''boolean'')]),
                                                      (''permission_type'',
                                                       obj [(''const'', PStr ''anyone''),
                                                            (''type'', PStr ''string'')])])
                               [''file_id'', ''permission_type'', ''role'']])
      in schema)"

definition g_comment_create_schema :: "pyobj" where
  "g_comment_create_schema =
     g_object [(''anchor'', g_text 32768 0),
               (''content'', g_text 200000 1),
               (''file_id'', g_id),
               (''quoted_file_content'', g_quoted_file_content)] [''content'', ''file_id'']"

definition g_reply_create_schema :: "pyobj" where
  "g_reply_create_schema =
     (let identifiers = [(''comment_id'', g_id), (''file_id'', g_id)];
          content = (fmerge identifiers [(''content'', g_text 200000 1)]);
          action = (fmerge identifiers
                      [(''action'',
                        obj [(''enum'', PList [PStr ''reopen'', PStr ''resolve'']),
                             (''type'', PStr ''string'')])]);
          both = (fmerge content [(''action'',
                                   obj [(''enum'', PList [PStr ''reopen'', PStr ''resolve'']),
                                        (''type'', PStr ''string'')])]);
          schema = g_object (fmerge identifiers
                               [(''action'',
                                 obj [(''enum'', PList [PStr ''reopen'', PStr ''resolve'']),
                                      (''type'', PStr ''string'')]),
                                (''content'', g_text 200000 1)]) [''comment_id'', ''file_id''];
          schema = with_key schema ''oneOf''
                     (PList [g_object content [''comment_id'', ''content'', ''file_id''],
                             g_object action [''action'', ''comment_id'', ''file_id''],
                             g_object both [''action'', ''comment_id'', ''content'', ''file_id'']])
      in schema)"

definition g_drive_move_schema :: "pyobj" where
  "g_drive_move_schema =
     g_drive_lifecycle_schema True"

definition G_GMAIL_READ_SCOPES :: "string list list" where
  "G_GMAIL_READ_SCOPES =
     g_scopes [G_GMAIL_READONLY, G_GMAIL_MODIFY, G_MAIL]"

definition G_GMAIL_WRITE_SCOPES :: "string list list" where
  "G_GMAIL_WRITE_SCOPES =
     g_scopes [G_GMAIL_MODIFY, G_MAIL]"

definition G_GMAIL_SETTINGS_WRITE_SCOPES :: "string list list" where
  "G_GMAIL_SETTINGS_WRITE_SCOPES =
     g_scopes [G_GMAIL_SETTINGS_BASIC]"

definition G_GMAIL_PURGE_SCOPES :: "string list list" where
  "G_GMAIL_PURGE_SCOPES =
     g_scopes [G_MAIL]"

definition G_CALENDAR_LIST_SCOPES :: "string list list" where
  "G_CALENDAR_LIST_SCOPES =
     g_scopes [G_CALENDAR_LIST, G_CALENDAR_LIST_READONLY, G_CALENDAR_READONLY, G_CALENDAR]"

definition G_CALENDAR_LIST_WRITE_SCOPES :: "string list list" where
  "G_CALENDAR_LIST_WRITE_SCOPES =
     g_scopes [G_CALENDAR_LIST, G_CALENDAR]"

definition G_CALENDAR_RESOURCE_READ_SCOPES :: "string list list" where
  "G_CALENDAR_RESOURCE_READ_SCOPES =
     g_scopes [G_CALENDAR_CALENDARS_READONLY, G_CALENDAR_CALENDARS, G_CALENDAR_READONLY, G_CALENDAR]"

definition G_CALENDAR_EVENT_READ_SCOPES :: "string list list" where
  "G_CALENDAR_EVENT_READ_SCOPES =
     g_scopes [G_CALENDAR_EVENTS_READONLY, G_CALENDAR_EVENTS, G_CALENDAR_READONLY, G_CALENDAR]"

definition G_CALENDAR_FREEBUSY_SCOPES :: "string list list" where
  "G_CALENDAR_FREEBUSY_SCOPES =
     g_scopes [G_CALENDAR_FREEBUSY, G_CALENDAR_READONLY, G_CALENDAR]"

definition G_CALENDAR_WRITE_SCOPES :: "string list list" where
  "G_CALENDAR_WRITE_SCOPES =
     g_scopes [G_CALENDAR_CALENDARS, G_CALENDAR]"

definition G_CALENDAR_EVENT_WRITE_SCOPES :: "string list list" where
  "G_CALENDAR_EVENT_WRITE_SCOPES =
     g_scopes [G_CALENDAR_EVENTS, G_CALENDAR]"

definition G_DRIVE_METADATA_SCOPES :: "string list list" where
  "G_DRIVE_METADATA_SCOPES =
     g_scopes [G_DRIVE_METADATA_READONLY, G_DRIVE_READONLY, G_DRIVE_FILE, G_DRIVE]"

definition G_DRIVE_CONTENT_SCOPES :: "string list list" where
  "G_DRIVE_CONTENT_SCOPES =
     g_scopes [G_DRIVE_READONLY, G_DRIVE_FILE, G_DRIVE]"

definition G_DRIVE_COMMENT_READ_SCOPES :: "string list list" where
  "G_DRIVE_COMMENT_READ_SCOPES =
     g_scopes [G_DRIVE_READONLY, G_DRIVE_FILE, G_DRIVE_MEET_READONLY, G_DRIVE]"

definition G_DRIVE_WRITE_SCOPES :: "string list list" where
  "G_DRIVE_WRITE_SCOPES =
     g_scopes [G_DRIVE_FILE, G_DRIVE]"

definition gmail_read_operations_1 :: "operation_args list" where
  "gmail_read_operations_1 =
     [(''gmail'', READ, ''profile.get'', E_READ, G_GMAIL_READ_SCOPES, g_object [] []),
      (''gmail'', READ, ''messages.list'', E_READ, G_GMAIL_READ_SCOPES, g_mail_list),
      (''gmail'', READ, ''messages.get'', E_READ, G_GMAIL_READ_SCOPES, g_gmail_message_get),
      (''gmail'', READ, ''attachments.get'', E_READ, G_GMAIL_READ_SCOPES, g_gmail_attachment_content),
      (''gmail'', READ, ''threads.list'', E_READ, G_GMAIL_READ_SCOPES, g_mail_list),
      (''gmail'', READ, ''threads.get'', E_READ, G_GMAIL_READ_SCOPES, g_gmail_thread_get),
      (''gmail'', READ, ''drafts.list'', E_READ, G_GMAIL_READ_SCOPES, g_draft_list),
      (''gmail'',
       READ,
       ''drafts.get'',
       E_READ,
       G_GMAIL_READ_SCOPES,
       g_object [(''draft_id'', g_id),
                 (''format'',
                  obj [(''enum'', PList [PStr ''full'', PStr ''metadata'', PStr ''minimal'']),
                       (''type'', PStr ''string'')])] [''draft_id'']),
      (''gmail'', READ, ''labels.list'', E_READ, G_GMAIL_READ_SCOPES, g_object [] []),
      (''gmail'',
       READ,
       ''labels.get'',
       E_READ,
       G_GMAIL_READ_SCOPES,
       g_object [(''label_id'', g_id)] [''label_id'']),
      (''gmail'',
       READ,
       ''history.list'',
       E_READ,
       G_GMAIL_READ_SCOPES,
       g_object [(''history_types'',
                  g_array (obj [(''enum'',
                                 PList [PStr ''labelAdded'', PStr ''labelRemoved'',
                                        PStr ''messageAdded'', PStr ''messageDeleted'']),
                                (''type'', PStr ''string'')]) 4 0),
                 (''label_id'', g_id),
                 (''page_size'',
                  obj [(''maximum'', PInt 500), (''minimum'', PInt 1), (''type'', PStr ''integer'')]),
                 (''start_history_id'',
                  obj [(''maxLength'', PInt 20), (''minLength'', PInt 1),
                       (''pattern'', PStr ''^[0-9]+$''), (''type'', PStr ''string'')])]
         [''start_history_id'']),
      (''gmail'', READ, ''settings.auto_forwarding.get'', E_READ, G_GMAIL_READ_SCOPES,
       g_object [] []),
      (''gmail'', READ, ''settings.imap.get'', E_READ, G_GMAIL_READ_SCOPES, g_object [] []),
      (''gmail'', READ, ''settings.language.get'', E_READ, G_GMAIL_READ_SCOPES, g_object [] []),
      (''gmail'', READ, ''settings.pop.get'', E_READ, G_GMAIL_READ_SCOPES, g_object [] [])]"

definition gmail_read_operations_2 :: "operation_args list" where
  "gmail_read_operations_2 =
     [(''gmail'', READ, ''settings.vacation.get'', E_READ, G_GMAIL_READ_SCOPES, g_object [] []),
      (''gmail'', READ, ''settings.filters.list'', E_READ, G_GMAIL_READ_SCOPES, g_object [] []),
      (''gmail'',
       READ,
       ''settings.filters.get'',
       E_READ,
       G_GMAIL_READ_SCOPES,
       g_object [(''filter_id'', g_id)] [''filter_id'']),
      (''gmail'', READ, ''settings.forwarding_addresses.list'', E_READ, G_GMAIL_READ_SCOPES,
       g_object [] []),
      (''gmail'',
       READ,
       ''settings.forwarding_addresses.get'',
       E_READ,
       G_GMAIL_READ_SCOPES,
       g_object [(''forwarding_email'', g_text 512 1)] [''forwarding_email'']),
      (''gmail'', READ, ''settings.send_as.list'', E_READ, G_GMAIL_READ_SCOPES, g_object [] []),
      (''gmail'',
       READ,
       ''settings.send_as.get'',
       E_READ,
       G_GMAIL_READ_SCOPES,
       g_object [(''send_as_email'', g_text 512 1)] [''send_as_email''])]"

definition gmail_write_operations_1 :: "operation_args list" where
  "gmail_write_operations_1 =
     [(''gmail'', WRITE, ''drafts.create'', SAFE_MUTATION, G_GMAIL_WRITE_SCOPES,
       g_object g_mail_fields []),
      (''gmail'',
       WRITE,
       ''drafts.update'',
       SAFE_MUTATION,
       G_GMAIL_WRITE_SCOPES,
       g_object (fmerge [(''draft_id'', g_id)] g_mail_fields) [''draft_id'']),
      (''gmail'',
       WRITE,
       ''drafts.delete'',
       PERMANENT,
       G_GMAIL_WRITE_SCOPES,
       g_object [(''draft_id'', g_id)] [''draft_id'']),
      (''gmail'',
       WRITE,
       ''drafts.send'',
       OUTWARD,
       G_GMAIL_WRITE_SCOPES,
       g_object [(''draft_id'', g_id)] [''draft_id'']),
      (''gmail'', WRITE, ''messages.send'', OUTWARD, G_GMAIL_WRITE_SCOPES, g_gmail_send),
      (''gmail'', WRITE, ''messages.insert'', SAFE_MUTATION, G_GMAIL_WRITE_SCOPES,
       g_gmail_migration False),
      (''gmail'', WRITE, ''messages.import'', SAFE_MUTATION, G_GMAIL_WRITE_SCOPES,
       g_gmail_migration True),
      (''gmail'', WRITE, ''messages.modify'', SAFE_MUTATION, G_GMAIL_WRITE_SCOPES,
       g_gmail_modify ''message_id'' g_id),
      (''gmail'',
       WRITE,
       ''messages.batch_modify'',
       SAFE_MUTATION,
       G_GMAIL_WRITE_SCOPES,
       g_gmail_modify ''message_ids'' (g_array g_id 1000 1)),
      (''gmail'',
       WRITE,
       ''messages.batch_purge'',
       PERMANENT,
       G_GMAIL_PURGE_SCOPES,
       g_object [(''message_ids'', g_array g_id 1000 1)] [''message_ids'']),
      (''gmail'',
       WRITE,
       ''messages.trash'',
       SAFE_MUTATION,
       G_GMAIL_WRITE_SCOPES,
       g_object [(''message_id'', g_id)] [''message_id'']),
      (''gmail'',
       WRITE,
       ''messages.restore'',
       SAFE_MUTATION,
       G_GMAIL_WRITE_SCOPES,
       g_object [(''message_id'', g_id)] [''message_id'']),
      (''gmail'',
       WRITE,
       ''messages.purge'',
       PERMANENT,
       G_GMAIL_PURGE_SCOPES,
       g_object [(''message_id'', g_id)] [''message_id'']),
      (''gmail'', WRITE, ''threads.modify'', SAFE_MUTATION, G_GMAIL_WRITE_SCOPES,
       g_gmail_modify ''thread_id'' g_id),
      (''gmail'',
       WRITE,
       ''threads.trash'',
       SAFE_MUTATION,
       G_GMAIL_WRITE_SCOPES,
       g_object [(''thread_id'', g_id)] [''thread_id'']),
      (''gmail'',
       WRITE,
       ''threads.restore'',
       SAFE_MUTATION,
       G_GMAIL_WRITE_SCOPES,
       g_object [(''thread_id'', g_id)] [''thread_id'']),
      (''gmail'',
       WRITE,
       ''threads.purge'',
       PERMANENT,
       G_GMAIL_PURGE_SCOPES,
       g_object [(''thread_id'', g_id)] [''thread_id'']),
      (''gmail'',
       WRITE,
       ''labels.create'',
       SAFE_MUTATION,
       G_GMAIL_WRITE_SCOPES,
       g_object g_gmail_label_fields [''name''])]"

definition gmail_write_operations_2 :: "operation_args list" where
  "gmail_write_operations_2 =
     [(''gmail'',
       WRITE,
       ''labels.update'',
       SAFE_MUTATION,
       G_GMAIL_WRITE_SCOPES,
       g_object (fmerge [(''label_id'', g_id)] g_gmail_label_fields) [''label_id'']),
      (''gmail'',
       WRITE,
       ''labels.purge'',
       PERMANENT,
       G_GMAIL_WRITE_SCOPES,
       g_object [(''expected_label'', g_gmail_label_snapshot), (''label_id'', g_id)]
         [''expected_label'', ''label_id'']),
      (''gmail'', WRITE, ''settings.filters.create'', SAFE_MUTATION, G_GMAIL_SETTINGS_WRITE_SCOPES,
       g_gmail_filter_create),
      (''gmail'',
       WRITE,
       ''settings.filters.delete'',
       PERMANENT,
       G_GMAIL_SETTINGS_WRITE_SCOPES,
       g_object [(''expected_filter'', g_gmail_filter_snapshot), (''filter_id'', g_id)]
         [''expected_filter'', ''filter_id'']),
      (''gmail'', WRITE, ''settings.imap.update'', SAFE_MUTATION, G_GMAIL_SETTINGS_WRITE_SCOPES,
       g_gmail_imap_update),
      (''gmail'',
       WRITE,
       ''settings.language.update'',
       SAFE_MUTATION,
       G_GMAIL_SETTINGS_WRITE_SCOPES,
       g_object [(''display_language'', g_text 64 1)] [''display_language'']),
      (''gmail'', WRITE, ''settings.pop.update'', SAFE_MUTATION, G_GMAIL_SETTINGS_WRITE_SCOPES,
       g_gmail_pop_update),
      (''gmail'', WRITE, ''settings.vacation.update'', SAFE_MUTATION, G_GMAIL_SETTINGS_WRITE_SCOPES,
       g_gmail_vacation_update),
      (''gmail'', WRITE, ''settings.send_as.patch'', OUTWARD, G_GMAIL_SETTINGS_WRITE_SCOPES,
       g_gmail_send_as_patch)]"

definition google_calendar_read_operations :: "operation_args list" where
  "google_calendar_read_operations =
     [(''google_calendar'', READ, ''calendars.list'', E_READ, G_CALENDAR_LIST_SCOPES,
       g_calendar_list),
      (''google_calendar'',
       READ,
       ''calendar_list.get'',
       E_READ,
       G_CALENDAR_LIST_SCOPES,
       g_object [(''calendar_id'', g_id)] [''calendar_id'']),
      (''google_calendar'', READ, ''colors.get'', E_READ, G_CALENDAR_LIST_SCOPES, g_object [] []),
      (''google_calendar'',
       READ,
       ''calendars.get'',
       E_READ,
       G_CALENDAR_RESOURCE_READ_SCOPES,
       g_object [(''calendar_id'', g_id)] [''calendar_id'']),
      (''google_calendar'', READ, ''events.list'', E_READ, G_CALENDAR_EVENT_READ_SCOPES,
       g_calendar_event_list),
      (''google_calendar'',
       READ,
       ''events.get'',
       E_READ,
       G_CALENDAR_EVENT_READ_SCOPES,
       g_object [(''calendar_id'', g_id), (''event_id'', g_calendar_event_id)]
         [''calendar_id'', ''event_id'']),
      (''google_calendar'', READ, ''events.instances'', E_READ, G_CALENDAR_EVENT_READ_SCOPES,
       g_calendar_instance_list),
      (''google_calendar'',
       READ,
       ''freebusy.query'',
       E_READ,
       G_CALENDAR_FREEBUSY_SCOPES,
       g_object [(''calendar_ids'', g_array g_id 50 1), (''time_max'', g_text 64 1),
                 (''time_min'', g_text 64 1), (''time_zone'', g_text 128 1)]
         [''calendar_ids'', ''time_max'', ''time_min''])]"

definition google_calendar_write_operations_1 :: "operation_args list" where
  "google_calendar_write_operations_1 =
     [(''google_calendar'',
       WRITE,
       ''calendar_list.insert'',
       SAFE_MUTATION,
       G_CALENDAR_LIST_WRITE_SCOPES,
       g_object (fmerge [(''calendar_id'', g_id)] g_calendar_list_fields) [''calendar_id'']),
      (''google_calendar'',
       WRITE,
       ''calendar_list.update'',
       SAFE_MUTATION,
       G_CALENDAR_LIST_WRITE_SCOPES,
       g_object (fmerge [(''calendar_id'', g_id), (''etag'', g_text 1024 1)] g_calendar_list_fields)
         [''calendar_id'', ''etag'']),
      (''google_calendar'',
       WRITE,
       ''calendar_list.remove'',
       DESTRUCTIVE,
       G_CALENDAR_LIST_WRITE_SCOPES,
       g_object [(''calendar_id'', g_id),
                 (''etag'', g_text 1024 1),
                 (''expected_calendar'', g_expected_calendar_list_entry)]
         [''calendar_id'', ''etag'', ''expected_calendar'']),
      (''google_calendar'',
       WRITE,
       ''calendars.create'',
       SAFE_MUTATION,
       G_CALENDAR_WRITE_SCOPES,
       g_object g_calendar_fields [''summary'']),
      (''google_calendar'',
       WRITE,
       ''calendars.update'',
       SAFE_MUTATION,
       G_CALENDAR_WRITE_SCOPES,
       g_object (fmerge [(''calendar_id'', g_id), (''etag'', g_text 1024 1)] g_calendar_fields)
         [''calendar_id'', ''etag'']),
      (''google_calendar'',
       WRITE,
       ''calendars.delete'',
       PERMANENT,
       G_CALENDAR_WRITE_SCOPES,
       g_object [(''calendar_id'', g_id),
                 (''etag'', g_text 1024 1),
                 (''expected_calendar'', g_expected_calendar_list_entry)]
         [''calendar_id'', ''etag'', ''expected_calendar'']),
      (''google_calendar'', WRITE, ''events.create'', SAFE_MUTATION, G_CALENDAR_EVENT_WRITE_SCOPES,
       g_calendar_event_create_schema),
      (''google_calendar'',
       WRITE,
       ''events.update'',
       SAFE_MUTATION,
       G_CALENDAR_EVENT_WRITE_SCOPES,
       g_object (fmerge (fmerge [(''calendar_id'', g_id), (''etag'', g_text 1024 1)]
                           (g_event_fields True))
                   [(''expected_event'', g_expected_event),
                    (''status'',
                     obj [(''enum'', PList [PStr ''confirmed'', PStr ''tentative'']),
                          (''type'', PStr ''string'')])]) [''calendar_id'', ''event_id'', ''etag'']),
      (''google_calendar'',
       WRITE,
       ''events.move'',
       SAFE_MUTATION,
       G_CALENDAR_EVENT_WRITE_SCOPES,
       g_object [(''calendar_id'', g_id),
                 (''destination_calendar_id'', g_id),
                 (''event_id'', g_calendar_event_id),
                 (''etag'', g_text 1024 1),
                 (''expected_destination_calendar'', g_expected_calendar_list_entry),
                 (''expected_event'', g_expected_event),
                 (''send_updates'',
                  obj [(''enum'', PList [PStr ''all'', PStr ''externalOnly'', PStr ''none'']),
                       (''type'', PStr ''string'')])]
         [''calendar_id'', ''destination_calendar_id'', ''etag'', ''event_id'',
          ''expected_destination_calendar'', ''expected_event'', ''send_updates''])]"

definition google_calendar_write_operations_2 :: "operation_args list" where
  "google_calendar_write_operations_2 =
     [(''google_calendar'',
       WRITE,
       ''events.respond'',
       OUTWARD,
       G_CALENDAR_EVENT_WRITE_SCOPES,
       g_object [(''calendar_id'', g_id),
                 (''comment'', g_text 16384 0),
                 (''etag'', g_text 1024 1),
                 (''event_id'', g_calendar_event_id),
                 (''expected_event'', g_expected_event),
                 (''response_status'',
                  obj [(''enum'', PList [PStr ''accepted'', PStr ''declined'', PStr ''tentative'']),
                       (''type'', PStr ''string'')]),
                 (''send_updates'',
                  obj [(''enum'', PList [PStr ''all'', PStr ''externalOnly'', PStr ''none'']),
                       (''type'', PStr ''string'')])]
         [''calendar_id'', ''etag'', ''event_id'', ''expected_event'', ''response_status'']),
      (''google_calendar'',
       WRITE,
       ''events.delete'',
       DESTRUCTIVE,
       G_CALENDAR_EVENT_WRITE_SCOPES,
       g_object [(''calendar_id'', g_id),
                 (''etag'', g_text 1024 1),
                 (''event_id'', g_calendar_event_id),
                 (''expected_event'', g_expected_event),
                 (''send_updates'',
                  obj [(''enum'', PList [PStr ''all'', PStr ''externalOnly'', PStr ''none'']),
                       (''type'', PStr ''string'')])]
         [''calendar_id'', ''event_id'', ''etag'', ''expected_event'', ''send_updates''])]"

definition google_drive_read_operations_1 :: "operation_args list" where
  "google_drive_read_operations_1 =
     [(''google_drive'', READ, ''drives.list'', E_READ, g_scopes [G_DRIVE_READONLY, G_DRIVE],
       g_shared_drive_list),
      (''google_drive'', READ, ''files.list'', E_READ, G_DRIVE_METADATA_SCOPES, g_drive_list),
      (''google_drive'', READ, ''changes.get_start_page_token'', E_READ, G_DRIVE_METADATA_SCOPES,
       g_object [] []),
      (''google_drive'', READ, ''changes.list'', E_READ, G_DRIVE_METADATA_SCOPES, g_drive_changes),
      (''google_drive'',
       READ,
       ''files.get'',
       E_READ,
       G_DRIVE_METADATA_SCOPES,
       g_object [(''file_id'', g_id),
                 (''lifecycle_snapshot'', obj [(''type'', PStr ''boolean'')]),
                 (''resource_key'', g_drive_resource_key),
                 (''supports_all_drives'', obj [(''type'', PStr ''boolean'')])] [''file_id'']),
      (''google_drive'',
       READ,
       ''files.content'',
       E_READ,
       G_DRIVE_CONTENT_SCOPES,
       g_drive_content_schema
         [(''file_id'', g_id),
          (''resource_key'', g_drive_resource_key),
          (''supports_all_drives'', obj [(''type'', PStr ''boolean'')])] [''file_id'']
         [(''byte_offset'',
           obj [(''maximum'', PInt G_MAX_DRIVE_BYTE_OFFSET),
                (''minimum'', PInt 0),
                (''type'', PStr ''integer'')]),
          (''max_chunk_size'',
           obj [(''maximum'', PInt 240000), (''minimum'', PInt 1), (''type'', PStr ''integer'')])]),
      (''google_drive'',
       READ,
       ''files.download'',
       E_READ,
       G_DRIVE_CONTENT_SCOPES,
       g_drive_content_schema
         [(''file_id'', g_id),
          (''mime_type'', g_text 256 1),
          (''resource_key'', g_drive_resource_key),
          (''revision_id'', g_id)] [''file_id'']
         [(''byte_offset'',
           obj [(''maximum'', PInt G_MAX_DRIVE_BYTE_OFFSET),
                (''minimum'', PInt 0),
                (''type'', PStr ''integer'')]),
          (''max_chunk_size'',
           obj [(''maximum'', PInt 240000), (''minimum'', PInt 1), (''type'', PStr ''integer'')])]),
      (''google_drive'',
       READ,
       ''files.export'',
       E_READ,
       G_DRIVE_CONTENT_SCOPES,
       g_drive_content_schema [(''export_mime_type'', g_text 256 1), (''file_id'', g_id)]
         [''export_mime_type'', ''file_id''] []),
      (''google_drive'',
       READ,
       ''permissions.list'',
       E_READ,
       G_DRIVE_METADATA_SCOPES,
       g_object [(''file_id'', g_id),
                 (''page_size'',
                  obj [(''maximum'', PInt 100), (''minimum'', PInt 1), (''type'', PStr ''integer'')]),
                 (''supports_all_drives'', obj [(''type'', PStr ''boolean'')])] [''file_id'']),
      (''google_drive'',
       READ,
       ''comments.list'',
       E_READ,
       G_DRIVE_COMMENT_READ_SCOPES,
       g_object [(''file_id'', g_id),
                 (''page_size'',
                  obj [(''maximum'', PInt 100), (''minimum'', PInt 1), (''type'', PStr ''integer'')])]
         [''file_id'']),
      (''google_drive'',
       READ,
       ''replies.list'',
       E_READ,
       G_DRIVE_COMMENT_READ_SCOPES,
       g_object [(''comment_id'', g_id),
                 (''file_id'', g_id),
                 (''page_size'',
                  obj [(''maximum'', PInt 100), (''minimum'', PInt 1), (''type'', PStr ''integer'')])]
         [''comment_id'', ''file_id''])]"

definition google_drive_read_operations_2 :: "operation_args list" where
  "google_drive_read_operations_2 =
     [(''google_drive'',
       READ,
       ''revisions.list'',
       E_READ,
       G_DRIVE_METADATA_SCOPES,
       g_object [(''file_id'', g_id),
                 (''page_size'',
                  obj [(''maximum'', PInt 1000), (''minimum'', PInt 1), (''type'', PStr ''integer'')])]
         [''file_id'']),
      (''google_drive'',
       READ,
       ''revisions.download'',
       E_READ,
       G_DRIVE_CONTENT_SCOPES,
       g_drive_content_schema [(''file_id'', g_id), (''revision_id'', g_id)]
         [''file_id'', ''revision_id'']
         [(''byte_offset'',
           obj [(''maximum'', PInt G_MAX_DRIVE_BYTE_OFFSET),
                (''minimum'', PInt 0),
                (''type'', PStr ''integer'')]),
          (''max_chunk_size'',
           obj [(''maximum'', PInt 240000), (''minimum'', PInt 1), (''type'', PStr ''integer'')])])]"

definition google_drive_write_operations_1 :: "operation_args list" where
  "google_drive_write_operations_1 =
     [(''google_drive'',
       WRITE,
       ''files.create'',
       SAFE_MUTATION,
       G_DRIVE_WRITE_SCOPES,
       g_drive_file_mutation_schema [''mime_type'', ''name''] [] True False),
      (''google_drive'',
       WRITE,
       ''files.update'',
       SAFE_MUTATION,
       G_DRIVE_WRITE_SCOPES,
       g_drive_file_mutation_schema [''file_id''] [(''file_id'', g_id)] False True),
      (''google_drive'',
       WRITE,
       ''files.copy'',
       SAFE_MUTATION,
       G_DRIVE_WRITE_SCOPES,
       g_object (fmerge [(''file_id'', g_id)] (g_file_metadata_fields True True)) [''file_id'']),
      (''google_drive'', WRITE, ''files.move'', OUTWARD, G_DRIVE_WRITE_SCOPES, g_drive_move_schema),
      (''google_drive'', WRITE, ''files.trash'', DESTRUCTIVE, G_DRIVE_WRITE_SCOPES,
       g_drive_lifecycle_schema False),
      (''google_drive'', WRITE, ''files.restore'', OUTWARD, G_DRIVE_WRITE_SCOPES,
       g_drive_lifecycle_schema False),
      (''google_drive'', WRITE, ''files.purge'', PERMANENT, G_DRIVE_WRITE_SCOPES,
       g_drive_lifecycle_schema False),
      (''google_drive'', WRITE, ''permissions.create'', OUTWARD, G_DRIVE_WRITE_SCOPES,
       g_permission_create_schema),
      (''google_drive'',
       WRITE,
       ''permissions.update'',
       OUTWARD,
       G_DRIVE_WRITE_SCOPES,
       g_object [(''file_id'', g_id),
                 (''permission_id'', g_id),
                 (''role'',
                  obj [(''enum'',
                        PList [PStr ''reader'', PStr ''commenter'', PStr ''writer'',
                               PStr ''fileOrganizer'', PStr ''organizer'']),
                       (''type'', PStr ''string'')]),
                 (''supports_all_drives'', obj [(''type'', PStr ''boolean'')])]
         [''file_id'', ''permission_id'', ''role'']),
      (''google_drive'',
       WRITE,
       ''permissions.delete'',
       DESTRUCTIVE,
       G_DRIVE_WRITE_SCOPES,
       g_object [(''file_id'', g_id),
                 (''permission_id'', g_id),
                 (''supports_all_drives'', obj [(''type'', PStr ''boolean'')])]
         [''file_id'', ''permission_id'']),
      (''google_drive'', WRITE, ''comments.create'', OUTWARD, G_DRIVE_WRITE_SCOPES,
       g_comment_create_schema),
      (''google_drive'',
       WRITE,
       ''comments.update'',
       OUTWARD,
       G_DRIVE_WRITE_SCOPES,
       g_object [(''comment_id'', g_id), (''content'', g_text 200000 1), (''file_id'', g_id)]
         [''comment_id'', ''content'', ''file_id'']),
      (''google_drive'',
       WRITE,
       ''comments.delete'',
       DESTRUCTIVE,
       G_DRIVE_WRITE_SCOPES,
       g_object [(''comment_id'', g_id), (''file_id'', g_id)] [''comment_id'', ''file_id''])]"

definition google_drive_write_operations_2 :: "operation_args list" where
  "google_drive_write_operations_2 =
     [(''google_drive'', WRITE, ''replies.create'', OUTWARD, G_DRIVE_WRITE_SCOPES,
       g_reply_create_schema),
      (''google_drive'',
       WRITE,
       ''replies.update'',
       OUTWARD,
       G_DRIVE_WRITE_SCOPES,
       g_object [(''comment_id'', g_id), (''content'', g_text 200000 1), (''file_id'', g_id),
                 (''reply_id'', g_id)] [''comment_id'', ''content'', ''file_id'', ''reply_id'']),
      (''google_drive'',
       WRITE,
       ''replies.delete'',
       DESTRUCTIVE,
       G_DRIVE_WRITE_SCOPES,
       g_object [(''comment_id'', g_id), (''file_id'', g_id), (''reply_id'', g_id)]
         [''comment_id'', ''file_id'', ''reply_id'']),
      (''google_drive'',
       WRITE,
       ''revisions.keep'',
       SAFE_MUTATION,
       G_DRIVE_WRITE_SCOPES,
       g_object [(''file_id'', g_id),
                 (''keep_forever'', obj [(''const'', PBool True), (''type'', PStr ''boolean'')]),
                 (''revision_id'', g_id)] [''file_id'', ''keep_forever'', ''revision_id'']),
      (''google_drive'',
       WRITE,
       ''revisions.delete'',
       PERMANENT,
       G_DRIVE_WRITE_SCOPES,
       g_object [(''file_id'', g_id), (''revision_id'', g_id)] [''file_id'', ''revision_id''])]"

definition GOOGLE_OPERATIONS :: "operation_spec list result" where
  "GOOGLE_OPERATIONS =
     mapE g_operation
       (gmail_read_operations_1 @
        gmail_read_operations_2 @
        gmail_write_operations_1 @
        gmail_write_operations_2 @
        google_calendar_read_operations @
        google_calendar_write_operations_1 @
        google_calendar_write_operations_2 @
        google_drive_read_operations_1 @
        google_drive_read_operations_2 @
        google_drive_write_operations_1 @
        google_drive_write_operations_2)"

lemmas g_defs =
  G_GMAIL_READONLY_def G_GMAIL_MODIFY_def G_GMAIL_SETTINGS_BASIC_def G_MAIL_def
  G_CALENDAR_LIST_def G_CALENDAR_LIST_READONLY_def G_CALENDAR_READONLY_def
  G_CALENDAR_EVENTS_READONLY_def G_CALENDAR_EVENTS_def G_CALENDAR_FREEBUSY_def
  G_CALENDAR_CALENDARS_READONLY_def G_CALENDAR_CALENDARS_def G_CALENDAR_def
  G_DRIVE_METADATA_READONLY_def G_DRIVE_READONLY_def G_DRIVE_MEET_READONLY_def G_DRIVE_FILE_def
  G_DRIVE_def G_MAX_DRIVE_BYTE_OFFSET_def G_MAX_PROVIDER_SNAPSHOT_TEXT_def
  G_GMAIL_MAX_METADATA_HEADER_NAMES_def g_object_def g_text_def g_id_def g_calendar_event_id_def
  g_calendar_client_event_id_def g_drive_resource_key_def g_drive_version_def g_array_def
  g_scopes_def g_email_addresses_def g_local_file_def g_attachment_def
  g_gmail_attachment_delivery_def g_gmail_attachment_content_def g_mail_fields_def
  g_gmail_send_def g_gmail_migration_def g_gmail_filter_criteria_def g_gmail_filter_action_def
  g_gmail_filter_create_def g_gmail_filter_snapshot_def g_gmail_label_color_def
  g_gmail_label_fields_def g_gmail_label_snapshot_def g_gmail_imap_update_def
  g_gmail_pop_update_def g_gmail_vacation_update_def g_gmail_send_as_patch_def g_mail_list_def
  g_draft_list_def g_gmail_message_get_def g_gmail_modify_def g_gmail_thread_get_def
  g_event_time_def g_nullable_def g_expected_event_time_def g_expected_event_def
  g_expected_calendar_list_entry_def g_event_attendee_def g_event_attachment_def
  g_event_extended_property_def g_event_reminder_def g_event_reminders_def
  g_focus_time_properties_def g_out_of_office_properties_def g_working_location_properties_def
  g_event_fields_def g_calendar_event_create_schema_def g_calendar_fields_def
  g_calendar_list_def g_calendar_list_color_def g_calendar_list_fields_def
  g_calendar_event_list_def g_calendar_instance_list_def g_app_property_def
  g_file_metadata_fields_def g_quoted_file_content_def g_drive_file_mutation_schema_def
  g_drive_delivery_def g_drive_content_schema_def g_drive_list_def g_drive_changes_def
  g_shared_drive_list_def g_drive_capabilities_snapshot_def g_drive_file_snapshot_def
  g_drive_lifecycle_schema_def g_permission_create_schema_def g_comment_create_schema_def
  g_reply_create_schema_def g_drive_move_schema_def G_GMAIL_READ_SCOPES_def
  G_GMAIL_WRITE_SCOPES_def G_GMAIL_SETTINGS_WRITE_SCOPES_def G_GMAIL_PURGE_SCOPES_def
  G_CALENDAR_LIST_SCOPES_def G_CALENDAR_LIST_WRITE_SCOPES_def
  G_CALENDAR_RESOURCE_READ_SCOPES_def G_CALENDAR_EVENT_READ_SCOPES_def
  G_CALENDAR_FREEBUSY_SCOPES_def G_CALENDAR_WRITE_SCOPES_def G_CALENDAR_EVENT_WRITE_SCOPES_def
  G_DRIVE_METADATA_SCOPES_def G_DRIVE_CONTENT_SCOPES_def G_DRIVE_COMMENT_READ_SCOPES_def
  G_DRIVE_WRITE_SCOPES_def gmail_read_operations_1_def gmail_read_operations_2_def
  gmail_write_operations_1_def gmail_write_operations_2_def google_calendar_read_operations_def
  google_calendar_write_operations_1_def google_calendar_write_operations_2_def
  google_drive_read_operations_1_def google_drive_read_operations_2_def
  google_drive_write_operations_1_def google_drive_write_operations_2_def

end
