(* ===== verification/Catalog_Google_Wf.thy ===== *)
theory Catalog_Google_Wf
  imports Catalog_Wf Catalog_Google
begin

section \<open>The Google schemas are well formed\<close>

text \<open>
  Every shared schema of the module, then every row of its operation tables. The names, texts
  and patterns that occur are checked once, by evaluation, in the tables at the top.
\<close>

lemma g_object_wf [schema_shapes]:
  "depth \<le> 16 \<Longrightarrow> object_fields_wf depth fs req \<Longrightarrow> swf rc depth (g_object fs req)"
  "depth \<le> 16 \<Longrightarrow> object_fields_wf depth fs req \<Longrightarrow> bs \<noteq> [] \<Longrightarrow> ilen bs \<le> 64 \<Longrightarrow>
     swfs (depth + 1) bs \<Longrightarrow> swf rc depth (with_key (g_object fs req) ''oneOf'' (PList bs))"
  by (simp_all add: g_object_def with_key_obj swf_object)

lemma g_names_wf:
  "list_all name_wf
     [''accessRole'', ''access_window'', ''action'', ''addLabelIds'', ''add_label_ids'',
      ''additional_guests'', ''allow_file_discovery'', ''anchor'', ''app_properties'',
      ''attachment_id'', ''attachments'', ''attendee_emails'', ''attendees'',
      ''auto_decline_mode'', ''auto_expunge'', ''background_color'', ''bcc'', ''building_id'',
      ''byte_offset'', ''calendar_id'', ''calendar_ids'', ''canAddChildren'',
      ''canAddFolderFromAnotherDrive'', ''canDelete'', ''canMoveItemOutOfDrive'',
      ''canMoveItemWithinDrive'', ''canTrash'', ''canUntrash'', ''capabilities'', ''cc'',
      ''chat_status'', ''color'', ''color_id'', ''comment'', ''comment_id'', ''const'',
      ''content'', ''content_base64'', ''corpora'', ''criteria'',
      ''current_parent_resource_key'', ''custom_location'', ''date'', ''dateTime'',
      ''date_time'', ''decline_message'', ''default_reminders'', ''deleted'', ''delivery'',
      ''description'', ''desk_id'', ''destination_calendar_id'', ''displayName'',
      ''display_language'', ''display_name'', ''disposition'', ''domain'', ''draft_id'',
      ''driveId'', ''drive_id'', ''email'', ''email_address'', ''enable_auto_reply'',
      ''enabled'', ''end'', ''end_time'', ''enum'', ''etag'', ''eventType'', ''event_id'',
      ''event_type'', ''event_types'', ''excludeChats'', ''exclude_chats'',
      ''expected_calendar'', ''expected_destination'', ''expected_destination_calendar'',
      ''expected_event'', ''expected_file'', ''expected_filter'', ''expected_label'',
      ''expiration_time'', ''explicitlyTrashed'', ''export_mime_type'', ''expunge_behavior'',
      ''file_id'', ''filename'', ''filter_id'', ''floor_id'', ''floor_section_id'',
      ''focus_time_properties'', ''foreground_color'', ''format'', ''forward'',
      ''forwarding_email'', ''from'', ''gmail'', ''google_calendar'', ''google_drive'',
      ''grant_id'', ''guests_can_invite_others'', ''guests_can_modify'',
      ''guests_can_see_other_guests'', ''hasAttachment'', ''has_attachment'', ''hidden'',
      ''history_types'', ''html_body'', ''i_cal_uid'', ''id'', ''include_items_from_all_drives'',
      ''include_spam_trash'', ''include_trashed'', ''internal_date_source'', ''is_default'',
      ''items'', ''keep_forever'', ''key'', ''label'', ''label_id'', ''label_ids'',
      ''label_list_visibility'', ''lifecycle_snapshot'', ''local_file'', ''location'',
      ''maxItems'', ''maxLength'', ''max_attendees'', ''max_chunk_size'', ''max_folder_size'',
      ''maximum'', ''meet_request_id'', ''message_id'', ''message_ids'',
      ''message_list_visibility'', ''metadata_header_names'', ''mimeType'', ''mime_type'',
      ''minItems'', ''minLength'', ''min_access_role'', ''minimum'', ''minutes'', ''name'',
      ''negatedQuery'', ''negated_query'', ''never_mark_spam'', ''notification_message'',
      ''notification_types'', ''office_location'', ''oneOf'', ''optional'', ''order_by'',
      ''organizer'', ''out_of_office_properties'', ''overrides'', ''ownedByMe'', ''page_size'',
      ''parent_id'', ''parents'', ''pattern'', ''permission_id'', ''permission_type'',
      ''primary'', ''private_extended_properties'', ''process_for_calendar'', ''properties'',
      ''query'', ''quoted_file_content'', ''recurrence'', ''relative_path'', ''reminders'',
      ''removeLabelIds'', ''remove_label_ids'', ''reply_id'', ''reply_to_address'',
      ''reply_to_message_id'', ''required'', ''resource'', ''resourceKey'', ''resource_key'',
      ''response_body_html'', ''response_body_plain_text'', ''response_status'',
      ''response_subject'', ''restrict_to_contacts'', ''restrict_to_domain'', ''revision_id'',
      ''role'', ''selected'', ''self'', ''send_as_email'', ''send_notification_email'',
      ''send_updates'', ''shared_extended_properties'', ''show_deleted'', ''show_hidden'',
      ''show_hidden_invitations'', ''show_own_organization_only'', ''signature'',
      ''single_events'', ''size'', ''sizeComparison'', ''size_comparison'', ''spaces'',
      ''start'', ''start_change_id'', ''start_history_id'', ''start_time'', ''status'',
      ''subject'', ''summary'', ''summary_override'', ''supports_all_drives'', ''text_body'',
      ''text_color'', ''thread_id'', ''timeZone'', ''time_max'', ''time_min'', ''time_zone'',
      ''to'', ''transparency'', ''trashed'', ''type'', ''updated_min'', ''use_default'',
      ''value'', ''version'', ''visibility'', ''working_location_properties'']"
  by code_simp

lemma g_texts_plain:
  "list_all plain_text
     [''accepted'', ''accessRole'', ''access_window'', ''action'', ''agenda'', ''all'',
      ''allDrives'', ''allMail'', ''anyone'', ''appDataFolder'', ''archive'', ''array'',
      ''artifact'', ''attachment_id'', ''auto_expunge'', ''available'', ''background_color'',
      ''bcc'', ''birthday'', ''boolean'', ''calendar_id'', ''calendar_ids'', ''canAddChildren'',
      ''canAddFolderFromAnotherDrive'', ''canDelete'', ''canMoveItemOutOfDrive'',
      ''canMoveItemWithinDrive'', ''canTrash'', ''canUntrash'', ''cancelled'', ''capabilities'',
      ''cc'', ''comment_id'', ''commenter'', ''confidential'', ''confirmed'', ''content'',
      ''content_base64'', ''createdTime'', ''createdTime desc'', ''criteria'',
      ''customLocation'', ''date'', ''dateHeader'', ''dateTime'', ''date_time'',
      ''declineAllConflictingInvitations'', ''declineNone'',
      ''declineOnlyNewConflictingInvitations'', ''declined'', ''default'', ''deleteForever'',
      ''delivery'', ''destination_calendar_id'', ''disabled'', ''display_language'',
      ''disposition'', ''doNotDisturb'', ''domain'', ''draft_id'', ''drive'', ''driveId'',
      ''email'', ''email_address'', ''enable_auto_reply'', ''enabled'', ''end'', ''end_time'',
      ''etag'', ''eventCancellation'', ''eventChange'', ''eventCreation'', ''eventResponse'',
      ''eventType'', ''event_id'', ''expected_calendar'', ''expected_destination'',
      ''expected_destination_calendar'', ''expected_event'', ''expected_file'',
      ''expected_filter'', ''expected_label'', ''explicitlyTrashed'', ''export_mime_type'',
      ''expunge_behavior'', ''externalOnly'', ''fileOrganizer'', ''file_id'', ''file_url'',
      ''filename'', ''filter_id'', ''focusTime'', ''folder'', ''folder desc'',
      ''foreground_color'', ''format'', ''forwarding_email'', ''freeBusyReader'', ''fromGmail'',
      ''fromNowOn'', ''full'', ''grant_id'', ''group'', ''hide'', ''homeOffice'', ''id'',
      ''inline_chunk'', ''integer'', ''keep_forever'', ''key'', ''labelAdded'', ''labelHide'',
      ''labelRemoved'', ''labelShow'', ''labelShowIfUnread'', ''label_id'', ''larger'',
      ''leaveInInbox'', ''local_file'', ''markRead'', ''max_folder_size'', ''messageAdded'',
      ''messageDeleted'', ''message_id'', ''message_ids'', ''metadata'', ''mimeType'',
      ''mime_type'', ''minimal'', ''minutes'', ''modifiedByMeTime'', ''modifiedByMeTime desc'',
      ''modifiedTime'', ''modifiedTime desc'', ''name'', ''name desc'', ''name_natural'',
      ''name_natural desc'', ''needsAction'', ''none'', ''null'', ''object'', ''officeLocation'',
      ''opaque'', ''organizer'', ''outOfOffice'', ''ownedByMe'', ''owner'', ''parents'',
      ''permission_id'', ''permission_type'', ''popup'', ''primary'', ''private'', ''public'',
      ''quotaBytesUsed'', ''quotaBytesUsed desc'', ''raw'', ''reader'', ''receivedTime'',
      ''recency'', ''recency desc'', ''relative_path'', ''reopen'', ''reply_id'', ''resolve'',
      ''resourceKey'', ''response_body_html'', ''response_body_plain_text'', ''response_status'',
      ''response_subject'', ''restrict_to_contacts'', ''restrict_to_domain'', ''revision_id'',
      ''role'', ''send_as_email'', ''send_updates'', ''sharedWithMeTime'',
      ''sharedWithMeTime desc'', ''show'', ''smaller'', ''starred'', ''starred desc'', ''start'',
      ''startTime'', ''start_change_id'', ''start_history_id'', ''start_time'', ''status'',
      ''string'', ''summary'', ''tentative'', ''text_color'', ''thread_id'', ''time_max'',
      ''time_min'', ''to'', ''transparent'', ''trash'', ''trashed'', ''type'', ''updated'',
      ''use_default'', ''user'', ''value'', ''version'', ''viewedByMeTime'',
      ''viewedByMeTime desc'', ''workingLocation'', ''writer'', ''writerWithoutPrivateAccess'']"
  by code_simp

lemma g_patterns_wf:
  "pattern_text_wf ''^#[0-9a-f]{6}$''"
  "pattern_text_wf ''^[0-9]+$''"
  "pattern_text_wf ''^[0-9a-v]+$''"
  "pattern_text_wf ''^[A-Za-z0-9_-]+$''"
  by code_simp+

lemmas g_tables [simp] =
  g_names_wf [unfolded list.pred_inject simp_thms] g_texts_plain [unfolded list.pred_inject simp_thms]
  g_patterns_wf [simplified]

lemmas g_rules =
  G_GMAIL_READONLY_def G_GMAIL_MODIFY_def G_GMAIL_SETTINGS_BASIC_def G_MAIL_def
  G_CALENDAR_LIST_def G_CALENDAR_LIST_READONLY_def G_CALENDAR_READONLY_def
  G_CALENDAR_EVENTS_READONLY_def G_CALENDAR_EVENTS_def G_CALENDAR_FREEBUSY_def
  G_CALENDAR_CALENDARS_READONLY_def G_CALENDAR_CALENDARS_def G_CALENDAR_def
  G_DRIVE_METADATA_READONLY_def G_DRIVE_READONLY_def G_DRIVE_MEET_READONLY_def G_DRIVE_FILE_def
  G_DRIVE_def G_MAX_DRIVE_BYTE_OFFSET_def G_MAX_PROVIDER_SNAPSHOT_TEXT_def
  G_GMAIL_MAX_METADATA_HEADER_NAMES_def g_text_def g_array_def g_scopes_def g_mail_fields_def
  g_gmail_migration_def g_gmail_label_fields_def g_gmail_modify_def g_nullable_def
  g_event_extended_property_def g_event_fields_def g_calendar_fields_def
  g_calendar_list_fields_def g_app_property_def g_file_metadata_fields_def
  g_drive_file_mutation_schema_def g_drive_content_schema_def g_drive_lifecycle_schema_def
  G_GMAIL_READ_SCOPES_def G_GMAIL_WRITE_SCOPES_def G_GMAIL_SETTINGS_WRITE_SCOPES_def
  G_GMAIL_PURGE_SCOPES_def G_CALENDAR_LIST_SCOPES_def G_CALENDAR_LIST_WRITE_SCOPES_def
  G_CALENDAR_RESOURCE_READ_SCOPES_def G_CALENDAR_EVENT_READ_SCOPES_def
  G_CALENDAR_FREEBUSY_SCOPES_def G_CALENDAR_WRITE_SCOPES_def G_CALENDAR_EVENT_WRITE_SCOPES_def
  G_DRIVE_METADATA_SCOPES_def G_DRIVE_CONTENT_SCOPES_def G_DRIVE_COMMENT_READ_SCOPES_def
  G_DRIVE_WRITE_SCOPES_def

subsection \<open>Shared schemas\<close>

lemma g_id_wf [simp]: "depth \<le> 13 \<Longrightarrow> swf False depth g_id"
  by (simp add: g_id_def g_rules schema_shapes)

lemma g_calendar_event_id_wf [simp]: "depth \<le> 13 \<Longrightarrow> swf False depth g_calendar_event_id"
  by (simp add: g_calendar_event_id_def g_rules schema_shapes)

lemma g_calendar_client_event_id_wf [simp]: "depth \<le> 13 \<Longrightarrow> swf False depth g_calendar_client_event_id"
  by (simp add: g_calendar_client_event_id_def g_rules schema_shapes)

lemma g_drive_resource_key_wf [simp]: "depth \<le> 13 \<Longrightarrow> swf False depth g_drive_resource_key"
  by (simp add: g_drive_resource_key_def g_rules schema_shapes)

lemma g_drive_version_wf [simp]: "depth \<le> 13 \<Longrightarrow> swf False depth g_drive_version"
  by (simp add: g_drive_version_def g_rules schema_shapes)

lemma g_email_addresses_wf [simp]: "depth \<le> 13 \<Longrightarrow> swf False depth g_email_addresses"
  by (simp add: g_email_addresses_def g_rules schema_shapes)

lemma g_local_file_wf [simp]: "depth \<le> 13 \<Longrightarrow> swf False depth g_local_file"
  by (simp add: g_local_file_def g_rules schema_shapes)

lemma g_attachment_wf [simp]: "depth \<le> 10 \<Longrightarrow> swf False depth g_attachment"
  by (simp add: g_attachment_def g_rules schema_shapes)

lemma g_gmail_attachment_delivery_wf [simp]: "depth \<le> 13 \<Longrightarrow> swf False depth g_gmail_attachment_delivery"
  by (simp add: g_gmail_attachment_delivery_def g_rules schema_shapes)

lemma g_gmail_attachment_content_wf [simp]: "depth \<le> 10 \<Longrightarrow> swf False depth g_gmail_attachment_content"
  by (simp add: g_gmail_attachment_content_def g_rules schema_shapes)

lemma g_gmail_send_wf [simp]: "depth \<le> 7 \<Longrightarrow> swf False depth g_gmail_send"
  by (simp add: g_gmail_send_def g_rules schema_shapes)

lemma g_gmail_filter_criteria_wf [simp]: "depth \<le> 13 \<Longrightarrow> swf False depth g_gmail_filter_criteria"
  by (simp add: g_gmail_filter_criteria_def g_rules schema_shapes)

lemma g_gmail_filter_action_wf [simp]: "depth \<le> 10 \<Longrightarrow> swf False depth g_gmail_filter_action"
  by (simp add: g_gmail_filter_action_def g_rules schema_shapes)

lemma g_gmail_filter_create_wf [simp]: "depth \<le> 7 \<Longrightarrow> swf False depth g_gmail_filter_create"
  by (simp add: g_gmail_filter_create_def g_rules schema_shapes)

lemma g_gmail_filter_snapshot_wf [simp]: "depth \<le> 10 \<Longrightarrow> swf False depth g_gmail_filter_snapshot"
  by (simp add: g_gmail_filter_snapshot_def g_rules schema_shapes)

lemma g_gmail_label_color_wf [simp]: "depth \<le> 13 \<Longrightarrow> swf False depth g_gmail_label_color"
  by (simp add: g_gmail_label_color_def g_rules schema_shapes)

lemma g_gmail_label_snapshot_wf [simp]: "depth \<le> 10 \<Longrightarrow> swf False depth g_gmail_label_snapshot"
  by (simp add: g_gmail_label_snapshot_def g_rules schema_shapes)

lemma g_gmail_imap_update_wf [simp]: "depth \<le> 13 \<Longrightarrow> swf False depth g_gmail_imap_update"
  by (simp add: g_gmail_imap_update_def g_rules schema_shapes)

lemma g_gmail_pop_update_wf [simp]: "depth \<le> 13 \<Longrightarrow> swf False depth g_gmail_pop_update"
  by (simp add: g_gmail_pop_update_def g_rules schema_shapes)

lemma g_gmail_vacation_update_wf [simp]: "depth \<le> 13 \<Longrightarrow> swf False depth g_gmail_vacation_update"
  by (simp add: g_gmail_vacation_update_def g_rules schema_shapes)

lemma g_gmail_send_as_patch_wf [simp]: "depth \<le> 13 \<Longrightarrow> swf False depth g_gmail_send_as_patch"
  by (simp add: g_gmail_send_as_patch_def g_rules schema_shapes)

lemma g_mail_list_wf [simp]: "depth \<le> 10 \<Longrightarrow> swf False depth g_mail_list"
  by (simp add: g_mail_list_def g_rules schema_shapes)

lemma g_draft_list_wf [simp]: "depth \<le> 13 \<Longrightarrow> swf False depth g_draft_list"
  by (simp add: g_draft_list_def g_rules schema_shapes)

lemma g_gmail_message_get_wf [simp]: "depth \<le> 10 \<Longrightarrow> swf False depth g_gmail_message_get"
  by (simp add: g_gmail_message_get_def g_rules schema_shapes)

lemma g_gmail_thread_get_wf [simp]: "depth \<le> 10 \<Longrightarrow> swf False depth g_gmail_thread_get"
  by (simp add: g_gmail_thread_get_def g_rules schema_shapes)

lemma g_event_time_wf [simp]: "depth \<le> 13 \<Longrightarrow> swf False depth g_event_time"
  by (simp add: g_event_time_def g_rules schema_shapes)

lemma g_expected_event_time_wf [simp]: "depth \<le> 13 \<Longrightarrow> swf False depth g_expected_event_time"
  by (simp add: g_expected_event_time_def g_rules schema_shapes)

lemma g_expected_event_wf [simp]: "depth \<le> 10 \<Longrightarrow> swf False depth g_expected_event"
  by (simp add: g_expected_event_def g_rules schema_shapes)

lemma g_expected_calendar_list_entry_wf [simp]: "depth \<le> 10 \<Longrightarrow> swf False depth g_expected_calendar_list_entry"
  by (simp add: g_expected_calendar_list_entry_def g_rules schema_shapes)

lemma g_event_attendee_wf [simp]: "depth \<le> 13 \<Longrightarrow> swf False depth g_event_attendee"
  by (simp add: g_event_attendee_def g_rules schema_shapes)

lemma g_event_reminder_wf [simp]: "depth \<le> 13 \<Longrightarrow> swf False depth g_event_reminder"
  by (simp add: g_event_reminder_def g_rules schema_shapes)

lemma g_event_reminders_wf [simp]: "depth \<le> 10 \<Longrightarrow> swf False depth g_event_reminders"
  by (simp add: g_event_reminders_def g_rules schema_shapes)

lemma g_focus_time_properties_wf [simp]: "depth \<le> 13 \<Longrightarrow> swf False depth g_focus_time_properties"
  by (simp add: g_focus_time_properties_def g_rules schema_shapes)

lemma g_out_of_office_properties_wf [simp]: "depth \<le> 13 \<Longrightarrow> swf False depth g_out_of_office_properties"
  by (simp add: g_out_of_office_properties_def g_rules schema_shapes)

lemma g_working_location_properties_wf [simp]: "depth \<le> 13 \<Longrightarrow> swf False depth g_working_location_properties"
  by (simp add: g_working_location_properties_def g_rules schema_shapes)

lemma g_calendar_list_wf [simp]: "depth \<le> 13 \<Longrightarrow> swf False depth g_calendar_list"
  by (simp add: g_calendar_list_def g_rules schema_shapes)

lemma g_calendar_list_color_wf [simp]: "depth \<le> 13 \<Longrightarrow> swf False depth g_calendar_list_color"
  by (simp add: g_calendar_list_color_def g_rules schema_shapes)

lemma g_calendar_event_list_wf [simp]: "depth \<le> 10 \<Longrightarrow> swf False depth g_calendar_event_list"
  by (simp add: g_calendar_event_list_def g_rules schema_shapes)

lemma g_calendar_instance_list_wf [simp]: "depth \<le> 10 \<Longrightarrow> swf False depth g_calendar_instance_list"
  by (simp add: g_calendar_instance_list_def g_rules schema_shapes)

lemma g_quoted_file_content_wf [simp]: "depth \<le> 13 \<Longrightarrow> swf False depth g_quoted_file_content"
  by (simp add: g_quoted_file_content_def g_rules schema_shapes)

lemma g_drive_delivery_wf [simp]: "depth \<le> 13 \<Longrightarrow> swf False depth g_drive_delivery"
  by (simp add: g_drive_delivery_def g_rules schema_shapes)

lemma g_drive_list_wf [simp]: "depth \<le> 10 \<Longrightarrow> swf False depth g_drive_list"
  by (simp add: g_drive_list_def g_rules schema_shapes)

lemma g_drive_changes_wf [simp]: "depth \<le> 13 \<Longrightarrow> swf False depth g_drive_changes"
  by (simp add: g_drive_changes_def g_rules schema_shapes)

lemma g_shared_drive_list_wf [simp]: "depth \<le> 13 \<Longrightarrow> swf False depth g_shared_drive_list"
  by (simp add: g_shared_drive_list_def g_rules schema_shapes)

lemma g_drive_capabilities_snapshot_wf [simp]: "depth \<le> 13 \<Longrightarrow> swf False depth g_drive_capabilities_snapshot"
  by (simp add: g_drive_capabilities_snapshot_def g_rules schema_shapes)

lemma g_drive_file_snapshot_wf [simp]: "depth \<le> 10 \<Longrightarrow> swf False depth g_drive_file_snapshot"
  by (simp add: g_drive_file_snapshot_def g_rules schema_shapes)

lemma g_permission_create_schema_wf [simp]: "depth \<le> 10 \<Longrightarrow> swf False depth g_permission_create_schema"
  by (simp add: g_permission_create_schema_def g_rules schema_shapes)

lemma g_comment_create_schema_wf [simp]: "depth \<le> 10 \<Longrightarrow> swf False depth g_comment_create_schema"
  by (simp add: g_comment_create_schema_def g_rules schema_shapes)

lemma g_reply_create_schema_wf [simp]: "depth \<le> 10 \<Longrightarrow> swf False depth g_reply_create_schema"
  by (simp add: g_reply_create_schema_def g_rules schema_shapes)

lemma g_drive_move_schema_wf [simp]: "depth \<le> 7 \<Longrightarrow> swf False depth g_drive_move_schema"
  by (simp add: g_drive_move_schema_def g_rules schema_shapes)

lemmas g_top_schemas =
  g_id_def g_calendar_event_id_def g_drive_resource_key_def g_gmail_attachment_content_def
  g_gmail_send_def g_gmail_filter_create_def g_gmail_filter_snapshot_def
  g_gmail_label_snapshot_def g_gmail_imap_update_def g_gmail_pop_update_def
  g_gmail_vacation_update_def g_gmail_send_as_patch_def g_mail_list_def g_draft_list_def
  g_gmail_message_get_def g_gmail_thread_get_def g_expected_event_def
  g_expected_calendar_list_entry_def g_calendar_list_def g_calendar_event_list_def
  g_calendar_instance_list_def g_drive_list_def g_drive_changes_def g_shared_drive_list_def
  g_permission_create_schema_def g_comment_create_schema_def g_reply_create_schema_def
  g_drive_move_schema_def

subsection \<open>Operation tables\<close>

lemma gmail_read_operations_1_wf: "list_all row_schema_wf gmail_read_operations_1"
  unfolding gmail_read_operations_1_def list.pred_inject
  by (intro conjI TrueI;
      simp add: row_schema_wf_plain g_top_schemas g_rules schema_shapes)

lemma gmail_read_operations_2_wf: "list_all row_schema_wf gmail_read_operations_2"
  unfolding gmail_read_operations_2_def list.pred_inject
  by (intro conjI TrueI;
      simp add: row_schema_wf_plain g_top_schemas g_rules schema_shapes)

lemma gmail_write_operations_1_wf: "list_all row_schema_wf gmail_write_operations_1"
  unfolding gmail_write_operations_1_def list.pred_inject
  by (intro conjI TrueI;
      simp add: row_schema_wf_plain g_top_schemas g_rules schema_shapes)

lemma gmail_write_operations_2_wf: "list_all row_schema_wf gmail_write_operations_2"
  unfolding gmail_write_operations_2_def list.pred_inject
  by (intro conjI TrueI;
      simp add: row_schema_wf_plain g_top_schemas g_rules schema_shapes)

lemma google_calendar_read_operations_wf: "list_all row_schema_wf google_calendar_read_operations"
  unfolding google_calendar_read_operations_def list.pred_inject
  by (intro conjI TrueI;
      simp add: row_schema_wf_plain g_top_schemas g_rules schema_shapes)

lemma g_attachments_awf:
  "awf 1 ''attachments'' (obj [(''items'', g_event_attachment), (''maxItems'', PInt 25),
     (''minItems'', PInt 0), (''type'', PStr ''array'')])"
  by code_simp

lemma g_row_schema_wf_attachment:
  "n \<in> {''events.create'', ''events.update''} \<Longrightarrow> attachment_fields_wf fs req \<Longrightarrow>
     row_schema_wf (''google_calendar'', WRITE, n, e, sc, g_object fs req)"
  by (simp add: g_object_def row_schema_wf_attachment)

lemma google_calendar_write_operations_1_wf: "list_all row_schema_wf google_calendar_write_operations_1"
  unfolding google_calendar_write_operations_1_def list.pred_inject
  by (intro conjI TrueI;
      simp add: row_schema_wf_plain g_row_schema_wf_attachment g_attachments_awf
        g_calendar_event_create_schema_def g_top_schemas g_rules schema_shapes)

lemma google_calendar_write_operations_2_wf: "list_all row_schema_wf google_calendar_write_operations_2"
  unfolding google_calendar_write_operations_2_def list.pred_inject
  by (intro conjI TrueI;
      simp add: row_schema_wf_plain g_top_schemas g_rules schema_shapes)

lemma google_drive_read_operations_1_wf: "list_all row_schema_wf google_drive_read_operations_1"
  unfolding google_drive_read_operations_1_def list.pred_inject
  by (intro conjI TrueI;
      simp add: row_schema_wf_plain g_top_schemas g_rules schema_shapes)

lemma google_drive_read_operations_2_wf: "list_all row_schema_wf google_drive_read_operations_2"
  unfolding google_drive_read_operations_2_def list.pred_inject
  by (intro conjI TrueI;
      simp add: row_schema_wf_plain g_top_schemas g_rules schema_shapes)

lemma google_drive_write_operations_1_wf: "list_all row_schema_wf google_drive_write_operations_1"
  unfolding google_drive_write_operations_1_def list.pred_inject
  by (intro conjI TrueI;
      simp add: row_schema_wf_plain g_top_schemas g_rules schema_shapes)

lemma google_drive_write_operations_2_wf: "list_all row_schema_wf google_drive_write_operations_2"
  unfolding google_drive_write_operations_2_def list.pred_inject
  by (intro conjI TrueI;
      simp add: row_schema_wf_plain g_top_schemas g_rules schema_shapes)

end
