(* ===== verification/Catalog_Microsoft.thy ===== *)
theory Catalog_Microsoft
  imports Catalog_Base
begin

section \<open>Outlook operations (\<open>connector_operations_microsoft.py\<close>)\<close>

text \<open>
  The Microsoft catalogue, definition by definition: schema builders with the prefix \<open>ms_\<close>,
  shared schemas and scope alternatives with the prefix \<open>MS_\<close>, and the operation table, cut
  into one definition per run of a provider and mode.
\<close>

definition ms_object :: "fields \<Rightarrow> string list \<Rightarrow> pyobj" where
  "ms_object properties required =
     obj [(''additionalProperties'', PBool False),
          (''properties'', obj properties),
          (''required'', PList (map PStr required)),
          (''type'', PStr ''object'')]"

definition ms_string :: "int \<Rightarrow> int \<Rightarrow> string option \<Rightarrow> pyobj" where
  "ms_string max_length min_length pattern =
     (let schema = obj [(''maxLength'', PInt max_length), (''type'', PStr ''string'')];
          schema = if min_length \<noteq> 0 then with_key schema ''minLength'' (PInt min_length)
                     else schema;
          schema = case pattern of None \<Rightarrow> schema | Some p \<Rightarrow> with_key schema
                     ''pattern'' (PStr p)
      in schema)"

definition ms_array :: "pyobj \<Rightarrow> int \<Rightarrow> int \<Rightarrow> pyobj" where
  "ms_array items' max_items min_items =
     (let schema = obj [(''items'', items'), (''maxItems'', PInt max_items),
                        (''type'', PStr ''array'')];
          schema = if min_items \<noteq> 0 then with_key schema ''minItems'' (PInt min_items) else
                     schema
      in schema)"

definition ms_enum :: "string list \<Rightarrow> pyobj" where
  "ms_enum values =
     obj [(''enum'', PList (map PStr values)), (''type'', PStr ''string'')]"

fun ms_operation :: "operation_args \<Rightarrow> operation_spec result" where
  "ms_operation (provider, mode, name, effect, scopes, input_schema) =
     OperationSpec provider mode name effect name scopes input_schema"

definition MS_ID :: "pyobj" where
  "MS_ID =
     ms_string 1024 1 None"

definition MS_CHANGE_KEY :: "pyobj" where
  "MS_CHANGE_KEY =
     ms_string 2048 1 None"

definition MS_RESTORE_HANDLE :: "pyobj" where
  "MS_RESTORE_HANDLE =
     ms_string 96 47 (Some ''^rst-[A-Za-z0-9_-]{43}$'')"

definition MS_SHORT_TEXT :: "pyobj" where
  "MS_SHORT_TEXT =
     ms_string 1024 0 None"

definition MS_NAME :: "pyobj" where
  "MS_NAME =
     ms_string 256 1 None"

definition MS_BODY_TEXT :: "pyobj" where
  "MS_BODY_TEXT =
     ms_string 200000 0 None"

definition MS_DATE_TIME :: "pyobj" where
  "MS_DATE_TIME =
     ms_string 128 1 None"

definition MS_DATE :: "pyobj" where
  "MS_DATE =
     ms_string 32 1 None"

definition MS_TIME_ZONE :: "pyobj" where
  "MS_TIME_ZONE =
     ms_string 128 1 None"

definition MS_EMAIL :: "pyobj" where
  "MS_EMAIL =
     ms_string 320 3 (Some (''^[^@'' @ [CHR 0x5C] @ ''s]+@[^@'' @ [CHR 0x5C] @ ''s]+$''))"

definition MS_PAGE_SIZE :: "pyobj" where
  "MS_PAGE_SIZE =
     obj [(''maximum'', PInt 100), (''minimum'', PInt 1), (''type'', PStr ''integer'')]"

definition MS_CALENDAR_WINDOW_PAGE_SIZE :: "pyobj" where
  "MS_CALENDAR_WINDOW_PAGE_SIZE =
     obj [(''maximum'', PInt 1000), (''minimum'', PInt 1), (''type'', PStr ''integer'')]"

definition MS_MESSAGES_PAGE_SIZE :: "pyobj" where
  "MS_MESSAGES_PAGE_SIZE =
     obj [(''maximum'', PInt 1000), (''minimum'', PInt 1), (''type'', PStr ''integer'')]"

definition MS_FREEBUSY_INTERVAL_MINUTES :: "pyobj" where
  "MS_FREEBUSY_INTERVAL_MINUTES =
     obj [(''maximum'', PInt 1440), (''minimum'', PInt 5), (''type'', PStr ''integer'')]"

definition MS_MESSAGE_FIELD_NAMES :: "string list" where
  "MS_MESSAGE_FIELD_NAMES =
     [''bcc_recipients'', ''body'', ''body_preview'', ''categories'', ''cc_recipients'',
      ''change_key'', ''conversation_id'', ''conversation_index'', ''created_at'', ''flag'',
      ''from'', ''has_attachments'', ''id'', ''importance'', ''inference_classification'',
      ''internet_message_headers'', ''internet_message_id'', ''is_delivery_receipt_requested'',
      ''is_draft'', ''is_read'', ''is_read_receipt_requested'', ''last_modified_at'',
      ''parent_folder_id'', ''received_at'', ''reply_to'', ''sender'', ''sent_at'', ''subject'',
      ''to_recipients'', ''unique_body'', ''web_link'']"

definition MS_MESSAGE_LIST_FIELD_NAMES :: "string list" where
  "MS_MESSAGE_LIST_FIELD_NAMES =
     filter (\<lambda>name. name \<noteq> ''internet_message_headers'') MS_MESSAGE_FIELD_NAMES"

definition MS_MESSAGE_LIST_FIELDS :: "pyobj" where
  "MS_MESSAGE_LIST_FIELDS =
     ms_array (ms_enum MS_MESSAGE_LIST_FIELD_NAMES) (ilen MS_MESSAGE_LIST_FIELD_NAMES) 1"

definition MS_MESSAGE_GET_FIELDS :: "pyobj" where
  "MS_MESSAGE_GET_FIELDS =
     ms_array (ms_enum MS_MESSAGE_FIELD_NAMES) (ilen MS_MESSAGE_FIELD_NAMES) 1"

definition MS_IMPORTANCE :: "pyobj" where
  "MS_IMPORTANCE =
     ms_enum [''low'', ''normal'', ''high'']"

definition MS_FOLLOW_UP :: "pyobj" where
  "MS_FOLLOW_UP =
     ms_enum [''not_flagged'', ''flagged'', ''complete'']"

definition MS_SENSITIVITY :: "pyobj" where
  "MS_SENSITIVITY =
     ms_enum [''normal'', ''personal'', ''private'', ''confidential'']"

definition MS_SHOW_AS :: "pyobj" where
  "MS_SHOW_AS =
     ms_enum [''free'', ''tentative'', ''busy'', ''oof'', ''working_elsewhere'', ''unknown'']"

definition MS_BODY :: "pyobj" where
  "MS_BODY =
     ms_object [(''content'', MS_BODY_TEXT), (''content_type'', ms_enum [''text'', ''html''])]
       [''content'', ''content_type'']"

definition MS_RECIPIENT :: "pyobj" where
  "MS_RECIPIENT =
     ms_object [(''email'', MS_EMAIL), (''name'', ms_string 256 0 None)] [''email'']"

definition MS_RECIPIENTS :: "pyobj" where
  "MS_RECIPIENTS =
     ms_array MS_RECIPIENT 100 0"

definition MS_ATTENDEES :: "pyobj" where
  "MS_ATTENDEES =
     ms_array (ms_object [(''email'', MS_EMAIL),
                          (''name'', ms_string 256 0 None),
                          (''type'', ms_enum [''required'', ''optional'', ''resource''])]
                 [''email'', ''type'']) 500 0"

definition MS_CATEGORIES :: "pyobj" where
  "MS_CATEGORIES =
     ms_array (ms_string 128 1 None) 32 0"

definition MS_LOCAL_FILE :: "pyobj" where
  "MS_LOCAL_FILE =
     ms_object [(''grant_id'', ms_string 128 1 None),
                (''relative_path'', ms_string (16 * 1024) 1 None)] [''grant_id'', ''relative_path'']"

definition MS_ATTACHMENT_METADATA :: "fields" where
  "MS_ATTACHMENT_METADATA =
     [(''content_type'', ms_string 255 1 None), (''name'', MS_NAME)]"

definition MS_ATTACHMENT :: "pyobj" where
  "MS_ATTACHMENT =
     with_key (ms_object (fmerge MS_ATTACHMENT_METADATA
                            [(''content_base64'',
                              ms_string 240000 1 (Some ''^[A-Za-z0-9+/]+={0,2}$'')),
                             (''local_file'', MS_LOCAL_FILE)]) []) ''oneOf''
       (PList [ms_object (fmerge MS_ATTACHMENT_METADATA
                            [(''content_base64'',
                              ms_string 240000 1 (Some ''^[A-Za-z0-9+/]+={0,2}$''))])
                 [''name'', ''content_type'', ''content_base64''],
               ms_object (fmerge MS_ATTACHMENT_METADATA [(''local_file'', MS_LOCAL_FILE)])
                 [''name'', ''content_type'', ''local_file'']])"

definition MS_EVENT_TIME :: "pyobj" where
  "MS_EVENT_TIME =
     ms_object [(''date_time'', MS_DATE_TIME), (''time_zone'', MS_TIME_ZONE)]
       [''date_time'', ''time_zone'']"

definition MS_DAY_OF_WEEK :: "pyobj" where
  "MS_DAY_OF_WEEK =
     ms_enum [''monday'', ''tuesday'', ''wednesday'', ''thursday'', ''friday'', ''saturday'',
              ''sunday'']"

definition MS_DAYS_OF_WEEK :: "pyobj" where
  "MS_DAYS_OF_WEEK =
     ms_array MS_DAY_OF_WEEK 7 1"

definition MS_INTERVAL :: "pyobj" where
  "MS_INTERVAL =
     obj [(''maximum'', PInt 365), (''minimum'', PInt 1), (''type'', PStr ''integer'')]"

definition MS_DAY_OF_MONTH :: "pyobj" where
  "MS_DAY_OF_MONTH =
     obj [(''maximum'', PInt 31), (''minimum'', PInt 1), (''type'', PStr ''integer'')]"

definition MS_MONTH :: "pyobj" where
  "MS_MONTH =
     obj [(''maximum'', PInt 12), (''minimum'', PInt 1), (''type'', PStr ''integer'')]"

definition MS_INDEX :: "pyobj" where
  "MS_INDEX =
     ms_enum [''first'', ''second'', ''third'', ''fourth'', ''last'']"

definition MS_RECURRENCE_PATTERN :: "pyobj" where
  "MS_RECURRENCE_PATTERN =
     obj [(''oneOf'',
           PList [ms_object [(''interval'', MS_INTERVAL),
                             (''type'', obj [(''const'', PStr ''daily'')])]
                    [''type'', ''interval''],
                  ms_object [(''days_of_week'', MS_DAYS_OF_WEEK),
                             (''first_day_of_week'', MS_DAY_OF_WEEK),
                             (''interval'', MS_INTERVAL),
                             (''type'', obj [(''const'', PStr ''weekly'')])]
                    [''type'', ''interval'', ''days_of_week'', ''first_day_of_week''],
                  ms_object [(''day_of_month'', MS_DAY_OF_MONTH),
                             (''interval'', MS_INTERVAL),
                             (''type'', obj [(''const'', PStr ''absolute_monthly'')])]
                    [''type'', ''interval'', ''day_of_month''],
                  ms_object [(''days_of_week'', MS_DAYS_OF_WEEK),
                             (''index'', MS_INDEX),
                             (''interval'', MS_INTERVAL),
                             (''type'', obj [(''const'', PStr ''relative_monthly'')])]
                    [''type'', ''interval'', ''days_of_week'', ''index''],
                  ms_object [(''day_of_month'', MS_DAY_OF_MONTH),
                             (''interval'', MS_INTERVAL),
                             (''month'', MS_MONTH),
                             (''type'', obj [(''const'', PStr ''absolute_yearly'')])]
                    [''type'', ''interval'', ''day_of_month'', ''month''],
                  ms_object [(''days_of_week'', MS_DAYS_OF_WEEK),
                             (''index'', MS_INDEX),
                             (''interval'', MS_INTERVAL),
                             (''month'', MS_MONTH),
                             (''type'', obj [(''const'', PStr ''relative_yearly'')])]
                    [''type'', ''interval'', ''days_of_week'', ''index'', ''month'']])]"

definition MS_RECURRENCE_RANGE :: "pyobj" where
  "MS_RECURRENCE_RANGE =
     obj [(''oneOf'',
           PList [ms_object [(''recurrence_time_zone'', MS_TIME_ZONE),
                             (''start_date'', MS_DATE),
                             (''type'', obj [(''const'', PStr ''no_end'')])]
                    [''type'', ''start_date''],
                  ms_object [(''end_date'', MS_DATE),
                             (''recurrence_time_zone'', MS_TIME_ZONE),
                             (''start_date'', MS_DATE),
                             (''type'', obj [(''const'', PStr ''end_date'')])]
                    [''type'', ''start_date'', ''end_date''],
                  ms_object [(''number_of_occurrences'',
                              obj [(''maximum'', PInt 999), (''minimum'', PInt 1),
                                   (''type'', PStr ''integer'')]),
                             (''recurrence_time_zone'', MS_TIME_ZONE),
                             (''start_date'', MS_DATE),
                             (''type'', obj [(''const'', PStr ''numbered'')])]
                    [''type'', ''start_date'', ''number_of_occurrences'']])]"

definition MS_RECURRENCE :: "pyobj" where
  "MS_RECURRENCE =
     ms_object [(''pattern'', MS_RECURRENCE_PATTERN), (''range'', MS_RECURRENCE_RANGE)]
       [''pattern'', ''range'']"

definition MS_MAIL_READ_SCOPES :: "string list list" where
  "MS_MAIL_READ_SCOPES =
     [[''Mail.Read''], [''Mail.ReadWrite'']]"

definition MS_MAIL_WRITE_SCOPES :: "string list list" where
  "MS_MAIL_WRITE_SCOPES =
     [[''Mail.ReadWrite'']]"

definition MS_MAIL_SEND_SCOPES :: "string list list" where
  "MS_MAIL_SEND_SCOPES =
     [[''Mail.ReadWrite'', ''Mail.Send'']]"

definition MS_CALENDAR_READ_SCOPES :: "string list list" where
  "MS_CALENDAR_READ_SCOPES =
     [[''Calendars.Read''], [''Calendars.ReadWrite'']]"

definition MS_CALENDAR_WRITE_SCOPES :: "string list list" where
  "MS_CALENDAR_WRITE_SCOPES =
     [[''Calendars.ReadWrite'']]"

definition MS_FOLDERS_LIST :: "pyobj" where
  "MS_FOLDERS_LIST =
     ms_object [(''order_by'', ms_enum [''display_name'']),
                (''page_size'', MS_PAGE_SIZE),
                (''parent_folder_id'', MS_ID),
                (''search'', ms_string 4096 0 None)] []"

definition MS_MESSAGES_LIST_COMMON_PROPERTIES :: "fields" where
  "MS_MESSAGES_LIST_COMMON_PROPERTIES =
     [(''fields'', MS_MESSAGE_LIST_FIELDS), (''folder_id'', MS_ID),
      (''page_size'', MS_MESSAGES_PAGE_SIZE)]"

definition MS_MESSAGES_LIST_INCREMENTAL_PROPERTIES :: "fields" where
  "MS_MESSAGES_LIST_INCREMENTAL_PROPERTIES =
     (fmerge MS_MESSAGES_LIST_COMMON_PROPERTIES
        [(''last_modified_since'',
          ms_string 128 20
            (Some (''^'' @ [CHR 0x5C] @ ''d{4}-'' @ [CHR 0x5C] @ ''d{2}-'' @ [CHR 0x5C] @
                     ''d{2}[Tt]'' @ [CHR 0x5C] @ ''d{2}:'' @ [CHR 0x5C] @ ''d{2}:'' @ [CHR 0x5C] @
                     ''d{2}(?:'' @ [CHR 0x5C] @ ''.'' @ [CHR 0x5C] @ ''d+)?(?:[Zz]|[+-]'' @
                     [CHR 0x5C] @ ''d{2}:'' @ [CHR 0x5C] @ ''d{2})$''))),
         (''order_by'', ms_enum [''received_at'', ''sent_at'', ''subject'', ''last_modified_at'']),
         (''sort_direction'', ms_enum [''ascending'', ''descending''])])"

definition MS_MESSAGES_LIST :: "pyobj" where
  "MS_MESSAGES_LIST =
     with_key (ms_object (fmerge MS_MESSAGES_LIST_COMMON_PROPERTIES
                            [(''last_modified_since'',
                              field MS_MESSAGES_LIST_INCREMENTAL_PROPERTIES ''last_modified_since''),
                             (''is_read'', obj [(''type'', PStr ''boolean'')]),
                             (''order_by'',
                              ms_enum [''received_at'', ''sent_at'', ''subject'',
                                       ''last_modified_at'']),
                             (''search'', ms_string 4096 0 None),
                             (''sort_direction'', ms_enum [''ascending'', ''descending''])]) [])
       ''oneOf'' (PList [ms_object (fmerge MS_MESSAGES_LIST_COMMON_PROPERTIES
                                      [(''is_read'', obj [(''type'', PStr ''boolean'')])]) [],
                         ms_object (fmerge MS_MESSAGES_LIST_COMMON_PROPERTIES
                                      [(''search'', ms_string 4096 0 None)]) [''search''],
                         ms_object (fmerge MS_MESSAGES_LIST_COMMON_PROPERTIES
                                      [(''order_by'',
                                        ms_enum [''received_at'', ''sent_at'', ''subject'',
                                                 ''last_modified_at'']),
                                       (''sort_direction'', ms_enum [''ascending'', ''descending''])])
                           [''order_by''],
                         ms_object MS_MESSAGES_LIST_INCREMENTAL_PROPERTIES
                           [''last_modified_since'']])"

definition MS_DELTA_LINK :: "pyobj" where
  "MS_DELTA_LINK =
     ms_string 16384 1 None"

definition MS_FOLDERS_DELTA :: "pyobj" where
  "MS_FOLDERS_DELTA =
     with_key (ms_object [(''delta_link'', MS_DELTA_LINK), (''page_size'', MS_PAGE_SIZE)] [])
       ''oneOf'' (PList [ms_object [(''page_size'', MS_PAGE_SIZE)] [],
                         ms_object [(''delta_link'', MS_DELTA_LINK)] [''delta_link'']])"

definition MS_MESSAGES_DELTA :: "pyobj" where
  "MS_MESSAGES_DELTA =
     with_key (ms_object [(''delta_link'', MS_DELTA_LINK), (''folder_id'', MS_ID),
                          (''page_size'', MS_MESSAGES_PAGE_SIZE)] [''folder_id'']) ''oneOf''
       (PList [ms_object [(''folder_id'', MS_ID), (''page_size'', MS_MESSAGES_PAGE_SIZE)]
                 [''folder_id''],
               ms_object [(''delta_link'', MS_DELTA_LINK), (''folder_id'', MS_ID)]
                 [''folder_id'', ''delta_link'']])"

definition MS_MESSAGES_GET :: "pyobj" where
  "MS_MESSAGES_GET =
     ms_object [(''body_format'', ms_enum [''text'', ''html'']),
                (''fields'', MS_MESSAGE_GET_FIELDS),
                (''message_id'', MS_ID)] [''message_id'']"

definition MS_CALENDARS_LIST :: "pyobj" where
  "MS_CALENDARS_LIST =
     ms_object [(''order_by'', ms_enum [''name'']), (''page_size'', MS_PAGE_SIZE)] []"

definition MS_EVENTS_LIST :: "pyobj" where
  "MS_EVENTS_LIST =
     ms_object [(''calendar_id'', MS_ID),
                (''order_by'',
                 ms_enum [''start_at'', ''end_at'', ''subject'', ''last_modified_at'']),
                (''page_size'', MS_PAGE_SIZE),
                (''sort_direction'', ms_enum [''ascending'', ''descending'']),
                (''time_zone'', MS_TIME_ZONE)] [''calendar_id'']"

definition MS_EVENTS_DELTA :: "pyobj" where
  "MS_EVENTS_DELTA =
     with_key (ms_object [(''delta_link'', MS_DELTA_LINK),
                          (''end'', MS_DATE_TIME),
                          (''page_size'', MS_CALENDAR_WINDOW_PAGE_SIZE),
                          (''start'', MS_DATE_TIME)] []) ''oneOf''
       (PList [ms_object [(''end'', MS_DATE_TIME),
                          (''page_size'', MS_CALENDAR_WINDOW_PAGE_SIZE),
                          (''start'', MS_DATE_TIME)] [''start'', ''end''],
               ms_object [(''delta_link'', MS_DELTA_LINK),
                          (''page_size'', MS_CALENDAR_WINDOW_PAGE_SIZE)] [''delta_link'']])"

definition MS_ONLINE_MEETING_PROVIDER :: "pyobj" where
  "MS_ONLINE_MEETING_PROVIDER =
     ms_enum [''teams_for_business'']"

definition MS_EVENT_CREATE_PROPERTIES :: "fields" where
  "MS_EVENT_CREATE_PROPERTIES =
     [(''attendees'', MS_ATTENDEES),
      (''body'', MS_BODY),
      (''calendar_id'', MS_ID),
      (''categories'', MS_CATEGORIES),
      (''end'', MS_EVENT_TIME),
      (''importance'', MS_IMPORTANCE),
      (''is_all_day'', obj [(''type'', PStr ''boolean'')]),
      (''is_reminder_on'', obj [(''type'', PStr ''boolean'')]),
      (''location'', MS_SHORT_TEXT),
      (''recurrence'', MS_RECURRENCE),
      (''reminder_minutes_before_start'',
       obj [(''maximum'', PInt 10080), (''minimum'', PInt 0), (''type'', PStr ''integer'')]),
      (''response_requested'', obj [(''type'', PStr ''boolean'')]),
      (''sensitivity'', MS_SENSITIVITY),
      (''show_as'', MS_SHOW_AS),
      (''start'', MS_EVENT_TIME),
      (''subject'', ms_string 4096 0 None),
      (''transaction_id'', ms_string 256 1 None)]"

definition MS_EVENT_CREATE_REQUIRED :: "string list" where
  "MS_EVENT_CREATE_REQUIRED =
     [''calendar_id'', ''transaction_id'', ''subject'', ''body'', ''start'', ''end'']"

definition ms_event_create_variant :: "fields \<Rightarrow> string list \<Rightarrow> pyobj" where
  "ms_event_create_variant online_properties online_required =
     ms_object (fmerge MS_EVENT_CREATE_PROPERTIES online_properties)
       (MS_EVENT_CREATE_REQUIRED @ online_required)"

definition MS_EVENT_CREATE_SCHEMA :: "pyobj" where
  "MS_EVENT_CREATE_SCHEMA =
     with_key (ms_event_create_variant
                 [(''is_online_meeting'', obj [(''type'', PStr ''boolean'')]),
                  (''online_meeting_provider'', MS_ONLINE_MEETING_PROVIDER)] []) ''oneOf''
       (PList [ms_event_create_variant [] [],
               ms_event_create_variant [(''is_online_meeting'', obj [(''const'', PBool False)])]
                 [''is_online_meeting''],
               ms_event_create_variant
                 [(''is_online_meeting'', obj [(''const'', PBool True)]),
                  (''online_meeting_provider'', MS_ONLINE_MEETING_PROVIDER)]
                 [''is_online_meeting'']])"

definition outlook_mail_read_operations :: "operation_args list" where
  "outlook_mail_read_operations =
     [(''outlook_mail'', READ, ''folders.list'', E_READ, MS_MAIL_READ_SCOPES, MS_FOLDERS_LIST),
      (''outlook_mail'',
       READ,
       ''folders.get'',
       E_READ,
       MS_MAIL_READ_SCOPES,
       ms_object [(''folder_id'', MS_ID)] [''folder_id'']),
      (''outlook_mail'', READ, ''folders.delta'', E_READ, MS_MAIL_READ_SCOPES, MS_FOLDERS_DELTA),
      (''outlook_mail'', READ, ''messages.list'', E_READ, MS_MAIL_READ_SCOPES, MS_MESSAGES_LIST),
      (''outlook_mail'', READ, ''messages.delta'', E_READ, MS_MAIL_READ_SCOPES, MS_MESSAGES_DELTA),
      (''outlook_mail'', READ, ''messages.get'', E_READ, MS_MAIL_READ_SCOPES, MS_MESSAGES_GET),
      (''outlook_mail'',
       READ,
       ''messages.mime'',
       E_READ,
       MS_MAIL_READ_SCOPES,
       ms_object [(''delivery'', ms_enum [''inline'', ''artifact'']), (''message_id'', MS_ID)]
         [''message_id'']),
      (''outlook_mail'',
       READ,
       ''attachments.list'',
       E_READ,
       MS_MAIL_READ_SCOPES,
       ms_object [(''message_id'', MS_ID)] [''message_id'']),
      (''outlook_mail'',
       READ,
       ''attachments.get'',
       E_READ,
       MS_MAIL_READ_SCOPES,
       ms_object [(''attachment_id'', MS_ID),
                  (''delivery'', ms_enum [''metadata'', ''artifact'']),
                  (''message_id'', MS_ID)] [''message_id'', ''attachment_id''])]"

definition outlook_mail_write_operations_1 :: "operation_args list" where
  "outlook_mail_write_operations_1 =
     [(''outlook_mail'',
       WRITE,
       ''folders.create'',
       SAFE_MUTATION,
       MS_MAIL_WRITE_SCOPES,
       ms_object [(''display_name'', MS_NAME), (''parent_folder_id'', MS_ID)] [''display_name'']),
      (''outlook_mail'',
       WRITE,
       ''folders.update'',
       SAFE_MUTATION,
       MS_MAIL_WRITE_SCOPES,
       ms_object [(''change_key'', MS_CHANGE_KEY), (''display_name'', MS_NAME),
                  (''folder_id'', MS_ID)] [''folder_id'']),
      (''outlook_mail'',
       WRITE,
       ''folders.move'',
       SAFE_MUTATION,
       MS_MAIL_WRITE_SCOPES,
       ms_object [(''change_key'', MS_CHANGE_KEY), (''destination_folder_id'', MS_ID),
                  (''folder_id'', MS_ID)] [''folder_id'', ''destination_folder_id'']),
      (''outlook_mail'',
       WRITE,
       ''folders.trash'',
       DESTRUCTIVE,
       MS_MAIL_WRITE_SCOPES,
       ms_object [(''change_key'', MS_CHANGE_KEY), (''folder_id'', MS_ID)] [''folder_id'']),
      (''outlook_mail'',
       WRITE,
       ''folders.restore'',
       SAFE_MUTATION,
       MS_MAIL_WRITE_SCOPES,
       ms_object [(''change_key'', MS_CHANGE_KEY), (''folder_id'', MS_ID),
                  (''parent_folder_id'', MS_ID)] [''folder_id'']),
      (''outlook_mail'',
       WRITE,
       ''folders.purge'',
       PERMANENT,
       MS_MAIL_WRITE_SCOPES,
       ms_object [(''change_key'', MS_CHANGE_KEY), (''folder_id'', MS_ID)] [''folder_id'']),
      (''outlook_mail'',
       WRITE,
       ''drafts.create'',
       SAFE_MUTATION,
       MS_MAIL_WRITE_SCOPES,
       ms_object [(''bcc_recipients'', MS_RECIPIENTS), (''body'', MS_BODY),
                  (''categories'', MS_CATEGORIES), (''cc_recipients'', MS_RECIPIENTS),
                  (''importance'', MS_IMPORTANCE), (''subject'', ms_string 4096 0 None),
                  (''to_recipients'', MS_RECIPIENTS)] []),
      (''outlook_mail'',
       WRITE,
       ''drafts.update'',
       SAFE_MUTATION,
       MS_MAIL_WRITE_SCOPES,
       ms_object [(''bcc_recipients'', MS_RECIPIENTS), (''body'', MS_BODY),
                  (''categories'', MS_CATEGORIES), (''cc_recipients'', MS_RECIPIENTS),
                  (''change_key'', MS_CHANGE_KEY), (''importance'', MS_IMPORTANCE),
                  (''message_id'', MS_ID), (''subject'', ms_string 4096 0 None),
                  (''to_recipients'', MS_RECIPIENTS)] [''message_id'']),
      (''outlook_mail'',
       WRITE,
       ''drafts.reply'',
       SAFE_MUTATION,
       MS_MAIL_WRITE_SCOPES,
       ms_object [(''comment'', MS_BODY_TEXT), (''message_id'', MS_ID)] [''message_id'']),
      (''outlook_mail'',
       WRITE,
       ''drafts.reply_all'',
       SAFE_MUTATION,
       MS_MAIL_WRITE_SCOPES,
       ms_object [(''comment'', MS_BODY_TEXT), (''message_id'', MS_ID)] [''message_id'']),
      (''outlook_mail'',
       WRITE,
       ''drafts.forward'',
       SAFE_MUTATION,
       MS_MAIL_WRITE_SCOPES,
       ms_object [(''comment'', MS_BODY_TEXT), (''message_id'', MS_ID),
                  (''to_recipients'', MS_RECIPIENTS)] [''message_id'', ''to_recipients'']),
      (''outlook_mail'',
       WRITE,
       ''attachments.add'',
       SAFE_MUTATION,
       MS_MAIL_WRITE_SCOPES,
       ms_object [(''attachment'', MS_ATTACHMENT), (''change_key'', MS_CHANGE_KEY),
                  (''message_id'', MS_ID)] [''message_id'', ''attachment''])]"

definition outlook_mail_write_operations_2 :: "operation_args list" where
  "outlook_mail_write_operations_2 =
     [(''outlook_mail'',
       WRITE,
       ''attachments.delete'',
       DESTRUCTIVE,
       MS_MAIL_WRITE_SCOPES,
       ms_object [(''attachment_id'', MS_ID), (''change_key'', MS_CHANGE_KEY),
                  (''message_id'', MS_ID)] [''message_id'', ''attachment_id'']),
      (''outlook_mail'',
       WRITE,
       ''drafts.send'',
       OUTWARD,
       MS_MAIL_SEND_SCOPES,
       ms_object [(''change_key'', MS_CHANGE_KEY), (''message_id'', MS_ID)] [''message_id'']),
      (''outlook_mail'',
       WRITE,
       ''messages.update'',
       SAFE_MUTATION,
       MS_MAIL_WRITE_SCOPES,
       ms_object [(''categories'', MS_CATEGORIES),
                  (''change_key'', MS_CHANGE_KEY),
                  (''follow_up'', MS_FOLLOW_UP),
                  (''follow_up_completed'', MS_EVENT_TIME),
                  (''follow_up_due'', MS_EVENT_TIME),
                  (''follow_up_start'', MS_EVENT_TIME),
                  (''importance'', MS_IMPORTANCE),
                  (''is_read'', obj [(''type'', PStr ''boolean'')]),
                  (''message_id'', MS_ID)] [''message_id'']),
      (''outlook_mail'',
       WRITE,
       ''messages.copy'',
       SAFE_MUTATION,
       MS_MAIL_WRITE_SCOPES,
       ms_object [(''change_key'', MS_CHANGE_KEY), (''destination_folder_id'', MS_ID),
                  (''message_id'', MS_ID)] [''message_id'', ''destination_folder_id'']),
      (''outlook_mail'',
       WRITE,
       ''messages.move'',
       SAFE_MUTATION,
       MS_MAIL_WRITE_SCOPES,
       ms_object [(''change_key'', MS_CHANGE_KEY), (''destination_folder_id'', MS_ID),
                  (''message_id'', MS_ID)] [''message_id'', ''destination_folder_id'']),
      (''outlook_mail'',
       WRITE,
       ''messages.trash'',
       DESTRUCTIVE,
       MS_MAIL_WRITE_SCOPES,
       ms_object [(''change_key'', MS_CHANGE_KEY), (''message_id'', MS_ID)] [''message_id'']),
      (''outlook_mail'',
       WRITE,
       ''messages.restore'',
       SAFE_MUTATION,
       MS_MAIL_WRITE_SCOPES,
       ms_object [(''change_key'', MS_CHANGE_KEY), (''message_id'', MS_ID),
                  (''restore_handle'', MS_RESTORE_HANDLE)] [''message_id'', ''restore_handle'']),
      (''outlook_mail'',
       WRITE,
       ''messages.purge'',
       PERMANENT,
       MS_MAIL_WRITE_SCOPES,
       ms_object [(''change_key'', MS_CHANGE_KEY), (''message_id'', MS_ID)] [''message_id''])]"

definition outlook_calendar_read_operations :: "operation_args list" where
  "outlook_calendar_read_operations =
     [(''outlook_calendar'', READ, ''calendars.list'', E_READ, MS_CALENDAR_READ_SCOPES,
       MS_CALENDARS_LIST),
      (''outlook_calendar'',
       READ,
       ''calendars.get'',
       E_READ,
       MS_CALENDAR_READ_SCOPES,
       ms_object [(''calendar_id'', MS_ID)] [''calendar_id'']),
      (''outlook_calendar'', READ, ''events.list'', E_READ, MS_CALENDAR_READ_SCOPES, MS_EVENTS_LIST),
      (''outlook_calendar'', READ, ''events.delta'', E_READ, MS_CALENDAR_READ_SCOPES,
       MS_EVENTS_DELTA),
      (''outlook_calendar'',
       READ,
       ''events.get'',
       E_READ,
       MS_CALENDAR_READ_SCOPES,
       ms_object [(''calendar_id'', MS_ID), (''event_id'', MS_ID), (''time_zone'', MS_TIME_ZONE)]
         [''calendar_id'', ''event_id'']),
      (''outlook_calendar'',
       READ,
       ''events.window'',
       E_READ,
       MS_CALENDAR_READ_SCOPES,
       ms_object [(''calendar_id'', MS_ID),
                  (''end'', MS_DATE_TIME),
                  (''page_size'', MS_CALENDAR_WINDOW_PAGE_SIZE),
                  (''start'', MS_DATE_TIME),
                  (''time_zone'', MS_TIME_ZONE)] [''calendar_id'', ''start'', ''end'']),
      (''outlook_calendar'',
       READ,
       ''events.instances'',
       E_READ,
       MS_CALENDAR_READ_SCOPES,
       ms_object [(''calendar_id'', MS_ID),
                  (''end'', MS_DATE_TIME),
                  (''event_id'', MS_ID),
                  (''page_size'', MS_CALENDAR_WINDOW_PAGE_SIZE),
                  (''start'', MS_DATE_TIME),
                  (''time_zone'', MS_TIME_ZONE)]
         [''calendar_id'', ''event_id'', ''start'', ''end'']),
      (''outlook_calendar'',
       READ,
       ''freebusy.query'',
       E_READ,
       MS_CALENDAR_READ_SCOPES,
       ms_object [(''attendees'', ms_array MS_EMAIL 20 1),
                  (''end'', MS_DATE_TIME),
                  (''interval_minutes'', MS_FREEBUSY_INTERVAL_MINUTES),
                  (''start'', MS_DATE_TIME),
                  (''time_zone'', MS_TIME_ZONE)] [''attendees'', ''start'', ''end'']),
      (''outlook_calendar'',
       READ,
       ''attachments.list'',
       E_READ,
       MS_CALENDAR_READ_SCOPES,
       ms_object [(''calendar_id'', MS_ID), (''event_id'', MS_ID)] [''calendar_id'', ''event_id'']),
      (''outlook_calendar'',
       READ,
       ''attachments.get'',
       E_READ,
       MS_CALENDAR_READ_SCOPES,
       ms_object [(''attachment_id'', MS_ID),
                  (''calendar_id'', MS_ID),
                  (''delivery'', ms_enum [''metadata'', ''artifact'']),
                  (''event_id'', MS_ID)] [''calendar_id'', ''event_id'', ''attachment_id''])]"

definition outlook_calendar_write_operations_1 :: "operation_args list" where
  "outlook_calendar_write_operations_1 =
     [(''outlook_calendar'',
       WRITE,
       ''calendars.create'',
       SAFE_MUTATION,
       MS_CALENDAR_WRITE_SCOPES,
       ms_object [(''name'', MS_NAME)] [''name'']),
      (''outlook_calendar'',
       WRITE,
       ''calendars.update'',
       SAFE_MUTATION,
       MS_CALENDAR_WRITE_SCOPES,
       ms_object [(''change_key'', MS_CHANGE_KEY),
                  (''color'',
                   ms_enum [''auto'', ''light_blue'', ''light_green'', ''light_orange'',
                            ''light_gray'', ''light_yellow'', ''light_teal'', ''light_pink'',
                            ''light_brown'', ''light_red'', ''max_color'']),
                  (''calendar_id'', MS_ID),
                  (''name'', MS_NAME)] [''calendar_id'']),
      (''outlook_calendar'',
       WRITE,
       ''calendars.delete'',
       DESTRUCTIVE,
       MS_CALENDAR_WRITE_SCOPES,
       ms_object [(''calendar_id'', MS_ID), (''change_key'', MS_CHANGE_KEY)] [''calendar_id'']),
      (''outlook_calendar'',
       WRITE,
       ''calendars.purge'',
       PERMANENT,
       MS_CALENDAR_WRITE_SCOPES,
       ms_object [(''calendar_id'', MS_ID), (''change_key'', MS_CHANGE_KEY)] [''calendar_id'']),
      (''outlook_calendar'', WRITE, ''events.create'', SAFE_MUTATION, MS_CALENDAR_WRITE_SCOPES,
       MS_EVENT_CREATE_SCHEMA),
      (''outlook_calendar'',
       WRITE,
       ''events.update'',
       SAFE_MUTATION,
       MS_CALENDAR_WRITE_SCOPES,
       ms_object [(''attendees'', MS_ATTENDEES),
                  (''body'', MS_BODY),
                  (''calendar_id'', MS_ID),
                  (''categories'', MS_CATEGORIES),
                  (''change_key'', MS_CHANGE_KEY),
                  (''end'', MS_EVENT_TIME),
                  (''event_id'', MS_ID),
                  (''importance'', MS_IMPORTANCE),
                  (''is_all_day'', obj [(''type'', PStr ''boolean'')]),
                  (''is_reminder_on'', obj [(''type'', PStr ''boolean'')]),
                  (''location'', MS_SHORT_TEXT),
                  (''recurrence'', MS_RECURRENCE),
                  (''reminder_minutes_before_start'',
                   obj [(''maximum'', PInt 10080), (''minimum'', PInt 0),
                        (''type'', PStr ''integer'')]),
                  (''response_requested'', obj [(''type'', PStr ''boolean'')]),
                  (''sensitivity'', MS_SENSITIVITY),
                  (''show_as'', MS_SHOW_AS),
                  (''start'', MS_EVENT_TIME),
                  (''subject'', ms_string 4096 0 None)]
         [''calendar_id'', ''event_id'', ''change_key'']),
      (''outlook_calendar'',
       WRITE,
       ''events.delete'',
       DESTRUCTIVE,
       MS_CALENDAR_WRITE_SCOPES,
       ms_object [(''calendar_id'', MS_ID), (''change_key'', MS_CHANGE_KEY), (''event_id'', MS_ID)]
         [''calendar_id'', ''event_id'', ''change_key'']),
      (''outlook_calendar'',
       WRITE,
       ''events.cancel'',
       DESTRUCTIVE,
       MS_CALENDAR_WRITE_SCOPES,
       ms_object [(''calendar_id'', MS_ID), (''change_key'', MS_CHANGE_KEY),
                  (''comment'', MS_BODY_TEXT), (''event_id'', MS_ID)]
         [''calendar_id'', ''event_id'']),
      (''outlook_calendar'',
       WRITE,
       ''events.accept'',
       OUTWARD,
       MS_CALENDAR_WRITE_SCOPES,
       ms_object [(''calendar_id'', MS_ID), (''change_key'', MS_CHANGE_KEY),
                  (''comment'', MS_BODY_TEXT), (''event_id'', MS_ID)]
         [''calendar_id'', ''event_id''])]"

definition outlook_calendar_write_operations_2 :: "operation_args list" where
  "outlook_calendar_write_operations_2 =
     [(''outlook_calendar'',
       WRITE,
       ''events.tentative'',
       OUTWARD,
       MS_CALENDAR_WRITE_SCOPES,
       ms_object [(''calendar_id'', MS_ID), (''change_key'', MS_CHANGE_KEY),
                  (''comment'', MS_BODY_TEXT), (''event_id'', MS_ID)]
         [''calendar_id'', ''event_id'']),
      (''outlook_calendar'',
       WRITE,
       ''events.decline'',
       OUTWARD,
       MS_CALENDAR_WRITE_SCOPES,
       ms_object [(''calendar_id'', MS_ID), (''change_key'', MS_CHANGE_KEY),
                  (''comment'', MS_BODY_TEXT), (''event_id'', MS_ID)]
         [''calendar_id'', ''event_id'']),
      (''outlook_calendar'',
       WRITE,
       ''events.forward'',
       OUTWARD,
       MS_CALENDAR_WRITE_SCOPES,
       ms_object [(''calendar_id'', MS_ID), (''change_key'', MS_CHANGE_KEY),
                  (''comment'', MS_BODY_TEXT), (''event_id'', MS_ID),
                  (''recipients'', MS_RECIPIENTS)] [''calendar_id'', ''event_id'', ''recipients'']),
      (''outlook_calendar'',
       WRITE,
       ''attachments.add'',
       SAFE_MUTATION,
       MS_CALENDAR_WRITE_SCOPES,
       ms_object [(''attachment'', MS_ATTACHMENT), (''calendar_id'', MS_ID),
                  (''change_key'', MS_CHANGE_KEY), (''event_id'', MS_ID)]
         [''calendar_id'', ''event_id'', ''attachment'', ''change_key'']),
      (''outlook_calendar'',
       WRITE,
       ''attachments.delete'',
       DESTRUCTIVE,
       MS_CALENDAR_WRITE_SCOPES,
       ms_object [(''attachment_id'', MS_ID), (''calendar_id'', MS_ID),
                  (''change_key'', MS_CHANGE_KEY), (''event_id'', MS_ID)]
         [''calendar_id'', ''event_id'', ''attachment_id'']),
      (''outlook_calendar'',
       WRITE,
       ''events.purge'',
       PERMANENT,
       MS_CALENDAR_WRITE_SCOPES,
       ms_object [(''calendar_id'', MS_ID), (''change_key'', MS_CHANGE_KEY), (''event_id'', MS_ID)]
         [''calendar_id'', ''event_id'', ''change_key''])]"

definition MICROSOFT_OPERATIONS :: "operation_spec list result" where
  "MICROSOFT_OPERATIONS =
     mapE ms_operation
       (outlook_mail_read_operations @
        outlook_mail_write_operations_1 @
        outlook_mail_write_operations_2 @
        outlook_calendar_read_operations @
        outlook_calendar_write_operations_1 @
        outlook_calendar_write_operations_2)"

lemmas ms_defs =
  ms_object_def ms_string_def ms_array_def ms_enum_def MS_ID_def MS_CHANGE_KEY_def
  MS_RESTORE_HANDLE_def MS_SHORT_TEXT_def MS_NAME_def MS_BODY_TEXT_def MS_DATE_TIME_def
  MS_DATE_def MS_TIME_ZONE_def MS_EMAIL_def MS_PAGE_SIZE_def MS_CALENDAR_WINDOW_PAGE_SIZE_def
  MS_MESSAGES_PAGE_SIZE_def MS_FREEBUSY_INTERVAL_MINUTES_def MS_MESSAGE_FIELD_NAMES_def
  MS_MESSAGE_LIST_FIELD_NAMES_def MS_MESSAGE_LIST_FIELDS_def MS_MESSAGE_GET_FIELDS_def
  MS_IMPORTANCE_def MS_FOLLOW_UP_def MS_SENSITIVITY_def MS_SHOW_AS_def MS_BODY_def
  MS_RECIPIENT_def MS_RECIPIENTS_def MS_ATTENDEES_def MS_CATEGORIES_def MS_LOCAL_FILE_def
  MS_ATTACHMENT_METADATA_def MS_ATTACHMENT_def MS_EVENT_TIME_def MS_DAY_OF_WEEK_def
  MS_DAYS_OF_WEEK_def MS_INTERVAL_def MS_DAY_OF_MONTH_def MS_MONTH_def MS_INDEX_def
  MS_RECURRENCE_PATTERN_def MS_RECURRENCE_RANGE_def MS_RECURRENCE_def MS_MAIL_READ_SCOPES_def
  MS_MAIL_WRITE_SCOPES_def MS_MAIL_SEND_SCOPES_def MS_CALENDAR_READ_SCOPES_def
  MS_CALENDAR_WRITE_SCOPES_def MS_FOLDERS_LIST_def MS_MESSAGES_LIST_COMMON_PROPERTIES_def
  MS_MESSAGES_LIST_INCREMENTAL_PROPERTIES_def MS_MESSAGES_LIST_def MS_DELTA_LINK_def
  MS_FOLDERS_DELTA_def MS_MESSAGES_DELTA_def MS_MESSAGES_GET_def MS_CALENDARS_LIST_def
  MS_EVENTS_LIST_def MS_EVENTS_DELTA_def MS_ONLINE_MEETING_PROVIDER_def
  MS_EVENT_CREATE_PROPERTIES_def MS_EVENT_CREATE_REQUIRED_def ms_event_create_variant_def
  MS_EVENT_CREATE_SCHEMA_def outlook_mail_read_operations_def
  outlook_mail_write_operations_1_def outlook_mail_write_operations_2_def
  outlook_calendar_read_operations_def outlook_calendar_write_operations_1_def
  outlook_calendar_write_operations_2_def

end
