(* ===== verification/Catalog_Microsoft_Wf.thy ===== *)
theory Catalog_Microsoft_Wf
  imports Catalog_Wf Catalog_Microsoft
begin

section \<open>The Microsoft schemas are well formed\<close>

text \<open>
  Every shared schema of the module, then every row of its operation tables. The names, texts
  and patterns that occur are checked once, by evaluation, in the tables at the top.
\<close>

lemma ms_object_wf [schema_shapes]:
  "depth \<le> 16 \<Longrightarrow> object_fields_wf depth fs req \<Longrightarrow> swf rc depth (ms_object fs req)"
  "depth \<le> 16 \<Longrightarrow> object_fields_wf depth fs req \<Longrightarrow> bs \<noteq> [] \<Longrightarrow> ilen bs \<le> 64 \<Longrightarrow>
     swfs (depth + 1) bs \<Longrightarrow> swf rc depth (with_key (ms_object fs req) ''oneOf'' (PList bs))"
  by (simp_all add: ms_object_def with_key_obj swf_object)

lemma ms_names_wf:
  "list_all name_wf
     [''attachment'', ''attachment_id'', ''attendees'', ''bcc_recipients'', ''body'',
      ''body_format'', ''calendar_id'', ''categories'', ''cc_recipients'', ''change_key'',
      ''color'', ''comment'', ''const'', ''content'', ''content_base64'', ''content_type'',
      ''date_time'', ''day_of_month'', ''days_of_week'', ''delivery'', ''delta_link'',
      ''destination_folder_id'', ''display_name'', ''email'', ''end'', ''end_date'', ''enum'',
      ''event_id'', ''fields'', ''first_day_of_week'', ''folder_id'', ''follow_up'',
      ''follow_up_completed'', ''follow_up_due'', ''follow_up_start'', ''grant_id'',
      ''importance'', ''index'', ''interval'', ''interval_minutes'', ''is_all_day'',
      ''is_online_meeting'', ''is_read'', ''is_reminder_on'', ''items'', ''last_modified_since'',
      ''local_file'', ''location'', ''maxItems'', ''maxLength'', ''maximum'', ''message_id'',
      ''minimum'', ''month'', ''name'', ''number_of_occurrences'', ''oneOf'',
      ''online_meeting_provider'', ''order_by'', ''outlook_calendar'', ''outlook_mail'',
      ''page_size'', ''parent_folder_id'', ''pattern'', ''properties'', ''range'',
      ''recipients'', ''recurrence'', ''recurrence_time_zone'', ''relative_path'',
      ''reminder_minutes_before_start'', ''required'', ''response_requested'',
      ''restore_handle'', ''search'', ''sensitivity'', ''show_as'', ''sort_direction'',
      ''start'', ''start_date'', ''subject'', ''time_zone'', ''to_recipients'',
      ''transaction_id'', ''type'']"
  by code_simp

lemma ms_texts_plain:
  "list_all plain_text
     [''Calendars.Read'', ''Calendars.ReadWrite'', ''Mail.Read'', ''Mail.ReadWrite'',
      ''Mail.Send'', ''absolute_monthly'', ''absolute_yearly'', ''array'', ''artifact'',
      ''ascending'', ''attachment'', ''attachment_id'', ''attendees'', ''auto'',
      ''bcc_recipients'', ''body'', ''body_preview'', ''boolean'', ''busy'', ''calendar_id'',
      ''categories'', ''cc_recipients'', ''change_key'', ''complete'', ''confidential'',
      ''content'', ''content_base64'', ''content_type'', ''conversation_id'',
      ''conversation_index'', ''created_at'', ''daily'', ''date_time'', ''day_of_month'',
      ''days_of_week'', ''delta_link'', ''descending'', ''destination_folder_id'',
      ''display_name'', ''email'', ''end'', ''end_at'', ''end_date'', ''event_id'', ''first'',
      ''first_day_of_week'', ''flag'', ''flagged'', ''folder_id'', ''fourth'', ''free'',
      ''friday'', ''from'', ''grant_id'', ''has_attachments'', ''high'', ''html'', ''id'',
      ''importance'', ''index'', ''inference_classification'', ''inline'', ''integer'',
      ''internet_message_headers'', ''internet_message_id'', ''interval'',
      ''is_delivery_receipt_requested'', ''is_draft'', ''is_online_meeting'', ''is_read'',
      ''is_read_receipt_requested'', ''last'', ''last_modified_at'', ''last_modified_since'',
      ''light_blue'', ''light_brown'', ''light_gray'', ''light_green'', ''light_orange'',
      ''light_pink'', ''light_red'', ''light_teal'', ''light_yellow'', ''local_file'', ''low'',
      ''max_color'', ''message_id'', ''metadata'', ''monday'', ''month'', ''name'', ''no_end'',
      ''normal'', ''not_flagged'', ''number_of_occurrences'', ''numbered'', ''object'', ''oof'',
      ''optional'', ''order_by'', ''parent_folder_id'', ''pattern'', ''personal'', ''private'',
      ''range'', ''received_at'', ''recipients'', ''relative_monthly'', ''relative_path'',
      ''relative_yearly'', ''reply_to'', ''required'', ''resource'', ''restore_handle'',
      ''saturday'', ''search'', ''second'', ''sender'', ''sent_at'', ''start'', ''start_at'',
      ''start_date'', ''string'', ''subject'', ''sunday'', ''teams_for_business'', ''tentative'',
      ''text'', ''third'', ''thursday'', ''time_zone'', ''to_recipients'', ''transaction_id'',
      ''tuesday'', ''type'', ''unique_body'', ''unknown'', ''web_link'', ''wednesday'',
      ''weekly'', ''working_elsewhere'']"
  by code_simp

lemma ms_patterns_wf:
  "pattern_text_wf ''^[A-Za-z0-9+/]+={0,2}$''"
  "pattern_text_wf ''^rst-[A-Za-z0-9_-]{43}$''"
  "pattern_text_wf (''^'' @ [CHR 0x5C] @ ''d{4}-'' @ [CHR 0x5C] @ ''d{2}-'' @ [CHR 0x5C] @
        ''d{2}[Tt]'' @ [CHR 0x5C] @ ''d{2}:'' @ [CHR 0x5C] @ ''d{2}:'' @ [CHR 0x5C] @
        ''d{2}(?:'' @ [CHR 0x5C] @ ''.'' @ [CHR 0x5C] @
        ''d+)?(?:[Zz]|[+-]'' @ [CHR 0x5C] @
        ''d{2}:'' @ [CHR 0x5C] @ ''d{2})$'')"
  "pattern_text_wf (''^[^@'' @ [CHR 0x5C] @ ''s]+@[^@'' @ [CHR 0x5C] @ ''s]+$'')"
  by code_simp+

lemmas ms_tables [simp] =
  ms_names_wf [unfolded list.pred_inject simp_thms] ms_texts_plain [unfolded list.pred_inject simp_thms]
  ms_patterns_wf [simplified]

lemmas ms_rules =
  ms_string_def ms_array_def ms_enum_def MS_MESSAGE_FIELD_NAMES_def
  MS_MESSAGE_LIST_FIELD_NAMES_def MS_ATTACHMENT_METADATA_def MS_MAIL_READ_SCOPES_def
  MS_MAIL_WRITE_SCOPES_def MS_MAIL_SEND_SCOPES_def MS_CALENDAR_READ_SCOPES_def
  MS_CALENDAR_WRITE_SCOPES_def MS_MESSAGES_LIST_COMMON_PROPERTIES_def
  MS_MESSAGES_LIST_INCREMENTAL_PROPERTIES_def MS_EVENT_CREATE_PROPERTIES_def
  MS_EVENT_CREATE_REQUIRED_def ms_event_create_variant_def

subsection \<open>Shared schemas\<close>

lemma MS_ID_wf [simp]: "depth \<le> 13 \<Longrightarrow> swf False depth MS_ID"
  by (simp add: MS_ID_def ms_rules schema_shapes)

lemma MS_CHANGE_KEY_wf [simp]: "depth \<le> 13 \<Longrightarrow> swf False depth MS_CHANGE_KEY"
  by (simp add: MS_CHANGE_KEY_def ms_rules schema_shapes)

lemma MS_RESTORE_HANDLE_wf [simp]: "depth \<le> 13 \<Longrightarrow> swf False depth MS_RESTORE_HANDLE"
  by (simp add: MS_RESTORE_HANDLE_def ms_rules schema_shapes)

lemma MS_SHORT_TEXT_wf [simp]: "depth \<le> 13 \<Longrightarrow> swf False depth MS_SHORT_TEXT"
  by (simp add: MS_SHORT_TEXT_def ms_rules schema_shapes)

lemma MS_NAME_wf [simp]: "depth \<le> 13 \<Longrightarrow> swf False depth MS_NAME"
  by (simp add: MS_NAME_def ms_rules schema_shapes)

lemma MS_BODY_TEXT_wf [simp]: "depth \<le> 13 \<Longrightarrow> swf False depth MS_BODY_TEXT"
  by (simp add: MS_BODY_TEXT_def ms_rules schema_shapes)

lemma MS_DATE_TIME_wf [simp]: "depth \<le> 13 \<Longrightarrow> swf False depth MS_DATE_TIME"
  by (simp add: MS_DATE_TIME_def ms_rules schema_shapes)

lemma MS_DATE_wf [simp]: "depth \<le> 13 \<Longrightarrow> swf False depth MS_DATE"
  by (simp add: MS_DATE_def ms_rules schema_shapes)

lemma MS_TIME_ZONE_wf [simp]: "depth \<le> 13 \<Longrightarrow> swf False depth MS_TIME_ZONE"
  by (simp add: MS_TIME_ZONE_def ms_rules schema_shapes)

lemma MS_EMAIL_wf [simp]: "depth \<le> 13 \<Longrightarrow> swf False depth MS_EMAIL"
  by (simp add: MS_EMAIL_def ms_rules schema_shapes)

lemma MS_PAGE_SIZE_wf [simp]: "depth \<le> 13 \<Longrightarrow> swf False depth MS_PAGE_SIZE"
  by (simp add: MS_PAGE_SIZE_def ms_rules schema_shapes)

lemma MS_CALENDAR_WINDOW_PAGE_SIZE_wf [simp]: "depth \<le> 13 \<Longrightarrow> swf False depth MS_CALENDAR_WINDOW_PAGE_SIZE"
  by (simp add: MS_CALENDAR_WINDOW_PAGE_SIZE_def ms_rules schema_shapes)

lemma MS_MESSAGES_PAGE_SIZE_wf [simp]: "depth \<le> 13 \<Longrightarrow> swf False depth MS_MESSAGES_PAGE_SIZE"
  by (simp add: MS_MESSAGES_PAGE_SIZE_def ms_rules schema_shapes)

lemma MS_FREEBUSY_INTERVAL_MINUTES_wf [simp]: "depth \<le> 13 \<Longrightarrow> swf False depth MS_FREEBUSY_INTERVAL_MINUTES"
  by (simp add: MS_FREEBUSY_INTERVAL_MINUTES_def ms_rules schema_shapes)

lemma MS_MESSAGE_LIST_FIELDS_wf [simp]: "depth \<le> 13 \<Longrightarrow> swf False depth MS_MESSAGE_LIST_FIELDS"
  by (simp add: MS_MESSAGE_LIST_FIELDS_def ms_rules schema_shapes)

lemma MS_MESSAGE_GET_FIELDS_wf [simp]: "depth \<le> 13 \<Longrightarrow> swf False depth MS_MESSAGE_GET_FIELDS"
  by (simp add: MS_MESSAGE_GET_FIELDS_def ms_rules schema_shapes)

lemma MS_IMPORTANCE_wf [simp]: "depth \<le> 13 \<Longrightarrow> swf False depth MS_IMPORTANCE"
  by (simp add: MS_IMPORTANCE_def ms_rules schema_shapes)

lemma MS_FOLLOW_UP_wf [simp]: "depth \<le> 13 \<Longrightarrow> swf False depth MS_FOLLOW_UP"
  by (simp add: MS_FOLLOW_UP_def ms_rules schema_shapes)

lemma MS_SENSITIVITY_wf [simp]: "depth \<le> 13 \<Longrightarrow> swf False depth MS_SENSITIVITY"
  by (simp add: MS_SENSITIVITY_def ms_rules schema_shapes)

lemma MS_SHOW_AS_wf [simp]: "depth \<le> 13 \<Longrightarrow> swf False depth MS_SHOW_AS"
  by (simp add: MS_SHOW_AS_def ms_rules schema_shapes)

lemma MS_BODY_wf [simp]: "depth \<le> 10 \<Longrightarrow> swf False depth MS_BODY"
  by (simp add: MS_BODY_def ms_rules schema_shapes)

lemma MS_RECIPIENT_wf [simp]: "depth \<le> 10 \<Longrightarrow> swf False depth MS_RECIPIENT"
  by (simp add: MS_RECIPIENT_def ms_rules schema_shapes)

lemma MS_RECIPIENTS_wf [simp]: "depth \<le> 7 \<Longrightarrow> swf False depth MS_RECIPIENTS"
  by (simp add: MS_RECIPIENTS_def ms_rules schema_shapes)

lemma MS_ATTENDEES_wf [simp]: "depth \<le> 10 \<Longrightarrow> swf False depth MS_ATTENDEES"
  by (simp add: MS_ATTENDEES_def ms_rules schema_shapes)

lemma MS_CATEGORIES_wf [simp]: "depth \<le> 13 \<Longrightarrow> swf False depth MS_CATEGORIES"
  by (simp add: MS_CATEGORIES_def ms_rules schema_shapes)

lemma MS_LOCAL_FILE_wf [simp]: "depth \<le> 13 \<Longrightarrow> swf False depth MS_LOCAL_FILE"
  by (simp add: MS_LOCAL_FILE_def ms_rules schema_shapes)

lemma MS_ATTACHMENT_wf [simp]: "depth \<le> 10 \<Longrightarrow> swf False depth MS_ATTACHMENT"
  by (simp add: MS_ATTACHMENT_def ms_rules schema_shapes)

lemma MS_EVENT_TIME_wf [simp]: "depth \<le> 10 \<Longrightarrow> swf False depth MS_EVENT_TIME"
  by (simp add: MS_EVENT_TIME_def ms_rules schema_shapes)

lemma MS_DAY_OF_WEEK_wf [simp]: "depth \<le> 13 \<Longrightarrow> swf False depth MS_DAY_OF_WEEK"
  by (simp add: MS_DAY_OF_WEEK_def ms_rules schema_shapes)

lemma MS_DAYS_OF_WEEK_wf [simp]: "depth \<le> 10 \<Longrightarrow> swf False depth MS_DAYS_OF_WEEK"
  by (simp add: MS_DAYS_OF_WEEK_def ms_rules schema_shapes)

lemma MS_INTERVAL_wf [simp]: "depth \<le> 13 \<Longrightarrow> swf False depth MS_INTERVAL"
  by (simp add: MS_INTERVAL_def ms_rules schema_shapes)

lemma MS_DAY_OF_MONTH_wf [simp]: "depth \<le> 13 \<Longrightarrow> swf False depth MS_DAY_OF_MONTH"
  by (simp add: MS_DAY_OF_MONTH_def ms_rules schema_shapes)

lemma MS_MONTH_wf [simp]: "depth \<le> 13 \<Longrightarrow> swf False depth MS_MONTH"
  by (simp add: MS_MONTH_def ms_rules schema_shapes)

lemma MS_INDEX_wf [simp]: "depth \<le> 13 \<Longrightarrow> swf False depth MS_INDEX"
  by (simp add: MS_INDEX_def ms_rules schema_shapes)

lemma MS_RECURRENCE_PATTERN_wf [simp]: "depth \<le> 7 \<Longrightarrow> swf False depth MS_RECURRENCE_PATTERN"
  by (simp add: MS_RECURRENCE_PATTERN_def ms_rules schema_shapes)

lemma MS_RECURRENCE_RANGE_wf [simp]: "depth \<le> 10 \<Longrightarrow> swf False depth MS_RECURRENCE_RANGE"
  by (simp add: MS_RECURRENCE_RANGE_def ms_rules schema_shapes)

lemma MS_RECURRENCE_wf [simp]: "depth \<le> 4 \<Longrightarrow> swf False depth MS_RECURRENCE"
  by (simp add: MS_RECURRENCE_def ms_rules schema_shapes)

lemma MS_FOLDERS_LIST_wf [simp]: "depth \<le> 10 \<Longrightarrow> swf False depth MS_FOLDERS_LIST"
  by (simp add: MS_FOLDERS_LIST_def ms_rules schema_shapes)

lemma MS_MESSAGES_LIST_wf [simp]: "depth \<le> 10 \<Longrightarrow> swf False depth MS_MESSAGES_LIST"
  by (simp add: MS_MESSAGES_LIST_def ms_rules schema_shapes)

lemma MS_DELTA_LINK_wf [simp]: "depth \<le> 13 \<Longrightarrow> swf False depth MS_DELTA_LINK"
  by (simp add: MS_DELTA_LINK_def ms_rules schema_shapes)

lemma MS_FOLDERS_DELTA_wf [simp]: "depth \<le> 10 \<Longrightarrow> swf False depth MS_FOLDERS_DELTA"
  by (simp add: MS_FOLDERS_DELTA_def ms_rules schema_shapes)

lemma MS_MESSAGES_DELTA_wf [simp]: "depth \<le> 10 \<Longrightarrow> swf False depth MS_MESSAGES_DELTA"
  by (simp add: MS_MESSAGES_DELTA_def ms_rules schema_shapes)

lemma MS_MESSAGES_GET_wf [simp]: "depth \<le> 10 \<Longrightarrow> swf False depth MS_MESSAGES_GET"
  by (simp add: MS_MESSAGES_GET_def ms_rules schema_shapes)

lemma MS_CALENDARS_LIST_wf [simp]: "depth \<le> 10 \<Longrightarrow> swf False depth MS_CALENDARS_LIST"
  by (simp add: MS_CALENDARS_LIST_def ms_rules schema_shapes)

lemma MS_EVENTS_LIST_wf [simp]: "depth \<le> 10 \<Longrightarrow> swf False depth MS_EVENTS_LIST"
  by (simp add: MS_EVENTS_LIST_def ms_rules schema_shapes)

lemma MS_EVENTS_DELTA_wf [simp]: "depth \<le> 10 \<Longrightarrow> swf False depth MS_EVENTS_DELTA"
  by (simp add: MS_EVENTS_DELTA_def ms_rules schema_shapes)

lemma MS_ONLINE_MEETING_PROVIDER_wf [simp]: "depth \<le> 13 \<Longrightarrow> swf False depth MS_ONLINE_MEETING_PROVIDER"
  by (simp add: MS_ONLINE_MEETING_PROVIDER_def ms_rules schema_shapes)

lemma MS_EVENT_CREATE_SCHEMA_wf [simp]: "depth \<le> 1 \<Longrightarrow> swf False depth MS_EVENT_CREATE_SCHEMA"
  by (simp add: MS_EVENT_CREATE_SCHEMA_def ms_rules schema_shapes)

lemmas ms_top_schemas =
  MS_ID_def MS_CHANGE_KEY_def MS_RESTORE_HANDLE_def MS_SHORT_TEXT_def MS_NAME_def
  MS_BODY_TEXT_def MS_DATE_TIME_def MS_TIME_ZONE_def MS_CALENDAR_WINDOW_PAGE_SIZE_def
  MS_FREEBUSY_INTERVAL_MINUTES_def MS_IMPORTANCE_def MS_FOLLOW_UP_def MS_SENSITIVITY_def
  MS_SHOW_AS_def MS_BODY_def MS_RECIPIENTS_def MS_ATTENDEES_def MS_CATEGORIES_def
  MS_ATTACHMENT_def MS_EVENT_TIME_def MS_RECURRENCE_def MS_FOLDERS_LIST_def MS_MESSAGES_LIST_def
  MS_FOLDERS_DELTA_def MS_MESSAGES_DELTA_def MS_MESSAGES_GET_def MS_CALENDARS_LIST_def
  MS_EVENTS_LIST_def MS_EVENTS_DELTA_def MS_EVENT_CREATE_SCHEMA_def

subsection \<open>Operation tables\<close>

lemma outlook_mail_read_operations_wf: "list_all row_schema_wf outlook_mail_read_operations"
  unfolding outlook_mail_read_operations_def list.pred_inject
  by (intro conjI TrueI;
      simp add: row_schema_wf_plain ms_top_schemas ms_rules schema_shapes)

lemma outlook_mail_write_operations_1_wf: "list_all row_schema_wf outlook_mail_write_operations_1"
  unfolding outlook_mail_write_operations_1_def list.pred_inject
  by (intro conjI TrueI;
      simp add: row_schema_wf_plain ms_top_schemas ms_rules schema_shapes)

lemma outlook_mail_write_operations_2_wf: "list_all row_schema_wf outlook_mail_write_operations_2"
  unfolding outlook_mail_write_operations_2_def list.pred_inject
  by (intro conjI TrueI;
      simp add: row_schema_wf_plain ms_top_schemas ms_rules schema_shapes)

lemma outlook_calendar_read_operations_wf: "list_all row_schema_wf outlook_calendar_read_operations"
  unfolding outlook_calendar_read_operations_def list.pred_inject
  by (intro conjI TrueI;
      simp add: row_schema_wf_plain ms_top_schemas ms_rules schema_shapes)

lemma outlook_calendar_write_operations_1_wf: "list_all row_schema_wf outlook_calendar_write_operations_1"
  unfolding outlook_calendar_write_operations_1_def list.pred_inject
  by (intro conjI TrueI;
      simp add: row_schema_wf_plain ms_top_schemas ms_rules schema_shapes)

lemma outlook_calendar_write_operations_2_wf: "list_all row_schema_wf outlook_calendar_write_operations_2"
  unfolding outlook_calendar_write_operations_2_def list.pred_inject
  by (intro conjI TrueI;
      simp add: row_schema_wf_plain ms_top_schemas ms_rules schema_shapes)

end
