(* ===== verification/Catalog_Collaboration.thy ===== *)
theory Catalog_Collaboration
  imports Catalog_Base
begin

section \<open>Slack and Discord operations (\<open>connector_operations_collaboration.py\<close>)\<close>

text \<open>
  The catalogue of the collaboration connectors, definition by definition: schema builders with
  the prefix \<open>co_\<close>, shared schemas and scope alternatives with the prefix \<open>CO_\<close>, and the
  operation table, cut into one definition per run of a provider and mode.
\<close>

definition co_object :: "fields \<Rightarrow> string list \<Rightarrow> pyobj" where
  "co_object properties required =
     obj [(''additionalProperties'', PBool False),
          (''properties'', obj properties),
          (''required'', PList (map PStr required)),
          (''type'', PStr ''object'')]"

definition co_text :: "int \<Rightarrow> int \<Rightarrow> string option \<Rightarrow> pyobj" where
  "co_text maximum minimum pattern =
     (let schema = obj [(''maxLength'', PInt maximum), (''minLength'', PInt minimum),
                        (''type'', PStr ''string'')];
          schema = case pattern of None \<Rightarrow> schema | Some p \<Rightarrow> with_key schema
                     ''pattern'' (PStr p)
      in schema)"

definition co_array :: "pyobj \<Rightarrow> int \<Rightarrow> int \<Rightarrow> pyobj" where
  "co_array items' maximum minimum =
     obj [(''items'', items'), (''maxItems'', PInt maximum), (''minItems'', PInt minimum),
          (''type'', PStr ''array'')]"

definition co_local_file :: "pyobj" where
  "co_local_file =
     co_object [(''grant_id'', co_text 128 1 None), (''relative_path'', co_text (16 * 1024) 1 None)]
       [''grant_id'', ''relative_path'']"

definition CO_BASE64 :: "pyobj" where
  "CO_BASE64 =
     co_text 240000 4 (Some ''^[A-Za-z0-9+/]*={0,2}$'')"

definition co_binary_upload :: "fields \<Rightarrow> string list \<Rightarrow> pyobj" where
  "co_binary_upload metadata required =
     (let source_fields = (fmerge metadata [(''content_base64'', CO_BASE64),
                                            (''local_file'', co_local_file)]);
          schema = co_object source_fields [];
          schema = with_key schema ''oneOf''
                     (PList [co_object (fmerge metadata [(''content_base64'',
                                                          field source_fields ''content_base64'')])
                               (required @ [''content_base64'']),
                             co_object (fmerge metadata [(''local_file'',
                                                          field source_fields ''local_file'')])
                               (required @ [''local_file''])])
      in schema)"

definition co_binary_delivery :: "fields \<Rightarrow> string list \<Rightarrow> pyobj" where
  "co_binary_delivery identifiers required =
     co_object (fmerge identifiers
                  [(''delivery'',
                    obj [(''enum'', PList [PStr ''artifact'', PStr ''inline_chunk'']),
                         (''type'', PStr ''string'')])]) required"

fun co_operation :: "operation_args \<Rightarrow> operation_spec result" where
  "co_operation (provider, mode, name, effect, scopes, input_schema) =
     OperationSpec provider mode name effect name scopes input_schema"

definition CO_EMPTY :: "pyobj" where
  "CO_EMPTY =
     co_object [] []"

definition CO_BOOLEAN :: "pyobj" where
  "CO_BOOLEAN =
     obj [(''type'', PStr ''boolean'')]"

definition CO_LIMIT :: "pyobj" where
  "CO_LIMIT =
     obj [(''maximum'', PInt 100), (''minimum'', PInt 1), (''type'', PStr ''integer'')]"

definition CO_POSITION :: "pyobj" where
  "CO_POSITION =
     obj [(''maximum'', PInt 10000), (''minimum'', PInt 0), (''type'', PStr ''integer'')]"

definition CO_PAGE :: "pyobj" where
  "CO_PAGE =
     obj [(''maximum'', PInt 1000000), (''minimum'', PInt 1), (''type'', PStr ''integer'')]"

definition CO_SLACK_FILE_COUNT :: "pyobj" where
  "CO_SLACK_FILE_COUNT =
     obj [(''maximum'', PInt 1000), (''minimum'', PInt 1), (''type'', PStr ''integer'')]"

definition CO_SLACK_ID :: "pyobj" where
  "CO_SLACK_ID =
     co_text 128 1 (Some ''^[A-Za-z0-9]+$'')"

definition CO_SLACK_TIMESTAMP :: "pyobj" where
  "CO_SLACK_TIMESTAMP =
     co_text 32 3 (Some (''^[0-9]{1,20}'' @ [CHR 0x5C] @ ''.[0-9]{1,9}$''))"

definition CO_SNOWFLAKE :: "pyobj" where
  "CO_SNOWFLAKE =
     co_text 20 1 (Some ''^[0-9]{1,20}$'')"

definition CO_ISO8601 :: "pyobj" where
  "CO_ISO8601 =
     co_text 35 20 (Some (''^[0-9]{4}-[0-9]{2}-[0-9]{2}T[0-9]{2}:[0-9]{2}:[0-9]{2}(?:'' @ [CHR 0x5C]
                            @ ''.[0-9]{1,9})?(?:Z|[+-][0-9]{2}:[0-9]{2})$''))"

definition CO_EMOJI :: "pyobj" where
  "CO_EMOJI =
     co_text 128 1 None"

definition CO_SLACK_READ :: "string list list" where
  "CO_SLACK_READ =
     [[''channels:read''], [''groups:read''], [''im:read''], [''mpim:read'']]"

definition CO_SLACK_HISTORY :: "string list list" where
  "CO_SLACK_HISTORY =
     [[''channels:history''], [''groups:history''], [''im:history''], [''mpim:history'']]"

definition CO_SLACK_WRITE :: "string list list" where
  "CO_SLACK_WRITE =
     [[''channels:write''], [''groups:write''], [''im:write''], [''mpim:write'']]"

definition CO_SLACK_USERS :: "string list list" where
  "CO_SLACK_USERS =
     [[''users:read'']]"

definition CO_SLACK_CHAT :: "string list list" where
  "CO_SLACK_CHAT =
     [[''chat:write'']]"

definition CO_SLACK_CHAT_HISTORY :: "string list list" where
  "CO_SLACK_CHAT_HISTORY =
     map (\<lambda>history. [''chat:write''] @ history) CO_SLACK_HISTORY"

definition CO_SLACK_FILES_READ :: "string list list" where
  "CO_SLACK_FILES_READ =
     [[''files:read'']]"

definition CO_SLACK_FILES_WRITE :: "string list list" where
  "CO_SLACK_FILES_WRITE =
     [[''files:write'']]"

definition CO_SLACK_FILES_UPLOAD :: "string list list" where
  "CO_SLACK_FILES_UPLOAD =
     [[''files:read'', ''files:write'']]"

definition CO_SLACK_REACTIONS_READ :: "string list list" where
  "CO_SLACK_REACTIONS_READ =
     [[''reactions:read'']]"

definition CO_SLACK_REACTIONS_WRITE :: "string list list" where
  "CO_SLACK_REACTIONS_WRITE =
     [[''reactions:write'']]"

definition CO_SLACK_SEARCH :: "string list list" where
  "CO_SLACK_SEARCH =
     [[''search:read'']]"

definition CO_DISCORD_BOT :: "string list list" where
  "CO_DISCORD_BOT =
     [[]]"

definition CO_SLACK_TEXT :: "pyobj" where
  "CO_SLACK_TEXT =
     co_text 40000 1 None"

definition CO_SLACK_REPLY_LIMIT :: "pyobj" where
  "CO_SLACK_REPLY_LIMIT =
     obj [(''maximum'', PInt 1000), (''minimum'', PInt 1), (''type'', PStr ''integer'')]"

definition CO_SLACK_BLOCK_TEXT :: "pyobj" where
  "CO_SLACK_BLOCK_TEXT =
     co_text 3000 1 None"

definition CO_SLACK_PLAIN_TEXT_ELEMENT :: "pyobj" where
  "CO_SLACK_PLAIN_TEXT_ELEMENT =
     co_object [(''emoji'', CO_BOOLEAN),
                (''text'', CO_SLACK_BLOCK_TEXT),
                (''type'', obj [(''const'', PStr ''plain_text''), (''type'', PStr ''string'')])]
       [''text'', ''type'']"

definition CO_SLACK_MRKDWN_TEXT_ELEMENT :: "pyobj" where
  "CO_SLACK_MRKDWN_TEXT_ELEMENT =
     co_object [(''text'', CO_SLACK_BLOCK_TEXT),
                (''type'', obj [(''const'', PStr ''mrkdwn''), (''type'', PStr ''string'')]),
                (''verbatim'', CO_BOOLEAN)] [''text'', ''type'']"

definition CO_SLACK_BLOCK_TEXT_ELEMENT :: "pyobj" where
  "CO_SLACK_BLOCK_TEXT_ELEMENT =
     obj [(''oneOf'', PList [CO_SLACK_PLAIN_TEXT_ELEMENT, CO_SLACK_MRKDWN_TEXT_ELEMENT])]"

definition CO_SLACK_SECTION_FIELD_TEXT :: "pyobj" where
  "CO_SLACK_SECTION_FIELD_TEXT =
     obj [(''oneOf'',
           PList [co_object [(''text'', co_text 2000 1 None),
                             (''type'',
                              obj [(''const'', PStr ''plain_text''), (''type'', PStr ''string'')])]
                    [''text'', ''type''],
                  co_object [(''text'', co_text 2000 1 None),
                             (''type'',
                              obj [(''const'', PStr ''mrkdwn''), (''type'', PStr ''string'')]),
                             (''verbatim'', CO_BOOLEAN)] [''text'', ''type'']])]"

definition CO_SLACK_BLOCK_ITEM :: "pyobj" where
  "CO_SLACK_BLOCK_ITEM =
     obj [(''oneOf'',
           PList [co_object [(''block_id'', co_text 255 1 None),
                             (''fields'', co_array CO_SLACK_SECTION_FIELD_TEXT 10 1),
                             (''text'', CO_SLACK_BLOCK_TEXT_ELEMENT),
                             (''type'',
                              obj [(''const'', PStr ''section''), (''type'', PStr ''string'')])]
                    [''type''],
                  co_object [(''block_id'', co_text 255 1 None),
                             (''elements'', co_array CO_SLACK_BLOCK_TEXT_ELEMENT 10 1),
                             (''type'',
                              obj [(''const'', PStr ''context''), (''type'', PStr ''string'')])]
                    [''elements'', ''type''],
                  co_object [(''block_id'', co_text 255 1 None),
                             (''type'',
                              obj [(''const'', PStr ''divider''), (''type'', PStr ''string'')])]
                    [''type''],
                  co_object [(''block_id'', co_text 255 1 None),
                             (''text'',
                              co_object [(''emoji'', CO_BOOLEAN),
                                         (''text'', co_text 150 1 None),
                                         (''type'',
                                          obj [(''const'', PStr ''plain_text''),
                                               (''type'', PStr ''string'')])] [''text'', ''type'']),
                             (''type'',
                              obj [(''const'', PStr ''header''), (''type'', PStr ''string'')])]
                    [''text'', ''type'']])]"

definition CO_SLACK_BLOCKS :: "pyobj" where
  "CO_SLACK_BLOCKS =
     co_array CO_SLACK_BLOCK_ITEM 50 1"

definition CO_SLACK_UPDATE_BLOCKS :: "pyobj" where
  "CO_SLACK_UPDATE_BLOCKS =
     co_array CO_SLACK_BLOCK_ITEM 50 0"

definition CO_SLACK_ATTACHMENT_FIELD :: "pyobj" where
  "CO_SLACK_ATTACHMENT_FIELD =
     co_object [(''short'', CO_BOOLEAN), (''title'', co_text 255 1 None),
                (''value'', co_text 2000 1 None)] [''title'', ''value'']"

definition CO_SLACK_ATTACHMENT :: "pyobj" where
  "CO_SLACK_ATTACHMENT =
     co_object [(''color'', co_text 7 3 (Some ''^(?:#[0-9A-Fa-f]{6}|good|warning|danger)$'')),
                (''fallback'', co_text 2000 1 None),
                (''fields'', co_array CO_SLACK_ATTACHMENT_FIELD 10 1),
                (''footer'', co_text 300 1 None),
                (''mrkdwn_in'',
                 co_array (obj [(''enum'',
                                 PList [PStr ''fallback'', PStr ''fields'', PStr ''pretext'',
                                        PStr ''text'']),
                                (''type'', PStr ''string'')]) 4 1),
                (''pretext'', co_text 2000 1 None),
                (''text'', co_text 3000 1 None),
                (''title'', co_text 255 1 None)] []"

definition CO_SLACK_ATTACHMENTS :: "pyobj" where
  "CO_SLACK_ATTACHMENTS =
     co_array CO_SLACK_ATTACHMENT 100 1"

definition CO_SLACK_UPDATE_ATTACHMENTS :: "pyobj" where
  "CO_SLACK_UPDATE_ATTACHMENTS =
     co_array CO_SLACK_ATTACHMENT 100 0"

definition CO_SLACK_MESSAGE_FIELDS :: "fields" where
  "CO_SLACK_MESSAGE_FIELDS =
     [(''attachments'', CO_SLACK_ATTACHMENTS), (''blocks'', CO_SLACK_BLOCKS),
      (''reply_broadcast'', CO_BOOLEAN), (''text'', CO_SLACK_TEXT),
      (''thread_ts'', CO_SLACK_TIMESTAMP), (''unfurl_links'', CO_BOOLEAN),
      (''unfurl_media'', CO_BOOLEAN)]"

definition CO_SLACK_MESSAGE_UPDATE_FIELDS :: "fields" where
  "CO_SLACK_MESSAGE_UPDATE_FIELDS =
     [(''attachments'', CO_SLACK_UPDATE_ATTACHMENTS),
      (''blocks'', CO_SLACK_UPDATE_BLOCKS),
      (''text'', co_text 40000 0 None)]"

definition CO_DISCORD_EMBED_FIELD :: "pyobj" where
  "CO_DISCORD_EMBED_FIELD =
     co_object [(''inline'', CO_BOOLEAN), (''name'', co_text 256 1 None),
                (''value'', co_text 1024 1 None)] [''name'', ''value'']"

definition CO_DISCORD_EMBED :: "pyobj" where
  "CO_DISCORD_EMBED =
     co_object [(''author'', co_object [(''name'', co_text 256 1 None)] [''name'']),
                (''color'',
                 obj [(''maximum'', PInt 16777215), (''minimum'', PInt 0),
                      (''type'', PStr ''integer'')]),
                (''description'', co_text 4096 1 None),
                (''fields'', co_array CO_DISCORD_EMBED_FIELD 25 1),
                (''footer'', co_object [(''text'', co_text 2048 1 None)] [''text'']),
                (''timestamp'', CO_ISO8601),
                (''title'', co_text 256 1 None)] []"

definition CO_DISCORD_ALLOWED_MENTIONS :: "pyobj" where
  "CO_DISCORD_ALLOWED_MENTIONS =
     co_object [(''parse'',
                 co_array (obj [(''enum'',
                                 PList [PStr ''everyone'', PStr ''roles'', PStr ''users'']),
                                (''type'', PStr ''string'')]) 3 0),
                (''replied_user'', CO_BOOLEAN),
                (''roles'', co_array CO_SNOWFLAKE 100 0),
                (''users'', co_array CO_SNOWFLAKE 100 0)] []"

definition CO_DISCORD_PARTIAL_EMOJI :: "pyobj" where
  "CO_DISCORD_PARTIAL_EMOJI =
     obj [(''oneOf'',
           PList [co_object [(''id'', CO_SNOWFLAKE)] [''id''],
                  co_object [(''name'', co_text 64 1 None)] [''name'']])]"

definition CO_DISCORD_LINK_BUTTON :: "pyobj" where
  "CO_DISCORD_LINK_BUTTON =
     co_object [(''destination'', co_text 2048 9 (Some (''^https://[^'' @ [CHR 0x5C] @ ''s]+$''))),
                (''disabled'', CO_BOOLEAN),
                (''emoji'', CO_DISCORD_PARTIAL_EMOJI),
                (''label'', co_text 80 1 None),
                (''type'', obj [(''const'', PStr ''link_button''), (''type'', PStr ''string'')])]
       [''destination'', ''label'', ''type'']"

definition CO_DISCORD_ACTION_ROW :: "pyobj" where
  "CO_DISCORD_ACTION_ROW =
     co_object [(''components'', co_array CO_DISCORD_LINK_BUTTON 5 1),
                (''type'', obj [(''const'', PStr ''action_row''), (''type'', PStr ''string'')])]
       [''components'', ''type'']"

definition CO_DISCORD_COMPONENTS :: "pyobj" where
  "CO_DISCORD_COMPONENTS =
     co_array CO_DISCORD_ACTION_ROW 5 1"

definition CO_DISCORD_UPDATE_COMPONENTS :: "pyobj" where
  "CO_DISCORD_UPDATE_COMPONENTS =
     co_array CO_DISCORD_ACTION_ROW 5 0"

definition CO_DISCORD_POLL_MEDIA :: "pyobj" where
  "CO_DISCORD_POLL_MEDIA =
     co_object [(''text'', co_text 300 1 None)] [''text'']"

definition CO_DISCORD_POLL_ANSWER :: "pyobj" where
  "CO_DISCORD_POLL_ANSWER =
     co_object [(''poll_media'',
                 co_object [(''emoji'', CO_DISCORD_PARTIAL_EMOJI), (''text'', co_text 55 1 None)]
                   [''text''])] [''poll_media'']"

definition CO_DISCORD_POLL :: "pyobj" where
  "CO_DISCORD_POLL =
     co_object [(''allow_multiselect'', CO_BOOLEAN),
                (''answers'', co_array CO_DISCORD_POLL_ANSWER 10 2),
                (''duration'',
                 obj [(''maximum'', PInt 768), (''minimum'', PInt 1), (''type'', PStr ''integer'')]),
                (''layout_type'', obj [(''const'', PInt 1), (''type'', PStr ''integer'')]),
                (''question'', CO_DISCORD_POLL_MEDIA)] [''answers'', ''question'']"

definition CO_DISCORD_MESSAGE_CREATE_FIELDS :: "fields" where
  "CO_DISCORD_MESSAGE_CREATE_FIELDS =
     [(''allowed_mentions'', CO_DISCORD_ALLOWED_MENTIONS),
      (''components'', CO_DISCORD_COMPONENTS),
      (''content'', co_text 2000 1 None),
      (''embeds'', co_array CO_DISCORD_EMBED 10 1),
      (''message_reference'',
       co_object [(''channel_id'', CO_SNOWFLAKE), (''fail_if_not_exists'', CO_BOOLEAN),
                  (''guild_id'', CO_SNOWFLAKE), (''message_id'', CO_SNOWFLAKE)] [''message_id'']),
      (''poll'', CO_DISCORD_POLL)]"

definition CO_DISCORD_MESSAGE_UPDATE_FIELDS :: "fields" where
  "CO_DISCORD_MESSAGE_UPDATE_FIELDS =
     [(''allowed_mentions'', CO_DISCORD_ALLOWED_MENTIONS),
      (''components'', CO_DISCORD_UPDATE_COMPONENTS),
      (''content'', co_text 2000 0 None),
      (''embeds'', co_array CO_DISCORD_EMBED 10 0)]"

definition slack_read_operations :: "operation_args list" where
  "slack_read_operations =
     [(''slack'', READ, ''identity.get'', E_READ, CO_SLACK_USERS, CO_EMPTY),
      (''slack'', READ, ''users.list'', E_READ, CO_SLACK_USERS, co_object [(''limit'', CO_LIMIT)] []),
      (''slack'',
       READ,
       ''users.get'',
       E_READ,
       CO_SLACK_USERS,
       co_object [(''user'', CO_SLACK_ID)] [''user'']),
      (''slack'',
       READ,
       ''conversations.list'',
       E_READ,
       CO_SLACK_READ,
       co_object [(''channel_types'',
                   co_array (obj [(''enum'',
                                   PList [PStr ''channel'', PStr ''group'', PStr ''im'',
                                          PStr ''mpim'']),
                                  (''type'', PStr ''string'')]) 4 1),
                  (''limit'', CO_LIMIT)] []),
      (''slack'',
       READ,
       ''conversations.get'',
       E_READ,
       CO_SLACK_READ,
       co_object [(''channel'', CO_SLACK_ID)] [''channel'']),
      (''slack'',
       READ,
       ''messages.list'',
       E_READ,
       CO_SLACK_HISTORY,
       co_object [(''channel'', CO_SLACK_ID), (''latest'', CO_SLACK_TIMESTAMP),
                  (''limit'', CO_LIMIT), (''oldest'', CO_SLACK_TIMESTAMP)] [''channel'']),
      (''slack'',
       READ,
       ''messages.get'',
       E_READ,
       CO_SLACK_HISTORY,
       co_object [(''channel'', CO_SLACK_ID), (''ts'', CO_SLACK_TIMESTAMP)] [''channel'', ''ts'']),
      (''slack'',
       READ,
       ''search.messages'',
       E_READ,
       CO_SLACK_SEARCH,
       co_object [(''count'', CO_LIMIT),
                  (''page'',
                   obj [(''maximum'', PInt 100), (''minimum'', PInt 1), (''type'', PStr ''integer'')]),
                  (''query'', co_text 512 1 None),
                  (''sort'',
                   obj [(''enum'', PList [PStr ''score'', PStr ''timestamp'']),
                        (''type'', PStr ''string'')]),
                  (''sort_direction'',
                   obj [(''enum'', PList [PStr ''ascending'', PStr ''descending'']),
                        (''type'', PStr ''string'')])] [''query'']),
      (''slack'',
       READ,
       ''threads.list'',
       E_READ,
       CO_SLACK_HISTORY,
       co_object [(''channel'', CO_SLACK_ID), (''latest'', CO_SLACK_TIMESTAMP),
                  (''limit'', CO_SLACK_REPLY_LIMIT), (''oldest'', CO_SLACK_TIMESTAMP),
                  (''thread_ts'', CO_SLACK_TIMESTAMP)] [''channel'', ''thread_ts'']),
      (''slack'',
       READ,
       ''files.list'',
       E_READ,
       CO_SLACK_FILES_READ,
       co_object [(''channel'', CO_SLACK_ID), (''count'', CO_SLACK_FILE_COUNT),
                  (''latest'', CO_SLACK_TIMESTAMP), (''oldest'', CO_SLACK_TIMESTAMP),
                  (''page'', CO_PAGE)] []),
      (''slack'',
       READ,
       ''files.get'',
       E_READ,
       CO_SLACK_FILES_READ,
       co_object [(''file_id'', CO_SLACK_ID)] [''file_id'']),
      (''slack'',
       READ,
       ''files.download'',
       E_READ,
       CO_SLACK_FILES_READ,
       co_binary_delivery [(''file_id'', CO_SLACK_ID)] [''file_id'']),
      (''slack'',
       READ,
       ''reactions.list'',
       E_READ,
       CO_SLACK_REACTIONS_READ,
       co_object [(''channel'', CO_SLACK_ID), (''timestamp'', CO_SLACK_TIMESTAMP)]
         [''channel'', ''timestamp''])]"

definition slack_write_operations_1 :: "operation_args list" where
  "slack_write_operations_1 =
     [(''slack'',
       WRITE,
       ''dms.open'',
       OUTWARD,
       CO_SLACK_WRITE,
       co_object [(''users'', co_array CO_SLACK_ID 8 1)] [''users'']),
      (''slack'',
       WRITE,
       ''dms.close'',
       DESTRUCTIVE,
       CO_SLACK_WRITE,
       co_object [(''channel'', CO_SLACK_ID)] [''channel'']),
      (''slack'',
       WRITE,
       ''channels.join'',
       OUTWARD,
       CO_SLACK_WRITE,
       co_object [(''channel'', CO_SLACK_ID)] [''channel'']),
      (''slack'',
       WRITE,
       ''channels.leave'',
       OUTWARD,
       CO_SLACK_WRITE,
       co_object [(''channel'', CO_SLACK_ID)] [''channel'']),
      (''slack'',
       WRITE,
       ''channels.create'',
       OUTWARD,
       CO_SLACK_WRITE,
       co_object [(''is_private'', CO_BOOLEAN),
                  (''name'', co_text 80 1 (Some ''^[a-z0-9][a-z0-9_-]{0,79}$''))] [''name'']),
      (''slack'',
       WRITE,
       ''channels.rename'',
       OUTWARD,
       CO_SLACK_WRITE,
       co_object [(''channel'', CO_SLACK_ID),
                  (''name'', co_text 80 1 (Some ''^[a-z0-9][a-z0-9_-]{0,79}$''))]
         [''channel'', ''name'']),
      (''slack'',
       WRITE,
       ''channels.topic'',
       OUTWARD,
       CO_SLACK_WRITE,
       co_object [(''channel'', CO_SLACK_ID), (''topic'', co_text 250 1 None)]
         [''channel'', ''topic'']),
      (''slack'',
       WRITE,
       ''channels.purpose'',
       OUTWARD,
       CO_SLACK_WRITE,
       co_object [(''channel'', CO_SLACK_ID), (''purpose'', co_text 250 1 None)]
         [''channel'', ''purpose'']),
      (''slack'',
       WRITE,
       ''channels.archive'',
       DESTRUCTIVE,
       CO_SLACK_WRITE,
       co_object [(''channel'', CO_SLACK_ID)] [''channel'']),
      (''slack'',
       WRITE,
       ''channels.restore'',
       OUTWARD,
       CO_SLACK_WRITE,
       co_object [(''channel'', CO_SLACK_ID)] [''channel'']),
      (''slack'',
       WRITE,
       ''messages.create'',
       OUTWARD,
       CO_SLACK_CHAT,
       co_object (fmerge [(''channel'', CO_SLACK_ID)] CO_SLACK_MESSAGE_FIELDS) [''channel'']),
      (''slack'',
       WRITE,
       ''messages.update'',
       OUTWARD,
       CO_SLACK_CHAT,
       co_object (fmerge [(''channel'', CO_SLACK_ID), (''ts'', CO_SLACK_TIMESTAMP)]
                    CO_SLACK_MESSAGE_UPDATE_FIELDS) [''channel'', ''ts'']),
      (''slack'',
       WRITE,
       ''messages.delete'',
       PERMANENT,
       CO_SLACK_CHAT,
       co_object [(''channel'', CO_SLACK_ID), (''ts'', CO_SLACK_TIMESTAMP)] [''channel'', ''ts'']),
      (''slack'',
       WRITE,
       ''threads.reply'',
       OUTWARD,
       CO_SLACK_CHAT,
       co_object (fmerge [(''channel'', CO_SLACK_ID)] CO_SLACK_MESSAGE_FIELDS)
         [''channel'', ''thread_ts'']),
      (''slack'',
       WRITE,
       ''threads.update'',
       OUTWARD,
       CO_SLACK_CHAT_HISTORY,
       co_object (fmerge [(''channel'', CO_SLACK_ID), (''thread_ts'', CO_SLACK_TIMESTAMP),
                          (''ts'', CO_SLACK_TIMESTAMP)] CO_SLACK_MESSAGE_UPDATE_FIELDS)
         [''channel'', ''thread_ts'', ''ts''])]"

definition slack_write_operations_2 :: "operation_args list" where
  "slack_write_operations_2 =
     [(''slack'',
       WRITE,
       ''threads.delete'',
       PERMANENT,
       CO_SLACK_CHAT_HISTORY,
       co_object [(''channel'', CO_SLACK_ID), (''thread_ts'', CO_SLACK_TIMESTAMP),
                  (''ts'', CO_SLACK_TIMESTAMP)] [''channel'', ''thread_ts'', ''ts'']),
      (''slack'',
       WRITE,
       ''files.upload'',
       OUTWARD,
       CO_SLACK_FILES_UPLOAD,
       co_binary_upload
         [(''channel'', CO_SLACK_ID), (''filename'', co_text 255 1 None),
          (''thread_ts'', CO_SLACK_TIMESTAMP), (''title'', co_text 255 1 None)]
         [''channel'', ''filename'']),
      (''slack'',
       WRITE,
       ''files.delete'',
       PERMANENT,
       CO_SLACK_FILES_WRITE,
       co_object [(''file_id'', CO_SLACK_ID)] [''file_id'']),
      (''slack'',
       WRITE,
       ''reactions.add'',
       OUTWARD,
       CO_SLACK_REACTIONS_WRITE,
       co_object [(''channel'', CO_SLACK_ID), (''emoji'', CO_EMOJI),
                  (''timestamp'', CO_SLACK_TIMESTAMP)] [''channel'', ''emoji'', ''timestamp'']),
      (''slack'',
       WRITE,
       ''reactions.remove'',
       OUTWARD,
       CO_SLACK_REACTIONS_WRITE,
       co_object [(''channel'', CO_SLACK_ID), (''emoji'', CO_EMOJI),
                  (''timestamp'', CO_SLACK_TIMESTAMP)] [''channel'', ''emoji'', ''timestamp''])]"

definition discord_read_operations :: "operation_args list" where
  "discord_read_operations =
     [(''discord'', READ, ''identity.get'', E_READ, CO_DISCORD_BOT, CO_EMPTY),
      (''discord'',
       READ,
       ''guilds.list'',
       E_READ,
       CO_DISCORD_BOT,
       co_object [(''after'', CO_SNOWFLAKE), (''before'', CO_SNOWFLAKE), (''limit'', CO_LIMIT)] []),
      (''discord'',
       READ,
       ''channels.list'',
       E_READ,
       CO_DISCORD_BOT,
       co_object [(''guild_id'', CO_SNOWFLAKE)] [''guild_id'']),
      (''discord'',
       READ,
       ''channels.get'',
       E_READ,
       CO_DISCORD_BOT,
       co_object [(''channel_id'', CO_SNOWFLAKE)] [''channel_id'']),
      (''discord'',
       READ,
       ''threads.active'',
       E_READ,
       CO_DISCORD_BOT,
       co_object [(''guild_id'', CO_SNOWFLAKE)] [''guild_id'']),
      (''discord'',
       READ,
       ''threads.archived_public'',
       E_READ,
       CO_DISCORD_BOT,
       co_object [(''before'', CO_ISO8601), (''channel_id'', CO_SNOWFLAKE), (''limit'', CO_LIMIT)]
         [''channel_id'']),
      (''discord'',
       READ,
       ''threads.archived_private'',
       E_READ,
       CO_DISCORD_BOT,
       co_object [(''before'', CO_ISO8601), (''channel_id'', CO_SNOWFLAKE), (''limit'', CO_LIMIT)]
         [''channel_id'']),
      (''discord'',
       READ,
       ''messages.list'',
       E_READ,
       CO_DISCORD_BOT,
       co_object [(''after'', CO_SNOWFLAKE), (''around'', CO_SNOWFLAKE), (''before'', CO_SNOWFLAKE),
                  (''channel_id'', CO_SNOWFLAKE), (''limit'', CO_LIMIT)] [''channel_id'']),
      (''discord'',
       READ,
       ''messages.get'',
       E_READ,
       CO_DISCORD_BOT,
       co_object [(''channel_id'', CO_SNOWFLAKE), (''message_id'', CO_SNOWFLAKE)]
         [''channel_id'', ''message_id'']),
      (''discord'',
       READ,
       ''attachments.get'',
       E_READ,
       CO_DISCORD_BOT,
       co_binary_delivery
         [(''attachment_id'', CO_SNOWFLAKE), (''channel_id'', CO_SNOWFLAKE),
          (''message_id'', CO_SNOWFLAKE)] [''attachment_id'', ''channel_id'', ''message_id'']),
      (''discord'',
       READ,
       ''reactions.list'',
       E_READ,
       CO_DISCORD_BOT,
       co_object [(''after'', CO_SNOWFLAKE), (''channel_id'', CO_SNOWFLAKE), (''emoji'', CO_EMOJI),
                  (''limit'', CO_LIMIT), (''message_id'', CO_SNOWFLAKE)]
         [''channel_id'', ''emoji'', ''message_id''])]"

definition discord_write_operations_1 :: "operation_args list" where
  "discord_write_operations_1 =
     [(''discord'',
       WRITE,
       ''dms.open'',
       OUTWARD,
       CO_DISCORD_BOT,
       co_object [(''user_id'', CO_SNOWFLAKE)] [''user_id'']),
      (''discord'',
       WRITE,
       ''dms.close'',
       DESTRUCTIVE,
       CO_DISCORD_BOT,
       co_object [(''channel_id'', CO_SNOWFLAKE)] [''channel_id'']),
      (''discord'',
       WRITE,
       ''channels.create'',
       OUTWARD,
       CO_DISCORD_BOT,
       co_object [(''guild_id'', CO_SNOWFLAKE),
                  (''name'', co_text 100 1 None),
                  (''nsfw'', CO_BOOLEAN),
                  (''parent_id'', CO_SNOWFLAKE),
                  (''position'', CO_POSITION),
                  (''slowmode_seconds'',
                   obj [(''maximum'', PInt 21600), (''minimum'', PInt 0),
                        (''type'', PStr ''integer'')]),
                  (''topic'', co_text 1024 1 None),
                  (''type'',
                   obj [(''enum'',
                         PList [PStr ''announcement'', PStr ''forum'', PStr ''text'', PStr ''voice'']),
                        (''type'', PStr ''string'')])] [''guild_id'', ''name'', ''type'']),
      (''discord'',
       WRITE,
       ''channels.update'',
       OUTWARD,
       CO_DISCORD_BOT,
       co_object [(''channel_id'', CO_SNOWFLAKE),
                  (''name'', co_text 100 1 None),
                  (''nsfw'', CO_BOOLEAN),
                  (''parent_id'', CO_SNOWFLAKE),
                  (''position'', CO_POSITION),
                  (''slowmode_seconds'',
                   obj [(''maximum'', PInt 21600), (''minimum'', PInt 0),
                        (''type'', PStr ''integer'')]),
                  (''topic'', co_text 1024 1 None)] [''channel_id'']),
      (''discord'',
       WRITE,
       ''channels.delete'',
       PERMANENT,
       CO_DISCORD_BOT,
       co_object [(''channel_id'', CO_SNOWFLAKE)] [''channel_id'']),
      (''discord'',
       WRITE,
       ''threads.create_from_message'',
       OUTWARD,
       CO_DISCORD_BOT,
       co_object [(''archive_duration'',
                   obj [(''enum'', PList [PInt 60, PInt 1440, PInt 4320, PInt 10080]),
                        (''type'', PStr ''integer'')]),
                  (''channel_id'', CO_SNOWFLAKE),
                  (''message_id'', CO_SNOWFLAKE),
                  (''name'', co_text 100 1 None)] [''channel_id'', ''message_id'', ''name'']),
      (''discord'',
       WRITE,
       ''threads.create'',
       OUTWARD,
       CO_DISCORD_BOT,
       co_object [(''archive_duration'',
                   obj [(''enum'', PList [PInt 60, PInt 1440, PInt 4320, PInt 10080]),
                        (''type'', PStr ''integer'')]),
                  (''channel_id'', CO_SNOWFLAKE),
                  (''name'', co_text 100 1 None),
                  (''type'',
                   obj [(''enum'', PList [PStr ''private'', PStr ''public'']),
                        (''type'', PStr ''string'')])] [''channel_id'', ''name'', ''type'']),
      (''discord'',
       WRITE,
       ''threads.join'',
       OUTWARD,
       CO_DISCORD_BOT,
       co_object [(''thread_id'', CO_SNOWFLAKE)] [''thread_id'']),
      (''discord'',
       WRITE,
       ''threads.leave'',
       OUTWARD,
       CO_DISCORD_BOT,
       co_object [(''thread_id'', CO_SNOWFLAKE)] [''thread_id'']),
      (''discord'',
       WRITE,
       ''threads.update'',
       OUTWARD,
       CO_DISCORD_BOT,
       co_object [(''archive_duration'',
                   obj [(''enum'', PList [PInt 60, PInt 1440, PInt 4320, PInt 10080]),
                        (''type'', PStr ''integer'')]),
                  (''name'', co_text 100 1 None),
                  (''thread_id'', CO_SNOWFLAKE)] [''thread_id'']),
      (''discord'',
       WRITE,
       ''threads.archive'',
       DESTRUCTIVE,
       CO_DISCORD_BOT,
       co_object [(''thread_id'', CO_SNOWFLAKE)] [''thread_id'']),
      (''discord'',
       WRITE,
       ''threads.restore'',
       OUTWARD,
       CO_DISCORD_BOT,
       co_object [(''thread_id'', CO_SNOWFLAKE)] [''thread_id'']),
      (''discord'',
       WRITE,
       ''threads.delete'',
       PERMANENT,
       CO_DISCORD_BOT,
       co_object [(''thread_id'', CO_SNOWFLAKE)] [''thread_id''])]"

definition discord_write_operations_2 :: "operation_args list" where
  "discord_write_operations_2 =
     [(''discord'',
       WRITE,
       ''messages.create'',
       OUTWARD,
       CO_DISCORD_BOT,
       co_object (fmerge [(''channel_id'', CO_SNOWFLAKE)] CO_DISCORD_MESSAGE_CREATE_FIELDS)
         [''channel_id'']),
      (''discord'',
       WRITE,
       ''messages.update'',
       OUTWARD,
       CO_DISCORD_BOT,
       co_object (fmerge [(''channel_id'', CO_SNOWFLAKE), (''message_id'', CO_SNOWFLAKE)]
                    CO_DISCORD_MESSAGE_UPDATE_FIELDS) [''channel_id'', ''message_id'']),
      (''discord'',
       WRITE,
       ''messages.delete'',
       PERMANENT,
       CO_DISCORD_BOT,
       co_object [(''channel_id'', CO_SNOWFLAKE), (''message_id'', CO_SNOWFLAKE)]
         [''channel_id'', ''message_id'']),
      (''discord'',
       WRITE,
       ''attachments.add'',
       OUTWARD,
       CO_DISCORD_BOT,
       co_binary_upload
         [(''channel_id'', CO_SNOWFLAKE), (''description'', co_text 1024 1 None),
          (''filename'', co_text 255 1 None), (''message_id'', CO_SNOWFLAKE)]
         [''channel_id'', ''filename'', ''message_id'']),
      (''discord'',
       WRITE,
       ''attachments.update'',
       OUTWARD,
       CO_DISCORD_BOT,
       co_object [(''attachment_id'', CO_SNOWFLAKE), (''channel_id'', CO_SNOWFLAKE),
                  (''description'', co_text 1024 1 None), (''message_id'', CO_SNOWFLAKE)]
         [''attachment_id'', ''channel_id'', ''message_id'']),
      (''discord'',
       WRITE,
       ''attachments.remove'',
       PERMANENT,
       CO_DISCORD_BOT,
       co_object [(''attachment_id'', CO_SNOWFLAKE), (''channel_id'', CO_SNOWFLAKE),
                  (''message_id'', CO_SNOWFLAKE)]
         [''attachment_id'', ''channel_id'', ''message_id'']),
      (''discord'',
       WRITE,
       ''reactions.add'',
       OUTWARD,
       CO_DISCORD_BOT,
       co_object [(''channel_id'', CO_SNOWFLAKE), (''emoji'', CO_EMOJI),
                  (''message_id'', CO_SNOWFLAKE)] [''channel_id'', ''emoji'', ''message_id'']),
      (''discord'',
       WRITE,
       ''reactions.remove'',
       OUTWARD,
       CO_DISCORD_BOT,
       co_object [(''channel_id'', CO_SNOWFLAKE), (''emoji'', CO_EMOJI),
                  (''message_id'', CO_SNOWFLAKE)] [''channel_id'', ''emoji'', ''message_id''])]"

definition COLLABORATION_OPERATIONS :: "operation_spec list result" where
  "COLLABORATION_OPERATIONS =
     mapE co_operation
       (slack_read_operations @
        slack_write_operations_1 @
        slack_write_operations_2 @
        discord_read_operations @
        discord_write_operations_1 @
        discord_write_operations_2)"

lemmas co_defs =
  co_object_def co_text_def co_array_def co_local_file_def CO_BASE64_def co_binary_upload_def
  co_binary_delivery_def CO_EMPTY_def CO_BOOLEAN_def CO_LIMIT_def CO_POSITION_def CO_PAGE_def
  CO_SLACK_FILE_COUNT_def CO_SLACK_ID_def CO_SLACK_TIMESTAMP_def CO_SNOWFLAKE_def CO_ISO8601_def
  CO_EMOJI_def CO_SLACK_READ_def CO_SLACK_HISTORY_def CO_SLACK_WRITE_def CO_SLACK_USERS_def
  CO_SLACK_CHAT_def CO_SLACK_CHAT_HISTORY_def CO_SLACK_FILES_READ_def CO_SLACK_FILES_WRITE_def
  CO_SLACK_FILES_UPLOAD_def CO_SLACK_REACTIONS_READ_def CO_SLACK_REACTIONS_WRITE_def
  CO_SLACK_SEARCH_def CO_DISCORD_BOT_def CO_SLACK_TEXT_def CO_SLACK_REPLY_LIMIT_def
  CO_SLACK_BLOCK_TEXT_def CO_SLACK_PLAIN_TEXT_ELEMENT_def CO_SLACK_MRKDWN_TEXT_ELEMENT_def
  CO_SLACK_BLOCK_TEXT_ELEMENT_def CO_SLACK_SECTION_FIELD_TEXT_def CO_SLACK_BLOCK_ITEM_def
  CO_SLACK_BLOCKS_def CO_SLACK_UPDATE_BLOCKS_def CO_SLACK_ATTACHMENT_FIELD_def
  CO_SLACK_ATTACHMENT_def CO_SLACK_ATTACHMENTS_def CO_SLACK_UPDATE_ATTACHMENTS_def
  CO_SLACK_MESSAGE_FIELDS_def CO_SLACK_MESSAGE_UPDATE_FIELDS_def CO_DISCORD_EMBED_FIELD_def
  CO_DISCORD_EMBED_def CO_DISCORD_ALLOWED_MENTIONS_def CO_DISCORD_PARTIAL_EMOJI_def
  CO_DISCORD_LINK_BUTTON_def CO_DISCORD_ACTION_ROW_def CO_DISCORD_COMPONENTS_def
  CO_DISCORD_UPDATE_COMPONENTS_def CO_DISCORD_POLL_MEDIA_def CO_DISCORD_POLL_ANSWER_def
  CO_DISCORD_POLL_def CO_DISCORD_MESSAGE_CREATE_FIELDS_def CO_DISCORD_MESSAGE_UPDATE_FIELDS_def
  slack_read_operations_def slack_write_operations_1_def slack_write_operations_2_def
  discord_read_operations_def discord_write_operations_1_def discord_write_operations_2_def

end
