(* ===== verification/Catalog_Collaboration_Wf.thy ===== *)
theory Catalog_Collaboration_Wf
  imports Catalog_Wf Catalog_Collaboration
begin

section \<open>The Slack and Discord schemas are well formed\<close>

text \<open>
  Every shared schema of the module, then every row of its operation tables. The names, texts
  and patterns that occur are checked once, by evaluation, in the tables at the top.
\<close>

lemma co_object_wf [schema_shapes]:
  "depth \<le> 16 \<Longrightarrow> object_fields_wf depth fs req \<Longrightarrow> swf rc depth (co_object fs req)"
  "depth \<le> 16 \<Longrightarrow> object_fields_wf depth fs req \<Longrightarrow> bs \<noteq> [] \<Longrightarrow> ilen bs \<le> 64 \<Longrightarrow>
     swfs (depth + 1) bs \<Longrightarrow> swf rc depth (with_key (co_object fs req) ''oneOf'' (PList bs))"
  by (simp_all add: co_object_def with_key_obj swf_object)

lemma co_names_wf:
  "list_all name_wf
     [''after'', ''allow_multiselect'', ''allowed_mentions'', ''answers'', ''archive_duration'',
      ''around'', ''attachment_id'', ''attachments'', ''author'', ''before'', ''block_id'',
      ''blocks'', ''channel'', ''channel_id'', ''channel_types'', ''color'', ''components'',
      ''const'', ''content'', ''content_base64'', ''count'', ''delivery'', ''description'',
      ''destination'', ''disabled'', ''discord'', ''duration'', ''elements'', ''embeds'',
      ''emoji'', ''enum'', ''fail_if_not_exists'', ''fallback'', ''fields'', ''file_id'',
      ''filename'', ''footer'', ''grant_id'', ''guild_id'', ''id'', ''inline'', ''is_private'',
      ''items'', ''label'', ''latest'', ''layout_type'', ''limit'', ''local_file'', ''maxItems'',
      ''maxLength'', ''maximum'', ''message_id'', ''message_reference'', ''minItems'',
      ''minLength'', ''minimum'', ''mrkdwn_in'', ''name'', ''nsfw'', ''oldest'', ''oneOf'',
      ''page'', ''parent_id'', ''parse'', ''poll'', ''poll_media'', ''position'', ''pretext'',
      ''properties'', ''purpose'', ''query'', ''question'', ''relative_path'', ''replied_user'',
      ''reply_broadcast'', ''required'', ''roles'', ''short'', ''slack'', ''slowmode_seconds'',
      ''sort'', ''sort_direction'', ''text'', ''thread_id'', ''thread_ts'', ''timestamp'',
      ''title'', ''topic'', ''ts'', ''type'', ''unfurl_links'', ''unfurl_media'', ''user'',
      ''user_id'', ''users'', ''value'', ''verbatim'']"
  by code_simp

lemma co_texts_plain:
  "list_all plain_text
     [''action_row'', ''announcement'', ''answers'', ''array'', ''artifact'', ''ascending'',
      ''attachment_id'', ''boolean'', ''channel'', ''channel_id'', ''channels:history'',
      ''channels:read'', ''channels:write'', ''chat:write'', ''components'', ''content_base64'',
      ''context'', ''descending'', ''destination'', ''divider'', ''elements'', ''emoji'',
      ''everyone'', ''fallback'', ''fields'', ''file_id'', ''filename'', ''files:read'',
      ''files:write'', ''forum'', ''grant_id'', ''group'', ''groups:history'', ''groups:read'',
      ''groups:write'', ''guild_id'', ''header'', ''id'', ''im'', ''im:history'', ''im:read'',
      ''im:write'', ''inline_chunk'', ''integer'', ''label'', ''link_button'', ''local_file'',
      ''message_id'', ''mpim'', ''mpim:history'', ''mpim:read'', ''mpim:write'', ''mrkdwn'',
      ''name'', ''object'', ''plain_text'', ''poll_media'', ''pretext'', ''private'', ''public'',
      ''purpose'', ''query'', ''question'', ''reactions:read'', ''reactions:write'',
      ''relative_path'', ''roles'', ''score'', ''search:read'', ''section'', ''string'',
      ''text'', ''thread_id'', ''thread_ts'', ''timestamp'', ''title'', ''topic'', ''ts'',
      ''type'', ''user'', ''user_id'', ''users'', ''users:read'', ''value'', ''voice'']"
  by code_simp

lemma co_patterns_wf:
  "pattern_text_wf ''^(?:#[0-9A-Fa-f]{6}|good|warning|danger)$''"
  "pattern_text_wf ''^[0-9]{1,20}$''"
  "pattern_text_wf ''^[A-Za-z0-9+/]*={0,2}$''"
  "pattern_text_wf ''^[A-Za-z0-9]+$''"
  "pattern_text_wf ''^[a-z0-9][a-z0-9_-]{0,79}$''"
  "pattern_text_wf (''^[0-9]{1,20}'' @ [CHR 0x5C] @ ''.[0-9]{1,9}$'')"
  "pattern_text_wf (''^[0-9]{4}-[0-9]{2}-[0-9]{2}T[0-9]{2}:[0-9]{2}:[0-9]{2}(?:'' @ [CHR 0x5C] @
        ''.[0-9]{1,9})?(?:Z|[+-][0-9]{2}:[0-9]{2})$'')"
  "pattern_text_wf (''^https://[^'' @ [CHR 0x5C] @ ''s]+$'')"
  by code_simp+

lemmas co_tables [simp] =
  co_names_wf [unfolded list.pred_inject simp_thms] co_texts_plain [unfolded list.pred_inject simp_thms]
  co_patterns_wf [simplified]

lemmas co_rules =
  co_text_def co_array_def co_binary_upload_def co_binary_delivery_def CO_SLACK_READ_def
  CO_SLACK_HISTORY_def CO_SLACK_WRITE_def CO_SLACK_USERS_def CO_SLACK_CHAT_def
  CO_SLACK_CHAT_HISTORY_def CO_SLACK_FILES_READ_def CO_SLACK_FILES_WRITE_def
  CO_SLACK_FILES_UPLOAD_def CO_SLACK_REACTIONS_READ_def CO_SLACK_REACTIONS_WRITE_def
  CO_SLACK_SEARCH_def CO_DISCORD_BOT_def CO_SLACK_MESSAGE_FIELDS_def
  CO_SLACK_MESSAGE_UPDATE_FIELDS_def CO_DISCORD_MESSAGE_CREATE_FIELDS_def
  CO_DISCORD_MESSAGE_UPDATE_FIELDS_def

subsection \<open>Shared schemas\<close>

lemma co_local_file_wf [simp]: "depth \<le> 13 \<Longrightarrow> swf False depth co_local_file"
  by (simp add: co_local_file_def co_rules schema_shapes)

lemma CO_BASE64_wf [simp]: "depth \<le> 13 \<Longrightarrow> swf False depth CO_BASE64"
  by (simp add: CO_BASE64_def co_rules schema_shapes)

lemma CO_EMPTY_wf [simp]: "depth \<le> 13 \<Longrightarrow> swf False depth CO_EMPTY"
  by (simp add: CO_EMPTY_def co_rules schema_shapes)

lemma CO_BOOLEAN_wf [simp]: "depth \<le> 13 \<Longrightarrow> swf False depth CO_BOOLEAN"
  by (simp add: CO_BOOLEAN_def co_rules schema_shapes)

lemma CO_LIMIT_wf [simp]: "depth \<le> 13 \<Longrightarrow> swf False depth CO_LIMIT"
  by (simp add: CO_LIMIT_def co_rules schema_shapes)

lemma CO_POSITION_wf [simp]: "depth \<le> 13 \<Longrightarrow> swf False depth CO_POSITION"
  by (simp add: CO_POSITION_def co_rules schema_shapes)

lemma CO_PAGE_wf [simp]: "depth \<le> 13 \<Longrightarrow> swf False depth CO_PAGE"
  by (simp add: CO_PAGE_def co_rules schema_shapes)

lemma CO_SLACK_FILE_COUNT_wf [simp]: "depth \<le> 13 \<Longrightarrow> swf False depth CO_SLACK_FILE_COUNT"
  by (simp add: CO_SLACK_FILE_COUNT_def co_rules schema_shapes)

lemma CO_SLACK_ID_wf [simp]: "depth \<le> 13 \<Longrightarrow> swf False depth CO_SLACK_ID"
  by (simp add: CO_SLACK_ID_def co_rules schema_shapes)

lemma CO_SLACK_TIMESTAMP_wf [simp]: "depth \<le> 13 \<Longrightarrow> swf False depth CO_SLACK_TIMESTAMP"
  by (simp add: CO_SLACK_TIMESTAMP_def co_rules schema_shapes)

lemma CO_SNOWFLAKE_wf [simp]: "depth \<le> 13 \<Longrightarrow> swf False depth CO_SNOWFLAKE"
  by (simp add: CO_SNOWFLAKE_def co_rules schema_shapes)

lemma CO_ISO8601_wf [simp]: "depth \<le> 13 \<Longrightarrow> swf False depth CO_ISO8601"
  by (simp add: CO_ISO8601_def co_rules schema_shapes)

lemma CO_EMOJI_wf [simp]: "depth \<le> 13 \<Longrightarrow> swf False depth CO_EMOJI"
  by (simp add: CO_EMOJI_def co_rules schema_shapes)

lemma CO_SLACK_TEXT_wf [simp]: "depth \<le> 13 \<Longrightarrow> swf False depth CO_SLACK_TEXT"
  by (simp add: CO_SLACK_TEXT_def co_rules schema_shapes)

lemma CO_SLACK_REPLY_LIMIT_wf [simp]: "depth \<le> 13 \<Longrightarrow> swf False depth CO_SLACK_REPLY_LIMIT"
  by (simp add: CO_SLACK_REPLY_LIMIT_def co_rules schema_shapes)

lemma CO_SLACK_BLOCK_TEXT_wf [simp]: "depth \<le> 13 \<Longrightarrow> swf False depth CO_SLACK_BLOCK_TEXT"
  by (simp add: CO_SLACK_BLOCK_TEXT_def co_rules schema_shapes)

lemma CO_SLACK_PLAIN_TEXT_ELEMENT_wf [simp]: "depth \<le> 10 \<Longrightarrow> swf False depth CO_SLACK_PLAIN_TEXT_ELEMENT"
  by (simp add: CO_SLACK_PLAIN_TEXT_ELEMENT_def co_rules schema_shapes)

lemma CO_SLACK_MRKDWN_TEXT_ELEMENT_wf [simp]: "depth \<le> 10 \<Longrightarrow> swf False depth CO_SLACK_MRKDWN_TEXT_ELEMENT"
  by (simp add: CO_SLACK_MRKDWN_TEXT_ELEMENT_def co_rules schema_shapes)

lemma CO_SLACK_BLOCK_TEXT_ELEMENT_wf [simp]: "depth \<le> 7 \<Longrightarrow> swf False depth CO_SLACK_BLOCK_TEXT_ELEMENT"
  by (simp add: CO_SLACK_BLOCK_TEXT_ELEMENT_def co_rules schema_shapes)

lemma CO_SLACK_SECTION_FIELD_TEXT_wf [simp]: "depth \<le> 10 \<Longrightarrow> swf False depth CO_SLACK_SECTION_FIELD_TEXT"
  by (simp add: CO_SLACK_SECTION_FIELD_TEXT_def co_rules schema_shapes)

lemma CO_SLACK_BLOCK_ITEM_wf [simp]: "depth \<le> 4 \<Longrightarrow> swf False depth CO_SLACK_BLOCK_ITEM"
  by (simp add: CO_SLACK_BLOCK_ITEM_def co_rules schema_shapes)

lemma CO_SLACK_BLOCKS_wf [simp]: "depth \<le> 1 \<Longrightarrow> swf False depth CO_SLACK_BLOCKS"
  by (simp add: CO_SLACK_BLOCKS_def co_rules schema_shapes)

lemma CO_SLACK_UPDATE_BLOCKS_wf [simp]: "depth \<le> 1 \<Longrightarrow> swf False depth CO_SLACK_UPDATE_BLOCKS"
  by (simp add: CO_SLACK_UPDATE_BLOCKS_def co_rules schema_shapes)

lemma CO_SLACK_ATTACHMENT_FIELD_wf [simp]: "depth \<le> 10 \<Longrightarrow> swf False depth CO_SLACK_ATTACHMENT_FIELD"
  by (simp add: CO_SLACK_ATTACHMENT_FIELD_def co_rules schema_shapes)

lemma CO_SLACK_ATTACHMENT_wf [simp]: "depth \<le> 7 \<Longrightarrow> swf False depth CO_SLACK_ATTACHMENT"
  by (simp add: CO_SLACK_ATTACHMENT_def co_rules schema_shapes)

lemma CO_SLACK_ATTACHMENTS_wf [simp]: "depth \<le> 4 \<Longrightarrow> swf False depth CO_SLACK_ATTACHMENTS"
  by (simp add: CO_SLACK_ATTACHMENTS_def co_rules schema_shapes)

lemma CO_SLACK_UPDATE_ATTACHMENTS_wf [simp]: "depth \<le> 4 \<Longrightarrow> swf False depth CO_SLACK_UPDATE_ATTACHMENTS"
  by (simp add: CO_SLACK_UPDATE_ATTACHMENTS_def co_rules schema_shapes)

lemma CO_DISCORD_EMBED_FIELD_wf [simp]: "depth \<le> 10 \<Longrightarrow> swf False depth CO_DISCORD_EMBED_FIELD"
  by (simp add: CO_DISCORD_EMBED_FIELD_def co_rules schema_shapes)

lemma CO_DISCORD_EMBED_wf [simp]: "depth \<le> 7 \<Longrightarrow> swf False depth CO_DISCORD_EMBED"
  by (simp add: CO_DISCORD_EMBED_def co_rules schema_shapes)

lemma CO_DISCORD_ALLOWED_MENTIONS_wf [simp]: "depth \<le> 10 \<Longrightarrow> swf False depth CO_DISCORD_ALLOWED_MENTIONS"
  by (simp add: CO_DISCORD_ALLOWED_MENTIONS_def co_rules schema_shapes)

lemma CO_DISCORD_PARTIAL_EMOJI_wf [simp]: "depth \<le> 10 \<Longrightarrow> swf False depth CO_DISCORD_PARTIAL_EMOJI"
  by (simp add: CO_DISCORD_PARTIAL_EMOJI_def co_rules schema_shapes)

lemma CO_DISCORD_LINK_BUTTON_wf [simp]: "depth \<le> 7 \<Longrightarrow> swf False depth CO_DISCORD_LINK_BUTTON"
  by (simp add: CO_DISCORD_LINK_BUTTON_def co_rules schema_shapes)

lemma CO_DISCORD_ACTION_ROW_wf [simp]: "depth \<le> 4 \<Longrightarrow> swf False depth CO_DISCORD_ACTION_ROW"
  by (simp add: CO_DISCORD_ACTION_ROW_def co_rules schema_shapes)

lemma CO_DISCORD_COMPONENTS_wf [simp]: "depth \<le> 1 \<Longrightarrow> swf False depth CO_DISCORD_COMPONENTS"
  by (simp add: CO_DISCORD_COMPONENTS_def co_rules schema_shapes)

lemma CO_DISCORD_UPDATE_COMPONENTS_wf [simp]: "depth \<le> 1 \<Longrightarrow> swf False depth CO_DISCORD_UPDATE_COMPONENTS"
  by (simp add: CO_DISCORD_UPDATE_COMPONENTS_def co_rules schema_shapes)

lemma CO_DISCORD_POLL_MEDIA_wf [simp]: "depth \<le> 13 \<Longrightarrow> swf False depth CO_DISCORD_POLL_MEDIA"
  by (simp add: CO_DISCORD_POLL_MEDIA_def co_rules schema_shapes)

lemma CO_DISCORD_POLL_ANSWER_wf [simp]: "depth \<le> 7 \<Longrightarrow> swf False depth CO_DISCORD_POLL_ANSWER"
  by (simp add: CO_DISCORD_POLL_ANSWER_def co_rules schema_shapes)

lemma CO_DISCORD_POLL_wf [simp]: "depth \<le> 4 \<Longrightarrow> swf False depth CO_DISCORD_POLL"
  by (simp add: CO_DISCORD_POLL_def co_rules schema_shapes)

lemmas co_top_schemas =
  CO_EMPTY_def CO_BOOLEAN_def CO_LIMIT_def CO_POSITION_def CO_PAGE_def CO_SLACK_FILE_COUNT_def
  CO_SLACK_ID_def CO_SLACK_TIMESTAMP_def CO_SNOWFLAKE_def CO_ISO8601_def CO_EMOJI_def
  CO_SLACK_REPLY_LIMIT_def

subsection \<open>Operation tables\<close>

lemma slack_read_operations_wf: "list_all row_schema_wf slack_read_operations"
  unfolding slack_read_operations_def list.pred_inject
  by (intro conjI TrueI;
      simp add: row_schema_wf_plain co_top_schemas co_rules schema_shapes)

lemma slack_write_operations_1_wf: "list_all row_schema_wf slack_write_operations_1"
  unfolding slack_write_operations_1_def list.pred_inject
  by (intro conjI TrueI;
      simp add: row_schema_wf_plain co_top_schemas co_rules schema_shapes)

lemma slack_write_operations_2_wf: "list_all row_schema_wf slack_write_operations_2"
  unfolding slack_write_operations_2_def list.pred_inject
  by (intro conjI TrueI;
      simp add: row_schema_wf_plain co_top_schemas co_rules schema_shapes)

lemma discord_read_operations_wf: "list_all row_schema_wf discord_read_operations"
  unfolding discord_read_operations_def list.pred_inject
  by (intro conjI TrueI;
      simp add: row_schema_wf_plain co_top_schemas co_rules schema_shapes)

lemma discord_write_operations_1_wf: "list_all row_schema_wf discord_write_operations_1"
  unfolding discord_write_operations_1_def list.pred_inject
  by (intro conjI TrueI;
      simp add: row_schema_wf_plain co_top_schemas co_rules schema_shapes)

lemma discord_write_operations_2_wf: "list_all row_schema_wf discord_write_operations_2"
  unfolding discord_write_operations_2_def list.pred_inject
  by (intro conjI TrueI;
      simp add: row_schema_wf_plain co_top_schemas co_rules schema_shapes)

end
