(* ===== verification/Catalog.thy ===== *)
theory Catalog
  imports Validate Catalog_Google_Wf Catalog_Microsoft_Wf Catalog_Collaboration_Wf
begin

section \<open>The operation catalogue (\<open>connector_operations.py\<close>)\<close>

text \<open>
  The concatenation of the three provider tables, the catalogue built from it when the module
  is imported, the fourteen tool bindings and their definitions. The theorems show that the
  import cannot fail: every row passes \<open>OperationSpec\<close> and no key occurs twice.
\<close>

definition ALL_CONNECTOR_OPERATIONS :: "operation_spec list result" where
  "ALL_CONNECTOR_OPERATIONS =
     bindE GOOGLE_OPERATIONS (\<lambda>g.
     bindE MICROSOFT_OPERATIONS (\<lambda>m.
     bindE COLLABORATION_OPERATIONS (\<lambda>c. Inr (g @ m @ c))))"

definition OPERATION_CATALOG :: "operation_catalog result" where
  "OPERATION_CATALOG = bindE ALL_CONNECTOR_OPERATIONS OperationCatalog"

definition TOOL_STEMS :: "(string \<times> string) list" where
  "TOOL_STEMS =
     [(''discord'', ''discord''), (''gmail'', ''gmail''), (''google_calendar'', ''google_calendar''),
      (''google_drive'', ''google_drive''), (''outlook_calendar'', ''outlook_calendar''),
      (''outlook_mail'', ''outlook_mail''), (''slack'', ''slack'')]"

fun mode_value :: "connector_mode \<Rightarrow> string" where
  "mode_value READ = ''read''"
| "mode_value WRITE = ''write''"

definition CONNECTOR_TOOL_BINDINGS :: "(string \<times> string \<times> connector_mode) list" where
  "CONNECTOR_TOOL_BINDINGS =
     concat (map (\<lambda>(provider, stem).
       map (\<lambda>mode. (''gsv_'' @ stem @ ''_'' @ mode_value mode, provider, mode)) [READ, WRITE])
       TOOL_STEMS)"

definition CONNECTOR_TOOL_NAMES :: "string set" where
  "CONNECTOR_TOOL_NAMES = set (map fst CONNECTOR_TOOL_BINDINGS)"

text \<open>\<open>provider.replace("_", " ").title()\<close>, on the ASCII names a provider can have.\<close>

definition ascii_upper :: "char \<Rightarrow> char" where
  "ascii_upper c = (if 97 \<le> byte c \<and> byte c \<le> 122 then char_of (byte c - 32) else c)"

definition ascii_lower :: "char \<Rightarrow> char" where
  "ascii_lower c = (if 65 \<le> byte c \<and> byte c \<le> 90 then char_of (byte c + 32) else c)"

definition ascii_letter :: "char \<Rightarrow> bool" where
  "ascii_letter c = ((65 \<le> byte c \<and> byte c \<le> 90) \<or> (97 \<le> byte c \<and> byte c \<le> 122))"

fun title_from :: "bool \<Rightarrow> string \<Rightarrow> string" where
  "title_from inside [] = []"
| "title_from inside (c # cs) =
     (if inside then ascii_lower c else ascii_upper c) # title_from (ascii_letter c) cs"

definition provider_label :: "string \<Rightarrow> string" where
  "provider_label provider =
     title_from False (map (\<lambda>c. if c = CHR ''_'' then CHR '' '' else c) provider)"

fun tool_description :: "string \<Rightarrow> connector_mode \<Rightarrow> string" where
  "tool_description provider READ =
     ''Read '' @ provider_label provider @
     '' through one exact Seld connection and a closed operation schema. '' @
     ''Continuation state is accepted only as a short-lived sealed cursor.''"
| "tool_description provider WRITE =
     ''Change '' @ provider_label provider @
     '' through one exact Seld connection and a closed operation schema. '' @
     ''Outward, destructive, and permanent effects require an exact short-lived confirmation.''"

record tool_definition =
  tool_destructive_hint :: bool
  tool_idempotent_hint :: bool
  tool_open_world_hint :: bool
  tool_read_only_hint :: bool
  tool_text :: string
  tool_schema :: "pyobj \<times> string list list"
  tool_name :: string

definition tool_definition_of ::
    "operation_catalog \<Rightarrow> string \<times> string \<times> connector_mode \<Rightarrow> tool_definition result" where
  "tool_definition_of catalog = (\<lambda>(name, provider, mode).
     bindE (tool_input_schema catalog provider mode) (\<lambda>schema.
     Inr \<lparr>tool_destructive_hint = (mode \<noteq> READ), tool_idempotent_hint = (mode = READ),
          tool_open_world_hint = True, tool_read_only_hint = (mode = READ),
          tool_text = tool_description provider mode, tool_schema = schema, tool_name = name\<rparr>))"

definition connector_tool_definitions :: "tool_definition list result" where
  "connector_tool_definitions =
     bindE OPERATION_CATALOG (\<lambda>catalog. mapE (tool_definition_of catalog) CONNECTOR_TOOL_BINDINGS)"

subsection \<open>Every row is accepted\<close>

definition operation_name_ok :: "string \<Rightarrow> bool" where
  "operation_name_ok n = is_ok (operation_name n [])"

definition scopes_ok :: "string list list \<Rightarrow> bool" where
  "scopes_ok sc = is_ok (validate_scope_alternatives sc)"

lemma operation_name_label: "is_ok (operation_name n label) = operation_name_ok n"
  by (simp add: operation_name_ok_def operation_name_def)

lemma OperationSpec_ok:
  "is_ok (OperationSpec p m n e ep sc i) \<longleftrightarrow>
     operation_name_ok p \<and> operation_name_ok n \<and> operation_name_ok ep \<and>
     (m = READ \<longleftrightarrow> e = E_READ) \<and> scopes_ok sc \<and>
     schema_wf 0 True False (operation_transport_field_paths p m n) [] i"
proof -
  have names: "is_ok (bindE (operation_name x l) (\<lambda>_. r)) \<longleftrightarrow> operation_name_ok x \<and> is_ok r"
    for x l and r :: "operation_spec result"
    by (auto simp: operation_name_ok_def operation_name_def)
  have both: "is_ok (bindE a (\<lambda>x. bindE b (\<lambda>y. Inr (f x y)))) \<longleftrightarrow> is_ok a \<and> is_ok b"
    for a :: "string set list result" and b :: "pyobj result" and f :: "_ \<Rightarrow> _ \<Rightarrow> operation_spec"
    by (cases a; cases b) simp_all
  show ?thesis
    unfolding OperationSpec_def names scopes_ok_def normalize_schema_ok(1) [symmetric]
    by (cases m; cases e) (simp_all add: both)
qed

fun row_head_ok :: "operation_args \<Rightarrow> bool" where
  "row_head_ok (p, m, n, e, sc, i) =
     (operation_name_ok p \<and> operation_name_ok n \<and> (m = READ \<longleftrightarrow> e = E_READ) \<and> scopes_ok sc)"

fun row_operation :: "operation_args \<Rightarrow> operation_spec result" where
  "row_operation (p, m, n, e, sc, i) = OperationSpec p m n e n sc i"

lemma module_operations:
  "g_operation = row_operation" "ms_operation = row_operation" "co_operation = row_operation"
  by (auto simp: fun_eq_iff)

lemma row_operation_ok: "is_ok (row_operation r) \<longleftrightarrow> row_head_ok r \<and> row_schema_wf r"
  by (cases r) (auto simp: OperationSpec_ok row_schema_wf.simps)

fun row_key :: "operation_args \<Rightarrow> spec_key" where
  "row_key (p, m, n, e, sc, i) = (p, m, n)"

fun row_tag :: "operation_args \<Rightarrow> string \<times> connector_mode" where
  "row_tag (p, m, n, e, sc, i) = (p, m)"

definition distinct_group :: "string \<times> connector_mode \<Rightarrow> operation_args list \<Rightarrow> bool" where
  "distinct_group t rs = (distinct (map row_key rs) \<and> list_all (\<lambda>r. row_tag r = t) rs)"

lemma row_tag_key: "row_key r = row_key r' \<Longrightarrow> row_tag r = row_tag r'"
  by (cases r; cases r') simp

lemma distinct_groups:
  "list_all (\<lambda>(t, rs). distinct_group t rs) gs \<Longrightarrow> distinct (map fst gs) \<Longrightarrow>
   distinct (map row_key (concat (map snd gs)))"
proof (induction gs)
  case Nil
  then show ?case by simp
next
  case (Cons g gs)
  obtain t rs where g: "g = (t, rs)" by (cases g)
  have "row_key r \<noteq> row_key r'" if "r \<in> set rs" "(t', rs') \<in> set gs" "r' \<in> set rs'" for r r' t' rs'
  proof
    assume "row_key r = row_key r'"
    then have "row_tag r = row_tag r'" by (rule row_tag_key)
    moreover have "row_tag r = t" "row_tag r' = t'" "t \<noteq> t'"
      using Cons.prems that by (force simp: g distinct_group_def list_all_iff)+
    ultimately show False by simp
  qed
  with Cons show ?case by (force simp: g distinct_group_def)
qed

lemma catalogue_names:
  "list_all operation_name_ok
     [''discord'', ''gmail'', ''google_calendar'', ''google_drive'', ''outlook_calendar'',
      ''outlook_mail'', ''slack'', ''attachments.add'', ''attachments.delete'',
      ''attachments.get'', ''attachments.list'', ''attachments.remove'', ''attachments.update'',
      ''calendar_list.get'', ''calendar_list.insert'', ''calendar_list.remove'',
      ''calendar_list.update'', ''calendars.create'', ''calendars.delete'', ''calendars.get'',
      ''calendars.list'', ''calendars.purge'', ''calendars.update'',
      ''changes.get_start_page_token'', ''changes.list'', ''channels.archive'',
      ''channels.create'', ''channels.delete'', ''channels.get'', ''channels.join'',
      ''channels.leave'', ''channels.list'', ''channels.purpose'', ''channels.rename'',
      ''channels.restore'', ''channels.topic'', ''channels.update'', ''colors.get'',
      ''comments.create'', ''comments.delete'', ''comments.list'', ''comments.update'',
      ''conversations.get'', ''conversations.list'', ''dms.close'', ''dms.open'',
      ''drafts.create'', ''drafts.delete'', ''drafts.forward'', ''drafts.get'', ''drafts.list'',
      ''drafts.reply'', ''drafts.reply_all'', ''drafts.send'', ''drafts.update'',
      ''drives.list'', ''events.accept'', ''events.cancel'', ''events.create'',
      ''events.decline'', ''events.delete'', ''events.delta'', ''events.forward'',
      ''events.get'', ''events.instances'', ''events.list'', ''events.move'', ''events.purge'',
      ''events.respond'', ''events.tentative'', ''events.update'', ''events.window'',
      ''files.content'', ''files.copy'', ''files.create'', ''files.delete'', ''files.download'',
      ''files.export'', ''files.get'', ''files.list'', ''files.move'', ''files.purge'',
      ''files.restore'', ''files.trash'', ''files.update'', ''files.upload'', ''folders.create'',
      ''folders.delta'', ''folders.get'', ''folders.list'', ''folders.move'', ''folders.purge'',
      ''folders.restore'', ''folders.trash'', ''folders.update'', ''freebusy.query'',
      ''guilds.list'', ''history.list'', ''identity.get'', ''labels.create'', ''labels.get'',
      ''labels.list'', ''labels.purge'', ''labels.update'', ''messages.batch_modify'',
      ''messages.batch_purge'', ''messages.copy'', ''messages.create'', ''messages.delete'',
      ''messages.delta'', ''messages.get'', ''messages.import'', ''messages.insert'',
      ''messages.list'', ''messages.mime'', ''messages.modify'', ''messages.move'',
      ''messages.purge'', ''messages.restore'', ''messages.send'', ''messages.trash'',
      ''messages.update'', ''permissions.create'', ''permissions.delete'', ''permissions.list'',
      ''permissions.update'', ''profile.get'', ''reactions.add'', ''reactions.list'',
      ''reactions.remove'', ''replies.create'', ''replies.delete'', ''replies.list'',
      ''replies.update'', ''revisions.delete'', ''revisions.download'', ''revisions.keep'',
      ''revisions.list'', ''search.messages'', ''settings.auto_forwarding.get'',
      ''settings.filters.create'', ''settings.filters.delete'', ''settings.filters.get'',
      ''settings.filters.list'', ''settings.forwarding_addresses.get'',
      ''settings.forwarding_addresses.list'', ''settings.imap.get'', ''settings.imap.update'',
      ''settings.language.get'', ''settings.language.update'', ''settings.pop.get'',
      ''settings.pop.update'', ''settings.send_as.get'', ''settings.send_as.list'',
      ''settings.send_as.patch'', ''settings.vacation.get'', ''settings.vacation.update'',
      ''threads.active'', ''threads.archive'', ''threads.archived_private'',
      ''threads.archived_public'', ''threads.create'', ''threads.create_from_message'',
      ''threads.delete'', ''threads.get'', ''threads.join'', ''threads.leave'', ''threads.list'',
      ''threads.modify'', ''threads.purge'', ''threads.reply'', ''threads.restore'',
      ''threads.trash'', ''threads.update'', ''users.get'', ''users.list'']"
  by code_simp

lemmas operation_names [simp] = catalogue_names [unfolded list.pred_inject simp_thms]

lemma catalogue_scopes [simp]:
  "scopes_ok G_GMAIL_READ_SCOPES"
  "scopes_ok G_GMAIL_WRITE_SCOPES"
  "scopes_ok G_GMAIL_SETTINGS_WRITE_SCOPES"
  "scopes_ok G_GMAIL_PURGE_SCOPES"
  "scopes_ok G_CALENDAR_LIST_SCOPES"
  "scopes_ok G_CALENDAR_LIST_WRITE_SCOPES"
  "scopes_ok G_CALENDAR_RESOURCE_READ_SCOPES"
  "scopes_ok G_CALENDAR_EVENT_READ_SCOPES"
  "scopes_ok G_CALENDAR_FREEBUSY_SCOPES"
  "scopes_ok G_CALENDAR_WRITE_SCOPES"
  "scopes_ok G_CALENDAR_EVENT_WRITE_SCOPES"
  "scopes_ok G_DRIVE_METADATA_SCOPES"
  "scopes_ok G_DRIVE_CONTENT_SCOPES"
  "scopes_ok G_DRIVE_COMMENT_READ_SCOPES"
  "scopes_ok G_DRIVE_WRITE_SCOPES"
  "scopes_ok MS_MAIL_READ_SCOPES"
  "scopes_ok MS_MAIL_WRITE_SCOPES"
  "scopes_ok MS_MAIL_SEND_SCOPES"
  "scopes_ok MS_CALENDAR_READ_SCOPES"
  "scopes_ok MS_CALENDAR_WRITE_SCOPES"
  "scopes_ok CO_SLACK_READ"
  "scopes_ok CO_SLACK_HISTORY"
  "scopes_ok CO_SLACK_WRITE"
  "scopes_ok CO_SLACK_USERS"
  "scopes_ok CO_SLACK_CHAT"
  "scopes_ok CO_SLACK_CHAT_HISTORY"
  "scopes_ok CO_SLACK_FILES_READ"
  "scopes_ok CO_SLACK_FILES_WRITE"
  "scopes_ok CO_SLACK_FILES_UPLOAD"
  "scopes_ok CO_SLACK_REACTIONS_READ"
  "scopes_ok CO_SLACK_REACTIONS_WRITE"
  "scopes_ok CO_SLACK_SEARCH"
  "scopes_ok CO_DISCORD_BOT"
  "scopes_ok (g_scopes [G_DRIVE_READONLY, G_DRIVE])"
  by code_simp+

lemma gmail_read_operations_1_rows: "list_all row_head_ok gmail_read_operations_1"
  by (simp add: gmail_read_operations_1_def)

lemma gmail_read_operations_2_rows: "list_all row_head_ok gmail_read_operations_2"
  by (simp add: gmail_read_operations_2_def)

lemma gmail_write_operations_1_rows: "list_all row_head_ok gmail_write_operations_1"
  by (simp add: gmail_write_operations_1_def)

lemma gmail_write_operations_2_rows: "list_all row_head_ok gmail_write_operations_2"
  by (simp add: gmail_write_operations_2_def)

lemma google_calendar_read_operations_rows: "list_all row_head_ok google_calendar_read_operations"
  by (simp add: google_calendar_read_operations_def)

lemma google_calendar_write_operations_1_rows: "list_all row_head_ok google_calendar_write_operations_1"
  by (simp add: google_calendar_write_operations_1_def)

lemma google_calendar_write_operations_2_rows: "list_all row_head_ok google_calendar_write_operations_2"
  by (simp add: google_calendar_write_operations_2_def)

lemma google_drive_read_operations_1_rows: "list_all row_head_ok google_drive_read_operations_1"
  by (simp add: google_drive_read_operations_1_def)

lemma google_drive_read_operations_2_rows: "list_all row_head_ok google_drive_read_operations_2"
  by (simp add: google_drive_read_operations_2_def)

lemma google_drive_write_operations_1_rows: "list_all row_head_ok google_drive_write_operations_1"
  by (simp add: google_drive_write_operations_1_def)

lemma google_drive_write_operations_2_rows: "list_all row_head_ok google_drive_write_operations_2"
  by (simp add: google_drive_write_operations_2_def)

lemma outlook_mail_read_operations_rows: "list_all row_head_ok outlook_mail_read_operations"
  by (simp add: outlook_mail_read_operations_def)

lemma outlook_mail_write_operations_1_rows: "list_all row_head_ok outlook_mail_write_operations_1"
  by (simp add: outlook_mail_write_operations_1_def)

lemma outlook_mail_write_operations_2_rows: "list_all row_head_ok outlook_mail_write_operations_2"
  by (simp add: outlook_mail_write_operations_2_def)

lemma outlook_calendar_read_operations_rows: "list_all row_head_ok outlook_calendar_read_operations"
  by (simp add: outlook_calendar_read_operations_def)

lemma outlook_calendar_write_operations_1_rows: "list_all row_head_ok outlook_calendar_write_operations_1"
  by (simp add: outlook_calendar_write_operations_1_def)

lemma outlook_calendar_write_operations_2_rows: "list_all row_head_ok outlook_calendar_write_operations_2"
  by (simp add: outlook_calendar_write_operations_2_def)

lemma slack_read_operations_rows: "list_all row_head_ok slack_read_operations"
  by (simp add: slack_read_operations_def)

lemma slack_write_operations_1_rows: "list_all row_head_ok slack_write_operations_1"
  by (simp add: slack_write_operations_1_def)

lemma slack_write_operations_2_rows: "list_all row_head_ok slack_write_operations_2"
  by (simp add: slack_write_operations_2_def)

lemma discord_read_operations_rows: "list_all row_head_ok discord_read_operations"
  by (simp add: discord_read_operations_def)

lemma discord_write_operations_1_rows: "list_all row_head_ok discord_write_operations_1"
  by (simp add: discord_write_operations_1_def)

lemma discord_write_operations_2_rows: "list_all row_head_ok discord_write_operations_2"
  by (simp add: discord_write_operations_2_def)

lemma gmail_read_group:
  "distinct_group (''gmail'', READ)
     (gmail_read_operations_1 @
     gmail_read_operations_2)"
  by (simp add: distinct_group_def gmail_read_operations_1_def gmail_read_operations_2_def)

lemma gmail_write_group:
  "distinct_group (''gmail'', WRITE) (gmail_write_operations_1 @
     gmail_write_operations_2)"
  by (simp add: distinct_group_def gmail_write_operations_1_def gmail_write_operations_2_def)

lemma google_calendar_read_group:
  "distinct_group (''google_calendar'', READ) (google_calendar_read_operations)"
  by (simp add: distinct_group_def google_calendar_read_operations_def)

lemma google_calendar_write_group:
  "distinct_group (''google_calendar'', WRITE) (google_calendar_write_operations_1 @
     google_calendar_write_operations_2)"
  by (simp add: distinct_group_def google_calendar_write_operations_1_def
      google_calendar_write_operations_2_def)

lemma google_drive_read_group:
  "distinct_group (''google_drive'', READ) (google_drive_read_operations_1 @
     google_drive_read_operations_2)"
  by (simp add: distinct_group_def google_drive_read_operations_1_def
      google_drive_read_operations_2_def)

lemma google_drive_write_group:
  "distinct_group (''google_drive'', WRITE) (google_drive_write_operations_1 @
     google_drive_write_operations_2)"
  by (simp add: distinct_group_def google_drive_write_operations_1_def
      google_drive_write_operations_2_def)

lemma outlook_mail_read_group:
  "distinct_group (''outlook_mail'', READ) (outlook_mail_read_operations)"
  by (simp add: distinct_group_def outlook_mail_read_operations_def)

lemma outlook_mail_write_group:
  "distinct_group (''outlook_mail'', WRITE) (outlook_mail_write_operations_1 @
     outlook_mail_write_operations_2)"
  by (simp add: distinct_group_def outlook_mail_write_operations_1_def
      outlook_mail_write_operations_2_def)

lemma outlook_calendar_read_group:
  "distinct_group (''outlook_calendar'', READ) (outlook_calendar_read_operations)"
  by (simp add: distinct_group_def outlook_calendar_read_operations_def)

lemma outlook_calendar_write_group:
  "distinct_group (''outlook_calendar'', WRITE) (outlook_calendar_write_operations_1 @
     outlook_calendar_write_operations_2)"
  by (simp add: distinct_group_def outlook_calendar_write_operations_1_def
      outlook_calendar_write_operations_2_def)

lemma slack_read_group:
  "distinct_group (''slack'', READ) (slack_read_operations)"
  by (simp add: distinct_group_def slack_read_operations_def)

lemma slack_write_group:
  "distinct_group (''slack'', WRITE) (slack_write_operations_1 @
     slack_write_operations_2)"
  by (simp add: distinct_group_def slack_write_operations_1_def slack_write_operations_2_def)

lemma discord_read_group:
  "distinct_group (''discord'', READ) (discord_read_operations)"
  by (simp add: distinct_group_def discord_read_operations_def)

lemma discord_write_group:
  "distinct_group (''discord'', WRITE) (discord_write_operations_1 @
     discord_write_operations_2)"
  by (simp add: distinct_group_def discord_write_operations_1_def discord_write_operations_2_def)

lemma spec_key_row: "row_operation r = Inr s \<Longrightarrow> spec_key s = row_key r"
  by (cases r) (auto simp: OperationSpec_def spec_key_def bindE_Inr_iff split: if_splits)

definition google_rows :: "operation_args list" where
  "google_rows =
     gmail_read_operations_1 @ gmail_read_operations_2 @ gmail_write_operations_1 @
     gmail_write_operations_2 @ google_calendar_read_operations @
     google_calendar_write_operations_1 @ google_calendar_write_operations_2 @
     google_drive_read_operations_1 @ google_drive_read_operations_2 @
     google_drive_write_operations_1 @ google_drive_write_operations_2"

definition microsoft_rows :: "operation_args list" where
  "microsoft_rows =
     outlook_mail_read_operations @ outlook_mail_write_operations_1 @
     outlook_mail_write_operations_2 @ outlook_calendar_read_operations @
     outlook_calendar_write_operations_1 @ outlook_calendar_write_operations_2"

definition collaboration_rows :: "operation_args list" where
  "collaboration_rows =
     slack_read_operations @ slack_write_operations_1 @ slack_write_operations_2 @
     discord_read_operations @ discord_write_operations_1 @ discord_write_operations_2"

definition operation_rows :: "operation_args list" where
  "operation_rows = google_rows @ microsoft_rows @ collaboration_rows"

lemma list_all_row_operation:
  "list_all row_head_ok rs \<Longrightarrow> list_all row_schema_wf rs \<Longrightarrow> list_all (\<lambda>r. is_ok (row_operation r)) rs"
  by (simp add: list_all_iff row_operation_ok)

lemma google_rows_ok: "list_all (\<lambda>r. is_ok (row_operation r)) google_rows"
  unfolding google_rows_def list_all_append
  by (intro conjI list_all_row_operation
      gmail_read_operations_1_rows gmail_read_operations_1_wf gmail_read_operations_2_rows
      gmail_read_operations_2_wf gmail_write_operations_1_rows gmail_write_operations_1_wf
      gmail_write_operations_2_rows gmail_write_operations_2_wf
      google_calendar_read_operations_rows google_calendar_read_operations_wf
      google_calendar_write_operations_1_rows google_calendar_write_operations_1_wf
      google_calendar_write_operations_2_rows google_calendar_write_operations_2_wf
      google_drive_read_operations_1_rows google_drive_read_operations_1_wf
      google_drive_read_operations_2_rows google_drive_read_operations_2_wf
      google_drive_write_operations_1_rows google_drive_write_operations_1_wf
      google_drive_write_operations_2_rows google_drive_write_operations_2_wf)

lemma microsoft_rows_ok: "list_all (\<lambda>r. is_ok (row_operation r)) microsoft_rows"
  unfolding microsoft_rows_def list_all_append
  by (intro conjI list_all_row_operation
      outlook_mail_read_operations_rows outlook_mail_read_operations_wf
      outlook_mail_write_operations_1_rows outlook_mail_write_operations_1_wf
      outlook_mail_write_operations_2_rows outlook_mail_write_operations_2_wf
      outlook_calendar_read_operations_rows outlook_calendar_read_operations_wf
      outlook_calendar_write_operations_1_rows outlook_calendar_write_operations_1_wf
      outlook_calendar_write_operations_2_rows outlook_calendar_write_operations_2_wf)

lemma collaboration_rows_ok: "list_all (\<lambda>r. is_ok (row_operation r)) collaboration_rows"
  unfolding collaboration_rows_def list_all_append
  by (intro conjI list_all_row_operation
      slack_read_operations_rows slack_read_operations_wf slack_write_operations_1_rows
      slack_write_operations_1_wf slack_write_operations_2_rows slack_write_operations_2_wf
      discord_read_operations_rows discord_read_operations_wf discord_write_operations_1_rows
      discord_write_operations_1_wf discord_write_operations_2_rows discord_write_operations_2_wf)

lemma mapE_append: "mapE f (xs @ ys) = bindE (mapE f xs) (\<lambda>a. bindE (mapE f ys) (\<lambda>b. Inr (a @ b)))"
  by (induction xs) (simp_all add: bindE_assoc, cases "mapE f ys", simp_all)

lemma ALL_CONNECTOR_OPERATIONS_rows: "ALL_CONNECTOR_OPERATIONS = mapE row_operation operation_rows"
  unfolding ALL_CONNECTOR_OPERATIONS_def GOOGLE_OPERATIONS_def MICROSOFT_OPERATIONS_def
    COLLABORATION_OPERATIONS_def operation_rows_def module_operations
    google_rows_def [symmetric] microsoft_rows_def [symmetric] collaboration_rows_def [symmetric]
    mapE_append
  by (simp add: bindE_assoc)

lemma operation_rows_distinct: "distinct (map row_key operation_rows)"
proof -
  let ?gs = "[((''gmail'', READ), gmail_read_operations_1 @ gmail_read_operations_2),
      ((''gmail'', WRITE), gmail_write_operations_1 @ gmail_write_operations_2),
      ((''google_calendar'', READ), google_calendar_read_operations),
      ((''google_calendar'', WRITE), google_calendar_write_operations_1 @ google_calendar_write_operations_2),
      ((''google_drive'', READ), google_drive_read_operations_1 @ google_drive_read_operations_2),
      ((''google_drive'', WRITE), google_drive_write_operations_1 @ google_drive_write_operations_2),
      ((''outlook_mail'', READ), outlook_mail_read_operations),
      ((''outlook_mail'', WRITE), outlook_mail_write_operations_1 @ outlook_mail_write_operations_2),
      ((''outlook_calendar'', READ), outlook_calendar_read_operations),
      ((''outlook_calendar'', WRITE), outlook_calendar_write_operations_1 @ outlook_calendar_write_operations_2),
      ((''slack'', READ), slack_read_operations),
      ((''slack'', WRITE), slack_write_operations_1 @ slack_write_operations_2),
      ((''discord'', READ), discord_read_operations),
      ((''discord'', WRITE), discord_write_operations_1 @ discord_write_operations_2)]"
  have "operation_rows = concat (map snd ?gs)"
    by (simp add: operation_rows_def google_rows_def microsoft_rows_def collaboration_rows_def)
  moreover have "list_all (\<lambda>(t, rs). distinct_group t rs) ?gs"
    by (simp add: gmail_read_group gmail_write_group google_calendar_read_group google_calendar_write_group
        google_drive_read_group google_drive_write_group outlook_mail_read_group
        outlook_mail_write_group outlook_calendar_read_group outlook_calendar_write_group
        slack_read_group slack_write_group discord_read_group discord_write_group)
  moreover have "distinct (map fst ?gs)" by simp
  ultimately show ?thesis using distinct_groups by metis
qed

lemma operation_rows_length: "length operation_rows = 218"
  by (simp add: operation_rows_def google_rows_def microsoft_rows_def collaboration_rows_def
      gmail_read_operations_1_def gmail_read_operations_2_def gmail_write_operations_1_def
      gmail_write_operations_2_def google_calendar_read_operations_def
      google_calendar_write_operations_1_def google_calendar_write_operations_2_def
      google_drive_read_operations_1_def google_drive_read_operations_2_def
      google_drive_write_operations_1_def google_drive_write_operations_2_def
      outlook_mail_read_operations_def outlook_mail_write_operations_1_def
      outlook_mail_write_operations_2_def outlook_calendar_read_operations_def
      outlook_calendar_write_operations_1_def outlook_calendar_write_operations_2_def
      slack_read_operations_def slack_write_operations_1_def slack_write_operations_2_def
      discord_read_operations_def discord_write_operations_1_def discord_write_operations_2_def)

subsection \<open>The catalogue that results\<close>

lemma index_operations_Inr:
  "index_operations ss m = Inr m' \<longleftrightarrow>
     distinct (map spec_key ss) \<and> set (map spec_key ss) \<inter> dom m = {} \<and>
     m' = m ++ map_of (rev (map (\<lambda>s. (spec_key s, s)) ss))"
proof (induction ss arbitrary: m)
  case Nil
  then show ?case by auto
next
  case (Cons s ss)
  define k where "k = spec_key s"
  define M where "M = map_of (rev (map (\<lambda>s. (spec_key s, s)) ss))"
  have M: "m ++ map_of (rev (map (\<lambda>s. (spec_key s, s)) (s # ss))) = m(k \<mapsto> s) ++ M"
    by (simp add: M_def k_def map_add_assoc [symmetric])
  have "index_operations (s # ss) m = Inr m' \<longleftrightarrow>
      k \<notin> dom m \<and> index_operations ss (m(k \<mapsto> s)) = Inr m'"
    by (simp add: k_def domIff)
  also have "\<dots> \<longleftrightarrow> k \<notin> dom m \<and> distinct (map spec_key ss) \<and>
      set (map spec_key ss) \<inter> insert k (dom m) = {} \<and> m' = m(k \<mapsto> s) ++ M"
    unfolding Cons.IH M_def [symmetric] by simp
  also have "\<dots> \<longleftrightarrow> distinct (map spec_key (s # ss)) \<and> set (map spec_key (s # ss)) \<inter> dom m = {} \<and>
      m' = m(k \<mapsto> s) ++ M"
    unfolding k_def by auto
  finally show ?case unfolding M .
qed

lemma OperationCatalog_Inr:
  "OperationCatalog ops = Inr c \<longleftrightarrow>
     distinct (map spec_key ops) \<and>
     c = \<lparr>cat_operations = ops, cat_by_key = map_of (map (\<lambda>s. (spec_key s, s)) ops)\<rparr>"
proof -
  have "map_of (rev (map (\<lambda>s. (spec_key s, s)) ops)) = map_of (map (\<lambda>s. (spec_key s, s)) ops)"
    if "distinct (map spec_key ops)"
    using that by (intro map_of_inject_set [THEN iffD2]) (simp_all add: rev_map [symmetric] o_def)
  then show ?thesis
    by (auto simp: OperationCatalog_def bindE_Inr_iff index_operations_Inr)
qed

lemma catalog_by_key:
  "OperationCatalog ops = Inr c \<Longrightarrow> cat_by_key c k = Some s \<longleftrightarrow> s \<in> set ops \<and> spec_key s = k"
  by (auto simp: OperationCatalog_Inr map_of_eq_Some_iff o_def)

lemma catalog_lookup_Inr:
  assumes "OperationCatalog ops = Inr c"
  shows "catalog_lookup c p m n = Inr s \<longleftrightarrow>
    operation_name_ok p \<and> operation_name_ok n \<and> s \<in> set ops \<and> spec_key s = (p, m, n)"
proof -
  have "catalog_lookup c p m n = Inr s \<longleftrightarrow>
      operation_name_ok p \<and> operation_name_ok n \<and> cat_by_key c (p, m, n) = Some s"
    by (auto simp: catalog_lookup_def operation_name_ok_def operation_name_def split: option.splits)
  then show ?thesis by (simp add: catalog_by_key [OF assms])
qed

lemma all_operations_ok: "is_ok ALL_CONNECTOR_OPERATIONS"
  unfolding ALL_CONNECTOR_OPERATIONS_rows is_ok_mapE operation_rows_def list_all_append
  using google_rows_ok microsoft_rows_ok collaboration_rows_ok by simp

lemma all_operations_keys:
  "ALL_CONNECTOR_OPERATIONS = Inr ops \<Longrightarrow> map spec_key ops = map row_key operation_rows"
proof -
  have "map spec_key ops = map row_key rs" if "mapE row_operation rs = Inr ops" for rs
    using that by (induction rs arbitrary: ops)
      (auto simp: bindE_Inr_iff spec_key_row simp del: row_operation.simps row_key.simps)
  then show "ALL_CONNECTOR_OPERATIONS = Inr ops \<Longrightarrow> map spec_key ops = map row_key operation_rows"
    unfolding ALL_CONNECTOR_OPERATIONS_rows .
qed

lemma catalogue_built:
  obtains ops c where "ALL_CONNECTOR_OPERATIONS = Inr ops" "OPERATION_CATALOG = Inr c"
    "cat_operations c = ops" "OperationCatalog ops = Inr c" "map spec_key ops = map row_key operation_rows"
proof -
  obtain ops where ops: "ALL_CONNECTOR_OPERATIONS = Inr ops"
    using all_operations_ok by (auto simp: is_ok_iff)
  note keys = all_operations_keys [OF ops]
  have "distinct (map spec_key ops)" by (simp add: keys operation_rows_distinct)
  then obtain c where c: "OperationCatalog ops = Inr c" "cat_operations c = ops"
    by (simp add: OperationCatalog_Inr)
  then show thesis using that [OF ops _ c(2,1) keys] by (simp add: OPERATION_CATALOG_def ops)
qed


lemma catalogue_member:
  assumes "OPERATION_CATALOG = Inr c" and "s \<in> set (cat_operations c)"
  shows "\<exists>p m n e sc i. OperationSpec p m n e n sc i = Inr s \<and> spec_key s = (p, m, n) \<and> spec_effect s = e \<and>
     operation_name_ok p \<and> operation_name_ok n \<and> (m = READ \<longleftrightarrow> e = E_READ)"
proof -
  from assms(1) obtain ops where ops: "ALL_CONNECTOR_OPERATIONS = Inr ops" "cat_operations c = ops"
    by (auto simp: OPERATION_CATALOG_def bindE_Inr_iff OperationCatalog_Inr)
  from ops have "mapE row_operation operation_rows = Inr ops"
    by (simp add: ALL_CONNECTOR_OPERATIONS_rows)
  from mapE_in_set [OF this, of s] assms(2) ops obtain r where r: "row_operation r = Inr s" by auto
  obtain p m n e sc i where rr: "r = (p, m, n, e, sc, i)" by (metis prod_cases6)
  have "is_ok (OperationSpec p m n e n sc i)" using r by (simp add: rr)
  then have "operation_name_ok p \<and> operation_name_ok n \<and> (m = READ \<longleftrightarrow> e = E_READ)"
    by (simp add: OperationSpec_ok)
  moreover have "spec_effect s = e"
    using r by (auto simp: rr OperationSpec_def bindE_Inr_iff split: if_splits)
  ultimately show ?thesis using r spec_key_row [OF r] by (auto simp: rr)
qed

lemma binding_rows:
  "list_all (\<lambda>(name, p, m). list_ex (\<lambda>r. row_tag r = (p, m)) operation_rows) CONNECTOR_TOOL_BINDINGS"
  by (simp add: CONNECTOR_TOOL_BINDINGS_def TOOL_STEMS_def operation_rows_def google_rows_def
      microsoft_rows_def collaboration_rows_def
      gmail_read_operations_1_def gmail_write_operations_1_def google_calendar_read_operations_def
      google_calendar_write_operations_1_def google_drive_read_operations_1_def
      google_drive_write_operations_1_def outlook_mail_read_operations_def
      outlook_mail_write_operations_1_def outlook_calendar_read_operations_def
      outlook_calendar_write_operations_1_def slack_read_operations_def
      slack_write_operations_1_def discord_read_operations_def discord_write_operations_1_def)

lemma row_tag_fst: "row_tag r = (fst (row_key r), fst (snd (row_key r)))"
  by (cases r) simp

lemma tool_definition_of_Inr:
  "tool_definition_of c b = Inr t \<Longrightarrow> tool_name t = fst b \<and> (tool_read_only_hint t \<longleftrightarrow> \<not> tool_destructive_hint t)"
  by (cases b) (auto simp: tool_definition_of_def bindE_Inr_iff)


end
