(* ===== verification/Schema_Errors.thy ===== *)
theory Schema_Errors
  imports Canonical
begin

section \<open>Why a schema is refused\<close>

text \<open>
  The exceptions of \<open>_normalize_schema\<close>. The model knows the patterns \<open>re_compile\<close> can read; a schema
  whose patterns are all of that kind is refused with a \<open>ValidationError\<close> or, where a repetition
  number of a pattern or a numeric bound is too large, with an \<open>OverflowError\<close> of the standard library
  that the code does not catch.
\<close>

subsection \<open>The schemas whose patterns the model reads\<close>

fun modelled_pattern :: "pyobj \<Rightarrow> pyobj \<Rightarrow> bool" where
  "modelled_pattern (PStr k) (PStr p) = (k = ''pattern'' \<longrightarrow> re_compile p \<noteq> Inl Unmodelled)"
| "modelled_pattern _ _ = True"

text \<open>Every text under a key \<open>pattern\<close>, at any depth.\<close>

fun modelled_patterns :: "pyobj \<Rightarrow> bool"
  and modelled_members :: "pyobj list \<Rightarrow> bool"
  and modelled_entries :: "items \<Rightarrow> bool" where
  "modelled_patterns (PDict d) = modelled_entries d"
| "modelled_patterns (PProxy d) = modelled_entries d"
| "modelled_patterns (PList xs) = modelled_members xs"
| "modelled_patterns (PTuple xs) = modelled_members xs"
| "modelled_patterns _ = True"
| "modelled_members [] = True"
| "modelled_members (x # xs) = (modelled_patterns x \<and> modelled_members xs)"
| "modelled_entries [] = True"
| "modelled_entries ((k, v) # d) =
     (modelled_pattern k v \<and> modelled_patterns v \<and> modelled_entries d)"

lemma modelled_members_iff: "modelled_members xs \<longleftrightarrow> list_all modelled_patterns xs"
  by (induction xs) simp_all

lemma modelled_entries_value: "modelled_entries d \<Longrightarrow> (k, v) \<in> set d \<Longrightarrow> modelled_patterns v"
  by (induction d) auto

lemma modelled_entries_dget:
  "modelled_entries d \<Longrightarrow> dget d k = Some v \<Longrightarrow> modelled_pattern (PStr k) v \<and> modelled_patterns v"
  by (induction d) (auto split: if_splits)

lemma modelled_mapping: "modelled_patterns s \<Longrightarrow> as_mapping s = Some d \<Longrightarrow> modelled_entries d"
  by (cases s) auto

lemma modelled_sequence: "modelled_patterns v \<Longrightarrow> as_sequence v = Some xs \<Longrightarrow> x \<in> set xs \<Longrightarrow> modelled_patterns x"
  by (cases v) (auto simp: modelled_members_iff list_all_iff)

lemma modelled_nested:
  assumes "modelled_entries d"
  shows "b \<in> set (elements (dget d ''oneOf'')) \<Longrightarrow> modelled_patterns b"
    and "(k, c) \<in> set (property_items d) \<Longrightarrow> modelled_patterns c"
    and "dget d ''items'' = Some s \<Longrightarrow> modelled_patterns s"
proof -
  show "modelled_patterns b" if "b \<in> set (elements (dget d ''oneOf''))"
  proof (cases "dget d ''oneOf''")
    case (Some v)
    with that obtain xs where "as_sequence v = Some xs" "b \<in> set xs"
      by (cases "as_sequence v") (auto simp: elements_def)
    with Some show ?thesis using modelled_entries_dget [OF assms Some] modelled_sequence by blast
  qed (use that in \<open>simp add: elements_def\<close>)
  show "modelled_patterns c" if "(k, c) \<in> set (property_items d)"
  proof (cases "dget d ''properties''")
    case (Some v)
    with that obtain ps where "as_mapping v = Some ps" "(k, c) \<in> set ps"
      by (cases "as_mapping v") (auto simp: property_items_def)
    with Some show ?thesis
      using modelled_entries_dget [OF assms Some] modelled_mapping modelled_entries_value by blast
  qed (use that in \<open>simp add: property_items_def\<close>)
  show "modelled_patterns s" if "dget d ''items'' = Some s"
    using modelled_entries_dget [OF assms that] by simp
qed

subsection \<open>What a step may raise\<close>

definition raises_only :: "(exc \<Rightarrow> bool) \<Rightarrow> 'a result \<Rightarrow> bool" where
  "raises_only P m = (\<forall>e. m = Inl e \<longrightarrow> P e)"

named_theorems raises_intros \<open>what the composition of steps may raise\<close>

lemma raises_only_Inr [simp]: "raises_only P (Inr x)"
  by (simp add: raises_only_def)

lemma raises_only_Inl [simp]: "raises_only P (Inl e) \<longleftrightarrow> P e"
  by (simp add: raises_only_def)

lemma raises_only_bindE [raises_intros]:
  "raises_only P m \<Longrightarrow> (\<And>x. m = Inr x \<Longrightarrow> raises_only P (f x)) \<Longrightarrow> raises_only P (bindE m f)"
  by (cases m) simp_all

lemma raises_only_mapE [raises_intros]:
  "(\<And>x. x \<in> set xs \<Longrightarrow> raises_only P (f x)) \<Longrightarrow> raises_only P (mapE f xs)"
  by (induction xs) (auto intro!: raises_only_bindE)

lemma raises_only_unless [raises_intros]: "P e \<Longrightarrow> raises_only P (raise_unless c e)"
  by (simp add: raise_unless_def)

text \<open>The two kinds of refusal.\<close>

definition schema_refusal :: "exc \<Rightarrow> bool" where
  "schema_refusal e = (is_ValidationError e \<or> e = OtherError ''OverflowError'')"

lemma schema_refusal_simps [simp]:
  "schema_refusal (ValidationError m)" "schema_refusal (OtherError ''OverflowError'')"
  by (simp_all add: schema_refusal_def)

lemma clone_json_raises: "raises_only is_ValidationError (clone_json depth v)"
proof (induction depth v rule: depth_induct)
  case (step depth v)
  show ?case
    by (subst clone_json.simps)
       (auto simp: clone_string_def clone_key_def split: pyobj.splits pyfloat.splits option.splits
         intro!: raises_intros step.IH)
qed

lemma canonicalize_json_raises [raises_intros]: "raises_only schema_refusal (canonicalize_json v)"
  using clone_json_raises [of 0 v]
  by (simp add: canonicalize_json_def raises_only_def schema_refusal_def)

subsection \<open>The stages\<close>

lemma check_keywords_raises: "raises_only schema_refusal (check_keywords d)"
  by (simp add: check_keywords_def)

lemma normalize_type_raises: "raises_only schema_refusal (normalize_type d)"
  by (simp add: normalize_type_def split: option.split)

lemma normalize_const_raises: "raises_only schema_refusal (normalize_const d n)"
  by (auto simp: normalize_const_def intro!: raises_intros split: option.split)

lemma normalize_enum_raises: "raises_only schema_refusal (normalize_enum d n)"
  by (auto simp: normalize_enum_def intro!: raises_intros split: option.split)

lemma normalize_head_raises: "raises_only schema_refusal (normalize_head d)"
  unfolding normalize_head_def
  by (intro raises_only_bindE check_keywords_raises normalize_type_raises normalize_const_raises
      normalize_enum_raises)

lemma copy_size_raises: "raises_only schema_refusal (copy_size d k hard n)"
  by (auto simp: copy_size_def split: option.split pyobj.split)

lemma check_ordered_bounds_raises: "raises_only schema_refusal (check_ordered_bounds d lo hi label)"
  by (auto simp: check_ordered_bounds_def intro!: raises_intros split: option.split)

lemma copy_integer_bounds_raises: "raises_only schema_refusal (copy_integer_bounds d n lo hi hard)"
  unfolding copy_integer_bounds_def
  by (intro raises_only_bindE copy_size_raises check_ordered_bounds_raises) simp

lemma normalize_sizes_raises: "raises_only schema_refusal (normalize_sizes d n)"
  unfolding normalize_sizes_def
  by (intro raises_only_bindE copy_integer_bounds_raises) simp

lemma normalize_pattern_raises:
  "modelled_entries d \<Longrightarrow> raises_only schema_refusal (normalize_pattern d n)"
  by (auto simp: normalize_pattern_def split: option.splits pyobj.splits sum.splits refusal.splits
      dest: modelled_entries_dget)

lemma copy_number_raises: "raises_only schema_refusal (copy_number d k n)"
proof (cases "dget d k")
  case (Some b)
  have "raises_only schema_refusal (py_isfinite (PInt i))" for i by simp
  moreover have "raises_only schema_refusal (py_isfinite (PFloat f))" for f by (cases f) simp_all
  ultimately show ?thesis
    by (auto simp: copy_number_def Some intro!: raises_intros split: pyobj.splits)
qed (simp add: copy_number_def)

lemma normalize_numeric_raises: "raises_only schema_refusal (normalize_numeric d n)"
  unfolding normalize_numeric_def
  by (intro raises_only_bindE copy_number_raises)
     (auto intro!: raises_only_bindE check_ordered_bounds_raises)

lemma normalize_tail_raises:
  "modelled_entries d \<Longrightarrow> raises_only schema_refusal (normalize_tail d n)"
  unfolding normalize_tail_def
  by (intro raises_only_bindE normalize_sizes_raises normalize_pattern_raises normalize_numeric_raises)
     (simp_all add: check_constrained_def)

lemma normalize_required_raises: "raises_only schema_refusal (normalize_required names rs acc)"
  by (induction names rs acc rule: normalize_required.induct) (auto split: option.splits)

lemma check_property_name_raises: "raises_only schema_refusal (check_property_name ac al path k)"
  by (auto simp: check_property_name_def reject_transport_field_def intro!: raises_intros split: option.splits)

lemma one_of_stage_raises:
  assumes "\<And>b. b \<in> set (elements (dget d ''oneOf'')) \<Longrightarrow> raises_only schema_refusal (f b)"
  shows "raises_only schema_refusal (one_of_stage f d n)"
  using assms by (auto simp: one_of_stage_def one_of_branches_def elements_def intro!: raises_intros
      split: option.splits if_splits)

lemma object_stage_raises:
  assumes "\<And>p. p \<in> set (property_items d) \<Longrightarrow> raises_only schema_refusal (g p)"
  shows "raises_only schema_refusal (object_stage g rc d n)"
  using assms by (auto simp: object_stage_def object_parts_def property_items_def
      intro!: raises_intros normalize_required_raises split: option.splits if_splits)

lemma items_stage_raises:
  assumes "\<And>s. dget d ''items'' = Some s \<Longrightarrow> raises_only schema_refusal (h s)"
  shows "raises_only schema_refusal (items_stage h d n)"
  using assms by (auto simp: items_stage_def intro!: raises_intros split: option.splits)

text \<open>Only these two kinds come out of the normalisation.\<close>

lemma normalize_schema_raises_aux:
  "case x of (rc, path, s) \<Rightarrow>
     modelled_patterns s \<longrightarrow> raises_only schema_refusal (normalize_schema depth rc ac al path s)"
proof (induction depth x rule: depth_induct)
  case (step depth x)
  obtain rc path s where x: "x = (rc, path, s)" by (cases x)
  have "raises_only schema_refusal (normalize_schema depth rc ac al path s)" if s: "modelled_patterns s"
  proof (cases "as_mapping s")
    case None
    then show ?thesis by (subst normalize_schema.simps) simp
  next
    case (Some d)
    have d: "modelled_entries d" using modelled_mapping [OF s Some] .
    show ?thesis
    proof (cases "depth \<le> MAX_JSON_DEPTH")
      case False
      with Some show ?thesis by (subst normalize_schema.simps) simp
    next
      case True
      have IH: "raises_only schema_refusal (normalize_schema (depth + 1) False ac al path' t)"
        if "modelled_patterns t" for path' t
        using step.IH [OF True, of "(False, path', t)"] that by simp
      have property: "raises_only schema_refusal (normalize_property (depth + 1) ac al path (k, c))"
        if "modelled_patterns c" for k c
        unfolding normalize_property_def using that
        by (auto intro!: raises_intros check_property_name_raises IH)
      show ?thesis
        unfolding normalize_schema_stages [OF Some True]
        by (intro raises_only_bindE normalize_head_raises one_of_stage_raises object_stage_raises
            items_stage_raises normalize_tail_raises [OF d])
           (auto intro: IH property dest: modelled_nested [OF d])
    qed
  qed
  then show ?case by (simp add: x)
qed

lemma normalize_schema_raises:
  "modelled_patterns s \<Longrightarrow> raises_only schema_refusal (normalize_schema depth rc ac al path s)"
  using normalize_schema_raises_aux [where x = "(rc, path, s)"] by simp

end
