(* ===== verification/Conform.thy ===== *)
theory Conform
  imports Validate
begin

section \<open>Closed values\<close>

text \<open>
  What the closed schemas are for: at every level an accepted value has the members its schema
  requires and no others than it declares, and no member names a transport control outside the
  paths of the operation. \<open>conforms\<close> reads this off the schema as the operation states it, before
  normalisation and freezing, and follows the value into objects, arrays and the branches of \<open>oneOf\<close>.
\<close>

function conforms :: "int \<Rightarrow> string list list \<Rightarrow> string list \<Rightarrow> pyobj \<Rightarrow> pyobj \<Rightarrow> bool" where
  "conforms depth allowed path s v =
     (if MAX_JSON_DEPTH < depth then False
      else
        (let d = mapping_items s in
         (dhas d ''oneOf'' \<longrightarrow>
            list_ex (\<lambda>b. conforms (depth + 1) allowed path b v) (elements (dget d ''oneOf''))) \<and>
         (has_type d ''object'' \<longrightarrow>
            (case v of
               PDict members \<Rightarrow>
                 list_all (\<lambda>r. r \<in> set (map fst members)) (elements (dget d ''required'')) \<and>
                 list_all (\<lambda>(k, x). case as_str k of
                     None \<Rightarrow> False
                   | Some name \<Rightarrow>
                       property_name_wf False allowed path name \<and>
                       list_ex (\<lambda>(declared, c). declared = PStr name \<and>
                           conforms (depth + 1) allowed (path @ [name]) c x) (property_items d)) members
             | _ \<Rightarrow> False)) \<and>
         (has_type d ''array'' \<longrightarrow>
            (case v of
               PList xs \<Rightarrow>
                 list_all (\<lambda>x. list_all (\<lambda>item. conforms (depth + 1) allowed (path @ [''[]'']) item x)
                   (item_schemas d)) xs
             | _ \<Rightarrow> False))))"
  by pat_completeness auto
termination
  by (relation "measure (\<lambda>(depth, _). nat (17 - depth))") auto

declare conforms.simps [simp del]

subsection \<open>Accepted values conform\<close>

text \<open>The frozen normal form that \<open>validate_value\<close> reads.\<close>

definition frozen :: "items \<Rightarrow> items" where
  "frozen n = map (\<lambda>(k, v). (k, freeze_json v)) n"

lemma dget_frozen: "dget (frozen n) k = map_option freeze_json (dget n k)"
  by (simp add: frozen_def freeze_items)

lemma has_type_frozen [simp]: "has_type (frozen n) t = has_type n t"
  by (simp add: frozen_def)

lemma mapping_items_frozen [simp]: "mapping_items (freeze_json (PDict n)) = frozen n"
  by (simp add: frozen_def)

lemma frozen_one_of:
  "dhas d ''oneOf'' \<Longrightarrow>
   Option.bind (dget (frozen (normal_items d bs ps ss)) ''oneOf'') as_sequence = Some (map freeze_json bs)"
  by (simp add: dget_frozen normal_items_keywords)

lemma frozen_properties:
  "has_type d ''object'' \<Longrightarrow>
   dget (schema_properties (frozen (normal_items d bs ps ss))) k =
     map_option freeze_json (map_of (sort_items ps) k)"
  by (simp add: schema_properties_def dget_frozen normal_items_keywords obj_def freeze_items dget_items)

lemma frozen_items:
  "dhas d ''items'' \<Longrightarrow> dget (frozen (normal_items d bs ps ss)) ''items'' = Some (freeze_json (hd ss))"
  by (simp add: dget_frozen normal_items_keywords)

lemma frozen_required:
  assumes "has_type d ''object''" and "object_wf (has_type d ''object'') rc d"
    and names: "map fst (property_items d) = map PStr (map fst ps)"
  shows "schema_required (frozen (normal_items d bs ps ss)) = elements (dget d ''required'')"
proof -
  have req: "required_wf (map PStr (map fst ps)) (elements (dget d ''required''))"
    using assms by (simp add: closed_object_wf_def)
  have "map freeze_json (map PStr ks) = map PStr ks" for ks by simp
  then have "map freeze_json (elements (dget d ''required'')) = elements (dget d ''required'')"
    using normal_required [OF req] by metis
  then show ?thesis
    using assms(1) normal_required [OF req]
    by (simp add: schema_required_def dget_frozen normal_items_keywords o_def)
qed

text \<open>What the branch of each type established of an accepted value.\<close>

lemma map_of_PStr: "map_of d (PStr k) = dget d k"
  by (induction d) auto

lemma accepted_members:
  assumes "validate_typed f (PDict (items kvs)) schema = Inr w" and "has_type schema ''object''"
    and "sort_items kvs = kvs"
  shows "list_all (\<lambda>r. r \<in> set (map fst (items kvs))) (schema_required schema)"
    and "(k, x) \<in> set kvs \<Longrightarrow> \<exists>c y. dget (schema_properties schema) k = Some c \<and> f x c = Inr y"
proof -
  let ?ms = "map (\<lambda>(k, v). (k, v, the (dget (schema_properties schema) k))) kvs"
  obtain ws where pair: "pair_members (items kvs) (schema_properties schema) (schema_required schema) = Inr ?ms"
    and ws: "mapE (\<lambda>(k, v, s). bindE (f v s) (\<lambda>w. Inr (k, w))) ?ms = Inr ws"
    using assms by (auto simp: validate_typed_def object_members_def pair_members_Inr bindE_Inr_iff)
  show "list_all (\<lambda>r. r \<in> set (map fst (items kvs))) (schema_required schema)"
    using pair by (simp add: pair_members_Inr map_of_eq_None_iff)
  assume k: "(k, x) \<in> set kvs"
  then have "(PStr k, x) \<in> set (items kvs)" by (force simp: items_def)
  then have "map_of (schema_properties schema) (PStr k) \<noteq> None"
    using pair by (auto simp: pair_members_Inr list_all_iff)
  then obtain c where c: "dget (schema_properties schema) k = Some c"
    by (auto simp: map_of_PStr)
  have "(k, x, c) \<in> set ?ms" using k c by (force simp: image_iff)
  from mapE_in_set_arg [OF ws this] c show "\<exists>c y. dget (schema_properties schema) k = Some c \<and> f x c = Inr y"
    by (auto simp: bindE_Inr_iff)
qed

lemma accepted_elements:
  assumes "validate_typed f v schema = Inr w" and "has_type schema ''array''"
  shows "\<exists>xs item. v = PList xs \<and> dget schema ''items'' = Some item \<and> (\<forall>x \<in> set xs. \<exists>y. f x item = Inr y)"
proof -
  have "\<not> has_type schema ''object''" using assms(2) by (simp add: has_type_def)
  with assms show ?thesis
    by (auto simp: validate_typed_def bindE_Inr_iff split: pyobj.splits option.splits
        dest: mapE_in_set_arg)
qed

lemma conforms_aux:
  "case x of (rc, path, s, r, v) \<Rightarrow>
     canonical v \<longrightarrow> normalize_schema depth rc False al path s = Inr r \<longrightarrow>
     is_ok (validate_value depth v (freeze_json r)) \<longrightarrow> conforms depth al path s v"
proof (induction depth x rule: depth_induct)
  case (step depth x)
  obtain rc path s r v where x: "x = (rc, path, s, r, v)" by (metis prod_cases5)
  have "conforms depth al path s v"
    if v: "canonical v" and r: "normalize_schema depth rc False al path s = Inr r"
      and w: "validate_value depth v (freeze_json r) = Inr w" for w
  proof -
    from r obtain d where d: "as_mapping s = Some d"
      using not_mapping(1) [of s depth rc False al path] by (cases "as_mapping s") auto
    then have s: "mapping_items s = d" by (cases s) auto
    from r d obtain bs ps ss where depth: "depth \<le> MAX_JSON_DEPTH"
      and wf: "keywords_wf d" "object_wf (has_type d ''object'') rc d"
      and bs: "mapE (normalize_schema (depth + 1) False False al path) (elements (dget d ''oneOf'')) = Inr bs"
      and ps: "mapE (normalize_property (depth + 1) False al path) (property_items d) = Inr ps"
      and ss: "mapE (normalize_schema (depth + 1) False False al (path @ [''[]''])) (item_schemas d) = Inr ss"
      and rn: "r = PDict (normal_items d bs ps ss)"
      by (auto simp: normalize_schema_Inr)
    let ?n = "frozen (normal_items d bs ps ss)"
    have IH: "conforms (depth + 1) al path' t v'"
      if "canonical v'" "normalize_schema (depth + 1) False False al path' t = Inr t'"
        "validate_value (depth + 1) v' (freeze_json t') = Inr w'" for path' t t' v' w'
      using step.IH [OF depth, of "(False, path', t, t', v')"] that by simp
    from w obtain u where u: "(case Option.bind (dget ?n ''oneOf'') as_sequence of None \<Rightarrow> Inr v
         | Some bs \<Rightarrow> bindE (collect_matches (validate_value (depth + 1) v) bs) the_one_match) = Inr u"
      and typed: "validate_typed (validate_value (depth + 1)) u ?n = Inr w"
      unfolding rn by (auto simp: validate_value_step [of depth] bindE_Inr_iff
          simp del: freeze_json.simps split: if_splits)
    have uv: "u = v"
      using u by (auto simp: bindE_Inr_iff the_one_match_Inr split: option.splits
          dest!: collect_matches_in dest: validate_value_same [OF v])
    note typed = typed [unfolded uv]
    have one_of: "list_ex (\<lambda>b. conforms (depth + 1) al path b v) (elements (dget d ''oneOf''))"
      if "dhas d ''oneOf''"
    proof -
      from u frozen_one_of [OF that] obtain b where b: "b \<in> set bs"
        "validate_value (depth + 1) v (freeze_json b) = Inr u"
        by (auto simp: bindE_Inr_iff the_one_match_Inr dest!: collect_matches_in)
      from mapE_in_set [OF bs b(1)] b(2) IH [OF v] show ?thesis unfolding list_ex_iff by blast
    qed
    have names: "map fst (property_items d) = map PStr (map fst ps)"
      using ps unfolding normalize_property_def by (rule mapE_property_names)
    have object: "\<exists>kvs. v = PDict (items kvs) \<and>
        list_all (\<lambda>r. r \<in> set (map fst (items kvs))) (elements (dget d ''required'')) \<and>
        (\<forall>(k, x) \<in> set kvs. property_name_wf False al path k \<and>
           (\<exists>q \<in> set (property_items d). fst q = PStr k \<and> conforms (depth + 1) al (path @ [k]) (snd q) x))"
      if obj: "has_type d ''object''"
    proof -
      have o: "has_type ?n ''object''" using obj by simp
      from typed o obtain m where "v = PDict m" by (auto simp: validate_typed_def split: pyobj.splits)
      with v obtain kvs where kvs: "v = PDict (items kvs)" "sort_items kvs = kvs"
        "\<And>k x. (k, x) \<in> set kvs \<Longrightarrow> canonical x" by (metis canonical_dict)
      note members = accepted_members [OF typed [unfolded kvs(1)] o kvs(2)]
      have "property_name_wf False al path k \<and>
          (\<exists>q \<in> set (property_items d). fst q = PStr k \<and> conforms (depth + 1) al (path @ [k]) (snd q) x)"
        if kx: "(k, x) \<in> set kvs" for k x
      proof -
        from members(2) [OF kx] frozen_properties [OF obj] obtain c y
          where c: "map_of (sort_items ps) k = Some c" "validate_value (depth + 1) x (freeze_json c) = Inr y"
          by auto
        from c(1) have "(k, c) \<in> set ps" by (metis map_of_SomeD set_sort_items)
        from mapE_in_set [OF ps this] obtain c0 where "(PStr k, c0) \<in> set (property_items d)"
          "property_name_wf False al path k" "normalize_schema (depth + 1) False False al (path @ [k]) c0 = Inr c"
          by (auto simp: normalize_property_Inr)
        with IH [OF kvs(3) [OF kx]] c(2) show ?thesis by force
      qed
      then show ?thesis using kvs(1) members(1) frozen_required [OF obj wf(2) names] by auto
    qed
    have array: "\<exists>xs. v = PList xs \<and>
        list_all (\<lambda>x. list_all (\<lambda>i. conforms (depth + 1) al (path @ [''[]'']) i x) (item_schemas d)) xs"
      if "has_type d ''array''"
    proof -
      have "dhas d ''items''" using wf(1) that by (simp add: keywords_wf_def)
      then obtain i where i: "item_schemas d = [i]" by (auto simp: dhas_def item_schemas_def)
      with ss obtain i' where i': "ss = [i']" "normalize_schema (depth + 1) False False al (path @ [''[]'']) i = Inr i'"
        by (auto simp: bindE_Inr_iff)
      from accepted_elements [OF typed] that obtain xs where xs: "v = PList xs"
        "\<forall>x \<in> set xs. \<exists>y. validate_value (depth + 1) x (freeze_json i') = Inr y"
        using frozen_items [OF \<open>dhas d ''items''\<close>] i'(1) by auto
      with canonical_list v IH i'(2) show ?thesis by (fastforce simp: i list_all_iff)
    qed
    show ?thesis
      using depth one_of object array
      by (subst conforms.simps) (auto simp: s Let_def list_all_iff list_ex_iff items_def split_def)
  qed
  then show ?case by (auto simp: x is_ok_iff)
qed

lemma accepted_conforms:
  assumes "canonical v" and "normalize_schema depth rc False al path s = Inr r"
    and "validate_value depth v (freeze_json r) = Inr w"
  shows "conforms depth al path s v"
  using conforms_aux [where x = "(rc, path, s, r, v)"] assms by (auto simp: is_ok_iff)

lemma validate_input_conforms:
  assumes spec: "OperationSpec p m n e ep sc i = Inr s" and w: "validate_input s v = Inr w"
  shows "has_type (mapping_items i) ''object'' \<and> conforms 0 (operation_transport_field_paths p m n) [] i w"
proof -
  let ?al = "operation_transport_field_paths p m n"
  from spec obtain r where r: "normalize_schema 0 True False ?al [] i = Inr r"
    and s: "spec_input_schema s = freeze_json r"
    by (auto simp: OperationSpec_def bindE_Inr_iff split: if_splits)
  from w obtain c where "canonicalize_json v = Inr c" and c: "validate_value 0 c (freeze_json r) = Inr w"
    by (auto simp: validate_input_def bindE_Inr_iff s)
  then have "canonical c" by (blast dest: canonicalize_canonical)
  then have "w = c" "conforms 0 ?al [] i c"
    using validate_value_same [OF _ c] accepted_conforms [OF _ r c] by blast+
  moreover have "schema_wf 0 True False ?al [] i" using normalize_schema_ok(1) r by (metis is_ok.simps(1))
  then have "object_wf (has_type (mapping_items i) ''object'') True (mapping_items i)"
    by (simp add: schema_wf.simps [of 0])
  then have "has_type (mapping_items i) ''object''" by (cases "has_type (mapping_items i) ''object''") simp_all
  ultimately show ?thesis by simp
qed

end
