(* ===== verification/Edge_Inputs.thy ===== *)
theory Edge_Inputs
  imports Conform
begin

section \<open>Inputs at the edge of their schema\<close>

text \<open>
  Two consequences of how the standard library reads a schema: a pattern that closes with \<open>$\<close> admits
  one more newline at the end of a string, and an integer beyond the floats makes the check of the
  type \<open>number\<close> raise \<open>OverflowError\<close>.
\<close>

subsection \<open>Patterns that close with a dollar\<close>

text \<open>Whether matching the expression never depends on the text behind the match.\<close>

fun ignores_rest :: "rx \<Rightarrow> bool" where
  "ignores_rest (RSeq a b) = (ignores_rest a \<and> ignores_rest b)"
| "ignores_rest (RAlt a b) = (ignores_rest a \<and> ignores_rest b)"
| "ignores_rest (RRep a lo hi) = ignores_rest a"
| "ignores_rest REnd = False"
| "ignores_rest RStop = False"
| "ignores_rest _ = True"

fun closes_with_dollar :: "rx \<Rightarrow> bool" where
  "closes_with_dollar REnd = True"
| "closes_with_dollar (RSeq a b) = (ignores_rest a \<and> closes_with_dollar b \<or> closes_with_dollar a \<and> b = REps)"
| "closes_with_dollar _ = False"

lemma step_set_closed:
  assumes "\<And>x y. P x \<Longrightarrow> y \<in> set (f x) \<Longrightarrow> P y"
  shows "(\<forall>x \<in> S. P x) \<Longrightarrow> y \<in> step_set f k S \<Longrightarrow> P y"
proof (induction k arbitrary: S)
  case (Suc k)
  have "\<forall>x \<in> (\<Union>p \<in> S. set (f p)). P x" using Suc.prems(1) assms by blast
  from Suc.IH [OF this] Suc.prems(2) show ?case by simp
qed simp

lemma ends_suffix: "q \<in> set (ends r p) \<Longrightarrow> \<exists>u. snd p = u @ snd q"
proof (induction r arbitrary: p q)
  case (RSet neg rs)
  then show ?case by (cases p) (auto split: list.splits if_splits)
next
  case (RSeq a b)
  then obtain m where "m \<in> set (ends a p)" "q \<in> set (ends b m)" by auto
  with RSeq.IH obtain u u' where "snd p = u @ snd m" "snd m = u' @ snd q" by blast
  then show ?case by simp
next
  case (RRep a lo hi)
  define P where "P x = (\<exists>u. snd p = u @ snd x)" for x :: pos
  have step: "P y" if "P x" "y \<in> set (ends a x)" for x y
  proof -
    from that obtain u u' where "snd p = u @ snd x" "snd x = u' @ snd y"
      unfolding P_def using RRep.IH by blast
    then have "snd p = (u @ u') @ snd y" by simp
    then show ?thesis unfolding P_def by blast
  qed
  from RRep.prems obtain k where k: "q \<in> step_set (ends a) k (step_set (ends a) (nat lo) {p})"
    by (auto simp: set_rep_upto set_rep_exact)
  have reach: "P y" if "\<forall>x \<in> S. P x" "y \<in> step_set (ends a) j S" for S y j
    by (rule step_set_closed [where f = "ends a", OF _ that]) (erule (1) step)
  have "\<forall>x \<in> {p}. P x" by (simp add: P_def)
  then have "\<forall>x \<in> step_set (ends a) (nat lo) {p}. P x" using reach by blast
  then have "P q" using reach k by blast
  then show ?case by (simp add: P_def)
next
  case RBegin
  then show ?case by (cases p) (auto split: if_splits)
next
  case REnd
  then show ?case by (cases p) (auto split: if_splits)
next
  case RStop
  then show ?case by (cases p) (auto split: if_splits)
qed auto

text \<open>A position with more text behind it.\<close>

definition extended :: "int list \<Rightarrow> pos \<Rightarrow> pos" where
  "extended s p = (fst p, snd p @ s)"

lemma step_set_extended:
  assumes "\<And>p q. q \<in> set (f p) \<Longrightarrow> g q \<in> set (f (g p))" and "g ` S \<subseteq> S'"
  shows "g ` step_set f k S \<subseteq> step_set f k S'"
  using assms(2)
proof (induction k arbitrary: S S')
  case (Suc k)
  have "g ` (\<Union>p \<in> S. set (f p)) \<subseteq> (\<Union>p \<in> S'. set (f p))" using assms(1) Suc.prems by blast
  then show ?case using Suc.IH by simp
qed simp

lemma ends_extended:
  "ignores_rest r \<Longrightarrow> q \<in> set (ends r p) \<Longrightarrow> extended s q \<in> set (ends r (extended s p))"
proof (induction r arbitrary: p q)
  case (RSet neg rs)
  then show ?case by (cases p) (auto simp: extended_def split: list.splits if_splits)
next
  case (RSeq a b)
  from RSeq.prems(2) obtain m where "m \<in> set (ends a p)" "q \<in> set (ends b m)" by auto
  with RSeq show ?case by fastforce
next
  case (RAlt a b)
  then show ?case by fastforce
next
  case (RRep a lo hi)
  let ?n = "\<lambda>p. case hi of None \<Rightarrow> length (snd p) | Some h \<Rightarrow> nat (h - lo)"
  have step: "extended s y \<in> set (ends a (extended s x))" if "y \<in> set (ends a x)" for x y
    using RRep.IH [OF _ that] RRep.prems(1) by simp
  from RRep.prems(2) obtain k where k: "k \<le> ?n p" "q \<in> step_set (ends a) k (step_set (ends a) (nat lo) {p})"
    by (auto simp: set_rep_upto set_rep_exact)
  have "extended s ` step_set (ends a) (nat lo) {p} \<subseteq> step_set (ends a) (nat lo) {extended s p}"
    by (rule step_set_extended) (use step in auto)
  then have "extended s ` step_set (ends a) k (step_set (ends a) (nat lo) {p})
      \<subseteq> step_set (ends a) k (step_set (ends a) (nat lo) {extended s p})"
    by (rule step_set_extended [rotated]) (use step in auto)
  moreover have "k \<le> ?n (extended s p)" using k(1) by (cases hi) (simp_all add: extended_def)
  ultimately show ?case using k(2) by (auto simp: set_rep_upto set_rep_exact)
next
  case RBegin
  then show ?case by (cases p) (auto simp: extended_def split: if_splits)
qed (auto simp: extended_def)

lemma dollar_ends:
  assumes "closes_with_dollar r" and "q \<in> set (ends r p)"
  shows "snd q = [] \<or> snd q = [10]"
    and "snd q = [] \<Longrightarrow> extended [10] q \<in> set (ends r (extended [10] p))"
proof -
  have "(snd q = [] \<or> snd q = [10]) \<and> (snd q = [] \<longrightarrow> extended [10] q \<in> set (ends r (extended [10] p)))"
    using assms
  proof (induction r arbitrary: p q rule: closes_with_dollar.induct)
    case 1
    then show ?case by (cases p) (auto simp: extended_def split: if_splits)
  next
    case (2 a b)
    show ?case
    proof (cases "ignores_rest a \<and> closes_with_dollar b")
      case True
      from 2(4) obtain m where m: "m \<in> set (ends a p)" "q \<in> set (ends b m)" by auto
      moreover have "extended [10] m \<in> set (ends a (extended [10] p))"
        using True m(1) by (blast intro: ends_extended)
      moreover note 2(1) [OF _ m(2)]
      ultimately show ?thesis using True by auto
    next
      case False
      with 2 show ?thesis by auto
    qed
  qed simp_all
  then show "snd q = [] \<or> snd q = [10]"
    and "snd q = [] \<Longrightarrow> extended [10] q \<in> set (ends r (extended [10] p))" by simp_all
qed

lemma dollar_search:
  assumes "closes_with_dollar r" and "search_from r st t" and "t = [] \<or> last t \<noteq> 10"
  shows "search_from r st (t @ [10])"
  using assms(2,3)
proof (induction t arbitrary: st)
  case Nil
  then obtain q where q: "q \<in> set (ends r (st, []))"
    by (metis list.case(1) list.set_sel(1) search_from.simps)
  then have "snd q = []" using ends_suffix [OF q] by simp
  then have "extended [10] q \<in> set (ends r (st, [10]))"
    using dollar_ends(2) [OF assms(1) q] by (simp add: extended_def)
  then show ?case by (subst search_from.simps) auto
next
  case (Cons c t)
  show ?case
  proof (cases "ends r (st, c # t) = []")
    case True
    then have "search_from r False t" using Cons.prems(1) by (simp add: search_from.simps [of r st "c # t"])
    moreover have "t = [] \<or> last t \<noteq> 10" using Cons.prems(2) by auto
    ultimately have "search_from r False (t @ [10])" by (rule Cons.IH)
    then show ?thesis by (subst search_from.simps) simp
  next
    case False
    then obtain q where q: "q \<in> set (ends r (st, c # t))" by (metis list.set_sel(1))
    have "snd q \<noteq> [10]" using ends_suffix [OF q] Cons.prems(2) by (metis last_snoc list.distinct(1) snd_conv)
    then have "snd q = []" using dollar_ends(1) [OF assms(1) q] by simp
    then have "extended [10] q \<in> set (ends r (st, (c # t) @ [10]))"
      using dollar_ends(2) [OF assms(1) q] by (simp add: extended_def)
    then show ?thesis by (subst search_from.simps) auto
  qed
qed

subsection \<open>One more newline\<close>

lemma py_len_append: "py_len (s @ t) = py_len s + py_len t"
  by (simp add: py_len_def)

lemma codepoints_newline: "valid_utf8 x \<Longrightarrow> codepoints (x @ [CHR 0x0A]) = codepoints x @ [10]"
  using utf8_decode_ascii [of "[CHR 0x0A]"]
  by (auto simp: codepoints_def valid_utf8_def utf8_decode_append ascii_def)

lemma clone_newline:
  assumes "clone_string x = Inr (PStr x)" and "py_len x < MAX_STRING_LENGTH"
  shows "clone_string (x @ [CHR 0x0A]) = Inr (PStr (x @ [CHR 0x0A]))" and "valid_utf8 x"
proof -
  show "valid_utf8 x" using assms(1) by (simp add: clone_string_def split: if_splits)
  then have "valid_utf8 (x @ [CHR 0x0A])" by (simp add: valid_utf8_append valid_utf8_ascii ascii_def)
  then show "clone_string (x @ [CHR 0x0A]) = Inr (PStr (x @ [CHR 0x0A]))"
    using assms by (auto simp: clone_string_def has_nul_def py_len_append py_len_def utf8_cont_def
        split: if_splits)
qed

text \<open>A schema of one type, without \<open>const\<close>, \<open>enum\<close> and \<open>oneOf\<close>, decides by that type alone.\<close>

definition plain_type :: "items \<Rightarrow> string \<Rightarrow> bool" where
  "plain_type d t = (has_type d t \<and> \<not> dhas d ''const'' \<and> \<not> dhas d ''enum'' \<and> \<not> dhas d ''oneOf'')"

lemma plain_type_normal:
  "plain_type d t \<Longrightarrow> plain_type (normal_items d bs ps ss) t"
  by (simp add: plain_type_def)

lemma has_type_dget: "has_type d t \<Longrightarrow> dget d ''type'' = Some (PStr t)"
  by (auto simp: has_type_def schema_type_def split: option.splits pyobj.splits)

lemma validate_plain:
  assumes "plain_type n t"
  shows "validate_value 0 v (PDict n) =
    bindE (bindE (matches_type v t) (\<lambda>ok. raise_unless ok (ValidationError ''JSON value has the wrong type'')))
      (\<lambda>_. validate_typed (validate_value 1) v n)"
  using assms has_type_dget [of n t]
  by (subst validate_value_step) (simp add: plain_type_def dhas_def validate_constants_def)

lemma validate_plain_string:
  assumes "plain_type n ''string''"
  shows "validate_value 0 (PStr x) (PDict n) = validate_string x n"
  using assms by (simp add: validate_plain validate_typed_def) (simp add: plain_type_def has_type_def)

lemma normalize_plain:
  assumes "normalize_schema 0 rc ac al path s = Inr r" and "plain_type (mapping_items s) t"
  shows "\<exists>n. r = PDict n \<and> plain_type n t \<and> (\<forall>k \<in> set tail_keywords. dget n k = dget (mapping_items s) k)"
proof -
  from assms(1) obtain d where d: "as_mapping s = Some d"
    using not_mapping(1) [of s 0 rc ac al path] by (cases "as_mapping s") auto
  then have "mapping_items s = d" by (cases s) auto
  with assms d show ?thesis
    by (auto simp: normalize_schema_Inr plain_type_normal normal_items_keywords(9))
qed

lemma string_newline:
  assumes ok: "validate_json (PStr x) s al = Inr (PStr x)"
    and d: "plain_type (mapping_items s) ''string''" "dget (mapping_items s) ''pattern'' = Some (PStr p)"
    and r: "re_compile p = Inr r" "closes_with_dollar r"
    and room: "py_len x < MAX_STRING_LENGTH"
      "\<And>m. dget (mapping_items s) ''maxLength'' = Some (PInt m) \<Longrightarrow> py_len x < m"
    and last: "codepoints x = [] \<or> last (codepoints x) \<noteq> 10"
  shows "validate_json (PStr (x @ [CHR 0x0A])) s al = Inr (PStr (x @ [CHR 0x0A]))"
proof -
  from ok obtain nr c where nr: "normalize_schema 0 False True al [] s = Inr nr"
    and c: "canonicalize_json (PStr x) = Inr c" "validate_value 0 c nr = Inr (PStr x)"
    by (auto simp: validate_json_def bindE_Inr_iff)
  from normalize_plain [OF nr d(1)] obtain n where n: "nr = PDict n" "plain_type n ''string''"
    "\<And>k. k \<in> set tail_keywords \<Longrightarrow> dget n k = dget (mapping_items s) k" by blast
  have x: "clone_string x = Inr (PStr x)" "c = PStr x"
    using c(1) clone_string_Inr [of x c] by (auto simp: canonicalize_json_def clone_json.simps [of 0])
  note newline = clone_newline [OF x(1) room(1)]
  have keys: "dget n ''pattern'' = Some (PStr p)" "dget n ''maxLength'' = dget (mapping_items s) ''maxLength''"
    "dget n ''minLength'' = dget (mapping_items s) ''minLength''"
    using n(3) d(2) by (simp_all add: tail_keywords_def)
  have accepted: "validate_string x n = Inr (PStr x)"
    using c(2) n(1,2) x(2) by (simp add: validate_plain_string)
  have longer: "py_len (x @ [CHR 0x0A]) = py_len x + 1"
    by (simp add: py_len_append) (simp add: py_len_def utf8_cont_def)
  have search: "search_from r True (codepoints x)"
    using accepted keys(1) r(1)
    by (auto simp: validate_string_def re_search_def rx_search_def bindE_Inr_iff split: if_splits)
  have "re_search p (x @ [CHR 0x0A])"
    using dollar_search [OF r(2) search last] r(1)
    by (simp add: re_search_def rx_search_def codepoints_newline newline(2))
  moreover have "validate_length (py_len x + 1) n ''minLength'' ''maxLength'' ''string'' = Inr ()"
    using accepted room(2) keys(2)
    by (auto simp: validate_string_def validate_length_def bindE_Inr_iff split: if_splits option.splits pyobj.splits)
  ultimately have "validate_string (x @ [CHR 0x0A]) n = Inr (PStr (x @ [CHR 0x0A]))"
    by (simp add: validate_string_def longer keys(1))
  then show ?thesis
    using newline(1) nr n by (simp add: validate_json_def canonicalize_json_def clone_json.simps [of 0]
        validate_plain_string)
qed

subsection \<open>Integers beyond the floats\<close>

lemma number_overflows:
  assumes "normalize_schema 0 False True al [] s = Inr r"
    and "plain_type (mapping_items s) ''number''" and "float_overflows i"
  shows "validate_json (PInt i) s al = Inl (OtherError ''OverflowError'')"
    and "canonicalize_json (PInt i) = Inr (PInt i)"
proof -
  show c: "canonicalize_json (PInt i) = Inr (PInt i)"
    by (simp add: canonicalize_json_def clone_json.simps [of 0])
  from normalize_plain [OF assms(1,2)] obtain n where "r = PDict n" "plain_type n ''number''" by blast
  with c assms(1,3) show "validate_json (PInt i) s al = Inl (OtherError ''OverflowError'')"
    by (simp add: validate_json_def validate_plain)
qed

end
