(* ===== verification/Contract_Claims.thy ===== *)
theory Contract_Claims
  imports Catalog Schema_Errors Edge_Inputs
begin

section \<open>What the contract and the catalogue guarantee\<close>

text \<open>
  The properties of the schema language and of the operation catalogue, each with a witness
  where it has hypotheses.
\<close>

subsection \<open>The catalogue\<close>

text \<open>
  C1: importing the operation catalogue cannot fail. All 218 operation rows of the three provider
  modules pass \<open>OperationSpec\<close> (names, effect, scopes, closed schema without transport fields),
  no two operations share a key, and the catalogue is built from exactly these operations.
\<close>

theorem catalogue_builds:
  "\<exists>ops catalog. ALL_CONNECTOR_OPERATIONS = Inr ops \<and> length ops = 218 \<and>
     distinct (map spec_key ops) \<and> OPERATION_CATALOG = Inr catalog \<and> cat_operations catalog = ops"
proof -
  obtain ops c where ops: "ALL_CONNECTOR_OPERATIONS = Inr ops" "OPERATION_CATALOG = Inr c"
    "cat_operations c = ops" and keys: "map spec_key ops = map row_key operation_rows"
    by (rule catalogue_built)
  have "length ops = length operation_rows"
    using arg_cong [OF keys, of length] by (simp only: length_map)
  then have "length ops = 218" by (simp add: operation_rows_length)
  moreover have "distinct (map spec_key ops)" by (simp add: keys operation_rows_distinct)
  ultimately show ?thesis using ops by blast
qed

text \<open>
  C21: the connector profile always defines its fourteen tools: every provider and mode has
  operations, so no \<open>tool_input_schema\<close> raises, the names are distinct and exactly the bound
  ones, and a tool is hinted read-only exactly when it is not hinted destructive.
\<close>
theorem tool_definitions_build:
  "\<exists>tools. connector_tool_definitions = Inr tools \<and> length tools = 14 \<and>
     distinct (map tool_name tools) \<and> set (map tool_name tools) = CONNECTOR_TOOL_NAMES \<and>
     list_all (\<lambda>t. tool_read_only_hint t \<longleftrightarrow> \<not> tool_destructive_hint t) tools"
proof -
  obtain ops c where ops: "ALL_CONNECTOR_OPERATIONS = Inr ops" and c: "OPERATION_CATALOG = Inr c"
    "cat_operations c = ops"
    by (rule catalogue_built)
  have tool: "\<exists>sch. tool_definition_of c (name, p, m) = Inr
      \<lparr>tool_destructive_hint = (m \<noteq> READ), tool_idempotent_hint = (m = READ),
          tool_open_world_hint = True, tool_read_only_hint = (m = READ),
          tool_text = tool_description p m, tool_schema = sch, tool_name = name\<rparr>"
    if b: "(name, p, m) \<in> set CONNECTOR_TOOL_BINDINGS" for name p m
  proof -
    from binding_rows b obtain r where r: "r \<in> set operation_rows" "row_tag r = (p, m)"
      by (fastforce simp: list_all_iff list_ex_iff)
    then have "row_key r \<in> set (map spec_key ops)" by (simp add: all_operations_keys [OF ops])
    then obtain s where s: "s \<in> set ops" "spec_key s = row_key r" by auto
    then have sp: "spec_provider s = p" "spec_mode s = m"
      using r(2) unfolding row_tag_fst s(2) [symmetric] by (simp_all add: spec_key_def)
    from catalogue_member [OF c(1), of s] s c obtain n where "operation_name_ok (spec_provider s)"
      by (auto simp: spec_key_def)
    then have "operation_name p ''provider'' = Inr p"
      by (auto simp: sp operation_name_ok_def operation_name_def split: if_splits)
    moreover have "filter (\<lambda>s. p = spec_provider s \<and> m = spec_mode s) ops \<noteq> []"
      using s(1) sp by (auto simp: filter_empty_conv)
    ultimately show ?thesis
      by (auto simp: tool_definition_of_def tool_input_schema_def list_operations_def c(2))
  qed
  obtain tools where tools: "mapE (tool_definition_of c) CONNECTOR_TOOL_BINDINGS = Inr tools"
  proof -
    have "is_ok (tool_definition_of c b)" if "b \<in> set CONNECTOR_TOOL_BINDINGS" for b
    proof -
      obtain name p m where "b = (name, p, m)" by (metis prod_cases3)
      with tool that show ?thesis unfolding is_ok_iff by blast
    qed
    then have "list_all (\<lambda>b. is_ok (tool_definition_of c b)) CONNECTOR_TOOL_BINDINGS"
      by (simp add: list_all_iff)
    then show thesis using that by (auto simp: list_all_is_ok)
  qed
  then have rel: "list_all2 (\<lambda>b t. tool_definition_of c b = Inr t) CONNECTOR_TOOL_BINDINGS tools"
    by (simp add: mapE_Inr_iff)
  then have names: "map tool_name tools = map fst CONNECTOR_TOOL_BINDINGS"
    by (induction rule: list_all2_induct) (auto dest: tool_definition_of_Inr)
  have "list_all (\<lambda>t. tool_read_only_hint t \<longleftrightarrow> \<not> tool_destructive_hint t) tools"
    using rel by (induction rule: list_all2_induct) (auto dest: tool_definition_of_Inr)
  moreover have "length tools = 14" "distinct (map fst CONNECTOR_TOOL_BINDINGS)"
    using arg_cong [OF names, of length] by (simp_all add: CONNECTOR_TOOL_BINDINGS_def TOOL_STEMS_def)
  moreover have "connector_tool_definitions = Inr tools"
    by (simp add: connector_tool_definitions_def c(1) tools)
  moreover have "distinct (map tool_name tools)" "set (map tool_name tools) = CONNECTOR_TOOL_NAMES"
    using \<open>distinct (map fst CONNECTOR_TOOL_BINDINGS)\<close> by (simp_all only: names CONNECTOR_TOOL_NAMES_def)
  ultimately show ?thesis by blast
qed

text \<open>
  C22: \<open>lookup\<close> on a catalogue returns exactly its members: it returns \<open>s\<close> for a key if and only if
  both names are well formed and \<open>s\<close> is an operation of the catalogue with that key.
\<close>

theorem catalog_lookup_exact:
  assumes "OperationCatalog ops = Inr c"
  shows "catalog_lookup c p m n = Inr s \<longleftrightarrow>
    is_ok (operation_name p ''provider'') \<and> is_ok (operation_name n ''operation'') \<and>
    s \<in> set ops \<and> spec_key s = (p, m, n)"
  using catalog_lookup_Inr [OF assms] by (simp add: operation_name_label)

text \<open>
  C23: in the shipped catalogue an operation is a read if and only if its effect is a read, so
  no write escapes the confirmation of its effect and no read asks for one.
\<close>

theorem catalogue_modes_match_effects:
  assumes "OPERATION_CATALOG = Inr c" and "s \<in> set (cat_operations c)"
  shows "spec_mode s = READ \<longleftrightarrow> spec_effect s = E_READ"
  using catalogue_member [OF assms] by (auto simp: spec_key_def)

theorem catalogue_modes_match_effects_witness:
  "\<exists>c s. OPERATION_CATALOG = Inr c \<and> s \<in> set (cat_operations c) \<and>
     (spec_mode s = READ \<longleftrightarrow> spec_effect s = E_READ)"
proof -
  obtain ops c where c: "OPERATION_CATALOG = Inr c" "cat_operations c = ops"
    and keys: "map spec_key ops = map row_key operation_rows"
    by (rule catalogue_built)
  have "ops \<noteq> []" using arg_cong [OF keys, of length] operation_rows_length by auto
  then obtain s where "s \<in> set (cat_operations c)" using c by (cases ops) auto
  with c catalogue_modes_match_effects [OF c(1)] show ?thesis by blast
qed

subsection \<open>Canonical values\<close>

text \<open>
  C19: a canonical value is a fixed point: canonicalising what \<open>canonicalize_json\<close> returned
  succeeds and returns the same value.
\<close>

theorem canonicalize_json_idempotent:
  "canonicalize_json v = Inr w \<Longrightarrow> canonicalize_json w = Inr w"
  by (rule canonicalize_json_idem)

definition sample_value :: pyobj where
  "sample_value = obj [(''b'', PList [PInt 1, PNone]), (''a'', PProxy [(PStr ''x'', PBool True)])]"

lemma sample_canonical:
  "canonicalize_json sample_value =
     Inr (obj [(''a'', obj [(''x'', PBool True)]), (''b'', PList [PInt 1, PNone])])"
  by code_simp

theorem canonicalize_json_idempotent_witness:
  "canonicalize_json (obj [(''a'', obj [(''x'', PBool True)]), (''b'', PList [PInt 1, PNone])]) =
     Inr (obj [(''a'', obj [(''x'', PBool True)]), (''b'', PList [PInt 1, PNone])])"
  by (rule canonicalize_json_idempotent [OF sample_canonical])

text \<open>
  C20: the canonical form of an object does not depend on the order in which its members were
  inserted.
\<close>

theorem canonicalize_json_order:
  assumes "canonicalize_json (PDict d) = Inr w" and "mset d' = mset d" and "distinct (map fst d)"
  shows "canonicalize_json (PDict d') = Inr w"
  using assms unfolding canonicalize_json_def by (rule clone_json_order)

theorem canonicalize_json_order_witness:
  "canonicalize_json (obj [(''a'', PInt 1), (''b'', PInt 2)]) =
     Inr (obj [(''a'', PInt 1), (''b'', PInt 2)])"
proof -
  have "canonicalize_json (PDict [(PStr ''b'', PInt 2), (PStr ''a'', PInt 1)]) =
      Inr (obj [(''a'', PInt 1), (''b'', PInt 2)])"
    by code_simp
  then have "canonicalize_json (PDict [(PStr ''a'', PInt 1), (PStr ''b'', PInt 2)]) =
      Inr (obj [(''a'', PInt 1), (''b'', PInt 2)])"
    by (rule canonicalize_json_order) (simp_all add: add_mset_commute)
  then show ?thesis by (simp add: obj_def)
qed

subsection \<open>Schemas\<close>

text \<open>
  C2: a schema whose patterns the model reads is accepted by the normalisation if and only if it is
  well formed: every keyword is known, bounds are in range and ordered, patterns compile, objects
  are closed and require only declared fields, no undeclared transport field occurs, and no level is
  too deep. A refusal is a \<open>ValidationError\<close>, or the \<open>OverflowError\<close> of a repetition number or of a
  numeric bound that is too large, and nothing else.
\<close>

theorem normalize_schema_accepts:
  assumes "modelled_patterns s"
  shows "case normalize_schema depth rc ac al path s of
      Inr r \<Rightarrow> schema_wf depth rc ac al path s
    | Inl e \<Rightarrow> \<not> schema_wf depth rc ac al path s \<and> schema_refusal e"
  using normalize_schema_ok(1) [of depth rc ac al path s] normalize_schema_raises [OF assms, of depth rc ac al path]
  by (cases "normalize_schema depth rc ac al path s") simp_all

definition pattern_schema :: "string \<Rightarrow> pyobj" where
  "pattern_schema p = obj [(''pattern'', PStr p), (''type'', PStr ''string'')]"

lemma pattern_schema_outcomes:
  "is_ok (normalize_schema 0 False False [] [] (pattern_schema ''^[A-Z]{2,4}$''))"
  "normalize_schema 0 False False [] [] (pattern_schema ''^*'') =
     Inl (ValidationError ''JSON schema pattern is invalid'')"
  "normalize_schema 0 False False [] [] (pattern_schema ''a{5000000000}'') = Inl (OtherError ''OverflowError'')"
  "modelled_patterns (pattern_schema ''^[A-Z]{2,4}$'')" "modelled_patterns (pattern_schema ''^*'')"
  "modelled_patterns (pattern_schema ''a{5000000000}'')"
  by code_simp+

theorem normalize_schema_accepts_witness:
  "schema_wf 0 False False [] [] (pattern_schema ''^[A-Z]{2,4}$'') \<and>
   \<not> schema_wf 0 False False [] [] (pattern_schema ''^*'') \<and>
   \<not> schema_wf 0 False False [] [] (pattern_schema ''a{5000000000}'')"
  using normalize_schema_accepts [of _ 0 False False "[]" "[]", OF pattern_schema_outcomes(4)]
    normalize_schema_accepts [of _ 0 False False "[]" "[]", OF pattern_schema_outcomes(5)]
    normalize_schema_accepts [of _ 0 False False "[]" "[]", OF pattern_schema_outcomes(6)]
    pattern_schema_outcomes(1-3)
  by (auto split: sum.splits)

text \<open>
  C18: a normalised schema is a fixed point of the normalisation with the same options.
\<close>

theorem normalize_schema_idempotent:
  "normalize_schema depth rc ac al path s = Inr r \<Longrightarrow> normalize_schema depth rc ac al path r = Inr r"
  by (rule normalize_schema_idem)

definition sample_schema :: pyobj where
  "sample_schema = obj
     [(''type'', PStr ''object''), (''required'', PList [PStr ''name'']),
      (''properties'', obj
         [(''name'', obj [(''maxLength'', PInt 8), (''type'', PStr ''string'')]),
          (''limit'', obj [(''minimum'', PInt 1), (''type'', PStr ''integer'')])]),
      (''additionalProperties'', PBool False)]"

definition sample_normal :: pyobj where
  "sample_normal = obj
     [(''type'', PStr ''object''), (''additionalProperties'', PBool False),
      (''properties'', obj
         [(''limit'', obj [(''type'', PStr ''integer''), (''minimum'', PInt 1)]),
          (''name'', obj [(''type'', PStr ''string''), (''maxLength'', PInt 8)])]),
      (''required'', PList [PStr ''name''])]"

lemma sample_normalizes: "normalize_schema 0 True False [] [] sample_schema = Inr sample_normal"
  by code_simp

theorem normalize_schema_idempotent_witness:
  "normalize_schema 0 True False [] [] sample_normal = Inr sample_normal"
  by (rule normalize_schema_idempotent [OF sample_normalizes])

subsection \<open>Inputs\<close>

text \<open>
  C17: validation never alters an input: what \<open>validate_input\<close> returns is the canonical form of
  what it was given.
\<close>

theorem validate_input_returns_canonical:
  "validate_input spec v = Inr w \<Longrightarrow> canonicalize_json v = Inr w"
  by (rule validate_input_canonical)

definition sample_spec :: operation_spec where
  "sample_spec = \<lparr>spec_provider = ''slack'', spec_mode = READ, spec_name = ''users.find'',
     spec_effect = E_READ, spec_endpoint = ''users.find'', spec_required_scopes = [{''users:read''}],
     spec_input_schema = freeze_json sample_normal\<rparr>"

lemma sample_spec_built:
  "OperationSpec ''slack'' READ ''users.find'' E_READ ''users.find'' [[''users:read'']] sample_schema
     = Inr sample_spec"
  by code_simp

lemma sample_input_accepted:
  "validate_input sample_spec (PDict [(PStr ''name'', PStr ''ada''), (PStr ''limit'', PInt 3)]) =
     Inr (obj [(''limit'', PInt 3), (''name'', PStr ''ada'')])"
  by code_simp

theorem validate_input_returns_canonical_witness:
  "canonicalize_json (PDict [(PStr ''name'', PStr ''ada''), (PStr ''limit'', PInt 3)]) =
     Inr (obj [(''limit'', PInt 3), (''name'', PStr ''ada'')])"
  by (rule validate_input_returns_canonical [OF sample_input_accepted])

text \<open>
  C3: an accepted input of a constructed operation is an object, and it conforms to the schema the
  operation was given at every level: each object has every required field and no other than the
  declared ones, inside arrays and in a branch of each \<open>oneOf\<close> too, and no field at any depth names a
  transport control unless the operation's own list holds exactly the path to it.
\<close>

theorem validate_input_closed:
  assumes "OperationSpec p m n e ep sc i = Inr s" and "validate_input s v = Inr w"
  shows "has_type (mapping_items i) ''object'' \<and> conforms 0 (operation_transport_field_paths p m n) [] i w"
  using assms by (rule validate_input_conforms)

definition event_schema :: pyobj where
  "event_schema = obj
     [(''type'', PStr ''object''), (''required'', PList [PStr ''summary'']),
      (''properties'', obj
         [(''summary'', obj [(''type'', PStr ''string'')]),
          (''attachments'', obj
             [(''type'', PStr ''array''),
              (''items'', obj
                 [(''type'', PStr ''object''), (''required'', PList [PStr ''file_url'']),
                  (''properties'', obj [(''file_url'', obj [(''type'', PStr ''string'')])]),
                  (''additionalProperties'', PBool False)])])]),
      (''additionalProperties'', PBool False)]"

definition event_spec :: operation_spec where
  "event_spec = projr (OperationSpec ''google_calendar'' WRITE ''events.create'' SAFE_MUTATION ''events''
     [[''calendar.events'']] event_schema)"

definition event_input :: pyobj where
  "event_input = obj
     [(''attachments'', PList [obj [(''file_url'', PStr ''https://drive'')]]), (''summary'', PStr ''standup'')]"

lemma event_built:
  "OperationSpec ''google_calendar'' WRITE ''events.create'' SAFE_MUTATION ''events''
     [[''calendar.events'']] event_schema = Inr event_spec"
proof -
  have "is_ok (OperationSpec ''google_calendar'' WRITE ''events.create'' SAFE_MUTATION ''events''
     [[''calendar.events'']] event_schema)" by code_simp
  then show ?thesis unfolding event_spec_def by (auto simp: is_ok_iff)
qed

lemma event_accepted: "validate_input event_spec event_input = Inr event_input"
  by code_simp

theorem validate_input_closed_witness:
  "has_type (mapping_items event_schema) ''object'' \<and>
   conforms 0 (operation_transport_field_paths ''google_calendar'' WRITE ''events.create'') [] event_schema
     event_input"
  by (rule validate_input_closed [OF event_built event_accepted])

theorem catalog_lookup_exact_witness:
  "catalog_lookup \<lparr>cat_operations = [sample_spec],
       cat_by_key = map_of [(spec_key sample_spec, sample_spec)]\<rparr> ''slack'' READ ''users.find''
     = Inr sample_spec"
proof -
  let ?c = "\<lparr>cat_operations = [sample_spec],
       cat_by_key = map_of [(spec_key sample_spec, sample_spec)]\<rparr>"
  have c: "OperationCatalog [sample_spec] = Inr ?c" by (simp add: OperationCatalog_Inr)
  have "spec_key sample_spec = (''slack'', READ, ''users.find'')"
    by (simp add: spec_key_def sample_spec_def)
  moreover have "is_ok (operation_name ''slack'' ''provider'')"
    "is_ok (operation_name ''users.find'' ''operation'')" by code_simp+
  ultimately show ?thesis unfolding catalog_lookup_exact [OF c] by simp
qed

text \<open>
  C24: a validated string may end in a newline that its pattern does not mention, because the anchor
  \<open>$\<close> of \<open>re.search\<close> also matches before a final newline: under a string schema whose pattern closes
  with \<open>$\<close>, every accepted string that does not itself end in a newline is accepted with one newline
  more, as long as the length bounds leave room for it. Nearly every identifier of the catalogue has
  such a pattern.
\<close>

theorem dollar_admits_newline:
  assumes "validate_json (PStr x) s al = Inr (PStr x)"
    and "plain_type (mapping_items s) ''string''" and "dget (mapping_items s) ''pattern'' = Some (PStr p)"
    and "re_compile p = Inr r" and "closes_with_dollar r"
    and "py_len x < MAX_STRING_LENGTH"
    and "\<And>m. dget (mapping_items s) ''maxLength'' = Some (PInt m) \<Longrightarrow> py_len x < m"
    and "codepoints x = [] \<or> last (codepoints x) \<noteq> 10"
  shows "validate_json (PStr (x @ [CHR 0x0A])) s al = Inr (PStr (x @ [CHR 0x0A]))"
  using assms by (rule string_newline)

lemma slack_id_checks:
  "validate_json (PStr ''C024BE91L'') CO_SLACK_ID [] = Inr (PStr ''C024BE91L'')"
  "plain_type (mapping_items CO_SLACK_ID) ''string''"
  "dget (mapping_items CO_SLACK_ID) ''pattern'' = Some (PStr ''^[A-Za-z0-9]+$'')"
  "re_compile ''^[A-Za-z0-9]+$'' =
     Inr (RSeq RBegin (RSeq (RRep (RSet False [(65, 90), (97, 122), (48, 57)]) 1 None) (RSeq REnd REps)))"
  "py_len ''C024BE91L'' = 9" "dget (mapping_items CO_SLACK_ID) ''maxLength'' = Some (PInt 128)"
  "last (codepoints ''C024BE91L'') = 76"
  by code_simp+

theorem dollar_admits_newline_witness:
  "validate_json (PStr (''C024BE91L'' @ [CHR 0x0A])) CO_SLACK_ID [] =
     Inr (PStr (''C024BE91L'' @ [CHR 0x0A]))"
  by (rule dollar_admits_newline [OF slack_id_checks(1-4)]) (simp_all add: slack_id_checks)

text \<open>
  C25: an integer too large for a float makes the validation of a \<open>number\<close> raise \<open>OverflowError\<close>, which
  is not a \<open>ValidationError\<close>, although every such integer is a canonical JSON value. This holds of every
  accepted schema of type \<open>number\<close> without \<open>const\<close>, \<open>enum\<close> and \<open>oneOf\<close>, whatever its bounds are.
\<close>

theorem number_validation_overflows:
  assumes "normalize_schema 0 False True al [] s = Inr r"
    and "plain_type (mapping_items s) ''number''" and "float_overflows i"
  shows "validate_json (PInt i) s al = Inl (OtherError ''OverflowError'') \<and>
    canonicalize_json (PInt i) = Inr (PInt i)"
  using number_overflows [OF assms] by simp

lemma bounded_number_checks:
  "normalize_schema 0 False True [] [] (obj [(''maximum'', PInt 9), (''type'', PStr ''number'')]) =
     Inr (obj [(''type'', PStr ''number''), (''maximum'', PInt 9)])"
  "plain_type (mapping_items (obj [(''maximum'', PInt 9), (''type'', PStr ''number'')])) ''number''"
  "float_overflows (2 ^ 1024)"
  by code_simp+

theorem number_validation_overflows_witness:
  "validate_json (PInt (2 ^ 1024)) (obj [(''maximum'', PInt 9), (''type'', PStr ''number'')]) [] =
     Inl (OtherError ''OverflowError'') \<and>
   canonicalize_json (PInt (2 ^ 1024)) = Inr (PInt (2 ^ 1024))"
  by (rule number_validation_overflows [OF bounded_number_checks])

end
