(* ===== verification/PyFloat.thy ===== *)
theory PyFloat
  imports PyObj "HOL-Library.Log_Nat"
begin

section \<open>Floating-point numbers\<close>

text \<open>
  Python's \<open>float\<close> is an IEEE 754 double. A finite one is the rational it denotes, rounded to
  the nearest double with ties to even; \<open>round_double\<close> is that rounding and the arithmetic is
  exact arithmetic followed by it. Minus zero is identified with zero.
\<close>

subsection \<open>Rounding to a double\<close>

text \<open>The exponent \<open>e\<close> with \<open>2 ^ e \<le> a < 2 ^ (e + 1)\<close>, from the lengths of numerator and denominator.\<close>

definition exp2 :: "rat \<Rightarrow> int" where
  "exp2 a = (case quotient_of a of (p, q) \<Rightarrow>
     let e = bitlen p - bitlen q in if 2 powi e \<le> a then e else e - 1)"

text \<open>The nearest integer, the even one of two equally near.\<close>

definition round_even :: "rat \<Rightarrow> int" where
  "round_even a =
     (let m = \<lfloor>a\<rfloor>; d = a - of_int m in
      if d < 1 / 2 \<or> (d = 1 / 2 \<and> even m) then m else m + 1)"

definition double_exp :: "rat \<Rightarrow> int" where
  "double_exp a = max (exp2 a - 52) (- 1074)"

text \<open>A number of at least \<open>2 ^ 1024\<close> is beyond the largest double.\<close>

definition overflows :: "rat \<Rightarrow> bool" where
  "overflows b = (2 ^ 1024 \<le> b)"

lemma overflows_code [code]: "overflows b = (1024 < bitlen \<lfloor>b\<rfloor>)"
proof -
  have "bitlen \<lfloor>b\<rfloor> \<le> 1024 \<longleftrightarrow> \<lfloor>b\<rfloor> < 2 ^ 1024" by (simp add: bitlen_le_iff_power)
  also have "\<dots> \<longleftrightarrow> b < of_int (2 ^ 1024)" by (rule floor_less_iff)
  finally show ?thesis by (auto simp: overflows_def)
qed

definition round_double :: "rat \<Rightarrow> pyfloat" where
  "round_double r =
     (if r = 0 then Finite 0
      else let k = double_exp \<bar>r\<bar>; b = of_int (round_even (\<bar>r\<bar> / 2 powi k)) * 2 powi k in
        if overflows b then (if 0 < r then PosInf else NegInf)
        else Finite (if 0 < r then b else - b))"

definition is_double :: "rat \<Rightarrow> bool" where
  "is_double r = (round_double r = Finite r)"

lemma powi_pos [simp]: "0 < (2 :: rat) powi e"
  by (simp add: zero_less_power_int)

lemma powi_le_iff [simp]: "(2 :: rat) powi a \<le> 2 powi b \<longleftrightarrow> a \<le> b"
  by (metis linorder_not_le one_less_numeral_iff order_less_imp_le power_int_increasing
      power_int_strict_increasing semiring_norm(76))

lemma powi_less_iff [simp]: "(2 :: rat) powi a < 2 powi b \<longleftrightarrow> a < b"
  by (simp add: linorder_not_le [symmetric])

lemma powi_nat: "0 \<le> e \<Longrightarrow> (2 :: rat) powi e = of_int (2 ^ nat e)"
  by (simp add: power_int_def)

lemma powi_add: "(2 :: rat) powi (a + b) = 2 powi a * 2 powi b"
  by (simp add: power_int_add)

lemma powi_diff: "(2 :: rat) powi (a - b) = 2 powi a / 2 powi b"
  by (simp add: power_int_diff)

lemma exp2_bounds:
  assumes "0 < a"
  shows "2 powi exp2 a \<le> a" "a < 2 powi (exp2 a + 1)"
proof -
  obtain p q where pq: "quotient_of a = (p, q)" by (cases "quotient_of a")
  then have q: "0 < q" and a: "a = of_int p / of_int q"
    using quotient_of_denom_pos quotient_of_div by blast+
  with assms have p: "0 < p" by (simp add: zero_less_divide_iff)
  let ?P = "bitlen p" and ?Q = "bitlen q"
  have len: "0 < ?P" "0 < ?Q" using p q bitlen_nonneg [of p] bitlen_nonneg [of q] bitlen_eq_zero_iff [of p] bitlen_eq_zero_iff [of q]
    by linarith+
  have P: "2 powi (?P - 1) \<le> (of_int p :: rat)" "of_int p < (2 :: rat) powi ?P"
    using bitlen_bounds [OF p] len by (simp_all only: powi_nat of_int_le_iff of_int_less_iff)
  have Q: "2 powi (?Q - 1) \<le> (of_int q :: rat)" "of_int q < (2 :: rat) powi ?Q"
    using bitlen_bounds [OF q] len by (simp_all only: powi_nat of_int_le_iff of_int_less_iff)
  have "2 powi (?P - 1 - ?Q) \<le> a"
    unfolding powi_diff [of "?P - 1"] a using P(1) Q p q by (intro frac_le) auto
  moreover have "a < 2 powi (?P - (?Q - 1))"
    unfolding powi_diff [of "?P"] a using P Q p q by (intro frac_less) auto
  ultimately show "2 powi exp2 a \<le> a" "a < 2 powi (exp2 a + 1)"
    by (auto simp: exp2_def pq Let_def algebra_simps)
qed

lemma exp2_unique: "2 powi e \<le> a \<Longrightarrow> a < 2 powi (e + 1) \<Longrightarrow> exp2 a = e"
proof -
  assume a: "2 powi e \<le> a" "a < 2 powi (e + 1)"
  have "0 < a" using a(1) powi_pos [of e] by linarith
  note b = exp2_bounds [OF this]
  have "(2 :: rat) powi e < 2 powi (exp2 a + 1)" "(2 :: rat) powi exp2 a < 2 powi (e + 1)"
    using a b by linarith+
  then show ?thesis by simp
qed

lemma round_even_int [simp]: "round_even (of_int m) = m"
  by (simp add: round_even_def)

lemma round_even_nonneg: "0 \<le> a \<Longrightarrow> 0 \<le> round_even a"
  by (simp add: round_even_def Let_def)

lemma round_even_le: "a \<le> of_int m \<Longrightarrow> round_even a \<le> m"
proof -
  assume "a \<le> of_int m"
  then have "\<lfloor>a\<rfloor> < m \<or> a = of_int m" by (metis floor_less_iff le_less)
  then show ?thesis by (auto simp: round_even_def Let_def)
qed

text \<open>A multiple of a representable power of two with at most 53 bits is a double.\<close>

lemma round_double_scaled:
  assumes m: "0 < m" "m \<le> 2 ^ 53" and k: "- 1074 \<le> k"
  shows "\<exists>i. of_int m * 2 powi k = of_int i * (2 :: rat) powi double_exp (of_int m * 2 powi k)"
proof -
  let ?b = "of_int m * (2 :: rat) powi k" and ?e = "exp2 (of_int m * (2 :: rat) powi k)"
  have pos: "0 < ?b" using m by simp
  have "(of_int m :: rat) \<le> of_int (2 ^ 53)" using m(2) by (simp only: of_int_le_iff)
  then have "?b \<le> of_int (2 ^ 53) * 2 powi k" by (rule mult_right_mono) simp
  also have "\<dots> = 2 powi (k + 53)" by (simp add: powi_add)
  finally have le: "?b \<le> 2 powi (k + 53)" .
  with exp2_bounds(1) [OF pos] have "(2 :: rat) powi ?e \<le> 2 powi (k + 53)" by (rule order_trans)
  then have e: "?e \<le> k + 53" by simp
  show ?thesis
  proof (cases "double_exp ?b \<le> k")
    case True
    let ?d = "double_exp ?b"
    have "(2 :: rat) powi k = 2 powi (k - ?d) * 2 powi ?d" by (simp flip: powi_add)
    moreover have "(2 :: rat) powi (k - ?d) = of_int (2 ^ nat (k - ?d))" using True by (simp add: powi_nat)
    ultimately have "?b = of_int (m * 2 ^ nat (k - ?d)) * 2 powi ?d" by simp
    then show ?thesis by blast
  next
    case False
    with k e have k': "double_exp ?b = k + 1" and e': "?e = k + 53" by (auto simp: double_exp_def)
    have "?b = 2 powi (k + 53)" using le exp2_bounds(1) [OF pos] unfolding e' by (rule order.antisym)
    also have "\<dots> = of_int (2 ^ 52) * 2 powi (k + 1)"
      by (simp add: powi_add)
    finally show ?thesis unfolding k' by blast
  qed
qed

lemma round_double_exact:
  assumes "0 \<le> m" "m \<le> 2 ^ 53" "- 1074 \<le> k" "of_int m * 2 powi k < (2 :: rat) ^ 1024"
  shows "is_double (of_int m * 2 powi k)" "is_double (- (of_int m * 2 powi k))"
proof -
  let ?b = "of_int m * (2 :: rat) powi k"
  have "round_double ?b = Finite ?b \<and> round_double (- ?b) = Finite (- ?b)"
  proof (cases "m = 0")
    case True
    then show ?thesis by (simp add: round_double_def)
  next
    case False
    then obtain i where i: "?b = of_int i * 2 powi double_exp ?b"
      using round_double_scaled assms by (metis order_le_less)
    have pos: "0 < ?b" using False assms by simp
    have "?b / 2 powi double_exp ?b = of_int i"
      using i powi_pos [of "double_exp ?b"] by (metis less_irrefl nonzero_mult_div_cancel_right)
    then have "of_int (round_even (?b / 2 powi double_exp ?b)) * 2 powi double_exp ?b = ?b"
      using i by simp
    moreover have "\<bar>?b\<bar> = ?b" "\<bar>- ?b\<bar> = ?b" "?b \<noteq> 0" "- ?b \<noteq> 0" "\<not> 0 < - ?b" using pos by auto
    ultimately show ?thesis
      using pos assms(4) unfolding round_double_def overflows_def Let_def by (simp add: not_le)
  qed
  then show "is_double ?b" "is_double (- ?b)" by (simp_all add: is_double_def)
qed

text \<open>Whatever rounding gives, if finite, is a double: rounding again changes nothing.\<close>

lemma round_double_is_double:
  assumes "round_double r = Finite d"
  shows "is_double d"
proof (cases "r = 0")
  case True
  with assms show ?thesis by (simp add: round_double_def is_double_def)
next
  case False
  let ?k = "double_exp \<bar>r\<bar>"
  let ?m = "round_even (\<bar>r\<bar> / 2 powi ?k)"
  have pos: "0 < \<bar>r\<bar>" using False by simp
  have "\<bar>r\<bar> < 2 powi (53 + ?k)"
  proof -
    have "(2 :: rat) powi (exp2 \<bar>r\<bar> + 1) \<le> 2 powi (53 + ?k)" by (simp add: double_exp_def)
    with exp2_bounds(2) [OF pos] show ?thesis by linarith
  qed
  then have "\<bar>r\<bar> / 2 powi ?k < 2 powi 53" by (simp add: powi_add pos_divide_less_eq)
  then have m: "?m \<le> 2 ^ 53" by (intro round_even_le) simp
  have "0 \<le> ?m" by (rule round_even_nonneg) simp
  moreover have "- 1074 \<le> ?k" by (simp add: double_exp_def)
  moreover have "of_int ?m * 2 powi ?k < (2 :: rat) ^ 1024 \<and>
      (d = of_int ?m * 2 powi ?k \<or> d = - (of_int ?m * 2 powi ?k))"
    using assms False unfolding round_double_def overflows_def Let_def
    by (auto simp: not_le split: if_splits)
  ultimately show ?thesis using round_double_exact [of ?m ?k] m by auto
qed

lemma round_double_zero [simp]: "round_double 0 = Finite 0"
  by (simp add: round_double_def)

lemma is_double_zero [simp]: "is_double 0"
  by (simp add: is_double_def)

lemma is_double_int:
  assumes "\<bar>i\<bar> \<le> 2 ^ 53"
  shows "is_double (of_int i)"
proof -
  have "\<bar>i\<bar> < 2 ^ 1024"
    by (rule order.strict_trans1 [OF assms]) simp
  then have "(of_int \<bar>i\<bar> :: rat) < of_int (2 ^ 1024)" by (simp only: of_int_less_iff)
  then have lt: "of_int \<bar>i\<bar> * 2 powi 0 < (2 :: rat) ^ 1024" by simp
  have "is_double (of_int \<bar>i\<bar>)" "is_double (- of_int \<bar>i\<bar>)"
    using round_double_exact [of "\<bar>i\<bar>" 0] assms lt by simp_all
  then show ?thesis by (cases "0 \<le> i") simp_all
qed

subsection \<open>Arithmetic\<close>

text \<open>\<open>float(i)\<close>: an integer that rounds beyond the largest double raises \<open>OverflowError\<close>.\<close>

definition float_of_int :: "int \<Rightarrow> pyfloat result" where
  "float_of_int i =
     (case round_double (of_int i) of
        Finite d \<Rightarrow> Inr (Finite d)
      | _ \<Rightarrow> Inl (OtherError ''OverflowError''))"

text \<open>\<open>a + b\<close> and \<open>a - b\<close> on finite floats.\<close>

definition float_add :: "rat \<Rightarrow> rat \<Rightarrow> pyfloat" where
  "float_add a b = round_double (a + b)"

definition float_sub :: "rat \<Rightarrow> rat \<Rightarrow> pyfloat" where
  "float_sub a b = round_double (a - b)"

subsection \<open>Rounding errors\<close>

lemma round_even_error: "\<bar>of_int (round_even a) - a\<bar> \<le> 1 / 2"
proof -
  define d where "d = a - of_int \<lfloor>a\<rfloor>"
  have d: "0 \<le> d" "d < 1" "a = of_int \<lfloor>a\<rfloor> + d" unfolding d_def by linarith+
  show ?thesis
  proof (cases "d < 1 / 2 \<or> (d = 1 / 2 \<and> even \<lfloor>a\<rfloor>)")
    case True
    then have "round_even a = \<lfloor>a\<rfloor>" by (simp add: round_even_def Let_def d_def)
    then show ?thesis using True d by (subst (2) d(3)) auto
  next
    case False
    then have "round_even a = \<lfloor>a\<rfloor> + 1" by (simp add: round_even_def Let_def d_def)
    then show ?thesis using False d by (subst (2) d(3)) auto
  qed
qed

text \<open>The rounding error of a number below a power of two.\<close>

lemma round_double_near:
  assumes x: "0 < x" "x < 2 powi e" and e: "- 1021 \<le> e" "e \<le> 1000"
  shows "\<exists>d. round_double x = Finite d \<and> \<bar>d - x\<bar> \<le> 2 powi (e - 54)"
proof -
  let ?k = "double_exp \<bar>x\<bar>"
  let ?b = "of_int (round_even (\<bar>x\<bar> / 2 powi ?k)) * (2 :: rat) powi ?k"
  have "(2 :: rat) powi exp2 x < 2 powi e" using exp2_bounds(1) [OF x(1)] x(2) by (rule order.strict_trans1)
  then have k: "?k \<le> e - 53" using x e by (simp add: double_exp_def)
  have "\<bar>of_int (round_even (\<bar>x\<bar> / 2 powi ?k)) - \<bar>x\<bar> / 2 powi ?k\<bar> * (2 :: rat) powi ?k \<le> 1 / 2 * 2 powi ?k"
    by (rule mult_right_mono [OF round_even_error]) simp
  moreover have "\<bar>of_int (round_even (\<bar>x\<bar> / 2 powi ?k)) - \<bar>x\<bar> / 2 powi ?k\<bar> * (2 :: rat) powi ?k = \<bar>?b - x\<bar>"
  proof -
    have "\<bar>m - y / p\<bar> * p = \<bar>m * p - y\<bar>" if "0 < p" for m y p :: rat
    proof -
      have "\<bar>m - y / p\<bar> * p = \<bar>(m - y / p) * p\<bar>" using that by (simp add: abs_mult)
      also have "(m - y / p) * p = m * p - y" using that by (simp add: left_diff_distrib)
      finally show ?thesis .
    qed
    from this [OF powi_pos] show ?thesis using x(1) by simp
  qed
  moreover have "1 / 2 * (2 :: rat) powi ?k \<le> 1 / 2 * 2 powi (e - 53)" using k by simp
  moreover have "1 / 2 * (2 :: rat) powi (e - 53) = 2 powi (e - 54)"
    using powi_diff [of "e - 53" 1] by simp
  ultimately have err: "\<bar>?b - x\<bar> \<le> 2 powi (e - 54)" by linarith
  have "(2 :: rat) powi (e - 54) < 2 powi e" by (subst powi_less_iff) simp
  then have "?b < 2 powi e + 2 powi e" using err x(2) by linarith
  also have "\<dots> = 2 powi (e + 1)" by (simp add: powi_add)
  also have "\<dots> \<le> 2 powi 1024" by (subst powi_le_iff) (use e in simp)
  finally have "\<not> overflows ?b" unfolding overflows_def power_int_numeral by (simp only: not_le)
  then have "round_double x = Finite ?b" using x(1) by (simp add: round_double_def Let_def)
  with err show ?thesis by blast
qed

text \<open>Adding a lifetime below the maximum to a clock reading of the next 139000 years.\<close>

lemma float_window:
  assumes t: "is_double t" "0 \<le> t" "t < 2 ^ 42" and n: "1 \<le> n" "n < (900 :: int)"
  obtains e where "float_add t (of_int n) = Finite e" "is_double e" "t < e" "e < t + of_int n + 1"
    "t + of_int n < e + 1"
    "\<exists>f. float_sub e t = Finite f \<and> f \<le> 900"
proof -
  have N: "1 \<le> (of_int n :: rat)" "(of_int n :: rat) \<le> 899"
    using of_int_le_iff [of 1 n, where 'a = rat] of_int_le_iff [of n 899, where 'a = rat] n by auto
  have "0 < t + of_int n" "t + of_int n < 2 powi 43" using t(2,3) N by (auto simp: power_int_def)
  from round_double_near [OF this] obtain e where
    e: "float_add t (of_int n) = Finite e" "\<bar>e - (t + of_int n)\<bar> \<le> 2 powi (- 11)"
    by (auto simp: float_add_def)
  have half: "(2 :: rat) powi (- 1) = 1 / 2" by simp
  have "(2 :: rat) powi (- 11) < 2 powi (- 1)" by (subst powi_less_iff) simp
  then have small: "(2 :: rat) powi (- 11) < 1 / 2" unfolding half .
  have near: "e - (t + of_int n) < 1 / 2" "(t + of_int n) - e < 1 / 2" using e(2) small by linarith+
  have "(2 :: rat) powi 10 = 1024" by (simp add: power_int_def)
  then have d: "0 < e - t" "e - t < 2 powi 10" "e - t \<le> 899 + 1 / 2" using near N by linarith+
  from round_double_near [OF d(1,2)] obtain f where
    f: "float_sub e t = Finite f" "\<bar>f - (e - t)\<bar> \<le> 2 powi (- 44)"
    by (auto simp: float_sub_def)
  have "(2 :: rat) powi (- 44) < 2 powi (- 1)" by (subst powi_less_iff) simp
  then have "(2 :: rat) powi (- 44) < 1 / 2" unfolding half .
  then have "f \<le> 900" using f(2) d(3) by linarith
  moreover have "is_double e" using e(1) by (simp add: float_add_def round_double_is_double)
  moreover have "t < e" "e < t + of_int n + 1" "t + of_int n < e + 1" using near N by linarith+
  ultimately show thesis using e(1) f(1) by (intro that) blast+
qed

end
