(* ===== verification/JsonNumber.thy ===== *)
theory JsonNumber
  imports PyFloat
begin

section \<open>Numbers in JSON text\<close>

text \<open>
  How \<open>json.dumps\<close> writes an \<open>int\<close> and a \<open>float\<close>, and how \<open>json.loads\<close> reads a number. A
  float is written as \<open>repr\<close> does: the shortest decimal that rounds back to it, the nearest one
  of that length, in positional notation unless the exponent is small or large. Reading back
  what was written gives the number: \<open>parse_int_text\<close>, \<open>parse_float_text\<close>.
\<close>

subsection \<open>Digits\<close>

definition digit_char :: "int \<Rightarrow> char" where
  "digit_char d = char_of (48 + d)"

definition json_digit :: "char \<Rightarrow> bool" where
  "json_digit c = (48 \<le> byte c \<and> byte c \<le> 57)"

function nat_text :: "int \<Rightarrow> string" where
  "nat_text n = (if n < 10 then [digit_char n] else nat_text (n div 10) @ [digit_char (n mod 10)])"
  by pat_completeness auto
termination
  by (relation "measure nat") auto

declare nat_text.simps [simp del]

definition int_text :: "int \<Rightarrow> string" where
  "int_text i = (if i < 0 then CHR ''-'' # nat_text (- i) else nat_text i)"

definition digits_value :: "string \<Rightarrow> int" where
  "digits_value s = foldl (\<lambda>n c. n * 10 + (byte c - 48)) 0 s"

lemma byte_of_char: "byte c = of_char c"
  by (cases c) (simp add: of_char_def)

lemma byte_char_of: "0 \<le> n \<Longrightarrow> n < 256 \<Longrightarrow> byte (char_of n) = n"
  by (simp add: byte_of_char)

lemma byte_digit_char [simp]: "0 \<le> d \<Longrightarrow> d < 10 \<Longrightarrow> byte (digit_char d) = 48 + d"
  by (simp add: digit_char_def byte_char_of)

lemma json_digit_digit_char [simp]: "0 \<le> d \<Longrightarrow> d < 10 \<Longrightarrow> json_digit (digit_char d)"
  by (simp add: json_digit_def)

lemma digits_value_snoc [simp]: "digits_value (s @ [c]) = digits_value s * 10 + (byte c - 48)"
  by (simp add: digits_value_def)

lemma digits_value_Nil [simp]: "digits_value [] = 0"
  by (simp add: digits_value_def)

lemma digits_value_append: "digits_value (a @ b) = digits_value a * 10 ^ length b + digits_value b"
proof (induction b rule: rev_induct)
  case Nil
  then show ?case by simp
next
  case (snoc c b)
  then show ?case by (simp add: algebra_simps flip: append_assoc)
qed

lemma digits_value_Cons: "digits_value (c # s) = (byte c - 48) * 10 ^ length s + digits_value s"
  using digits_value_append [of "[c]" s] by (simp add: digits_value_def)

lemma digits_value_zeros [simp]: "digits_value (replicate n CHR ''0'') = 0"
  by (induction n) (simp_all add: digits_value_Cons)

lemma nat_text_digits: "0 \<le> n \<Longrightarrow> list_all json_digit (nat_text n)"
proof (induction n rule: nat_text.induct)
  case (1 n)
  then show ?case by (subst nat_text.simps) auto
qed

lemma nat_text_value: "0 \<le> n \<Longrightarrow> digits_value (nat_text n) = n"
proof (induction n rule: nat_text.induct)
  case (1 n)
  then show ?case
    by (subst nat_text.simps) (auto simp: digits_value_def [of "[_]"])
qed

lemma nat_text_ne [simp]: "nat_text n \<noteq> []"
  by (subst nat_text.simps) simp

lemma nat_text_hd: "0 < n \<Longrightarrow> hd (nat_text n) \<noteq> CHR ''0''"
proof (induction n rule: nat_text.induct)
  case (1 n)
  show ?case
  proof (cases "n < 10")
    case True
    then have "byte (hd (nat_text n)) = 48 + n" using 1 by (subst nat_text.simps) simp
    then show ?thesis using 1 by auto
  next
    case False
    then show ?thesis using 1 by (subst nat_text.simps) (simp add: hd_append)
  qed
qed

lemma nat_text_zero: "nat_text 0 = ''0''"
  by (subst nat_text.simps) (simp add: digit_char_def char_of_def)

subsection \<open>Reading a number\<close>

text \<open>
  The scanner's number: an optional minus, an integer part without leading zeros, an optional
  fraction and an optional exponent. Without the latter two it is an \<open>int\<close>, whose conversion
  refuses more than 4300 digits; with one of them it is a \<open>float\<close>, correctly rounded.
\<close>

definition MAX_STR_DIGITS :: int where "MAX_STR_DIGITS = 4300"

definition scan_sign :: "string \<Rightarrow> int \<times> string" where
  "scan_sign s =
     (case s of [] \<Rightarrow> (1, [])
      | c # cs \<Rightarrow> if c = CHR ''-'' then (- 1, cs) else if c = CHR ''+'' then (1, cs) else (1, s))"

definition scan_int :: "string \<Rightarrow> (string \<times> string) option" where
  "scan_int s =
     (case s of [] \<Rightarrow> None
      | c # cs \<Rightarrow>
          if c = CHR ''0'' then Some ([c], cs)
          else if json_digit c then Some (takeWhile json_digit s, dropWhile json_digit s) else None)"

definition scan_frac :: "string \<Rightarrow> string \<times> string" where
  "scan_frac s =
     (case s of [] \<Rightarrow> ([], [])
      | c # cs \<Rightarrow>
          if c = CHR ''.'' \<and> takeWhile json_digit cs \<noteq> []
          then (takeWhile json_digit cs, dropWhile json_digit cs) else ([], s))"

definition scan_exp :: "string \<Rightarrow> int option \<times> string" where
  "scan_exp s =
     (case s of [] \<Rightarrow> (None, [])
      | c # cs \<Rightarrow>
          (case scan_sign cs of (sg, ds) \<Rightarrow>
            if c \<in> {CHR ''e'', CHR ''E''} \<and> takeWhile json_digit ds \<noteq> []
            then (Some (sg * digits_value (takeWhile json_digit ds)), dropWhile json_digit ds)
            else (None, s)))"

text \<open>
  What the decoder raises: \<open>JSONDecodeError\<close> for malformed text, a plain \<open>ValueError\<close> for an integer
  with too many digits, and whatever \<open>ValueError\<close> a hook of the caller raises. The first is a
  subclass of \<open>ValueError\<close>, so \<open>except ValueError\<close> catches all three and
  \<open>except JSONDecodeError\<close> only the first.
\<close>

datatype json_error = Malformed | Too_Many_Digits | Hook_Refused

definition number_value :: "int \<Rightarrow> string \<Rightarrow> string \<Rightarrow> int option \<Rightarrow> json_error + pyobj" where
  "number_value sg ds fs ex =
     (if fs = [] \<and> ex = None then
        (if MAX_STR_DIGITS < ilen ds then Inl Too_Many_Digits else Inr (PInt (sg * digits_value ds)))
      else Inr (PFloat (round_double
        (of_int (sg * digits_value (ds @ fs)) * 10 powi ((case ex of None \<Rightarrow> 0 | Some e \<Rightarrow> e) - ilen fs)))))"

definition scan_minus :: "string \<Rightarrow> int \<times> string" where
  "scan_minus s = (case s of [] \<Rightarrow> (1, []) | c # cs \<Rightarrow> if c = CHR ''-'' then (- 1, cs) else (1, s))"

definition parse_number :: "string \<Rightarrow> json_error + pyobj \<times> string" where
  "parse_number s =
     (case scan_minus s of (sg, s1) \<Rightarrow>
       (case scan_int s1 of
          None \<Rightarrow> Inl Malformed
        | Some (ds, s2) \<Rightarrow>
            (case scan_frac s2 of (fs, s3) \<Rightarrow>
              (case scan_exp s3 of (ex, s4) \<Rightarrow>
                bindE (number_value sg ds fs ex) (\<lambda>v. Inr (v, s4))))))"

text \<open>What may follow a complete number: nothing that would continue it.\<close>

definition ends_number :: "string \<Rightarrow> bool" where
  "ends_number s =
     (case s of [] \<Rightarrow> True
      | c # cs \<Rightarrow> \<not> json_digit c \<and> c \<notin> {CHR ''.'', CHR ''e'', CHR ''E''})"

lemma digit_run:
  assumes "list_all json_digit ds" and "rest = [] \<or> \<not> json_digit (hd rest)"
  shows "takeWhile json_digit (ds @ rest) = ds" "dropWhile json_digit (ds @ rest) = rest"
  using assms
  by (cases rest; simp add: takeWhile_append dropWhile_append list_all_iff)+

lemma json_digit_consts [simp]:
  "\<not> json_digit CHR ''.''" "\<not> json_digit CHR ''e''" "\<not> json_digit CHR ''-''" "\<not> json_digit CHR ''+''"
  "json_digit CHR ''0''" "\<not> json_digit CHR '',''" "\<not> json_digit CHR '']''" "\<not> json_digit CHR ''}''"
  "\<not> json_digit CHR ''\"''" "\<not> json_digit CHR ''[''" "\<not> json_digit CHR ''{''" "\<not> json_digit CHR ''t''"
  "\<not> json_digit CHR ''f''" "\<not> json_digit CHR ''n''"
  by (simp_all add: json_digit_def)

lemma ends_numberD: "ends_number s \<Longrightarrow> s = [] \<or> \<not> json_digit (hd s)"
  by (cases s) (simp_all add: ends_number_def)

text \<open>An integer part as the text writers produce it.\<close>

definition int_part :: "string \<Rightarrow> bool" where
  "int_part ds = (list_all json_digit ds \<and> ds \<noteq> [] \<and> (hd ds = CHR ''0'' \<longrightarrow> ds = ''0''))"

lemma scan_int_part:
  assumes "int_part ds" and "rest = [] \<or> \<not> json_digit (hd rest)"
  shows "scan_int (ds @ rest) = Some (ds, rest)"
proof -
  from assms(1) obtain c cs where ds: "ds = c # cs" "json_digit c" "list_all json_digit cs"
    by (cases ds) (auto simp: int_part_def)
  show ?thesis
  proof (cases "c = CHR ''0''")
    case True
    then show ?thesis using assms(1) ds by (simp add: scan_int_def int_part_def)
  next
    case False
    then show ?thesis using digit_run [of ds rest] assms ds by (simp add: scan_int_def)
  qed
qed

lemma nat_text_int_part: "0 \<le> n \<Longrightarrow> int_part (nat_text n)"
  using nat_text_hd [of n] by (cases "n = 0") (simp_all add: int_part_def nat_text_digits nat_text_zero)

lemma scan_frac_none: "ends_number s \<Longrightarrow> scan_frac s = ([], s)"
  by (cases s) (simp_all add: scan_frac_def ends_number_def)

lemma scan_exp_none: "ends_number s \<Longrightarrow> scan_exp s = (None, s)"
  by (cases s) (simp_all add: scan_exp_def ends_number_def split: prod.splits)

lemma scan_frac_some:
  assumes "list_all json_digit fs" "fs \<noteq> []" "rest = [] \<or> \<not> json_digit (hd rest)"
  shows "scan_frac (CHR ''.'' # fs @ rest) = (fs, rest)"
  using digit_run [OF assms(1,3)] assms(2) by (simp add: scan_frac_def)

lemma parse_unsigned:
  assumes "int_part ds" "rest = [] \<or> \<not> json_digit (hd rest)"
  shows "parse_number (ds @ rest) =
      (case scan_frac rest of (fs, s3) \<Rightarrow> case scan_exp s3 of (ex, s4) \<Rightarrow>
         bindE (number_value 1 ds fs ex) (\<lambda>v. Inr (v, s4)))"
    and "parse_number (CHR ''-'' # ds @ rest) =
      (case scan_frac rest of (fs, s3) \<Rightarrow> case scan_exp s3 of (ex, s4) \<Rightarrow>
         bindE (number_value (- 1) ds fs ex) (\<lambda>v. Inr (v, s4)))"
proof -
  from assms(1) have "scan_minus (ds @ rest) = (1, ds @ rest)"
    by (cases ds) (auto simp: int_part_def scan_minus_def)
  then show "parse_number (ds @ rest) =
      (case scan_frac rest of (fs, s3) \<Rightarrow> case scan_exp s3 of (ex, s4) \<Rightarrow>
         bindE (number_value 1 ds fs ex) (\<lambda>v. Inr (v, s4)))"
    by (simp add: parse_number_def scan_int_part [OF assms])
  show "parse_number (CHR ''-'' # ds @ rest) =
      (case scan_frac rest of (fs, s3) \<Rightarrow> case scan_exp s3 of (ex, s4) \<Rightarrow>
         bindE (number_value (- 1) ds fs ex) (\<lambda>v. Inr (v, s4)))"
    by (simp add: parse_number_def scan_minus_def scan_int_part [OF assms])
qed

lemma parse_int_text:
  assumes "ends_number rest" "ilen (nat_text \<bar>i\<bar>) \<le> MAX_STR_DIGITS"
  shows "parse_number (int_text i @ rest) = Inr (PInt i, rest)"
  using assms parse_unsigned [OF nat_text_int_part ends_numberD [OF assms(1)], of "\<bar>i\<bar>"]
  by (auto simp add: int_text_def scan_frac_none scan_exp_none number_value_def nat_text_value
      split: if_splits)

subsection \<open>Writing a float\<close>

text \<open>The decimal exponent \<open>x\<close> with \<open>10 ^ x \<le> a < 10 ^ (x + 1)\<close>.\<close>

definition exp10 :: "rat \<Rightarrow> int" where
  "exp10 a =
     (if 1 \<le> a then ilen (nat_text \<lfloor>a\<rfloor>) - 1
      else let j = ilen (nat_text \<lfloor>1 / a\<rfloor>) - 1 in if 1 / a = 10 powi j then - j else - (j + 1))"

text \<open>\<open>D * 10 ^ x\<close> rounds to the double \<open>a\<close>.\<close>

definition denotes :: "rat \<Rightarrow> int \<Rightarrow> int \<Rightarrow> bool" where
  "denotes a D x = (round_double (of_int D * 10 powi x) = Finite a)"

text \<open>Of the two neighbours of \<open>a\<close> with \<open>n\<close> digits, the nearer one that rounds back to \<open>a\<close>.\<close>

definition decimal_digits :: "rat \<Rightarrow> int \<Rightarrow> (int \<times> int) option" where
  "decimal_digits a n =
     (let x = exp10 a - n + 1; y = a / 10 powi x; near = round_even y;
          far = (if near = \<lfloor>y\<rfloor> then near + 1 else \<lfloor>y\<rfloor>) in
      if denotes a near x then Some (near, x) else if denotes a far x then Some (far, x) else None)"

text \<open>
  The shortest decimal that rounds back, at most 17 digits; the exact expansion, which always
  does, closes the search.
\<close>

definition MAX_FRACTION_DIGITS :: int where "MAX_FRACTION_DIGITS = 1074"

definition exact_decimal :: "rat \<Rightarrow> int \<times> int" where
  "exact_decimal a = (\<lfloor>a * 10 powi MAX_FRACTION_DIGITS\<rfloor>, - MAX_FRACTION_DIGITS)"

fun decimal_search :: "rat \<Rightarrow> int list \<Rightarrow> int \<times> int" where
  "decimal_search a [] = exact_decimal a"
| "decimal_search a (n # ns) =
     (case decimal_digits a n of Some d \<Rightarrow> d | None \<Rightarrow> decimal_search a ns)"

function strip_zeros :: "int \<Rightarrow> int \<Rightarrow> int \<times> int" where
  "strip_zeros D x = (if 0 < D \<and> D mod 10 = 0 then strip_zeros (D div 10) (x + 1) else (D, x))"
  by pat_completeness auto
termination
  by (relation "measure (\<lambda>(D, _). nat D)") auto

declare strip_zeros.simps [simp del]

definition exponent_text :: "int \<Rightarrow> string" where
  "exponent_text e =
     (if e < 0 then CHR ''-'' else CHR ''+'') # (if \<bar>e\<bar> < 10 then ''0'' else []) @ nat_text \<bar>e\<bar>"

definition decimal_text :: "int \<Rightarrow> int \<Rightarrow> string" where
  "decimal_text D x =
     (let ds = nat_text D; n = ilen ds; p = n + x in
      if - 4 < p \<and> p \<le> 16 then
        (if p \<le> 0 then ''0.'' @ replicate (nat (- p)) CHR ''0'' @ ds
         else if p < n then take (nat p) ds @ ''.'' @ drop (nat p) ds
         else ds @ replicate (nat (p - n)) CHR ''0'' @ ''.0'')
      else take 1 ds @ (if 1 < n then ''.'' @ drop 1 ds else []) @ ''e'' @ exponent_text (p - 1))"

definition float_text :: "rat \<Rightarrow> string" where
  "float_text r =
     (if r = 0 then ''0.0''
      else (if r < 0 then ''-'' else []) @
        (case decimal_search \<bar>r\<bar> [1, 2, 3, 4, 5, 6, 7, 8, 9, 10, 11, 12, 13, 14, 15, 16, 17] of (D, x) \<Rightarrow>
         case strip_zeros D x of (D', x') \<Rightarrow> decimal_text D' x'))"

subsection \<open>Reading a float back\<close>

lemma int_part_append: "int_part ds \<Longrightarrow> ds \<noteq> ''0'' \<Longrightarrow> list_all json_digit es \<Longrightarrow> int_part (ds @ es)"
  by (auto simp: int_part_def hd_append)

lemma int_part_take:
  assumes "int_part ds" "ds \<noteq> ''0''" "0 < k"
  shows "int_part (take k ds)"
proof -
  from assms obtain c cs where "ds = c # cs" by (cases ds) (auto simp: int_part_def)
  then show ?thesis using assms by (cases k) (auto simp: int_part_def list_all_iff dest: in_set_takeD)
qed

text \<open>The positional form: an integer part, a point and at least one digit.\<close>

lemma parse_positional:
  assumes "int_part ds" "list_all json_digit fs" "fs \<noteq> []" "ends_number rest"
  shows "parse_number (ds @ CHR ''.'' # fs @ rest) =
      Inr (PFloat (round_double (of_int (digits_value (ds @ fs)) * 10 powi (- ilen fs))), rest)"
    and "parse_number (CHR ''-'' # ds @ CHR ''.'' # fs @ rest) =
      Inr (PFloat (round_double (- (of_int (digits_value (ds @ fs)) * 10 powi (- ilen fs)))), rest)"
  using assms(3) parse_unsigned [OF assms(1), of "CHR ''.'' # fs @ rest"]
  by (simp_all add: scan_frac_some [OF assms(2,3) ends_numberD [OF assms(4)]] scan_exp_none [OF assms(4)]
      number_value_def)

lemma exponent_text_scan:
  assumes "ends_number rest"
  shows "scan_exp (CHR ''e'' # exponent_text e @ rest) = (Some e, rest)"
proof -
  let ?ds = "(if \<bar>e\<bar> < 10 then ''0'' else []) @ nat_text \<bar>e\<bar>"
  have "list_all json_digit ?ds" using nat_text_digits [of "\<bar>e\<bar>"] by simp
  note run = digit_run [OF this ends_numberD [OF assms]]
  have ds: "digits_value ?ds = \<bar>e\<bar>" "?ds \<noteq> []" by (simp_all add: nat_text_value digits_value_Cons)
  have sign: "scan_sign (exponent_text e @ rest) = (if e < 0 then - 1 else 1, ?ds @ rest)"
    by (simp add: exponent_text_def scan_sign_def)
  show ?thesis
    unfolding scan_exp_def list.case sign prod.case run using ds by simp
qed

lemma parse_scientific:
  assumes "int_part ds" "list_all json_digit fs" "ends_number rest"
  shows "parse_number (ds @ (if fs \<noteq> [] then CHR ''.'' # fs else []) @ CHR ''e'' # exponent_text e @ rest) =
      Inr (PFloat (round_double (of_int (digits_value (ds @ fs)) * 10 powi (e - ilen fs))), rest)"
    and "parse_number (CHR ''-'' # ds @ (if fs \<noteq> [] then CHR ''.'' # fs else []) @ CHR ''e'' # exponent_text e @ rest) =
      Inr (PFloat (round_double (- (of_int (digits_value (ds @ fs)) * 10 powi (e - ilen fs)))), rest)"
proof -
  let ?r = "CHR ''e'' # exponent_text e @ rest"
  have frac: "scan_frac ((if fs \<noteq> [] then CHR ''.'' # fs else []) @ ?r) = (fs, ?r)"
    using scan_frac_some [OF assms(2), of ?r] by (cases "fs = []") (simp_all add: scan_frac_def)
  have stop: "((if fs \<noteq> [] then CHR ''.'' # fs else []) @ ?r) = [] \<or>
      \<not> json_digit (hd ((if fs \<noteq> [] then CHR ''.'' # fs else []) @ ?r))" by simp
  show "parse_number (ds @ (if fs \<noteq> [] then CHR ''.'' # fs else []) @ ?r) =
      Inr (PFloat (round_double (of_int (digits_value (ds @ fs)) * 10 powi (e - ilen fs))), rest)"
    unfolding parse_unsigned(1) [OF assms(1) stop] frac exponent_text_scan [OF assms(3)] prod.case
    by (simp add: number_value_def)
  show "parse_number (CHR ''-'' # ds @ (if fs \<noteq> [] then CHR ''.'' # fs else []) @ ?r) =
      Inr (PFloat (round_double (- (of_int (digits_value (ds @ fs)) * 10 powi (e - ilen fs)))), rest)"
    unfolding parse_unsigned(2) [OF assms(1) stop] frac exponent_text_scan [OF assms(3)] prod.case
    by (simp add: number_value_def)
qed

lemma powi10_shift: "of_int (D * 10 ^ k) * (10 :: rat) powi x = of_int D * 10 powi (x + int k)"
  by (simp add: power_int_add)

lemma int_part_text: "0 < D \<Longrightarrow> int_part (nat_text D) \<and> nat_text D \<noteq> ''0''"
  using nat_text_int_part [of D] nat_text_hd [of D] by auto

text \<open>Whichever notation is chosen, the text of \<open>D * 10 ^ x\<close> is read as the double nearest to it.\<close>

lemma parse_decimal_text:
  assumes D: "0 < D" and rest: "ends_number rest"
  shows "parse_number (decimal_text D x @ rest) = Inr (PFloat (round_double (of_int D * 10 powi x)), rest)"
    and "parse_number (CHR ''-'' # decimal_text D x @ rest) =
      Inr (PFloat (round_double (- (of_int D * 10 powi x))), rest)"
proof -
  let ?ds = "nat_text D"
  let ?n = "ilen ?ds"
  let ?p = "?n + x"
  have ds: "int_part ?ds" "?ds \<noteq> ''0''" using int_part_text [OF D] by auto
  have dig: "list_all json_digit ?ds" using D by (simp add: nat_text_digits)
  have val: "digits_value ?ds = D" using D by (simp add: nat_text_value)
  have zero: "int_part ''0''" by (simp add: int_part_def)
  have n: "0 < ?n" by (simp add: ilen_def)
  consider (small) "- 4 < ?p" "?p \<le> 0" | (mid) "0 < ?p" "?p \<le> 16" "?p < ?n"
    | (large) "0 < ?p" "?p \<le> 16" "?n \<le> ?p" | (sci) "\<not> (- 4 < ?p \<and> ?p \<le> 16)"
    by linarith
  then have "parse_number (decimal_text D x @ rest) =
      Inr (PFloat (round_double (of_int D * 10 powi x)), rest) \<and>
    parse_number (CHR ''-'' # decimal_text D x @ rest) =
      Inr (PFloat (round_double (- (of_int D * 10 powi x))), rest)"
  proof cases
    case small
    let ?fs = "replicate (nat (- ?p)) CHR ''0'' @ ?ds"
    have "list_all json_digit ?fs" "?fs \<noteq> []" using dig by (auto simp: list_all_iff)
    note parse = parse_positional [OF zero this rest]
    have "digits_value (''0'' @ ?fs) = D" by (simp add: digits_value_append digits_value_Cons val)
    moreover have "- ilen ?fs = x" using small by (simp add: ilen_def)
    ultimately show ?thesis using small parse by (simp add: decimal_text_def Let_def)
  next
    case mid
    let ?is = "take (nat ?p) ?ds" and ?fs = "drop (nat ?p) ?ds"
    have "int_part ?is" using ds mid by (intro int_part_take) auto
    moreover have "list_all json_digit ?fs" using dig by (auto simp: list_all_iff dest: in_set_dropD)
    moreover have "?fs \<noteq> []" using mid by (simp add: ilen_def)
    moreover note parse_positional [of ?is ?fs, OF _ _ _ rest]
    ultimately have parse:
      "parse_number (?is @ CHR ''.'' # ?fs @ rest) =
         Inr (PFloat (round_double (of_int (digits_value (?is @ ?fs)) * 10 powi (- ilen ?fs))), rest)"
      "parse_number (CHR ''-'' # ?is @ CHR ''.'' # ?fs @ rest) =
         Inr (PFloat (round_double (- (of_int (digits_value (?is @ ?fs)) * 10 powi (- ilen ?fs)))), rest)"
      by blast+
    have "- ilen ?fs = x" using mid by (simp add: ilen_def)
    then show ?thesis using mid parse val by (simp add: decimal_text_def Let_def)
  next
    case large
    let ?is = "?ds @ replicate (nat (?p - ?n)) CHR ''0''"
    have "int_part ?is" using ds by (intro int_part_append) (simp_all add: list_all_iff)
    note parse = parse_positional [OF this _ _ rest, of "''0''"]
    have "digits_value (?is @ ''0'') = D * 10 ^ (nat x + 1)"
      using large by (simp add: digits_value_append digits_value_Cons val)
    then have "of_int (digits_value (?is @ ''0'')) * (10 :: rat) powi (- ilen ''0'') = of_int D * 10 powi x"
      using large powi10_shift [of D "nat x + 1" "- 1"] by simp
    then show ?thesis using large parse n by (simp add: decimal_text_def Let_def)
  next
    case sci
    let ?is = "take 1 ?ds" and ?fs = "drop 1 ?ds"
    have "int_part ?is" "list_all json_digit ?fs"
      using ds dig by (auto intro: int_part_take simp: list_all_iff dest: in_set_dropD)
    note parse = parse_scientific [OF this rest, of "?p - 1"]
    have ex: "(?p - 1) - ilen ?fs = x" and long: "?fs \<noteq> [] \<longleftrightarrow> 1 < ?n"
      using n by (auto simp: ilen_def of_nat_diff Suc_le_eq)
    from long have "decimal_text D x =
        ?is @ (if ?fs \<noteq> [] then CHR ''.'' # ?fs else []) @ CHR ''e'' # exponent_text (?p - 1)"
      unfolding decimal_text_def Let_def if_not_P [OF sci] by simp
    then show ?thesis using parse [unfolded ex] val by simp
  qed
  then show "parse_number (decimal_text D x @ rest) = Inr (PFloat (round_double (of_int D * 10 powi x)), rest)"
    "parse_number (CHR ''-'' # decimal_text D x @ rest) =
      Inr (PFloat (round_double (- (of_int D * 10 powi x))), rest)" by auto
qed

text \<open>Stripping zeros keeps the number; the search returns a decimal of the double.\<close>

lemma strip_zeros_value:
  "strip_zeros D x = (D', x') \<Longrightarrow> 0 < D \<Longrightarrow>
     0 < D' \<and> of_int D' * (10 :: rat) powi x' = of_int D * 10 powi x"
proof (induction D x arbitrary: D' x' rule: strip_zeros.induct)
  case (1 D x)
  show ?case
  proof (cases "D mod 10 = 0")
    case True
    then have "D = 10 * (D div 10)" by presburger
    then have "of_int D = (10 :: rat) * of_int (D div 10)" by (metis of_int_mult of_int_numeral)
    then have "of_int (D div 10) * (10 :: rat) powi (x + 1) = of_int D * 10 powi x"
      by (simp add: power_int_add)
    moreover have "0 < D div 10" using True "1.prems" by presburger
    ultimately show ?thesis using "1.IH" "1.prems" True by (simp add: strip_zeros.simps [of D])
  next
    case False
    with "1.prems" show ?thesis by (simp add: strip_zeros.simps [of D])
  qed
qed

lemma is_double_scaled:
  assumes "is_double a" "0 < a"
  shows "\<exists>m k. a = of_int m * 2 powi k \<and> - 1074 \<le> k"
proof -
  have "a = of_int (round_even (\<bar>a\<bar> / 2 powi double_exp \<bar>a\<bar>)) * 2 powi double_exp \<bar>a\<bar>"
    using assms by (auto simp: is_double_def round_double_def Let_def split: if_splits)
  moreover have "- 1074 \<le> double_exp \<bar>a\<bar>" by (simp add: double_exp_def)
  ultimately show ?thesis by blast
qed

lemma scaled_decimal:
  assumes a: "a = of_int m * 2 powi k" and k: "0 \<le> k + n" and n: "0 \<le> n"
  shows "of_int \<lfloor>a * 10 powi n\<rfloor> = (a * 10 powi n :: rat)"
proof -
  have "(10 :: rat) powi n = 5 powi n * 2 powi n"
    by (metis mult_2_right numeral_Bit0 numeral_Bit1 power_int_mult_distrib)
  then have "a * 10 powi n = of_int m * 5 powi n * 2 powi (k + n)"
    by (simp add: a powi_add)
  also have "\<dots> = of_int (m * 5 ^ nat n * 2 ^ nat (k + n))"
    using k n by (simp add: power_int_def)
  finally show ?thesis by (metis floor_of_int)
qed

lemma exact_decimal_value:
  assumes "is_double a" "0 < a" "exact_decimal a = (D, x)"
  shows "of_int D * 10 powi x = a"
proof -
  obtain m k where a: "a = of_int m * 2 powi k" and k: "- 1074 \<le> k"
    using is_double_scaled [OF assms(1,2)] by blast
  let ?n = MAX_FRACTION_DIGITS
  have "of_int \<lfloor>a * 10 powi ?n\<rfloor> = a * 10 powi ?n"
    using a k by (intro scaled_decimal [of a m k ?n]) (simp_all add: MAX_FRACTION_DIGITS_def)
  moreover have "D = \<lfloor>a * 10 powi ?n\<rfloor>" "x = - ?n"
    using assms(3) unfolding exact_decimal_def by simp_all
  ultimately have "of_int D = a * 10 powi ?n" by (simp only:)
  then show ?thesis using \<open>x = - ?n\<close> by (simp add: power_int_minus)
qed

lemma decimal_digits_denotes: "decimal_digits a n = Some (D, x) \<Longrightarrow> denotes a D x"
  by (auto simp: decimal_digits_def Let_def split: if_splits)

lemma decimal_search_denotes:
  assumes "is_double a" "0 < a"
  shows "decimal_search a ns = (D, x) \<Longrightarrow> denotes a D x"
proof (induction ns)
  case Nil
  then show ?case
    using exact_decimal_value [OF assms] assms(1) by (simp add: denotes_def is_double_def)
next
  case (Cons n ns)
  then show ?case by (auto split: option.splits dest: decimal_digits_denotes)
qed

lemma round_double_nonpos: "r \<le> 0 \<Longrightarrow> round_double r = Finite a \<Longrightarrow> a \<le> 0"
proof -
  assume r: "r \<le> 0" "round_double r = Finite a"
  let ?k = "double_exp \<bar>r\<bar>"
  have "0 \<le> round_even (\<bar>r\<bar> / 2 powi ?k)" by (rule round_even_nonneg) simp
  then have "0 \<le> of_int (round_even (\<bar>r\<bar> / 2 powi ?k)) * (2 :: rat) powi ?k" by simp
  with r show ?thesis by (auto simp: round_double_def Let_def split: if_splits)
qed

lemma denotes_pos: "denotes a D x \<Longrightarrow> 0 < a \<Longrightarrow> 0 < D"
proof (rule ccontr)
  assume D: "denotes a D x" "0 < a" "\<not> 0 < D"
  then have "of_int D * (10 :: rat) powi x \<le> 0" by (intro mult_nonpos_nonneg) simp_all
  with D show False using round_double_nonpos [of "of_int D * 10 powi x" a] by (simp add: denotes_def)
qed

lemma round_double_minus:
  assumes "round_double r = Finite d"
  shows "round_double (- r) = Finite (- d)"
  using assms by (auto simp: round_double_def Let_def split: if_splits)

theorem parse_float_text:
  assumes "is_double r" "ends_number rest"
  shows "parse_number (float_text r @ rest) = Inr (PFloat (Finite r), rest)"
proof (cases "r = 0")
  case True
  then show ?thesis
    using parse_positional(1) [of "''0''" "''0''" rest] assms(2)
    by (simp add: float_text_def int_part_def digits_value_Cons)
next
  case False
  define a where "a = \<bar>r\<bar>"
  have a: "0 < a" using False by (simp add: a_def)
  have "is_double a"
    using assms(1) round_double_minus [of r r] by (simp add: is_double_def a_def abs_if)
  obtain D x where D: "decimal_search a [1, 2, 3, 4, 5, 6, 7, 8, 9, 10, 11, 12, 13, 14, 15, 16, 17] = (D, x)"
    by fastforce
  then have den: "denotes a D x" by (rule decimal_search_denotes [OF \<open>is_double a\<close> a])
  then have "0 < D" using a by (rule denotes_pos)
  obtain D' x' where D': "strip_zeros D x = (D', x')" by fastforce
  note v = strip_zeros_value [OF D' \<open>0 < D\<close>]
  then have rd: "round_double (of_int D' * 10 powi x') = Finite a" using den by (simp add: denotes_def)
  note parse = parse_decimal_text [OF conjunct1 [OF v] assms(2), of x']
  have written: "float_text r = (if r < 0 then ''-'' else []) @ decimal_text D' x'"
    using False unfolding float_text_def a_def [symmetric] D prod.case D' by simp
  show ?thesis
  proof (cases "r < 0")
    case True
    then show ?thesis using parse(2) written round_double_minus [OF rd] by (simp add: a_def)
  next
    case False
    then show ?thesis using parse(1) written rd by (simp add: a_def)
  qed
qed

end
