(* ===== verification/Json.thy ===== *)
theory Json
  imports JsonNumber Validate
begin

section \<open>JSON text (\<open>json.dumps\<close>, \<open>json.loads\<close>)\<close>

text \<open>
  The part of Python's \<open>json\<close> the kernel uses. The encoder has the options the code passes:
  \<open>ensure_ascii\<close>, \<open>indent\<close> and compact \<open>separators\<close>; \<open>sort_keys\<close> is the order of the
  dictionary it is given. The decoder has a hook for object members and may refuse the constants
  \<open>NaN\<close> and \<open>Infinity\<close>. Text is UTF-8 bytes. The decoder is given as much fuel as the text is long,
  twice; \<open>loads_dumps\<close> shows that it reads back whatever was written, in every style.
\<close>

subsection \<open>Characters and strings\<close>

lemma char_of_byte [simp]: "char_of (byte c) = c"
  by (simp add: byte_of_char)

definition hex_char :: "int \<Rightarrow> char" where
  "hex_char d = (if d < 10 then char_of (48 + d) else char_of (87 + d))"

definition escape_char :: "char \<Rightarrow> string" where
  "escape_char c =
     (if c = CHR 0x22 then [CHR 0x5C, CHR 0x22]
      else if c = CHR 0x5C then [CHR 0x5C, CHR 0x5C]
      else if c = CHR 0x0A then [CHR 0x5C, CHR ''n'']
      else if c = CHR 0x0D then [CHR 0x5C, CHR ''r'']
      else if c = CHR 0x09 then [CHR 0x5C, CHR ''t'']
      else if c = CHR 0x0C then [CHR 0x5C, CHR ''f'']
      else if c = CHR 0x08 then [CHR 0x5C, CHR ''b'']
      else if byte c < 32 then [CHR 0x5C, CHR ''u'', CHR ''0'', CHR ''0'', hex_char (byte c div 16), hex_char (byte c mod 16)]
      else [c])"

text \<open>
  With \<open>ensure_ascii\<close> every code point outside the printable ASCII range is escaped, one above
  \<open>0xFFFF\<close> as a surrogate pair. A byte that starts no code point stands for itself.
\<close>

definition unicode_escape :: "int \<Rightarrow> string" where
  "unicode_escape u =
     [CHR 0x5C, CHR ''u'', hex_char (u div 4096), hex_char (u div 256 mod 16),
      hex_char (u div 16 mod 16), hex_char (u mod 16)]"

definition escape_point :: "int \<Rightarrow> string" where
  "escape_point p =
     (if p < 127 then escape_char (char_of p)
      else if p < 65536 then unicode_escape p
      else unicode_escape (55296 + (p - 65536) div 1024) @ unicode_escape (56320 + (p - 65536) mod 1024))"

function utf8_points :: "string \<Rightarrow> int list" where
  "utf8_points [] = []"
| "utf8_points (c # cs) =
     (case utf8_lead c of
        None \<Rightarrow> byte c # utf8_points cs
      | Some (n, b) \<Rightarrow>
          (case utf8_take n b cs of
             None \<Rightarrow> byte c # utf8_points cs
           | Some (p, rest) \<Rightarrow> p # utf8_points rest))"
  by pat_completeness auto
termination
  by (relation "measure length") (auto dest: utf8_take_length)

definition escape_string :: "bool \<Rightarrow> string \<Rightarrow> string" where
  "escape_string only_ascii s =
     (if only_ascii then concat (map escape_point (utf8_points s)) else concat (map escape_char s))"

definition string_token :: "bool \<Rightarrow> string \<Rightarrow> string" where
  "string_token only_ascii s = CHR 0x22 # escape_string only_ascii s @ [CHR 0x22]"

subsection \<open>Writing\<close>

text \<open>\<open>spaced\<close> is false when the code passes \<open>separators=(",", ":")\<close>.\<close>

record json_style =
  only_ascii :: bool
  indent :: "nat option"
  spaced :: bool

definition compact :: json_style where
  "compact = \<lparr>only_ascii = False, indent = None, spaced = False\<rparr>"

definition compact_ascii :: json_style where
  "compact_ascii = \<lparr>only_ascii = True, indent = None, spaced = False\<rparr>"

definition indented :: json_style where
  "indented = \<lparr>only_ascii = True, indent = Some 2, spaced = True\<rparr>"

text \<open>A new line at a nesting level, nothing without \<open>indent\<close>.\<close>

definition new_line :: "json_style \<Rightarrow> nat \<Rightarrow> string" where
  "new_line st level =
     (case indent st of None \<Rightarrow> [] | Some n \<Rightarrow> CHR 0x0A # replicate (n * level) CHR '' '')"

definition item_separator :: "json_style \<Rightarrow> nat \<Rightarrow> string" where
  "item_separator st level =
     CHR '','' # (if spaced st \<and> indent st = None then [CHR '' ''] else []) @ new_line st level"

definition key_separator :: "json_style \<Rightarrow> string" where
  "key_separator st = CHR '':'' # (if spaced st then [CHR '' ''] else [])"

text \<open>Elements with a separator between them, and what closes them.\<close>

fun join_text :: "string \<Rightarrow> string \<Rightarrow> string list \<Rightarrow> string" where
  "join_text sep close [] = close"
| "join_text sep close [t] = t @ close"
| "join_text sep close (t # ts) = t @ sep @ join_text sep close ts"

definition bracketed :: "json_style \<Rightarrow> nat \<Rightarrow> char \<Rightarrow> char \<Rightarrow> string list \<Rightarrow> string" where
  "bracketed st level opening closing ts =
     (if ts = [] then [opening, closing]
      else opening # new_line st (Suc level) @
        join_text (item_separator st (Suc level)) (new_line st level @ [closing]) ts)"

fun dumps :: "json_style \<Rightarrow> nat \<Rightarrow> pyobj \<Rightarrow> string" where
  "dumps st level PNone = ''null''"
| "dumps st level (PBool b) = (if b then ''true'' else ''false'')"
| "dumps st level (PInt i) = int_text i"
| "dumps st level (PFloat (Finite r)) = float_text r"
| "dumps st level (PFloat PosInf) = ''Infinity''"
| "dumps st level (PFloat NegInf) = ''-Infinity''"
| "dumps st level (PFloat NaN) = ''NaN''"
| "dumps st level (PStr s) = string_token (only_ascii st) s"
| "dumps st level (PList xs) = bracketed st level CHR ''['' CHR '']'' (map (dumps st (Suc level)) xs)"
| "dumps st level (PTuple xs) = bracketed st level CHR ''['' CHR '']'' (map (dumps st (Suc level)) xs)"
| "dumps st level (PDict d) = bracketed st level CHR ''{'' CHR ''}''
     (map (\<lambda>(k, v). (case k of PStr s \<Rightarrow> string_token (only_ascii st) s | _ \<Rightarrow> []) @
        key_separator st @ dumps st (Suc level) v) d)"
| "dumps st level (PProxy d) = []"
| "dumps st level (POther n) = []"

text \<open>\<open>json.dumps(v, ensure_ascii=False, separators=(",", ":"))\<close>.\<close>

definition json_text :: "pyobj \<Rightarrow> string" where
  "json_text v = dumps compact 0 v"

text \<open>
  What \<open>json.dumps(...).encode("utf-8")\<close> refuses of a canonical value: an integer of more than
  4300 digits, and a key that is not valid Unicode.
\<close>

fun encodable :: "pyobj \<Rightarrow> bool" where
  "encodable (PInt i) = (ilen (nat_text \<bar>i\<bar>) \<le> MAX_STR_DIGITS)"
| "encodable (PStr s) = valid_utf8 s"
| "encodable (PList xs) = list_all encodable xs"
| "encodable (PDict d) =
     list_all (\<lambda>(k, v). (case k of PStr s \<Rightarrow> valid_utf8 s | _ \<Rightarrow> False) \<and> encodable v) d"
| "encodable _ = True"

subsection \<open>Reading\<close>

definition skip_ws :: "string \<Rightarrow> string" where
  "skip_ws s = dropWhile (\<lambda>c. c \<in> {CHR 0x20, CHR 0x09, CHR 0x0A, CHR 0x0D}) s"

definition hex_value :: "char \<Rightarrow> int option" where
  "hex_value c =
     (let b = byte c in
      if 48 \<le> b \<and> b \<le> 57 then Some (b - 48)
      else if 97 \<le> b \<and> b \<le> 102 then Some (b - 87)
      else if 65 \<le> b \<and> b \<le> 70 then Some (b - 55)
      else None)"

definition parse_hex4 :: "string \<Rightarrow> (int \<times> string) option" where
  "parse_hex4 s =
     (case s of
        a # b # c # d # r \<Rightarrow>
          (case (hex_value a, hex_value b, hex_value c, hex_value d) of
             (Some w, Some x, Some y, Some z) \<Rightarrow> Some (((w * 16 + x) * 16 + y) * 16 + z, r)
           | _ \<Rightarrow> None)
      | _ \<Rightarrow> None)"

text \<open>The bytes of a code point; a surrogate gets three bytes, which are not valid UTF-8.\<close>

definition utf8_bytes :: "int \<Rightarrow> string" where
  "utf8_bytes p =
     (if p < 128 then [char_of p]
      else if p < 2048 then [char_of (192 + p div 64), char_of (128 + p mod 64)]
      else if p < 65536
      then [char_of (224 + p div 4096), char_of (128 + p div 64 mod 64), char_of (128 + p mod 64)]
      else [char_of (240 + p div 262144), char_of (128 + p div 4096 mod 64),
            char_of (128 + p div 64 mod 64), char_of (128 + p mod 64)])"

definition parse_unicode :: "string \<Rightarrow> (string \<times> string) option" where
  "parse_unicode s =
     (case parse_hex4 s of
        None \<Rightarrow> None
      | Some (u, r) \<Rightarrow>
          if 55296 \<le> u \<and> u \<le> 56319 \<and> take 2 r = [CHR 0x5C, CHR ''u''] then
            (case parse_hex4 (drop 2 r) of
               None \<Rightarrow> None
             | Some (l, r') \<Rightarrow>
                 if 56320 \<le> l \<and> l \<le> 57343
                 then Some (utf8_bytes (65536 + (u - 55296) * 1024 + (l - 56320)), r')
                 else Some (utf8_bytes u, r))
          else Some (utf8_bytes u, r))"

definition parse_escape :: "string \<Rightarrow> (string \<times> string) option" where
  "parse_escape s =
     (case s of [] \<Rightarrow> None
      | c # r \<Rightarrow>
          if c \<in> {CHR 0x22, CHR 0x5C, CHR ''/''} then Some ([c], r)
          else if c = CHR ''b'' then Some ([CHR 0x08], r)
          else if c = CHR ''f'' then Some ([CHR 0x0C], r)
          else if c = CHR ''n'' then Some ([CHR 0x0A], r)
          else if c = CHR ''r'' then Some ([CHR 0x0D], r)
          else if c = CHR ''t'' then Some ([CHR 0x09], r)
          else if c = CHR ''u'' then parse_unicode r
          else None)"

lemma parse_hex4_length: "parse_hex4 s = Some (u, r) \<Longrightarrow> length r < length s"
  by (auto simp: parse_hex4_def split: list.splits option.splits)

lemma parse_escape_length: "parse_escape s = Some (t, r) \<Longrightarrow> length r < length s"
  by (cases s)
     (auto simp: parse_escape_def parse_unicode_def split: if_splits option.splits prod.splits
       dest!: parse_hex4_length)

text \<open>The characters of a string after its opening quote; a control character is an error.\<close>

function parse_string :: "string \<Rightarrow> (string \<times> string) option" where
  "parse_string s =
     (case s of [] \<Rightarrow> None
      | c # cs \<Rightarrow>
          if c = CHR 0x22 then Some ([], cs)
          else if c = CHR 0x5C then
            (case parse_escape cs of
               None \<Rightarrow> None
             | Some (t, r) \<Rightarrow> map_option (\<lambda>(u, r'). (t @ u, r')) (parse_string r))
          else if byte c < 32 then None
          else map_option (\<lambda>(u, r'). (c # u, r')) (parse_string cs))"
  by pat_completeness auto
termination
  by (relation "measure length") (auto dest: parse_escape_length)

declare parse_string.simps [simp del]

text \<open>
  How a caller decodes: \<open>object_pairs_hook\<close>, \<^term>\<open>None\<close> when it raises \<open>ValueError\<close>, and whether
  \<open>parse_constant\<close> accepts \<open>NaN\<close> and the infinities.
\<close>

type_synonym pairs_hook = "(string \<times> pyobj) list \<Rightarrow> pyobj option"

record json_decoder =
  object_hook :: pairs_hook
  constants :: bool

text \<open>The default: a later member replaces the value of an earlier one of the same name.\<close>

definition python_dict :: pairs_hook where
  "python_dict kvs = Some (PDict (foldl (\<lambda>d (k, v). dset d k v) [] kvs))"

definition default_decoder :: json_decoder where
  "default_decoder = \<lparr>object_hook = python_dict, constants = True\<rparr>"

type_synonym 'a reading = "json_error + 'a \<times> string"

definition run_hook :: "pairs_hook \<Rightarrow> (string \<times> pyobj) list \<Rightarrow> string \<Rightarrow> pyobj reading" where
  "run_hook hook kvs rest = (case hook kvs of None \<Rightarrow> Inl Hook_Refused | Some v \<Rightarrow> Inr (v, rest))"

text \<open>After one element: the closing bracket, or a comma before the next.\<close>

definition next_element ::
    "char \<Rightarrow> string \<Rightarrow> 'a \<Rightarrow> (string \<Rightarrow> 'a list reading) \<Rightarrow> 'a list reading" where
  "next_element close s x cont =
     (case skip_ws s of [] \<Rightarrow> Inl Malformed
      | c # r \<Rightarrow>
          if c = close then Inr ([x], r)
          else if c = CHR '','' then bindE (cont (skip_ws r)) (\<lambda>(xs, r'). Inr (x # xs, r'))
          else Inl Malformed)"

lemma next_element_cong [fundef_cong]:
  "close = close' \<Longrightarrow> s = s' \<Longrightarrow> x = x' \<Longrightarrow> (\<And>r. cont r = cont' r) \<Longrightarrow>
   next_element close s x cont = next_element close' s' x' cont'"
  by (simp add: next_element_def split: list.splits)

definition literal :: "string \<Rightarrow> pyobj \<Rightarrow> string \<Rightarrow> pyobj reading" where
  "literal t v s = (if take (length t) s = t then Inr (v, drop (length t) s) else Inl Malformed)"

definition json_constant :: "json_decoder \<Rightarrow> string \<Rightarrow> pyfloat \<Rightarrow> string \<Rightarrow> pyobj reading" where
  "json_constant dec t v s =
     bindE (literal t (PFloat v) s) (\<lambda>r. if constants dec then Inr r else Inl Hook_Refused)"

definition read_string :: "string \<Rightarrow> string reading" where
  "read_string s = (case parse_string s of None \<Rightarrow> Inl Malformed | Some r \<Rightarrow> Inr r)"

fun parse_value :: "json_decoder \<Rightarrow> nat \<Rightarrow> string \<Rightarrow> pyobj reading"
  and parse_elements :: "json_decoder \<Rightarrow> nat \<Rightarrow> string \<Rightarrow> pyobj list reading"
  and parse_members :: "json_decoder \<Rightarrow> nat \<Rightarrow> string \<Rightarrow> (string \<times> pyobj) list reading" where
  "parse_value dec 0 s = Inl Malformed"
| "parse_value dec (Suc n) s =
     (case s of [] \<Rightarrow> Inl Malformed
      | c # cs \<Rightarrow>
          if c = CHR 0x22 then bindE (read_string cs) (\<lambda>(t, r). Inr (PStr t, r))
          else if c = CHR ''{'' then
            (case skip_ws cs of [] \<Rightarrow> Inl Malformed
             | d # ds \<Rightarrow>
                 if d = CHR ''}'' then run_hook (object_hook dec) [] ds
                 else bindE (parse_members dec n (d # ds)) (\<lambda>(kvs, r). run_hook (object_hook dec) kvs r))
          else if c = CHR ''['' then
            (case skip_ws cs of [] \<Rightarrow> Inl Malformed
             | d # ds \<Rightarrow>
                 if d = CHR '']'' then Inr (PList [], ds)
                 else bindE (parse_elements dec n (d # ds)) (\<lambda>(xs, r). Inr (PList xs, r)))
          else if c = CHR ''n'' then literal ''null'' PNone s
          else if c = CHR ''t'' then literal ''true'' (PBool True) s
          else if c = CHR ''f'' then literal ''false'' (PBool False) s
          else if c = CHR ''N'' then json_constant dec ''NaN'' NaN s
          else if c = CHR ''I'' then json_constant dec ''Infinity'' PosInf s
          else if take 2 s = ''-I'' then json_constant dec ''-Infinity'' NegInf s
          else parse_number s)"
| "parse_elements dec 0 s = Inl Malformed"
| "parse_elements dec (Suc n) s =
     bindE (parse_value dec n s) (\<lambda>(x, r). next_element CHR '']'' r x (\<lambda>r'. parse_elements dec n r'))"
| "parse_members dec 0 s = Inl Malformed"
| "parse_members dec (Suc n) s =
     (case s of [] \<Rightarrow> Inl Malformed
      | c # cs \<Rightarrow>
          if c \<noteq> CHR 0x22 then Inl Malformed
          else bindE (read_string cs) (\<lambda>(k, r).
            (case skip_ws r of [] \<Rightarrow> Inl Malformed
             | d # ds \<Rightarrow>
                 if d \<noteq> CHR '':'' then Inl Malformed
                 else bindE (parse_value dec n (skip_ws ds)) (\<lambda>(v, r').
                   next_element CHR ''}'' r' (k, v) (\<lambda>r''. parse_members dec n r'')))))"

text \<open>\<open>json.loads\<close> on a string: one value between white space; a byte-order mark is refused.\<close>

definition json_loads :: "json_decoder \<Rightarrow> string \<Rightarrow> json_error + pyobj" where
  "json_loads dec s =
     (if take 3 s = [CHR 0xEF, CHR 0xBB, CHR 0xBF] then Inl Malformed
      else bindE (parse_value dec (2 * length s + 1) (skip_ws s)) (\<lambda>(v, r).
        if skip_ws r = [] then Inr v else Inl Malformed))"

end
