(* ===== verification/Digest.thy ===== *)
theory Digest
  imports Json "HOL-Library.Word"
begin

section \<open>Digests and base64 (\<open>hashlib\<close>, \<open>hmac\<close>, \<open>base64\<close>)\<close>

text \<open>
  The three library functions the sealed tokens rest on: SHA-256 on 32-bit words, HMAC over it,
  and URL-safe base64 without padding. Bytes are \<^typ>\<open>char\<close>s. The digest is computed, not
  assumed; no theorem relies on it being free of collisions.
\<close>

unbundle bit_operations_syntax

subsection \<open>SHA-256\<close>

type_synonym w32 = "32 word"

definition sha_k :: "w32 list" where
  "sha_k =
     [1116352408, 1899447441, 3049323471, 3921009573, 961987163, 1508970993, 2453635748, 2870763221,
      3624381080, 310598401, 607225278, 1426881987, 1925078388, 2162078206, 2614888103, 3248222580,
      3835390401, 4022224774, 264347078, 604807628, 770255983, 1249150122, 1555081692, 1996064986,
      2554220882, 2821834349, 2952996808, 3210313671, 3336571891, 3584528711, 113926993, 338241895,
      666307205, 773529912, 1294757372, 1396182291, 1695183700, 1986661051, 2177026350, 2456956037,
      2730485921, 2820302411, 3259730800, 3345764771, 3516065817, 3600352804, 4094571909, 275423344,
      430227734, 506948616, 659060556, 883997877, 958139571, 1322822218, 1537002063, 1747873779,
      1955562222, 2024104815, 2227730452, 2361852424, 2428436474, 2756734187, 3204031479, 3329325298]"

definition sha_init :: "w32 list" where
  "sha_init =
     [1779033703, 3144134277, 1013904242, 2773480762, 1359893119, 2600822924, 528734635, 1541459225]"

definition rotr :: "nat \<Rightarrow> w32 \<Rightarrow> w32" where
  "rotr n x = drop_bit n x OR push_bit (32 - n) x"

fun bytes_words :: "string \<Rightarrow> w32 list" where
  "bytes_words (a # b # c # d # r) =
     word_of_int (((byte a * 256 + byte b) * 256 + byte c) * 256 + byte d) # bytes_words r"
| "bytes_words _ = []"

definition word_bytes :: "w32 \<Rightarrow> string" where
  "word_bytes w = map (\<lambda>n. char_of (uint w div 2 ^ n)) [24, 16, 8, 0]"

text \<open>\<open>n\<close> in eight bytes, the highest first.\<close>

definition length_bytes :: "int \<Rightarrow> string" where
  "length_bytes n = map (\<lambda>k. char_of (n div 2 ^ k)) [56, 48, 40, 32, 24, 16, 8, 0]"

definition sha_pad :: "string \<Rightarrow> string" where
  "sha_pad m = m @ CHR 0x80 # replicate (nat ((55 - ilen m) mod 64)) CHR 0x00 @ length_bytes (8 * ilen m)"

text \<open>The message schedule, newest word first: each new word comes from four earlier ones.\<close>

definition schedule_next :: "w32 list \<Rightarrow> w32" where
  "schedule_next ws =
     (let x = ws ! 14; y = ws ! 1 in
      ws ! 15 + (rotr 7 x XOR rotr 18 x XOR drop_bit 3 x) + ws ! 6
      + (rotr 17 y XOR rotr 19 y XOR drop_bit 10 y))"

fun schedule :: "nat \<Rightarrow> w32 list \<Rightarrow> w32 list" where
  "schedule 0 ws = rev ws"
| "schedule (Suc n) ws = schedule n (schedule_next ws # ws)"

fun sha_round :: "w32 list \<Rightarrow> w32 \<times> w32 \<Rightarrow> w32 list" where
  "sha_round [a, b, c, d, e, f, g, h] (k, w) =
     (let t1 = h + (rotr 6 e XOR rotr 11 e XOR rotr 25 e) + ((e AND f) XOR (NOT e AND g)) + k + w;
          t2 = (rotr 2 a XOR rotr 13 a XOR rotr 22 a) + ((a AND b) XOR (a AND c) XOR (b AND c)) in
      [t1 + t2, a, b, c, d + t1, e, f, g])"
| "sha_round s kw = s"

definition sha_block :: "w32 list \<Rightarrow> w32 list \<Rightarrow> w32 list" where
  "sha_block s ws = map2 (+) s (foldl sha_round s (zip sha_k (schedule 48 (rev ws))))"

function sha_blocks :: "w32 list \<Rightarrow> w32 list \<Rightarrow> w32 list" where
  "sha_blocks s ws = (if ws = [] then s else sha_blocks (sha_block s (take 16 ws)) (drop 16 ws))"
  by pat_completeness auto
termination
  by (relation "measure (\<lambda>(_, ws). length ws)") auto

declare sha_blocks.simps [simp del]

definition sha256 :: "string \<Rightarrow> string" where
  "sha256 m = concat (map word_bytes (sha_blocks sha_init (bytes_words (sha_pad m))))"

definition hex_text :: "string \<Rightarrow> string" where
  "hex_text s = concat (map (\<lambda>c. [hex_char (byte c div 16), hex_char (byte c mod 16)]) s)"

lemma sha_round_length [simp]: "length (sha_round s kw) = length s"
  by (induction s kw rule: sha_round.induct) (simp_all add: Let_def)

lemma foldl_sha_round_length [simp]: "length (foldl sha_round s kws) = length s"
  by (induction kws arbitrary: s) simp_all

lemma sha_blocks_length [simp]: "length (sha_blocks s ws) = length s"
proof (induction s ws rule: sha_blocks.induct)
  case (1 s ws)
  then show ?case by (subst sha_blocks.simps) (simp add: sha_block_def)
qed

lemma sha256_length [simp]: "length (sha256 m) = 32"
proof -
  have len: "length (concat (map word_bytes ws)) = 4 * length ws" for ws
    by (induction ws) (simp_all add: word_bytes_def)
  show ?thesis by (simp add: sha256_def len sha_init_def)
qed

lemma hex_text_length [simp]: "length (hex_text s) = 2 * length s"
  by (induction s) (simp_all add: hex_text_def)

subsection \<open>HMAC\<close>

definition xor_byte :: "int \<Rightarrow> char \<Rightarrow> char" where
  "xor_byte k c = char_of (byte c XOR k)"

definition hmac_key :: "string \<Rightarrow> string" where
  "hmac_key k = (let k' = (if 64 < ilen k then sha256 k else k) in
     k' @ replicate (64 - length k') CHR 0x00)"

definition hmac_sha256 :: "string \<Rightarrow> string \<Rightarrow> string" where
  "hmac_sha256 k m =
     sha256 (map (xor_byte 0x5c) (hmac_key k) @ sha256 (map (xor_byte 0x36) (hmac_key k) @ m))"

lemma hmac_sha256_length [simp]: "length (hmac_sha256 k m) = 32"
  by (simp add: hmac_sha256_def)

subsection \<open>URL-safe base64 without padding\<close>

definition b64_char :: "int \<Rightarrow> char" where
  "b64_char n =
     (if n < 26 then char_of (65 + n) else if n < 52 then char_of (71 + n)
      else if n < 62 then char_of (n - 4) else if n = 62 then CHR ''-'' else CHR ''_'')"

definition b64_value :: "char \<Rightarrow> int option" where
  "b64_value c =
     (let b = byte c in
      if 65 \<le> b \<and> b \<le> 90 then Some (b - 65)
      else if 97 \<le> b \<and> b \<le> 122 then Some (b - 71)
      else if 48 \<le> b \<and> b \<le> 57 then Some (b + 4)
      else if b = 45 then Some 62
      else if b = 95 then Some 63
      else None)"

fun sextets :: "string \<Rightarrow> int list" where
  "sextets [] = []"
| "sextets [a] = [byte a div 4, byte a mod 4 * 16]"
| "sextets [a, b] = [byte a div 4, byte a mod 4 * 16 + byte b div 16, byte b mod 16 * 4]"
| "sextets (a # b # c # r) =
     byte a div 4 # (byte a mod 4 * 16 + byte b div 16) # (byte b mod 16 * 4 + byte c div 64) #
     byte c mod 64 # sextets r"

definition b64encode :: "string \<Rightarrow> string" where
  "b64encode s = map b64_char (sextets s)"

text \<open>\<open>base64.b64decode\<close> after padding: one character beyond a multiple of four is an error.\<close>

fun unsextets :: "int list \<Rightarrow> string option" where
  "unsextets [] = Some []"
| "unsextets [w] = None"
| "unsextets [w, x] = Some [char_of (w * 4 + x div 16)]"
| "unsextets [w, x, y] = Some [char_of (w * 4 + x div 16), char_of (x mod 16 * 16 + y div 4)]"
| "unsextets (w # x # y # z # r) =
     map_option (\<lambda>s. char_of (w * 4 + x div 16) # char_of (x mod 16 * 16 + y div 4) #
       char_of (y mod 4 * 64 + z) # s) (unsextets r)"

text \<open>
  \<open>_b64decode\<close>: only the alphabet, a decodable length, and no other text for the same bytes.
\<close>

definition b64decode :: "string \<Rightarrow> string result" where
  "b64decode value =
     (if value = [] \<or> \<not> list_all (\<lambda>c. b64_value c \<noteq> None) value
      then Inl (ValidationError ''sealed token is invalid'')
      else case unsextets (map (\<lambda>c. the (b64_value c)) value) of
        None \<Rightarrow> Inl (ValidationError ''sealed token is invalid'')
      | Some decoded \<Rightarrow>
          if b64encode decoded \<noteq> value then Inl (ValidationError ''sealed token is not canonical'')
          else Inr decoded)"

lemma byte_bounds: "0 \<le> byte c \<and> byte c < 256"
  by (cases c) simp

lemma b64_value_char: "0 \<le> n \<Longrightarrow> n < 64 \<Longrightarrow> b64_value (b64_char n) = Some n"
  by (auto simp: b64_value_def b64_char_def byte_char_of Let_def)

lemma char_of_eq: "n = byte c \<Longrightarrow> char_of n = c"
  by simp

lemma byte_parts:
  "0 \<le> byte c div 16" "byte c div 16 < 16" "0 \<le> byte c div 64" "byte c div 64 < 4"
  "0 \<le> byte c div 4" "byte c div 4 < 64" "0 \<le> byte c mod 64" "byte c mod 64 < 64"
  using byte_bounds [of c] by (simp_all add: pos_imp_zdiv_nonneg_iff)

definition sextet :: "int \<Rightarrow> bool" where
  "sextet x = (0 \<le> x \<and> x < 64)"

lemma sextet_parts:
  "sextet (byte a div 4)" "sextet (byte a mod 4 * 16)" "sextet (byte a mod 16 * 4)" "sextet (byte a mod 64)"
  "sextet (byte a mod 4 * 16 + byte b div 16)" "sextet (byte a mod 16 * 4 + byte b div 64)"
proof -
  have sum: "sextet (x * 16 + y)" if "0 \<le> x" "x < 4" "0 \<le> y" "y < 16" for x y
    using that by (simp add: sextet_def)
  have sum': "sextet (x * 4 + y)" if "0 \<le> x" "x < 16" "0 \<le> y" "y < 4" for x y
    using that by (simp add: sextet_def)
  show "sextet (byte a div 4)" "sextet (byte a mod 64)"
    using byte_parts [of a] unfolding sextet_def by blast+
  show "sextet (byte a mod 4 * 16 + byte b div 16)" by (rule sum) (simp_all add: byte_parts)
  show "sextet (byte a mod 16 * 4 + byte b div 64)" by (rule sum') (simp_all add: byte_parts)
  show "sextet (byte a mod 4 * 16)" using sum [of "byte a mod 4" 0] by simp
  show "sextet (byte a mod 16 * 4)" using sum' [of "byte a mod 16" 0] by simp
qed

lemma sextets_range: "list_all sextet (sextets s)"
  by (induction s rule: sextets.induct)
     (simp_all only: sextets.simps list.pred_inject sextet_parts simp_thms)

lemma shifted_div_mod:
  fixes x :: int
  assumes "0 \<le> b" "b < k"
  shows "(x * k + b) div k = x" "(x * k + b) mod k = b"
  using assms by simp_all

lemma regroup_sextets:
  fixes a :: int
  assumes "0 \<le> a" "a < 256"
  shows "0 \<le> b \<Longrightarrow> b < 16 \<Longrightarrow> a div 4 * 4 + (a mod 4 * 16 + b) div 16 = a"
    and "0 \<le> c \<Longrightarrow> c < 4 \<Longrightarrow> (d * 16 + a div 16) mod 16 * 16 + (a mod 16 * 4 + c) div 4 = a"
    and "(d * 4 + a div 64) mod 4 * 64 + a mod 64 = a"
proof -
  show "a div 4 * 4 + (a mod 4 * 16 + b) div 16 = a" if "0 \<le> b" "b < 16"
    using shifted_div_mod [OF that, of "a mod 4"] by simp
  have "0 \<le> a div 16" "a div 16 < 16" using assms by auto
  from shifted_div_mod(2) [OF this]
  show "(d * 16 + a div 16) mod 16 * 16 + (a mod 16 * 4 + c) div 4 = a" if "0 \<le> c" "c < 4"
    using shifted_div_mod(1) [OF that, of "a mod 16"] by simp
  have "0 \<le> a div 64" "a div 64 < 4" using assms by auto
  from shifted_div_mod(2) [OF this] show "(d * 4 + a div 64) mod 4 * 64 + a mod 64 = a" by simp
qed

lemma unsextets_sextets: "unsextets (sextets s) = Some s"
proof (induction s rule: sextets.induct)
  case (2 a)
  show ?case
    using byte_bounds [of a] regroup_sextets(1) [of "byte a" 0] by (auto intro!: char_of_eq)
next
  case (3 a b)
  have "byte a div 4 * 4 + (byte a mod 4 * 16 + byte b div 16) div 16 = byte a"
    using byte_bounds [of a] by (intro regroup_sextets(1) byte_parts) auto
  moreover have "(byte a mod 4 * 16 + byte b div 16) mod 16 * 16 + (byte b mod 16 * 4 + 0) div 4 = byte b"
    using byte_bounds [of b] by (intro regroup_sextets(2)) auto
  ultimately show ?case by (simp only: sextets.simps unsextets.simps char_of_byte add_0_right)
next
  case (4 a b c r)
  have "byte a div 4 * 4 + (byte a mod 4 * 16 + byte b div 16) div 16 = byte a"
    using byte_bounds [of a] by (intro regroup_sextets(1) byte_parts) auto
  moreover have "(byte a mod 4 * 16 + byte b div 16) mod 16 * 16 + (byte b mod 16 * 4 + byte c div 64) div 4 = byte b"
    using byte_bounds [of b] by (intro regroup_sextets(2) byte_parts) auto
  moreover have "(byte b mod 16 * 4 + byte c div 64) mod 4 * 64 + byte c mod 64 = byte c"
    using byte_bounds [of c] by (intro regroup_sextets(3)) auto
  ultimately show ?case by (simp only: sextets.simps unsextets.simps char_of_byte "4.IH" option.map)
qed simp

lemma b64decode_encode:
  assumes "s \<noteq> []"
  shows "b64decode (b64encode s) = Inr s"
proof -
  have id: "b64_value (b64_char n) = Some n" if "n \<in> set (sextets s)" for n
    using sextets_range [of s] that by (auto simp: sextet_def list_all_iff b64_value_char)
  then have "map (\<lambda>c. the (b64_value c)) (b64encode s) = sextets s"
    by (simp add: b64encode_def map_idI)
  moreover have "b64encode s \<noteq> []"
    using assms by (cases s rule: sextets.cases) (simp_all add: b64encode_def)
  moreover have "list_all (\<lambda>c. b64_value c \<noteq> None) (b64encode s)"
    using id by (simp add: b64encode_def list_all_iff)
  ultimately show ?thesis by (simp add: b64decode_def unsextets_sextets)
qed

lemma b64decode_Inr: "b64decode t = Inr s \<Longrightarrow> t = b64encode s \<and> s \<noteq> []"
  by (auto simp: b64decode_def b64encode_def split: if_splits option.splits)

definition b64_text :: "string \<Rightarrow> bool" where
  "b64_text t = list_all (\<lambda>c. b64_value c \<noteq> None) t"

lemma b64encode_text: "b64_text (b64encode s)"
  using sextets_range [of s]
  by (auto simp: b64_text_def b64encode_def list_all_iff sextet_def b64_value_char)

lemma b64encode_inj: "b64encode s = b64encode t \<Longrightarrow> s = t"
proof (cases "s = []"; cases "t = []")
  assume "b64encode s = b64encode t" "s \<noteq> []" "t \<noteq> []"
  then show "s = t" using b64decode_encode by (metis Inr_inject)
qed (auto simp: b64encode_def elim: sextets.elims)

end
