(* ===== verification/Json_Text.thy ===== *)
theory Json_Text
  imports Json
begin

section \<open>JSON text is read back\<close>

text \<open>
  Whatever \<open>json.dumps\<close> writes, \<open>json.loads\<close> reads back: in every style, with or without escaping
  of non-ASCII characters (then the strings must be valid Unicode), for every decoder whose hook
  keeps objects with distinct members. The canonical text of the connector boundary follows.
\<close>

subsection \<open>Strings\<close>

lemma hex_value_hex_char: "0 \<le> d \<Longrightarrow> d < 16 \<Longrightarrow> hex_value (hex_char d) = Some d"
  by (simp add: hex_value_def hex_char_def byte_char_of Let_def)

lemma parse_hex4_digits:
  assumes "0 \<le> u" "u < 65536"
  shows "parse_hex4 (hex_char (u div 4096) # hex_char (u div 256 mod 16) # hex_char (u div 16 mod 16)
      # hex_char (u mod 16) # r) = Some (u, r)"
proof -
  have d: "u div 256 div 16 = u div 4096" "u div 16 div 16 = u div 256"
    by (simp_all flip: zdiv_zmult2_eq)
  have sum: "((a * 16 + b) * 16 + c) * 16 + e = (w :: int)"
    if "a * 16 + b = x" "x * 16 + c = y" "y * 16 + e = w" for a b c e w x y
    using that by simp
  have "((u div 4096 * 16 + u div 256 mod 16) * 16 + u div 16 mod 16) * 16 + u mod 16 = u"
    by (rule sum [OF div_mult_mod_eq [of "u div 256" 16, unfolded d] div_mult_mod_eq [of "u div 16" 16, unfolded d]
          div_mult_mod_eq])
  moreover have "hex_value (hex_char (u div 4096)) = Some (u div 4096)"
    by (rule hex_value_hex_char) (use assms in \<open>simp_all add: div_less_iff_less_mult pos_imp_zdiv_nonneg_iff\<close>)
  moreover have "hex_value (hex_char (x mod 16)) = Some (x mod 16)" for x
    by (rule hex_value_hex_char) simp_all
  ultimately show ?thesis unfolding parse_hex4_def by (simp only: list.case option.case prod.case)
qed

lemma unicode_escape_digits:
  assumes "0 \<le> u" "u < 65536"
  obtains h where "unicode_escape u = CHR 0x5C # CHR ''u'' # h" "\<And>r. parse_hex4 (h @ r) = Some (u, r)"
  by (rule that [of "drop 2 (unicode_escape u)"])
    (simp_all add: unicode_escape_def parse_hex4_digits assms)

lemma parse_escape_control:
  assumes "byte c < 32"
  shows "parse_escape (CHR ''u'' # CHR ''0'' # CHR ''0'' # hex_char (byte c div 16) # hex_char (byte c mod 16) # r)
    = Some ([c], r)"
proof -
  have b: "0 \<le> byte c" by simp
  have "hex_value (hex_char (byte c div 16)) = Some (byte c div 16)"
    by (rule hex_value_hex_char) (use assms b in \<open>simp_all add: div_less_iff_less_mult pos_imp_zdiv_nonneg_iff\<close>)
  moreover have "hex_value (hex_char (byte c mod 16)) = Some (byte c mod 16)"
    by (rule hex_value_hex_char) simp_all
  moreover have "hex_value CHR ''0'' = Some 0" by (simp add: hex_value_def)
  ultimately have "parse_hex4 (CHR ''0'' # CHR ''0'' # hex_char (byte c div 16) # hex_char (byte c mod 16) # r)
      = Some (byte c, r)"
    by (simp add: parse_hex4_def)
  then show ?thesis
    using assms by (simp add: parse_escape_def parse_unicode_def utf8_bytes_def)
qed

lemma parse_string_escape:
  "parse_string (escape_char c @ s) = map_option (\<lambda>(u, r). (c # u, r)) (parse_string s)"
proof -
  consider "c = CHR 0x22" | "c = CHR 0x5C" | "c = CHR 0x0A" | "c = CHR 0x0D" | "c = CHR 0x09" | "c = CHR 0x0C"
    | "c = CHR 0x08"
    | (control) "c \<notin> {CHR 0x22, CHR 0x5C, CHR 0x0A, CHR 0x0D, CHR 0x09, CHR 0x0C, CHR 0x08}" "byte c < 32"
    | (plain) "c \<notin> {CHR 0x22, CHR 0x5C, CHR 0x0A, CHR 0x0D, CHR 0x09, CHR 0x0C, CHR 0x08}" "\<not> byte c < 32"
    by blast
  then show ?thesis
  proof cases
    case control
    then have "escape_char c = [CHR 0x5C, CHR ''u'', CHR ''0'', CHR ''0'', hex_char (byte c div 16), hex_char (byte c mod 16)]"
      by (simp add: escape_char_def)
    then show ?thesis
      by (subst parse_string.simps) (simp add: parse_escape_control [OF control(2)])
  next
    case plain
    then show ?thesis by (subst parse_string.simps) (simp add: escape_char_def)
  qed (subst parse_string.simps, simp add: escape_char_def parse_escape_def)+
qed

text \<open>Code points: what follows a lead byte is the encoding of the point it completes.\<close>

definition scalar_value :: "int \<Rightarrow> bool" where
  "scalar_value p = (0 \<le> p \<and> p \<le> 1114111 \<and> \<not> (55296 \<le> p \<and> p \<le> 57343))"

lemma utf8_cont_byte: "utf8_cont c \<Longrightarrow> 128 \<le> byte c \<and> byte c < 192"
  by (cases c) (auto simp: utf8_cont_def)

lemma shift_six: "0 \<le> (d :: int) \<Longrightarrow> d < 64 \<Longrightarrow> (b * 64 + d) div 64 = b \<and> (b * 64 + d) mod 64 = d"
  by simp

lemma utf8_take_Suc:
  "utf8_take (Suc n) acc cs = Some (p, rest) \<longleftrightarrow>
   (\<exists>c cs'. cs = c # cs' \<and> utf8_cont c \<and> utf8_take n (acc * 64 + (byte c - 128)) cs' = Some (p, rest))"
  by (cases cs) auto

lemma utf8_bytes_take:
  assumes lead: "utf8_lead c = Some (n, b)" and take: "utf8_take n b cs = Some (p, rest)"
    and p: "utf8_least n \<le> p" "p \<le> 1114111"
  shows "utf8_bytes p @ rest = c # cs"
proof -
  have q: "p div 4096 = p div 64 div 64" "p div 262144 = p div 64 div 64 div 64"
    by (simp_all flip: zdiv_zmult2_eq)
  consider "n = 0" "byte c < 128" "b = byte c" | "n = 1" "192 \<le> byte c" "byte c < 224" "b = byte c - 192"
    | "n = 2" "224 \<le> byte c" "byte c < 240" "b = byte c - 224"
    | "n = 3" "240 \<le> byte c" "byte c < 248" "b = byte c - 240"
    using lead by (auto simp: utf8_lead_def Let_def split: if_splits)
  then show ?thesis
  proof cases
    case 1
    then show ?thesis using take by (auto simp: utf8_bytes_def)
  next
    case 2
    with take obtain c1 where cs: "cs = c1 # rest" "utf8_cont c1" and p1: "p = b * 64 + (byte c1 - 128)"
      by (auto simp: utf8_take_Suc eval_nat_numeral)
    have "p div 64 = b \<and> p mod 64 = byte c1 - 128"
      unfolding p1 using utf8_cont_byte [OF cs(2)] by (intro shift_six) auto
    then show ?thesis using p 2 cs utf8_cont_byte [OF cs(2)] p1 by (simp add: utf8_bytes_def)
  next
    case 3
    with take obtain c1 c2 where cs: "cs = c1 # c2 # rest" "utf8_cont c1" "utf8_cont c2"
      and p1: "p = (b * 64 + (byte c1 - 128)) * 64 + (byte c2 - 128)"
      by (auto simp: utf8_take_Suc eval_nat_numeral)
    have "p div 64 = b * 64 + (byte c1 - 128) \<and> p mod 64 = byte c2 - 128"
      unfolding p1 using utf8_cont_byte [OF cs(3)] by (intro shift_six) auto
    moreover have "(b * 64 + (byte c1 - 128)) div 64 = b \<and> (b * 64 + (byte c1 - 128)) mod 64 = byte c1 - 128"
      using utf8_cont_byte [OF cs(2)] by (intro shift_six) auto
    moreover have "2048 \<le> p" "p < 65536"
      using p(1) 3 utf8_cont_byte [OF cs(2)] utf8_cont_byte [OF cs(3)] by (auto simp: p1 eval_nat_numeral)
    ultimately show ?thesis using 3 cs by (simp add: utf8_bytes_def q)
  next
    case 4
    with take obtain c1 c2 c3 where cs: "cs = c1 # c2 # c3 # rest" "utf8_cont c1" "utf8_cont c2" "utf8_cont c3"
      and p1: "p = ((b * 64 + (byte c1 - 128)) * 64 + (byte c2 - 128)) * 64 + (byte c3 - 128)"
      by (auto simp: utf8_take_Suc eval_nat_numeral)
    let ?a = "b * 64 + (byte c1 - 128)"
    have "p div 64 = ?a * 64 + (byte c2 - 128) \<and> p mod 64 = byte c3 - 128"
      unfolding p1 using utf8_cont_byte [OF cs(4)] by (intro shift_six) auto
    moreover have "(?a * 64 + (byte c2 - 128)) div 64 = ?a \<and> (?a * 64 + (byte c2 - 128)) mod 64 = byte c2 - 128"
      using utf8_cont_byte [OF cs(3)] by (intro shift_six) auto
    moreover have "?a div 64 = b \<and> ?a mod 64 = byte c1 - 128"
      using utf8_cont_byte [OF cs(2)] by (intro shift_six) auto
    moreover have "65536 \<le> p" using p(1) 4 by (simp add: eval_nat_numeral)
    ultimately show ?thesis using 4 cs by (simp add: utf8_bytes_def q)
  qed
qed

lemma utf8_take_nonneg: "utf8_take n acc cs = Some (p, rest) \<Longrightarrow> 0 \<le> acc \<Longrightarrow> 0 \<le> p"
proof (induction n arbitrary: acc cs)
  case (Suc n)
  then obtain c cs' where "utf8_cont c" "utf8_take n (acc * 64 + (byte c - 128)) cs' = Some (p, rest)"
    by (auto simp: utf8_take_Suc)
  then show ?case using Suc utf8_cont_byte by fastforce
qed simp

lemma utf8_points_decode:
  assumes "utf8_decode s = Some ps"
  shows "utf8_points s = ps \<and> concat (map utf8_bytes ps) = s \<and> list_all scalar_value ps"
  using assms
proof (induction s arbitrary: ps rule: utf8_decode.induct)
  case 1
  then show ?case by simp
next
  case (2 c cs)
  from "2.prems" obtain n b p rest qs where
    lead: "utf8_lead c = Some (n, b)" and take: "utf8_take n b cs = Some (p, rest)"
    and ok: "\<not> (p < utf8_least n \<or> (55296 \<le> p \<and> p \<le> 57343) \<or> 1114111 < p)"
    and qs: "utf8_decode rest = Some qs" "ps = p # qs"
    by (auto split: option.splits if_splits prod.splits)
  have "utf8_points rest = qs \<and> concat (map utf8_bytes qs) = rest \<and> list_all scalar_value qs"
    using "2.IH" [OF lead _ take _ ok qs(1)] by simp
  moreover from lead have "0 \<le> b" by (auto simp: utf8_lead_def Let_def split: if_splits)
  then have "scalar_value p" using ok utf8_take_nonneg [OF take] by (auto simp: scalar_value_def)
  ultimately show ?case
    using lead take ok qs utf8_bytes_take [OF lead take] by (simp add: not_less)
qed

lemma parse_string_point:
  assumes "scalar_value p"
  shows "parse_string (escape_point p @ s) = map_option (\<lambda>(u, r). (utf8_bytes p @ u, r)) (parse_string s)"
proof -
  have p: "0 \<le> p" "p \<le> 1114111" "\<not> (55296 \<le> p \<and> p \<le> 57343)"
    using assms by (simp_all add: scalar_value_def)
  consider "p < 127" | "127 \<le> p" "p < 65536" | "65536 \<le> p" by linarith
  then show ?thesis
  proof cases
    case 1
    then show ?thesis by (simp add: escape_point_def parse_string_escape utf8_bytes_def)
  next
    case 2
    obtain h where h: "unicode_escape p = CHR 0x5C # CHR ''u'' # h" "\<And>r. parse_hex4 (h @ r) = Some (p, r)"
      using unicode_escape_digits [of p] p(1) 2 by blast
    have "\<not> (55296 \<le> p \<and> p \<le> 56319 \<and> take 2 s = [CHR 0x5C, CHR ''u''])" using p by auto
    then have "parse_unicode (h @ s) = Some (utf8_bytes p, s)"
      unfolding parse_unicode_def h(2) option.case prod.case by (simp only: if_False refl)
    then have "parse_escape (CHR ''u'' # h @ s) = Some (utf8_bytes p, s)"
      by (simp add: parse_escape_def)
    then show ?thesis
      using 2 by (subst parse_string.simps) (simp add: escape_point_def h(1))
  next
    case 3
    define q r where "q = (p - 65536) div 1024" and "r = (p - 65536) mod 1024"
    have q: "0 \<le> q" "q < 1024" and r: "0 \<le> r" "r < 1024"
      unfolding q_def r_def using p 3 by (simp_all add: div_less_iff_less_mult pos_imp_zdiv_nonneg_iff)
    have qr: "q * 1024 + r = p - 65536" unfolding q_def r_def by (rule div_mult_mod_eq)
    define h l where "h = 55296 + q" and "l = 56320 + r"
    have h: "55296 \<le> h" "h \<le> 56319" and l: "56320 \<le> l" "l \<le> 57343" using q r by (simp_all add: h_def l_def)
    have hl: "65536 + (h - 55296) * 1024 + (l - 56320) = p" using qr by (simp add: h_def l_def)
    obtain g where g: "unicode_escape h = CHR 0x5C # CHR ''u'' # g" "\<And>r. parse_hex4 (g @ r) = Some (h, r)"
      by (rule unicode_escape_digits [of h]) (use h in auto)
    obtain k where k: "unicode_escape l = CHR 0x5C # CHR ''u'' # k" "\<And>r. parse_hex4 (k @ r) = Some (l, r)"
      by (rule unicode_escape_digits [of l]) (use l in auto)
    have c: "(55296 \<le> h \<and> h \<le> 56319 \<and> take 2 (unicode_escape l @ s) = [CHR 0x5C, CHR ''u'']) = True"
      "(56320 \<le> l \<and> l \<le> 57343) = True" "drop 2 (unicode_escape l @ s) = k @ s"
      using h l by (simp_all add: k(1))
    have "parse_unicode (g @ unicode_escape l @ s) = Some (utf8_bytes p, s)"
      unfolding parse_unicode_def g(2) option.case prod.case c k(2) if_True hl ..
    then have "parse_escape (CHR ''u'' # g @ unicode_escape l @ s) = Some (utf8_bytes p, s)"
      by (simp add: parse_escape_def)
    then show ?thesis
      using 3 by (subst parse_string.simps) (simp add: escape_point_def g(1) flip: q_def r_def h_def l_def)
  qed
qed

lemma parse_string_points:
  "list_all scalar_value ps \<Longrightarrow>
   parse_string (concat (map escape_point ps) @ CHR 0x22 # rest) = Some (concat (map utf8_bytes ps), rest)"
proof (induction ps)
  case Nil
  then show ?case by (simp add: parse_string.simps)
next
  case (Cons p ps)
  then show ?case by (simp add: parse_string_point)
qed

lemma parse_string_text:
  "parse_string (concat (map escape_char s) @ CHR 0x22 # rest) = Some (s, rest)"
proof (induction s)
  case Nil
  then show ?case by (simp add: parse_string.simps)
next
  case (Cons c s)
  then show ?case by (simp add: parse_string_escape)
qed

lemma read_escaped:
  assumes "a \<Longrightarrow> valid_utf8 s"
  shows "read_string (escape_string a s @ CHR 0x22 # rest) = Inr (s, rest)"
proof (cases a)
  case True
  then obtain ps where "utf8_decode s = Some ps" using assms by (auto simp: valid_utf8_def)
  with True show ?thesis
    by (simp add: read_string_def escape_string_def utf8_points_decode parse_string_points)
next
  case False
  then show ?thesis by (simp add: read_string_def escape_string_def parse_string_text)
qed

subsection \<open>Where values start and end\<close>

text \<open>The values the writer is used on, and what must hold of the hook.\<close>

fun plain_json :: "pyobj \<Rightarrow> bool" where
  "plain_json PNone = True"
| "plain_json (PBool b) = True"
| "plain_json (PInt i) = (ilen (nat_text \<bar>i\<bar>) \<le> MAX_STR_DIGITS)"
| "plain_json (PFloat (Finite r)) = is_double r"
| "plain_json (PStr s) = True"
| "plain_json (PList xs) = list_all plain_json xs"
| "plain_json (PDict d) =
     (list_all (\<lambda>(k, v). as_str k \<noteq> None \<and> plain_json v) d \<and> distinct (map fst d))"
| "plain_json _ = False"

definition keeps_objects :: "pairs_hook \<Rightarrow> bool" where
  "keeps_objects hook = (\<forall>kvs. distinct (map fst kvs) \<longrightarrow> hook kvs = Some (obj kvs))"

lemma keeps_python_dict [simp]: "keeps_objects python_dict"
proof -
  have "foldl (\<lambda>d (k, v). dset d k v) (items acc) kvs = items (acc @ kvs)"
    if "distinct (map fst (acc @ kvs))" for acc kvs
    using that
  proof (induction kvs arbitrary: acc)
    case (Cons kv kvs)
    obtain k v where kv: "kv = (k, v)" by (cases kv)
    have "\<not> dhas (items acc) k"
      using Cons.prems by (auto simp: kv dhas_def dget_items dest: map_of_SomeD intro: rev_image_eqI)
    then have "dset (items acc) k v = items (acc @ [kv])" by (simp add: dset_new items_append kv)
    then show ?case using Cons.IH [of "acc @ [kv]"] Cons.prems by (simp add: kv)
  qed simp
  from this [of "[]"] show ?thesis by (simp add: keeps_objects_def python_dict_def obj_def)
qed

definition white :: "char \<Rightarrow> bool" where
  "white c = (c \<in> {CHR 0x20, CHR 0x09, CHR 0x0A, CHR 0x0D})"

text \<open>No text of a value starts with white space, a closing bracket or a byte-order mark.\<close>

definition starts_value :: "string \<Rightarrow> bool" where
  "starts_value s = (s \<noteq> [] \<and> \<not> white (hd s) \<and> hd s \<notin> {CHR '']'', CHR ''}'', CHR 0xEF})"

definition ends_value :: "string \<Rightarrow> bool" where
  "ends_value s = (case s of [] \<Rightarrow> True | c # cs \<Rightarrow> white c \<or> c \<in> {CHR '','', CHR '']'', CHR ''}''})"

lemma ends_value_number: "ends_value s \<Longrightarrow> ends_number s"
  by (cases s) (auto simp: ends_value_def ends_number_def white_def json_digit_def)

lemma skip_ws_append: "list_all white w \<Longrightarrow> skip_ws (w @ s) = skip_ws s"
  by (induction w) (auto simp: skip_ws_def white_def)

lemma skip_ws_starts: "starts_value s \<Longrightarrow> skip_ws s = s"
  by (cases s) (auto simp: starts_value_def skip_ws_def white_def)

lemma ends_value_ws: "list_all white w \<Longrightarrow> ends_value s \<Longrightarrow> ends_value (w @ s)"
  by (cases w) (auto simp: ends_value_def)

lemma starts_value_append: "s \<noteq> [] \<Longrightarrow> starts_value (s @ t) = starts_value s"
  by (simp add: starts_value_def)

lemma white_new_line: "list_all white (new_line st level)"
  by (auto simp: new_line_def white_def list_all_iff split: option.splits)

lemma parse_number_head:
  assumes "parse_number s = Inr x"
  shows "\<exists>c cs. s = c # cs \<and> (c = CHR ''-'' \<and> take 2 s \<noteq> ''-I'' \<or> json_digit c)"
proof (cases s)
  case Nil
  with assms show ?thesis by (simp add: parse_number_def scan_minus_def scan_int_def)
next
  case (Cons c cs)
  with assms show ?thesis
    by (cases cs) (auto simp: parse_number_def scan_minus_def scan_int_def json_digit_def split: if_splits)
qed

lemma parse_value_number:
  assumes "parse_number s = Inr x"
  shows "parse_value dec (Suc n) s = Inr x"
proof -
  obtain c cs where s: "s = c # cs" "c = CHR ''-'' \<and> take 2 s \<noteq> ''-I'' \<or> json_digit c"
    using parse_number_head [OF assms] by blast
  then have "c \<notin> {CHR 0x22, CHR ''{'', CHR ''['', CHR ''n'', CHR ''t'', CHR ''f'', CHR ''N'', CHR ''I''}"
    "\<not> (c = CHR ''-'' \<and> take (Suc 0) cs = ''I'')"
    by (auto simp: json_digit_def)
  then show ?thesis using assms s(1) by auto
qed

lemma number_starts:
  assumes "parse_number s = Inr x"
  shows "starts_value s"
  using parse_number_head [OF assms] by (auto simp: starts_value_def json_digit_def white_def)

lemma dumps_number:
  assumes "plain_json v" "(\<exists>i. v = PInt i) \<or> (\<exists>f. v = PFloat f)" "ends_number rest"
  shows "parse_number (dumps st level v @ rest) = Inr (v, rest)"
proof (cases v)
  case (PInt i)
  then show ?thesis using assms(1,3) by (simp add: parse_int_text)
next
  case (PFloat f)
  then obtain r where "f = Finite r" "is_double r" using assms(1) by (cases f) auto
  then show ?thesis using PFloat assms(3) by (simp add: parse_float_text)
qed (use assms(2) in auto)

lemma dumps_starts:
  assumes "plain_json v"
  shows "starts_value (dumps st level v)"
proof (cases "(\<exists>i. v = PInt i) \<or> (\<exists>f. v = PFloat f)")
  case True
  then have "parse_number (dumps st level v @ []) = Inr (v, [])"
    using assms by (intro dumps_number) (simp_all add: ends_number_def)
  then show ?thesis using number_starts by fastforce
next
  case False
  then show ?thesis
    using assms by (cases v) (auto simp: starts_value_def bracketed_def white_def string_token_def)
qed

subsection \<open>Elements and members\<close>

lemma next_element_last:
  "list_all white w \<Longrightarrow> close \<in> {CHR '']'', CHR ''}''} \<Longrightarrow>
   next_element close (w @ close # rest) x cont = Inr ([x], rest)"
  by (auto simp: next_element_def skip_ws_append skip_ws_def [of "_ # rest"])

lemma next_element_comma:
  assumes "list_all white w" "close \<in> {CHR '']'', CHR ''}''}" "starts_value s" "cont s = Inr (xs, r)"
  shows "next_element close (CHR '','' # w @ s) x cont = Inr (x # xs, r)"
  using assms skip_ws_starts [OF assms(3)]
  by (auto simp: next_element_def skip_ws_append skip_ws_def [of "CHR '','' # _"])

text \<open>
  Any sequence, given that each element is read back up to what follows it: \<open>sq\<close> is the parser of
  elements or that of members, \<open>t\<close> the writer of one.
\<close>

lemma sequence_text:
  assumes one: "\<And>x m r. x \<in> set xs \<Longrightarrow> length (t x) \<le> m \<Longrightarrow> ends_value r \<Longrightarrow>
      sq (Suc m) (t x @ r) = next_element close r x (sq m)"
    and starts: "\<And>x. x \<in> set xs \<Longrightarrow> starts_value (t x)"
    and ws: "list_all white w" "list_all white w'" and close: "close \<in> {CHR '']'', CHR ''}''}"
    and "xs \<noteq> []" "length (join_text (CHR '','' # w) (w' @ [close]) (map t xs)) \<le> n"
  shows "sq n (join_text (CHR '','' # w) (w' @ [close]) (map t xs) @ rest) = Inr (xs, rest)"
  using one starts assms(6,7)
proof (induction xs arbitrary: n)
  case Nil
  then show ?case by simp
next
  case (Cons x xs)
  from Cons.prems(4) obtain m where n: "n = Suc m" by (cases n; cases xs) auto
  show ?case
  proof (cases xs)
    case Nil
    have "ends_value (w' @ close # rest)" using ws close by (intro ends_value_ws) (auto simp: ends_value_def)
    then have "sq (Suc m) (t x @ w' @ close # rest) = next_element close (w' @ close # rest) x (sq m)"
      using Cons.prems n Nil by (intro Cons.prems(1)) auto
    then show ?thesis using ws close by (simp add: n Nil next_element_last)
  next
    case (Cons y ys)
    let ?more = "join_text (CHR '','' # w) (w' @ [close]) (map t xs)"
    have j: "join_text (CHR '','' # w) (w' @ [close]) (map t (x # xs)) = t x @ CHR '','' # w @ ?more"
      by (simp add: Cons)
    have len: "length (t x) \<le> m" "length ?more \<le> m"
      using Cons.prems(4) unfolding j n by simp_all
    have "sq (Suc m) (t x @ CHR '','' # w @ ?more @ rest) = next_element close (CHR '','' # w @ ?more @ rest) x (sq m)"
      using len by (intro Cons.prems(1)) (auto simp: ends_value_def)
    moreover have "sq m (?more @ rest) = Inr (xs, rest)"
      using Cons.prems(1,2) len Cons by (intro Cons.IH) auto
    moreover have "starts_value (?more @ rest)"
      using Cons.prems(2) [of y] Cons by (cases ys) (auto simp: starts_value_def)
    ultimately show ?thesis using ws close unfolding j n by (simp add: next_element_comma)
  qed
qed

lemma distinct_items: "distinct (map fst (items kvs)) = distinct (map fst kvs)"
proof -
  have "map fst (items kvs) = map PStr (map fst kvs)" by (simp add: items_def case_prod_beta comp_def)
  then show ?thesis by (simp add: distinct_map inj_on_def del: map_map)
qed

subsection \<open>Values\<close>

definition member_text :: "json_style \<Rightarrow> nat \<Rightarrow> string \<times> pyobj \<Rightarrow> string" where
  "member_text st level kv = string_token (only_ascii st) (fst kv) @ key_separator st @ dumps st level (snd kv)"

lemma member_starts: "starts_value (member_text st level kv)"
  by (simp add: member_text_def string_token_def starts_value_def white_def)

lemma dumps_obj:
  "dumps st level (obj kvs) = bracketed st level CHR ''{'' CHR ''}'' (map (member_text st (Suc level)) kvs)"
  by (simp add: obj_def items_def member_text_def [abs_def] case_prod_beta comp_def)

lemma plain_obj: "plain_json (obj kvs) = (list_all (\<lambda>kv. plain_json (snd kv)) kvs \<and> distinct (map fst kvs))"
proof -
  have "list_all (\<lambda>(k, v). as_str k \<noteq> None \<and> plain_json v) (items kvs) = list_all (\<lambda>kv. plain_json (snd kv)) kvs"
    by (simp add: items_def list_all_iff case_prod_beta)
  then show ?thesis by (simp add: obj_def distinct_items)
qed

lemma encodable_obj: "encodable (obj kvs) = list_all (\<lambda>kv. valid_utf8 (fst kv) \<and> encodable (snd kv)) kvs"
  by (simp add: obj_def items_def list_all_iff case_prod_beta)

lemma plain_dict: "plain_json (PDict d) \<Longrightarrow> \<exists>kvs. PDict d = obj kvs"
  by (rule exI [of _ "str_items d"], simp add: obj_def, rule all_str_keys_items) (auto simp: list_all_iff)

lemma read_token:
  assumes "a \<Longrightarrow> valid_utf8 s"
  shows "read_string (tl (string_token a s) @ rest) = Inr (s, rest)"
  using read_escaped [OF assms] by (simp add: string_token_def)

lemma parse_member_text:
  assumes v: "parse_value dec m (dumps st l v @ r) = Inr (v, r)" and plain: "plain_json v"
    and k: "only_ascii st \<Longrightarrow> valid_utf8 k"
  shows "parse_members dec (Suc m) (member_text st l (k, v) @ r)
    = next_element CHR ''}'' r (k, v) (parse_members dec m)"
proof -
  have starts: "starts_value (dumps st l v @ r)"
    using dumps_starts [OF plain, of st l] by (auto simp: starts_value_def)
  obtain w where w: "key_separator st = CHR '':'' # w" "list_all white w"
    by (auto simp: key_separator_def white_def)
  have "read_string (escape_string (only_ascii st) k @ CHR 0x22 # CHR '':'' # w @ dumps st l v @ r)
      = Inr (k, CHR '':'' # w @ dumps st l v @ r)"
    using k by (rule read_escaped)
  then show ?thesis
    using v by (simp add: member_text_def string_token_def w skip_ws_append [OF w(2)]
        skip_ws_starts [OF starts] skip_ws_def [of "CHR '':'' # _"])
qed

lemma separator_white: "\<exists>w. item_separator st l = CHR '','' # w \<and> list_all white w"
  using white_new_line [of st l] by (simp add: item_separator_def) (simp add: white_def)

text \<open>A non-empty bracketed sequence, up to its closing bracket.\<close>

lemma bracketed_text:
  assumes "xs \<noteq> []" and close: "close \<in> {CHR '']'', CHR ''}''}"
    and one: "\<And>x m r. x \<in> set xs \<Longrightarrow> length (t x) \<le> m \<Longrightarrow> ends_value r \<Longrightarrow>
      sq (Suc m) (t x @ r) = next_element close r x (sq m)"
    and starts: "\<And>x. x \<in> set xs \<Longrightarrow> starts_value (t x)"
    and len: "length (bracketed st l op close (map t xs)) \<le> Suc n"
  shows "\<exists>c s. skip_ws (tl (bracketed st l op close (map t xs)) @ rest) = c # s \<and> c \<noteq> close \<and>
    sq n (c # s) = Inr (xs, rest)"
proof -
  obtain w where w: "item_separator st (Suc l) = CHR '','' # w" "list_all white w"
    using separator_white by blast
  let ?j = "join_text (CHR '','' # w) (new_line st l @ [close]) (map t xs)"
  have b: "bracketed st l op close (map t xs) = op # new_line st (Suc l) @ ?j"
    using assms(1) by (simp add: bracketed_def w)
  have "sq n (?j @ rest) = Inr (xs, rest)"
    using len unfolding b
    by (intro sequence_text [where t = t] close assms(1)) (simp_all add: one starts w white_new_line)
  moreover have "starts_value (?j @ rest)"
  proof -
    from assms(1) obtain x xs' where "xs = x # xs'" by (cases xs) auto
    then show ?thesis using starts [of x] by (cases xs') (auto simp: starts_value_def)
  qed
  ultimately show ?thesis
    using close skip_ws_starts [of "?j @ rest"]
    by (cases "?j @ rest") (auto simp: b skip_ws_append white_new_line starts_value_def)
qed

theorem parse_dumps:
  assumes hook: "keeps_objects (object_hook dec)"
  shows "plain_json v \<Longrightarrow> (only_ascii st \<Longrightarrow> encodable v) \<Longrightarrow> length (dumps st l v) \<le> n \<Longrightarrow> ends_value rest \<Longrightarrow>
    parse_value dec n (dumps st l v @ rest) = Inr (v, rest)"
proof (induction "size v" arbitrary: v l n rest rule: less_induct)
  case less
  have ne: "dumps st l v \<noteq> []" using dumps_starts [OF less.prems(1)] by (auto simp: starts_value_def)
  with less.prems(3) obtain m where n: "n = Suc m" by (cases n) auto
  consider "(\<exists>i. v = PInt i) \<or> (\<exists>f. v = PFloat f)" | b where "v = PNone \<or> v = PBool b" | s where "v = PStr s"
    | xs where "v = PList xs" | d where "v = PDict d"
    using less.prems(1) by (cases v) auto
  then show ?case
  proof cases
    case 1
    then show ?thesis
      unfolding n using less.prems by (intro parse_value_number dumps_number ends_value_number)
  next
    case 2
    then show ?thesis by (auto simp: n literal_def)
  next
    case 3
    then show ?thesis using less.prems(2) by (simp add: n string_token_def read_escaped)
  next
    case 4
    show ?thesis
    proof (cases "xs = []")
      case True
      then show ?thesis by (simp add: 4 n bracketed_def skip_ws_def)
    next
      case False
      have "parse_elements dec (Suc k) (dumps st (Suc l) x @ r) = next_element CHR '']'' r x (parse_elements dec k)"
        if "x \<in> set xs" "length (dumps st (Suc l) x) \<le> k" "ends_value r" for x k r
        using less.hyps [of x "Suc l" k r] that less.prems(1,2)
        by (simp add: 4 size_list_estimation' list_all_iff less_Suc_eq_le)
      moreover have "starts_value (dumps st (Suc l) x)" if "x \<in> set xs" for x
        using less.prems(1) that by (intro dumps_starts) (simp add: 4 list_all_iff)
      ultimately have "\<exists>c s. skip_ws (tl (dumps st l v) @ rest) = c # s \<and> c \<noteq> CHR '']'' \<and>
          parse_elements dec m (c # s) = Inr (xs, rest)"
        using less.prems(3) False unfolding 4 dumps.simps n by (intro bracketed_text) auto
      then show ?thesis by (auto simp: 4 n bracketed_def)
    qed
  next
    case 5
    then obtain kvs where v: "v = obj kvs" using plain_dict less.prems(1) by blast
    have plain: "list_all (\<lambda>kv. plain_json (snd kv)) kvs" and dist: "distinct (map fst kvs)"
      using less.prems(1) by (simp_all add: v plain_obj)
    have hooked: "run_hook (object_hook dec) kvs r = Inr (v, r)" for r
      using hook dist by (simp add: run_hook_def keeps_objects_def v)
    show ?thesis
    proof (cases "kvs = []")
      case True
      then show ?thesis using hooked by (simp add: v dumps_obj n bracketed_def skip_ws_def)
    next
      case False
      have "parse_members dec (Suc k) (member_text st (Suc l) kv @ r) = next_element CHR ''}'' r kv (parse_members dec k)"
        if kv: "kv \<in> set kvs" and len: "length (member_text st (Suc l) kv) \<le> k" and r: "ends_value r" for kv k r
      proof -
        have "(PStr (fst kv), snd kv) \<in> set (items kvs)" using kv by (auto simp: items_def)
        then have "size (snd kv) < size v"
          by (auto simp: v obj_def less_Suc_eq_le intro!: size_list_estimation' [of _ "items kvs"] trans_le_add2)
        then have "parse_value dec k (dumps st (Suc l) (snd kv) @ r) = Inr (snd kv, r)"
          using kv len r plain less.prems(2)
          by (intro less.hyps) (auto simp: v list_all_iff encodable_obj member_text_def)
        then show ?thesis
          using kv plain less.prems(2) parse_member_text [of dec k st "Suc l" "snd kv" r "fst kv"]
          by (auto simp: v list_all_iff encodable_obj)
      qed
      then have "\<exists>c s. skip_ws (tl (dumps st l v) @ rest) = c # s \<and> c \<noteq> CHR ''}'' \<and>
          parse_members dec m (c # s) = Inr (kvs, rest)"
        using less.prems(3) False unfolding v dumps_obj n
        by (intro bracketed_text) (simp_all add: member_starts)
      then show ?thesis using hooked by (auto simp: v dumps_obj n bracketed_def False)
    qed
  qed
qed

theorem loads_dumps:
  assumes "keeps_objects (object_hook dec)" "plain_json v" "only_ascii st \<Longrightarrow> encodable v" "list_all white w"
  shows "json_loads dec (dumps st l v @ w) = Inr v"
proof -
  have starts: "starts_value (dumps st l v @ w)"
    using dumps_starts [OF assms(2), of st l] by (auto simp: starts_value_def)
  have "take 3 (dumps st l v @ w) \<noteq> [CHR 0xEF, CHR 0xBB, CHR 0xBF]"
  proof
    assume "take 3 (dumps st l v @ w) = [CHR 0xEF, CHR 0xBB, CHR 0xBF]"
    then have "hd (dumps st l v @ w) = CHR 0xEF" by (cases "dumps st l v @ w") auto
    then show False using starts by (simp add: starts_value_def)
  qed
  moreover have "parse_value dec (2 * length (dumps st l v @ w) + 1) (dumps st l v @ w) = Inr (v, w)"
    using assms ends_value_ws [of w "[]"] by (intro parse_dumps) (auto simp: ends_value_def)
  moreover have "skip_ws w = []" using skip_ws_append [OF assms(4), of "[]"] by (simp add: skip_ws_def)
  ultimately show ?thesis
    unfolding json_loads_def skip_ws_starts [OF starts] by simp
qed

subsection \<open>Canonical text (\<open>canonical_json\<close>)\<close>

text \<open>The compact style has no white space, so its text does not depend on the nesting level.\<close>

lemma bracketed_compact:
  "bracketed compact l op cl ts = op # join_text '','' [cl] ts"
  by (simp add: bracketed_def compact_def new_line_def item_separator_def)

lemma dumps_compact_level: "dumps compact l v = dumps compact l' v"
proof (induction v arbitrary: l l')
  case (PList xs)
  then have "map (dumps compact (Suc l)) xs = map (dumps compact (Suc l')) xs" by simp
  then show ?case by (simp only: dumps.simps bracketed_compact)
next
  case (PTuple xs)
  then have "map (dumps compact (Suc l)) xs = map (dumps compact (Suc l')) xs" by simp
  then show ?case by (simp only: dumps.simps bracketed_compact)
next
  case (PDict d)
  let ?m = "\<lambda>l (k, v). (case k of PStr s \<Rightarrow> string_token (only_ascii compact) s | _ \<Rightarrow> []) @
        key_separator compact @ dumps compact (Suc l) v"
  have "map (?m l) d = map (?m l') d"
  proof (rule map_cong [OF refl])
    show "?m l kv = ?m l' kv" if "kv \<in> set d" for kv
      using PDict.IH(2) [OF that, of "snd kv" "Suc l" "Suc l'"] by (cases kv) simp
  qed
  then show ?case by (simp only: dumps.simps bracketed_compact)
next
  case (PFloat f)
  show ?case by (cases f) simp_all
qed simp_all

lemma dumps_compact: "dumps compact l v = json_text v" "dumps compact l = json_text"
  unfolding json_text_def by (auto intro: dumps_compact_level)

lemma compact_options [simp]: "only_ascii compact = False" "key_separator compact = '':''"
  by (simp_all add: compact_def key_separator_def)

abbreviation string_text :: "string \<Rightarrow> string" where
  "string_text \<equiv> string_token False"

lemma json_text_list [simp]: "json_text (PList xs) = CHR ''['' # join_text '','' '']'' (map json_text xs)"
  by (subst json_text_def) (simp only: dumps.simps bracketed_compact dumps_compact [of "Suc 0"])

lemma json_text_dict [simp]:
  "json_text (PDict d) = CHR ''{'' # join_text '','' ''}''
     (map (\<lambda>(k, v). (case k of PStr s \<Rightarrow> string_text s | _ \<Rightarrow> []) @ CHR '':'' # json_text v) d)"
  by (subst json_text_def)
    (simp only: dumps.simps bracketed_compact dumps_compact [of "Suc 0"] compact_options append.simps)

lemma json_text_scalars [simp]:
  "json_text PNone = ''null''"
  "json_text (PBool b) = (if b then ''true'' else ''false'')"
  "json_text (PInt i) = int_text i"
  "json_text (PFloat (Finite r)) = float_text r"
  "json_text (PStr s) = string_text s"
  by (simp_all add: json_text_def)

lemma json_text_obj: "json_text (obj kvs) = CHR ''{'' # join_text '','' ''}'' (map (member_text compact 0) kvs)"
  by (simp add: obj_def items_def comp_def case_prod_beta member_text_def [abs_def] dumps_compact)

theorem loads_json_text:
  assumes "keeps_objects (object_hook dec)" "plain_json v"
  shows "json_loads dec (json_text v) = Inr v"
  using loads_dumps [OF assms, of compact "[]" 0] by (simp add: json_text_def compact_def)

definition canonical_json :: "pyobj \<Rightarrow> string result" where
  "canonical_json v =
     bindE (canonicalize_json v) (\<lambda>w.
     if encodable w then Inr (json_text w)
     else Inl (ValidationError ''JSON value cannot be canonically encoded''))"

text \<open>
  Well-formed Python values: finite floats are doubles and the keys of a dictionary are
  distinct. Every value the program can build is.
\<close>

fun wf_py :: "pyobj \<Rightarrow> bool" where
  "wf_py (PFloat (Finite r)) = is_double r"
| "wf_py (PList xs) = list_all wf_py xs"
| "wf_py (PTuple xs) = list_all wf_py xs"
| "wf_py (PDict d) = (distinct (map fst d) \<and> list_all (\<lambda>(_, v). wf_py v) d)"
| "wf_py (PProxy d) = (distinct (map fst d) \<and> list_all (\<lambda>(_, v). wf_py v) d)"
| "wf_py _ = True"

lemma wf_py_mapping: "as_mapping v = Some d \<Longrightarrow> wf_py v = (distinct (map fst d) \<and> list_all (\<lambda>(_, v). wf_py v) d)"
  by (cases v) auto

lemma wf_py_obj: "wf_py (obj kvs) = (distinct (map fst kvs) \<and> list_all (\<lambda>kv. wf_py (snd kv)) kvs)"
proof -
  have "list_all (\<lambda>(_, v). wf_py v) (items kvs) = list_all (\<lambda>kv. wf_py (snd kv)) kvs"
    by (simp add: items_def list_all_iff case_prod_beta)
  then show ?thesis by (simp add: obj_def distinct_items)
qed

lemma clone_item_keys:
  assumes "mapE (clone_item depth) d = Inr kvs"
  shows "map fst d = map (PStr \<circ> fst) kvs"
  using assms
  by (induction d arbitrary: kvs) (auto simp: bindE_Inr_iff clone_item_def clone_key_Inr)

text \<open>Canonicalising keeps well-formedness, and what it returns is written and read back.\<close>

lemma clone_json_wf: "clone_json depth v = Inr w \<Longrightarrow> wf_py v \<Longrightarrow> wf_py w"
proof (induction depth v arbitrary: w rule: depth_induct)
  case (step depth v)
  consider d where "as_mapping v = Some d" | xs where "v = PList xs"
    | "as_mapping v = None" "\<forall>xs. v \<noteq> PList xs"
    by (cases "as_mapping v") auto
  then show ?case
  proof cases
    case (1 d)
    then obtain kvs where kvs: "mapE (clone_item (depth + 1)) d = Inr kvs" and w: "w = obj (sort_items kvs)"
      and bound: "depth \<le> MAX_JSON_DEPTH"
      using step.prems by (auto simp: clone_json_mapping [OF 1] bindE_Inr_iff split: if_splits)
    have "distinct (map fst d)" using step.prems(2) by (simp add: wf_py_mapping [OF 1])
    then have dist: "distinct (map fst kvs)"
      unfolding clone_item_keys [OF kvs] by (simp flip: map_map add: distinct_map)
    have "wf_py u" if "(s, u) \<in> set kvs" for s u
    proof -
      from mapE_in_set [OF kvs that] obtain k x where "(k, x) \<in> set d" "clone_item (depth + 1) (k, x) = Inr (s, u)"
        by auto
      then show ?thesis
        using step.IH [OF bound] step.prems(2) wf_py_mapping [OF 1]
        by (auto simp: clone_item_def bindE_Inr_iff list_all_iff)
    qed
    then show ?thesis using dist by (auto simp: w wf_py_obj list_all_iff)
  next
    case (2 xs)
    then obtain ys where ys: "mapE (clone_json (depth + 1)) xs = Inr ys" "w = PList ys"
      and bound: "depth \<le> MAX_JSON_DEPTH"
      using step.prems by (auto simp: clone_json_list bindE_Inr_iff split: if_splits)
    then show ?thesis
      using step.IH [OF bound] step.prems(2) 2 by (fastforce simp: list_all_iff dest: mapE_in_set)
  next
    case 3
    with step.prems show ?thesis by (metis clone_json_scalar)
  qed
qed

lemma clone_json_plain:
  assumes "clone_json depth v = Inr w"
  shows "wf_py w \<Longrightarrow> encodable w \<Longrightarrow> plain_json w"
  using assms
proof (induction depth v arbitrary: w rule: depth_induct)
  case (step depth v)
  consider d where "as_mapping v = Some d" | xs where "v = PList xs"
    | "as_mapping v = None" "\<forall>xs. v \<noteq> PList xs"
    by (cases "as_mapping v") auto
  then show ?case
  proof cases
    case (1 d)
    then obtain kvs where kvs: "mapE (clone_item (depth + 1)) d = Inr kvs" and w: "w = obj (sort_items kvs)"
      and bound: "depth \<le> MAX_JSON_DEPTH"
      using step.prems by (auto simp: clone_json_mapping [OF 1] bindE_Inr_iff split: if_splits)
    have "plain_json u" if "(s, u) \<in> set kvs" for s u
    proof -
      from mapE_in_set [OF kvs that] obtain k x where "clone_item (depth + 1) (k, x) = Inr (s, u)"
        by auto
      then show ?thesis
        using step.IH [OF bound] step.prems(1,2) that
        by (fastforce simp: w wf_py_obj clone_item_def bindE_Inr_iff list_all_iff obj_def items_def)
    qed
    then show ?thesis
      using step.prems(1) by (auto simp: w obj_def items_def list_all_iff)
  next
    case (2 xs)
    then obtain ys where ys: "mapE (clone_json (depth + 1)) xs = Inr ys" "w = PList ys"
      and bound: "depth \<le> MAX_JSON_DEPTH"
      using step.prems by (auto simp: clone_json_list bindE_Inr_iff split: if_splits)
    then show ?thesis
      using step.IH [OF bound] step.prems(1,2) by (fastforce simp: list_all_iff dest: mapE_in_set)
  next
    case 3
    then have "w = v" using step.prems by (metis clone_json_scalar)
    then have "clone_json depth w = Inr w" using step.prems by simp
    then have "plain_json w \<or> (\<exists>d. as_mapping w = Some d) \<or> (\<exists>xs. w = PList xs)"
      using step.prems(1,2)
      by (subst (asm) clone_json.simps, cases w) (auto split: if_splits pyfloat.splits)
    with 3 \<open>w = v\<close> show ?thesis by auto
  qed
qed

theorem loads_canonical_json:
  assumes "keeps_objects (object_hook dec)" "wf_py v" "canonical_json v = Inr t"
  shows "\<exists>w. canonicalize_json v = Inr w \<and> json_loads dec t = Inr w"
proof -
  obtain w where w: "canonicalize_json v = Inr w" "encodable w" "t = json_text w"
    using assms(3) by (auto simp: canonical_json_def bindE_Inr_iff split: if_splits)
  then have "wf_py w" using clone_json_wf assms(2) by (auto simp: canonicalize_json_def)
  then have "plain_json w" using clone_json_plain w by (auto simp: canonicalize_json_def)
  then show ?thesis using loads_json_text [OF assms(1)] w by blast
qed

end
