(* ===== verification/Session.thy ===== *)
theory Session
  imports Digest Json_Text "HOL-Library.AList"
begin

section \<open>Sealed cursors and single-use confirmations (\<open>connector_session.py\<close>)\<close>

text \<open>
  A session seals the state of a read (a cursor) or the approval of a write (a confirmation)
  into a token \<open>v1.<payload>.<mac>\<close>: the canonical JSON of the payload and its HMAC under the
  process secret, in base64. The session remembers the continuations of its live cursors and
  the nonces of consumed confirmations until they expire. Every operation takes the readings
  of the clock and the random bytes it uses as arguments and returns its result with the next
  state, which an error may have pruned too.
\<close>

subsection \<open>Constants\<close>

definition MAX_TTL_SECONDS :: int where "MAX_TTL_SECONDS = 15 * 60"
definition DEFAULT_TTL_SECONDS :: int where "DEFAULT_TTL_SECONDS = 10 * 60"
definition TOKEN_VERSION :: int where "TOKEN_VERSION = 1"
definition NONCE_BYTES :: int where "NONCE_BYTES = 16"

lemmas session_bounds [simp] =
  MAX_TTL_SECONDS_def DEFAULT_TTL_SECONDS_def TOKEN_VERSION_def NONCE_BYTES_def

subsection \<open>State\<close>

record session_config =
  cfg_secret :: string
  cfg_max_spent_nonces :: int
  cfg_max_cursor_handles :: int

record session =
  spent_nonces :: "(string \<times> pyfloat) list"
  cursor_values :: "(string \<times> pyobj \<times> pyfloat) list"

text \<open>The constructor; the secret is the process secret unless one is given.\<close>

definition ConnectorSession :: "string \<Rightarrow> int \<Rightarrow> int \<Rightarrow> (session_config \<times> session) result" where
  "ConnectorSession secret max_spent max_cursors =
     (if length secret \<noteq> 32
      then Inl (ValidationError ''connector session secret must be exactly 32 bytes'')
      else if \<not> (1 \<le> max_spent \<and> max_spent \<le> 65536)
      then Inl (ValidationError ''connector confirmation capacity is invalid'')
      else if \<not> (1 \<le> max_cursors \<and> max_cursors \<le> 65536)
      then Inl (ValidationError ''connector cursor capacity is invalid'')
      else Inr (\<lparr>cfg_secret = secret, cfg_max_spent_nonces = max_spent,
                 cfg_max_cursor_handles = max_cursors\<rparr>,
                \<lparr>spent_nonces = [], cursor_values = []\<rparr>))"

subsection \<open>The clock\<close>

text \<open>
  What the clock may return: an exception, a naive or an aware datetime (as microseconds since
  the epoch), an \<open>int\<close>, a \<open>float\<close> or something else.
\<close>

datatype clock_value =
    ClockRaises
  | NaiveDatetime
  | AwareDatetime int
  | ClockInt int
  | ClockFloat pyfloat
  | ClockOther

definition min_datetime :: int where "min_datetime = - 62135596800000000"
definition max_datetime :: int where "max_datetime = 253402300799999999"

text \<open>\<open>_now\<close>: the reading as a finite float. \<open>float(value)\<close> and \<open>astimezone\<close> may overflow.\<close>

fun session_now :: "clock_value \<Rightarrow> rat result" where
  "session_now ClockRaises = Inl (ValidationError ''connector session clock is unavailable'')"
| "session_now NaiveDatetime = Inl (ValidationError ''connector session clock must be timezone-aware'')"
| "session_now (AwareDatetime us) =
     (if us < min_datetime \<or> max_datetime < us then Inl (OtherError ''OverflowError'')
      else case round_double (of_int us / 1000000) of
        Finite t \<Rightarrow> Inr t
      | _ \<Rightarrow> Inl (ValidationError ''connector session clock returned a non-finite time''))"
| "session_now (ClockInt i) =
     bindE (float_of_int i) (\<lambda>f. case f of
        Finite t \<Rightarrow> Inr t
      | _ \<Rightarrow> Inl (ValidationError ''connector session clock returned a non-finite time''))"
| "session_now (ClockFloat (Finite t)) = Inr t"
| "session_now (ClockFloat f) =
     Inl (ValidationError ''connector session clock returned a non-finite time'')"
| "session_now ClockOther = Inl (ValidationError ''connector session clock returned an invalid time'')"

subsection \<open>Checked values\<close>

definition binding_text :: "pyobj \<Rightarrow> string result" where
  "binding_text v =
     (case v of
        PStr s \<Rightarrow>
          if s = [] \<or> 512 < py_len s \<or> has_nul s \<or> \<not> valid_utf8 s
          then Inl (ValidationError ''connector binding text is invalid'') else Inr s
      | _ \<Rightarrow> Inl (ValidationError ''connector binding text is invalid''))"

definition positive_version :: "pyobj \<Rightarrow> int result" where
  "positive_version v =
     (case v of
        PInt i \<Rightarrow> if i < 1 then Inl (ValidationError ''connector version is invalid'') else Inr i
      | _ \<Rightarrow> Inl (ValidationError ''connector version is invalid''))"

definition effect_names :: "string list" where
  "effect_names = [''read'', ''safe_mutation'', ''outward'', ''destructive'', ''permanent'']"

definition effect_text :: "pyobj \<Rightarrow> string result" where
  "effect_text v =
     (case v of
        PStr s \<Rightarrow> if s \<in> set effect_names then Inr s else Inl (ValidationError ''connector effect is invalid'')
      | _ \<Rightarrow> Inl (ValidationError ''connector effect is invalid''))"

definition token_ttl :: "pyobj \<Rightarrow> int result" where
  "token_ttl v =
     (case v of
        PInt i \<Rightarrow>
          if 1 \<le> i \<and> i \<le> MAX_TTL_SECONDS then Inr i
          else Inl (ValidationError ''sealed token TTL is outside its bound'')
      | _ \<Rightarrow> Inl (ValidationError ''sealed token TTL is outside its bound''))"

text \<open>\<open>canonical_json_digest\<close>.\<close>

definition canonical_json_digest :: "pyobj \<Rightarrow> string result" where
  "canonical_json_digest v = bindE (canonical_json v) (\<lambda>t. Inr (''sha256:'' @ hex_text (sha256 t)))"

definition lower_hex :: "char \<Rightarrow> bool" where
  "lower_hex c = ((48 \<le> byte c \<and> byte c \<le> 57) \<or> (97 \<le> byte c \<and> byte c \<le> 102))"

definition is_digest :: "string \<Rightarrow> bool" where
  "is_digest s = (take 7 s = ''sha256:'' \<and> length s = 71 \<and> list_all lower_hex (drop 7 s))"

definition digest_text :: "pyobj \<Rightarrow> string result" where
  "digest_text v =
     (case v of
        PStr s \<Rightarrow> if is_digest s then Inr s else Inl (ValidationError ''connector binding digest is invalid'')
      | _ \<Rightarrow> Inl (ValidationError ''connector binding digest is invalid''))"

text \<open>\<open>_scope_digest\<close>: a set of scopes is given by its elements in iteration order, as a tuple.\<close>

fun scope_members :: "pyobj list \<Rightarrow> string list result" where
  "scope_members [] = Inr []"
| "scope_members (PStr s # ss) =
     (if s = [] \<or> 2048 < py_len s \<or> has_nul s \<or> has_space s
      then Inl (ValidationError ''confirmation granted scopes are invalid'')
      else bindE (scope_members ss) (\<lambda>r. Inr (s # r)))"
| "scope_members (_ # ss) = Inl (ValidationError ''confirmation granted scopes are invalid'')"

definition scope_digest :: "pyobj \<Rightarrow> string result" where
  "scope_digest scopes =
     (case as_sequence scopes of
        None \<Rightarrow> Inl (ValidationError ''confirmation granted scopes are invalid'')
      | Some ss \<Rightarrow>
          if MAX_COLLECTION_ITEMS < ilen ss
          then Inl (ValidationError ''confirmation granted scopes exceed their bound'')
          else bindE (scope_members ss) (\<lambda>names.
            canonical_json_digest (PList (map PStr (sort (remdups names))))))"

subsection \<open>Sealing\<close>

definition token_text :: "string \<Rightarrow> string \<Rightarrow> string" where
  "token_text encoded mac = ''v1.'' @ b64encode encoded @ ''.'' @ b64encode mac"

definition encode_token :: "session_config \<Rightarrow> pyobj \<Rightarrow> string result" where
  "encode_token cfg payload =
     bindE (canonical_json payload) (\<lambda>encoded.
     let token = token_text encoded (hmac_sha256 (cfg_secret cfg) encoded) in
     if MAX_SEALED_TOKEN_LENGTH < ilen token
     then Inl (ValidationError ''sealed token exceeds its size bound'') else Inr token)"

fun split_dot :: "string \<Rightarrow> string list" where
  "split_dot [] = [[]]"
| "split_dot (c # cs) =
     (if c = CHR ''.'' then [] # split_dot cs
      else case split_dot cs of [] \<Rightarrow> [[c]] | p # ps \<Rightarrow> (c # p) # ps)"

text \<open>\<open>_object_without_duplicates\<close>.\<close>

definition object_without_duplicates :: pairs_hook where
  "object_without_duplicates kvs = (if distinct (map fst kvs) then Some (obj kvs) else None)"

definition token_decoder :: json_decoder where
  "token_decoder = \<lparr>object_hook = object_without_duplicates, constants = False\<rparr>"

datatype token_kind = CURSOR | CONFIRMATION

definition kind_text :: "token_kind \<Rightarrow> string" where
  "kind_text k = (case k of CURSOR \<Rightarrow> ''cursor'' | CONFIRMATION \<Rightarrow> ''confirmation'')"

definition CURSOR_KEYS :: "string list" where
  "CURSOR_KEYS =
     [''connection_id'', ''connection_revision'', ''continuation_digest'', ''continuation_handle'',
      ''credential_version'', ''expires_at'', ''input_digest'', ''issued_at'', ''kind'', ''operation'',
      ''provider'', ''version'']"

definition CONFIRMATION_KEYS :: "string list" where
  "CONFIRMATION_KEYS =
     [''authorization_tier'', ''connection_id'', ''connection_version'', ''credential_version'',
      ''effect'', ''expires_at'', ''granted_scope_digest'', ''issued_at'', ''kind'',
      ''mutation_digest'', ''nonce'', ''operation'', ''provider'', ''version'']"

definition kind_keys :: "token_kind \<Rightarrow> string list" where
  "kind_keys k = (case k of CURSOR \<Rightarrow> CURSOR_KEYS | CONFIRMATION \<Rightarrow> CONFIRMATION_KEYS)"

text \<open>\<open>_validate_payload_fields\<close>: names and versions, then the fields of the kind.\<close>

definition check_nonce :: "pyobj \<Rightarrow> string \<Rightarrow> unit result" where
  "check_nonce v message =
     (case v of
        PStr s \<Rightarrow> bindE (b64decode s) (\<lambda>raw. raise_unless (ilen raw = NONCE_BYTES) (ValidationError message))
      | _ \<Rightarrow> Inl (ValidationError message))"

definition validate_payload_fields :: "items \<Rightarrow> token_kind \<Rightarrow> unit result" where
  "validate_payload_fields d k =
     bindE (binding_text (payload_field d ''connection_id'')) (\<lambda>_.
     bindE (binding_text (payload_field d ''operation'')) (\<lambda>_.
     bindE (binding_text (payload_field d ''provider'')) (\<lambda>_.
     bindE (positive_version (payload_field d ''credential_version'')) (\<lambda>_.
     case k of
       CURSOR \<Rightarrow>
         bindE (binding_text (payload_field d ''connection_revision'')) (\<lambda>_.
         bindE (digest_text (payload_field d ''input_digest'')) (\<lambda>_.
         bindE (digest_text (payload_field d ''continuation_digest'')) (\<lambda>_.
         check_nonce (payload_field d ''continuation_handle'') ''cursor continuation handle is invalid'')))
     | CONFIRMATION \<Rightarrow>
         bindE (binding_text (payload_field d ''authorization_tier'')) (\<lambda>_.
         bindE (positive_version (payload_field d ''connection_version'')) (\<lambda>_.
         bindE (effect_text (payload_field d ''effect'')) (\<lambda>_.
         bindE (digest_text (payload_field d ''granted_scope_digest'')) (\<lambda>_.
         bindE (digest_text (payload_field d ''mutation_digest'')) (\<lambda>_.
         check_nonce (payload_field d ''nonce'') ''confirmation nonce is invalid'')))))))))"

text \<open>The payload of authentic bytes: JSON without duplicate keys, canonical, of the kind.\<close>

definition decode_payload :: "string \<Rightarrow> token_kind \<Rightarrow> items result" where
  "decode_payload encoded k =
     (if \<not> valid_utf8 encoded then Inl (ValidationError ''sealed token payload is invalid'')
      else case json_loads token_decoder encoded of
        Inr (PDict d) \<Rightarrow>
          bindE (canonical_json (PDict d)) (\<lambda>again.
          if again \<noteq> encoded then Inl (ValidationError ''sealed token payload is not canonical'')
          else if set (map fst d) \<noteq> set (map PStr (kind_keys k)) \<or>
                  \<not> py_eq_str (payload_field d ''kind'') (kind_text k)
          then Inl (ValidationError ''sealed token payload is invalid'')
          else if \<not> py_eq_int (payload_field d ''version'') TOKEN_VERSION
          then Inl (ValidationError ''sealed token version is unsupported'')
          else bindE (validate_payload_fields d k) (\<lambda>_. Inr d))
      | _ \<Rightarrow> Inl (ValidationError ''sealed token payload is invalid''))"

definition decode_token :: "session_config \<Rightarrow> pyobj \<Rightarrow> token_kind \<Rightarrow> items result" where
  "decode_token cfg token k =
     (case token of
        PStr t \<Rightarrow>
          if \<not> ascii t \<or> MAX_SEALED_TOKEN_LENGTH < ilen t
          then Inl (ValidationError ''sealed token is invalid'')
          else (case split_dot t of
              [v, p, m] \<Rightarrow>
                if v \<noteq> ''v1'' then Inl (ValidationError ''sealed token is invalid'')
                else bindE (b64decode p) (\<lambda>encoded.
                     bindE (b64decode m) (\<lambda>actual_mac.
                     if actual_mac \<noteq> hmac_sha256 (cfg_secret cfg) encoded
                     then Inl (ValidationError ''sealed token is invalid'')
                     else decode_payload encoded k))
            | _ \<Rightarrow> Inl (ValidationError ''sealed token is invalid''))
      | _ \<Rightarrow> Inl (ValidationError ''sealed token is invalid''))"

subsection \<open>Time bindings\<close>

text \<open>A number that is not a Boolean and is finite, as the rational it denotes.\<close>

definition finite_number :: "pyobj \<Rightarrow> rat option result" where
  "finite_number v =
     (case v of
        PInt i \<Rightarrow> bindE (py_isfinite v) (\<lambda>_. Inr (Some (of_int i)))
      | PFloat (Finite r) \<Rightarrow> Inr (Some r)
      | _ \<Rightarrow> Inr None)"

text \<open>\<open>a - b\<close>: exact between integers, rounded as soon as one side is a float.\<close>

definition number_sub :: "pyobj \<Rightarrow> rat \<Rightarrow> pyobj \<Rightarrow> rat \<Rightarrow> pyfloat" where
  "number_sub v a w b =
     (case (v, w) of
        (PInt _, PInt _) \<Rightarrow> Finite (a - b)
      | _ \<Rightarrow> (case (round_double a, round_double b) of
                (Finite x, Finite y) \<Rightarrow> float_sub x y
              | _ \<Rightarrow> NaN))"

fun float_exceeds :: "pyfloat \<Rightarrow> rat \<Rightarrow> bool" where
  "float_exceeds (Finite a) b = (b < a)"
| "float_exceeds PosInf b = True"
| "float_exceeds _ b = False"

definition validate_times :: "items \<Rightarrow> token_kind \<Rightarrow> clock_value \<Rightarrow> (rat \<times> pyfloat) result" where
  "validate_times d k clock =
     (let issued = payload_field d ''issued_at''; expires = payload_field d ''expires_at'';
          invalid = ValidationError (''sealed '' @ kind_text k @ '' time binding is invalid'') in
      bindE (finite_number issued) (\<lambda>i. case i of
        None \<Rightarrow> Inl invalid
      | Some issued_at \<Rightarrow>
      bindE (finite_number expires) (\<lambda>e. case e of
        None \<Rightarrow> Inl invalid
      | Some expires_at \<Rightarrow>
          if expires_at \<le> issued_at \<or>
             float_exceeds (number_sub expires expires_at issued issued_at) (of_int MAX_TTL_SECONDS)
          then Inl invalid
          else bindE (session_now clock) (\<lambda>now.
            if now < issued_at
            then Inl (ConflictError (''sealed '' @ kind_text k @ '' is not yet valid''))
            else if expires_at \<le> now
            then Inl (ConflictError (''sealed '' @ kind_text k @ '' has expired''))
            else Inr (now, round_double expires_at)))))"

text \<open>\<open>_prune_state\<close>: entries whose expiry has come are dropped.\<close>

fun expired :: "rat \<Rightarrow> pyfloat \<Rightarrow> bool" where
  "expired now (Finite e) = (e \<le> now)"
| "expired now NegInf = True"
| "expired now _ = False"

definition prune_state :: "rat \<Rightarrow> session \<Rightarrow> session" where
  "prune_state now s =
     s\<lparr>spent_nonces := filter (\<lambda>(_, e). \<not> expired now e) (spent_nonces s),
       cursor_values := filter (\<lambda>(_, _, e). \<not> expired now e) (cursor_values s)\<rparr>"

definition require_bindings :: "items \<Rightarrow> (string \<times> pyobj) list \<Rightarrow> token_kind \<Rightarrow> unit result" where
  "require_bindings d expected k =
     raise_unless
       (list_all (\<lambda>(name, v). case v of
            PStr s \<Rightarrow> py_eq_str (payload_field d name) s
          | PInt i \<Rightarrow> py_eq_int (payload_field d name) i
          | _ \<Rightarrow> payload_field d name = v) expected)
       (ConflictError (''sealed '' @ kind_text k @ '' binding does not match''))"

subsection \<open>Operations\<close>

text \<open>What a cursor is bound to, and what a confirmation is bound to.\<close>

record cursor_bindings =
  cb_provider :: pyobj
  cb_operation :: pyobj
  cb_connection_id :: pyobj
  cb_input_value :: pyobj
  cb_connection_revision :: pyobj
  cb_credential_version :: pyobj

record confirmation_bindings =
  fb_provider :: pyobj
  fb_operation :: pyobj
  fb_connection_id :: pyobj
  fb_effect :: pyobj
  fb_authorization_tier :: pyobj
  fb_granted_scopes :: pyobj
  fb_mutation :: pyobj
  fb_connection_version :: pyobj
  fb_credential_version :: pyobj

definition cursor_payload ::
    "rat \<Rightarrow> pyfloat \<Rightarrow> string \<Rightarrow> pyobj \<Rightarrow> cursor_bindings \<Rightarrow> pyobj result" where
  "cursor_payload issued_at expires_at handle continuation b =
     bindE (binding_text (cb_connection_id b)) (\<lambda>connection_id.
     bindE (binding_text (cb_connection_revision b)) (\<lambda>connection_revision.
     bindE (canonical_json_digest continuation) (\<lambda>continuation_digest.
     bindE (positive_version (cb_credential_version b)) (\<lambda>credential_version.
     bindE (canonical_json_digest (cb_input_value b)) (\<lambda>input_digest.
     bindE (binding_text (cb_operation b)) (\<lambda>operation.
     bindE (binding_text (cb_provider b)) (\<lambda>provider.
     Inr (obj
       [(''connection_id'', PStr connection_id),
        (''connection_revision'', PStr connection_revision),
        (''continuation_digest'', PStr continuation_digest),
        (''continuation_handle'', PStr handle),
        (''credential_version'', PInt credential_version),
        (''expires_at'', PFloat expires_at),
        (''input_digest'', PStr input_digest),
        (''issued_at'', PFloat (Finite issued_at)),
        (''kind'', PStr ''cursor''),
        (''operation'', PStr operation),
        (''provider'', PStr provider),
        (''version'', PInt TOKEN_VERSION)]))))))))"

definition store_cursor ::
    "session_config \<Rightarrow> session \<Rightarrow> rat \<Rightarrow> string \<Rightarrow> pyobj \<Rightarrow> pyfloat \<Rightarrow> unit result \<times> session" where
  "store_cursor cfg s issued_at handle continuation expires_at =
     (let s' = prune_state issued_at s in
      if cfg_max_cursor_handles cfg \<le> ilen (cursor_values s')
      then (Inl (ConflictError ''cursor capacity is full; wait for a cursor to expire''), s')
      else (Inr (), s'\<lparr>cursor_values := AList.update handle (continuation, expires_at) (cursor_values s')\<rparr>))"

definition issue_cursor ::
    "session_config \<Rightarrow> session \<Rightarrow> clock_value \<Rightarrow> string \<Rightarrow> cursor_bindings \<Rightarrow> pyobj \<Rightarrow> pyobj
     \<Rightarrow> string result \<times> session" where
  "issue_cursor cfg s clock random b continuation ttl =
     (case bindE (session_now clock) (\<lambda>issued_at.
           bindE (token_ttl ttl) (\<lambda>seconds.
           bindE (canonicalize_json continuation) (\<lambda>stored.
           let expires_at = float_add issued_at (of_int seconds); handle = b64encode random in
           bindE (cursor_payload issued_at expires_at handle stored b) (\<lambda>payload.
           bindE (encode_token cfg payload) (\<lambda>token.
           Inr (token, issued_at, handle, stored, expires_at)))))) of
        Inl e \<Rightarrow> (Inl e, s)
      | Inr (token, issued_at, handle, stored, expires_at) \<Rightarrow>
          (case store_cursor cfg s issued_at handle stored expires_at of
             (Inl e, s') \<Rightarrow> (Inl e, s')
           | (Inr _, s') \<Rightarrow> (Inr token, s')))"

definition cursor_expected :: "cursor_bindings \<Rightarrow> (string \<times> pyobj) list result" where
  "cursor_expected b =
     bindE (binding_text (cb_connection_id b)) (\<lambda>connection_id.
     bindE (binding_text (cb_connection_revision b)) (\<lambda>connection_revision.
     bindE (positive_version (cb_credential_version b)) (\<lambda>credential_version.
     bindE (canonical_json_digest (cb_input_value b)) (\<lambda>input_digest.
     bindE (binding_text (cb_operation b)) (\<lambda>operation.
     bindE (binding_text (cb_provider b)) (\<lambda>provider.
     Inr [(''connection_id'', PStr connection_id),
          (''connection_revision'', PStr connection_revision),
          (''credential_version'', PInt credential_version),
          (''input_digest'', PStr input_digest),
          (''operation'', PStr operation),
          (''provider'', PStr provider)]))))))"

text \<open>The checks before the lock, and the look-up under it with a second reading of the clock.\<close>

definition check_cursor ::
    "session_config \<Rightarrow> clock_value \<Rightarrow> pyobj \<Rightarrow> cursor_bindings \<Rightarrow> items result" where
  "check_cursor cfg clock token b =
     bindE (decode_token cfg token CURSOR) (\<lambda>d.
     bindE (validate_times d CURSOR clock) (\<lambda>_.
     bindE (cursor_expected b) (\<lambda>expected.
     bindE (require_bindings d expected CURSOR) (\<lambda>_. Inr d))))"

definition field_text :: "items \<Rightarrow> string \<Rightarrow> string" where
  "field_text d k = (case payload_field d k of PStr s \<Rightarrow> s | _ \<Rightarrow> [])"

definition load_cursor :: "session \<Rightarrow> clock_value \<Rightarrow> items \<Rightarrow> pyobj result \<times> session" where
  "load_cursor s clock d =
     (case session_now clock of
        Inl e \<Rightarrow> (Inl e, s)
      | Inr now \<Rightarrow>
          let s' = prune_state now s in
          (case map_of (cursor_values s') (field_text d ''continuation_handle'') of
             None \<Rightarrow> (Inl (ConflictError ''cursor continuation is unavailable; restart the read''), s')
           | Some (continuation, _) \<Rightarrow>
               (bindE (canonical_json_digest continuation) (\<lambda>digest.
                if payload_field d ''continuation_digest'' \<noteq> PStr digest
                then Inl (ConflictError ''cursor continuation does not match'')
                else canonicalize_json continuation), s')))"

definition open_cursor ::
    "session_config \<Rightarrow> session \<Rightarrow> clock_value \<Rightarrow> clock_value \<Rightarrow> pyobj \<Rightarrow> cursor_bindings
     \<Rightarrow> pyobj result \<times> session" where
  "open_cursor cfg s clock1 clock2 token b =
     (case check_cursor cfg clock1 token b of
        Inl e \<Rightarrow> (Inl e, s)
      | Inr d \<Rightarrow> load_cursor s clock2 d)"

definition confirmation_payload ::
    "rat \<Rightarrow> pyobj \<Rightarrow> string \<Rightarrow> confirmation_bindings \<Rightarrow> pyobj result" where
  "confirmation_payload issued_at ttl nonce b =
     bindE (binding_text (fb_authorization_tier b)) (\<lambda>authorization_tier.
     bindE (binding_text (fb_connection_id b)) (\<lambda>connection_id.
     bindE (positive_version (fb_connection_version b)) (\<lambda>connection_version.
     bindE (positive_version (fb_credential_version b)) (\<lambda>credential_version.
     bindE (effect_text (fb_effect b)) (\<lambda>effect.
     bindE (token_ttl ttl) (\<lambda>seconds.
     bindE (scope_digest (fb_granted_scopes b)) (\<lambda>granted_scope_digest.
     bindE (canonical_json_digest (fb_mutation b)) (\<lambda>mutation_digest.
     bindE (binding_text (fb_operation b)) (\<lambda>operation.
     bindE (binding_text (fb_provider b)) (\<lambda>provider.
     Inr (obj
       [(''authorization_tier'', PStr authorization_tier),
        (''connection_id'', PStr connection_id),
        (''connection_version'', PInt connection_version),
        (''credential_version'', PInt credential_version),
        (''effect'', PStr effect),
        (''expires_at'', PFloat (float_add issued_at (of_int seconds))),
        (''granted_scope_digest'', PStr granted_scope_digest),
        (''issued_at'', PFloat (Finite issued_at)),
        (''kind'', PStr ''confirmation''),
        (''mutation_digest'', PStr mutation_digest),
        (''nonce'', PStr nonce),
        (''operation'', PStr operation),
        (''provider'', PStr provider),
        (''version'', PInt TOKEN_VERSION)])))))))))))"

definition issue_confirmation ::
    "session_config \<Rightarrow> clock_value \<Rightarrow> string \<Rightarrow> confirmation_bindings \<Rightarrow> pyobj \<Rightarrow> string result" where
  "issue_confirmation cfg clock random b ttl =
     bindE (session_now clock) (\<lambda>issued_at.
     bindE (confirmation_payload issued_at ttl (b64encode random) b) (\<lambda>payload.
     encode_token cfg payload))"

definition confirmation_expected :: "confirmation_bindings \<Rightarrow> (string \<times> pyobj) list result" where
  "confirmation_expected b =
     bindE (binding_text (fb_authorization_tier b)) (\<lambda>authorization_tier.
     bindE (binding_text (fb_connection_id b)) (\<lambda>connection_id.
     bindE (positive_version (fb_connection_version b)) (\<lambda>connection_version.
     bindE (positive_version (fb_credential_version b)) (\<lambda>credential_version.
     bindE (effect_text (fb_effect b)) (\<lambda>effect.
     bindE (scope_digest (fb_granted_scopes b)) (\<lambda>granted_scope_digest.
     bindE (canonical_json_digest (fb_mutation b)) (\<lambda>mutation_digest.
     bindE (binding_text (fb_operation b)) (\<lambda>operation.
     bindE (binding_text (fb_provider b)) (\<lambda>provider.
     Inr [(''authorization_tier'', PStr authorization_tier),
          (''connection_id'', PStr connection_id),
          (''connection_version'', PInt connection_version),
          (''credential_version'', PInt credential_version),
          (''effect'', PStr effect),
          (''granted_scope_digest'', PStr granted_scope_digest),
          (''mutation_digest'', PStr mutation_digest),
          (''operation'', PStr operation),
          (''provider'', PStr provider)])))))))))"

text \<open>
  \<open>consume_confirmation\<close> reads the clock and checks the token before it takes the lock; under
  the lock it prunes with that reading and spends the nonce.
\<close>

definition check_confirmation ::
    "session_config \<Rightarrow> clock_value \<Rightarrow> pyobj \<Rightarrow> confirmation_bindings \<Rightarrow> (string \<times> rat \<times> pyfloat) result" where
  "check_confirmation cfg clock token b =
     bindE (decode_token cfg token CONFIRMATION) (\<lambda>d.
     bindE (validate_times d CONFIRMATION clock) (\<lambda>(now, expires_at).
     bindE (confirmation_expected b) (\<lambda>expected.
     bindE (require_bindings d expected CONFIRMATION) (\<lambda>_.
     Inr (field_text d ''nonce'', now, expires_at)))))"

definition spend_nonce ::
    "session_config \<Rightarrow> session \<Rightarrow> string \<times> rat \<times> pyfloat \<Rightarrow> string result \<times> session" where
  "spend_nonce cfg s = (\<lambda>(nonce, now, expires_at).
     let s' = prune_state now s in
     if map_of (spent_nonces s') nonce \<noteq> None
     then (Inl (ConflictError ''confirmation token has already been consumed''), s')
     else if cfg_max_spent_nonces cfg \<le> ilen (spent_nonces s')
     then (Inl (ConflictError ''confirmation capacity is full; wait for an approval to expire''), s')
     else (Inr nonce, s'\<lparr>spent_nonces := AList.update nonce expires_at (spent_nonces s')\<rparr>))"

definition consume_confirmation ::
    "session_config \<Rightarrow> session \<Rightarrow> clock_value \<Rightarrow> pyobj \<Rightarrow> confirmation_bindings
     \<Rightarrow> string result \<times> session" where
  "consume_confirmation cfg s clock token b =
     (case check_confirmation cfg clock token b of
        Inl e \<Rightarrow> (Inl e, s)
      | Inr checked \<Rightarrow> spend_nonce cfg s checked)"

end
