(* ===== verification/Utf8_Text.thy ===== *)
theory Utf8_Text
  imports Json_Text
begin

section \<open>Encoded text is valid UTF-8\<close>

text \<open>
  Escaping works byte by byte and leaves every byte of a multi-byte character alone, so the
  text of an encodable value is valid UTF-8: decoding a sealed payload never fails there.
\<close>

lemma valid_utf8_Cons: "\<not> digit7 c \<Longrightarrow> valid_utf8 s \<Longrightarrow> valid_utf8 (c # s)"
  using valid_utf8_append [of "[c]" s] by (simp add: valid_utf8_ascii ascii_def)

lemma escape_char_high: "digit7 c \<Longrightarrow> escape_char c = [c]"
proof -
  assume d: "digit7 c"
  then have "128 \<le> byte c" by (cases c) simp
  moreover have "c \<notin> {CHR 0x22, CHR 0x5C, CHR 0x0A, CHR 0x0D, CHR 0x09, CHR 0x0C, CHR 0x08}"
    using d by auto
  ultimately show ?thesis by (simp add: escape_char_def)
qed

lemma digit7_byte: "digit7 c \<longleftrightarrow> 128 \<le> byte c"
  by (cases c) simp

lemma ascii_char_of: "0 \<le> n \<Longrightarrow> n < 128 \<Longrightarrow> \<not> digit7 (char_of (n :: int))"
  by (simp add: digit7_byte byte_char_of)

lemma hex_char_ascii: "0 \<le> d \<Longrightarrow> d < 16 \<Longrightarrow> \<not> digit7 (hex_char d)"
  by (simp add: hex_char_def ascii_char_of)

lemma escape_char_ascii:
  assumes "\<not> digit7 c"
  shows "ascii (escape_char c)"
proof -
  have "\<not> digit7 (hex_char (byte c div 16))" if "byte c < 32"
    by (rule hex_char_ascii) (use that byte_nonneg [of c] in linarith)+
  moreover have "\<not> digit7 (hex_char (byte c mod 16))" by (rule hex_char_ascii) simp_all
  ultimately show ?thesis using assms by (simp add: escape_char_def ascii_def)
qed

lemma utf8_take_escape:
  "utf8_take n acc cs = Some (p, rest) \<Longrightarrow>
   utf8_take n acc (concat (map escape_char cs)) = Some (p, concat (map escape_char rest))"
proof (induction n arbitrary: acc cs)
  case 0
  then show ?case by simp
next
  case (Suc n)
  then show ?case by (cases cs) (auto simp: utf8_cont_def escape_char_high split: if_splits)
qed

lemma valid_utf8_escape: "valid_utf8 s \<Longrightarrow> valid_utf8 (concat (map escape_char s))"
proof (induction s rule: utf8_decode.induct)
  case 1
  then show ?case by simp
next
  case (2 c cs)
  from "2.prems" obtain n b p rest where
    lead: "utf8_lead c = Some (n, b)" and take: "utf8_take n b cs = Some (p, rest)"
    and ok: "\<not> (p < utf8_least n \<or> (55296 \<le> p \<and> p \<le> 57343) \<or> 1114111 < p)"
    and rest: "valid_utf8 rest"
    by (auto simp: valid_utf8_def split: option.splits if_splits prod.splits)
  have IH: "valid_utf8 (concat (map escape_char rest))"
    using "2.IH" [OF lead _ take _ ok rest] by simp
  show ?case
  proof (cases "digit7 c")
    case True
    then show ?thesis
      using lead utf8_take_escape [OF take] ok IH by (auto simp: valid_utf8_def escape_char_high)
  next
    case False
    then have "rest = cs" using lead take by (simp add: utf8_lead_ascii)
    then show ?thesis
      using IH False by (simp add: valid_utf8_append valid_utf8_ascii escape_char_ascii)
  qed
qed

text \<open>With \<open>ensure_ascii\<close> the text of any code points is ASCII.\<close>

lemma ascii_append [simp]: "ascii (s @ t) = (ascii s \<and> ascii t)"
  by (simp add: ascii_def)

lemma ascii_simps [simp]: "ascii []" "ascii (c # s) = (\<not> digit7 c \<and> ascii s)"
  by (simp_all add: ascii_def)

lemma unicode_escape_ascii: "0 \<le> u \<Longrightarrow> u < 65536 \<Longrightarrow> ascii (unicode_escape u)"
  by (simp add: unicode_escape_def hex_char_ascii div_less_iff_less_mult pos_imp_zdiv_nonneg_iff)

lemma escape_point_ascii:
  assumes "scalar_value p"
  shows "ascii (escape_point p)"
proof -
  have p: "0 \<le> p" "p \<le> 1114111" using assms by (simp_all add: scalar_value_def)
  have "0 \<le> (p - 65536) div 1024 \<and> (p - 65536) div 1024 < 1024" if "65536 \<le> p"
    using that p by (simp add: pos_imp_zdiv_nonneg_iff div_less_iff_less_mult)
  moreover have "0 \<le> (p - 65536) mod 1024 \<and> (p - 65536) mod 1024 < 1024" by simp
  ultimately show ?thesis
    using p by (simp add: escape_point_def escape_char_ascii ascii_char_of unicode_escape_ascii)
qed

lemma valid_utf8_escape_string: "valid_utf8 s \<Longrightarrow> valid_utf8 (escape_string a s)"
proof (cases a)
  case True
  assume "valid_utf8 s"
  then obtain ps where u: "utf8_points s = ps" and ps: "list_all scalar_value ps"
    using utf8_points_decode by (fastforce simp: valid_utf8_def)
  have "ascii (concat (map escape_point ps))" using ps by (induction ps) (simp_all add: escape_point_ascii)
  with True u show ?thesis by (simp add: escape_string_def valid_utf8_ascii)
qed (simp add: escape_string_def valid_utf8_escape)

lemma valid_utf8_token: "valid_utf8 s \<Longrightarrow> valid_utf8 (string_token a s)"
  by (simp add: string_token_def valid_utf8_Cons valid_utf8_append valid_utf8_escape_string)

lemma json_digit_ascii: "json_digit c \<Longrightarrow> \<not> digit7 c"
  by (auto simp: json_digit_def digit7_byte)

lemma nat_text_ascii: "0 \<le> n \<Longrightarrow> ascii (nat_text n)"
  using nat_text_digits [of n] by (auto simp: ascii_def list_all_iff json_digit_ascii)

lemma int_text_ascii: "ascii (int_text i)"
  by (simp add: int_text_def nat_text_ascii)

lemma decimal_text_ascii: "0 \<le> D \<Longrightarrow> ascii (decimal_text D x)"
proof -
  assume "0 \<le> D"
  note d = nat_text_ascii [OF this]
  have t: "ascii (take k (nat_text D))" "ascii (drop k (nat_text D))" for k
    using d by (auto simp: ascii_def list_all_iff dest: in_set_takeD in_set_dropD)
  have z: "ascii (replicate k CHR ''0'')" for k by (simp add: ascii_def list_all_iff)
  show ?thesis by (simp add: decimal_text_def Let_def exponent_text_def d t z nat_text_ascii)
qed

lemma float_text_ascii:
  assumes "is_double r"
  shows "ascii (float_text r)"
proof (cases "r = 0")
  case True
  then show ?thesis by (simp add: float_text_def ascii_def)
next
  case False
  define a where "a = \<bar>r\<bar>"
  have a: "0 < a" using False by (simp add: a_def)
  have "is_double a"
    using assms(1) round_double_minus [of r r] by (simp add: is_double_def a_def abs_if)
  obtain D x where D: "decimal_search a [1, 2, 3, 4, 5, 6, 7, 8, 9, 10, 11, 12, 13, 14, 15, 16, 17] = (D, x)"
    by fastforce
  then have "0 < D" using decimal_search_denotes [OF \<open>is_double a\<close> a] a denotes_pos by blast
  obtain D' x' where D': "strip_zeros D x = (D', x')" by fastforce
  have "0 < D'" using strip_zeros_value [OF D' \<open>0 < D\<close>] by simp
  then have "ascii (decimal_text D' x')" by (intro decimal_text_ascii) simp
  moreover have "float_text r = (if r < 0 then ''-'' else []) @ decimal_text D' x'"
    using False unfolding float_text_def a_def [symmetric] D prod.case D' by simp
  ultimately show ?thesis by simp
qed

lemma valid_utf8_join:
  "list_all valid_utf8 ts \<Longrightarrow> valid_utf8 sep \<Longrightarrow> valid_utf8 close \<Longrightarrow> valid_utf8 (join_text sep close ts)"
  by (induction sep close ts rule: join_text.induct) (auto simp: valid_utf8_append)

lemma ascii_separators: "ascii (new_line st l)" "ascii (item_separator st l)" "ascii (key_separator st)"
  by (auto simp: new_line_def item_separator_def key_separator_def ascii_def list_all_iff split: option.splits)

lemma valid_utf8_bracketed:
  "list_all valid_utf8 ts \<Longrightarrow> \<not> digit7 op \<Longrightarrow> \<not> digit7 close \<Longrightarrow> valid_utf8 (bracketed st l op close ts)"
  by (auto simp: bracketed_def ascii_separators valid_utf8_ascii
      intro!: valid_utf8_Cons valid_utf8_append valid_utf8_join)

lemma valid_utf8_dumps: "plain_json v \<Longrightarrow> encodable v \<Longrightarrow> valid_utf8 (dumps st l v)"
proof (induction st l v rule: dumps.induct)
  case (11 st l d)
  have "valid_utf8 ((case k of PStr s \<Rightarrow> string_token (only_ascii st) s | _ \<Rightarrow> []) @ key_separator st @ dumps st (Suc l) v)"
    if "(k, v) \<in> set d" for k v
  proof -
    from 11 that obtain s where s: "k = PStr s" "valid_utf8 s" "plain_json v" "encodable v"
      by (fastforce simp: list_all_iff)
    then have "valid_utf8 (dumps st (Suc l) v)" using "11.IH" that by blast
    then show ?thesis using s by (simp add: valid_utf8_append valid_utf8_token valid_utf8_ascii ascii_separators)
  qed
  then show ?case
    by (auto simp: list_all_iff intro!: valid_utf8_bracketed)
next
  case (9 st l xs)
  then show ?case by (auto simp: list_all_iff intro!: valid_utf8_bracketed)
next
  case (8 st l s)
  then show ?case by (simp add: valid_utf8_token)
qed (auto simp: valid_utf8_ascii [OF int_text_ascii] valid_utf8_ascii float_text_ascii)

lemma valid_utf8_json_text: "plain_json v \<Longrightarrow> encodable v \<Longrightarrow> valid_utf8 (json_text v)"
  by (simp add: json_text_def valid_utf8_dumps)

end
