(* ===== verification/Session_Seal.thy ===== *)
theory Session_Seal
  imports Session Utf8_Text
begin

section \<open>Sealed tokens are read back, and only the sealed ones\<close>

text \<open>
  Facts about the sealing half of \<open>connector_session.py\<close>: what \<open>encode_token\<close> returns decodes to
  the payload, and a token that decodes is the encoding of its payload, byte for byte.
\<close>

subsection \<open>Splitting\<close>

lemma split_dot_plain: "CHR ''.'' \<notin> set s \<Longrightarrow> split_dot s = [s]"
  by (induction s) auto

lemma split_dot_append: "CHR ''.'' \<notin> set s \<Longrightarrow> split_dot (s @ CHR ''.'' # t) = s # split_dot t"
  by (induction s) auto

lemma split_dot_ne [simp]: "split_dot s \<noteq> []"
  by (induction s) (auto split: list.splits)

text \<open>A text is its pieces joined by dots.\<close>

fun join_dot :: "string list \<Rightarrow> string" where
  "join_dot [] = []"
| "join_dot [p] = p"
| "join_dot (p # ps) = p @ CHR ''.'' # join_dot ps"

lemma join_split_dot: "join_dot (split_dot s) = s"
proof (induction s)
  case Nil
  then show ?case by simp
next
  case (Cons c s)
  obtain p ps where ps: "split_dot s = p # ps" by (cases "split_dot s") auto
  with Cons show ?case by (cases ps) auto
qed

lemma b64_text_dot: "b64_text t \<Longrightarrow> CHR ''.'' \<notin> set t"
  by (auto simp: b64_text_def list_all_iff b64_value_def)

lemma b64_text_ascii: "b64_text t \<Longrightarrow> ascii t"
  by (force simp: b64_text_def ascii_def list_all_iff b64_value_def digit7_byte Let_def split: if_splits)

lemma token_text_split: "split_dot (token_text e m) = [''v1'', b64encode e, b64encode m]"
  using split_dot_append [of "''v1''"] split_dot_append [of "b64encode e"] b64_text_dot [OF b64encode_text]
  by (simp add: token_text_def split_dot_plain)

lemma token_text_ascii: "ascii (token_text e m)"
  by (simp add: token_text_def b64_text_ascii b64encode_text)

lemma hmac_ne [simp]: "hmac_sha256 k m \<noteq> []"
  using hmac_sha256_length [of k m] by (metis list.size(3) zero_neq_numeral)

subsection \<open>Decoding what was encoded\<close>

lemma encode_token_Inr:
  "encode_token cfg p = Inr token \<longleftrightarrow>
     (\<exists>e. canonical_json p = Inr e \<and> token = token_text e (hmac_sha256 (cfg_secret cfg) e) \<and>
        ilen token \<le> MAX_SEALED_TOKEN_LENGTH)"
  by (auto simp: encode_token_def bindE_Inr_iff Let_def not_less)

lemma decode_token_sealed:
  assumes "encode_token cfg p = Inr token" "canonical_json p = Inr e" "e \<noteq> []"
  shows "decode_token cfg (PStr token) k = decode_payload e k"
  using assms
  by (auto simp: encode_token_Inr decode_token_def token_text_split token_text_ascii b64decode_encode)

lemma keeps_objects_no_duplicates: "keeps_objects (object_hook token_decoder)"
  by (simp add: keeps_objects_def object_without_duplicates_def token_decoder_def)

text \<open>A flat payload with sorted keys is its own canonical form.\<close>

definition flat :: "(string \<times> pyobj) list \<Rightarrow> bool" where
  "flat kvs = list_all (\<lambda>(_, v). as_mapping v = None \<and> (\<forall>xs. v \<noteq> PList xs)) kvs"

lemma clone_flat_items:
  "mapE (clone_item depth) (items kvs) = Inr kvs' \<Longrightarrow> flat kvs \<Longrightarrow> kvs' = kvs"
proof (induction kvs arbitrary: kvs')
  case Nil
  then show ?case by simp
next
  case (Cons kv kvs)
  then show ?case
    by (cases kv)
       (auto simp: flat_def bindE_Inr_iff clone_item_def clone_key_Inr dest: clone_json_scalar)
qed

lemma canonicalize_flat:
  assumes "canonicalize_json (obj kvs) = Inr w" "flat kvs" "sorted (map fst kvs)"
  shows "w = obj kvs"
proof -
  from assms(1) obtain kvs' where "mapE (clone_item (0 + 1)) (items kvs) = Inr kvs'" "w = obj (sort_items kvs')"
    unfolding canonicalize_json_def clone_json_mapping [of "obj kvs", OF as_mapping.simps(1) [of "items kvs", folded obj_def]]
    by (auto simp: bindE_Inr_iff split: if_splits)
  with clone_flat_items assms(2,3) sort_items_id show ?thesis by metis
qed

text \<open>Decoding the canonical text of a sealed payload gives the payload after its field checks.\<close>

lemma decode_payload_sealed:
  assumes c: "canonical_json (obj kvs) = Inr e"
    and flat: "flat kvs" "sorted (map fst kvs)" and wf: "wf_py (obj kvs)"
    and keys: "map fst kvs = kind_keys k" "map_of kvs ''kind'' = Some (PStr (kind_text k))"
    and version: "map_of kvs ''version'' = Some (PInt TOKEN_VERSION)"
    and fields: "validate_payload_fields (items kvs) k = Inr ()"
  shows "decode_payload e k = Inr (items kvs)"
proof -
  obtain w where w: "canonicalize_json (obj kvs) = Inr w" "encodable w" "e = json_text w"
    using c by (auto simp: canonical_json_def bindE_Inr_iff split: if_splits)
  then have "w = obj kvs" using canonicalize_flat flat by blast
  with w have "plain_json (obj kvs)" "encodable (obj kvs)"
    using clone_json_plain wf by (auto simp: canonicalize_json_def)
  then have "valid_utf8 e" "json_loads token_decoder e = Inr (obj kvs)"
    using loads_json_text [OF keeps_objects_no_duplicates] valid_utf8_json_text w(3) \<open>w = obj kvs\<close>
    by blast+
  moreover have "set (map fst (items kvs)) = PStr ` set (kind_keys k)"
    unfolding keys(1) [symmetric] by (force simp: items_def)
  ultimately show ?thesis
    using c keys(2) version fields
    by (simp add: decode_payload_def payload_field_def dget_items obj_def)
qed

subsection \<open>Only sealed tokens decode\<close>

theorem decode_token_exact:
  assumes "decode_token cfg token k = Inr d"
  shows "\<exists>t. token = PStr t \<and> encode_token cfg (PDict d) = Inr t"
proof -
  from assms obtain t p m e where t: "token = PStr t" "split_dot t = [''v1'', p, m]"
    "ilen t \<le> MAX_SEALED_TOKEN_LENGTH"
    and e: "b64decode p = Inr e" "b64decode m = Inr (hmac_sha256 (cfg_secret cfg) e)"
    and d: "decode_payload e k = Inr d"
    by (auto simp: decode_token_def bindE_Inr_iff not_less split: pyobj.splits if_splits list.splits)
  have "canonical_json (PDict d) = Inr e"
    using d by (auto simp: decode_payload_def bindE_Inr_iff split: if_splits sum.splits pyobj.splits)
  moreover have "t = token_text e (hmac_sha256 (cfg_secret cfg) e)"
    using join_split_dot [of t] b64decode_Inr [OF e(1)] b64decode_Inr [OF e(2)]
    by (simp add: t(2) token_text_def)
  ultimately show ?thesis using t by (auto simp: encode_token_Inr)
qed

end
