(* ===== verification/Session_Facts.thy ===== *)
theory Session_Facts
  imports Session_Seal
begin

section \<open>What a session does with its tokens\<close>

subsection \<open>Checked fields\<close>

lemma binding_text_Inr: "binding_text v = Inr s \<Longrightarrow> v = PStr s"
  by (auto simp: binding_text_def split: pyobj.splits if_splits)

lemma positive_version_Inr: "positive_version v = Inr i \<Longrightarrow> v = PInt i"
  by (auto simp: positive_version_def split: pyobj.splits if_splits)

lemma effect_text_Inr: "effect_text v = Inr s \<Longrightarrow> v = PStr s"
  by (auto simp: effect_text_def split: pyobj.splits if_splits)

lemma token_ttl_Inr: "token_ttl v = Inr n \<longleftrightarrow> v = PInt n \<and> 1 \<le> n \<and> n \<le> MAX_TTL_SECONDS"
  by (auto simp: token_ttl_def split: pyobj.splits if_splits)

lemma lower_hex_char: "0 \<le> d \<Longrightarrow> d < 16 \<Longrightarrow> lower_hex (hex_char d)"
  by (simp add: lower_hex_def hex_char_def byte_char_of)

lemma lower_hex_text: "list_all lower_hex (hex_text s)"
  using byte_parts by (induction s) (auto simp: hex_text_def lower_hex_char)

lemma canonical_json_digest_is_digest:
  assumes "canonical_json_digest v = Inr s"
  shows "is_digest s"
  using assms lower_hex_text by (auto simp: canonical_json_digest_def bindE_Inr_iff is_digest_def)

lemma digest_text_digest: "canonical_json_digest v = Inr s \<Longrightarrow> digest_text (PStr s) = Inr s"
  by (simp add: digest_text_def canonical_json_digest_is_digest)

lemma scope_digest_digest: "scope_digest v = Inr s \<Longrightarrow> digest_text (PStr s) = Inr s"
  by (auto simp: scope_digest_def bindE_Inr_iff digest_text_digest split: option.splits if_splits)

lemma check_nonce_random: "length r = 16 \<Longrightarrow> check_nonce (PStr (b64encode r)) m = Inr ()"
  using b64decode_encode [of r] by (cases "r = []") (simp_all add: check_nonce_def ilen_def)

lemma sorted_kind_keys: "sorted CURSOR_KEYS" "sorted CONFIRMATION_KEYS"
  by code_simp+

lemma distinct_kind_keys: "distinct CURSOR_KEYS" "distinct CONFIRMATION_KEYS"
  by (simp_all add: CURSOR_KEYS_def CONFIRMATION_KEYS_def)

text \<open>A clock reading is a double.\<close>

fun clock_wf :: "clock_value \<Rightarrow> bool" where
  "clock_wf (ClockFloat (Finite t)) = is_double t"
| "clock_wf _ = True"

lemma session_now_double: "session_now c = Inr t \<Longrightarrow> clock_wf c \<Longrightarrow> is_double t"
  by (cases c rule: session_now.cases)
     (auto simp: float_of_int_def bindE_Inr_iff round_double_is_double split: if_splits pyfloat.splits)

subsection \<open>Decoding an issued token\<close>

lemma canonical_json_obj_ne: "canonical_json (obj kvs) = Inr e \<Longrightarrow> e \<noteq> []"
proof -
  assume "canonical_json (obj kvs) = Inr e"
  then obtain w where "canonicalize_json (PDict (items kvs)) = Inr w" "e = json_text w"
    by (auto simp: canonical_json_def bindE_Inr_iff obj_def split: if_splits)
  then show ?thesis
    unfolding canonicalize_json_def
    by (auto simp: clone_json_mapping bindE_Inr_iff json_text_obj split: if_splits)
qed

definition cursor_fields ::
    "rat \<Rightarrow> rat \<Rightarrow> string \<Rightarrow> string \<Rightarrow> string \<Rightarrow> string \<Rightarrow> int \<Rightarrow> string \<Rightarrow> string \<Rightarrow> string \<Rightarrow> (string \<times> pyobj) list" where
  "cursor_fields issued expires handle cid crev cdig ver idig oper prov =
     [(''connection_id'', PStr cid), (''connection_revision'', PStr crev), (''continuation_digest'', PStr cdig),
      (''continuation_handle'', PStr handle), (''credential_version'', PInt ver), (''expires_at'', PFloat (Finite expires)),
      (''input_digest'', PStr idig), (''issued_at'', PFloat (Finite issued)), (''kind'', PStr ''cursor''),
      (''operation'', PStr oper), (''provider'', PStr prov), (''version'', PInt TOKEN_VERSION)]"

lemma cursor_fields_keys: "map fst (cursor_fields i e h a b c v d p q) = CURSOR_KEYS"
  by (simp add: cursor_fields_def CURSOR_KEYS_def)

lemma payload_field_items: "payload_field (items kvs) k = (case map_of kvs k of Some v \<Rightarrow> v | None \<Rightarrow> PNone)"
  by (simp add: payload_field_def dget_items)

lemma cursor_payload_Inr:
  assumes "cursor_payload issued (Finite expires) handle c b = Inr p"
  obtains cid crev cdig ver idig oper prov where
    "p = obj (cursor_fields issued expires handle cid crev cdig ver idig oper prov)"
    "binding_text (PStr cid) = Inr cid" "binding_text (PStr crev) = Inr crev" "canonical_json_digest c = Inr cdig"
    "positive_version (PInt ver) = Inr ver" "digest_text (PStr idig) = Inr idig"
    "binding_text (PStr oper) = Inr oper" "binding_text (PStr prov) = Inr prov"
    "cursor_expected b = Inr [(''connection_id'', PStr cid), (''connection_revision'', PStr crev),
      (''credential_version'', PInt ver), (''input_digest'', PStr idig), (''operation'', PStr oper),
      (''provider'', PStr prov)]"
proof -
  from assms obtain cid crev cdig ver idig oper prov where
    f: "binding_text (cb_connection_id b) = Inr cid" "binding_text (cb_connection_revision b) = Inr crev"
      "canonical_json_digest c = Inr cdig" "positive_version (cb_credential_version b) = Inr ver"
      "canonical_json_digest (cb_input_value b) = Inr idig" "binding_text (cb_operation b) = Inr oper"
      "binding_text (cb_provider b) = Inr prov"
    and p: "p = obj (cursor_fields issued expires handle cid crev cdig ver idig oper prov)"
    by (auto simp: cursor_payload_def bindE_Inr_iff cursor_fields_def)
  show thesis
  proof (rule that [OF p])
    show "binding_text (PStr cid) = Inr cid" "binding_text (PStr crev) = Inr crev"
      "binding_text (PStr oper) = Inr oper" "binding_text (PStr prov) = Inr prov"
      using f(1,2,6,7) binding_text_Inr by metis+
    show "positive_version (PInt ver) = Inr ver" using f(4) positive_version_Inr by metis
    show "digest_text (PStr idig) = Inr idig" using f(5) by (rule digest_text_digest)
  qed (simp_all add: f cursor_expected_def)
qed

lemma decode_issued_cursor:
  assumes p: "p = obj (cursor_fields issued expires (b64encode r) cid crev cdig ver idig oper prov)"
    and ok: "binding_text (PStr cid) = Inr cid" "binding_text (PStr crev) = Inr crev" "digest_text (PStr cdig) = Inr cdig"
    "positive_version (PInt ver) = Inr ver" "digest_text (PStr idig) = Inr idig"
    "binding_text (PStr oper) = Inr oper" "binding_text (PStr prov) = Inr prov"
    and len: "length r = 16" and dbl: "is_double issued" "is_double expires"
    and token: "encode_token cfg p = Inr token"
  shows "decode_token cfg (PStr token) CURSOR =
    Inr (items (cursor_fields issued expires (b64encode r) cid crev cdig ver idig oper prov))"
proof -
  let ?kvs = "cursor_fields issued expires (b64encode r) cid crev cdig ver idig oper prov"
  obtain e where e: "canonical_json p = Inr e" using token by (auto simp: encode_token_Inr)
  then have "e \<noteq> []" unfolding p by (rule canonical_json_obj_ne)
  moreover have "decode_payload e CURSOR = Inr (items ?kvs)"
  proof (rule decode_payload_sealed)
    show "canonical_json (obj ?kvs) = Inr e" using e p by simp
    show "sorted (map fst ?kvs)" by (simp add: cursor_fields_keys sorted_kind_keys)
    show "wf_py (obj ?kvs)"
      using dbl by (simp add: wf_py_obj cursor_fields_keys distinct_kind_keys) (simp add: cursor_fields_def)
    show "validate_payload_fields (items ?kvs) CURSOR = Inr ()"
      using ok len by (simp add: validate_payload_fields_def payload_field_def cursor_fields_def check_nonce_random)
  qed (simp_all add: kind_keys_def kind_text_def cursor_fields_keys, simp_all add: cursor_fields_def flat_def)
  ultimately show ?thesis using decode_token_sealed [OF token e] by simp
qed

definition confirmation_fields ::
    "rat \<Rightarrow> rat \<Rightarrow> string \<Rightarrow> string \<Rightarrow> string \<Rightarrow> int \<Rightarrow> int \<Rightarrow> string \<Rightarrow> string \<Rightarrow> string \<Rightarrow> string \<Rightarrow> string
     \<Rightarrow> (string \<times> pyobj) list" where
  "confirmation_fields issued expires nonce tier cid cver ver eff sdig mdig oper prov =
     [(''authorization_tier'', PStr tier), (''connection_id'', PStr cid), (''connection_version'', PInt cver),
      (''credential_version'', PInt ver), (''effect'', PStr eff), (''expires_at'', PFloat (Finite expires)),
      (''granted_scope_digest'', PStr sdig), (''issued_at'', PFloat (Finite issued)),
      (''kind'', PStr ''confirmation''), (''mutation_digest'', PStr mdig), (''nonce'', PStr nonce),
      (''operation'', PStr oper), (''provider'', PStr prov), (''version'', PInt TOKEN_VERSION)]"

lemma confirmation_fields_keys: "map fst (confirmation_fields i e n a b c d f g h p q) = CONFIRMATION_KEYS"
  by (simp add: confirmation_fields_def CONFIRMATION_KEYS_def)

definition confirmation_fields_ok ::
    "string \<Rightarrow> string \<Rightarrow> int \<Rightarrow> int \<Rightarrow> string \<Rightarrow> string \<Rightarrow> string \<Rightarrow> string \<Rightarrow> string \<Rightarrow> bool" where
  "confirmation_fields_ok tier cid cver ver eff sdig mdig oper prov =
     (binding_text (PStr tier) = Inr tier \<and> binding_text (PStr cid) = Inr cid \<and>
      positive_version (PInt cver) = Inr cver \<and> positive_version (PInt ver) = Inr ver \<and>
      effect_text (PStr eff) = Inr eff \<and> digest_text (PStr sdig) = Inr sdig \<and>
      digest_text (PStr mdig) = Inr mdig \<and> binding_text (PStr oper) = Inr oper \<and>
      binding_text (PStr prov) = Inr prov)"

lemma confirmation_payload_Inr:
  assumes "confirmation_payload issued ttl nonce b = Inr p"
  obtains tier cid cver ver eff sdig mdig oper prov seconds where
    "ttl = PInt seconds" "1 \<le> seconds" "seconds \<le> MAX_TTL_SECONDS"
    "\<And>expires. float_add issued (of_int seconds) = Finite expires \<Longrightarrow>
       p = obj (confirmation_fields issued expires nonce tier cid cver ver eff sdig mdig oper prov)"
    "confirmation_fields_ok tier cid cver ver eff sdig mdig oper prov"
    "confirmation_expected b = Inr [(''authorization_tier'', PStr tier), (''connection_id'', PStr cid),
      (''connection_version'', PInt cver), (''credential_version'', PInt ver), (''effect'', PStr eff),
      (''granted_scope_digest'', PStr sdig), (''mutation_digest'', PStr mdig), (''operation'', PStr oper),
      (''provider'', PStr prov)]"
proof -
  from assms obtain tier cid cver ver eff sdig mdig oper prov seconds where
    f: "binding_text (fb_authorization_tier b) = Inr tier" "binding_text (fb_connection_id b) = Inr cid"
      "positive_version (fb_connection_version b) = Inr cver" "positive_version (fb_credential_version b) = Inr ver"
      "effect_text (fb_effect b) = Inr eff" "token_ttl ttl = Inr seconds"
      "scope_digest (fb_granted_scopes b) = Inr sdig" "canonical_json_digest (fb_mutation b) = Inr mdig"
      "binding_text (fb_operation b) = Inr oper" "binding_text (fb_provider b) = Inr prov"
    and p: "\<And>expires. float_add issued (of_int seconds) = Finite expires \<Longrightarrow>
      p = obj (confirmation_fields issued expires nonce tier cid cver ver eff sdig mdig oper prov)"
    by (auto simp: confirmation_payload_def bindE_Inr_iff confirmation_fields_def)
  show thesis
  proof (rule that [OF _ _ _ p])
    show "confirmation_fields_ok tier cid cver ver eff sdig mdig oper prov"
      unfolding confirmation_fields_ok_def
      using f binding_text_Inr positive_version_Inr effect_text_Inr digest_text_digest scope_digest_digest
      by metis
  qed (use f in \<open>auto simp: token_ttl_Inr confirmation_expected_def\<close>)
qed

lemma decode_issued_confirmation:
  assumes p: "p = obj (confirmation_fields issued expires (b64encode r) tier cid cver ver eff sdig mdig oper prov)"
    and ok: "confirmation_fields_ok tier cid cver ver eff sdig mdig oper prov"
    and len: "length r = 16" and dbl: "is_double issued" "is_double expires"
    and token: "encode_token cfg p = Inr token"
  shows "decode_token cfg (PStr token) CONFIRMATION =
    Inr (items (confirmation_fields issued expires (b64encode r) tier cid cver ver eff sdig mdig oper prov))"
proof -
  let ?kvs = "confirmation_fields issued expires (b64encode r) tier cid cver ver eff sdig mdig oper prov"
  obtain e where e: "canonical_json p = Inr e" using token by (auto simp: encode_token_Inr)
  then have "e \<noteq> []" unfolding p by (rule canonical_json_obj_ne)
  moreover have "decode_payload e CONFIRMATION = Inr (items ?kvs)"
  proof (rule decode_payload_sealed)
    show "canonical_json (obj ?kvs) = Inr e" using e p by simp
    show "sorted (map fst ?kvs)" by (simp add: confirmation_fields_keys sorted_kind_keys)
    show "wf_py (obj ?kvs)"
      using dbl by (simp add: wf_py_obj confirmation_fields_keys distinct_kind_keys)
        (simp add: confirmation_fields_def)
    show "validate_payload_fields (items ?kvs) CONFIRMATION = Inr ()"
      using ok len unfolding confirmation_fields_ok_def
      by (simp add: validate_payload_fields_def payload_field_def confirmation_fields_def check_nonce_random)
  qed (simp_all add: kind_keys_def kind_text_def confirmation_fields_keys,
       simp_all add: confirmation_fields_def flat_def)
  ultimately show ?thesis using decode_token_sealed [OF token e] by simp
qed

end
