(* ===== verification/Session_Store.thy ===== *)
theory Session_Store
  imports Session_Facts
begin

section \<open>The two expiring stores of a session\<close>

text \<open>
  The spent nonces and the cursor values are dictionaries whose entries carry an expiry and are
  dropped by \<open>_prune_state\<close>. The locale states that contract once; what a session relies on, an
  entry is there until a clock reading reaches its expiry, is proved in it and used for both.
\<close>

datatype 'v store_op = Prune rat | Put string 'v pyfloat

locale expiring_store =
  fixes get :: "'s \<Rightarrow> string \<Rightarrow> ('v \<times> pyfloat) option"
    and prune :: "rat \<Rightarrow> 's \<Rightarrow> 's"
    and put :: "string \<Rightarrow> 'v \<Rightarrow> pyfloat \<Rightarrow> 's \<Rightarrow> 's"
    and count :: "'s \<Rightarrow> int"
    and inv :: "'s \<Rightarrow> bool"
  assumes get_prune: "inv s \<Longrightarrow> get (prune now s) k =
      (case get s k of Some (v, e) \<Rightarrow> if expired now e then None else Some (v, e) | None \<Rightarrow> None)"
    and get_put: "inv s \<Longrightarrow> get (put k v e s) k' = (if k' = k then Some (v, e) else get s k')"
    and inv_prune: "inv s \<Longrightarrow> inv (prune now s)"
    and inv_put: "inv s \<Longrightarrow> inv (put k v e s)"
    and count_prune: "count (prune now s) \<le> count s"
    and count_dropped: "inv s \<Longrightarrow> get s k = Some (v, e) \<Longrightarrow> expired now e \<Longrightarrow> count (prune now s) < count s"
    and count_put: "count (put k v e s) \<le> count s + 1"
begin

fun apply_op :: "'s \<Rightarrow> 'v store_op \<Rightarrow> 's" where
  "apply_op s (Prune now) = prune now s"
| "apply_op s (Put k v e) = put k v e s"

fun keeps_entry :: "string \<Rightarrow> pyfloat \<Rightarrow> 'v store_op \<Rightarrow> bool" where
  "keeps_entry k e (Prune now) = (\<not> expired now e)"
| "keeps_entry k e (Put k' v' e') = (k' \<noteq> k)"

lemma inv_apply: "inv s \<Longrightarrow> inv (apply_op s x)"
  by (cases x) (simp_all add: inv_prune inv_put)

lemma kept_apply:
  "inv s \<Longrightarrow> get s k = Some (v, e) \<Longrightarrow> keeps_entry k e x \<Longrightarrow> get (apply_op s x) k = Some (v, e)"
  by (cases x) (simp_all add: get_prune get_put)

text \<open>An entry survives any sequence of operations that neither reach its expiry nor replace it.\<close>

lemma kept_run:
  "inv s \<Longrightarrow> get s k = Some (v, e) \<Longrightarrow> list_all (keeps_entry k e) xs \<Longrightarrow>
   get (foldl apply_op s xs) k = Some (v, e)"
  by (induction xs arbitrary: s) (simp_all add: inv_apply kept_apply)

text \<open>An entry put under a limit leaves the store within it; pruning never exceeds it.\<close>

lemma count_within:
  "count s \<le> n \<Longrightarrow> count (prune now s) \<le> n"
  "count (prune now s) < n \<Longrightarrow> count (put k v e (prune now s)) \<le> n"
  using count_prune [of now s] count_put [of k v e "prune now s"] by linarith+

lemma gone_after_expiry:
  "inv s \<Longrightarrow> get s k = Some (v, e) \<Longrightarrow> expired now e \<Longrightarrow> get (prune now s) k = None"
  by (simp add: get_prune)

end

subsection \<open>The stores of the model\<close>

definition get_spent :: "session \<Rightarrow> string \<Rightarrow> (unit \<times> pyfloat) option" where
  "get_spent s k = map_option (\<lambda>e. ((), e)) (map_of (spent_nonces s) k)"

definition put_spent :: "string \<Rightarrow> unit \<Rightarrow> pyfloat \<Rightarrow> session \<Rightarrow> session" where
  "put_spent k u e s = s\<lparr>spent_nonces := AList.update k e (spent_nonces s)\<rparr>"

definition get_cursor :: "session \<Rightarrow> string \<Rightarrow> (pyobj \<times> pyfloat) option" where
  "get_cursor s k = map_of (cursor_values s) k"

definition put_cursor :: "string \<Rightarrow> pyobj \<Rightarrow> pyfloat \<Rightarrow> session \<Rightarrow> session" where
  "put_cursor k v e s = s\<lparr>cursor_values := AList.update k (v, e) (cursor_values s)\<rparr>"

definition session_wf :: "session \<Rightarrow> bool" where
  "session_wf s = (distinct (map fst (spent_nonces s)) \<and> distinct (map fst (cursor_values s)))"

lemma map_of_filter_distinct:
  "distinct (map fst xs) \<Longrightarrow>
   map_of (filter P xs) k = (case map_of xs k of Some v \<Rightarrow> if P (k, v) then Some v else None | None \<Rightarrow> None)"
proof (induction xs)
  case Nil
  then show ?case by simp
next
  case (Cons x xs)
  then have "fst x \<notin> fst ` set xs" by auto
  then have "map_of (filter P xs) (fst x) = None" by (force simp: map_of_eq_None_iff)
  with Cons show ?case by (cases x) (auto split: option.splits)
qed

lemma distinct_keys_filter: "distinct (map fst xs) \<Longrightarrow> distinct (map fst (filter P xs))"
  by (simp add: distinct_map_filter)

lemma ilen_filter_le: "ilen (filter P xs) \<le> ilen xs"
  by (simp add: ilen_def)

lemma ilen_filter_less: "x \<in> set xs \<Longrightarrow> \<not> P x \<Longrightarrow> ilen (filter P xs) < ilen xs"
  using length_filter_less [of x xs P] by (simp add: ilen_def)

lemma ilen_update_le: "ilen (AList.update k v xs) \<le> ilen xs + 1"
  by (induction xs) auto

interpretation spent: expiring_store get_spent prune_state put_spent "\<lambda>s. ilen (spent_nonces s)" session_wf
proof
  fix s :: session and k now and e :: pyfloat and u :: unit
  assume "session_wf s" "get_spent s k = Some (u, e)" "expired now e"
  then show "ilen (spent_nonces (prune_state now s)) < ilen (spent_nonces s)"
    by (auto simp: get_spent_def prune_state_def intro!: ilen_filter_less dest: map_of_SomeD)
qed (auto simp: get_spent_def put_spent_def prune_state_def session_wf_def map_of_filter_distinct
      distinct_keys_filter AList.update_conv' AList.distinct_update ilen_filter_le ilen_update_le
      split: option.splits)

interpretation cursors: expiring_store get_cursor prune_state put_cursor "\<lambda>s. ilen (cursor_values s)" session_wf
proof
  fix s :: session and k now and e :: pyfloat and v
  assume "session_wf s" "get_cursor s k = Some (v, e)" "expired now e"
  then show "ilen (cursor_values (prune_state now s)) < ilen (cursor_values s)"
    by (auto simp: get_cursor_def prune_state_def intro!: ilen_filter_less dest: map_of_SomeD)
qed (auto simp: get_cursor_def put_cursor_def prune_state_def session_wf_def map_of_filter_distinct
      distinct_keys_filter AList.update_conv' AList.distinct_update ilen_filter_le ilen_update_le
      split: option.splits)

end
