(* ===== verification/Session_Machine.thy ===== *)
theory Session_Machine
  imports Session_Store
begin

section \<open>A session as a state machine\<close>

text \<open>
  The four operations with their arguments are the events of a session; running one gives the
  next state. Seen from the two stores every event is one of four kinds of transition.
\<close>

datatype session_event =
    IssueCursor clock_value string cursor_bindings pyobj pyobj
  | OpenCursor clock_value clock_value pyobj cursor_bindings
  | IssueConfirmation clock_value string confirmation_bindings pyobj
  | ConsumeConfirmation clock_value pyobj confirmation_bindings

fun session_step :: "session_config \<Rightarrow> session \<Rightarrow> session_event \<Rightarrow> session" where
  "session_step cfg s (IssueCursor clk r b v ttl) = snd (issue_cursor cfg s clk r b v ttl)"
| "session_step cfg s (OpenCursor clk1 clk2 token b) = snd (open_cursor cfg s clk1 clk2 token b)"
| "session_step cfg s (IssueConfirmation clk r b ttl) = s"
| "session_step cfg s (ConsumeConfirmation clk token b) = snd (consume_confirmation cfg s clk token b)"

fun event_clocks :: "session_event \<Rightarrow> clock_value list" where
  "event_clocks (IssueCursor clk r b v ttl) = [clk]"
| "event_clocks (OpenCursor clk1 clk2 token b) = [clk1, clk2]"
| "event_clocks (IssueConfirmation clk r b ttl) = [clk]"
| "event_clocks (ConsumeConfirmation clk token b) = [clk]"

fun event_random :: "session_event \<Rightarrow> string option" where
  "event_random (IssueCursor clk r b v ttl) = Some r"
| "event_random (IssueConfirmation clk r b ttl) = Some r"
| "event_random _ = None"

definition readings :: "session_event \<Rightarrow> rat set" where
  "readings ev = {t. \<exists>c \<in> set (event_clocks ev). session_now c = Inr t}"

inductive session_trans :: "session_config \<Rightarrow> session_event \<Rightarrow> session \<Rightarrow> session \<Rightarrow> bool" where
  keep: "session_trans cfg ev s s"
| prune: "now \<in> readings ev \<Longrightarrow> session_trans cfg ev s (prune_state now s)"
| store: "now \<in> readings ev \<Longrightarrow> event_random ev = Some r \<Longrightarrow>
    ilen (cursor_values (prune_state now s)) < cfg_max_cursor_handles cfg \<Longrightarrow>
    session_trans cfg ev s (put_cursor (b64encode r) v e (prune_state now s))"
| spend: "now \<in> readings ev \<Longrightarrow> get_spent (prune_state now s) n = None \<Longrightarrow>
    ilen (spent_nonces (prune_state now s)) < cfg_max_spent_nonces cfg \<Longrightarrow>
    session_trans cfg ev s (put_spent n () e (prune_state now s))"

lemma store_cursor_trans:
  "store_cursor cfg s t (b64encode r) v e = (res, s') \<Longrightarrow> t \<in> readings ev \<Longrightarrow> event_random ev = Some r \<Longrightarrow>
   session_trans cfg ev s s'"
  by (auto simp: store_cursor_def Let_def put_cursor_def [symmetric] not_le split: if_splits
      intro: session_trans.intros)

lemma issue_cursor_trans: "session_trans cfg (IssueCursor clk r b v ttl) s (snd (issue_cursor cfg s clk r b v ttl))"
  by (auto simp: issue_cursor_def bindE_Inr_iff Let_def readings_def
      split: sum.splits prod.splits intro: keep store_cursor_trans)

lemma load_cursor_trans:
  "session_now clk \<in> Inr ` readings ev \<or> (\<forall>t. session_now clk \<noteq> Inr t) \<Longrightarrow>
   session_trans cfg ev s (snd (load_cursor s clk d))"
  by (auto simp: load_cursor_def Let_def split: sum.splits option.splits prod.splits
      intro: session_trans.intros)

lemma open_cursor_trans:
  "session_trans cfg (OpenCursor clk1 clk2 token b) s (snd (open_cursor cfg s clk1 clk2 token b))"
proof (cases "check_cursor cfg clk1 token b")
  case (Inl e)
  then show ?thesis by (simp add: open_cursor_def keep)
next
  case (Inr d)
  have "session_now clk2 \<in> Inr ` readings (OpenCursor clk1 clk2 token b) \<or> (\<forall>t. session_now clk2 \<noteq> Inr t)"
    by (cases "session_now clk2") (auto simp: readings_def)
  then show ?thesis by (simp add: open_cursor_def Inr load_cursor_trans)
qed

lemma check_confirmation_Inr:
  assumes "check_confirmation cfg clk token b = Inr (n, now, e)"
  obtains d expected where "decode_token cfg token CONFIRMATION = Inr d"
    "validate_times d CONFIRMATION clk = Inr (now, e)" "confirmation_expected b = Inr expected"
    "require_bindings d expected CONFIRMATION = Inr ()" "n = field_text d ''nonce''" "session_now clk = Inr now"
  using assms
  by (auto simp: check_confirmation_def bindE_Inr_iff validate_times_def Let_def
      split: prod.splits option.splits if_splits)

lemma spend_nonce_cases:
  "spend_nonce cfg s (n, now, e) =
     (if get_spent (prune_state now s) n \<noteq> None
      then (Inl (ConflictError ''confirmation token has already been consumed''), prune_state now s)
      else if cfg_max_spent_nonces cfg \<le> ilen (spent_nonces (prune_state now s))
      then (Inl (ConflictError ''confirmation capacity is full; wait for an approval to expire''), prune_state now s)
      else (Inr n, put_spent n () e (prune_state now s)))"
  by (simp add: spend_nonce_def Let_def get_spent_def put_spent_def)

lemma consume_confirmation_trans:
  "session_trans cfg (ConsumeConfirmation clk token b) s (snd (consume_confirmation cfg s clk token b))"
proof (cases "check_confirmation cfg clk token b")
  case (Inl e)
  then show ?thesis by (simp add: consume_confirmation_def keep)
next
  case (Inr x)
  obtain n now e where x: "x = (n, now, e)" by (cases x)
  from Inr x have "session_now clk = Inr now" by (auto elim: check_confirmation_Inr)
  then have "now \<in> readings (ConsumeConfirmation clk token b)" by (simp add: readings_def)
  then show ?thesis
    by (cases "get_spent (prune_state now s) n = None")
       (auto simp: consume_confirmation_def Inr x spend_nonce_cases not_le intro: session_trans.intros)
qed

lemma session_step_trans: "session_trans cfg ev s (session_step cfg s ev)"
  by (cases ev)
     (simp_all add: issue_cursor_trans open_cursor_trans consume_confirmation_trans keep)

subsection \<open>Invariants of every reachable state\<close>

definition session_run :: "session_config \<Rightarrow> session \<Rightarrow> session_event list \<Rightarrow> session" where
  "session_run cfg = foldl (session_step cfg)"

definition session_inv :: "session_config \<Rightarrow> session \<Rightarrow> bool" where
  "session_inv cfg s =
     (session_wf s \<and> ilen (spent_nonces s) \<le> cfg_max_spent_nonces cfg \<and>
      ilen (cursor_values s) \<le> cfg_max_cursor_handles cfg)"

lemma put_frame [simp]:
  "spent_nonces (put_cursor k v e s) = spent_nonces s"
  "cursor_values (put_spent k u e s) = cursor_values s"
  "get_spent (put_cursor k v e s) = get_spent s"
  "get_cursor (put_spent k u e s) = get_cursor s"
  by (simp_all add: put_cursor_def put_spent_def get_spent_def get_cursor_def fun_eq_iff)

lemma session_trans_inv: "session_trans cfg ev s s' \<Longrightarrow> session_inv cfg s \<Longrightarrow> session_inv cfg s'"
proof (induction rule: session_trans.induct)
  case (keep cfg ev s)
  then show ?case .
next
  case (prune now ev cfg s)
  then show ?case
    by (simp add: session_inv_def spent.inv_prune spent.count_within(1) cursors.count_within(1))
next
  case (store now ev r s cfg v e)
  then show ?case
    by (simp add: session_inv_def cursors.inv_prune cursors.inv_put spent.count_within(1) cursors.count_within(2))
next
  case (spend now ev s n cfg e)
  then show ?case
    by (simp add: session_inv_def spent.inv_prune spent.inv_put cursors.count_within(1) spent.count_within(2))
qed

lemma session_run_inv: "session_inv cfg s \<Longrightarrow> session_inv cfg (session_run cfg s evs)"
  unfolding session_run_def
  by (induction evs arbitrary: s) (auto intro: session_trans_inv session_step_trans)

lemma ConnectorSession_inv: "ConnectorSession secret m n = Inr (cfg, s) \<Longrightarrow> session_inv cfg s"
  by (auto simp: ConnectorSession_def session_inv_def session_wf_def split: if_splits)

subsection \<open>Entries survive until a reading reaches their expiry\<close>

lemma spent_trans:
  "session_trans cfg ev s s' \<Longrightarrow> session_wf s \<Longrightarrow> get_spent s k = Some (u, e) \<Longrightarrow>
   (\<And>t. t \<in> readings ev \<Longrightarrow> \<not> expired t e) \<Longrightarrow> get_spent s' k = Some (u, e)"
proof (induction rule: session_trans.induct)
  case (spend now ev s n cfg e')
  then have "get_spent (prune_state now s) k = Some (u, e)" by (simp add: spent.get_prune)
  with spend show ?case by (auto simp: spent.get_put spent.inv_prune)
qed (simp_all add: spent.get_prune)

lemma cursor_trans:
  "session_trans cfg ev s s' \<Longrightarrow> session_wf s \<Longrightarrow> get_cursor s (b64encode r) = Some (v, e) \<Longrightarrow>
   (\<And>t. t \<in> readings ev \<Longrightarrow> \<not> expired t e) \<Longrightarrow> event_random ev \<noteq> Some r \<Longrightarrow>
   get_cursor s' (b64encode r) = Some (v, e)"
proof (induction rule: session_trans.induct)
  case (store now ev r' s cfg v' e')
  then have "b64encode r \<noteq> b64encode r'" using b64encode_inj by auto
  with store show ?case by (simp add: cursors.get_put cursors.get_prune cursors.inv_prune)
qed (simp_all add: cursors.get_prune)

lemma session_trans_wf: "session_trans cfg ev s s' \<Longrightarrow> session_wf s \<Longrightarrow> session_wf s'"
  by (induction rule: session_trans.induct)
     (simp_all add: spent.inv_prune spent.inv_put cursors.inv_put)

lemma session_run_wf: "session_wf s \<Longrightarrow> session_wf (session_run cfg s evs)"
  unfolding session_run_def
  by (induction evs arbitrary: s) (auto intro: session_trans_wf session_step_trans)

lemma spent_run:
  "session_wf s \<Longrightarrow> get_spent s k = Some (u, e) \<Longrightarrow>
   (\<And>ev t. ev \<in> set evs \<Longrightarrow> t \<in> readings ev \<Longrightarrow> \<not> expired t e) \<Longrightarrow>
   get_spent (session_run cfg s evs) k = Some (u, e) \<and> session_wf (session_run cfg s evs)"
  unfolding session_run_def
proof (induction evs arbitrary: s)
  case Nil
  then show ?case by simp
next
  case (Cons ev evs)
  note t = session_step_trans [of cfg ev s]
  have "get_spent (session_step cfg s ev) k = Some (u, e)" using Cons.prems by (intro spent_trans [OF t]) auto
  from Cons.IH [OF session_trans_wf [OF t Cons.prems(1)] this] Cons.prems(3) show ?case by auto
qed

lemma cursor_run:
  "session_wf s \<Longrightarrow> get_cursor s (b64encode r) = Some (v, e) \<Longrightarrow>
   (\<And>ev t. ev \<in> set evs \<Longrightarrow> t \<in> readings ev \<Longrightarrow> \<not> expired t e) \<Longrightarrow>
   (\<And>ev. ev \<in> set evs \<Longrightarrow> event_random ev \<noteq> Some r) \<Longrightarrow>
   get_cursor (session_run cfg s evs) (b64encode r) = Some (v, e)"
  unfolding session_run_def
proof (induction evs arbitrary: s)
  case Nil
  then show ?case by simp
next
  case (Cons ev evs)
  note t = session_step_trans [of cfg ev s]
  have "get_cursor (session_step cfg s ev) (b64encode r) = Some (v, e)"
    using Cons.prems by (intro cursor_trans [OF t]) auto
  from Cons.IH [OF session_trans_wf [OF t Cons.prems(1)] this] Cons.prems(3,4) show ?case by auto
qed

end
