(* ===== verification/Session_Issue.thy ===== *)
theory Session_Issue
  imports Session_Machine
begin

section \<open>Issued tokens\<close>

text \<open>What is known of a token once it has been issued: it decodes to exactly its fields.\<close>

lemma canonical_json_finite:
  assumes "canonical_json (obj kvs) = Inr e" "(k, PFloat f) \<in> set kvs"
  shows "\<exists>r. f = Finite r"
proof -
  obtain w where "canonicalize_json (PDict (items kvs)) = Inr w"
    using assms(1) by (auto simp: canonical_json_def bindE_Inr_iff obj_def)
  then obtain kvs' where m: "mapE (clone_item (0 + 1)) (items kvs) = Inr kvs'"
    unfolding canonicalize_json_def by (auto simp: clone_json_mapping bindE_Inr_iff split: if_splits)
  have "(PStr k, PFloat f) \<in> set (items kvs)" using assms(2) by (force simp: items_def)
  from mapE_in_set_arg [OF m this] obtain u where "clone_json 1 (PFloat f) = Inr u"
    by (auto simp: clone_item_def bindE_Inr_iff)
  then show ?thesis by (subst (asm) clone_json.simps) (cases f; simp)
qed

lemma cursor_payload_expires:
  assumes "cursor_payload issued expires handle c b = Inr p" "encode_token cfg p = Inr token"
  shows "\<exists>e. expires = Finite e"
proof -
  obtain j where j: "canonical_json p = Inr j" using assms(2) by (auto simp: encode_token_Inr)
  obtain kvs where "p = obj kvs" "(''expires_at'', PFloat expires) \<in> set kvs"
    using assms(1) by (auto simp: cursor_payload_def bindE_Inr_iff)
  with j show ?thesis using canonical_json_finite by blast
qed

lemma confirmation_payload_expires:
  assumes "confirmation_payload issued ttl nonce b = Inr p" "encode_token cfg p = Inr token"
    "token_ttl ttl = Inr n"
  shows "\<exists>e. float_add issued (of_int n) = Finite e"
proof -
  obtain j where j: "canonical_json p = Inr j" using assms(2) by (auto simp: encode_token_Inr)
  obtain kvs where "p = obj kvs" "(''expires_at'', PFloat (float_add issued (of_int n))) \<in> set kvs"
    using assms(1,3) by (auto simp: confirmation_payload_def bindE_Inr_iff)
  with j show ?thesis using canonical_json_finite by blast
qed

lemma issued_cursor:
  assumes issue: "issue_cursor cfg s clk r b cont ttl = (Inr token, s1)"
    and "length r = 16" "clock_wf clk" "session_wf s"
  obtains t n e stored cid crev cdig ver idig oper prov where
    "session_now clk = Inr t" "ttl = PInt n" "1 \<le> n" "canonicalize_json cont = Inr stored"
    "float_add t (of_int n) = Finite e" "canonical_json_digest stored = Inr cdig"
    "cursor_expected b = Inr [(''connection_id'', PStr cid), (''connection_revision'', PStr crev),
      (''credential_version'', PInt ver), (''input_digest'', PStr idig), (''operation'', PStr oper),
      (''provider'', PStr prov)]"
    "decode_token cfg (PStr token) CURSOR =
       Inr (items (cursor_fields t e (b64encode r) cid crev cdig ver idig oper prov))"
    "get_cursor s1 (b64encode r) = Some (stored, Finite e)" "session_wf s1"
proof -
  from issue obtain t n stored p where
    t: "session_now clk = Inr t" "token_ttl ttl = Inr n" "canonicalize_json cont = Inr stored"
    and p: "cursor_payload t (float_add t (of_int n)) (b64encode r) stored b = Inr p" "encode_token cfg p = Inr token"
    and st: "store_cursor cfg s t (b64encode r) stored (float_add t (of_int n)) = (Inr (), s1)"
    by (auto simp: issue_cursor_def bindE_Inr_iff Let_def split: sum.splits prod.splits)
  from cursor_payload_expires [OF p] obtain e where e: "float_add t (of_int n) = Finite e" by blast
  have dbl: "is_double t" "is_double e"
    using session_now_double [OF t(1) assms(3)] e round_double_is_double by (auto simp: float_add_def)
  from cursor_payload_Inr [OF p(1) [unfolded e]] obtain cid crev cdig ver idig oper prov where
    f: "p = obj (cursor_fields t e (b64encode r) cid crev cdig ver idig oper prov)"
      "binding_text (PStr cid) = Inr cid" "binding_text (PStr crev) = Inr crev" "canonical_json_digest stored = Inr cdig"
      "positive_version (PInt ver) = Inr ver" "digest_text (PStr idig) = Inr idig"
      "binding_text (PStr oper) = Inr oper" "binding_text (PStr prov) = Inr prov"
      "cursor_expected b = Inr [(''connection_id'', PStr cid), (''connection_revision'', PStr crev),
        (''credential_version'', PInt ver), (''input_digest'', PStr idig), (''operation'', PStr oper),
        (''provider'', PStr prov)]"
    by blast
  have "decode_token cfg (PStr token) CURSOR =
       Inr (items (cursor_fields t e (b64encode r) cid crev cdig ver idig oper prov))"
    using f p(2) assms(2) dbl digest_text_digest by (intro decode_issued_cursor) auto
  moreover have s1: "s1 = put_cursor (b64encode r) stored (Finite e) (prune_state t s)"
    using st by (auto simp: store_cursor_def Let_def put_cursor_def e split: if_splits)
  moreover have "get_cursor s1 (b64encode r) = Some (stored, Finite e)" "session_wf s1"
    unfolding s1 using assms(4) by (simp_all add: cursors.get_put cursors.inv_put cursors.inv_prune)
  ultimately show thesis using t e f by (intro that) (auto simp: token_ttl_Inr)
qed

lemma issued_confirmation:
  assumes issue: "issue_confirmation cfg clk r b ttl = Inr token"
    and "length r = 16" "clock_wf clk"
  obtains t n e tier cid cver ver eff sdig mdig oper prov where
    "session_now clk = Inr t" "ttl = PInt n" "1 \<le> n"
    "float_add t (of_int n) = Finite e" "is_double e"
    "confirmation_expected b = Inr [(''authorization_tier'', PStr tier), (''connection_id'', PStr cid),
      (''connection_version'', PInt cver), (''credential_version'', PInt ver), (''effect'', PStr eff),
      (''granted_scope_digest'', PStr sdig), (''mutation_digest'', PStr mdig), (''operation'', PStr oper),
      (''provider'', PStr prov)]"
    "decode_token cfg (PStr token) CONFIRMATION =
       Inr (items (confirmation_fields t e (b64encode r) tier cid cver ver eff sdig mdig oper prov))"
proof -
  from issue obtain t p where t: "session_now clk = Inr t"
    and p: "confirmation_payload t ttl (b64encode r) b = Inr p" "encode_token cfg p = Inr token"
    by (auto simp: issue_confirmation_def bindE_Inr_iff)
  from confirmation_payload_Inr [OF p(1)] obtain tier cid cver ver eff sdig mdig oper prov n where
    n: "ttl = PInt n" "1 \<le> n" "n \<le> MAX_TTL_SECONDS"
    and f: "\<And>expires. float_add t (of_int n) = Finite expires \<Longrightarrow>
       p = obj (confirmation_fields t expires (b64encode r) tier cid cver ver eff sdig mdig oper prov)"
      "confirmation_fields_ok tier cid cver ver eff sdig mdig oper prov"
      "confirmation_expected b = Inr [(''authorization_tier'', PStr tier), (''connection_id'', PStr cid),
        (''connection_version'', PInt cver), (''credential_version'', PInt ver), (''effect'', PStr eff),
        (''granted_scope_digest'', PStr sdig), (''mutation_digest'', PStr mdig), (''operation'', PStr oper),
        (''provider'', PStr prov)]"
    by metis
  from confirmation_payload_expires [OF p] n obtain e where e: "float_add t (of_int n) = Finite e"
    by (auto simp: token_ttl_Inr)
  have dbl: "is_double t" "is_double e"
    using session_now_double [OF t assms(3)] e round_double_is_double by (auto simp: float_add_def)
  have "decode_token cfg (PStr token) CONFIRMATION =
       Inr (items (confirmation_fields t e (b64encode r) tier cid cver ver eff sdig mdig oper prov))"
    using f(1) [OF e] f(2) p(2) assms(2) dbl by (intro decode_issued_confirmation) auto
  then show thesis using t n e dbl f(3) by (intro that) auto
qed

text \<open>The time check of a token with these fields, and the bindings it accepts.\<close>

lemma validate_times_floats:
  assumes "payload_field d ''issued_at'' = PFloat (Finite t)" "payload_field d ''expires_at'' = PFloat (Finite e)"
    and "is_double t" "is_double e"
  shows "validate_times d k clk =
    (if e \<le> t \<or> float_exceeds (float_sub e t) 900
     then Inl (ValidationError (''sealed '' @ kind_text k @ '' time binding is invalid''))
     else bindE (session_now clk) (\<lambda>now.
       if now < t then Inl (ConflictError (''sealed '' @ kind_text k @ '' is not yet valid''))
       else if e \<le> now then Inl (ConflictError (''sealed '' @ kind_text k @ '' has expired''))
       else Inr (now, Finite e)))"
  using assms
  by (cases "session_now clk")
     (simp_all add: validate_times_def finite_number_def number_sub_def Let_def is_double_def)

lemma cursor_field_simps:
  "payload_field (items (cursor_fields t e h cid crev cdig ver idig oper prov)) ''issued_at'' = PFloat (Finite t)"
  "payload_field (items (cursor_fields t e h cid crev cdig ver idig oper prov)) ''expires_at'' = PFloat (Finite e)"
  "payload_field (items (cursor_fields t e h cid crev cdig ver idig oper prov)) ''continuation_digest'' = PStr cdig"
  "field_text (items (cursor_fields t e h cid crev cdig ver idig oper prov)) ''continuation_handle'' = h"
  by (simp_all add: payload_field_items cursor_fields_def field_text_def del: items_simps)

lemma confirmation_field_simps:
  "payload_field (items (confirmation_fields t e n tier cid cver ver eff sdig mdig oper prov)) ''issued_at'' =
     PFloat (Finite t)"
  "payload_field (items (confirmation_fields t e n tier cid cver ver eff sdig mdig oper prov)) ''expires_at'' =
     PFloat (Finite e)"
  "field_text (items (confirmation_fields t e n tier cid cver ver eff sdig mdig oper prov)) ''nonce'' = n"
  by (simp_all add: payload_field_items confirmation_fields_def field_text_def del: items_simps)

end
