(* ===== verification/Session_Sample.thy ===== *)
theory Session_Sample
  imports Session_Issue
begin

section \<open>Sealing succeeds on ordinary payloads\<close>

text \<open>
  A flat payload of plain text, small integers and finite floats is sealed: nothing is escaped,
  so its length is known and stays within the bound. One cursor and one confirmation built this
  way are the instances the properties of sessions are applied to.
\<close>

definition plain_text :: "string \<Rightarrow> bool" where
  "plain_text s = list_all (\<lambda>c. 32 \<le> byte c \<and> byte c < 128 \<and> c \<noteq> CHR 0x22 \<and> c \<noteq> CHR 0x5C) s"

lemma escape_plain: "32 \<le> byte c \<Longrightarrow> c \<noteq> CHR 0x22 \<Longrightarrow> c \<noteq> CHR 0x5C \<Longrightarrow> escape_char c = [c]"
  by (auto simp: escape_char_def)

lemma string_text_plain: "plain_text s \<Longrightarrow> string_text s = CHR 0x22 # s @ [CHR 0x22]"
proof -
  assume "plain_text s"
  then have "concat (map escape_char s) = s"
    by (induction s) (auto simp: plain_text_def escape_plain)
  then show ?thesis by (simp add: string_token_def escape_string_def)
qed

lemma clone_json_leaf:
  "clone_json 1 (PStr s) = clone_string s" "clone_json 1 (PInt i) = Inr (PInt i)"
  "clone_json 1 (PFloat (Finite r)) = Inr (PFloat (Finite r))"
  by (subst clone_json.simps; simp)+

lemma plain_text_clone:
  assumes "plain_text s" "ilen s \<le> 1000"
  shows "clone_json 1 (PStr s) = Inr (PStr s)" "valid_utf8 s" "ascii s" "\<not> has_nul s"
proof -
  have c: "32 \<le> byte c \<and> \<not> 128 \<le> byte c" if "c \<in> set s" for c
    using bspec [OF assms(1) [unfolded plain_text_def list_all_iff] that] by linarith
  have "ascii s" unfolding ascii_def list_all_iff digit7_byte using c by blast
  moreover have "\<not> has_nul s"
  proof
    assume "has_nul s"
    then have "CHR 0x00 \<in> set s" by (auto simp: has_nul_def list_ex_iff)
    from c [OF this] show False by simp
  qed
  ultimately show "ascii s" "\<not> has_nul s" "valid_utf8 s" "clone_json 1 (PStr s) = Inr (PStr s)"
    using assms(2) by (simp_all add: clone_json_leaf clone_string_def py_len_ascii valid_utf8_ascii)
qed

lemma plain_text_digest: "is_digest s \<Longrightarrow> plain_text s \<and> ilen s = 71"
proof -
  assume d: "is_digest s"
  then have "plain_text (drop 7 s)"
    unfolding is_digest_def plain_text_def by (auto simp: lower_hex_def list_all_iff)
  moreover have "plain_text (take 7 s)" using d by (simp add: is_digest_def plain_text_def)
  ultimately have "plain_text (take 7 s @ drop 7 s)" unfolding plain_text_def list_all_append by blast
  then have "plain_text s" by simp
  then show ?thesis using d by (simp add: is_digest_def ilen_def)
qed

lemma mapE_clone_items:
  "(\<And>k v. (k, v) \<in> set kvs \<Longrightarrow> clone_item depth (PStr k, v) = Inr (k, v)) \<Longrightarrow>
   mapE (clone_item depth) (items kvs) = Inr kvs"
  by (induction kvs) auto

lemma canonical_json_flat:
  assumes "sorted (map fst kvs)" "ilen kvs \<le> 128"
    and ok: "\<And>k v. (k, v) \<in> set kvs \<Longrightarrow>
      clone_key (PStr k) = Inr k \<and> valid_utf8 k \<and> clone_json 1 v = Inr v \<and> encodable v"
  shows "canonical_json (obj kvs) = Inr (json_text (obj kvs))"
proof -
  have "mapE (clone_item 1) (items kvs) = Inr kvs"
  proof (rule mapE_clone_items)
    show "clone_item 1 (PStr k, v) = Inr (k, v)" if "(k, v) \<in> set kvs" for k v
      using ok [OF that] by (simp add: clone_item_def)
  qed
  then have "clone_json 0 (PDict (items kvs)) = Inr (obj kvs)"
    using assms(1,2) by (simp add: clone_json_mapping sort_items_id items_def [of kvs] ilen_def)
  moreover have "encodable (obj kvs)"
    using ok by (force simp: obj_def items_def list_all_iff)
  ultimately show ?thesis by (simp add: canonical_json_def canonicalize_json_def obj_def)
qed

lemma b64encode_length: "ilen (b64encode s) \<le> 2 * ilen s"
proof -
  have "ilen (sextets s) \<le> 2 * ilen s" by (induction s rule: sextets.induct) simp_all
  then show ?thesis by (simp add: b64encode_def)
qed

lemma encode_token_ok:
  assumes "canonical_json p = Inr e" "ilen e \<le> 4000"
  shows "\<exists>token. encode_token cfg p = Inr token"
proof -
  have "ilen (hmac_sha256 k m) = 32" for k m by (simp add: ilen_def)
  then have "ilen (token_text e (hmac_sha256 (cfg_secret cfg) e)) \<le> MAX_SEALED_TOKEN_LENGTH"
    using assms(2) b64encode_length [of e] b64encode_length [of "hmac_sha256 (cfg_secret cfg) e"]
    by (simp add: token_text_def)
  then show ?thesis using assms(1) by (auto simp: encode_token_Inr)
qed

text \<open>The clock readings used below.\<close>

lemma session_now_int: "\<bar>i\<bar> \<le> 2 ^ 53 \<Longrightarrow> session_now (ClockInt i) = Inr (of_int i)"
  using is_double_int [of i] by (simp add: float_of_int_def is_double_def)

lemma sample_times:
  "session_now (ClockInt 1000) = Inr 1000" "float_add 1000 600 = Finite 1600"
  "float_text 1000 = ''1000.0''" "float_text 1600 = ''1600.0''"
proof -
  show "session_now (ClockInt 1000) = Inr 1000" using session_now_int [of 1000] by simp
  show "float_add 1000 600 = Finite 1600"
    using is_double_int [of 1600] by (simp add: float_add_def is_double_def)
  show "float_text 1000 = ''1000.0''" "float_text 1600 = ''1600.0''" by code_simp+
qed

text \<open>
  1688.3 seconds and 900 seconds later, as the floats they are: their difference is the float
  900.0000000000002.
\<close>

definition late_issue :: rat where "late_issue = 7425221924696883 / 4398046511104"
definition late_expiry :: rat where "late_expiry = 2845865946172621 / 1099511627776"

lemma late_times:
  "is_double late_issue" "float_add late_issue 900 = Finite late_expiry"
  "float_text late_issue = ''1688.3''" "float_text late_expiry = ''2588.3''"
  "float_exceeds (float_sub late_expiry late_issue) 900"
  by code_simp+

lemma late_now: "session_now (ClockFloat (Finite late_issue)) = Inr late_issue"
  by simp

subsection \<open>One cursor and one confirmation\<close>

definition sample_cfg :: session_config where
  "sample_cfg = \<lparr>cfg_secret = replicate 32 CHR ''k'', cfg_max_spent_nonces = 4096, cfg_max_cursor_handles = 4096\<rparr>"

definition empty_session :: session where
  "empty_session = \<lparr>spent_nonces = [], cursor_values = []\<rparr>"

definition sample_random :: string where
  "sample_random = replicate 16 CHR ''r''"

definition sample_mutation :: pyobj where
  "sample_mutation = obj [(''text'', PStr ''hello'')]"

definition sample_cursor :: cursor_bindings where
  "sample_cursor = \<lparr>cb_provider = PStr ''slack'', cb_operation = PStr ''users.list'', cb_connection_id = PStr ''con-1'',
     cb_input_value = sample_mutation, cb_connection_revision = PStr ''rev-1'', cb_credential_version = PInt 1\<rparr>"

definition sample_confirmation :: confirmation_bindings where
  "sample_confirmation = \<lparr>fb_provider = PStr ''slack'', fb_operation = PStr ''messages.send'',
     fb_connection_id = PStr ''con-1'', fb_effect = PStr ''outward'', fb_authorization_tier = PStr ''standard'',
     fb_granted_scopes = PList [PStr ''chat:write''], fb_mutation = sample_mutation,
     fb_connection_version = PInt 1, fb_credential_version = PInt 1\<rparr>"

lemma sample_digests:
  obtains D where "canonical_json_digest sample_mutation = Inr D" "plain_text D" "ilen D = 71"
proof -
  have "canonical_json sample_mutation = Inr (string_of_json)" if "string_of_json = json_text sample_mutation" for string_of_json
    unfolding that by code_simp
  then obtain D where "canonical_json_digest sample_mutation = Inr D" by (auto simp: canonical_json_digest_def)
  with plain_text_digest [OF canonical_json_digest_is_digest [OF this]] show thesis by (intro that) auto
qed

lemma sample_scope_digest:
  obtains D where "scope_digest (PList [PStr ''chat:write'']) = Inr D" "plain_text D" "ilen D = 71"
proof -
  have "canonical_json (PList [PStr ''chat:write'']) = Inr (json_text (PList [PStr ''chat:write'']))"
    by code_simp
  moreover have "scope_members [PStr ''chat:write''] = Inr [''chat:write'']" by code_simp
  ultimately obtain D where "canonical_json_digest (PList [PStr ''chat:write'']) = Inr D"
    "scope_digest (PList [PStr ''chat:write'']) = Inr D"
    by (auto simp: canonical_json_digest_def scope_digest_def)
  with plain_text_digest [OF canonical_json_digest_is_digest [OF this(1)]] show thesis by (intro that) auto
qed

text \<open>A member of plain values, and how long its text is.\<close>

definition short_value :: "pyobj \<Rightarrow> bool" where
  "short_value v =
     (case v of
        PStr s \<Rightarrow> plain_text s \<and> ilen s \<le> 100
      | PInt i \<Rightarrow> i = 1
      | PFloat f \<Rightarrow> f \<in> {Finite 1000, Finite 1600, Finite late_issue, Finite late_expiry}
      | _ \<Rightarrow> False)"

definition short_key :: "string \<Rightarrow> bool" where
  "short_key k = (plain_text k \<and> k \<noteq> [] \<and> ilen k \<le> 30)"

lemma short_value_text:
  assumes "short_value v"
  shows "clone_json 1 v = Inr v" "encodable v" "ilen (json_text v) \<le> 102"
  using assms plain_text_clone sample_times late_times
  by (auto simp: short_value_def clone_json_leaf string_text_plain int_text_def nat_text.simps [of 1]
      MAX_STR_DIGITS_def split: pyobj.splits)

lemma short_key_text:
  assumes "short_key k"
  shows "clone_key (PStr k) = Inr k" "valid_utf8 k" "ilen (string_text k) \<le> 32"
proof -
  have k: "plain_text k" "k \<noteq> []" "ilen k \<le> 30" using assms by (simp_all add: short_key_def)
  then show "clone_key (PStr k) = Inr k" "valid_utf8 k" "ilen (string_text k) \<le> 32"
    using plain_text_clone [of k] by (simp_all add: clone_key_Inr string_text_plain)
qed

lemma join_text_length:
  "list_all (\<lambda>t. ilen t \<le> n) ts \<Longrightarrow> 0 \<le> n \<Longrightarrow> ilen (join_text '','' [c] ts) \<le> (n + 1) * ilen ts + 1"
  by (induction "'',''" "[c]" ts rule: join_text.induct) (auto simp: algebra_simps)

lemma short_payload_sealed:
  assumes "list_all (\<lambda>(k, v). short_key k \<and> short_value v) kvs" "sorted (map fst kvs)" "ilen kvs \<le> 20"
  shows "\<exists>token. encode_token cfg (obj kvs) = Inr token"
proof (rule encode_token_ok)
  show "canonical_json (obj kvs) = Inr (json_text (obj kvs))"
    using assms short_key_text short_value_text
    by (intro canonical_json_flat) (fastforce simp: list_all_iff)+
  have "ilen (member_text compact 0 kv) \<le> 135" if "kv \<in> set kvs" for kv
    using short_key_text(3) [of "fst kv"] short_value_text(3) [of "snd kv"] assms(1) that
    by (force simp: member_text_def dumps_compact list_all_iff)
  then have "ilen (join_text '','' ''}'' (map (member_text compact 0) kvs)) \<le> (135 + 1) * ilen (map (member_text compact 0) kvs) + 1"
    by (intro join_text_length) (auto simp: list_all_iff)
  then show "ilen (json_text (obj kvs)) \<le> 4000" using assms(3) by (simp add: json_text_obj)
qed

lemma sample_bindings:
  "binding_text (PStr ''slack'') = Inr ''slack''" "binding_text (PStr ''con-1'') = Inr ''con-1''"
  "binding_text (PStr ''rev-1'') = Inr ''rev-1''" "binding_text (PStr ''users.list'') = Inr ''users.list''"
  "binding_text (PStr ''messages.send'') = Inr ''messages.send''" "binding_text (PStr ''standard'') = Inr ''standard''"
  "positive_version (PInt 1) = Inr 1" "effect_text (PStr ''outward'') = Inr ''outward''"
  "token_ttl (PInt 600) = Inr 600" "token_ttl (PInt 900) = Inr 900"
  by code_simp+

lemma b64_plain: "b64_text t \<Longrightarrow> plain_text t"
proof -
  have "32 \<le> byte c \<and> byte c < 128 \<and> c \<noteq> CHR 0x22 \<and> c \<noteq> CHR 0x5C" if "b64_value c \<noteq> None" for c
  proof -
    have "byte c \<noteq> 34" "byte c \<noteq> 92" "32 \<le> byte c" "byte c < 128"
      using that by (auto simp: b64_value_def Let_def split: if_splits)
    then show ?thesis by auto
  qed
  then show "b64_text t \<Longrightarrow> plain_text t" by (simp add: b64_text_def plain_text_def list_all_iff)
qed

lemma sample_handle: "short_value (PStr (b64encode sample_random))"
proof -
  have "ilen (b64encode sample_random) \<le> 2 * ilen sample_random" by (rule b64encode_length)
  then show ?thesis
    by (simp add: short_value_def b64_plain b64encode_text) (simp add: sample_random_def ilen_def)
qed

text \<open>Issued at any of these clock readings.\<close>

definition sample_window :: "clock_value \<Rightarrow> rat \<Rightarrow> int \<Rightarrow> rat \<Rightarrow> bool" where
  "sample_window clk t n e =
     (session_now clk = Inr t \<and> token_ttl (PInt n) = Inr n \<and> float_add t (of_int n) = Finite e \<and>
      short_value (PFloat (Finite t)) \<and> short_value (PFloat (Finite e)))"

lemma sample_windows:
  "sample_window (ClockInt 1000) 1000 600 1600"
  "sample_window (ClockFloat (Finite late_issue)) late_issue 900 late_expiry"
  using sample_times late_times late_now by (simp_all add: sample_window_def sample_bindings short_value_def)

lemma confirmation_issued_in:
  assumes "sample_window clk t n e"
  shows "\<exists>token. issue_confirmation sample_cfg clk sample_random sample_confirmation (PInt n) = Inr token"
proof -
  obtain M where M: "canonical_json_digest sample_mutation = Inr M" "plain_text M" "ilen M = 71"
    by (rule sample_digests)
  obtain S where S: "scope_digest (PList [PStr ''chat:write'']) = Inr S" "plain_text S" "ilen S = 71"
    by (rule sample_scope_digest)
  let ?kvs = "confirmation_fields t e (b64encode sample_random) ''standard'' ''con-1'' 1 1 ''outward'' S M
    ''messages.send'' ''slack''"
  have "confirmation_payload t (PInt n) (b64encode sample_random) sample_confirmation = Inr (obj ?kvs)"
    using assms
    by (simp add: confirmation_payload_def sample_confirmation_def sample_bindings M(1) S(1) confirmation_fields_def
        sample_window_def)
  moreover have "\<exists>token. encode_token sample_cfg (obj ?kvs) = Inr token"
  proof (rule short_payload_sealed)
    show "sorted (map fst ?kvs)" by (simp add: confirmation_fields_keys sorted_kind_keys)
    show "list_all (\<lambda>(k, v). short_key k \<and> short_value v) ?kvs"
      using M S sample_handle assms
      by (simp add: confirmation_fields_def short_key_def plain_text_def [of "_ # _"] plain_text_def [of "[]"]
          short_value_def sample_window_def)
  qed (simp add: confirmation_fields_def)
  ultimately show ?thesis using assms by (simp add: issue_confirmation_def sample_window_def)
qed

lemma cursor_issued_in:
  assumes "sample_window clk t n e"
  shows "\<exists>token s1. issue_cursor sample_cfg empty_session clk sample_random sample_cursor sample_mutation
     (PInt n) = (Inr token, s1)"
proof -
  obtain M where M: "canonical_json_digest sample_mutation = Inr M" "plain_text M" "ilen M = 71"
    by (rule sample_digests)
  let ?kvs = "cursor_fields t e (b64encode sample_random) ''con-1'' ''rev-1'' M 1 M ''users.list'' ''slack''"
  have "cursor_payload t (Finite e) (b64encode sample_random) sample_mutation sample_cursor = Inr (obj ?kvs)"
    by (simp add: cursor_payload_def sample_cursor_def sample_bindings M(1) cursor_fields_def)
  moreover have "\<exists>token. encode_token sample_cfg (obj ?kvs) = Inr token"
  proof (rule short_payload_sealed)
    show "sorted (map fst ?kvs)" by (simp add: cursor_fields_keys sorted_kind_keys)
    show "list_all (\<lambda>(k, v). short_key k \<and> short_value v) ?kvs"
      using M sample_handle assms
      by (simp add: cursor_fields_def short_key_def plain_text_def [of "_ # _"] plain_text_def [of "[]"]
          short_value_def sample_window_def)
  qed (simp add: cursor_fields_def)
  moreover have "canonicalize_json sample_mutation = Inr sample_mutation" by code_simp
  moreover have "store_cursor sample_cfg empty_session t h v e \<noteq> (Inl err, s')" for h v e err s'
    by (simp add: store_cursor_def empty_session_def prune_state_def sample_cfg_def)
  ultimately show ?thesis
    using assms by (auto simp: issue_cursor_def sample_window_def Let_def split: prod.splits sum.splits)
qed

lemmas sample_confirmation_issued = confirmation_issued_in [OF sample_windows(1)]
lemmas sample_cursor_issued = cursor_issued_in [OF sample_windows(1)]

lemma sample_session [simp]:
  "session_wf empty_session" "session_inv sample_cfg empty_session" "length sample_random = 16"
  "clock_wf (ClockInt i)" "clock_wf (ClockFloat (Finite late_issue))" "get_spent empty_session n = None" "spent_nonces empty_session = []"
  by (simp_all add: empty_session_def session_wf_def session_inv_def sample_cfg_def sample_random_def get_spent_def late_times(1))

end
