(* ===== verification/Session_Claims.thy ===== *)
theory Session_Claims
  imports Session_Sample
begin

section \<open>What sessions guarantee\<close>

subsection \<open>Sealed tokens\<close>

text \<open>
  C13: only what this process sealed is accepted, and in one spelling only: a token that decodes
  is, byte for byte, the encoding of the payload it decodes to, so two tokens with the same
  payload are the same text.
\<close>

theorem sealed_token_exact:
  assumes "decode_token cfg token k = Inr d"
  shows "\<exists>t. token = PStr t \<and> encode_token cfg (PDict d) = Inr t"
  using assms by (rule decode_token_exact)

subsection \<open>Cursors\<close>

text \<open>
  The lifetime a token's own time check sees is the float difference of its expiry and its issue.
  It stays within the bound of 900 seconds for every shorter \<open>ttl\<close> at the clock readings of the next
  139,000 years.
\<close>

lemma window_short:
  assumes "session_now clk = Inr t" "clock_wf clk" "0 \<le> t" "t < 2 ^ 42" "1 \<le> n" "n < 900"
    and "float_add t (of_int n) = Finite e"
  shows "\<not> float_exceeds (float_sub e t) 900"
proof -
  have "is_double t" using session_now_double assms(1,2) by blast
  from float_window [OF this assms(3-6)] assms(7) obtain f where "float_sub e t = Finite f" "f \<le> 900"
    by (metis pyfloat.inject)
  then show ?thesis by (simp add: not_less)
qed

text \<open>What was issued, and what the check of the token says.\<close>

lemma check_issued_cursor:
  assumes issue: "issue_cursor cfg s clk r b cont (PInt n) = (Inr token, s1)"
    and wf: "session_wf s" "length r = 16" "clock_wf clk"
    and t: "session_now clk = Inr t" and e: "float_add t (of_int n) = Finite e"
    and now: "session_now clk1 = Inr t1" "t \<le> t1" "t1 < e"
  obtains stored cdig d where "1 \<le> n" "canonicalize_json cont = Inr stored"
    "canonical_json_digest stored = Inr cdig" "payload_field d ''continuation_digest'' = PStr cdig"
    "field_text d ''continuation_handle'' = b64encode r"
    "check_cursor cfg clk1 (PStr token) b =
      (if float_exceeds (float_sub e t) 900
       then Inl (ValidationError ''sealed cursor time binding is invalid'') else Inr d)"
    "get_cursor s1 (b64encode r) = Some (stored, Finite e)" "session_wf s1"
proof (rule issued_cursor [OF issue wf(2,3,1)])
  fix t' n' e' stored cid crev cdig ver idig oper prov
  let ?d = "items (cursor_fields t e (b64encode r) cid crev cdig ver idig oper prov)"
  assume "session_now clk = Inr t'" "PInt n = PInt n'" "float_add t' (of_int n') = Finite e'"
  then have same: "t' = t" "n' = n" "e' = e" using t e by simp_all
  assume n: "1 \<le> n'" and stored: "canonicalize_json cont = Inr stored" "canonical_json_digest stored = Inr cdig"
    and exp: "cursor_expected b = Inr [(''connection_id'', PStr cid), (''connection_revision'', PStr crev),
      (''credential_version'', PInt ver), (''input_digest'', PStr idig), (''operation'', PStr oper),
      (''provider'', PStr prov)]"
    and dec: "decode_token cfg (PStr token) CURSOR =
       Inr (items (cursor_fields t' e' (b64encode r) cid crev cdig ver idig oper prov))"
    and s1: "get_cursor s1 (b64encode r) = Some (stored, Finite e')" "session_wf s1"
  have "is_double t" "is_double e"
    using session_now_double [OF t wf(3)] round_double_is_double e by (auto simp: float_add_def)
  then have "validate_times ?d CURSOR clk1 =
      (if float_exceeds (float_sub e t) 900
       then Inl (ValidationError ''sealed cursor time binding is invalid'') else Inr (t1, Finite e))"
    using now by (subst validate_times_floats [of _ t e]) (simp_all add: cursor_field_simps kind_text_def)
  moreover have "require_bindings ?d [(''connection_id'', PStr cid), (''connection_revision'', PStr crev),
        (''credential_version'', PInt ver), (''input_digest'', PStr idig), (''operation'', PStr oper),
        (''provider'', PStr prov)] CURSOR = Inr ()"
    by (simp add: require_bindings_def payload_field_items cursor_fields_def del: items_simps)
  ultimately have "check_cursor cfg clk1 (PStr token) b =
      (if float_exceeds (float_sub e t) 900
       then Inl (ValidationError ''sealed cursor time binding is invalid'') else Inr ?d)"
    by (simp add: check_cursor_def dec exp same)
  with n stored s1 show thesis by (intro that) (simp_all add: same cursor_field_simps)
qed

text \<open>
  C14: a cursor opens until it expires, unless rounding has stretched its lifetime over the bound:
  whatever happened to the session since it was issued, as long as no clock reading has reached the
  expiry and the random handle was not drawn again, opening the token with the same bindings returns
  the canonical continuation, except that it is refused as having an invalid time binding if the
  float difference of expiry and issue exceeds 900. The exception needs the longest lifetime: it is
  excluded for every \<open>ttl\<close> below 900 at clock readings from 0 to \<open>2 ^ 42\<close>. At 900, which \<open>_ttl\<close> allows,
  it happens (a cursor issued at 1688.3 never opens).
\<close>

theorem issued_cursor_opens:
  assumes issue: "issue_cursor cfg s clk r b cont (PInt n) = (Inr token, s1)"
    and wf: "session_wf s" "length r = 16" "clock_wf clk"
    and t: "session_now clk = Inr t" and e: "float_add t (of_int n) = Finite e"
    and evs: "\<forall>ev \<in> set evs. event_random ev \<noteq> Some r \<and> (\<forall>u \<in> readings ev. u < e)"
    and now: "session_now clk1 = Inr t1" "t \<le> t1" "t1 < e" "session_now clk2 = Inr t2" "t2 < e"
  shows "fst (open_cursor cfg (session_run cfg s1 evs) clk1 clk2 (PStr token) b) =
      (if float_exceeds (float_sub e t) 900
       then Inl (ValidationError ''sealed cursor time binding is invalid'') else canonicalize_json cont) \<and>
    (n < 900 \<and> 0 \<le> t \<and> t < 2 ^ 42 \<longrightarrow> \<not> float_exceeds (float_sub e t) 900)"
proof -
  let ?s = "session_run cfg s1 evs"
  obtain stored cdig d where n: "1 \<le> n" and stored: "canonicalize_json cont = Inr stored"
    "canonical_json_digest stored = Inr cdig"
    and d: "payload_field d ''continuation_digest'' = PStr cdig" "field_text d ''continuation_handle'' = b64encode r"
    and check: "check_cursor cfg clk1 (PStr token) b =
      (if float_exceeds (float_sub e t) 900
       then Inl (ValidationError ''sealed cursor time binding is invalid'') else Inr d)"
    and s1: "get_cursor s1 (b64encode r) = Some (stored, Finite e)" "session_wf s1"
    by (rule check_issued_cursor [OF issue wf t e now(1-3)])
  have "get_cursor ?s (b64encode r) = Some (stored, Finite e)"
    by (rule cursor_run) (use evs s1 in \<open>auto simp: not_le\<close>)
  then have "get_cursor (prune_state t2 ?s) (b64encode r) = Some (stored, Finite e)"
    using now session_run_wf [OF s1(2)] by (simp add: cursors.get_prune)
  then have "fst (load_cursor ?s clk2 d) = canonicalize_json cont"
    using canonicalize_json_idem [OF stored(1)]
    by (simp add: load_cursor_def now(4) Let_def d get_cursor_def stored)
  then show ?thesis
    using window_short [OF t wf(3) _ _ n _ e] by (simp add: open_cursor_def check)
qed

subsection \<open>Confirmations\<close>

text \<open>What a successful consumption has checked.\<close>

lemma consumed_issued:
  assumes issue: "issue_confirmation cfg clk r b ttl = Inr token" "length r = 16" "clock_wf clk"
    and check: "check_confirmation cfg clk1 (PStr token) b1 = Inr (n, now, x)"
  obtains t m e where "session_now clk = Inr t" "ttl = PInt m" "float_add t (of_int m) = Finite e"
    "n = b64encode r" "x = Finite e" "session_now clk1 = Inr now"
    "t \<le> now" "now < e" "confirmation_expected b1 = confirmation_expected b"
proof -
  from issued_confirmation [OF issue] obtain t m e tier cid cver ver eff sdig mdig oper prov where
    t: "session_now clk = Inr t" "is_double e" "ttl = PInt m" "float_add t (of_int m) = Finite e"
    and exp: "confirmation_expected b = Inr [(''authorization_tier'', PStr tier), (''connection_id'', PStr cid),
      (''connection_version'', PInt cver), (''credential_version'', PInt ver), (''effect'', PStr eff),
      (''granted_scope_digest'', PStr sdig), (''mutation_digest'', PStr mdig), (''operation'', PStr oper),
      (''provider'', PStr prov)]"
    and dec: "decode_token cfg (PStr token) CONFIRMATION =
       Inr (items (confirmation_fields t e (b64encode r) tier cid cver ver eff sdig mdig oper prov))"
    by metis
  let ?d = "items (confirmation_fields t e (b64encode r) tier cid cver ver eff sdig mdig oper prov)"
  from check obtain expected where c: "validate_times ?d CONFIRMATION clk1 = Inr (now, x)"
    "confirmation_expected b1 = Inr expected" "require_bindings ?d expected CONFIRMATION = Inr ()"
    "n = b64encode r"
    by (elim check_confirmation_Inr) (auto simp: dec confirmation_field_simps)
  have "is_double t" using session_now_double t(1) issue(3) by blast
  then have times: "session_now clk1 = Inr now" "t \<le> now" "now < e" "x = Finite e"
    using c(1) t(2)
    by (auto simp: validate_times_floats [of _ t e] confirmation_field_simps bindE_Inr_iff split: if_splits)
  from c(2) obtain tier' cid' cver' ver' eff' sdig' mdig' oper' prov' where
    ex: "expected = [(''authorization_tier'', PStr tier'), (''connection_id'', PStr cid'),
      (''connection_version'', PInt cver'), (''credential_version'', PInt ver'), (''effect'', PStr eff'),
      (''granted_scope_digest'', PStr sdig'), (''mutation_digest'', PStr mdig'), (''operation'', PStr oper'),
      (''provider'', PStr prov')]"
    by (auto simp: confirmation_expected_def bindE_Inr_iff)
  have "confirmation_expected b1 = confirmation_expected b"
    using c(3) unfolding c(2) exp ex
    by (simp add: require_bindings_def payload_field_items confirmation_fields_def del: items_simps)
  with times t c(4) show thesis by (intro that) auto
qed

text \<open>
  C12: a confirmation approves exactly the mutation it was issued for: it is consumed only with
  the same operation, connection, effect, tier, versions and the same digests of the scopes and
  of the mutation, and only between its issue and its expiry.
\<close>

theorem confirmation_binds:
  assumes "issue_confirmation cfg clk r b ttl = Inr token" "length r = 16" "clock_wf clk"
    and "fst (consume_confirmation cfg s clk1 (PStr token) b1) = Inr n"
  shows "confirmation_expected b1 = confirmation_expected b \<and> n = b64encode r \<and>
    (\<exists>t now. session_now clk = Inr t \<and> session_now clk1 = Inr now \<and> t \<le> now)"
proof -
  from assms(4) obtain now x where "check_confirmation cfg clk1 (PStr token) b1 = Inr (n, now, x)"
    by (auto simp: consume_confirmation_def spend_nonce_def Let_def split: sum.splits if_splits)
  from consumed_issued [OF assms(1-3) this] show ?thesis by metis
qed

text \<open>
  C4: a confirmation is consumed at most once: after it was consumed, in whatever session
  history follows, every later attempt is refused, provided no clock reading in between is
  later than the attempt's own.
\<close>

theorem confirmation_single_use:
  assumes issue: "issue_confirmation cfg clk r b ttl = Inr token" "length r = 16" "clock_wf clk"
    and wf: "session_wf s"
    and first: "consume_confirmation cfg s clk1 (PStr token) b1 = (Inr n, s1)"
    and clock: "session_now clk2 = Inr t2" "\<forall>ev \<in> set evs. \<forall>u \<in> readings ev. u \<le> t2"
  shows "\<exists>err. fst (consume_confirmation cfg (session_run cfg s1 evs) clk2 (PStr token) b2) = Inl err"
proof (cases "check_confirmation cfg clk2 (PStr token) b2")
  case (Inl err)
  then show ?thesis by (simp add: consume_confirmation_def)
next
  case (Inr y)
  let ?s = "session_run cfg s1 evs"
  obtain n2 now2 x2 where y: "y = (n2, now2, x2)" by (cases y)
  obtain t m e where e: "session_now clk = Inr t" "ttl = PInt m" "float_add t (of_int m) = Finite e"
    and second: "n2 = b64encode r" "x2 = Finite e" "now2 = t2" "t2 < e"
    by (rule consumed_issued [OF issue Inr [unfolded y]]) (use clock(1) in auto)
  from first obtain now x where c: "check_confirmation cfg clk1 (PStr token) b1 = Inr (n, now, x)"
    and sp: "spend_nonce cfg s (n, now, x) = (Inr n, s1)"
    by (auto simp: consume_confirmation_def spend_nonce_cases split: sum.splits if_splits prod.splits)
  have x: "n = b64encode r" "x = Finite e"
    by (rule consumed_issued [OF issue c]; use e in simp)+
  have s1: "s1 = put_spent n () x (prune_state now s)"
    using sp by (simp add: spend_nonce_cases split: if_splits)
  then have "get_spent s1 n = Some ((), x)" "session_wf s1"
    using wf by (simp_all add: spent.get_put spent.inv_put spent.inv_prune)
  then have "get_spent ?s n = Some ((), x) \<and> session_wf ?s"
    using clock(2) x by (intro spent_run) (auto simp: not_le intro: le_less_trans [OF _ second(4)])
  then have "get_spent (prune_state t2 ?s) n2 \<noteq> None"
    using second x by (simp add: spent.get_prune)
  then show ?thesis by (simp add: consume_confirmation_def Inr y spend_nonce_cases second)
qed

lemma check_issued:
  assumes issue: "issue_confirmation cfg clk r b (PInt n) = Inr token" "length r = 16" "clock_wf clk"
    and t: "session_now clk = Inr t" and e: "float_add t (of_int n) = Finite e"
    and now: "session_now clk1 = Inr t1" "t \<le> t1" "t1 < e"
  shows "check_confirmation cfg clk1 (PStr token) b =
      (if float_exceeds (float_sub e t) 900
       then Inl (ValidationError ''sealed confirmation time binding is invalid'')
       else Inr (b64encode r, t1, Finite e))"
    and "1 \<le> n"
proof -
  obtain tier cid cver ver eff sdig mdig oper prov where
    n: "1 \<le> n"
    and exp: "confirmation_expected b = Inr [(''authorization_tier'', PStr tier), (''connection_id'', PStr cid),
      (''connection_version'', PInt cver), (''credential_version'', PInt ver), (''effect'', PStr eff),
      (''granted_scope_digest'', PStr sdig), (''mutation_digest'', PStr mdig), (''operation'', PStr oper),
      (''provider'', PStr prov)]"
    and dec: "decode_token cfg (PStr token) CONFIRMATION =
       Inr (items (confirmation_fields t e (b64encode r) tier cid cver ver eff sdig mdig oper prov))"
    by (rule issued_confirmation [OF issue]) (use t e in auto)
  let ?d = "items (confirmation_fields t e (b64encode r) tier cid cver ver eff sdig mdig oper prov)"
  have "is_double t" "is_double e"
    using session_now_double [OF t issue(3)] round_double_is_double e by (auto simp: float_add_def)
  then have "validate_times ?d CONFIRMATION clk1 =
      (if float_exceeds (float_sub e t) 900
       then Inl (ValidationError ''sealed confirmation time binding is invalid'') else Inr (t1, Finite e))"
    using now by (subst validate_times_floats [of _ t e]) (simp_all add: confirmation_field_simps kind_text_def)
  moreover have "require_bindings ?d [(''authorization_tier'', PStr tier), (''connection_id'', PStr cid),
      (''connection_version'', PInt cver), (''credential_version'', PInt ver), (''effect'', PStr eff),
      (''granted_scope_digest'', PStr sdig), (''mutation_digest'', PStr mdig), (''operation'', PStr oper),
      (''provider'', PStr prov)] CONFIRMATION = Inr ()"
    by (simp add: require_bindings_def payload_field_items confirmation_fields_def del: items_simps)
  ultimately show "check_confirmation cfg clk1 (PStr token) b =
      (if float_exceeds (float_sub e t) 900
       then Inl (ValidationError ''sealed confirmation time binding is invalid'')
       else Inr (b64encode r, t1, Finite e))"
    by (simp add: check_confirmation_def dec exp confirmation_field_simps)
  show "1 \<le> n" by (rule n)
qed

lemma check_accepted:
  assumes issue: "issue_confirmation cfg clk r b (PInt n) = Inr token" "length r = 16" "clock_wf clk"
    and t: "session_now clk = Inr t" "0 \<le> t" "t < 2 ^ 42" "n < 900" and e: "float_add t (of_int n) = Finite e"
    and now: "session_now clk1 = Inr t1" "t \<le> t1" "t1 < e"
  shows "check_confirmation cfg clk1 (PStr token) b = Inr (b64encode r, t1, Finite e)"
  using check_issued [OF issue t(1) e now] window_short [OF t(1) issue(3) t(2,3) _ t(4) e] by simp

text \<open>
  C15: an issued confirmation is accepted until its expiry, unless rounding has stretched its
  lifetime over the bound: with the bindings it was issued for, in a session that has not spent its
  nonce and has room for one more, it is consumed and its nonce returned, except that it is refused as
  having an invalid time binding if the float difference of expiry and issue exceeds 900. The
  exception is excluded for every \<open>ttl\<close> below 900 at clock readings from 0 to \<open>2 ^ 42\<close>; at 900, which
  \<open>_ttl\<close> allows, it happens (a confirmation issued at 1688.3 is never accepted).
\<close>

theorem issued_confirmation_accepted:
  assumes issue: "issue_confirmation cfg clk r b (PInt n) = Inr token" "length r = 16" "clock_wf clk"
    and t: "session_now clk = Inr t" and e: "float_add t (of_int n) = Finite e"
    and s: "session_wf s" "get_spent s (b64encode r) = None" "ilen (spent_nonces s) < cfg_max_spent_nonces cfg"
    and now: "session_now clk1 = Inr t1" "t \<le> t1" "t1 < e"
  shows "fst (consume_confirmation cfg s clk1 (PStr token) b) =
      (if float_exceeds (float_sub e t) 900
       then Inl (ValidationError ''sealed confirmation time binding is invalid'') else Inr (b64encode r)) \<and>
    (n < 900 \<and> 0 \<le> t \<and> t < 2 ^ 42 \<longrightarrow> \<not> float_exceeds (float_sub e t) 900)"
proof -
  note check = check_issued [OF issue t e now]
  have "get_spent (prune_state t1 s) (b64encode r) = None" using s by (simp add: spent.get_prune)
  moreover have "ilen (spent_nonces (prune_state t1 s)) < cfg_max_spent_nonces cfg"
    using s(3) spent.count_prune [of t1 s] by linarith
  ultimately show ?thesis
    using window_short [OF t issue(3) _ _ check(2) _ e]
    by (simp add: consume_confirmation_def check(1) spend_nonce_cases)
qed

text \<open>
  C26: the single use of C4 rests on the order of the clock readings. A consumption reads the
  clock before it takes the lock; when another operation prunes the session with a reading past
  the expiry in between, the token already consumed is accepted a second time.
\<close>

theorem stale_check_spends_again:
  assumes issue: "issue_confirmation cfg clk r b ttl = Inr token" "length r = 16" "clock_wf clk"
    and inv: "session_inv cfg s"
    and first: "consume_confirmation cfg s clk1 (PStr token) b = (Inr n, s1)"
    and stale: "check_confirmation cfg clk2 (PStr token) b = Inr (n2, now2, e2)"
    and other: "expired u e2"
  shows "fst (spend_nonce cfg (prune_state u s1) (n2, now2, e2)) = Inr n"
proof -
  from first obtain now e where c: "check_confirmation cfg clk1 (PStr token) b = Inr (n, now, e)"
    and sp: "spend_nonce cfg s (n, now, e) = (Inr n, s1)"
    by (auto simp: consume_confirmation_def spend_nonce_cases split: sum.splits if_splits prod.splits)
  obtain t m x where x: "session_now clk = Inr t" "ttl = PInt m" "float_add t (of_int m) = Finite x"
    "n = b64encode r" "e = Finite x"
    by (rule consumed_issued [OF issue c]) blast
  have same: "n2 = n" "e2 = e" by (rule consumed_issued [OF issue stale]; use x in simp)+
  have s1: "s1 = put_spent n () e (prune_state now s)"
    using sp by (simp add: spend_nonce_cases split: if_splits)
  have wf: "session_wf s1" using inv unfolding s1 by (simp add: session_inv_def spent.inv_put spent.inv_prune)
  have "session_inv cfg s1"
    using session_trans_inv [OF consume_confirmation_trans inv, of clk1 "PStr token" b] first by simp
  then have max: "ilen (spent_nonces s1) \<le> cfg_max_spent_nonces cfg" by (simp add: session_inv_def)
  have got: "get_spent s1 n = Some ((), e)"
    using inv unfolding s1 by (simp add: session_inv_def spent.get_put spent.inv_prune)
  let ?s = "prune_state now2 (prune_state u s1)"
  have "ilen (spent_nonces (prune_state u s1)) < ilen (spent_nonces s1)"
    using spent.count_dropped [OF wf got] other same by simp
  then have "ilen (spent_nonces ?s) < cfg_max_spent_nonces cfg"
    using spent.count_prune [of now2 "prune_state u s1"] max by linarith
  moreover have "get_spent ?s n = None"
    using wf got other same by (simp add: spent.get_prune spent.inv_prune)
  ultimately show ?thesis using same by (simp add: spend_nonce_cases)
qed

text \<open>
  C16: in every state a session can reach from its constructor, whatever is called with whatever
  clock, the keys of both stores are distinct and neither holds more than its capacity.
\<close>

theorem session_capacity:
  assumes "ConnectorSession secret max_spent max_cursors = Inr (cfg, s)"
  shows "ilen (spent_nonces (session_run cfg s evs)) \<le> max_spent \<and>
    ilen (cursor_values (session_run cfg s evs)) \<le> max_cursors \<and> session_wf (session_run cfg s evs)"
proof -
  have "session_inv cfg (session_run cfg s evs)"
    by (rule session_run_inv [OF ConnectorSession_inv [OF assms]])
  moreover have "cfg_max_spent_nonces cfg = max_spent" "cfg_max_cursor_handles cfg = max_cursors"
    using assms by (auto simp: ConnectorSession_def split: if_splits)
  ultimately show ?thesis by (simp add: session_inv_def)
qed

subsection \<open>Instances\<close>

declare session_now.simps [simp del]

lemma sample_now:
  "session_now (ClockInt 1001) = Inr 1001" "session_now (ClockInt 1002) = Inr 1002"
  "session_now (ClockInt 1000) = Inr 1000" "session_now (ClockInt 1700) = Inr 1700"
  using session_now_int [of 1000] session_now_int [of 1001] session_now_int [of 1002] session_now_int [of 1700]
  by simp_all

lemma late_bounds: "late_issue \<le> 1700" "1700 < late_expiry"
  by (simp_all add: late_issue_def late_expiry_def)

lemma sample_consumed:
  assumes "issue_confirmation sample_cfg (ClockInt 1000) sample_random sample_confirmation (PInt 600) = Inr token"
  shows "check_confirmation sample_cfg (ClockInt 1002) (PStr token) sample_confirmation =
      Inr (b64encode sample_random, 1002, Finite 1600)"
    and "fst (consume_confirmation sample_cfg empty_session (ClockInt 1001) (PStr token) sample_confirmation) =
      Inr (b64encode sample_random)"
proof -
  show "check_confirmation sample_cfg (ClockInt 1002) (PStr token) sample_confirmation =
      Inr (b64encode sample_random, 1002, Finite 1600)"
    by (rule check_accepted [OF assms, where t = 1000]) (simp_all add: sample_times(2) sample_now)
  have "check_confirmation sample_cfg (ClockInt 1001) (PStr token) sample_confirmation =
      Inr (b64encode sample_random, 1001, Finite 1600)"
    by (rule check_accepted [OF assms, where t = 1000]) (simp_all add: sample_times(2) sample_now)
  then show "fst (consume_confirmation sample_cfg empty_session (ClockInt 1001) (PStr token) sample_confirmation) =
      Inr (b64encode sample_random)"
    by (simp add: consume_confirmation_def spend_nonce_cases spent.get_prune)
       (simp add: prune_state_def sample_cfg_def)
qed

theorem sealed_token_exact_witness:
  "\<exists>token d t. decode_token sample_cfg token CONFIRMATION = Inr d \<and> token = PStr t \<and>
     encode_token sample_cfg (PDict d) = Inr t"
proof -
  obtain token where "issue_confirmation sample_cfg (ClockInt 1000) sample_random sample_confirmation (PInt 600) = Inr token"
    using sample_confirmation_issued by blast
  from issued_confirmation [OF this] obtain d where "decode_token sample_cfg (PStr token) CONFIRMATION = Inr d"
    by auto
  with sealed_token_exact [OF this] show ?thesis by blast
qed

theorem issued_cursor_opens_witness:
  "(\<exists>token s1. issue_cursor sample_cfg empty_session (ClockInt 1000) sample_random sample_cursor sample_mutation
       (PInt 600) = (Inr token, s1) \<and>
     fst (open_cursor sample_cfg
       (session_run sample_cfg s1 [OpenCursor (ClockInt 1001) (ClockInt 1001) PNone sample_cursor])
       (ClockInt 1001) (ClockInt 1002) (PStr token) sample_cursor) = canonicalize_json sample_mutation) \<and>
   (\<exists>token s1. issue_cursor sample_cfg empty_session (ClockFloat (Finite late_issue)) sample_random sample_cursor
       sample_mutation (PInt 900) = (Inr token, s1) \<and>
     fst (open_cursor sample_cfg (session_run sample_cfg s1 []) (ClockInt 1700) (ClockInt 1700) (PStr token)
       sample_cursor) = Inl (ValidationError ''sealed cursor time binding is invalid''))"
proof -
  obtain token s1 where i: "issue_cursor sample_cfg empty_session (ClockInt 1000) sample_random sample_cursor
      sample_mutation (PInt 600) = (Inr token, s1)"
    using sample_cursor_issued by blast
  have "fst (open_cursor sample_cfg
       (session_run sample_cfg s1 [OpenCursor (ClockInt 1001) (ClockInt 1001) PNone sample_cursor])
       (ClockInt 1001) (ClockInt 1002) (PStr token) sample_cursor) = canonicalize_json sample_mutation"
    using issued_cursor_opens [OF i, where t = 1000 and e = 1600 and ?t1.0 = 1001 and ?t2.0 = 1002
        and ?clk1.0 = "ClockInt 1001" and ?clk2.0 = "ClockInt 1002"
        and evs = "[OpenCursor (ClockInt 1001) (ClockInt 1001) PNone sample_cursor]"]
    by (simp add: sample_times(2) sample_now readings_def)
  moreover obtain token' s1' where j: "issue_cursor sample_cfg empty_session (ClockFloat (Finite late_issue))
      sample_random sample_cursor sample_mutation (PInt 900) = (Inr token', s1')"
    using cursor_issued_in [OF sample_windows(2)] by blast
  have "fst (open_cursor sample_cfg (session_run sample_cfg s1' []) (ClockInt 1700) (ClockInt 1700) (PStr token')
       sample_cursor) = Inl (ValidationError ''sealed cursor time binding is invalid'')"
    using issued_cursor_opens [OF j, where t = late_issue and e = late_expiry and ?t1.0 = 1700 and ?t2.0 = 1700
        and ?clk1.0 = "ClockInt 1700" and ?clk2.0 = "ClockInt 1700" and evs = "[]"]
    by (simp add: late_times late_now late_bounds sample_now)
  ultimately show ?thesis using i j by blast
qed

theorem confirmation_binds_witness:
  "\<exists>token b1 n. issue_confirmation sample_cfg (ClockInt 1000) sample_random sample_confirmation (PInt 600) = Inr token \<and>
     fst (consume_confirmation sample_cfg empty_session (ClockInt 1001) (PStr token) b1) = Inr n \<and>
     confirmation_expected b1 = confirmation_expected sample_confirmation"
proof -
  obtain token where i: "issue_confirmation sample_cfg (ClockInt 1000) sample_random sample_confirmation (PInt 600) = Inr token"
    using sample_confirmation_issued by blast
  have "fst (consume_confirmation sample_cfg empty_session (ClockInt 1001) (PStr token) sample_confirmation) =
      Inr (b64encode sample_random)"
    by (rule sample_consumed(2) [OF i])
  with i confirmation_binds [OF i _ _ this] show ?thesis by auto
qed

theorem issued_confirmation_accepted_witness:
  "(\<exists>token. fst (consume_confirmation sample_cfg empty_session (ClockInt 1002) (PStr token) sample_confirmation) =
     Inr (b64encode sample_random)) \<and>
   (\<exists>token. issue_confirmation sample_cfg (ClockFloat (Finite late_issue)) sample_random sample_confirmation
       (PInt 900) = Inr token \<and>
     fst (consume_confirmation sample_cfg empty_session (ClockInt 1700) (PStr token) sample_confirmation) =
       Inl (ValidationError ''sealed confirmation time binding is invalid''))"
proof -
  obtain token where i: "issue_confirmation sample_cfg (ClockInt 1000) sample_random sample_confirmation (PInt 600) = Inr token"
    using sample_confirmation_issued by blast
  have "fst (consume_confirmation sample_cfg empty_session (ClockInt 1002) (PStr token) sample_confirmation) =
      Inr (b64encode sample_random)"
    using issued_confirmation_accepted [OF i, where t = 1000 and e = 1600 and ?t1.0 = 1002
        and ?clk1.0 = "ClockInt 1002" and s = empty_session]
    by (simp add: sample_times(2) sample_now sample_cfg_def)
  moreover obtain token' where j: "issue_confirmation sample_cfg (ClockFloat (Finite late_issue)) sample_random
      sample_confirmation (PInt 900) = Inr token'"
    using confirmation_issued_in [OF sample_windows(2)] by blast
  have "fst (consume_confirmation sample_cfg empty_session (ClockInt 1700) (PStr token') sample_confirmation) =
      Inl (ValidationError ''sealed confirmation time binding is invalid'')"
    using issued_confirmation_accepted [OF j, where t = late_issue and e = late_expiry and ?t1.0 = 1700
        and ?clk1.0 = "ClockInt 1700" and s = empty_session]
    by (simp add: late_times late_now late_bounds sample_now sample_cfg_def)
  ultimately show ?thesis using j by blast
qed

theorem confirmation_single_use_witness:
  "\<exists>token s1. consume_confirmation sample_cfg empty_session (ClockInt 1001) (PStr token) sample_confirmation =
       (Inr (b64encode sample_random), s1) \<and>
     (\<exists>err. fst (consume_confirmation sample_cfg
        (session_run sample_cfg s1 [OpenCursor (ClockInt 1001) (ClockInt 1001) PNone sample_cursor])
        (ClockInt 1002) (PStr token) sample_confirmation) = Inl err)"
proof -
  obtain token where i: "issue_confirmation sample_cfg (ClockInt 1000) sample_random sample_confirmation (PInt 600) = Inr token"
    using sample_confirmation_issued by blast
  obtain s1 where f: "consume_confirmation sample_cfg empty_session (ClockInt 1001) (PStr token) sample_confirmation =
      (Inr (b64encode sample_random), s1)"
    using sample_consumed(2) [OF i] by (metis prod.collapse)
  have "\<exists>err. fst (consume_confirmation sample_cfg
        (session_run sample_cfg s1 [OpenCursor (ClockInt 1001) (ClockInt 1001) PNone sample_cursor])
        (ClockInt 1002) (PStr token) sample_confirmation) = Inl err"
    by (rule confirmation_single_use [OF i _ _ _ f, where ?t2.0 = 1002])
       (simp_all add: sample_now readings_def)
  with f show ?thesis by blast
qed

theorem stale_check_spends_again_witness:
  "\<exists>token s1 x. consume_confirmation sample_cfg empty_session (ClockInt 1001) (PStr token) sample_confirmation =
       (Inr (b64encode sample_random), s1) \<and>
     check_confirmation sample_cfg (ClockInt 1002) (PStr token) sample_confirmation = Inr x \<and>
     fst (spend_nonce sample_cfg (prune_state 1600 s1) x) = Inr (b64encode sample_random)"
proof -
  obtain token where i: "issue_confirmation sample_cfg (ClockInt 1000) sample_random sample_confirmation (PInt 600) = Inr token"
    using sample_confirmation_issued by blast
  obtain s1 where f: "consume_confirmation sample_cfg empty_session (ClockInt 1001) (PStr token) sample_confirmation =
      (Inr (b64encode sample_random), s1)"
    using sample_consumed(2) [OF i] by (metis prod.collapse)
  obtain n now e where c: "check_confirmation sample_cfg (ClockInt 1002) (PStr token) sample_confirmation = Inr (n, now, e)"
    using sample_consumed(1) [OF i] by blast
  have "expired 1600 e"
    by (rule consumed_issued [OF i _ _ c]) (simp_all add: sample_times(2) sample_now)
  have "fst (spend_nonce sample_cfg (prune_state 1600 s1) (n, now, e)) = Inr (b64encode sample_random)"
    by (rule stale_check_spends_again [OF i _ _ _ f c \<open>expired 1600 e\<close>]) simp_all
  with c f show ?thesis by blast
qed

theorem session_capacity_witness:
  "\<exists>cfg s. ConnectorSession (replicate 32 CHR ''k'') 1 1 = Inr (cfg, s) \<and>
     ilen (spent_nonces (session_run cfg s [])) \<le> 1"
proof -
  obtain cfg s where c: "ConnectorSession (replicate 32 CHR ''k'') 1 1 = Inr (cfg, s)"
    by (simp add: ConnectorSession_def)
  from session_capacity [OF this, of "[]"] c show ?thesis by blast
qed

end
