(* ===== verification/Effects.thy ===== *)
theory Effects
  imports Prelude
begin

section \<open>Effects: steps on a state that may raise\<close>

text \<open>
  Code that changes files, a keyring or a store is a function from the state to a result and the
  state it leaves, so a raised exception keeps the changes made before it, as in the program. A call of
  the operating system is told by a \<open>fault\<close> how it ends: as intended, failing before it changed
  anything, or failing after. A component's properties quantify over the faults, that is over every way
  its calls can fail. Triples give the pre- and the two postconditions of a step.
\<close>

named_theorems effect_simps \<open>how effectful steps run\<close>
named_theorems triples \<open>triples of effectful steps\<close>

type_synonym ('w, 'a) action = "'w \<Rightarrow> 'a result \<times> 'w"

subsection \<open>Sequencing\<close>

definition pure :: "'a result \<Rightarrow> ('w, 'a) action" where
  "pure r w = (r, w)"

abbreviation give :: "'a \<Rightarrow> ('w, 'a) action" where
  "give x \<equiv> pure (Inr x)"

abbreviation fail :: "exc \<Rightarrow> ('w, 'a) action" where
  "fail e \<equiv> pure (Inl e)"

definition andthen :: "('w, 'a) action \<Rightarrow> ('a \<Rightarrow> ('w, 'b) action) \<Rightarrow> ('w, 'b) action" where
  "andthen m f w = (case m w of (Inl e, w') \<Rightarrow> (Inl e, w') | (Inr x, w') \<Rightarrow> f x w')"

text \<open>\<open>try: m except Exception as e: h(e)\<close>.\<close>

definition catch :: "('w, 'a) action \<Rightarrow> (exc \<Rightarrow> ('w, 'a) action) \<Rightarrow> ('w, 'a) action" where
  "catch m h w = (case m w of (Inl e, w') \<Rightarrow> h e w' | (Inr x, w') \<Rightarrow> (Inr x, w'))"

text \<open>\<open>try: m except ...: h(e) else: f\<close>: the handler covers \<open>m\<close> only.\<close>

definition attempt :: "('w, 'a) action \<Rightarrow> (exc \<Rightarrow> ('w, 'b) action) \<Rightarrow> ('a \<Rightarrow> ('w, 'b) action) \<Rightarrow> ('w, 'b) action" where
  "attempt m h f w = (case m w of (Inl e, w') \<Rightarrow> h e w' | (Inr x, w') \<Rightarrow> f x w')"

definition observe :: "('w \<Rightarrow> 'a) \<Rightarrow> ('w, 'a) action" where
  "observe f w = (Inr (f w), w)"

definition require :: "bool \<Rightarrow> exc \<Rightarrow> ('w, unit) action" where
  "require c e = (if c then give () else fail e)"

text \<open>A step on a part of the state: \<open>get\<close> reads the part, \<open>put\<close> replaces it.\<close>

definition on_part :: "('w \<Rightarrow> 's) \<Rightarrow> ('s \<Rightarrow> 'w \<Rightarrow> 'w) \<Rightarrow> ('s, 'a) action \<Rightarrow> ('w, 'a) action" where
  "on_part get put m w = (case m (get w) of (r, s) \<Rightarrow> (r, put s w))"

lemma pure_run [effect_simps]: "pure r w = (r, w)"
  by (simp add: pure_def)

lemma andthen_cong [fundef_cong]:
  "w = w' \<Longrightarrow> m w' = m' w' \<Longrightarrow> (\<And>x v. m' w' = (Inr x, v) \<Longrightarrow> f x v = f' x v) \<Longrightarrow> andthen m f w = andthen m' f' w'"
  by (auto simp: andthen_def split: prod.splits sum.splits)

lemma andthen_run [effect_simps]:
  "m w = (Inl e, w') \<Longrightarrow> andthen m f w = (Inl e, w')"
  "m w = (Inr x, w') \<Longrightarrow> andthen m f w = f x w'"
  by (simp_all add: andthen_def)

lemma catch_run [effect_simps]:
  "m w = (Inl e, w') \<Longrightarrow> catch m h w = h e w'"
  "m w = (Inr x, w') \<Longrightarrow> catch m h w = (Inr x, w')"
  by (simp_all add: catch_def)

lemma attempt_run [effect_simps]:
  "m w = (Inl e, w') \<Longrightarrow> attempt m h f w = h e w'"
  "m w = (Inr x, w') \<Longrightarrow> attempt m h f w = f x w'"
  by (simp_all add: attempt_def)

lemma require_run [effect_simps]: "require c e w = (if c then Inr () else Inl e, w)"
  by (simp add: require_def pure_def)

lemma observe_run [effect_simps]: "observe f w = (Inr (f w), w)"
  by (simp add: observe_def)

subsection \<open>Faults of the environment\<close>

datatype fault = No_Fault | Before exc | After exc

definition with_fault :: "fault \<Rightarrow> ('s \<Rightarrow> 's) \<Rightarrow> 's \<Rightarrow> unit result \<times> 's" where
  "with_fault fault change s =
     (case fault of No_Fault \<Rightarrow> (Inr (), change s) | Before e \<Rightarrow> (Inl e, s) | After e \<Rightarrow> (Inl e, change s))"

fun fault_error :: "fault \<Rightarrow> exc option" where
  "fault_error No_Fault = None"
| "fault_error (Before e) = Some e"
| "fault_error (After e) = Some e"

text \<open>The faults to come, one for each call; none is left when calls end as intended.\<close>

definition next_fault :: "fault list \<Rightarrow> fault" where
  "next_fault fs = (case fs of [] \<Rightarrow> No_Fault | f # _ \<Rightarrow> f)"

lemma next_fault_simps [simp]: "next_fault [] = No_Fault" "next_fault (f # fs) = f"
  by (simp_all add: next_fault_def)

subsection \<open>Triples\<close>

definition triple ::
    "('w \<Rightarrow> bool) \<Rightarrow> ('w, 'a) action \<Rightarrow> ('a \<Rightarrow> 'w \<Rightarrow> bool) \<Rightarrow> (exc \<Rightarrow> 'w \<Rightarrow> bool) \<Rightarrow> bool" where
  "triple P m Q E = (\<forall>w. P w \<longrightarrow> (case m w of (Inl e, w') \<Rightarrow> E e w' | (Inr x, w') \<Rightarrow> Q x w'))"

lemma tripleD:
  "triple P m Q E \<Longrightarrow> P w \<Longrightarrow> m w = (Inr x, w') \<Longrightarrow> Q x w'"
  "triple P m Q E \<Longrightarrow> P w \<Longrightarrow> m w = (Inl e, w') \<Longrightarrow> E e w'"
  by (fastforce simp: triple_def)+

lemma tripleI:
  "(\<And>w x w'. P w \<Longrightarrow> m w = (Inr x, w') \<Longrightarrow> Q x w') \<Longrightarrow> (\<And>w e w'. P w \<Longrightarrow> m w = (Inl e, w') \<Longrightarrow> E e w') \<Longrightarrow>
   triple P m Q E"
  by (auto simp: triple_def split: prod.splits sum.splits)

lemma triple_conseq:
  "triple P' m Q' E' \<Longrightarrow> (\<And>w. P w \<Longrightarrow> P' w) \<Longrightarrow> (\<And>x w. Q' x w \<Longrightarrow> Q x w) \<Longrightarrow> (\<And>e w. E' e w \<Longrightarrow> E e w) \<Longrightarrow>
   triple P m Q E"
  by (fastforce simp: triple_def split: prod.splits sum.splits)

lemma triple_disj: "triple P m Q E \<Longrightarrow> triple P' m Q E \<Longrightarrow> triple (\<lambda>w. P w \<or> P' w) m Q E"
  by (auto simp: triple_def)

lemma triple_pure_cases:
  assumes "\<And>x. r = Inr x \<Longrightarrow> \<forall>w. P w \<longrightarrow> Q x w" "\<And>e. r = Inl e \<Longrightarrow> \<forall>w. P w \<longrightarrow> E e w"
  shows "triple P (pure r) Q E"
  using assms by (cases r) (auto simp: triple_def pure_def)

lemma triple_fact: "(\<And>w. P w \<Longrightarrow> A) \<Longrightarrow> (A \<Longrightarrow> triple P m Q E) \<Longrightarrow> triple P m Q E"
  by (auto simp: triple_def)

lemma triple_pure [triples]:
  "triple (Q x) (give x) Q E"
  "triple (E e) (fail e) Q E"
  by (simp_all add: triple_def pure_def)

lemma triple_andthen:
  "triple P m R E \<Longrightarrow> (\<And>x. triple (R x) (f x) Q E) \<Longrightarrow> triple P (andthen m f) Q E"
  by (fastforce simp: triple_def andthen_def split: prod.splits sum.splits)

lemma triple_then:
  assumes "triple P m R E'" "\<And>e w. E' e w \<Longrightarrow> E e w" "\<And>x. triple (R x) (f x) Q E"
  shows "triple P (andthen m f) Q E"
  by (rule triple_andthen [OF triple_conseq [OF assms(1)] assms(3)]) (auto intro: assms(2))

lemma triple_observe:
  "(\<And>w. P w \<Longrightarrow> f w = x) \<Longrightarrow> triple P (g x) Q E \<Longrightarrow> triple P (andthen (observe f) g) Q E"
  by (auto simp: triple_def andthen_def observe_def)

lemma triple_fail: "(\<And>w. P w \<Longrightarrow> E e w) \<Longrightarrow> triple P (fail e) Q E"
  by (auto simp: triple_def pure_def)

lemma triple_guard:
  "(\<And>x. r = Inr x \<Longrightarrow> triple P (f x) Q E) \<Longrightarrow> (\<And>e w. r = Inl e \<Longrightarrow> P w \<Longrightarrow> E e w) \<Longrightarrow>
   triple P (andthen (pure r) f) Q E"
  by (cases r) (simp_all add: triple_def andthen_def pure_def)

lemma triple_catch:
  "triple P m Q R \<Longrightarrow> (\<And>e. triple (R e) (h e) Q E) \<Longrightarrow> triple P (catch m h) Q E"
  by (fastforce simp: triple_def catch_def split: prod.splits sum.splits)

lemma triple_attempt:
  "triple P m R S \<Longrightarrow> (\<And>e. triple (S e) (h e) Q E) \<Longrightarrow> (\<And>x. triple (R x) (f x) Q E) \<Longrightarrow> triple P (attempt m h f) Q E"
  by (fastforce simp: triple_def attempt_def split: prod.splits sum.splits)

lemma triple_require: "triple (\<lambda>w. if c then Q () w else E e w) (require c e) Q E"
  by (simp add: triple_def require_def pure_def)

lemma triple_if:
  "(c \<Longrightarrow> triple P m Q E) \<Longrightarrow> (\<not> c \<Longrightarrow> triple P m' Q E) \<Longrightarrow> triple P (if c then m else m') Q E"
  by simp

lemma triple_post:
  "(\<And>w. P w \<Longrightarrow> case m w of (Inl e, w') \<Rightarrow> E e w' | (Inr x, w') \<Rightarrow> Q x w') \<Longrightarrow> triple P m Q E"
  by (simp add: triple_def)

end
