(* ===== verification/Identifiers.thy ===== *)
theory Identifiers
  imports Effects Digest Utf8_Text
begin

section \<open>Connection identifiers and secret references (\<open>connector_identifiers.py\<close>)\<close>

subsection \<open>Grammar\<close>

definition upper :: "char \<Rightarrow> bool" where "upper c = (65 \<le> byte c \<and> byte c \<le> 90)"
definition lower :: "char \<Rightarrow> bool" where "lower c = (97 \<le> byte c \<and> byte c \<le> 122)"

definition id_char :: "char \<Rightarrow> bool" where
  "id_char c = (upper c \<or> lower c \<or> json_digit c \<or> c = CHR ''_'' \<or> c = CHR ''-'')"

text \<open>\<open>^con-[A-Za-z0-9_-]{32}$\<close> and \<open>^[a-z][a-z0-9-]{0,63}$\<close>, matched in full.\<close>

definition connection_id :: "string \<Rightarrow> bool" where
  "connection_id s = (take 4 s = ''con-'' \<and> length s = 36 \<and> list_all id_char (drop 4 s))"

definition secret_name :: "string \<Rightarrow> bool" where
  "secret_name s =
     (case s of [] \<Rightarrow> False
      | c # cs \<Rightarrow> lower c \<and> length cs \<le> 63 \<and> list_all (\<lambda>d. lower d \<or> json_digit d \<or> d = CHR ''-'') cs)"

definition parse_connection_id :: "pyobj \<Rightarrow> string result" where
  "parse_connection_id value =
     (case value of PStr s \<Rightarrow> if connection_id s then Inr s else Inl (ValidationError ''connection ID is invalid'')
      | _ \<Rightarrow> Inl (ValidationError ''connection ID is invalid''))"

definition parse_secret_name :: "pyobj \<Rightarrow> string result" where
  "parse_secret_name value =
     (case value of PStr s \<Rightarrow> if secret_name s then Inr s else Inl (ValidationError ''secret name is invalid'')
      | _ \<Rightarrow> Inl (ValidationError ''secret name is invalid''))"

text \<open>\<open>secrets.token_urlsafe(24)\<close> is the base64 text of 24 random bytes, which are an argument.\<close>

definition new_connection_id :: "string \<Rightarrow> string" where
  "new_connection_id random = ''con-'' @ b64encode random"

subsection \<open>Secret references\<close>

record secret_reference =
  ref_connection :: string
  ref_name :: string

text \<open>The constructor with its checks.\<close>

definition make_reference :: "string \<Rightarrow> string \<Rightarrow> secret_reference result" where
  "make_reference c n =
     bindE (parse_connection_id (PStr c)) (\<lambda>_. bindE (parse_secret_name (PStr n)) (\<lambda>_.
     Inr \<lparr>ref_connection = c, ref_name = n\<rparr>))"

definition reference_text :: "secret_reference \<Rightarrow> string" where
  "reference_text r = ''secret://'' @ ref_connection r @ ''/'' @ ref_name r"

definition parse_secret_reference :: "pyobj \<Rightarrow> secret_reference result" where
  "parse_secret_reference value =
     (case value of PStr s \<Rightarrow>
        (if take 9 s = ''secret://'' \<and> connection_id (take 36 (drop 9 s)) \<and> take 1 (drop 45 s) = ''/'' \<and>
            secret_name (drop 46 s)
         then make_reference (take 36 (drop 9 s)) (drop 46 s)
         else Inl (ValidationError ''secret reference is invalid''))
      | _ \<Rightarrow> Inl (ValidationError ''secret reference must be text''))"

subsection \<open>What the parsers accept\<close>

lemma parse_connection_id_Inr [simp]: "parse_connection_id v = Inr s \<longleftrightarrow> v = PStr s \<and> connection_id s"
  by (cases v) (auto simp: parse_connection_id_def)

lemma parse_secret_name_Inr [simp]: "parse_secret_name v = Inr s \<longleftrightarrow> v = PStr s \<and> secret_name s"
  by (cases v) (auto simp: parse_secret_name_def)

lemma make_reference_Inr [simp]:
  "make_reference c n = Inr r \<longleftrightarrow> connection_id c \<and> secret_name n \<and> r = \<lparr>ref_connection = c, ref_name = n\<rparr>"
  by (auto simp: make_reference_def bindE_Inr_iff)

definition wf_reference :: "secret_reference \<Rightarrow> bool" where
  "wf_reference r = (connection_id (ref_connection r) \<and> secret_name (ref_name r))"

lemma connection_id_length: "connection_id c \<Longrightarrow> length c = 36"
  by (simp add: connection_id_def)

theorem parse_reference_text:
  assumes "wf_reference r"
  shows "parse_secret_reference (PStr (reference_text r)) = Inr r"
proof -
  have c: "connection_id (ref_connection r)" "secret_name (ref_name r)" "length (ref_connection r) = 36"
    using assms by (simp_all add: wf_reference_def connection_id_length)
  have "take 9 (reference_text r) = ''secret://''" "take 36 (drop 9 (reference_text r)) = ref_connection r"
    "take 1 (drop 45 (reference_text r)) = ''/''" "drop 46 (reference_text r) = ref_name r"
    using c(3) by (simp_all add: reference_text_def)
  then show ?thesis using c by (simp add: parse_secret_reference_def)
qed

lemma parse_secret_reference_wf: "parse_secret_reference v = Inr r \<Longrightarrow> wf_reference r"
  by (auto simp: parse_secret_reference_def wf_reference_def split: pyobj.splits if_splits)

lemma b64_char_id: "0 \<le> n \<Longrightarrow> n < 64 \<Longrightarrow> id_char (b64_char n)"
  by (auto simp: id_char_def b64_char_def upper_def lower_def json_digit_def byte_char_of)

lemma sextets_length_mod: "length s = 3 * k \<Longrightarrow> length (sextets s) = 4 * k"
proof (induction s arbitrary: k rule: sextets.induct)
  case (4 a b c r)
  then obtain j where "k = Suc j" by (cases k) auto
  then show ?case using 4 by simp
qed auto

theorem new_connection_id_valid:
  assumes "length random = 24"
  shows "connection_id (new_connection_id random)"
proof -
  have "list_all id_char (b64encode random)"
    using sextets_range [of random] by (auto simp: b64encode_def list_all_iff sextet_def b64_char_id)
  moreover have "length (b64encode random) = 32"
    using sextets_length_mod [of random 8] assms by (simp add: b64encode_def)
  ultimately show ?thesis by (simp add: connection_id_def new_connection_id_def)
qed

lemma id_char_ascii: "id_char c \<Longrightarrow> \<not> digit7 c"
  by (auto simp: id_char_def upper_def lower_def json_digit_def digit7_byte)

lemma connection_id_ascii:
  assumes "connection_id c"
  shows "ascii c"
proof -
  have "ascii (''con-'' @ drop 4 c)"
    using assms by (auto simp: connection_id_def list_all_iff ascii_def id_char_ascii)
  moreover have "''con-'' @ drop 4 c = c"
    using assms append_take_drop_id [of 4 c] by (simp add: connection_id_def)
  ultimately show ?thesis by (simp only:)
qed

lemma secret_name_ascii: "secret_name n \<Longrightarrow> ascii n"
  by (auto simp: secret_name_def ascii_def list_all_iff lower_def json_digit_def digit7_byte split: list.splits)

end
