(* ===== verification/Secrets.thy ===== *)
theory Secrets
  imports Identifiers
begin

section \<open>Secret stores (\<open>connector_secrets.py\<close>)\<close>

text \<open>
  The custody protocol \<open>SecretStore\<close> is the record of its three operations; its contract is the locale
  \<open>secret_custody\<close>, over the slots an implementation holds. Both implementations of the program
  satisfy it: the one in memory, and the one on the keyring of the operating system, whose calls
  fail in every way their faults say.
\<close>

definition MAX_SECRET_BYTES :: int where "MAX_SECRET_BYTES = 1024 * 1024"

record 's secret_store =
  get_secret :: "string \<Rightarrow> string \<Rightarrow> ('s, string option) action"
  set_secret :: "string \<Rightarrow> string \<Rightarrow> string \<Rightarrow> ('s, unit) action"
  delete_secret :: "string \<Rightarrow> string \<Rightarrow> ('s, unit) action"

definition secret_key :: "string \<Rightarrow> string \<Rightarrow> (string \<times> string) result" where
  "secret_key c n =
     bindE (parse_connection_id (PStr c)) (\<lambda>c'. bindE (parse_secret_name (PStr n)) (\<lambda>n'. Inr (c', n')))"

definition secret_bytes :: "string \<Rightarrow> string result" where
  "secret_bytes v =
     (if v = [] \<or> MAX_SECRET_BYTES < ilen v
      then Inl (ValidationError ''connector secret is empty or exceeds its size bound'') else Inr v)"

definition secret_username :: "string \<Rightarrow> string \<Rightarrow> string result" where
  "secret_username c n = bindE (secret_key c n) (\<lambda>(c', n'). Inr (c' @ ''/'' @ n'))"

lemma secret_key_Inr [simp]: "secret_key c n = Inr k \<longleftrightarrow> k = (c, n) \<and> connection_id c \<and> secret_name n"
  by (auto simp: secret_key_def bindE_Inr_iff)

lemma secret_username_Inr [simp]:
  "secret_username c n = Inr u \<longleftrightarrow> u = c @ ''/'' @ n \<and> connection_id c \<and> secret_name n"
  by (auto simp: secret_username_def bindE_Inr_iff)

subsection \<open>The contract\<close>

datatype slot = Empty | Sealed string | Corrupt

locale secret_custody =
  fixes ops :: "'s secret_store" and slots :: "'s \<Rightarrow> string \<times> string \<Rightarrow> slot"
  assumes get_slots: "get_secret ops c n s = (r, s') \<Longrightarrow> slots s' = slots s"
    and get_value: "get_secret ops c n s = (Inr v, s') \<Longrightarrow>
      slots s (c, n) = (case v of None \<Rightarrow> Empty | Some b \<Rightarrow> Sealed b)"
    and set_done: "set_secret ops c n b s = (Inr u, s') \<Longrightarrow> slots s' = (slots s)((c, n) := Sealed b)"
    and set_failed: "set_secret ops c n b s = (Inl e, s') \<Longrightarrow>
      slots s' = slots s \<or> slots s' = (slots s)((c, n) := Sealed b)"
    and delete_done: "delete_secret ops c n s = (Inr u, s') \<Longrightarrow> slots s' = (slots s)((c, n) := Empty)"
    and delete_failed: "delete_secret ops c n s = (Inl e, s') \<Longrightarrow>
      slots s' = slots s \<or> slots s' = (slots s)((c, n) := Empty)"
    and get_plain: "get_secret ops c n s = (Inl e, s') \<Longrightarrow> \<not> is_PersistenceError e"
    and set_plain: "set_secret ops c n b s = (Inl e, s') \<Longrightarrow> \<not> is_PersistenceError e"
    and delete_plain: "delete_secret ops c n s = (Inl e, s') \<Longrightarrow> \<not> is_PersistenceError e"

text \<open>\<open>resolve_secret_reference\<close> with an already parsed reference.\<close>

definition resolve_secret_reference :: "'s secret_store \<Rightarrow> secret_reference \<Rightarrow> ('s, string) action" where
  "resolve_secret_reference ops r =
     andthen (get_secret ops (ref_connection r) (ref_name r)) (\<lambda>v.
       case v of None \<Rightarrow> fail (NotFoundError ''referenced connector secret was not found'') | Some b \<Rightarrow> give b)"

subsection \<open>In memory (\<open>InMemorySecretStore\<close>)\<close>

type_synonym memory = "(string \<times> string) \<rightharpoonup> string"

definition memory_get :: "string \<Rightarrow> string \<Rightarrow> (memory, string option) action" where
  "memory_get c n m = (bindE (secret_key c n) (\<lambda>k. Inr (m k)), m)"

definition memory_set :: "string \<Rightarrow> string \<Rightarrow> string \<Rightarrow> (memory, unit) action" where
  "memory_set c n v m =
     (case bindE (secret_key c n) (\<lambda>k. bindE (secret_bytes v) (\<lambda>b. Inr (k, b))) of
        Inl e \<Rightarrow> (Inl e, m) | Inr (k, b) \<Rightarrow> (Inr (), m(k \<mapsto> b)))"

definition memory_delete :: "string \<Rightarrow> string \<Rightarrow> (memory, unit) action" where
  "memory_delete c n m =
     (case secret_key c n of Inl e \<Rightarrow> (Inl e, m) | Inr k \<Rightarrow> (Inr (), m(k := None)))"

definition memory_store :: "memory secret_store" where
  "memory_store = \<lparr>get_secret = memory_get, set_secret = memory_set, delete_secret = memory_delete\<rparr>"

definition memory_slots :: "memory \<Rightarrow> string \<times> string \<Rightarrow> slot" where
  "memory_slots m k = (case m k of None \<Rightarrow> Empty | Some b \<Rightarrow> Sealed b)"

lemma memory_slots_update [simp]:
  "memory_slots (m(k \<mapsto> b)) = (memory_slots m)(k := Sealed b)" "memory_slots (m(k := None)) = (memory_slots m)(k := Empty)"
  by (auto simp: memory_slots_def)

lemma secret_bytes_Inr: "secret_bytes v = Inr b \<Longrightarrow> b = v"
  by (simp add: secret_bytes_def split: if_splits)

lemma secret_errors_plain:
  "secret_key c n = Inl e \<Longrightarrow> \<not> is_PersistenceError e" "secret_bytes v = Inl e \<Longrightarrow> \<not> is_PersistenceError e"
  "secret_username c n = Inl e \<Longrightarrow> \<not> is_PersistenceError e"
  by (auto simp: secret_key_def secret_bytes_def secret_username_def parse_connection_id_def parse_secret_name_def
      bindE_Inl_iff split: if_splits)

interpretation memory: secret_custody memory_store memory_slots
  by unfold_locales
    (auto simp: memory_store_def memory_get_def memory_set_def memory_delete_def bindE_Inr_iff bindE_Inl_iff
      memory_slots_def [of _ "(_, _)"] secret_errors_plain dest: secret_errors_plain secret_bytes_Inr split: sum.splits if_splits)

subsection \<open>On the keyring (\<open>KeyringSecretStore\<close>)\<close>

text \<open>
  A value is \<open>v1:\<close> and the standard base64 text, with padding, of the secret. The decoder accepts
  what \<open>base64.b64decode(..., validate=True)\<close> does since Python 3.11: nothing but padding follows
  padding, a text does not begin with it, an open group has exactly the padding that completes it, and
  after a whole number of groups any amount is ignored.
\<close>

definition std_char :: "int \<Rightarrow> char" where
  "std_char n = (if n = 62 then CHR ''+'' else if n = 63 then CHR ''/'' else b64_char n)"

definition std_value :: "char \<Rightarrow> int option" where
  "std_value c =
     (if c = CHR ''+'' then Some 62 else if c = CHR ''/'' then Some 63
      else if c = CHR ''-'' \<or> c = CHR ''_'' then None else b64_value c)"

definition std_b64encode :: "string \<Rightarrow> string" where
  "std_b64encode s =
     map std_char (sextets s) @ replicate (nat ((- ilen (sextets s)) mod 4)) CHR ''=''"

definition std_b64decode :: "string \<Rightarrow> string option" where
  "std_b64decode t =
     (let body = takeWhile (\<lambda>c. c \<noteq> CHR ''='') t; pads = dropWhile (\<lambda>c. c \<noteq> CHR ''='') t in
      if \<not> (list_all (\<lambda>c. std_value c \<noteq> None) body \<and> list_all (\<lambda>c. c = CHR ''='') pads) then None
      else if body = [] \<and> pads \<noteq> [] then None
      else if length body mod 4 = 2 \<and> length pads \<noteq> 2 \<or> length body mod 4 = 3 \<and> length pads \<noteq> 1 then None
      else unsextets (map (\<lambda>c. the (std_value c)) body))"

lemma std_b64decode_padding:
  "std_b64decode ''AAA='' = Some [CHR 0x00, CHR 0x00]" "std_b64decode ''AAA=='' = None"
  "std_b64decode ''AAAA===='' = Some [CHR 0x00, CHR 0x00, CHR 0x00]" "std_b64decode ''='' = None"
  by code_simp+

definition keyring_text :: "string \<Rightarrow> string" where
  "keyring_text v = ''v1:'' @ std_b64encode v"

text \<open>Reading a stored value: a marker up to the first colon, then the secret.\<close>

definition keyring_value :: "string \<Rightarrow> string result" where
  "keyring_value t =
     (if take 3 t \<noteq> ''v1:'' \<or> \<not> ascii (drop 3 t) then Inl (ValidationError ''stored OS keyring value is invalid'')
      else case std_b64decode (drop 3 t) of
        None \<Rightarrow> Inl (ValidationError ''stored OS keyring value is invalid'')
      | Some v \<Rightarrow> secret_bytes v)"

text \<open>
  The state: the service name, the backend module once loaded, the environment it is loaded from
  (\<^term>\<open>None\<close> when importing it or reading its priority raises), the passwords and the faults of
  the calls to come.
\<close>

record keyring =
  service :: string
  loaded :: "string option"
  environment :: "(rat \<times> string) option"
  passwords :: "(string \<times> string) \<rightharpoonup> string"
  keyring_faults :: "fault list"

definition SECURE_KEYRING_MODULES :: "string list" where
  "SECURE_KEYRING_MODULES =
     [''keyring.backends.macOS'', ''keyring.backends.SecretService'', ''keyring.backends.Windows'',
      ''keyring.backends.kwallet'']"

definition load_keyring :: "(keyring, unit) action" where
  "load_keyring k =
     (case loaded k of
        Some _ \<Rightarrow> (Inr (), k)
      | None \<Rightarrow>
          (case environment k of
             None \<Rightarrow> (Inl (SetupError ''a supported OS keyring is unavailable''), k)
           | Some (priority, name) \<Rightarrow>
               if priority \<le> 0 \<or>
                  \<not> list_ex (\<lambda>allowed. name = allowed \<or> starts_with name (allowed @ ''.'')) SECURE_KEYRING_MODULES
               then (Inl (SetupError ''the selected keyring backend is not an approved OS keyring''), k)
               else (Inr (), k\<lparr>loaded := Some name\<rparr>)))"

text \<open>A call of the backend takes the next fault; deleting a missing password raises.\<close>

definition pop_fault :: "keyring \<Rightarrow> keyring" where
  "pop_fault k = k\<lparr>keyring_faults := tl (keyring_faults k)\<rparr>"

definition get_password :: "string \<Rightarrow> (keyring, string option) action" where
  "get_password u k =
     (case fault_error (next_fault (keyring_faults k)) of
        Some e \<Rightarrow> (Inl e, pop_fault k)
      | None \<Rightarrow> (Inr (passwords k (service k, u)), pop_fault k))"

definition set_password :: "string \<Rightarrow> string \<Rightarrow> (keyring, unit) action" where
  "set_password u p k =
     with_fault (next_fault (keyring_faults k)) (passwords_update (\<lambda>m. m((service k, u) \<mapsto> p))) (pop_fault k)"

definition delete_password :: "string \<Rightarrow> (keyring, unit) action" where
  "delete_password u k =
     (if passwords k (service k, u) = None then (Inl (OtherError ''PasswordDeleteError''), pop_fault k)
      else with_fault (next_fault (keyring_faults k)) (passwords_update (\<lambda>m. m((service k, u) := None))) (pop_fault k))"

text \<open>Every operation loads the module, makes one call, and renames an exception that is not a \<open>SetupError\<close>.\<close>

definition setup_error :: "string \<Rightarrow> exc \<Rightarrow> exc" where
  "setup_error message e = (case e of SetupError _ \<Rightarrow> e | _ \<Rightarrow> SetupError message)"

definition backend_call :: "string \<Rightarrow> (keyring, 'a) action \<Rightarrow> (keyring, 'a) action" where
  "backend_call message m = catch (andthen load_keyring (\<lambda>_. m)) (\<lambda>e. fail (setup_error message e))"

definition keyring_get :: "string \<Rightarrow> string \<Rightarrow> (keyring, string option) action" where
  "keyring_get c n =
     andthen (pure (secret_username c n)) (\<lambda>u.
     andthen (backend_call ''OS keyring secret lookup failed'' (get_password u)) (\<lambda>value.
     case value of None \<Rightarrow> give None | Some t \<Rightarrow> pure (bindE (keyring_value t) (\<lambda>v. Inr (Some v)))))"

definition keyring_set :: "string \<Rightarrow> string \<Rightarrow> string \<Rightarrow> (keyring, unit) action" where
  "keyring_set c n v =
     andthen (pure (secret_username c n)) (\<lambda>u.
     andthen (pure (secret_bytes v)) (\<lambda>b.
     backend_call ''OS keyring secret write failed'' (set_password u (keyring_text b))))"

definition keyring_delete :: "string \<Rightarrow> string \<Rightarrow> (keyring, unit) action" where
  "keyring_delete c n =
     andthen (pure (secret_username c n)) (\<lambda>u.
     backend_call ''OS keyring secret deletion failed'' (delete_password u))"

definition keyring_store :: "keyring secret_store" where
  "keyring_store = \<lparr>get_secret = keyring_get, set_secret = keyring_set, delete_secret = keyring_delete\<rparr>"

definition keyring_slots :: "keyring \<Rightarrow> string \<times> string \<Rightarrow> slot" where
  "keyring_slots k = (\<lambda>(c, n).
     if \<not> (connection_id c \<and> secret_name n) then Empty
     else case passwords k (service k, c @ ''/'' @ n) of
       None \<Rightarrow> Empty
     | Some t \<Rightarrow> (case keyring_value t of Inl _ \<Rightarrow> Corrupt | Inr v \<Rightarrow> Sealed v))"

subsection \<open>What is written to the keyring is read back\<close>

lemma std_value_char: "0 \<le> n \<Longrightarrow> n < 64 \<Longrightarrow> std_value (std_char n) = Some n"
proof -
  assume n: "0 \<le> n" "n < 64"
  consider "n = 62" | "n = 63" | "n < 62" using n by linarith
  then show ?thesis
  proof cases
    case 3
    then have "b64_char n \<notin> {CHR ''+'', CHR ''/'', CHR ''-'', CHR ''_''}"
      using b64_value_char [OF n] by (auto simp: b64_value_def)
    then show ?thesis using 3 n by (auto simp: std_char_def std_value_def b64_value_char)
  qed (simp_all add: std_char_def std_value_def)
qed

lemma std_char_not_pad: "0 \<le> n \<Longrightarrow> n < 64 \<Longrightarrow> std_char n \<noteq> CHR ''=''"
  using std_value_char [of n] by (auto simp: std_value_def b64_value_def)

lemma pad_count:
  "(- int m) mod 4 = (if m mod 4 = 0 then 0 else 4 - int (m mod 4))"
proof -
  have "int m mod 4 = int (m mod 4)" by (simp add: zmod_int)
  then show ?thesis by (simp add: zmod_zminus1_eq_if)
qed

lemma sextets_length_not_one: "length (sextets s) mod 4 \<noteq> 1"
  by (induction s rule: sextets.induct) simp_all

lemma std_b64_round: "std_b64decode (std_b64encode s) = Some s"
proof -
  let ?n = "length (sextets s)"
  let ?body = "map std_char (sextets s)"
  let ?pads = "replicate (nat ((- ilen (sextets s)) mod 4)) CHR ''=''"
  have range: "0 \<le> n \<and> n < 64" if "n \<in> set (sextets s)" for n
    using sextets_range [of s] that by (auto simp: sextet_def list_all_iff)
  have body: "takeWhile (\<lambda>c. c \<noteq> CHR ''='') (?body @ ?pads) = ?body" "dropWhile (\<lambda>c. c \<noteq> CHR ''='') (?body @ ?pads) = ?pads"
    using range std_char_not_pad by (auto simp: takeWhile_append dropWhile_append takeWhile_eq_Nil_iff dropWhile_eq_self_iff)
  have vals: "map (\<lambda>c. the (std_value c)) ?body = sextets s" "list_all (\<lambda>c. std_value c \<noteq> None) ?body"
    using range std_value_char by (auto simp: list_all_iff intro!: map_idI)
  have "length ?pads = nat ((- int ?n) mod 4)" by (simp add: ilen_def)
  then have pads: "length ?pads = (if ?n mod 4 = 0 then 0 else 4 - ?n mod 4)"
    unfolding pad_count by (auto simp: nat_diff_distrib)
  moreover have "?n mod 4 \<noteq> 1" by (rule sextets_length_not_one)
  moreover have "?n mod 4 < 4" by simp
  ultimately have ok: "?body = [] \<longrightarrow> ?pads = []"
      "\<not> (?n mod 4 = 2 \<and> length ?pads \<noteq> 2 \<or> ?n mod 4 = 3 \<and> length ?pads \<noteq> 1)"
    by (auto split: if_splits)
  show ?thesis
    unfolding std_b64decode_def std_b64encode_def Let_def body
    using ok vals by (simp add: list_all_iff unsextets_sextets del: length_replicate)
qed

lemma std_b64encode_ascii: "ascii (std_b64encode s)"
proof -
  have "\<not> digit7 (std_char n)" if "0 \<le> n" "n < 64" for n
    using b64_char_id [OF that] by (auto simp: std_char_def id_char_ascii)
  then have "ascii (map std_char (sextets s))"
    using sextets_range [of s] by (auto simp: ascii_def list_all_iff sextet_def)
  moreover have "ascii (replicate n CHR ''='')" for n by (simp add: ascii_def list_all_iff)
  ultimately show ?thesis by (simp add: std_b64encode_def)
qed

theorem keyring_round_trip: "secret_bytes v = Inr v \<Longrightarrow> keyring_value (keyring_text v) = Inr v"
  by (simp add: keyring_value_def keyring_text_def std_b64_round std_b64encode_ascii)

subsection \<open>The keyring keeps the contract\<close>

lemma username_inj:
  assumes "connection_id c" "connection_id c'" "c @ ''/'' @ n = c' @ ''/'' @ n'"
  shows "c = c' \<and> n = n'"
  using assms connection_id_length [of c] connection_id_length [of c'] by (simp add: append_eq_append_conv)

lemma keyring_slots_same: "passwords k' = passwords k \<Longrightarrow> service k' = service k \<Longrightarrow> keyring_slots k' = keyring_slots k"
  by (simp add: keyring_slots_def fun_eq_iff)

lemma keyring_slots_set:
  assumes "connection_id c" "secret_name n" "secret_bytes b = Inr b"
    and "passwords k' = (passwords k)((service k, c @ ''/'' @ n) \<mapsto> keyring_text b)" "service k' = service k"
  shows "keyring_slots k' = (keyring_slots k)((c, n) := Sealed b)"
  using assms(1-3) username_inj [of _ c _ n]
  by (auto simp: keyring_slots_def assms(4,5) keyring_round_trip fun_eq_iff)

lemma keyring_slots_delete:
  assumes "connection_id c" "secret_name n"
    and "passwords k' = (passwords k)((service k, c @ ''/'' @ n) := None)" "service k' = service k"
  shows "keyring_slots k' = (keyring_slots k)((c, n) := Empty)"
  using assms(1,2) username_inj [of _ c _ n] by (auto simp: keyring_slots_def assms(3,4) fun_eq_iff)

lemma load_keyring_same:
  assumes "load_keyring k = (r, k')"
  shows "passwords k' = passwords k" "service k' = service k" "keyring_faults k' = keyring_faults k"
  using assms by (auto simp: load_keyring_def split: option.splits prod.splits if_splits)

lemma get_password_same:
  assumes "get_password u k = (r, k')"
  shows "passwords k' = passwords k" "service k' = service k"
  using assms by (auto simp: get_password_def pop_fault_def split: option.splits)

lemma set_password_cases:
  assumes "set_password u p k = (r, k')"
  shows "service k' = service k"
    and "r = Inr () \<and> passwords k' = (passwords k)((service k, u) \<mapsto> p) \<or>
      (\<exists>e. r = Inl e) \<and> (passwords k' = passwords k \<or> passwords k' = (passwords k)((service k, u) \<mapsto> p))"
  using assms by (auto simp: set_password_def with_fault_def pop_fault_def split: fault.splits)

lemma delete_password_cases:
  assumes "delete_password u k = (r, k')"
  shows "service k' = service k"
    and "r = Inr () \<and> passwords k' = (passwords k)((service k, u) := None) \<or>
      (\<exists>e. r = Inl e) \<and> (passwords k' = passwords k \<or> passwords k' = (passwords k)((service k, u) := None))"
  using assms by (auto simp: delete_password_def with_fault_def pop_fault_def split: fault.splits if_splits)

lemma backend_call_cases:
  assumes "backend_call message m k = (r, k')"
  obtains e k0 where "r = Inl e" "k' = k0" "passwords k0 = passwords k" "service k0 = service k"
  | k0 e0 where "m k0 = (Inl e0, k')" "r = Inl (setup_error message e0)" "passwords k0 = passwords k" "service k0 = service k"
  | k0 x where "m k0 = (Inr x, k')" "r = Inr x" "passwords k0 = passwords k" "service k0 = service k"
proof (cases "load_keyring k")
  case (Pair l k0)
  note same = load_keyring_same(1,2) [OF Pair]
  show ?thesis
  proof (cases l)
    case (Inl e)
    then show ?thesis
      using assms Pair same by (intro that(1) [of "setup_error message e" k0]) (auto simp: backend_call_def catch_def andthen_def pure_def)
  next
    case (Inr u)
    obtain r' k1 where m: "m k0 = (r', k1)" by fastforce
    show ?thesis
    proof (cases r')
      case (Inl e)
      then show ?thesis
        using assms Pair same m \<open>l = Inr u\<close>
        by (intro that(2) [of k0 e]) (auto simp: backend_call_def catch_def andthen_def pure_def)
    next
      case (Inr x)
      then show ?thesis
        using assms Pair same m \<open>l = Inr u\<close>
        by (intro that(3) [of k0 x]) (auto simp: backend_call_def catch_def andthen_def pure_def)
    qed
  qed
qed

lemma keyring_get_cases:
  assumes "keyring_get c n k = (r, k')"
  shows "keyring_slots k' = keyring_slots k"
    and "r = Inr v \<Longrightarrow> keyring_slots k (c, n) = (case v of None \<Rightarrow> Empty | Some b \<Rightarrow> Sealed b)"
proof -
  have "keyring_slots k' = keyring_slots k \<and>
    (r = Inr v \<longrightarrow> keyring_slots k (c, n) = (case v of None \<Rightarrow> Empty | Some b \<Rightarrow> Sealed b))"
  proof (cases "secret_username c n")
    case (Inl e)
    then show ?thesis using assms by (auto simp: keyring_get_def andthen_def pure_def)
  next
    case (Inr u)
    then have u: "u = c @ ''/'' @ n" "connection_id c" "secret_name n" by simp_all
    obtain q k1 where q: "backend_call ''OS keyring secret lookup failed'' (get_password u) k = (q, k1)" by fastforce
    have k': "k' = k1"
      using assms q Inr by (auto simp: keyring_get_def andthen_def pure_def split: sum.splits option.splits)
    from q show ?thesis
    proof (cases rule: backend_call_cases)
      case (3 k0 x)
      note same = get_password_same [OF 3(1)]
      have x: "x = passwords k (service k, u)"
        using 3 by (auto simp: get_password_def split: option.splits)
      have "keyring_slots k' = keyring_slots k" unfolding k' using same 3 by (intro keyring_slots_same) simp_all
      moreover have "keyring_slots k (c, n) = (case v of None \<Rightarrow> Empty | Some b \<Rightarrow> Sealed b)" if "r = Inr v"
        using assms that q Inr u x 3(2)
        by (auto simp: keyring_get_def andthen_def pure_def keyring_slots_def bindE_Inr_iff split: option.splits)
      ultimately show ?thesis by simp
    next
      case (1 e k0)
      then have "r = Inl e" using assms q Inr by (auto simp: keyring_get_def andthen_def pure_def)
      then show ?thesis using 1 k' keyring_slots_same [of k0 k] by simp
    next
      case (2 k0 e0)
      then have "\<exists>e. r = Inl e" using assms q Inr by (auto simp: keyring_get_def andthen_def pure_def)
      then show ?thesis using 2 k' keyring_slots_same [of k' k] get_password_same [OF 2(1)] by auto
    qed
  qed
  then show "keyring_slots k' = keyring_slots k"
    and "r = Inr v \<Longrightarrow> keyring_slots k (c, n) = (case v of None \<Rightarrow> Empty | Some b \<Rightarrow> Sealed b)" by blast+
qed

lemma keyring_set_cases:
  assumes "keyring_set c n b k = (r, k')"
  shows "r = Inr v \<and> keyring_slots k' = (keyring_slots k)((c, n) := Sealed b) \<or>
    (\<exists>e. r = Inl e) \<and> (keyring_slots k' = keyring_slots k \<or> keyring_slots k' = (keyring_slots k)((c, n) := Sealed b))"
proof (cases "\<exists>u. secret_username c n = Inr u \<and> secret_bytes b = Inr b")
  case True
  then have u: "connection_id c" "secret_name n" and b: "secret_bytes b = Inr b" by auto
  have "secret_username c n = Inr (c @ ''/'' @ n)" using u by simp
  then have "backend_call ''OS keyring secret write failed'' (set_password (c @ ''/'' @ n) (keyring_text b)) k = (r, k')"
    using assms b by (simp only: keyring_set_def andthen_def pure_def prod.case sum.case)
  then show ?thesis
  proof (cases rule: backend_call_cases)
    case (1 e k0)
    then show ?thesis using keyring_slots_same [of k0 k] by simp
  next
    case (2 k0 e0)
    have "service k' = service k" using set_password_cases(1) [OF 2(1)] 2 by simp
    then show ?thesis
      using set_password_cases(2) [OF 2(1)] 2 keyring_slots_same [of k' k] keyring_slots_set [OF u b] by auto
  next
    case (3 k0 x)
    have "service k' = service k" using set_password_cases(1) [OF 3(1)] 3 by simp
    then show ?thesis using set_password_cases(2) [OF 3(1)] 3 keyring_slots_set [OF u b] by auto
  qed
next
  case False
  have "secret_bytes b = Inr b \<or> (\<exists>e. secret_bytes b = Inl e)" by (simp add: secret_bytes_def)
  with False show ?thesis
    using assms by (cases "secret_username c n") (auto simp: keyring_set_def andthen_def pure_def)
qed

lemma keyring_delete_cases:
  assumes "keyring_delete c n k = (r, k')"
  shows "r = Inr v \<and> keyring_slots k' = (keyring_slots k)((c, n) := Empty) \<or>
    (\<exists>e. r = Inl e) \<and> (keyring_slots k' = keyring_slots k \<or> keyring_slots k' = (keyring_slots k)((c, n) := Empty))"
proof (cases "secret_username c n")
  case (Inl e)
  then show ?thesis using assms by (auto simp: keyring_delete_def andthen_def pure_def)
next
  case (Inr u)
  then have u: "connection_id c" "secret_name n" and u': "u = c @ ''/'' @ n" by simp_all
  have "backend_call ''OS keyring secret deletion failed'' (delete_password (c @ ''/'' @ n)) k = (r, k')"
    using assms Inr u' by (simp add: keyring_delete_def andthen_def pure_def)
  then show ?thesis
  proof (cases rule: backend_call_cases)
    case (1 e k0)
    then show ?thesis using keyring_slots_same [of k0 k] by simp
  next
    case (2 k0 e0)
    have "service k' = service k" using delete_password_cases(1) [OF 2(1)] 2 by simp
    then show ?thesis
      using delete_password_cases(2) [OF 2(1)] 2 keyring_slots_same [of k' k] keyring_slots_delete [OF u] by auto
  next
    case (3 k0 x)
    have "service k' = service k" using delete_password_cases(1) [OF 3(1)] 3 by simp
    then show ?thesis using delete_password_cases(2) [OF 3(1)] 3 keyring_slots_delete [OF u] by auto
  qed
qed

lemma keyring_plain:
  "keyring_get c n k = (Inl e, k') \<Longrightarrow> \<not> is_PersistenceError e"
  "keyring_set c n b k = (Inl e, k') \<Longrightarrow> \<not> is_PersistenceError e"
  "keyring_delete c n k = (Inl e, k') \<Longrightarrow> \<not> is_PersistenceError e"
proof -
  have call: "\<not> is_PersistenceError e" if "backend_call message m k = (Inl e, k')"
    for message and m :: "(keyring, 'a) action" and e k'
    using that by (auto simp: backend_call_def catch_def pure_def setup_error_def split: prod.splits sum.splits exc.splits)
  have keyring_value: "\<not> is_PersistenceError e" if "keyring_value t = Inl e" for t e
    using that by (auto simp: keyring_value_def secret_errors_plain split: if_splits option.splits)
  show "keyring_get c n k = (Inl e, k') \<Longrightarrow> \<not> is_PersistenceError e"
    using call [of _ "get_password _"] keyring_value secret_errors_plain(3)
    by (auto simp: keyring_get_def andthen_def pure_def bindE_Inl_iff split: prod.splits sum.splits option.splits)
  show "keyring_set c n b k = (Inl e, k') \<Longrightarrow> \<not> is_PersistenceError e"
    using call [of _ "set_password _ _"] secret_errors_plain
    by (auto simp: keyring_set_def andthen_def pure_def split: prod.splits sum.splits)
  show "keyring_delete c n k = (Inl e, k') \<Longrightarrow> \<not> is_PersistenceError e"
    using call [of _ "delete_password _"] secret_errors_plain(3)
    by (auto simp: keyring_delete_def andthen_def pure_def split: prod.splits sum.splits)
qed

interpretation keyring: secret_custody keyring_store keyring_slots
  using keyring_get_cases keyring_set_cases keyring_delete_cases keyring_plain
  by unfold_locales (fastforce simp: keyring_store_def)+

end
