(* ===== verification/PyTime.thy ===== *)
theory PyTime
  imports JsonNumber
begin

section \<open>Dates and times (\<open>datetime\<close>)\<close>

text \<open>
  What the kernel uses of Python's \<open>datetime\<close>: \<open>isoformat\<close> with microseconds,
  \<open>fromisoformat\<close> with the whole grammar the interpreter accepts (calendar and week dates,
  basic and extended forms, any separator, fractions of any length, offsets), and the change
  of an aware time to UTC. Text is UTF-8 bytes; the interpreter's scanner reads bytes too, up to
  the zero byte after the last one, which \<open>char_at\<close> stands for.
\<close>

subsection \<open>Calendar\<close>

text \<open>\<open>utc_offset\<close> is in microseconds, \<^term>\<open>None\<close> in a naive time.\<close>

record datetime =
  year :: int
  month :: int
  day :: int
  hour :: int
  minute :: int
  second :: int
  microsecond :: int
  utc_offset :: "int option"

definition leap_year :: "int \<Rightarrow> bool" where
  "leap_year y = (y mod 4 = 0 \<and> (y mod 100 \<noteq> 0 \<or> y mod 400 = 0))"

definition days_in_month :: "int \<Rightarrow> int \<Rightarrow> int" where
  "days_in_month y m =
     (if m = 2 then (if leap_year y then 29 else 28) else if m \<in> {4, 6, 9, 11} then 30 else 31)"

definition DAY_MICROSECONDS :: int where "DAY_MICROSECONDS = 86400 * 1000000"

definition valid_date :: "int \<Rightarrow> int \<Rightarrow> int \<Rightarrow> bool" where
  "valid_date y m d = (1 \<le> y \<and> y \<le> 9999 \<and> 1 \<le> m \<and> m \<le> 12 \<and> 1 \<le> d \<and> d \<le> days_in_month y m)"

text \<open>What the constructor accepts.\<close>

definition valid_datetime :: "datetime \<Rightarrow> bool" where
  "valid_datetime t =
     (valid_date (year t) (month t) (day t) \<and> 0 \<le> hour t \<and> hour t < 24 \<and> 0 \<le> minute t \<and> minute t < 60
      \<and> 0 \<le> second t \<and> second t < 60 \<and> 0 \<le> microsecond t \<and> microsecond t < 1000000
      \<and> (case utc_offset t of None \<Rightarrow> True | Some z \<Rightarrow> \<bar>z\<bar> < DAY_MICROSECONDS))"

definition days_before_year :: "int \<Rightarrow> int" where
  "days_before_year y = (let p = y - 1 in p * 365 + p div 4 - p div 100 + p div 400)"

definition first_weekday :: "int \<Rightarrow> int" where
  "first_weekday y = (days_before_year y + 7) mod 7"

text \<open>The month and day of a zero-based day of the year.\<close>

fun month_day :: "nat \<Rightarrow> int \<Rightarrow> int \<Rightarrow> int \<Rightarrow> int \<times> int" where
  "month_day 0 y m n = (m, n + 1)"
| "month_day (Suc k) y m n =
     (if days_in_month y m \<le> n then month_day k y (m + 1) (n - days_in_month y m) else (m, n + 1))"

definition date_of_ordinal :: "int \<Rightarrow> int \<times> int \<times> int" where
  "date_of_ordinal ordinal =
     (let n = ordinal - 1; n400 = n div 146097; n = n mod 146097; n100 = n div 36524; n = n mod 36524;
          n4 = n div 1461; n = n mod 1461; n1 = n div 365; n = n mod 365;
          y = n400 * 400 + n100 * 100 + n4 * 4 + n1 + 1
      in if n1 = 4 \<or> n100 = 4 then (y - 1, 12, 31) else (y, month_day 11 y 1 n))"

definition week_one_monday :: "int \<Rightarrow> int" where
  "week_one_monday y =
     (let w = first_weekday y; monday = days_before_year y + 1 - w in if 3 < w then monday + 7 else monday)"

definition date_of_week :: "int \<Rightarrow> int \<Rightarrow> int \<Rightarrow> (int \<times> int \<times> int) option" where
  "date_of_week y w d =
     (if (w \<le> 0 \<or> 53 \<le> w) \<and> \<not> (w = 53 \<and> (first_weekday y = 3 \<or> first_weekday y = 2 \<and> leap_year y)) then None
      else if d \<le> 0 \<or> 8 \<le> d then None
      else Some (date_of_ordinal (week_one_monday y + (w - 1) * 7 + d - 1)))"

subsection \<open>Reading (\<open>datetime.fromisoformat\<close>)\<close>

definition char_at :: "string \<Rightarrow> nat \<Rightarrow> char" where
  "char_at s i = (if i < length s then s ! i else CHR 0x00)"

definition read_digits :: "string \<Rightarrow> nat \<Rightarrow> nat \<Rightarrow> int option" where
  "read_digits s i n =
     (let ds = map (\<lambda>k. char_at s (i + k)) [0..<n] in if list_all json_digit ds then Some (digits_value ds) else None)"

text \<open>Where the date ends: the forms are told apart by their fifth and sixth characters.\<close>

definition date_length :: "string \<Rightarrow> nat option" where
  "date_length s =
     (let n = length s in
      if n = 7 then Some 7
      else if char_at s 4 = CHR ''-'' then
        (if char_at s 5 = CHR ''W'' then
           (if n < 8 then None
            else if 8 < n \<and> char_at s 8 = CHR ''-'' then
              (if n = 9 then None else if 10 < n \<and> json_digit (char_at s 10) then Some 8 else Some 10)
            else Some 8)
         else Some 10)
      else if char_at s 4 = CHR ''W'' then
        (let pos = 7 + length (takeWhile json_digit (drop 7 s)) in
         if pos < 9 then Some pos else if even pos then Some 7 else Some 8)
      else Some 8)"

definition read_week_date :: "string \<Rightarrow> nat \<Rightarrow> bool \<Rightarrow> int \<Rightarrow> nat \<Rightarrow> (int \<times> int \<times> int) option" where
  "read_week_date s len dashed y p =
     (case read_digits s p 2 of None \<Rightarrow> None
      | Some w \<Rightarrow>
          if len \<le> p + 2 then date_of_week y w 1
          else if dashed \<and> char_at s (p + 2) \<noteq> CHR ''-'' then None
          else (case read_digits s (if dashed then p + 3 else p + 2) 1 of None \<Rightarrow> None
                | Some d \<Rightarrow> date_of_week y w d))"

definition read_date :: "string \<Rightarrow> nat \<Rightarrow> (int \<times> int \<times> int) option" where
  "read_date s len =
     (case read_digits s 0 4 of None \<Rightarrow> None
      | Some y \<Rightarrow>
          let dashed = char_at s 4 = CHR ''-''; p = (if dashed then 5 else 4) in
          if char_at s p = CHR ''W'' then read_week_date s len dashed y (p + 1)
          else (case read_digits s p 2 of None \<Rightarrow> None
                | Some m \<Rightarrow>
                    if dashed \<and> char_at s (p + 2) \<noteq> CHR ''-'' then None
                    else let q = (if dashed then p + 3 else p + 2) in
                      (case read_digits s q 2 of None \<Rightarrow> None
                       | Some d \<Rightarrow> if q + 2 = len then Some (y, m, d) else None)))"

text \<open>
  Up to three fields of two digits: the values, and either whether text is left (at the end of
  the field) or where the fraction starts.
\<close>

fun read_fields ::
    "string \<Rightarrow> nat \<Rightarrow> nat \<Rightarrow> bool option \<Rightarrow> nat \<Rightarrow> int list \<Rightarrow> (int list \<times> (bool + nat)) option" where
  "read_fields s stop 0 colons p vs = Some (vs, Inr p)"
| "read_fields s stop (Suc k) colons p vs =
     (case read_digits s p 2 of None \<Rightarrow> None
      | Some x \<Rightarrow>
          let c = char_at s (p + 2); with_colons = (case colons of None \<Rightarrow> c = CHR '':'' | Some b \<Rightarrow> b) in
          if stop \<le> p + 3 then Some (vs @ [x], Inl (c \<noteq> CHR 0x00))
          else if with_colons \<and> c = CHR '':'' then read_fields s stop k (Some with_colons) (p + 3) (vs @ [x])
          else if c = CHR ''.'' \<or> c = CHR '','' then Some (vs @ [x], Inr (p + 3))
          else if \<not> with_colons then read_fields s stop k (Some with_colons) (p + 2) (vs @ [x])
          else None)"

definition field :: "int list \<Rightarrow> nat \<Rightarrow> int" where
  "field vs k = (if k < length vs then vs ! k else 0)"

text \<open>Hours, minutes, seconds, microseconds, and whether text is left.\<close>

definition read_clock :: "string \<Rightarrow> nat \<Rightarrow> nat \<Rightarrow> ((int \<times> int \<times> int \<times> int) \<times> bool) option" where
  "read_clock s p stop =
     (case read_fields s stop 3 None p [] of None \<Rightarrow> None
      | Some (vs, Inl left) \<Rightarrow> Some ((field vs 0, field vs 1, field vs 2, 0), left)
      | Some (vs, Inr q) \<Rightarrow>
          let n = min (stop - q) 6 in
          (case read_digits s q n of None \<Rightarrow> None
           | Some x \<Rightarrow>
               let e = q + n + length (takeWhile json_digit (drop (q + n) s)) in
               Some ((field vs 0, field vs 1, field vs 2, x * 10 ^ (6 - n)), char_at s e \<noteq> CHR 0x00)))"

definition is_zone_sign :: "char \<Rightarrow> bool" where
  "is_zone_sign c = (c \<in> {CHR ''+'', CHR ''-'', CHR ''Z''})"

definition read_time :: "string \<Rightarrow> ((int \<times> int \<times> int \<times> int) \<times> int option) option" where
  "read_time s =
     (let z = length (takeWhile (\<lambda>c. \<not> is_zone_sign c) s) in
      case read_clock s 0 z of None \<Rightarrow> None
      | Some (t, left) \<Rightarrow>
          if z = length s then (if left then None else Some (t, None))
          else if char_at s z = CHR ''Z'' then (if char_at s (z + 1) \<noteq> CHR 0x00 then None else Some (t, Some 0))
          else
            (case read_clock s (z + 1) (length s) of None \<Rightarrow> None
             | Some ((h, m, sec, us), left') \<Rightarrow>
                 if left' then None
                 else let sg = (if char_at s z = CHR ''-'' then - 1 else 1); off = sg * (h * 3600 + m * 60 + sec) in
                   Some (t, Some (if off = 0 then 0 else off * 1000000 + sg * us))))"

text \<open>How many bytes the separator takes: it may be any character.\<close>

definition separator_length :: "char \<Rightarrow> nat" where
  "separator_length c =
     (let b = byte c in if b < 128 then 1 else if b div 16 = 14 then 3 else if b div 16 = 15 then 4 else 2)"

text \<open>
  A lone surrogate (three bytes that are not valid UTF-8) is accepted as the separator of a date
  of seven, eight or ten characters, where the interpreter reads it as \<open>T\<close>.
\<close>

definition is_surrogate_at :: "string \<Rightarrow> nat \<Rightarrow> bool" where
  "is_surrogate_at s i = (char_at s i = CHR 0xED \<and> 160 \<le> byte (char_at s (i + 1)))"

definition replace_separator :: "string \<Rightarrow> string" where
  "replace_separator s =
     (case filter (is_surrogate_at s) [7, 8, 10] of [] \<Rightarrow> s
      | i # _ \<Rightarrow> take i s @ CHR ''T'' # drop (i + 3) s)"

definition make_datetime :: "int \<times> int \<times> int \<Rightarrow> int \<times> int \<times> int \<times> int \<Rightarrow> int option \<Rightarrow> datetime option" where
  "make_datetime d t z =
     (case d of (y, m, dd) \<Rightarrow> case t of (h, mi, se, us) \<Rightarrow>
       let v = \<lparr>year = y, month = m, day = dd, hour = h, minute = mi, second = se, microsecond = us, utc_offset = z\<rparr> in
       if valid_datetime v then Some v else None)"

text \<open>\<open>datetime.fromisoformat\<close>; \<^term>\<open>None\<close> is \<open>ValueError\<close>.\<close>

definition fromisoformat :: "string \<Rightarrow> datetime option" where
  "fromisoformat s0 =
     (let s = replace_separator s0 in
      if py_len s < 7 \<or> \<not> valid_utf8 s then None
      else case date_length s of None \<Rightarrow> None
      | Some n \<Rightarrow>
          (case read_date s n of None \<Rightarrow> None
           | Some d \<Rightarrow>
               if length s \<le> n then make_datetime d (0, 0, 0, 0) None
               else (case read_time (drop (n + separator_length (char_at s n)) s) of None \<Rightarrow> None
                     | Some (t, z) \<Rightarrow> make_datetime d t z)))"

end
