(* ===== verification/PyText.thy ===== *)
theory PyText
  imports Utf8_Text
begin

section \<open>Stripping text\<close>

text \<open>\<open>str.strip()\<close> removes the white space code points at both ends.\<close>

definition trim :: "('a \<Rightarrow> bool) \<Rightarrow> 'a list \<Rightarrow> 'a list" where
  "trim P xs = rev (dropWhile P (rev (dropWhile P xs)))"

definition py_strip :: "string \<Rightarrow> string" where
  "py_strip s = concat (map utf8_bytes (trim is_space (utf8_points s)))"

lemma trim_ends:
  "trim P xs = [] \<or> \<not> P (hd (trim P xs)) \<and> \<not> P (last (trim P xs))"
proof (cases "trim P xs")
  case (Cons y ys)
  let ?d = "dropWhile P xs"
  obtain zs where zs: "?d = trim P xs @ zs" "\<forall>x\<in>set zs. P x"
  proof
    show "?d = trim P xs @ rev (takeWhile P (rev ?d))"
      unfolding trim_def by (metis rev_append rev_rev_ident takeWhile_dropWhile_id)
    show "\<forall>x\<in>set (rev (takeWhile P (rev ?d))). P x" by (auto dest: set_takeWhileD)
  qed
  have "hd ?d = hd (trim P xs)" using zs Cons by simp
  moreover have "?d \<noteq> []" using zs Cons by simp
  ultimately have "\<not> P (hd (trim P xs))" using hd_dropWhile by metis
  moreover have "\<not> P (last (trim P xs))"
    using Cons unfolding trim_def by (metis hd_dropWhile last_rev list.distinct(1) rev.simps(1))
  ultimately show ?thesis by simp
qed simp

lemma trim_id: "xs = [] \<or> \<not> P (hd xs) \<and> \<not> P (last xs) \<Longrightarrow> trim P xs = xs"
proof (cases "xs = []")
  case False
  assume "xs = [] \<or> \<not> P (hd xs) \<and> \<not> P (last xs)"
  with False have "dropWhile P xs = xs" "dropWhile P (rev xs) = rev xs"
    by (simp_all add: dropWhile_eq_self_iff hd_rev)
  then show ?thesis by (simp add: trim_def)
qed (simp add: trim_def)

lemma trim_idem [simp]: "trim P (trim P xs) = trim P xs"
  by (rule trim_id) (rule trim_ends)

lemma set_trim: "set (trim P xs) \<subseteq> set xs"
  unfolding trim_def set_rev using set_dropWhileD by (metis set_rev subsetI)

text \<open>Encoding code points and decoding them again.\<close>

lemma utf8_cont_iff: "utf8_cont c \<longleftrightarrow> 128 \<le> byte c \<and> byte c < 192"
proof
  assume b: "128 \<le> byte c \<and> byte c < 192"
  obtain b0 b1 b2 b3 b4 b5 b6 b7 where c: "c = Char b0 b1 b2 b3 b4 b5 b6 b7" by (cases c)
  obtain x where x: "0 \<le> x" "x < 64" "byte c = x + (if b6 then 64 else 0) + (if b7 then 128 else 0)"
  proof
    show "0 \<le> byte (Char b0 b1 b2 b3 b4 b5 False False)" by (rule byte_nonneg)
    show "byte (Char b0 b1 b2 b3 b4 b5 False False) < 64" by simp
  qed (simp add: c)
  then show "utf8_cont c" using b by (cases b6; cases b7) (auto simp: utf8_cont_def c simp del: byte.simps)
qed (rule utf8_cont_byte)

lemma utf8_cont_char: "128 \<le> n \<Longrightarrow> n < 192 \<Longrightarrow> utf8_cont (char_of (n :: int))"
  by (simp add: utf8_cont_iff byte_char_of)

lemma utf8_decode_bytes:
  assumes "scalar_value p"
  shows "utf8_decode (utf8_bytes p @ s) = map_option ((#) p) (utf8_decode s)"
proof -
  have p: "0 \<le> p" "p \<le> 1114111" "\<not> (55296 \<le> p \<and> p \<le> 57343)" using assms by (simp_all add: scalar_value_def)
  define a b c d where "a = p div 262144" and "b = p div 4096 mod 64" and "c = p div 64 mod 64" and "d = p mod 64"
  have lt: "0 \<le> d" "d < 64" "0 \<le> c" "c < 64" "0 \<le> b" "b < 64" "0 \<le> a"
    using p by (simp_all add: a_def b_def c_def d_def pos_imp_zdiv_nonneg_iff)
  have q: "p div 64 div 64 = p div 4096" "p div 4096 div 64 = p div 262144"
    by (simp_all flip: zdiv_zmult2_eq)
  have e1: "p div 64 * 64 + d = p" unfolding d_def by (rule div_mult_mod_eq)
  have e2: "p div 4096 * 64 + c = p div 64" unfolding c_def q(1) [symmetric] by (rule div_mult_mod_eq)
  have e3: "a * 64 + b = p div 4096" unfolding a_def b_def q(2) [symmetric] by (rule div_mult_mod_eq)
  have take: "utf8_take (Suc n) acc (char_of (128 + x) # cs) = utf8_take n (acc * 64 + x) cs"
    if "0 \<le> x" "x < 64" for n acc x cs
    using that by (simp add: utf8_cont_char byte_char_of)
  have decode: "utf8_decode (char_of h # cs) = map_option ((#) p) (utf8_decode s)"
    if "utf8_lead (char_of h) = Some (n, x)" "utf8_take n x cs = Some (p, s)" "utf8_least n \<le> p" for h n x cs
    using that p by (auto simp add: not_less)
  consider "p < 128" | "128 \<le> p" "p < 2048" | "2048 \<le> p" "p < 65536" | "65536 \<le> p" by linarith
  then show ?thesis
  proof cases
    case 1
    then show ?thesis using p by (simp add: utf8_bytes_def utf8_lead_def byte_char_of)
  next
    case 2
    then have r: "0 \<le> p div 64" "p div 64 < 32" using p e1 lt by auto
    have "utf8_decode (char_of (192 + p div 64) # char_of (128 + d) # s) = map_option ((#) p) (utf8_decode s)"
      by (rule decode [of _ "Suc 0" "p div 64"])
        (use r 2 lt take [of d 0 "p div 64" s] e1 in \<open>simp_all add: utf8_lead_def byte_char_of\<close>)
    then show ?thesis using 2 by (simp add: utf8_bytes_def flip: d_def)
  next
    case 3
    then have r: "0 \<le> p div 4096" "p div 4096 < 16" using p by (auto simp: div_less_iff_less_mult pos_imp_zdiv_nonneg_iff)
    have "utf8_take (Suc (Suc 0)) (p div 4096) (char_of (128 + c) # char_of (128 + d) # s) = Some (p, s)"
      unfolding take [OF lt(3,4)] e2 take [OF lt(1,2)] e1 by simp
    then have "utf8_decode (char_of (224 + p div 4096) # char_of (128 + c) # char_of (128 + d) # s)
        = map_option ((#) p) (utf8_decode s)"
      by (intro decode [of _ "Suc (Suc 0)" "p div 4096"])
        (use r 3 in \<open>simp_all add: utf8_lead_def byte_char_of\<close>)
    then show ?thesis using 3 by (simp add: utf8_bytes_def flip: d_def c_def)
  next
    case 4
    then have r: "0 \<le> a" "a < 8" using p by (auto simp: a_def div_less_iff_less_mult pos_imp_zdiv_nonneg_iff)
    have "utf8_take (Suc (Suc (Suc 0))) a (char_of (128 + b) # char_of (128 + c) # char_of (128 + d) # s) = Some (p, s)"
      unfolding take [OF lt(5,6)] e3 take [OF lt(3,4)] e2 take [OF lt(1,2)] e1 by simp
    then have "utf8_decode (char_of (240 + a) # char_of (128 + b) # char_of (128 + c) # char_of (128 + d) # s)
        = map_option ((#) p) (utf8_decode s)"
      by (intro decode [of _ "Suc (Suc (Suc 0))" a])
        (use r 4 in \<open>simp_all add: utf8_lead_def byte_char_of\<close>)
    then show ?thesis using 4 by (simp add: utf8_bytes_def flip: d_def c_def b_def a_def)
  qed
qed

lemma utf8_decode_encode: "list_all scalar_value ps \<Longrightarrow> utf8_decode (concat (map utf8_bytes ps)) = Some ps"
  by (induction ps) (simp_all add: utf8_decode_bytes)

lemma py_strip_decode:
  assumes "utf8_decode s = Some ps"
  shows "utf8_decode (py_strip s) = Some (trim is_space ps)"
  using utf8_points_decode [OF assms] set_trim [of is_space ps]
  by (auto simp: py_strip_def list_all_iff subset_iff intro!: utf8_decode_encode)

lemma valid_py_strip: "valid_utf8 s \<Longrightarrow> valid_utf8 (py_strip s)"
  by (auto simp: valid_utf8_def py_strip_decode)

lemma py_strip_fixed:
  assumes "utf8_decode s = Some ps" "ps = [] \<or> \<not> is_space (hd ps) \<and> \<not> is_space (last ps)"
  shows "py_strip s = s"
  using utf8_points_decode [OF assms(1)] trim_id [of ps is_space] assms(2) by (simp add: py_strip_def)

lemma py_strip_idem: "valid_utf8 s \<Longrightarrow> py_strip (py_strip s) = py_strip s"
  using py_strip_fixed [OF py_strip_decode trim_ends] by (auto simp: valid_utf8_def)

lemma py_strip_ascii:
  "ascii s \<Longrightarrow> s = [] \<or> \<not> is_space (byte (hd s)) \<and> \<not> is_space (byte (last s)) \<Longrightarrow> py_strip s = s"
  by (rule py_strip_fixed [OF utf8_decode_ascii]) (auto simp: hd_map last_map)

end
