(* ===== verification/Timestamps.thy ===== *)
theory Timestamps
  imports PyTime PyText
begin

section \<open>UTC timestamps (\<open>connector_time.py\<close>, \<open>records.py\<close>)\<close>

text \<open>
  The two ways the kernel writes and reads times: the strict one of the connector records, which
  accepts only UTC, and the one of the portable records, which converts to UTC and checks the text
  of a stored time against a pattern. Both write microseconds and a final \<open>Z\<close>.
\<close>

subsection \<open>Writing\<close>

fun pad :: "nat \<Rightarrow> int \<Rightarrow> string" where
  "pad 0 n = []"
| "pad (Suc k) n = pad k (n div 10) @ [digit_char (n mod 10)]"

text \<open>
  \<open>isoformat(timespec="microseconds").replace("+00:00", "Z")\<close> of a time in UTC: the offset is the
  only place a plus sign occurs.
\<close>

definition local_text :: "datetime \<Rightarrow> string" where
  "local_text t = pad 4 (year t) @ ''-'' @ pad 2 (month t) @ ''-'' @ pad 2 (day t) @ ''T'' @ pad 2 (hour t) @ '':''
     @ pad 2 (minute t) @ '':'' @ pad 2 (second t) @ ''.'' @ pad 6 (microsecond t)"

definition utc_text :: "datetime \<Rightarrow> string" where
  "utc_text t = local_text t @ ''Z''"

subsection \<open>Change to UTC (\<open>astimezone(UTC)\<close>)\<close>

definition next_date :: "int \<times> int \<times> int \<Rightarrow> int \<times> int \<times> int" where
  "next_date = (\<lambda>(y, m, d).
     if d < days_in_month y m then (y, m, d + 1) else if m < 12 then (y, m + 1, 1) else (y + 1, 1, 1))"

definition previous_date :: "int \<times> int \<times> int \<Rightarrow> int \<times> int \<times> int" where
  "previous_date = (\<lambda>(y, m, d).
     if 1 < d then (y, m, d - 1) else if 1 < m then (y, m - 1, days_in_month y (m - 1)) else (y - 1, 12, 31))"

definition clock_microseconds :: "datetime \<Rightarrow> int" where
  "clock_microseconds t = ((hour t * 60 + minute t) * 60 + second t) * 1000000 + microsecond t"

text \<open>An offset is less than a day, so at most one date is passed; years outside 1..9999 overflow.\<close>

definition to_utc :: "datetime \<Rightarrow> int \<Rightarrow> datetime result" where
  "to_utc t offset =
     (let total = clock_microseconds t - offset; date = (year t, month t, day t);
          (y, m, d) = (if total < 0 then previous_date date
                       else if DAY_MICROSECONDS \<le> total then next_date date else date);
          us = total mod DAY_MICROSECONDS
      in if y < 1 \<or> 9999 < y then Inl (OtherError ''OverflowError'')
         else Inr \<lparr>year = y, month = m, day = d, hour = us div 3600000000, minute = us div 60000000 mod 60,
                second = us div 1000000 mod 60, microsecond = us mod 1000000, utc_offset = Some 0\<rparr>)"

subsection \<open>Connector times\<close>

definition validate_utc :: "datetime \<Rightarrow> string \<Rightarrow> datetime result" where
  "validate_utc t label =
     (if utc_offset t = Some 0 then Inr t
      else Inl (ValidationError (label @ '' must be timezone-aware UTC'')))"

definition format_utc :: "datetime \<Rightarrow> string result" where
  "format_utc t = bindE (validate_utc t ''timestamp'') (\<lambda>_. Inr (utc_text t))"

definition parse_utc :: "pyobj \<Rightarrow> string \<Rightarrow> datetime result" where
  "parse_utc value label =
     (case value of
        PStr s \<Rightarrow>
          (if \<not> ends_with s ''Z'' then Inl (ValidationError (label @ '' must be a UTC ISO-8601 timestamp''))
           else case fromisoformat (butlast s @ ''+00:00'') of
             None \<Rightarrow> Inl (ValidationError (label @ '' must be a UTC ISO-8601 timestamp''))
           | Some t \<Rightarrow> validate_utc t label)
      | _ \<Rightarrow> Inl (ValidationError (label @ '' must be a UTC ISO-8601 timestamp'')))"

subsection \<open>Record times\<close>

definition format_time :: "datetime \<Rightarrow> string result" where
  "format_time t =
     bindE (to_utc t (case utc_offset t of None \<Rightarrow> 0 | Some z \<Rightarrow> z)) (\<lambda>u. Inr (utc_text u))"

text \<open>\<open>TIMESTAMP\<close>: a template of nineteen code points (9 is any decimal digit), an optional fraction, \<open>Z\<close>.\<close>

definition TIMESTAMP_TEMPLATE :: string where
  "TIMESTAMP_TEMPLATE = ''9999-99-99T99:99:99''"

definition fits :: "int \<Rightarrow> char \<Rightarrow> bool" where
  "fits p c = (if c = CHR ''9'' then in_ranges digit_ranges p else p = byte c)"

definition timestamp_tail :: "int list \<Rightarrow> bool" where
  "timestamp_tail ps =
     (ps = [90] \<or>
      2 < length ps \<and> length ps \<le> 8 \<and> hd ps = 46 \<and> last ps = 90 \<and>
      list_all (in_ranges digit_ranges) (butlast (tl ps)))"

definition timestamp_match :: "string \<Rightarrow> bool" where
  "timestamp_match s =
     (let ps = codepoints s in list_all2 fits (take 19 ps) TIMESTAMP_TEMPLATE \<and> timestamp_tail (drop 19 ps))"

text \<open>\<open>value.replace("Z", "+00:00")\<close>.\<close>

definition zone_text :: "string \<Rightarrow> string" where
  "zone_text s = concat (map (\<lambda>c. if c = CHR ''Z'' then ''+00:00'' else [c]) s)"

definition parse_time :: "string \<Rightarrow> datetime result" where
  "parse_time s =
     (case fromisoformat (zone_text s) of
        None \<Rightarrow> Inl (ValidationError (''invalid timestamp: '' @ s))
      | Some t \<Rightarrow>
          (case utc_offset t of
             None \<Rightarrow> Inl (ValidationError ''timestamp must include UTC timezone'')
           | Some z \<Rightarrow> to_utc t z))"

definition stored_time :: "string \<Rightarrow> string \<Rightarrow> string result" where
  "stored_time value label =
     (let clean = py_strip value in
      if \<not> (valid_utf8 value \<and> timestamp_match clean)
      then Inl (ValidationError (label @ '' must be an ISO-8601 UTC timestamp''))
      else bindE (parse_time clean) (\<lambda>_. Inr clean))"

subsection \<open>What is written is read back\<close>

lemma pad_length [simp]: "length (pad k n) = k"
  by (induction k n rule: pad.induct) simp_all

lemma digit_mod [simp]: "json_digit (digit_char (n mod 10))" "byte (digit_char (n mod 10)) = 48 + n mod 10"
  by simp_all

lemma pad_digits: "list_all json_digit (pad k n)"
  by (induction k n rule: pad.induct) simp_all

lemma pad_value: "0 \<le> n \<Longrightarrow> n < 10 ^ k \<Longrightarrow> digits_value (pad k n) = n"
proof (induction k n rule: pad.induct)
  case (2 k n)
  then have "digits_value (pad k (n div 10)) = n div 10"
    by (simp add: pos_imp_zdiv_nonneg_iff div_less_iff_less_mult mult.commute)
  then show ?case by simp
qed simp

lemma digit_not [simp]:
  "json_digit c \<Longrightarrow> c \<noteq> CHR ''W''" "json_digit c \<Longrightarrow> c \<noteq> CHR ''-''" "json_digit c \<Longrightarrow> c \<noteq> CHR ''Z''"
  "json_digit c \<Longrightarrow> c \<noteq> CHR ''+''" "json_digit c \<Longrightarrow> c \<noteq> CHR '':''"
  by (auto simp: json_digit_def)

lemma char_at_simps [simp]:
  "char_at (c # s) 0 = c" "char_at (c # s) (Suc i) = char_at s i" "char_at [] i = CHR 0x00"
  "char_at (c # s) (numeral n) = char_at s (pred_numeral n)"
  by (simp_all add: char_at_def numeral_eq_Suc)

lemma read_digits_simps:
  "read_digits s i 0 = Some 0"
  "read_digits s i (Suc 0) = (if json_digit (char_at s i) then Some (digits_value [char_at s i]) else None)"
  "read_digits s i 2 = (if json_digit (char_at s i) \<and> json_digit (char_at s (i + 1))
     then Some (digits_value [char_at s i, char_at s (i + 1)]) else None)"
  by (simp_all add: read_digits_def upt_rec)

lemma is_surrogate_at_ascii: "ascii s \<Longrightarrow> \<not> is_surrogate_at s i"
proof
  assume "ascii s" "is_surrogate_at s i"
  then have "char_at s i = CHR 0xED" "i < length s" by (auto simp: is_surrogate_at_def char_at_def split: if_splits)
  then have "CHR 0xED \<in> set s" by (auto simp: char_at_def in_set_conv_nth)
  with \<open>ascii s\<close> show False by (auto simp: ascii_def list_all_iff)
qed

lemma replace_separator_ascii: "ascii s \<Longrightarrow> replace_separator s = s"
  by (simp add: replace_separator_def is_surrogate_at_ascii)

text \<open>A text in the extended form with microseconds and the offset zero.\<close>

lemma read_time_chars:
  assumes "list_all json_digit [h1, h2, i1, i2, s1, s2, u1, u2, u3, u4, u5, u6]"
  shows "read_time [h1, h2, CHR '':'', i1, i2, CHR '':'', s1, s2, CHR ''.'', u1, u2, u3, u4, u5, u6,
      CHR ''+'', CHR ''0'', CHR ''0'', CHR '':'', CHR ''0'', CHR ''0''] =
    Some ((digits_value [h1, h2], digits_value [i1, i2], digits_value [s1, s2], digits_value [u1, u2, u3, u4, u5, u6]), Some 0)"
    (is "read_time ?s = _")
proof -
  have z: "takeWhile (\<lambda>c. \<not> is_zone_sign c) ?s = take 15 ?s"
    using assms by (simp add: is_zone_sign_def)
  have a: "read_clock ?s 0 15 =
    Some ((digits_value [h1, h2], digits_value [i1, i2], digits_value [s1, s2], digits_value [u1, u2, u3, u4, u5, u6]), True)"
    using assms by (simp add: read_clock_def numeral_3_eq_3 read_digits_simps field_def read_digits_def [of _ _ 6] upt_rec)
  have b: "read_clock ?s 16 21 = Some ((0, 0, 0, 0), False)"
    by (simp add: read_clock_def numeral_3_eq_3 read_digits_simps field_def digits_value_def)
  have len: "length (take 15 ?s) = 15" "length ?s = 21" by simp_all
  show ?thesis
    unfolding read_time_def Let_def z len option.case prod.case a
    by (simp add: b del: length_Cons)
qed

lemma fromisoformat_chars:
  assumes "list_all json_digit [y1, y2, y3, y4, m1, m2, d1, d2, h1, h2, i1, i2, s1, s2, u1, u2, u3, u4, u5, u6]"
  shows "fromisoformat ([y1, y2, y3, y4, CHR ''-'', m1, m2, CHR ''-'', d1, d2, CHR ''T'',
      h1, h2, CHR '':'', i1, i2, CHR '':'', s1, s2, CHR ''.'', u1, u2, u3, u4, u5, u6,
      CHR ''+'', CHR ''0'', CHR ''0'', CHR '':'', CHR ''0'', CHR ''0'']) =
    make_datetime (digits_value [y1, y2, y3, y4], digits_value [m1, m2], digits_value [d1, d2])
      (digits_value [h1, h2], digits_value [i1, i2], digits_value [s1, s2], digits_value [u1, u2, u3, u4, u5, u6]) (Some 0)"
    (is "fromisoformat ?s = _")
proof -
  have as: "ascii ?s" using assms by (simp add: json_digit_ascii)
  have "date_length ?s = Some 10"
    using assms by (simp add: date_length_def)
  moreover have "read_date ?s 10 =
      Some (digits_value [y1, y2, y3, y4], digits_value [m1, m2], digits_value [d1, d2])"
    using assms by (simp add: read_date_def read_digits_simps read_digits_def [of _ _ 4] upt_rec)
  moreover have "\<not> py_len ?s < 7" unfolding py_len_ascii [OF as] by (simp add: ilen_def)
  moreover have "separator_length CHR ''T'' = 1" by (simp add: separator_length_def)
  ultimately show ?thesis
    using read_time_chars [of h1 h2 i1 i2 s1 s2 u1 u2 u3 u4 u5 u6] assms
    unfolding fromisoformat_def replace_separator_ascii [OF as] Let_def
    by (simp add: valid_utf8_ascii [OF as])
qed

lemma pad_chars:
  "pad 2 n = [digit_char (n div 10 mod 10), digit_char (n mod 10)]"
  "pad 4 n = [digit_char (n div 10 div 10 div 10 mod 10), digit_char (n div 10 div 10 mod 10),
     digit_char (n div 10 mod 10), digit_char (n mod 10)]"
  "pad 6 n = [digit_char (n div 10 div 10 div 10 div 10 div 10 mod 10), digit_char (n div 10 div 10 div 10 div 10 mod 10),
     digit_char (n div 10 div 10 div 10 mod 10), digit_char (n div 10 div 10 mod 10),
     digit_char (n div 10 mod 10), digit_char (n mod 10)]"
  by (simp_all only: eval_nat_numeral pad.simps append.simps BitM.simps)

lemma valid_month_length: "days_in_month y m \<le> 31" "28 \<le> days_in_month y m"
  by (auto simp: days_in_month_def)

theorem fromisoformat_local_text:
  assumes "valid_datetime t"
  shows "fromisoformat (local_text t @ ''+00:00'') = Some (t\<lparr>utc_offset := Some 0\<rparr>)"
proof -
  have v: "digits_value (pad 4 (year t)) = year t" "digits_value (pad 2 (month t)) = month t"
    "digits_value (pad 2 (day t)) = day t" "digits_value (pad 2 (hour t)) = hour t"
    "digits_value (pad 2 (minute t)) = minute t" "digits_value (pad 2 (second t)) = second t"
    "digits_value (pad 6 (microsecond t)) = microsecond t"
    using assms valid_month_length(1) [of "year t" "month t"]
    by (auto simp: valid_datetime_def valid_date_def intro!: pad_value)
  have "fromisoformat (local_text t @ ''+00:00'') = make_datetime
      (digits_value (pad 4 (year t)), digits_value (pad 2 (month t)), digits_value (pad 2 (day t)))
      (digits_value (pad 2 (hour t)), digits_value (pad 2 (minute t)), digits_value (pad 2 (second t)),
       digits_value (pad 6 (microsecond t))) (Some 0)"
    unfolding local_text_def pad_chars append.simps by (rule fromisoformat_chars) simp
  also have "\<dots> = Some (t\<lparr>utc_offset := Some 0\<rparr>)"
    unfolding v using assms by (simp add: make_datetime_def valid_datetime_def DAY_MICROSECONDS_def)
  finally show ?thesis .
qed

lemma local_text_ascii: "ascii (local_text t)"
  unfolding local_text_def pad_chars append.simps by (simp add: json_digit_ascii)

lemma utc_text_ascii: "ascii (utc_text t)"
  by (simp add: utc_text_def local_text_ascii)

text \<open>Connector times: what \<open>format_utc\<close> writes, \<open>parse_utc\<close> reads.\<close>

lemma ends_with_snoc: "ends_with (s @ [c]) [c]"
  by (simp add: ends_with_iff)

theorem parse_format_utc:
  assumes "valid_datetime t" "format_utc t = Inr s"
  shows "parse_utc (PStr s) label = Inr t"
proof -
  from assms(2) have z: "utc_offset t = Some 0" and s: "s = utc_text t"
    by (auto simp: format_utc_def validate_utc_def bindE_Inr_iff split: if_splits)
  from z have "t\<lparr>utc_offset := Some 0\<rparr> = t" by simp
  then show ?thesis
    using fromisoformat_local_text [OF assms(1)] z
    by (simp add: s parse_utc_def utc_text_def ends_with_snoc butlast_append validate_utc_def)
qed

text \<open>Record times: a formatted time is a stored time, and is the time it was.\<close>

lemma to_utc_zero:
  assumes "valid_datetime t"
  shows "to_utc t 0 = Inr (t\<lparr>utc_offset := Some 0\<rparr>)"
proof -
  let ?c = "clock_microseconds t"
  have h: "0 \<le> hour t" "hour t < 24" "0 \<le> minute t" "minute t < 60" "0 \<le> second t" "second t < 60"
    "0 \<le> microsecond t" "microsecond t < 1000000" "1 \<le> year t" "year t \<le> 9999"
    using assms by (simp_all add: valid_datetime_def valid_date_def)
  have c: "0 \<le> ?c" "?c < DAY_MICROSECONDS"
    using h by (simp_all add: clock_microseconds_def DAY_MICROSECONDS_def)
  have split: "(a * b + r) div b = a \<and> (a * b + r) mod b = r" if "0 \<le> r" "r < b" for a b r :: int
    using that by simp
  define sm where "sm = (hour t * 60 + minute t) * 60 + second t"
  have e: "?c = sm * 1000000 + microsecond t" by (simp add: clock_microseconds_def sm_def)
  have e1: "?c div 1000000 = sm" "?c mod 1000000 = microsecond t" unfolding e using split h by blast+
  have e2: "sm div 60 = hour t * 60 + minute t" "sm mod 60 = second t" unfolding sm_def using split h by blast+
  have e3: "(hour t * 60 + minute t) div 60 = hour t" "(hour t * 60 + minute t) mod 60 = minute t"
    using split h by blast+
  have d: "?c div 60000000 = ?c div 1000000 div 60" "?c div 3600000000 = ?c div 1000000 div 60 div 60"
    by (simp_all flip: zdiv_zmult2_eq)
  have "?c mod DAY_MICROSECONDS = ?c" using c by simp
  then show ?thesis
    using c h by (simp add: to_utc_def Let_def not_le d e1 e2 e3)
qed

lemma format_time_utc: "valid_datetime t \<Longrightarrow> utc_offset t \<in> {None, Some 0} \<Longrightarrow> format_time t = Inr (utc_text t)"
  by (auto simp: format_time_def to_utc_zero utc_text_def local_text_def)

lemma utc_text_head: "utc_text t \<noteq> []" "json_digit (hd (utc_text t))" "last (utc_text t) = CHR ''Z''"
proof -
  show "json_digit (hd (utc_text t))"
    unfolding utc_text_def local_text_def pad_chars append.simps list.sel by (rule digit_mod)
qed (simp_all add: utc_text_def)

lemma digit_not_space: "json_digit c \<Longrightarrow> \<not> is_space (byte c)"
  by (auto simp: json_digit_def is_space_def in_ranges_def space_ranges_def)

lemma Z_not_space: "\<not> is_space 90"
  by (simp add: is_space_def in_ranges_def space_ranges_def)

lemma digit_in_ranges: "json_digit c \<Longrightarrow> in_ranges digit_ranges (byte c)"
  by (simp add: json_digit_def in_ranges_def digit_ranges_def)

lemma timestamp_match_utc_text: "timestamp_match (utc_text t)"
  unfolding timestamp_match_def codepoints_ascii [OF utc_text_ascii]
  unfolding utc_text_def local_text_def pad_chars append.simps
  by (simp add: TIMESTAMP_TEMPLATE_def fits_def timestamp_tail_def digit_in_ranges del: digit_mod(2) byte_digit_char)

lemma zone_text_no_Z: "CHR ''Z'' \<notin> set s \<Longrightarrow> zone_text s = s"
  by (induction s) (auto simp: zone_text_def)

lemma zone_text_utc_text: "zone_text (utc_text t) = local_text t @ ''+00:00''"
proof -
  have "CHR ''Z'' \<notin> set (local_text t)"
    unfolding local_text_def pad_chars append.simps using digit_not(3) [OF digit_mod(1), THEN not_sym] by simp
  then have "zone_text (local_text t) = local_text t" by (rule zone_text_no_Z)
  then show ?thesis by (simp add: utc_text_def zone_text_def)
qed

theorem stored_utc_text:
  assumes "valid_datetime t"
  shows "parse_time (utc_text t) = Inr (t\<lparr>utc_offset := Some 0\<rparr>)"
    and "stored_time (utc_text t) label = Inr (utc_text t)"
proof -
  have v: "valid_datetime (t\<lparr>utc_offset := Some 0\<rparr>)"
    using assms by (simp add: valid_datetime_def DAY_MICROSECONDS_def)
  show p: "parse_time (utc_text t) = Inr (t\<lparr>utc_offset := Some 0\<rparr>)"
    using to_utc_zero [OF v] fromisoformat_local_text [OF assms]
    by (simp add: parse_time_def zone_text_utc_text)
  have "py_strip (utc_text t) = utc_text t"
    by (rule py_strip_ascii)
      (simp_all add: utc_text_ascii utc_text_head digit_not_space Z_not_space)
  then show "stored_time (utc_text t) label = Inr (utc_text t)"
    using p by (simp add: stored_time_def timestamp_match_utc_text valid_utf8_ascii utc_text_ascii)
qed

end
