(* ===== verification/TokenStore.thy ===== *)
theory TokenStore
  imports Secrets Timestamps
begin

section \<open>The token store (\<open>connector_token_store.py\<close>)\<close>

text \<open>
  A credential lives in one of two secret slots of its connection; a small file, the pointer, names
  the slot and the version. An update writes the other slot, replaces the pointer atomically and
  then deletes the old slot. The state is the secret store, the pointer files and the faults of the
  file operations to come; \<open>root\<close>, the directory, is fixed. Error messages leave out file paths.
\<close>

definition TOKEN_STATE_FORMAT_VERSION :: int where "TOKEN_STATE_FORMAT_VERSION = 1"
definition MAX_TOKEN_STATE_BYTES :: int where "MAX_TOKEN_STATE_BYTES = 4 * 1024"
definition MAX_TOKEN_BUNDLE_BYTES :: int where "MAX_TOKEN_BUNDLE_BYTES = 1024 * 1024"

subsection \<open>Token states\<close>

record token_state =
  token_connection :: string
  token_version :: int
  token_reference :: secret_reference
  updated_at :: datetime
  format_version :: pyobj

text \<open>The constructor with the checks of \<open>__post_init__\<close>.\<close>

definition make_token_state ::
    "string \<Rightarrow> int \<Rightarrow> secret_reference \<Rightarrow> datetime \<Rightarrow> pyobj \<Rightarrow> token_state result" where
  "make_token_state c v r t f =
     bindE (parse_connection_id (PStr c)) (\<lambda>clean.
     if ref_connection r \<noteq> clean then Inl (ValidationError ''token state secret belongs to another connection'')
     else if v < 1 then Inl (ValidationError ''token state version must be a positive integer'')
     else if \<not> py_eq_int f TOKEN_STATE_FORMAT_VERSION
     then Inl (ValidationError ''token state format version is unsupported'')
     else bindE (format_utc t) (\<lambda>_.
       Inr \<lparr>token_connection = c, token_version = v, token_reference = r, updated_at = t, format_version = f\<rparr>))"

text \<open>\<open>==\<close> of two states: the format versions are both equal to one, however they are written.\<close>

definition same_state :: "token_state \<Rightarrow> token_state \<Rightarrow> bool" where
  "same_state a b =
     (token_connection a = token_connection b \<and> token_version a = token_version b
      \<and> token_reference a = token_reference b \<and> updated_at a = updated_at b
      \<and> py_eq_int (format_version a) TOKEN_STATE_FORMAT_VERSION
      \<and> py_eq_int (format_version b) TOKEN_STATE_FORMAT_VERSION)"

fun same_optional :: "token_state option \<Rightarrow> token_state option \<Rightarrow> bool" where
  "same_optional None None = True"
| "same_optional (Some a) (Some b) = same_state a b"
| "same_optional _ _ = False"

definition state_fields :: "token_state \<Rightarrow> string \<Rightarrow> (string \<times> pyobj) list" where
  "state_fields st at_text =
     [(''connection_id'', PStr (token_connection st)), (''format_version'', format_version st),
      (''secret_reference'', PStr (reference_text (token_reference st))), (''updated_at'', PStr at_text),
      (''version'', PInt (token_version st))]"

text \<open>\<open>json.dumps(..., indent=2, sort_keys=True)\<close> raises on an integer of more than 4300 digits.\<close>

definition encode_state :: "token_state \<Rightarrow> string result" where
  "encode_state st =
     bindE (format_utc (updated_at st)) (\<lambda>at_text.
       let v = obj (state_fields st at_text); encoded = dumps indented 0 v @ [CHR 0x0A] in
       if \<not> encodable v then Inl (OtherError ''ValueError'')
       else if MAX_TOKEN_STATE_BYTES < ilen encoded
       then Inl (ValidationError ''connector token state exceeds its size bound'')
       else Inr encoded)"

definition STATE_KEYS :: "string list" where
  "STATE_KEYS = [''connection_id'', ''format_version'', ''secret_reference'', ''updated_at'', ''version'']"

fun positive_int :: "pyobj \<Rightarrow> int option" where
  "positive_int (PInt i) = (if i < 1 then None else Some i)"
| "positive_int _ = None"

definition decode_time :: "pyobj \<Rightarrow> datetime result" where
  "decode_time v =
     (case v of
        PStr s \<Rightarrow>
          (if \<not> ends_with s ''Z'' then Inl (ValidationError ''stored connector token update time is invalid'')
           else case fromisoformat (butlast s @ ''+00:00'') of
             None \<Rightarrow> Inl (ValidationError ''stored connector token update time is invalid'')
           | Some t \<Rightarrow> Inr t)
      | _ \<Rightarrow> Inl (ValidationError ''stored connector token update time is invalid''))"

definition decode_fields :: "items \<Rightarrow> string \<Rightarrow> token_state result" where
  "decode_fields d expected =
     (if set (map fst d) \<noteq> set (map PStr STATE_KEYS)
      then Inl (ValidationError ''stored connector token state has an unsupported shape'')
      else bindE (parse_connection_id (payload_field d ''connection_id'')) (\<lambda>clean.
        if clean \<noteq> expected then Inl (ValidationError ''stored token state belongs to another connection'')
        else case positive_int (payload_field d ''version'') of
          None \<Rightarrow> Inl (ValidationError ''stored connector token version is invalid'')
        | Some v \<Rightarrow>
            if \<not> py_eq_int (payload_field d ''format_version'') TOKEN_STATE_FORMAT_VERSION
            then Inl (ValidationError ''stored connector token format version is unsupported'')
            else bindE (decode_time (payload_field d ''updated_at'')) (\<lambda>t.
              bindE (parse_secret_reference (payload_field d ''secret_reference'')) (\<lambda>r.
              make_token_state clean v r t (payload_field d ''format_version'')))))"

definition decode_state :: "string \<Rightarrow> string \<Rightarrow> token_state result" where
  "decode_state encoded expected =
     (if \<not> valid_utf8 encoded then Inl (ValidationError ''stored connector token state is invalid'')
      else case json_loads default_decoder encoded of
        Inl Malformed \<Rightarrow> Inl (ValidationError ''stored connector token state is invalid'')
      | Inl _ \<Rightarrow> Inl (OtherError ''ValueError'')
      | Inr (PDict d) \<Rightarrow> decode_fields d expected
      | Inr _ \<Rightarrow> Inl (ValidationError ''stored connector token state has an unsupported shape''))"

definition slot_for_version :: "int \<Rightarrow> string" where
  "slot_for_version v = (if v mod 2 \<noteq> 0 then ''token-slot-a'' else ''token-slot-b'')"

text \<open>\<^term>\<open>None\<close> stands for a value that is not \<open>bytes\<close>.\<close>

definition token_bytes :: "string option \<Rightarrow> string result" where
  "token_bytes value =
     (case value of
        Some b \<Rightarrow> if b = [] \<or> MAX_TOKEN_BUNDLE_BYTES < ilen b
          then Inl (ValidationError ''token bundle is empty or exceeds its size bound'') else Inr b
      | None \<Rightarrow> Inl (ValidationError ''token bundle is empty or exceeds its size bound''))"

definition validate_lock_timeout :: "pyobj \<Rightarrow> unit result" where
  "validate_lock_timeout v =
     (let bad = Inl (ValidationError ''connector credential lock timeout must be non-negative and finite'') in
      case v of PInt i \<Rightarrow> bindE (py_isfinite v) (\<lambda>_. if i < 0 then bad else Inr ())
      | PFloat (Finite r) \<Rightarrow> if r < 0 then bad else Inr ()
      | _ \<Rightarrow> bad)"

subsection \<open>Files and locks\<close>

datatype node = File string | Special

record 's token_world =
  secrets :: 's
  pointers :: "string \<rightharpoonup> node"
  disk_faults :: "fault list"

text \<open>
  A file operation takes the next fault. \<open>atomic_write\<close> renames a staged file over the pointer and
  then syncs the directory, \<open>durable_unlink\<close> removes it and syncs: each may fail before or after the
  change is visible.
\<close>

definition disk_step :: "(('s) token_world \<Rightarrow> 's token_world) \<Rightarrow> ('s token_world, unit) action" where
  "disk_step change w =
     with_fault (next_fault (disk_faults w)) change (w\<lparr>disk_faults := tl (disk_faults w)\<rparr>)"

definition write_pointer :: "string \<Rightarrow> string \<Rightarrow> ('s token_world, unit) action" where
  "write_pointer c b = disk_step (pointers_update (\<lambda>p. p(c \<mapsto> File b)))"

definition unlink_pointer :: "string \<Rightarrow> ('s token_world, unit) action" where
  "unlink_pointer c = disk_step (pointers_update (\<lambda>p. p(c := None)))"

text \<open>\<open>read_regular_file\<close>: only a regular file within its bound.\<close>

definition read_pointer :: "string \<Rightarrow> ('s token_world, string) action" where
  "read_pointer c =
     andthen (disk_step id) (\<lambda>_. andthen (observe (\<lambda>w. pointers w c)) (\<lambda>node.
       case node of
         Some (File b) \<Rightarrow>
           if MAX_TOKEN_STATE_BYTES < ilen b
           then fail (ValidationError ''connector token state exceeds its size bound'') else give b
       | Some Special \<Rightarrow> fail (ValidationError ''connector token state must be a regular file'')
       | None \<Rightarrow> fail (ValidationError ''could not inspect connector token state'')))"

text \<open>
  \<open>_prepare\<close> checks the directories, the lock is acquired, and after the body it is checked again that
  the lock file is still in place: each of the three may raise.
\<close>

definition locked :: "('s token_world, 'a) action \<Rightarrow> ('s token_world, 'a) action" where
  "locked m =
     andthen (disk_step id) (\<lambda>_. andthen (disk_step id) (\<lambda>_.
     andthen m (\<lambda>x. andthen (disk_step id) (\<lambda>_. give x))))"

definition on_secrets :: "('s, 'a) action \<Rightarrow> ('s token_world, 'a) action" where
  "on_secrets = on_part secrets (\<lambda>s. secrets_update (\<lambda>_. s))"

subsection \<open>Inside the lock\<close>

definition load_unlocked :: "string \<Rightarrow> ('s token_world, token_state option) action" where
  "load_unlocked c =
     andthen (observe (\<lambda>w. pointers w c)) (\<lambda>node.
       if node = None then give None
       else andthen (read_pointer c) (\<lambda>b. pure (bindE (decode_state b c) (\<lambda>st. Inr (Some st)))))"

definition slot_requires_deletion :: "'s secret_store \<Rightarrow> string \<Rightarrow> string \<Rightarrow> ('s token_world, bool) action" where
  "slot_requires_deletion ops c n =
     catch (andthen (on_secrets (get_secret ops c n)) (\<lambda>v. give (v \<noteq> None)))
       (\<lambda>e. if is_ValidationError e then give True else fail e)"

definition delete_previous_after_commit ::
    "'s secret_store \<Rightarrow> token_state option \<Rightarrow> ('s token_world, unit) action" where
  "delete_previous_after_commit ops previous =
     (case previous of None \<Rightarrow> give ()
      | Some p \<Rightarrow>
          catch
            (andthen (slot_requires_deletion ops (token_connection p) (ref_name (token_reference p))) (\<lambda>present.
              if present then on_secrets (delete_secret ops (token_connection p) (ref_name (token_reference p)))
              else give ()))
            (\<lambda>_. fail (MutationCommittedError
              ''token update committed, but the prior secret could not be removed; reload'')))"

definition handle_publish_failure ::
    "'s secret_store \<Rightarrow> token_state \<Rightarrow> token_state option \<Rightarrow> exc \<Rightarrow> ('s token_world, 'a) action" where
  "handle_publish_failure ops next previous publish_error =
     attempt (load_unlocked (token_connection next))
       (\<lambda>_. fail (DegradedIntegrityError ''token publication outcome is unknown; staged secret was retained''))
       (\<lambda>visible.
         if same_optional visible (Some next) then
           andthen (delete_previous_after_commit ops previous) (\<lambda>_.
             fail (MutationCommittedError
               ''token update is visible, but durable publication reported a failure; reload''))
         else if \<not> same_optional visible previous then
           fail (DegradedIntegrityError ''token publication outcome is unknown; staged secret was retained'')
         else
           attempt (on_secrets (delete_secret ops (token_connection next) (ref_name (token_reference next))))
             (\<lambda>_. fail (DegradedIntegrityError ''token publication failed and staged secret cleanup also failed''))
             (\<lambda>_. fail publish_error))"

definition publish_unlocked ::
    "'s secret_store \<Rightarrow> string \<Rightarrow> token_state option \<Rightarrow> string option \<Rightarrow> datetime \<Rightarrow> ('s token_world, token_state) action" where
  "publish_unlocked ops c previous value t =
     andthen (pure (token_bytes value)) (\<lambda>b.
       let v = (case previous of Some p \<Rightarrow> token_version p | None \<Rightarrow> 0) + 1 in
       andthen (pure (make_reference c (slot_for_version v))) (\<lambda>r.
       andthen (pure (make_token_state c v r t (PInt TOKEN_STATE_FORMAT_VERSION))) (\<lambda>next.
       andthen (on_secrets (set_secret ops c (ref_name r) b)) (\<lambda>_.
       andthen
         (catch (andthen (pure (encode_state next)) (write_pointer c))
           (handle_publish_failure ops next previous)) (\<lambda>_.
       andthen (delete_previous_after_commit ops previous) (\<lambda>_. give next))))))"

definition assert_import_compatible_unlocked ::
    "'s secret_store \<Rightarrow> string \<Rightarrow> string \<Rightarrow> ('s token_world, unit) action" where
  "assert_import_compatible_unlocked ops c value =
     (let conflict = ConflictError ''this host already has different connector credential state'' in
      andthen (load_unlocked c) (\<lambda>current.
      andthen (on_secrets (get_secret ops c ''token-slot-a'')) (\<lambda>first.
      andthen (on_secrets (get_secret ops c ''token-slot-b'')) (\<lambda>second.
      case current of
        Some st \<Rightarrow>
          require (token_version st = 1 \<and> ref_name (token_reference st) = ''token-slot-a'' \<and>
            first = Some value \<and> second = None) conflict
      | None \<Rightarrow> require (second = None \<and> (first = None \<or> first = Some value)) conflict))))"

subsection \<open>Operations\<close>

definition token_store_state :: "pyobj \<Rightarrow> pyobj \<Rightarrow> ('s token_world, token_state option) action" where
  "token_store_state cid timeout =
     andthen (pure (parse_connection_id cid)) (\<lambda>c.
     andthen (pure (validate_lock_timeout timeout)) (\<lambda>_. locked (load_unlocked c)))"

definition exclusive_lifecycle ::
    "pyobj \<Rightarrow> pyobj \<Rightarrow> ('s token_world, 'a) action \<Rightarrow> ('s token_world, 'a) action" where
  "exclusive_lifecycle cid timeout body =
     andthen (pure (parse_connection_id cid)) (\<lambda>c.
     andthen (pure (validate_lock_timeout timeout)) (\<lambda>_. locked body))"

definition token_store_read :: "'s secret_store \<Rightarrow> pyobj \<Rightarrow> ('s token_world, token_state \<times> string) action" where
  "token_store_read ops cid =
     andthen (pure (parse_connection_id cid)) (\<lambda>c. locked (
       andthen (load_unlocked c) (\<lambda>current.
         case current of None \<Rightarrow> fail (NotFoundError ''connector token state was not found'')
         | Some st \<Rightarrow>
             andthen (on_secrets (resolve_secret_reference ops (token_reference st))) (\<lambda>b. give (st, b)))))"

definition occupied :: "'s secret_store \<Rightarrow> pyobj \<Rightarrow> ('s token_world, bool) action" where
  "occupied ops cid =
     andthen (pure (parse_connection_id cid)) (\<lambda>c. locked (
       andthen (load_unlocked c) (\<lambda>current.
         if current \<noteq> None then give True
         else andthen (on_secrets (get_secret ops c ''token-slot-a'')) (\<lambda>a.
           if a \<noteq> None then give True
           else andthen (on_secrets (get_secret ops c ''token-slot-b'')) (\<lambda>b. give (b \<noteq> None))))))"

definition validate_import :: "'s secret_store \<Rightarrow> pyobj \<Rightarrow> string option \<Rightarrow> ('s token_world, unit) action" where
  "validate_import ops cid value =
     andthen (pure (parse_connection_id cid)) (\<lambda>c.
     andthen (pure (token_bytes value)) (\<lambda>b. locked (assert_import_compatible_unlocked ops c b)))"

definition ensure_imported ::
    "'s secret_store \<Rightarrow> pyobj \<Rightarrow> string option \<Rightarrow> datetime \<Rightarrow> ('s token_world, token_state) action" where
  "ensure_imported ops cid value t =
     andthen (pure (parse_connection_id cid)) (\<lambda>c.
     andthen (pure (token_bytes value)) (\<lambda>b.
     andthen (pure (format_utc t)) (\<lambda>_. locked (
       andthen (assert_import_compatible_unlocked ops c b) (\<lambda>_.
       andthen (load_unlocked c) (\<lambda>current.
         case current of
           Some st \<Rightarrow>
             attempt (andthen (pure (encode_state st)) (write_pointer c))
               (\<lambda>_. fail (DegradedIntegrityError
                 ''credential import durability is unconfirmed; rerun the same archive''))
               (\<lambda>_. give st)
         | None \<Rightarrow>
             andthen (pure (make_reference c ''token-slot-a'')) (\<lambda>r.
             andthen (pure (make_token_state c 1 r t (PInt TOKEN_STATE_FORMAT_VERSION))) (\<lambda>st.
             attempt
               (andthen (on_secrets (get_secret ops c ''token-slot-a'')) (\<lambda>first.
                andthen (if first = None then on_secrets (set_secret ops c ''token-slot-a'' b) else give ()) (\<lambda>_.
                andthen (pure (encode_state st)) (write_pointer c))))
               (\<lambda>_. fail (DegradedIntegrityError
                 ''credential import may be partially committed; rerun the same archive''))
               (\<lambda>_. give st)))))))))"

definition update_token ::
    "'s secret_store \<Rightarrow> pyobj \<Rightarrow> pyobj \<Rightarrow> string option \<Rightarrow> datetime \<Rightarrow> ('s token_world, token_state) action" where
  "update_token ops cid expected value t =
     andthen (pure (parse_connection_id cid)) (\<lambda>c.
     andthen (pure (case expected of
         PInt i \<Rightarrow> if i < 0 then Inl (ValidationError ''expected token version must be a non-negative integer'') else Inr i
       | _ \<Rightarrow> Inl (ValidationError ''expected token version must be a non-negative integer''))) (\<lambda>i.
     andthen (pure (token_bytes value)) (\<lambda>_.
     andthen (pure (format_utc t)) (\<lambda>_. locked (
       andthen (load_unlocked c) (\<lambda>current.
       andthen (require ((case current of Some st \<Rightarrow> token_version st | None \<Rightarrow> 0) = i)
         (ConflictError ''connector token changed; reload before updating'')) (\<lambda>_.
       publish_unlocked ops c current value t)))))))"

text \<open>What the callback of a refresh does: it may raise, decline, or return a value.\<close>

datatype transformed = Declined | Replaced "string option"

definition refresh_serialized ::
    "'s secret_store \<Rightarrow> pyobj \<Rightarrow> (token_state \<times> string \<Rightarrow> transformed result) \<Rightarrow> datetime \<Rightarrow>
     ('s token_world, token_state \<times> string) action" where
  "refresh_serialized ops cid transform t =
     andthen (pure (parse_connection_id cid)) (\<lambda>c.
     andthen (pure (format_utc t)) (\<lambda>_. locked (
       andthen (load_unlocked c) (\<lambda>current.
       case current of None \<Rightarrow> fail (NotFoundError ''connector token state was not found'')
       | Some st \<Rightarrow>
           andthen (on_secrets (resolve_secret_reference ops (token_reference st))) (\<lambda>b.
           andthen (pure (transform (st, b))) (\<lambda>answer.
           case answer of Declined \<Rightarrow> give (st, b)
           | Replaced value \<Rightarrow>
               andthen (publish_unlocked ops c current value t) (\<lambda>next.
               give (next, case value of Some b' \<Rightarrow> b' | None \<Rightarrow> [])))))))) "

definition delete_slot :: "'s secret_store \<Rightarrow> string \<Rightarrow> string \<Rightarrow> ('s token_world, bool) action" where
  "delete_slot ops c n =
     andthen (slot_requires_deletion ops c n) (\<lambda>present.
     if present then andthen (on_secrets (delete_secret ops c n)) (\<lambda>_. give True) else give False)"

definition delete_token :: "'s secret_store \<Rightarrow> pyobj \<Rightarrow> ('s token_world, bool) action" where
  "delete_token ops cid =
     andthen (pure (parse_connection_id cid)) (\<lambda>c. locked (
       andthen (catch (load_unlocked c) (\<lambda>e. if is_ValidationError e then give None else fail e)) (\<lambda>current.
       andthen (observe (\<lambda>w. current \<noteq> None \<or> pointers w c \<noteq> None)) (\<lambda>removed.
       andthen (delete_slot ops c ''token-slot-a'') (\<lambda>a.
       andthen (delete_slot ops c ''token-slot-b'') (\<lambda>b.
       andthen (observe (\<lambda>w. pointers w c)) (\<lambda>node.
       andthen (if node \<noteq> None then unlink_pointer c else give ()) (\<lambda>_.
       give (removed \<or> a \<or> b)))))))))"

end
