(* ===== verification/Token_Codec.thy ===== *)
theory Token_Codec
  imports TokenStore
begin

section \<open>Pointer files are read back\<close>

definition wf_state :: "token_state \<Rightarrow> bool" where
  "wf_state st =
     (connection_id (token_connection st) \<and> wf_reference (token_reference st)
      \<and> ref_connection (token_reference st) = token_connection st \<and> 1 \<le> token_version st
      \<and> valid_datetime (updated_at st) \<and> utc_offset (updated_at st) = Some 0
      \<and> py_eq_int (format_version st) TOKEN_STATE_FORMAT_VERSION)"

lemma make_token_state_Inr:
  "make_token_state c v r t f = Inr st \<longleftrightarrow>
    st = \<lparr>token_connection = c, token_version = v, token_reference = r, updated_at = t, format_version = f\<rparr> \<and>
    connection_id c \<and> ref_connection r = c \<and> 1 \<le> v \<and> py_eq_int f TOKEN_STATE_FORMAT_VERSION \<and> utc_offset t = Some 0"
  by (auto simp: make_token_state_def bindE_Inr_iff format_utc_def validate_utc_def)

lemma fromisoformat_valid: "fromisoformat s = Some t \<Longrightarrow> valid_datetime t"
  by (auto simp: fromisoformat_def make_datetime_def Let_def split: if_splits option.splits prod.splits)

lemma decode_fields_Inr:
  assumes "decode_fields d c = Inr st"
  shows "wf_state st" "token_connection st = c"
  using assms
  by (auto simp: decode_fields_def bindE_Inr_iff make_token_state_Inr wf_state_def decode_time_def
      dest: parse_secret_reference_wf fromisoformat_valid split: if_splits option.splits pyobj.splits)

lemma decode_state_Inr:
  assumes "decode_state b c = Inr st"
  shows "wf_state st" "token_connection st = c"
  using assms by (auto simp: decode_state_def dest: decode_fields_Inr split: if_splits sum.splits json_error.splits pyobj.splits)

lemma unit_version:
  assumes "py_eq_int f 1"
  shows "f \<in> {PInt 1, PBool True, PFloat (Finite 1)}"
proof (cases f)
  case (PFloat x)
  with assms show ?thesis by (cases x) auto
qed (use assms in \<open>auto split: if_splits\<close>)

lemma is_double_one: "is_double 1"
  using is_double_int [of 1] by simp

lemma utc_text_valid: "valid_utf8 (utc_text t)"
  by (simp add: valid_utf8_ascii utc_text_ascii)

lemma reference_text_ascii: "wf_reference r \<Longrightarrow> ascii (reference_text r)"
  by (simp add: reference_text_def wf_reference_def connection_id_ascii secret_name_ascii)

lemma state_value_plain:
  assumes "wf_state st" "encodable (obj (state_fields st s))"
  shows "plain_json (obj (state_fields st s))"
proof -
  have "format_version st \<in> {PInt 1, PBool True, PFloat (Finite 1)}"
    using assms(1) unit_version by (simp add: wf_state_def TOKEN_STATE_FORMAT_VERSION_def)
  then show ?thesis
    using assms by (auto simp: plain_obj encodable_obj state_fields_def is_double_one)
qed

lemma decode_state_fields:
  assumes "wf_state st"
  shows "decode_fields (items (state_fields st (utc_text (updated_at st)))) (token_connection st) = Inr st"
proof -
  have t: "decode_time (PStr (utc_text (updated_at st))) = Inr (updated_at st)"
    using fromisoformat_local_text [of "updated_at st"] assms
    by (simp add: decode_time_def utc_text_def ends_with_snoc butlast_append wf_state_def)
  have "set (map fst (items (state_fields st s))) = set (map PStr STATE_KEYS)" for s
    by (simp add: items_def state_fields_def STATE_KEYS_def)
  moreover have "payload_field (items (state_fields st s)) k = (case map_of (state_fields st s) k of Some v \<Rightarrow> v | None \<Rightarrow> PNone)" for s k
    by (simp add: payload_field_def dget_items)
  ultimately show ?thesis
    using assms t parse_reference_text
    by (simp add: decode_fields_def state_fields_def wf_state_def make_token_state_def bindE_def format_utc_def
        validate_utc_def parse_connection_id_def)
qed

theorem decode_encode_state:
  assumes "wf_state st" "encode_state st = Inr b"
  shows "decode_state b (token_connection st) = Inr st" "ilen b \<le> MAX_TOKEN_STATE_BYTES"
proof -
  let ?v = "obj (state_fields st (utc_text (updated_at st)))"
  from assms have b: "b = dumps indented 0 ?v @ [CHR 0x0A]" and enc: "encodable ?v"
    and len: "ilen b \<le> MAX_TOKEN_STATE_BYTES"
    by (auto simp: encode_state_def bindE_Inr_iff format_utc_def validate_utc_def Let_def split: if_splits)
  have plain: "plain_json ?v" using state_value_plain assms(1) enc by blast
  have "json_loads default_decoder b = Inr ?v"
    unfolding b by (rule loads_dumps) (simp_all add: default_decoder_def plain enc white_def)
  moreover have "valid_utf8 b"
    unfolding b using valid_utf8_dumps [OF plain enc] by (intro valid_utf8_append) (simp_all add: valid_utf8_Cons)
  ultimately show "decode_state b (token_connection st) = Inr st"
    using decode_state_fields [OF assms(1)] by (simp add: decode_state_def obj_def)
  show "ilen b \<le> MAX_TOKEN_STATE_BYTES" by (rule len)
qed

subsection \<open>Decoding errors are not about persistence\<close>

definition plain_result :: "'a result \<Rightarrow> bool" where
  "plain_result r = (case r of Inl e \<Rightarrow> \<not> is_PersistenceError e | Inr _ \<Rightarrow> True)"

lemma plain_result_simps [simp]: "plain_result (Inr x)" "plain_result (Inl e) = (\<not> is_PersistenceError e)"
  by (simp_all add: plain_result_def)

lemma plain_bindE: "plain_result m \<Longrightarrow> (\<And>x. plain_result (f x)) \<Longrightarrow> plain_result (bindE m f)"
  by (cases m) simp_all

lemma plain_parsers:
  "plain_result (parse_connection_id v)" "plain_result (parse_secret_name v)" "plain_result (format_utc t)"
  "plain_result (decode_time v)"
  by (simp_all add: parse_connection_id_def parse_secret_name_def format_utc_def validate_utc_def decode_time_def
      split: pyobj.split option.split)

lemma plain_make_reference: "plain_result (make_reference c n)"
  unfolding make_reference_def by (intro plain_bindE plain_parsers) simp

lemma plain_make_token_state: "plain_result (make_token_state c v r t f)"
  unfolding make_token_state_def
  by (rule plain_bindE [OF plain_parsers(1)]) (simp add: plain_bindE plain_parsers)

lemma plain_encode_state: "plain_result (encode_state st)"
  unfolding encode_state_def Let_def by (rule plain_bindE [OF plain_parsers(3)]) simp

lemma plain_parse_reference: "plain_result (parse_secret_reference v)"
  by (simp add: parse_secret_reference_def plain_make_reference split: pyobj.split)

lemma plain_decode_fields: "plain_result (decode_fields d c)"
  unfolding decode_fields_def
  by (simp add: plain_bindE plain_parsers plain_parse_reference plain_make_token_state split: option.split)

lemma plain_decode_state: "plain_result (decode_state b c)"
  by (simp add: decode_state_def plain_decode_fields split: sum.split json_error.split pyobj.split)

lemma decode_state_plain: "decode_state b c = Inl e \<Longrightarrow> \<not> is_PersistenceError e"
  using plain_decode_state [of b c] by simp

end
