(* ===== verification/Token_Safety.thy ===== *)
theory Token_Safety
  imports Token_Codec
begin

section \<open>No update loses a credential\<close>

text \<open>
  What a step does to the pointers and the slots, whatever faults occur: triples over the view of the
  state, proved once for every secret store that keeps its contract.
\<close>

type_synonym token_view = "(string \<rightharpoonup> node) \<times> (string \<times> string \<Rightarrow> slot)"

definition token_view :: "('s \<Rightarrow> string \<times> string \<Rightarrow> slot) \<Rightarrow> 's token_world \<Rightarrow> token_view" where
  "token_view slots w = (pointers w, slots (secrets w))"

text \<open>What the pointers say of a connection.\<close>

definition points_to :: "(string \<rightharpoonup> node) \<Rightarrow> string \<Rightarrow> token_state option \<Rightarrow> bool" where
  "points_to P c r =
     (case r of None \<Rightarrow> P c = None
      | Some st \<Rightarrow> \<exists>b. P c = Some (File b) \<and> ilen b \<le> MAX_TOKEN_STATE_BYTES \<and> decode_state b c = Inr st)"

lemma loaded_functional: "points_to P c r \<Longrightarrow> points_to P c r' \<Longrightarrow> r = r'"
  by (auto simp: points_to_def split: option.splits)

lemma loaded_connection: "points_to P c (Some st) \<Longrightarrow> token_connection st = c \<and> wf_state st"
  by (auto simp: points_to_def dest: decode_state_Inr)

text \<open>A published pointer after a successful encoding.\<close>

lemma loaded_published:
  assumes "wf_state st" "encode_state st = Inr b" "token_connection st = c"
  shows "points_to (P(c \<mapsto> File b)) c (Some st)"
  using decode_encode_state [OF assms(1,2)] assms(3) by (simp add: points_to_def)

text \<open>Errors that are not about persistence.\<close>

definition plain_faults :: "'s token_world \<Rightarrow> bool" where
  "plain_faults w =
     list_all (\<lambda>f. case fault_error f of None \<Rightarrow> True | Some e \<Rightarrow> \<not> is_PersistenceError e) (disk_faults w)"

lemma disk_step_cases:
  assumes "disk_step change w = (r, w')"
  defines "v \<equiv> w\<lparr>disk_faults := tl (disk_faults w)\<rparr>"
  shows "r = Inr () \<and> w' = change v \<or> (\<exists>e. r = Inl e \<and> (w' = v \<or> w' = change v))"
  using assms by (auto simp: disk_step_def with_fault_def split: fault.splits)

lemma disk_step_plain:
  assumes "disk_step change w = (Inl e, w')" "plain_faults w"
  shows "\<not> is_PersistenceError e"
  using assms
  by (cases "disk_faults w") (auto simp: disk_step_def with_fault_def plain_faults_def split: fault.splits)

lemma plain_faults_tl: "plain_faults w \<Longrightarrow> plain_faults (w\<lparr>disk_faults := tl (disk_faults w)\<rparr>)"
  by (cases "disk_faults w") (simp_all add: plain_faults_def)

text \<open>The state an update publishes, and its slot.\<close>

definition next_version :: "token_state option \<Rightarrow> int" where
  "next_version previous = (case previous of Some st \<Rightarrow> token_version st | None \<Rightarrow> 0) + 1"

definition next_state :: "string \<Rightarrow> token_state option \<Rightarrow> datetime \<Rightarrow> token_state" where
  "next_state c previous t =
     \<lparr>token_connection = c, token_version = next_version previous,
      token_reference = \<lparr>ref_connection = c, ref_name = slot_for_version (next_version previous)\<rparr>,
      updated_at = t, format_version = PInt TOKEN_STATE_FORMAT_VERSION\<rparr>"

definition next_slot :: "string \<Rightarrow> token_state option \<Rightarrow> string \<times> string" where
  "next_slot c previous = (c, slot_for_version (next_version previous))"

lemma slot_names: "secret_name (slot_for_version v)"
  by (simp add: slot_for_version_def secret_name_def lower_def json_digit_def)

lemma next_state_wf:
  assumes "connection_id c" "valid_datetime t" "utc_offset t = Some 0" "points_to P c previous"
  shows "wf_state (next_state c previous t)"
proof -
  have "1 \<le> next_version previous"
  proof (cases previous)
    case (Some st)
    then show ?thesis using loaded_connection assms(4) by (fastforce simp: wf_state_def next_version_def)
  qed (simp add: next_version_def)
  then show ?thesis
    using assms(1-3) by (simp add: wf_state_def next_state_def wf_reference_def slot_names)
qed

lemma not_same_next: "\<not> same_optional previous (Some (next_state c previous t))"
  by (cases previous) (simp_all add: same_state_def next_state_def next_version_def)

lemma same_optional_loaded: "points_to P c previous \<Longrightarrow> same_optional previous previous"
proof (cases previous)
  case (Some st)
  then show "points_to P c previous \<Longrightarrow> same_optional previous previous"
    using loaded_connection [of P c st] by (simp add: same_state_def wf_state_def)
qed simp

text \<open>\<open>seen slots P S w\<close>: the view is \<open>(P, S)\<close>; errors are tracked only when \<open>plain\<close> is asked for.\<close>

definition seen :: "('s \<Rightarrow> string \<times> string \<Rightarrow> slot) \<Rightarrow> bool \<Rightarrow> (string \<rightharpoonup> node) \<Rightarrow> (string \<times> string \<Rightarrow> slot) \<Rightarrow> 's token_world \<Rightarrow> bool" where
  "seen slots plain P S w = (token_view slots w = (P, S) \<and> (plain \<longrightarrow> plain_faults w))"

abbreviation ordinary :: "bool \<Rightarrow> exc \<Rightarrow> bool" where
  "ordinary plain e \<equiv> plain \<longrightarrow> \<not> is_PersistenceError e"

lemma seen_pointers: "seen slots p P S w \<Longrightarrow> pointers w = P"
  by (simp add: seen_def token_view_def)

lemma on_secrets_run: "on_secrets m w = (r, w') \<Longrightarrow> \<exists>s. m (secrets w) = (r, s) \<and> w' = w\<lparr>secrets := s\<rparr>"
  by (auto simp: on_secrets_def on_part_def split: prod.splits)

definition cleared :: "(string \<times> string \<Rightarrow> slot) \<Rightarrow> token_state option \<Rightarrow> string \<times> string \<Rightarrow> slot" where
  "cleared S previous =
     (case previous of None \<Rightarrow> S | Some st \<Rightarrow> S((token_connection st, ref_name (token_reference st)) := Empty))"

definition is_committed :: "exc \<Rightarrow> bool" where
  "is_committed e = (case e of MutationCommittedError _ \<Rightarrow> True | _ \<Rightarrow> False)"

lemma committed_persistence: "is_committed e \<Longrightarrow> is_PersistenceError e"
  by (auto simp: is_committed_def split: exc.splits)

text \<open>
  The two ways a publication can end: the pointers as they were and only the staged slot \<open>k\<close> touched,
  or the new pointer with the new secret in \<open>k\<close> and only the slot of the previous state touched.
\<close>

definition kept :: "('s \<Rightarrow> string \<times> string \<Rightarrow> slot) \<Rightarrow> (string \<rightharpoonup> node) \<Rightarrow> (string \<times> string \<Rightarrow> slot) \<Rightarrow> string \<times> string \<Rightarrow> 's token_world \<Rightarrow> bool" where
  "kept slots P S k w = (pointers w = P \<and> (\<forall>x. x \<noteq> k \<longrightarrow> slots (secrets w) x = S x))"

definition published ::
    "('s \<Rightarrow> string \<times> string \<Rightarrow> slot) \<Rightarrow> (string \<rightharpoonup> node) \<Rightarrow> (string \<times> string \<Rightarrow> slot) \<Rightarrow> string \<times> string \<Rightarrow> string \<Rightarrow> token_state option \<Rightarrow>
     's token_world \<Rightarrow> bool" where
  "published slots P' S k b previous w =
     (pointers w = P' \<and> (\<exists>S'. (S' = S(k := Sealed b) \<or> S' = cleared (S(k := Sealed b)) previous) \<and>
        slots (secrets w) = S'))"

lemma seen_kept: "seen slots p P (S(k := x)) w \<Longrightarrow> kept slots P S k w" "seen slots p P S w \<Longrightarrow> kept slots P S k w"
  by (auto simp: seen_def token_view_def kept_def)

lemma seen_published:
  "seen slots p P' (S(k := Sealed b)) w \<Longrightarrow> published slots P' S k b previous w"
  "seen slots p P' (cleared (S(k := Sealed b)) previous) w \<Longrightarrow> published slots P' S k b previous w"
  by (auto simp: seen_def token_view_def published_def)

lemma same_state_wf: "wf_state st \<Longrightarrow> same_state st st"
  by (simp add: same_state_def wf_state_def)

text \<open>What a publication leaves when it raises; \<open>p\<close> is that no fault is itself a persistence error.\<close>

definition publish_failed ::
    "('s \<Rightarrow> string \<times> string \<Rightarrow> slot) \<Rightarrow> bool \<Rightarrow> (string \<rightharpoonup> node) \<Rightarrow> (string \<times> string \<Rightarrow> slot) \<Rightarrow> string \<Rightarrow> token_state option \<Rightarrow> string option \<Rightarrow> datetime \<Rightarrow>
     exc \<Rightarrow> 's token_world \<Rightarrow> bool" where
  "publish_failed slots p P S c previous value t e w =
     (kept slots P S (next_slot c previous) w \<and> (p \<longrightarrow> \<not> is_committed e) \<or>
      (\<exists>b enc. value = Some b \<and> encode_state (next_state c previous t) = Inr enc \<and> utc_offset t = Some 0 \<and>
        published slots (P(c \<mapsto> File enc)) S (next_slot c previous) b previous w \<and> is_PersistenceError e))"

definition publish_done ::
    "('s \<Rightarrow> string \<times> string \<Rightarrow> slot) \<Rightarrow> bool \<Rightarrow> (string \<rightharpoonup> node) \<Rightarrow> (string \<times> string \<Rightarrow> slot) \<Rightarrow> string \<Rightarrow> token_state option \<Rightarrow> string option \<Rightarrow> datetime \<Rightarrow>
     token_state \<Rightarrow> 's token_world \<Rightarrow> bool" where
  "publish_done slots p P S c previous value t next w =
     (next = next_state c previous t \<and> utc_offset t = Some 0 \<and>
      (\<exists>b enc. value = Some b \<and> encode_state next = Inr enc \<and>
        seen slots p (P(c \<mapsto> File enc)) (cleared (S(next_slot c previous := Sealed b)) previous) w))"

context secret_custody
begin

lemma triple_seen_disk:
  assumes "\<And>w. pointers (change w) = f (pointers w)" "\<And>w. secrets (change w) = secrets w"
    "\<And>w. disk_faults (change w) = disk_faults w"
  shows "triple (seen slots p P S) (disk_step change) (\<lambda>_. seen slots p (f P) S)
    (\<lambda>e w. ordinary p e \<and> (seen slots p P S w \<or> seen slots p (f P) S w))"
proof (rule tripleI)
  fix w x w' assume w: "seen slots p P S w" "disk_step change w = (Inr x, w')"
  then show "seen slots p (f P) S w'"
    using disk_step_cases [OF w(2)] assms plain_faults_tl [of w]
    by (auto simp: seen_def token_view_def plain_faults_def)
next
  fix w e w' assume w: "seen slots p P S w" "disk_step change w = (Inl e, w')"
  then show "ordinary p e \<and> (seen slots p P S w' \<or> seen slots p (f P) S w')"
    using disk_step_cases [OF w(2)] disk_step_plain [OF w(2)] assms plain_faults_tl [of w]
    by (auto simp: seen_def token_view_def plain_faults_def)
qed

lemma triple_seen_idle: "triple (seen slots p P S) (disk_step id) (\<lambda>_. seen slots p P S) (\<lambda>e w. ordinary p e \<and> seen slots p P S w)"
  by (rule triple_conseq [OF triple_seen_disk [where f = id]]) auto

lemma triple_write_pointer:
  "triple (seen slots p P S) (write_pointer c b) (\<lambda>_. seen slots p (P(c \<mapsto> File b)) S)
    (\<lambda>e w. ordinary p e \<and> (seen slots p P S w \<or> seen slots p (P(c \<mapsto> File b)) S w))"
  unfolding write_pointer_def by (rule triple_seen_disk) simp_all

lemma triple_unlink_pointer:
  "triple (seen slots p P S) (unlink_pointer c) (\<lambda>_. seen slots p (P(c := None)) S)
    (\<lambda>e w. ordinary p e \<and> (seen slots p P S w \<or> seen slots p (P(c := None)) S w))"
  unfolding unlink_pointer_def by (rule triple_seen_disk) simp_all

lemma seen_secrets: "seen slots p P S w \<Longrightarrow> seen slots p P (slots s) (w\<lparr>secrets := s\<rparr>) \<and> slots (secrets w) = S"
  by (simp add: seen_def token_view_def plain_faults_def)

lemma triple_get_secret:
  "triple (seen slots p P S) (on_secrets (get_secret ops c n))
    (\<lambda>v w. seen slots p P S w \<and> S (c, n) = (case v of None \<Rightarrow> Empty | Some b \<Rightarrow> Sealed b))
    (\<lambda>e w. \<not> is_PersistenceError e \<and> seen slots p P S w)"
  by (rule tripleI; drule on_secrets_run; elim exE conjE)
    (metis seen_secrets get_slots get_value, metis seen_secrets get_slots get_plain)

lemma triple_set_secret:
  "triple (seen slots p P S) (on_secrets (set_secret ops c n b)) (\<lambda>_. seen slots p P (S((c, n) := Sealed b)))
    (\<lambda>e w. \<not> is_PersistenceError e \<and> (seen slots p P S w \<or> seen slots p P (S((c, n) := Sealed b)) w))"
  by (rule tripleI; drule on_secrets_run; elim exE conjE)
    (metis seen_secrets set_done, metis seen_secrets set_failed set_plain)

lemma triple_delete_secret:
  "triple (seen slots p P S) (on_secrets (delete_secret ops c n)) (\<lambda>_. seen slots p P (S((c, n) := Empty)))
    (\<lambda>e w. \<not> is_PersistenceError e \<and> (seen slots p P S w \<or> seen slots p P (S((c, n) := Empty)) w))"
  by (rule tripleI; drule on_secrets_run; elim exE conjE)
    (metis seen_secrets delete_done, metis seen_secrets delete_failed delete_plain)

lemma triple_read_pointer:
  "triple (seen slots p P S) (read_pointer c)
    (\<lambda>b w. seen slots p P S w \<and> P c = Some (File b) \<and> ilen b \<le> MAX_TOKEN_STATE_BYTES)
    (\<lambda>e w. ordinary p e \<and> seen slots p P S w)"
proof -
  have "triple (seen slots p P S)
      (andthen (observe (\<lambda>w. pointers w c)) (\<lambda>node. case node of
         Some (File b) \<Rightarrow> if MAX_TOKEN_STATE_BYTES < ilen b
           then fail (ValidationError ''connector token state exceeds its size bound'') else give b
       | Some Special \<Rightarrow> fail (ValidationError ''connector token state must be a regular file'')
       | None \<Rightarrow> fail (ValidationError ''could not inspect connector token state'')))
      (\<lambda>b w. seen slots p P S w \<and> P c = Some (File b) \<and> ilen b \<le> MAX_TOKEN_STATE_BYTES)
      (\<lambda>e w. ordinary p e \<and> seen slots p P S w)"
    by (auto simp: triple_def andthen_def observe_def pure_def seen_pointers split: option.splits node.splits)
  then show ?thesis
    unfolding read_pointer_def by (intro triple_andthen [OF triple_seen_idle])
qed

lemma triple_load:
  "triple (seen slots p P S) (load_unlocked c) (\<lambda>r w. seen slots p P S w \<and> points_to P c r) (\<lambda>e w. ordinary p e \<and> seen slots p P S w)"
proof -
  have read: "triple (seen slots p P S) (andthen (read_pointer c) (\<lambda>b. pure (bindE (decode_state b c) (\<lambda>st. Inr (Some st)))))
      (\<lambda>r w. seen slots p P S w \<and> points_to P c r) (\<lambda>e w. ordinary p e \<and> seen slots p P S w)"
    by (rule triple_andthen [OF triple_read_pointer], rule triple_pure_cases)
      (auto simp: bindE_Inr_iff bindE_Inl_iff points_to_def decode_state_plain)
  show ?thesis
  proof (rule triple_post)
    fix w assume w: "seen slots p P S w"
    show "case load_unlocked c w of (Inl e, w') \<Rightarrow> ordinary p e \<and> seen slots p P S w' | (Inr r, w') \<Rightarrow> seen slots p P S w' \<and> points_to P c r"
    proof (cases "P c")
      case None
      then show ?thesis
        using w by (simp add: load_unlocked_def andthen_def observe_def pure_def seen_pointers [OF w] points_to_def)
    next
      case (Some node)
      then show ?thesis
        using read w by (auto simp: load_unlocked_def andthen_def [of "observe _"] observe_def seen_pointers [OF w] triple_def)
    qed
  qed
qed

lemma triple_slot_requires_deletion:
  "triple (seen slots p P S) (slot_requires_deletion ops c n)
    (\<lambda>present w. seen slots p P S w \<and> (\<not> present \<longrightarrow> S (c, n) = Empty)) (\<lambda>e w. \<not> is_PersistenceError e \<and> seen slots p P S w)"
  unfolding slot_requires_deletion_def
proof (rule triple_catch)
  show "triple (seen slots p P S) (andthen (on_secrets (get_secret ops c n)) (\<lambda>v. give (v \<noteq> None)))
      (\<lambda>present w. seen slots p P S w \<and> (\<not> present \<longrightarrow> S (c, n) = Empty)) (\<lambda>e w. \<not> is_PersistenceError e \<and> seen slots p P S w)"
    by (rule triple_andthen [OF triple_get_secret], rule triple_pure_cases) (auto split: option.splits)
  show "triple (\<lambda>w. \<not> is_PersistenceError e \<and> seen slots p P S w) (if is_ValidationError e then give True else fail e)
      (\<lambda>present w. seen slots p P S w \<and> (\<not> present \<longrightarrow> S (c, n) = Empty)) (\<lambda>e w. \<not> is_PersistenceError e \<and> seen slots p P S w)" for e
    by (auto simp: triple_def pure_def)
qed

lemma triple_delete_slot:
  "triple (seen slots p P S) (delete_slot ops c n) (\<lambda>_. seen slots p P (S((c, n) := Empty)))
    (\<lambda>e w. \<not> is_PersistenceError e \<and> (seen slots p P S w \<or> seen slots p P (S((c, n) := Empty)) w))"
  unfolding delete_slot_def
proof (rule triple_andthen)
  show "triple (seen slots p P S) (slot_requires_deletion ops c n)
    (\<lambda>present w. seen slots p P S w \<and> (\<not> present \<longrightarrow> S (c, n) = Empty))
    (\<lambda>e w. \<not> is_PersistenceError e \<and> (seen slots p P S w \<or> seen slots p P (S((c, n) := Empty)) w))"
    by (rule triple_conseq [OF triple_slot_requires_deletion]) auto
  have del: "triple (seen slots p P S) (andthen (on_secrets (delete_secret ops c n)) (\<lambda>_. give True)) (\<lambda>_. seen slots p P (S((c, n) := Empty)))
    (\<lambda>e w. \<not> is_PersistenceError e \<and> (seen slots p P S w \<or> seen slots p P (S((c, n) := Empty)) w))"
    by (rule triple_andthen [OF triple_delete_secret], rule triple_pure_cases) auto
  show "triple (\<lambda>w. seen slots p P S w \<and> (\<not> present \<longrightarrow> S (c, n) = Empty))
      (if present then andthen (on_secrets (delete_secret ops c n)) (\<lambda>_. give True) else give False)
      (\<lambda>_. seen slots p P (S((c, n) := Empty)))
      (\<lambda>e w. \<not> is_PersistenceError e \<and> (seen slots p P S w \<or> seen slots p P (S((c, n) := Empty)) w))" for present
  proof (cases present)
    case True
    then show ?thesis using del by simp
  next
    case False
    then show ?thesis by (auto simp: triple_def pure_def fun_upd_idem)
  qed
qed

lemma triple_delete_previous:
  "triple (seen slots p P S) (delete_previous_after_commit ops previous) (\<lambda>_. seen slots p P (cleared S previous))
    (\<lambda>e w. is_committed e \<and> (seen slots p P S w \<or> seen slots p P (cleared S previous) w))"
proof (cases previous)
  case None
  then show ?thesis by (simp add: delete_previous_after_commit_def cleared_def triple_def pure_def)
next
  case (Some st)
  let ?c = "token_connection st" let ?n = "ref_name (token_reference st)"
  have "andthen (slot_requires_deletion ops ?c ?n) (\<lambda>present.
      if present then on_secrets (delete_secret ops ?c ?n) else give ()) w =
    (case delete_slot ops ?c ?n w of (Inl e, w') \<Rightarrow> (Inl e, w') | (Inr _, w') \<Rightarrow> (Inr (), w'))" for w
    by (auto simp: delete_slot_def andthen_def pure_def split: prod.splits sum.splits)
  then show ?thesis
    using triple_delete_slot [of p P S ?c ?n]
    by (simp add: Some delete_previous_after_commit_def cleared_def triple_def catch_def pure_def is_committed_def
        split: prod.splits sum.splits) blast
qed

lemma handle_failure_kept:
  assumes "points_to P c previous" "token_connection next = c"
    and "\<not> same_optional previous (Some next)" "same_optional previous previous"
    and k: "k = (c, ref_name (token_reference next))"
  shows "triple (seen slots p P (S(k := x))) (handle_publish_failure ops next previous e) (\<lambda>_ _. False)
    (\<lambda>e' w. kept slots P S k w \<and> (\<not> is_PersistenceError e \<longrightarrow> \<not> is_committed e'))"
  unfolding handle_publish_failure_def
proof (rule triple_attempt [OF triple_load])
  fix visible
  have del: "triple (seen slots p P (S(k := x)))
      (attempt (on_secrets (delete_secret ops (token_connection next) (ref_name (token_reference next))))
        (\<lambda>_. fail (DegradedIntegrityError ''token publication failed and staged secret cleanup also failed''))
        (\<lambda>_. fail e)) (\<lambda>_ _. False) (\<lambda>e' w. kept slots P S k w \<and> (\<not> is_PersistenceError e \<longrightarrow> \<not> is_committed e'))"
    by (rule triple_attempt [OF triple_delete_secret]; rule triple_pure_cases)
      (use assms(2) k in \<open>auto simp: is_committed_def dest: seen_kept committed_persistence split: exc.splits\<close>)
  show "triple (\<lambda>w. seen slots p P (S(k := x)) w \<and> points_to P (token_connection next) visible)
     (if same_optional visible (Some next) then
        andthen (delete_previous_after_commit ops previous) (\<lambda>_. fail (MutationCommittedError
          ''token update is visible, but durable publication reported a failure; reload''))
      else if \<not> same_optional visible previous then
        fail (DegradedIntegrityError ''token publication outcome is unknown; staged secret was retained'')
      else attempt (on_secrets (delete_secret ops (token_connection next) (ref_name (token_reference next))))
        (\<lambda>_. fail (DegradedIntegrityError ''token publication failed and staged secret cleanup also failed''))
        (\<lambda>_. fail e)) (\<lambda>_ _. False) (\<lambda>e' w. kept slots P S k w \<and> (\<not> is_PersistenceError e \<longrightarrow> \<not> is_committed e'))"
  proof (rule triple_fact [where A = "visible = previous"])
    show "visible = previous" if "seen slots p P (S(k := x)) w \<and> points_to P (token_connection next) visible" for w
      using that assms(1,2) loaded_functional by blast
    assume "visible = previous"
    then show ?thesis
      using del assms(3,4) by (auto intro: triple_conseq)
  qed
next
  show "triple (\<lambda>w. ordinary p e' \<and> seen slots p P (S(k := x)) w)
      (fail (DegradedIntegrityError ''token publication outcome is unknown; staged secret was retained''))
      (\<lambda>_ _. False) (\<lambda>e' w. kept slots P S k w \<and> (\<not> is_PersistenceError e \<longrightarrow> \<not> is_committed e'))" for e'
    by (rule triple_pure_cases) (auto simp: is_committed_def dest: seen_kept)
qed

lemma handle_failure_published:
  assumes "points_to P' c (Some next)" "token_connection next = c" "wf_state next"
  shows "triple (seen slots p P' (S(k := Sealed b))) (handle_publish_failure ops next previous e) (\<lambda>_ _. False)
    (\<lambda>e' w. published slots P' S k b previous w \<and> is_PersistenceError e')"
  unfolding handle_publish_failure_def
proof (rule triple_attempt [OF triple_load])
  fix visible
  have del: "triple (seen slots p P' (S(k := Sealed b)))
      (andthen (delete_previous_after_commit ops previous) (\<lambda>_. fail (MutationCommittedError
          ''token update is visible, but durable publication reported a failure; reload'')))
      (\<lambda>_ _. False) (\<lambda>e' w. published slots P' S k b previous w \<and> is_PersistenceError e')"
  proof (rule triple_andthen)
    show "triple (seen slots p P' (S(k := Sealed b))) (delete_previous_after_commit ops previous)
      (\<lambda>_. seen slots p P' (cleared (S(k := Sealed b)) previous))
      (\<lambda>e' w. published slots P' S k b previous w \<and> is_PersistenceError e')"
      by (rule triple_conseq [OF triple_delete_previous]) (auto dest: seen_published committed_persistence)
    show "triple (seen slots p P' (cleared (S(k := Sealed b)) previous)) (fail (MutationCommittedError
        ''token update is visible, but durable publication reported a failure; reload''))
      (\<lambda>_ _. False) (\<lambda>e' w. published slots P' S k b previous w \<and> is_PersistenceError e')"
      by (rule triple_pure_cases) (auto dest: seen_published)
  qed
  show "triple (\<lambda>w. seen slots p P' (S(k := Sealed b)) w \<and> points_to P' (token_connection next) visible)
     (if same_optional visible (Some next) then
        andthen (delete_previous_after_commit ops previous) (\<lambda>_. fail (MutationCommittedError
          ''token update is visible, but durable publication reported a failure; reload''))
      else if \<not> same_optional visible previous then
        fail (DegradedIntegrityError ''token publication outcome is unknown; staged secret was retained'')
      else attempt (on_secrets (delete_secret ops (token_connection next) (ref_name (token_reference next))))
        (\<lambda>_. fail (DegradedIntegrityError ''token publication failed and staged secret cleanup also failed''))
        (\<lambda>_. fail e)) (\<lambda>_ _. False) (\<lambda>e' w. published slots P' S k b previous w \<and> is_PersistenceError e')"
  proof (rule triple_fact [where A = "visible = Some next"])
    show "visible = Some next" if "seen slots p P' (S(k := Sealed b)) w \<and> points_to P' (token_connection next) visible" for w
      using that assms(1,2) loaded_functional by blast
    assume "visible = Some next"
    then show ?thesis
      using del same_state_wf [OF assms(3)] by (auto intro: triple_conseq)
  qed
next
  show "triple (\<lambda>w. ordinary p e' \<and> seen slots p P' (S(k := Sealed b)) w)
      (fail (DegradedIntegrityError ''token publication outcome is unknown; staged secret was retained''))
      (\<lambda>_ _. False) (\<lambda>e' w. published slots P' S k b previous w \<and> is_PersistenceError e')" for e'
    by (rule triple_pure_cases) (auto dest: seen_published)
qed

lemma triple_write_next:
  assumes "connection_id c" "valid_datetime t" "utc_offset t = Some 0" "points_to P c previous" "value = Some b"
  shows "triple (seen slots p P (S(next_slot c previous := Sealed b)))
    (catch (andthen (pure (encode_state (next_state c previous t))) (write_pointer c))
      (handle_publish_failure ops (next_state c previous t) previous))
    (\<lambda>_ w. \<exists>enc. encode_state (next_state c previous t) = Inr enc \<and>
      seen slots p (P(c \<mapsto> File enc)) (S(next_slot c previous := Sealed b)) w)
    (publish_failed slots p P S c previous value t)"
proof (cases "encode_state (next_state c previous t)")
  case (Inl e)
  have "\<not> is_PersistenceError e" using plain_encode_state [of "next_state c previous t"] Inl by simp
  moreover have "triple (seen slots p P (S(next_slot c previous := Sealed b)))
      (handle_publish_failure ops (next_state c previous t) previous e) (\<lambda>_ _. False)
      (\<lambda>e' w. kept slots P S (next_slot c previous) w \<and> (\<not> is_PersistenceError e \<longrightarrow> \<not> is_committed e'))"
    using assms(4) not_same_next same_optional_loaded [OF assms(4)]
    by (intro handle_failure_kept) (simp_all add: next_state_def next_slot_def)
  ultimately show ?thesis
    by (auto simp: Inl triple_def catch_def andthen_def pure_def publish_failed_def split: prod.splits sum.splits)
next
  case (Inr enc)
  let ?next = "next_state c previous t" and ?k = "next_slot c previous"
  have wf: "wf_state ?next" by (rule next_state_wf [OF assms(1-4)])
  have conn: "token_connection ?next = c" by (simp add: next_state_def)
  have pub: "points_to (P(c \<mapsto> File enc)) c (Some ?next)" by (rule loaded_published [OF wf Inr conn])
  have "triple (seen slots p P (S(?k := Sealed b))) (catch (write_pointer c enc) (handle_publish_failure ops ?next previous))
    (\<lambda>_ w. encode_state ?next = Inr enc \<and> seen slots p (P(c \<mapsto> File enc)) (S(?k := Sealed b)) w)
    (publish_failed slots p P S c previous value t)"
  proof (rule triple_catch)
    show "triple (seen slots p P (S(?k := Sealed b))) (write_pointer c enc)
      (\<lambda>_ w. encode_state ?next = Inr enc \<and> seen slots p (P(c \<mapsto> File enc)) (S(?k := Sealed b)) w)
      (\<lambda>e w. ordinary p e \<and> (seen slots p P (S(?k := Sealed b)) w \<or> seen slots p (P(c \<mapsto> File enc)) (S(?k := Sealed b)) w))"
      by (rule triple_conseq [OF triple_write_pointer]) (auto simp: Inr)
    show "triple (\<lambda>w. ordinary p e \<and> (seen slots p P (S(?k := Sealed b)) w \<or> seen slots p (P(c \<mapsto> File enc)) (S(?k := Sealed b)) w))
      (handle_publish_failure ops ?next previous e)
      (\<lambda>_ w. encode_state ?next = Inr enc \<and> seen slots p (P(c \<mapsto> File enc)) (S(?k := Sealed b)) w)
      (publish_failed slots p P S c previous value t)" for e
    proof (rule triple_fact [where A = "ordinary p e"])
      assume ord: "ordinary p e"
      have "triple (\<lambda>w. seen slots p P (S(?k := Sealed b)) w \<or> seen slots p (P(c \<mapsto> File enc)) (S(?k := Sealed b)) w)
        (handle_publish_failure ops ?next previous e)
        (\<lambda>_ w. encode_state ?next = Inr enc \<and> seen slots p (P(c \<mapsto> File enc)) (S(?k := Sealed b)) w)
        (publish_failed slots p P S c previous value t)"
      proof (rule triple_disj)
        show "triple (seen slots p P (S(?k := Sealed b))) (handle_publish_failure ops ?next previous e)
          (\<lambda>_ w. encode_state ?next = Inr enc \<and> seen slots p (P(c \<mapsto> File enc)) (S(?k := Sealed b)) w)
          (publish_failed slots p P S c previous value t)"
          by (rule triple_conseq [OF handle_failure_kept [OF assms(4) conn not_same_next same_optional_loaded [OF assms(4)], where k = ?k and e = e]])
            (use ord in \<open>auto simp: next_slot_def next_state_def publish_failed_def\<close>)
        show "triple (seen slots p (P(c \<mapsto> File enc)) (S(?k := Sealed b))) (handle_publish_failure ops ?next previous e)
          (\<lambda>_ w. encode_state ?next = Inr enc \<and> seen slots p (P(c \<mapsto> File enc)) (S(?k := Sealed b)) w)
          (publish_failed slots p P S c previous value t)"
          by (rule triple_conseq [OF handle_failure_published [OF pub conn wf]])
            (use assms(3,5) Inr in \<open>auto simp: publish_failed_def\<close>)
      qed
      then show ?thesis by (rule triple_conseq) auto
    qed simp
  qed
  then show ?thesis by (simp add: Inr triple_def catch_def andthen_def pure_def)
qed

lemma publish_refused:
  assumes "connection_id c"
    "token_bytes value = Inl (ValidationError ''token bundle is empty or exceeds its size bound'') \<or> utc_offset t \<noteq> Some 0"
  obtains e where "publish_unlocked ops c previous value t = fail e" "\<not> is_committed e"
proof (cases "token_bytes value")
  case (Inl e)
  then have "publish_unlocked ops c previous value t = fail e"
    by (intro ext) (simp add: publish_unlocked_def andthen_def pure_def)
  moreover have "\<not> is_committed e"
    using Inl by (auto simp: token_bytes_def is_committed_def split: option.splits if_splits)
  ultimately show ?thesis by (rule that)
next
  case (Inr b)
  let ?v = "next_version previous" let ?r = "\<lparr>ref_connection = c, ref_name = slot_for_version ?v\<rparr>"
  obtain e where m: "make_token_state c ?v ?r t (PInt TOKEN_STATE_FORMAT_VERSION) = Inl e" "\<not> is_PersistenceError e"
  proof (cases "make_token_state c ?v ?r t (PInt TOKEN_STATE_FORMAT_VERSION)")
    case (Inl e)
    then show ?thesis using that plain_make_token_state [of c ?v ?r t "PInt TOKEN_STATE_FORMAT_VERSION"] by simp
  next
    case (Inr st)
    then show ?thesis using assms(2) \<open>token_bytes value = Inr b\<close> by (simp add: make_token_state_Inr)
  qed
  have r: "make_reference c (slot_for_version ?v) = Inr ?r"
    using assms(1) slot_names by simp
  have "publish_unlocked ops c previous value t = fail e"
    by (intro ext) (simp add: publish_unlocked_def andthen_def pure_def Inr r m Let_def flip: next_version_def)
  then show ?thesis
    using that m(2) committed_persistence by blast
qed

lemma triple_finish:
  assumes "utc_offset t = Some 0" "value = Some b"
  shows "triple (\<lambda>w. \<exists>enc. encode_state (next_state c previous t) = Inr enc \<and>
      seen slots p (P(c \<mapsto> File enc)) (S(next_slot c previous := Sealed b)) w)
    (andthen (delete_previous_after_commit ops previous) (\<lambda>_. give (next_state c previous t)))
    (publish_done slots p P S c previous value t) (publish_failed slots p P S c previous value t)"
proof (cases "encode_state (next_state c previous t)")
  case (Inr enc)
  show ?thesis
  proof (rule triple_andthen)
    show "triple (\<lambda>w. \<exists>enc. encode_state (next_state c previous t) = Inr enc \<and>
        seen slots p (P(c \<mapsto> File enc)) (S(next_slot c previous := Sealed b)) w)
      (delete_previous_after_commit ops previous)
      (\<lambda>_. seen slots p (P(c \<mapsto> File enc)) (cleared (S(next_slot c previous := Sealed b)) previous))
      (publish_failed slots p P S c previous value t)"
      by (rule triple_conseq [OF triple_delete_previous [where P = "P(c \<mapsto> File enc)" and p = p and S = "S(next_slot c previous := Sealed b)"]])
        (use assms Inr in \<open>auto simp: publish_failed_def dest: seen_published committed_persistence\<close>)
  qed (rule triple_pure_cases; use assms Inr in \<open>auto simp: publish_done_def\<close>)
qed (simp add: triple_def)

theorem triple_publish:
  assumes "connection_id c" "valid_datetime t" "points_to P c previous"
  shows "triple (seen slots p P S) (publish_unlocked ops c previous value t)
    (publish_done slots p P S c previous value t) (publish_failed slots p P S c previous value t)"
proof (cases "token_bytes value = Inl (ValidationError ''token bundle is empty or exceeds its size bound'') \<or>
    utc_offset t \<noteq> Some 0")
  case True
  then obtain e where "publish_unlocked ops c previous value t = fail e" "\<not> is_committed e"
    using publish_refused assms(1) by blast
  then show ?thesis
    by (auto simp: triple_def pure_def publish_failed_def dest: seen_kept)
next
  case False
  then obtain b where b: "value = Some b" "token_bytes value = Inr b" and z: "utc_offset t = Some 0"
    by (auto simp: token_bytes_def split: option.splits if_splits)
  have wf: "wf_state (next_state c previous t)" by (rule next_state_wf [OF assms(1,2) z assms(3)])
  have m: "make_token_state c (next_version previous) \<lparr>ref_connection = c, ref_name = slot_for_version (next_version previous)\<rparr>
      t (PInt TOKEN_STATE_FORMAT_VERSION) = Inr (next_state c previous t)"
    using wf by (simp add: make_token_state_Inr next_state_def wf_state_def)
  have r: "make_reference c (slot_for_version v) = Inr \<lparr>ref_connection = c, ref_name = slot_for_version v\<rparr>" for v
    using assms(1) slot_names by simp
  have eq: "publish_unlocked ops c previous value t =
    andthen (on_secrets (set_secret ops c (slot_for_version (next_version previous)) b)) (\<lambda>_.
    andthen (catch (andthen (pure (encode_state (next_state c previous t))) (write_pointer c))
      (handle_publish_failure ops (next_state c previous t) previous)) (\<lambda>_.
    andthen (delete_previous_after_commit ops previous) (\<lambda>_. give (next_state c previous t))))"
    by (rule ext) (simp add: publish_unlocked_def andthen_def pure_def b(1) b(2) [unfolded b(1)] r m Let_def flip: next_version_def)
  have set: "triple (seen slots p P S) (on_secrets (set_secret ops c (slot_for_version (next_version previous)) b))
    (\<lambda>_. seen slots p P (S(next_slot c previous := Sealed b))) (publish_failed slots p P S c previous value t)"
    by (rule triple_conseq [OF triple_set_secret])
      (auto simp: next_slot_def publish_failed_def dest: seen_kept committed_persistence)
  show ?thesis
    unfolding eq
    by (rule triple_andthen [OF set], rule triple_andthen [OF triple_write_next [OF assms(1,2) z assms(3) b(1)]],
      rule triple_finish [OF z b(1)])
qed

end

end
