(* ===== verification/Token_Register.thy ===== *)
theory Token_Register
  imports Token_Safety
begin

section \<open>A versioned register\<close>

text \<open>
  What the token store promises: for each connection an atomic register that holds a version and a
  credential. The view of the state is abstracted to it; every operation, whatever faults occur, is a
  step of the register, and the registers of other connections do not change.
\<close>

type_synonym register = "(int \<times> string option) option"

fun held :: "slot \<Rightarrow> string option" where
  "held (Sealed b) = Some b"
| "held _ = None"

definition register_of :: "token_view \<Rightarrow> string \<Rightarrow> register" where
  "register_of v c =
     (case fst v c of
        Some (File b) \<Rightarrow> (case decode_state b c of
            Inr st \<Rightarrow> Some (token_version st, held (snd v (c, ref_name (token_reference st)))) | Inl _ \<Rightarrow> None)
      | _ \<Rightarrow> None)"

definition version_of :: "register \<Rightarrow> int" where
  "version_of r = (case r of None \<Rightarrow> 0 | Some (v, _) \<Rightarrow> v)"

text \<open>The pointer is absent, or readable and naming the slot of its version.\<close>

definition in_place :: "token_state option \<Rightarrow> bool" where
  "in_place r = (case r of None \<Rightarrow> True | Some st \<Rightarrow> ref_name (token_reference st) = slot_for_version (token_version st))"

definition settled :: "token_view \<Rightarrow> string \<Rightarrow> bool" where
  "settled v c = (\<exists>r. points_to (fst v) c r \<and> in_place r)"

definition others_same :: "string \<Rightarrow> token_view \<Rightarrow> token_view \<Rightarrow> bool" where
  "others_same c v v' = (\<forall>d. d \<noteq> c \<longrightarrow> fst v' d = fst v d \<and> (\<forall>n. snd v' (d, n) = snd v (d, n)))"

definition moves :: "string \<Rightarrow> token_view \<Rightarrow> token_view \<Rightarrow> bool" where
  "moves c v v' = (settled v' c \<and> others_same c v v')"

lemma register_loaded:
  "points_to P c None \<Longrightarrow> register_of (P, S) c = None"
  "points_to P c (Some st) \<Longrightarrow> register_of (P, S) c = Some (token_version st, held (S (c, ref_name (token_reference st))))"
  by (auto simp: points_to_def register_of_def)

lemma version_loaded: "points_to P c r \<Longrightarrow> version_of (register_of (P, S) c) + 1 = next_version r"
  by (cases r) (simp_all add: register_loaded version_of_def next_version_def)

lemma settled_others: "others_same c v v' \<Longrightarrow> d \<noteq> c \<Longrightarrow> settled v' d = settled v d \<and> register_of v' d = register_of v d"
  by (simp add: others_same_def settled_def points_to_def register_of_def split: option.splits node.splits sum.splits)

lemma moves_refl: "settled v c \<Longrightarrow> moves c v v"
  by (simp add: moves_def others_same_def)

lemma moves_trans: "moves c v v' \<Longrightarrow> moves c v' v'' \<Longrightarrow> moves c v v''"
  by (simp add: moves_def others_same_def)

lemma slots_alternate: "slot_for_version (v + 1) \<noteq> slot_for_version v"
  by (simp add: slot_for_version_def) presburger

lemma kept_register:
  assumes "kept slots P S (next_slot c previous) w" "points_to P c previous" "in_place previous"
  shows "moves c (P, S) (token_view slots w) \<and> register_of (token_view slots w) c = register_of (P, S) c"
proof -
  have same: "slots (secrets w) x = S x" if "x \<noteq> next_slot c previous" for x
    using assms(1) that unfolding kept_def by blast
  have "settled (token_view slots w) c" "others_same c (P, S) (token_view slots w)"
    using assms same by (auto simp: settled_def token_view_def kept_def others_same_def next_slot_def)
  moreover have "register_of (P, slots (secrets w)) c = register_of (P, S) c"
  proof (cases previous)
    case (Some st)
    then have "(c, ref_name (token_reference st)) \<noteq> next_slot c previous"
      using assms(3) slots_alternate [of "token_version st"] by (auto simp: in_place_def next_slot_def next_version_def)
    then show ?thesis using Some assms(2) same by (simp add: register_loaded)
  qed (use assms(2) in \<open>simp add: register_loaded\<close>)
  ultimately show ?thesis
    using assms(1) by (simp add: moves_def token_view_def kept_def)
qed

lemma cleared_other: "points_to P c previous \<Longrightarrow> d \<noteq> c \<Longrightarrow> cleared S previous (d, n) = S (d, n)"
  by (auto simp: cleared_def dest: loaded_connection split: option.splits)

lemma published_register:
  assumes "published slots (P(c \<mapsto> File enc)) S (next_slot c previous) b previous w"
    and "points_to P c previous" "in_place previous"
    and "wf_state (next_state c previous t)" "encode_state (next_state c previous t) = Inr enc"
  shows "moves c (P, S) (token_view slots w) \<and>
    register_of (token_view slots w) c = Some (version_of (register_of (P, S) c) + 1, Some b)"
proof -
  let ?next = "next_state c previous t"
  have l: "points_to (P(c \<mapsto> File enc)) c (Some ?next)"
    by (rule loaded_published [OF assms(4,5)]) (simp add: next_state_def)
  have name: "(c, ref_name (token_reference ?next)) = next_slot c previous" "token_version ?next = next_version previous"
    by (simp_all add: next_state_def next_slot_def)
  from assms(1) have P: "pointers w = P(c \<mapsto> File enc)"
    and S: "slots (secrets w) = S(next_slot c previous := Sealed b) \<or>
      slots (secrets w) = cleared (S(next_slot c previous := Sealed b)) previous"
    by (auto simp: published_def)
  have "cleared T previous (next_slot c previous) = T (next_slot c previous)" for T
    using loaded_connection assms(2,3) slots_alternate
    by (fastforce simp: cleared_def next_slot_def next_version_def in_place_def split: option.splits)
  then have "slots (secrets w) (next_slot c previous) = Sealed b"
    using S by auto
  then have "register_of (token_view slots w) c = Some (next_version previous, Some b)"
    using register_loaded(2) [OF l] name by (simp add: token_view_def P)
  moreover have "settled (token_view slots w) c"
    using l by (auto simp: settled_def token_view_def P in_place_def next_state_def)
  moreover have "others_same c (P, S) (token_view slots w)"
    using S cleared_other [OF assms(2)] by (auto simp: others_same_def token_view_def P next_slot_def)
  ultimately show ?thesis
    using version_loaded [OF assms(2)] by (simp add: moves_def)
qed

end
