(* ===== verification/Token_Steps.thy ===== *)
theory Token_Steps
  imports Token_Register
begin

section \<open>Every operation is a step of the register\<close>

definition attempted :: "register \<Rightarrow> string option \<Rightarrow> register \<Rightarrow> bool" where
  "attempted r value r' = (\<exists>b. value = Some b \<and> r' = Some (version_of r + 1, Some b))"

definition updated :: "string \<Rightarrow> token_view \<Rightarrow> string option \<Rightarrow> token_state \<Rightarrow> token_view \<Rightarrow> bool" where
  "updated c v value st v' =
     (moves c v v' \<and> attempted (register_of v c) value (register_of v' c)
      \<and> token_version st = version_of (register_of v c) + 1)"

text \<open>An update that raises: the register stays, or it has moved. Only a register that moved is reported as committed.\<close>

definition update_raised :: "bool \<Rightarrow> string \<Rightarrow> token_view \<Rightarrow> string option \<Rightarrow> exc \<Rightarrow> token_view \<Rightarrow> bool" where
  "update_raised p c v value e v' =
     (moves c v v' \<and>
      (register_of v' c = register_of v c \<and> (p \<longrightarrow> \<not> is_committed e)
       \<or> attempted (register_of v c) value (register_of v' c)))"

definition refreshed :: "string \<Rightarrow> token_view \<Rightarrow> (token_state \<times> string \<Rightarrow> transformed result) \<Rightarrow> token_state \<times> string \<Rightarrow>
    token_view \<Rightarrow> bool" where
  "refreshed c v f x v' =
     (moves c v v' \<and> (\<exists>st b. register_of v c = Some (token_version st, Some b) \<and>
       (f (st, b) = Inr Declined \<and> x = (st, b) \<and> register_of v' c = register_of v c \<or>
        f (st, b) = Inr (Replaced (Some (snd x))) \<and> token_version (fst x) = token_version st + 1 \<and>
        register_of v' c = Some (token_version st + 1, Some (snd x)))))"

definition refresh_raised :: "string \<Rightarrow> token_view \<Rightarrow> (token_state \<times> string \<Rightarrow> transformed result) \<Rightarrow> token_view \<Rightarrow> bool" where
  "refresh_raised c v f v' =
     (moves c v v' \<and> (register_of v' c = register_of v c \<or>
       (\<exists>st b b'. register_of v c = Some (token_version st, Some b) \<and> f (st, b) = Inr (Replaced (Some b')) \<and>
         register_of v' c = Some (token_version st + 1, Some b'))))"

definition importable :: "string \<Rightarrow> (string \<times> string \<Rightarrow> slot) \<Rightarrow> string \<Rightarrow> token_state option \<Rightarrow> bool" where
  "importable c S b r =
     (S (c, ''token-slot-b'') = Empty \<and>
      (case r of None \<Rightarrow> S (c, ''token-slot-a'') \<in> {Empty, Sealed b}
       | Some st \<Rightarrow> token_version st = 1 \<and> ref_name (token_reference st) = ''token-slot-a'' \<and>
           S (c, ''token-slot-a'') = Sealed b))"

definition imported :: "string \<Rightarrow> token_view \<Rightarrow> string \<Rightarrow> token_view \<Rightarrow> bool" where
  "imported c v b v' =
     (moves c v v' \<and> register_of v c \<in> {None, Some (1, Some b)} \<and> register_of v' c = Some (1, Some b))"

definition import_raised :: "string \<Rightarrow> token_view \<Rightarrow> string \<Rightarrow> token_view \<Rightarrow> bool" where
  "import_raised c v b v' = (moves c v v' \<and> register_of v' c = register_of v c \<or> imported c v b v')"

abbreviation emptied :: "string \<Rightarrow> (string \<times> string \<Rightarrow> slot) \<Rightarrow> string \<times> string \<Rightarrow> slot" where
  "emptied c S \<equiv> S((c, ''token-slot-a'') := Empty, (c, ''token-slot-b'') := Empty)"

abbreviation view_post ::
    "('s \<Rightarrow> string \<times> string \<Rightarrow> slot) \<Rightarrow> bool \<Rightarrow> (token_view \<Rightarrow> bool) \<Rightarrow> 's token_world \<Rightarrow> bool" where
  "view_post slots p R w \<equiv> (p \<longrightarrow> plain_faults w) \<and> R (token_view slots w)"

lemma update_raised_same:
  "settled v c \<Longrightarrow> ordinary p e \<Longrightarrow> update_raised p c v value e v"
  by (auto simp: update_raised_def moves_refl dest: committed_persistence)

lemma update_raised_late: "updated c v value st v' \<Longrightarrow> update_raised p c v value e v'"
  by (simp add: update_raised_def updated_def)

lemma imported_raised: "imported c v b v' \<Longrightarrow> import_raised c v b v'"
  by (simp add: import_raised_def)

lemma seen_plain: "seen slots p P S w \<Longrightarrow> p \<Longrightarrow> plain_faults w"
  by (simp add: seen_def)

lemma seen_view: "seen slots p P S w \<Longrightarrow> token_view slots w = (P, S)"
  by (simp add: seen_def)

lemma plain_results:
  "parse_connection_id x = Inl e \<Longrightarrow> \<not> is_PersistenceError e"
  "token_bytes y = Inl e \<Longrightarrow> \<not> is_PersistenceError e"
  "format_utc t = Inl e \<Longrightarrow> \<not> is_PersistenceError e"
  using plain_parsers(1) [of x] plain_parsers(3) [of t]
  by (auto simp: token_bytes_def split: if_splits option.splits)

lemma andthen_pure [simp]: "andthen (give x) f = f x" "andthen (fail e) f = fail e"
  by (simp_all add: fun_eq_iff andthen_def pure_def)

lemma parse_id_cases:
  obtains e where "parse_connection_id (PStr c) = Inl e" "\<not> is_PersistenceError e"
  | "connection_id c" "parse_connection_id (PStr c) = Inr c"
proof (cases "parse_connection_id (PStr c)")
  case (Inl e)
  then show ?thesis using that(1) plain_results(1) by blast
next
  case (Inr d)
  then show ?thesis using that(2) by simp
qed

text \<open>The checks of the arguments come first: an operation is an error that is not about persistence, or its body.\<close>

lemma update_token_checks:
  obtains e where "update_token ops (PStr c) (PInt i) value t = fail e" "\<not> is_PersistenceError e"
  | "connection_id c" "update_token ops (PStr c) (PInt i) value t = locked (
       andthen (load_unlocked c) (\<lambda>current.
       andthen (require ((case current of Some st \<Rightarrow> token_version st | None \<Rightarrow> 0) = i)
         (ConflictError ''connector token changed; reload before updating'')) (\<lambda>_.
       publish_unlocked ops c current value t)))"
proof (cases "parse_connection_id (PStr c)"; cases "token_bytes value"; cases "format_utc t"; cases "i < 0")
qed (auto simp: update_token_def intro: that dest: plain_results)

lemma ensure_imported_checks:
  obtains e where "ensure_imported ops (PStr c) (Some b) t = fail e"
  | "connection_id c" "utc_offset t = Some 0" "ensure_imported ops (PStr c) (Some b) t = locked (
       andthen (assert_import_compatible_unlocked ops c b) (\<lambda>_.
       andthen (load_unlocked c) (\<lambda>current.
         case current of
           Some st \<Rightarrow>
             attempt (andthen (pure (encode_state st)) (write_pointer c))
               (\<lambda>_. fail (DegradedIntegrityError
                 ''credential import durability is unconfirmed; rerun the same archive''))
               (\<lambda>_. give st)
         | None \<Rightarrow>
             andthen (pure (make_reference c ''token-slot-a'')) (\<lambda>r.
             andthen (pure (make_token_state c 1 r t (PInt TOKEN_STATE_FORMAT_VERSION))) (\<lambda>st.
             attempt
               (andthen (on_secrets (get_secret ops c ''token-slot-a'')) (\<lambda>first.
                andthen (if first = None then on_secrets (set_secret ops c ''token-slot-a'' b) else give ()) (\<lambda>_.
                andthen (pure (encode_state st)) (write_pointer c))))
               (\<lambda>_. fail (DegradedIntegrityError
                 ''credential import may be partially committed; rerun the same archive''))
               (\<lambda>_. give st))))))"
proof (cases "parse_connection_id (PStr c)"; cases "token_bytes (Some b)"; cases "format_utc t")
qed (auto simp: ensure_imported_def token_bytes_def format_utc_def validate_utc_def bindE_Inr_iff
    intro: that split: if_splits)

lemma first_state:
  assumes "connection_id c" "utc_offset t = Some 0"
  shows "make_reference c ''token-slot-a'' = Inr \<lparr>ref_connection = c, ref_name = ''token-slot-a''\<rparr>"
    "make_token_state c 1 \<lparr>ref_connection = c, ref_name = ''token-slot-a''\<rparr> t (PInt TOKEN_STATE_FORMAT_VERSION) =
      Inr (next_state c None t)"
  using assms slot_names [of 1]
  by (simp_all add: make_token_state_Inr next_state_def next_version_def slot_for_version_def)

context secret_custody
begin

lemma triple_idle_view:
  "triple (view_post slots p R) (disk_step id) (\<lambda>_. view_post slots p R) (\<lambda>e w. ordinary p e \<and> R (token_view slots w))"
proof (rule tripleI)
  fix w x w' assume w: "view_post slots p R w" "disk_step id w = (Inr x, w')"
  then show "view_post slots p R w'"
    using disk_step_cases [OF w(2)] plain_faults_tl [of w] by (auto simp: token_view_def)
next
  fix w e w' assume w: "view_post slots p R w" "disk_step id w = (Inl e, w')"
  then show "ordinary p e \<and> R (token_view slots w')"
    using disk_step_cases [OF w(2)] disk_step_plain [OF w(2)] by (auto simp: token_view_def)
qed

lemma triple_locked:
  assumes "triple (seen slots p P S) m (\<lambda>x. view_post slots p (R x)) (\<lambda>e w. E e (token_view slots w))"
    and "\<And>e. ordinary p e \<Longrightarrow> E e (P, S)" "\<And>e x v. ordinary p e \<Longrightarrow> R x v \<Longrightarrow> E e v"
  shows "triple (seen slots p P S) (locked m) (\<lambda>x. view_post slots p (R x)) (\<lambda>e w. E e (token_view slots w))"
proof -
  have idle: "triple (seen slots p P S) (disk_step id) (\<lambda>_. seen slots p P S) (\<lambda>e w. E e (token_view slots w))"
    by (rule triple_conseq [OF triple_seen_idle]) (auto simp: seen_view assms(2))
  have last: "triple (view_post slots p (R x)) (andthen (disk_step id) (\<lambda>_. give x))
      (\<lambda>x. view_post slots p (R x)) (\<lambda>e w. E e (token_view slots w))" for x
    by (rule triple_andthen [where R = "\<lambda>_. view_post slots p (R x)"], rule triple_conseq [OF triple_idle_view [of p "R x"]])
      (auto simp: triple_def pure_def assms(3))
  show ?thesis
    unfolding locked_def by (rule triple_andthen [OF idle], rule triple_andthen [OF idle], rule triple_andthen [OF assms(1) last])
qed

lemma triple_load_settled:
  assumes "settled (P, S) c" "\<And>r. points_to P c r \<Longrightarrow> in_place r \<Longrightarrow> triple (seen slots p P S) (f r) Q E"
    and "\<And>e w. ordinary p e \<Longrightarrow> seen slots p P S w \<Longrightarrow> E e w"
  shows "triple (seen slots p P S) (andthen (load_unlocked c) f) Q E"
proof (rule triple_andthen)
  show "triple (seen slots p P S) (load_unlocked c) (\<lambda>r w. seen slots p P S w \<and> points_to P c r) E"
    by (rule triple_conseq [OF triple_load]) (auto simp: assms(3))
  show "triple (\<lambda>w. seen slots p P S w \<and> points_to P c r) (f r) Q E" for r
  proof (rule triple_fact [where A = "points_to P c r \<and> in_place r"])
    show "points_to P c r \<and> in_place r" if "seen slots p P S w \<and> points_to P c r" for w
      using that assms(1) loaded_functional by (fastforce simp: settled_def)
    show "triple (\<lambda>w. seen slots p P S w \<and> points_to P c r) (f r) Q E" if "points_to P c r \<and> in_place r"
      using that assms(2) by (auto intro: triple_conseq)
  qed
qed

lemma triple_publish_view:
  assumes "connection_id c" "valid_datetime t" "points_to P c previous" "in_place previous"
  shows "triple (seen slots p P S) (publish_unlocked ops c previous value t)
    (\<lambda>st. view_post slots p (updated c (P, S) value st))
    (\<lambda>e w. update_raised p c (P, S) value e (token_view slots w))"
proof (rule triple_conseq [OF triple_publish [OF assms(1-3)]])
  have wf: "wf_state (next_state c previous t)" if "utc_offset t = Some 0"
    by (rule next_state_wf [OF assms(1,2) that assms(3)])
  show "view_post slots p (updated c (P, S) value st) w" if "publish_done slots p P S c previous value t st w" for st w
  proof -
    from that obtain b enc where d: "value = Some b" "utc_offset t = Some 0" "st = next_state c previous t"
      "encode_state (next_state c previous t) = Inr enc"
      "seen slots p (P(c \<mapsto> File enc)) (cleared (S(next_slot c previous := Sealed b)) previous) w"
      by (auto simp: publish_done_def)
    show ?thesis
      using published_register [OF seen_published(2) [OF d(5)] assms(3,4) wf [OF d(2)] d(4)] d version_loaded [OF assms(3)]
      by (simp add: updated_def attempted_def seen_def next_state_def)
  qed
  show "update_raised p c (P, S) value e (token_view slots w)" if "publish_failed slots p P S c previous value t e w" for e w
    using that kept_register [OF _ assms(3,4)] published_register [OF _ assms(3,4) wf]
    by (fastforce simp: publish_failed_def update_raised_def attempted_def)
qed auto

theorem triple_update:
  assumes "settled (P, S) c" "valid_datetime t"
  defines "r \<equiv> register_of (P, S) c"
  shows "triple (seen slots p P S) (update_token ops (PStr c) (PInt i) value t)
    (\<lambda>st. view_post slots p (\<lambda>v. updated c (P, S) value st v \<and> version_of r = i))
    (\<lambda>e w. update_raised p c (P, S) (if version_of r = i then value else None) e (token_view slots w))"
    (is "triple ?P _ ?Q ?E")
proof -
  have stay: "?E e w" if "ordinary p e" "?P w" for e w
    using update_raised_same [OF assms(1) that(1)] that(2) by (simp add: seen_view)
  have body: "triple ?P (andthen (load_unlocked c) (\<lambda>current.
       andthen (require ((case current of Some st \<Rightarrow> token_version st | None \<Rightarrow> 0) = i)
         (ConflictError ''connector token changed; reload before updating'')) (\<lambda>_.
       publish_unlocked ops c current value t))) ?Q ?E" if c: "connection_id c"
  proof (rule triple_load_settled [OF assms(1) _ stay])
    fix current assume l: "points_to P c current" "in_place current"
    have v: "(case current of Some st \<Rightarrow> token_version st | None \<Rightarrow> 0) = version_of r"
      using version_loaded [OF l(1), where S = S] by (simp add: next_version_def r_def)
    show "triple ?P (andthen (require ((case current of Some st \<Rightarrow> token_version st | None \<Rightarrow> 0) = i)
        (ConflictError ''connector token changed; reload before updating'')) (\<lambda>_. publish_unlocked ops c current value t)) ?Q ?E"
      unfolding v require_def
    proof (cases "version_of r = i")
      case True
      then show "triple ?P (andthen (if version_of r = i then give () else fail
          (ConflictError ''connector token changed; reload before updating'')) (\<lambda>_. publish_unlocked ops c current value t)) ?Q ?E"
        using triple_publish_view [OF c assms(2) l, of p S "value"]
        by (simp add: triple_def andthen_def pure_def)
    next
      case False
      then show "triple ?P (andthen (if version_of r = i then give () else fail
          (ConflictError ''connector token changed; reload before updating'')) (\<lambda>_. publish_unlocked ops c current value t)) ?Q ?E"
        by (auto intro!: update_raised_same assms(1) simp: triple_def pure_def seen_view)
    qed
  qed simp_all
  show ?thesis
  proof (cases rule: update_token_checks [of ops c i "value" t])
    case (1 e)
    then show ?thesis
      using stay by (auto simp: triple_def pure_def)
  next
    case 2
    show ?thesis
      unfolding 2(2) by (rule triple_locked [OF body [OF 2(1)]])
        (auto intro: update_raised_late update_raised_same assms(1))
  qed
qed

lemma on_secrets_andthen:
  "on_secrets (andthen m f) = andthen (on_secrets m) (\<lambda>x. on_secrets (f x))"
  "on_secrets (pure r) = pure r"
  by (auto simp: on_secrets_def on_part_def andthen_def pure_def fun_eq_iff split: prod.splits sum.splits)

lemma triple_resolve:
  "triple (seen slots p P S) (on_secrets (resolve_secret_reference ops r))
    (\<lambda>b w. seen slots p P S w \<and> S (ref_connection r, ref_name r) = Sealed b)
    (\<lambda>e w. \<not> is_PersistenceError e \<and> seen slots p P S w)"
  unfolding resolve_secret_reference_def on_secrets_andthen
  by (rule triple_andthen [OF triple_get_secret])
    (auto simp: triple_def pure_def on_secrets_andthen split: option.splits)

text \<open>Reading.\<close>

theorem triple_read:
  assumes "settled (P, S) c"
  shows "triple (seen slots p P S) (token_store_read ops (PStr c))
    (\<lambda>x. view_post slots p (\<lambda>v. v = (P, S) \<and> register_of v c = Some (token_version (fst x), Some (snd x))))
    (\<lambda>e w. ordinary p e \<and> token_view slots w = (P, S))"
    (is "triple ?P _ ?Q ?E")
proof (cases rule: parse_id_cases [of c])
  case (1 e)
  then show ?thesis
    by (auto simp: token_store_read_def triple_def pure_def seen_view)
next
  case 2
  have "triple ?P (locked (andthen (load_unlocked c) (\<lambda>current.
      case current of None \<Rightarrow> fail (NotFoundError ''connector token state was not found'')
      | Some st \<Rightarrow> andthen (on_secrets (resolve_secret_reference ops (token_reference st))) (\<lambda>b. give (st, b))))) ?Q ?E"
  proof (rule triple_locked; (rule triple_load_settled [OF assms])?)
    fix r assume l: "points_to P c r" "in_place r"
    show "triple ?P (case r of None \<Rightarrow> fail (NotFoundError ''connector token state was not found'')
      | Some st \<Rightarrow> andthen (on_secrets (resolve_secret_reference ops (token_reference st))) (\<lambda>b. give (st, b))) ?Q ?E"
    proof (cases r)
      case (Some st)
      then have c: "ref_connection (token_reference st) = c"
        using l(1) loaded_connection by (fastforce simp: wf_state_def)
      have "triple ?P (andthen (on_secrets (resolve_secret_reference ops (token_reference st))) (\<lambda>b. give (st, b))) ?Q ?E"
        by (rule triple_then [OF triple_resolve [of p P S "token_reference st"]])
          (use l(1) Some c in \<open>auto simp: triple_def pure_def seen_def register_loaded\<close>)
      then show ?thesis by (simp add: Some)
    qed (auto simp: triple_def pure_def seen_view)
  qed (auto simp: seen_view)
  then show ?thesis
    by (simp add: token_store_read_def 2(2))
qed

text \<open>Deleting: both slots are emptied before the pointer goes, and the pointer need not be readable.\<close>

lemma triple_load_any:
  "triple (seen slots p P S) (catch (load_unlocked c) (\<lambda>e. if is_ValidationError e then give None else fail e))
    (\<lambda>r w. seen slots p P S w \<and> (r \<noteq> None \<longrightarrow> P c \<noteq> None)) (\<lambda>e w. ordinary p e \<and> seen slots p P S w)"
    (is "triple _ _ ?Q ?E")
proof (rule triple_catch)
  show "triple (seen slots p P S) (load_unlocked c) ?Q ?E"
    by (rule triple_conseq [OF triple_load]) (auto simp: points_to_def split: option.splits)
qed (auto simp: triple_def pure_def)

theorem triple_delete:
  "triple (seen slots p P S) (delete_token ops (PStr c))
    (\<lambda>r. view_post slots p (\<lambda>v. v = (P(c := None), emptied c S) \<and> (r \<or> P c = None)))
    (\<lambda>e w. ordinary p e \<and> token_view slots w \<in>
      {(P, S), (P, S((c, ''token-slot-a'') := Empty)), (P, emptied c S), (P(c := None), emptied c S)})"
    (is "triple ?P _ ?Q ?E")
proof (cases rule: parse_id_cases [of c])
  case (1 e)
  then show ?thesis
    by (auto simp: delete_token_def triple_def pure_def seen_view)
next
  case 2
  let ?S1 = "S((c, ''token-slot-a'') := Empty)" let ?S2 = "emptied c S"
  have unlink: "triple (seen slots p P ?S2)
     (andthen (observe (\<lambda>w. pointers w c)) (\<lambda>node. andthen (if node \<noteq> None then unlink_pointer c else give ()) (\<lambda>_. give (removed \<or> a \<or> b)))) ?Q ?E"
    if "P c = None \<or> removed" for removed a b
  proof (rule triple_observe [where x = "P c"])
    have "triple (seen slots p P ?S2) (if P c \<noteq> None then unlink_pointer c else give ())
        (\<lambda>_. seen slots p (P(c := None)) ?S2) (\<lambda>e w. ordinary p e \<and> (seen slots p P ?S2 w \<or> seen slots p (P(c := None)) ?S2 w))"
      using triple_unlink_pointer by (auto simp: triple_def pure_def fun_upd_idem)
    then show "triple (seen slots p P ?S2) (andthen (if P c \<noteq> None then unlink_pointer c else give ()) (\<lambda>_. give (removed \<or> a \<or> b))) ?Q ?E"
      by (rule triple_then) (use that in \<open>auto simp: triple_def pure_def seen_def\<close>)
  qed (simp add: seen_pointers)
  have "triple ?P (locked (
       andthen (catch (load_unlocked c) (\<lambda>e. if is_ValidationError e then give None else fail e)) (\<lambda>current.
       andthen (observe (\<lambda>w. current \<noteq> None \<or> pointers w c \<noteq> None)) (\<lambda>removed.
       andthen (delete_slot ops c ''token-slot-a'') (\<lambda>a.
       andthen (delete_slot ops c ''token-slot-b'') (\<lambda>b.
       andthen (observe (\<lambda>w. pointers w c)) (\<lambda>node.
       andthen (if node \<noteq> None then unlink_pointer c else give ()) (\<lambda>_.
       give (removed \<or> a \<or> b))))))))) ?Q ?E"
  proof (rule triple_locked, rule triple_then [OF triple_load_any], goal_cases)
    case (2 current)
    have obs: "triple (\<lambda>w. seen slots p P S w \<and> (current \<noteq> None \<longrightarrow> P c \<noteq> None))
      (observe (\<lambda>w. current \<noteq> None \<or> pointers w c \<noteq> None))
      (\<lambda>removed w. seen slots p P S w \<and> (removed \<longleftrightarrow> P c \<noteq> None)) ?E"
      by (auto simp: triple_def observe_def seen_pointers)
    show ?case
    proof (rule triple_andthen [OF obs], rule triple_fact)
      fix removed assume r: "removed \<longleftrightarrow> P c \<noteq> None"
      show "triple (\<lambda>w. seen slots p P S w \<and> (removed \<longleftrightarrow> P c \<noteq> None))
         (andthen (delete_slot ops c ''token-slot-a'') (\<lambda>a. andthen (delete_slot ops c ''token-slot-b'') (\<lambda>b.
         andthen (observe (\<lambda>w. pointers w c)) (\<lambda>node.
         andthen (if node \<noteq> None then unlink_pointer c else give ()) (\<lambda>_. give (removed \<or> a \<or> b)))))) ?Q ?E"
      proof (rule triple_conseq [where P' = ?P and Q' = ?Q and E' = ?E], rule triple_then [OF triple_delete_slot], goal_cases)
        case (2 a)
        show ?case
        proof (rule triple_then [OF triple_delete_slot], goal_cases)
          case (2 b)
          show ?case by (rule unlink) (use r in blast)
        qed (auto simp: seen_view)
      qed (auto simp: seen_view)
    qed auto
  qed (auto simp: seen_view)
  then show ?thesis
    by (simp add: delete_token_def 2(2))
qed

text \<open>Refreshing: the callback sees the register and declines, raises or answers a replacement.\<close>

theorem triple_refresh:
  assumes "settled (P, S) c" "valid_datetime t"
  shows "triple (seen slots p P S) (refresh_serialized ops (PStr c) f t)
    (\<lambda>x. view_post slots p (refreshed c (P, S) f x))
    (\<lambda>e w. refresh_raised c (P, S) f (token_view slots w))"
    (is "triple ?P _ ?Q ?E")
proof -
  have stay: "?E e w" if "?P w" for e w
    using moves_refl [OF assms(1)] that by (simp add: seen_view refresh_raised_def)
  let ?next = "\<lambda>c r st b. andthen (pure (f (st, b))) (\<lambda>answer. case answer of Declined \<Rightarrow> give (st, b)
      | Replaced value \<Rightarrow> andthen (publish_unlocked ops c r value t) (\<lambda>next.
          give (next, case value of Some b' \<Rightarrow> b' | None \<Rightarrow> [])))"
  have answer: "triple ?P (?next c (Some st) st b) ?Q ?E"
    if l: "connection_id c" "points_to P c (Some st)" "in_place (Some st)" "S (c, ref_name (token_reference st)) = Sealed b" for st b
  proof (rule triple_guard)
    have r: "register_of (P, S) c = Some (token_version st, Some b)"
      using register_loaded(2) [OF l(2)] l(4) by simp
    fix answer assume a: "f (st, b) = Inr answer"
    show "triple ?P (case answer of Declined \<Rightarrow> give (st, b)
      | Replaced value \<Rightarrow> andthen (publish_unlocked ops c (Some st) value t) (\<lambda>next.
          give (next, case value of Some b' \<Rightarrow> b' | None \<Rightarrow> []))) ?Q ?E"
    proof (cases answer)
      case Declined
      then show ?thesis
        using r a moves_refl [OF assms(1)] by (auto simp: triple_def pure_def refreshed_def seen_def)
    next
      case (Replaced "value")
      have "triple ?P (andthen (publish_unlocked ops c (Some st) value t) (\<lambda>next.
          give (next, case value of Some b' \<Rightarrow> b' | None \<Rightarrow> []))) ?Q ?E"
        by (rule triple_then [OF triple_publish_view [OF l(1) assms(2) l(2,3), of p S "value"]])
          (use r a Replaced in \<open>auto simp: triple_def pure_def refreshed_def refresh_raised_def updated_def
            update_raised_def attempted_def version_of_def\<close>)
      then show ?thesis by (simp add: Replaced)
    qed
  qed (rule stay)
  have body: "triple ?P (andthen (load_unlocked c) (\<lambda>current.
       case current of None \<Rightarrow> fail (NotFoundError ''connector token state was not found'')
       | Some st \<Rightarrow> andthen (on_secrets (resolve_secret_reference ops (token_reference st))) (?next c current st))) ?Q ?E"
    if c: "connection_id c"
  proof (rule triple_load_settled [OF assms(1)])
    fix r assume l: "points_to P c r" "in_place r"
    show "triple ?P (case r of None \<Rightarrow> fail (NotFoundError ''connector token state was not found'')
       | Some st \<Rightarrow> andthen (on_secrets (resolve_secret_reference ops (token_reference st))) (?next c r st)) ?Q ?E"
    proof (cases r)
      case (Some st)
      then have rc: "ref_connection (token_reference st) = c"
        using l(1) loaded_connection by (fastforce simp: wf_state_def)
      have "triple ?P (andthen (on_secrets (resolve_secret_reference ops (token_reference st))) (?next c (Some st) st)) ?Q ?E"
      proof (rule triple_then [OF triple_resolve], unfold rc, goal_cases)
        case (2 b)
        show ?case
          by (rule triple_fact [where A = "S (c, ref_name (token_reference st)) = Sealed b"])
            (use answer [OF c] l Some in \<open>auto intro: triple_conseq\<close>)
      qed (auto intro: stay)
      then show ?thesis by (simp add: Some)
    qed (auto simp: triple_def pure_def intro: stay)
  qed (rule stay)
  show ?thesis
  proof (cases rule: parse_id_cases [of c])
    case (1 e)
    then show ?thesis using stay by (auto simp: refresh_serialized_def triple_def pure_def)
  next
    case 2
    show ?thesis
      unfolding refresh_serialized_def 2(2) andthen_pure
      by (rule triple_guard, rule triple_locked [OF body [OF 2(1)]])
        (auto simp: seen_view refreshed_def refresh_raised_def moves_refl [OF assms(1)])
  qed
qed

text \<open>Importing: idempotent, and only over a register that is empty or already holds the value.\<close>

lemma triple_load_then:
  assumes "\<And>r. points_to P c r \<Longrightarrow> triple (seen slots p P S) (f r) Q E"
    and "\<And>e w. ordinary p e \<Longrightarrow> seen slots p P S w \<Longrightarrow> E e w"
  shows "triple (seen slots p P S) (andthen (load_unlocked c) f) Q E"
proof (rule triple_then [OF triple_load])
  show "triple (\<lambda>w. seen slots p P S w \<and> points_to P c r) (f r) Q E" for r
    by (rule triple_fact [where A = "points_to P c r"]) (auto intro: triple_conseq [OF assms(1)])
qed (auto intro: assms(2))

lemma triple_get_then:
  assumes "\<And>x. S (c, n) = (case x of None \<Rightarrow> Empty | Some b \<Rightarrow> Sealed b) \<Longrightarrow> triple (seen slots p P S) (f x) Q E"
    and "\<And>e w. ordinary p e \<Longrightarrow> seen slots p P S w \<Longrightarrow> E e w"
  shows "triple (seen slots p P S) (andthen (on_secrets (get_secret ops c n)) f) Q E"
proof (rule triple_then [OF triple_get_secret])
  show "triple (\<lambda>w. seen slots p P S w \<and> S (c, n) = (case x of None \<Rightarrow> Empty | Some b \<Rightarrow> Sealed b)) (f x) Q E" for x
    by (rule triple_fact [where A = "S (c, n) = (case x of None \<Rightarrow> Empty | Some b \<Rightarrow> Sealed b)"])
      (auto intro: triple_conseq [OF assms(1)])
qed (auto intro: assms(2))

lemma triple_compatible:
  "triple (seen slots p P S) (assert_import_compatible_unlocked ops c b)
    (\<lambda>_ w. seen slots p P S w \<and> (\<forall>r. points_to P c r \<longrightarrow> importable c S b r)) (\<lambda>e w. ordinary p e \<and> seen slots p P S w)"
  (is "triple ?P _ ?Q ?E")
  unfolding assert_import_compatible_unlocked_def Let_def
proof (intro triple_load_then triple_get_then)
  let ?conflict = "ConflictError ''this host already has different connector credential state''"
  fix r x y
  assume l: "points_to P c r" and x: "S (c, ''token-slot-a'') = (case x of None \<Rightarrow> Empty | Some b \<Rightarrow> Sealed b)"
    and y: "S (c, ''token-slot-b'') = (case y of None \<Rightarrow> Empty | Some b \<Rightarrow> Sealed b)"
  have "?Q () w" if "importable c S b r" "?P w" for w
    using that loaded_functional [OF l] by blast
  then show "triple ?P (case r of Some st \<Rightarrow> require (token_version st = 1 \<and> ref_name (token_reference st) = ''token-slot-a'' \<and>
            x = Some b \<and> y = None) ?conflict
      | None \<Rightarrow> require (y = None \<and> (x = None \<or> x = Some b)) ?conflict) ?Q ?E"
    using x y by (cases r; cases x; cases y) (simp_all add: triple_def require_def pure_def importable_def)
qed auto

lemma triple_import_first:
  assumes "connection_id c" "valid_datetime t" "utc_offset t = Some 0" "points_to P c None" "importable c S b None"
  defines "st \<equiv> next_state c None t"
  shows "triple (seen slots p P S)
    (andthen (on_secrets (get_secret ops c ''token-slot-a'')) (\<lambda>first.
      andthen (if first = None then on_secrets (set_secret ops c ''token-slot-a'' b) else give ()) (\<lambda>_.
      andthen (pure (encode_state st)) (write_pointer c))))
    (\<lambda>_. view_post slots p (imported c (P, S) b)) (\<lambda>e w. import_raised c (P, S) b (token_view slots w))"
    (is "triple ?P _ ?Q ?E")
proof -
  let ?S = "S((c, ''token-slot-a'') := Sealed b)"
  have name: "next_slot c None = (c, ''token-slot-a'')" by (simp add: next_slot_def next_version_def slot_for_version_def)
  have wf: "wf_state (next_state c None t)" by (rule next_state_wf [OF assms(1-4)])
  have early: "import_raised c (P, S) b (token_view slots w)" if "seen slots p P S w \<or> seen slots p P ?S w" for w
  proof -
    have "kept slots P S (next_slot c None) w" using that seen_kept name by metis
    from kept_register [OF this assms(4)] show ?thesis by (simp add: import_raised_def in_place_def)
  qed
  have late: "imported c (P, S) b (token_view slots w)"
    if "seen slots p (P(c \<mapsto> File enc)) ?S w" "encode_state st = Inr enc" for w enc
    using published_register [OF seen_published(1) assms(4) _ wf, of slots p enc S b w] that register_loaded(1) [OF assms(4)] name
    by (simp add: imported_def in_place_def st_def version_of_def)
  have wr: "triple (seen slots p P ?S) (andthen (pure (encode_state st)) (write_pointer c)) ?Q ?E"
    by (rule triple_guard, rule triple_conseq [OF triple_write_pointer])
      (auto intro: early late imported_raised dest: seen_plain)
  show ?thesis
  proof (rule triple_get_then)
    fix x assume x: "S (c, ''token-slot-a'') = (case x of None \<Rightarrow> Empty | Some b \<Rightarrow> Sealed b)"
    show "triple ?P (andthen (if x = None then on_secrets (set_secret ops c ''token-slot-a'' b) else give ()) (\<lambda>_.
      andthen (pure (encode_state st)) (write_pointer c))) ?Q ?E"
    proof (cases x)
      case None
      have "triple ?P (andthen (on_secrets (set_secret ops c ''token-slot-a'' b)) (\<lambda>_. andthen (pure (encode_state st)) (write_pointer c))) ?Q ?E"
        by (rule triple_then [OF triple_set_secret _ wr]) (auto intro: early)
      then show ?thesis using None by simp
    next
      case (Some b')
      then have "?S = S" using assms(5) x by (auto simp: importable_def fun_upd_idem)
      then show ?thesis using wr Some by simp
    qed
  qed (auto intro: early)
qed

lemma triple_import_again:
  assumes l: "points_to P c (Some st)" and i: "importable c S b (Some st)"
  shows "triple (seen slots p P S) (andthen (pure (encode_state st)) (write_pointer c))
    (\<lambda>_. view_post slots p (imported c (P, S) b)) (\<lambda>e w. import_raised c (P, S) b (token_view slots w))"
    (is "triple ?P _ ?Q ?E")
proof -
  have wf: "wf_state st" "token_connection st = c" using loaded_connection [OF l] by simp_all
  have here: "imported c (P, S) b (P(c \<mapsto> File enc), S)" if "encode_state st = Inr enc" for enc
  proof -
    have l': "points_to (P(c \<mapsto> File enc)) c (Some st)" by (rule loaded_published [OF wf(1) that wf(2)])
    moreover have "in_place (Some st)" using i by (simp add: importable_def in_place_def slot_for_version_def)
    ultimately have "moves c (P, S) (P(c \<mapsto> File enc), S)"
      by (auto simp: moves_def settled_def others_same_def)
    then show ?thesis
      using register_loaded(2) [OF l, of S] register_loaded(2) [OF l', of S] i by (simp add: imported_def importable_def)
  qed
  have stay: "import_raised c (P, S) b (P, S)"
    using l i by (auto simp: import_raised_def intro!: moves_refl)
      (auto simp: settled_def importable_def in_place_def slot_for_version_def)
  show ?thesis
    by (rule triple_guard, rule triple_conseq [OF triple_write_pointer])
      (auto simp: seen_view stay here dest: seen_plain intro: imported_raised)
qed

abbreviation write_state :: "string \<Rightarrow> token_state \<Rightarrow> ('s token_world, unit) action" where
  "write_state c st \<equiv> andthen (pure (encode_state st)) (write_pointer c)"

abbreviation write_first :: "string \<Rightarrow> string \<Rightarrow> token_state \<Rightarrow> ('s token_world, unit) action" where
  "write_first c b st \<equiv> andthen (on_secrets (get_secret ops c ''token-slot-a'')) (\<lambda>first.
      andthen (if first = None then on_secrets (set_secret ops c ''token-slot-a'' b) else give ()) (\<lambda>_. write_state c st))"

abbreviation import_choice :: "string \<Rightarrow> string \<Rightarrow> datetime \<Rightarrow> token_state option \<Rightarrow> ('s token_world, token_state) action" where
  "import_choice c b t r \<equiv>
     (case r of
        Some st \<Rightarrow> attempt (write_state c st) (\<lambda>_. fail (DegradedIntegrityError
           ''credential import durability is unconfirmed; rerun the same archive'')) (\<lambda>_. give st)
      | None \<Rightarrow> andthen (pure (make_reference c ''token-slot-a'')) (\<lambda>r.
          andthen (pure (make_token_state c 1 r t (PInt TOKEN_STATE_FORMAT_VERSION))) (\<lambda>st.
          attempt (write_first c b st) (\<lambda>_. fail (DegradedIntegrityError
            ''credential import may be partially committed; rerun the same archive'')) (\<lambda>_. give st))))"

lemma triple_import_choice:
  assumes "connection_id c" "valid_datetime t" "utc_offset t = Some 0" "points_to P c r" "importable c S b r"
  shows "triple (seen slots p P S) (import_choice c b t r)
    (\<lambda>st. view_post slots p (\<lambda>v. imported c (P, S) b v \<and> token_version st = 1)) (\<lambda>e w. import_raised c (P, S) b (token_view slots w))"
    (is "triple ?P _ ?Q ?E")
proof (cases r)
  case None
  have "triple ?P (attempt (write_first c b (next_state c None t)) (\<lambda>_. fail (DegradedIntegrityError
      ''credential import may be partially committed; rerun the same archive'')) (\<lambda>_. give (next_state c None t))) ?Q ?E"
    by (rule triple_attempt [OF triple_import_first [OF assms(1-3)]])
      (use assms(4,5) None in \<open>auto simp: triple_def pure_def next_state_def next_version_def\<close>)
  then show ?thesis by (simp add: None first_state [OF assms(1,3)])
next
  case (Some st)
  have "triple ?P (attempt (write_state c st) (\<lambda>_. fail (DegradedIntegrityError
      ''credential import durability is unconfirmed; rerun the same archive'')) (\<lambda>_. give st)) ?Q ?E"
    by (rule triple_attempt [OF triple_import_again [of P c st S b p]])
      (use assms(4,5) Some in \<open>auto simp: triple_def pure_def importable_def\<close>)
  then show ?thesis by (simp add: Some)
qed

theorem triple_import:
  assumes "settled (P, S) c" "valid_datetime t"
  shows "triple (seen slots p P S) (ensure_imported ops (PStr c) (Some b) t)
    (\<lambda>st. view_post slots p (\<lambda>v. imported c (P, S) b v \<and> token_version st = 1)) (\<lambda>e w. import_raised c (P, S) b (token_view slots w))"
    (is "triple ?P _ ?Q ?E")
proof -
  have stay: "?E e w" if "?P w" for e w
    using moves_refl [OF assms(1)] that by (simp add: seen_view import_raised_def)
  have choice: "triple ?P (andthen (load_unlocked c) (import_choice c b t)) ?Q ?E"
    if "connection_id c" "utc_offset t = Some 0" "\<forall>r. points_to P c r \<longrightarrow> importable c S b r"
    by (rule triple_load_then) (use that assms(2) in \<open>auto intro: stay triple_import_choice\<close>)
  have body: "triple ?P (andthen (assert_import_compatible_unlocked ops c b) (\<lambda>_.
      andthen (load_unlocked c) (import_choice c b t))) ?Q ?E" if c: "connection_id c" "utc_offset t = Some 0"
  proof (rule triple_then [OF triple_compatible])
    show "triple (\<lambda>w. ?P w \<and> (\<forall>r. points_to P c r \<longrightarrow> importable c S b r)) (andthen (load_unlocked c) (import_choice c b t)) ?Q ?E"
      by (rule triple_fact [where A = "\<forall>r. points_to P c r \<longrightarrow> importable c S b r"])
        (auto intro: triple_conseq [OF choice [OF c]])
  qed (auto intro: stay)
  show ?thesis
  proof (cases rule: ensure_imported_checks [of ops c b t])
    case (1 e)
    then show ?thesis using stay by (auto simp: triple_def pure_def)
  next
    case 2
    show ?thesis
      unfolding 2(3) by (rule triple_locked [OF body [OF 2(1,2)]])
        (auto intro: imported_raised simp: import_raised_def moves_refl [OF assms(1)])
  qed
qed

end

end
