(* ===== verification/Token_Spec.thy ===== *)
theory Token_Spec
  imports Token_Steps
begin

section \<open>The token store refines a family of registers\<close>

datatype token_call =
    Read
  | Update int "string option" datetime
  | Refresh "token_state \<times> string \<Rightarrow> transformed result" datetime
  | Import string datetime
  | Delete

datatype token_answer = Got int string | Wrote int | Gone bool | Raised exc

subsection \<open>The abstract registers\<close>

text \<open>
  A call answers, or raises and leaves the register as it was; an update that raises may have taken
  place, and a deletion that raises may have lost the credential or the register.
\<close>

inductive register_step :: "register \<Rightarrow> token_call \<Rightarrow> token_answer \<Rightarrow> register \<Rightarrow> bool" where
  read: "register_step (Some (v, Some b)) Read (Got v b) (Some (v, Some b))"
| update: "version_of r = i \<Longrightarrow> register_step r (Update i (Some b) t) (Wrote (i + 1)) (Some (i + 1, Some b))"
| refresh_declined:
    "f (st, b) = Inr Declined \<Longrightarrow> token_version st = v \<Longrightarrow>
     register_step (Some (v, Some b)) (Refresh f t) (Got v b) (Some (v, Some b))"
| refresh:
    "f (st, b) = Inr (Replaced (Some b')) \<Longrightarrow> token_version st = v \<Longrightarrow>
     register_step (Some (v, Some b)) (Refresh f t) (Got (v + 1) b') (Some (v + 1, Some b'))"
| import_first: "register_step None (Import b t) (Wrote 1) (Some (1, Some b))"
| import_again: "register_step (Some (1, Some b)) (Import b t) (Wrote 1) (Some (1, Some b))"
| delete: "x \<or> r = None \<Longrightarrow> register_step r Delete (Gone x) None"
| raised: "register_step r call (Raised e) r"
| update_late: "version_of r = i \<Longrightarrow> register_step r (Update i (Some b) t) (Raised e) (Some (i + 1, Some b))"
| refresh_late:
    "f (st, b) = Inr (Replaced (Some b')) \<Longrightarrow> token_version st = v \<Longrightarrow>
     register_step (Some (v, Some b)) (Refresh f t) (Raised e) (Some (v + 1, Some b'))"
| import_late: "register_step None (Import b t) (Raised e) (Some (1, Some b))"
| delete_partly: "register_step (Some (v, h)) Delete (Raised e) (Some (v, None))"
| delete_late: "register_step r Delete (Raised e) None"

inductive registers_run ::
    "(string \<Rightarrow> register) \<Rightarrow> ((string \<times> token_call) \<times> token_answer) list \<Rightarrow> (string \<Rightarrow> register) \<Rightarrow> bool" where
  finished: "registers_run g [] g"
| call: "register_step (g c) call a r \<Longrightarrow> registers_run (g(c := r)) rest g' \<Longrightarrow>
    registers_run g (((c, call), a) # rest) g'"

inductive_cases register_updateE: "register_step r (Update i x t) a r'"
inductive_cases register_readE: "register_step r Read a r'"
inductive_cases registers_doneE: "registers_run g [] g'"
inductive_cases registers_callE: "registers_run g (((c, call), a) # rest) g'"

text \<open>Without a deletion a register that holds a credential keeps it or advances.\<close>

definition advanced :: "int \<Rightarrow> string \<Rightarrow> register \<Rightarrow> bool" where
  "advanced v b r = (\<exists>v' b'. r = Some (v', Some b') \<and> v \<le> v' \<and> (v' = v \<longrightarrow> b' = b))"

lemma advanced_step:
  "register_step r call a r' \<Longrightarrow> call \<noteq> Delete \<Longrightarrow> advanced v b r \<Longrightarrow> advanced v b r'"
  by (induction rule: register_step.induct) (auto simp: advanced_def version_of_def)

lemma advanced_run:
  "registers_run g calls g' \<Longrightarrow> (c, Delete) \<notin> fst ` set calls \<Longrightarrow> advanced v b (g c) \<Longrightarrow> advanced v b (g' c)"
proof (induction rule: registers_run.induct)
  case (call g d call a r rest g')
  then have "advanced v b ((g(d := r)) c)"
    using advanced_step [OF call.hyps(1)] by auto
  then show ?case using call by auto
qed

subsection \<open>The calls of the store\<close>

definition answered :: "('a \<Rightarrow> token_answer) \<Rightarrow> ('w, 'a) action \<Rightarrow> 'w \<Rightarrow> token_answer \<times> 'w" where
  "answered g m w = (case m w of (Inl e, w') \<Rightarrow> (Raised e, w') | (Inr x, w') \<Rightarrow> (g x, w'))"

definition perform ::
    "'s secret_store \<Rightarrow> string \<times> token_call \<Rightarrow> 's token_world \<Rightarrow> token_answer \<times> 's token_world" where
  "perform ops cc =
     (case cc of (c, call) \<Rightarrow>
       (case call of
          Read \<Rightarrow> answered (\<lambda>x. Got (token_version (fst x)) (snd x)) (token_store_read ops (PStr c))
        | Update i x t \<Rightarrow> answered (\<lambda>st. Wrote (token_version st)) (update_token ops (PStr c) (PInt i) x t)
        | Refresh f t \<Rightarrow> answered (\<lambda>x. Got (token_version (fst x)) (snd x)) (refresh_serialized ops (PStr c) f t)
        | Import b t \<Rightarrow> answered (\<lambda>st. Wrote (token_version st)) (ensure_imported ops (PStr c) (Some b) t)
        | Delete \<Rightarrow> answered Gone (delete_token ops (PStr c))))"

fun perform_all ::
    "'s secret_store \<Rightarrow> (string \<times> token_call) list \<Rightarrow> 's token_world \<Rightarrow> token_answer list \<times> 's token_world" where
  "perform_all ops [] w = ([], w)"
| "perform_all ops (cc # rest) w =
     (case perform ops cc w of (a, w') \<Rightarrow> (case perform_all ops rest w' of (answers, w'') \<Rightarrow> (a # answers, w'')))"

text \<open>The times of the calls are times of the calendar.\<close>

fun dated :: "token_call \<Rightarrow> bool" where
  "dated (Update _ _ t) = valid_datetime t"
| "dated (Refresh _ t) = valid_datetime t"
| "dated (Import _ t) = valid_datetime t"
| "dated _ = True"

definition registers :: "('s \<Rightarrow> string \<times> string \<Rightarrow> slot) \<Rightarrow> 's token_world \<Rightarrow> string \<Rightarrow> register" where
  "registers slots w = register_of (token_view slots w)"

lemma triple_answered:
  assumes "triple P m Q E" "P w" "answered g m w = (a, w')"
  shows "(\<exists>x. a = g x \<and> Q x w') \<or> (\<exists>e. a = Raised e \<and> E e w')"
  using assms by (auto simp: triple_def answered_def split: prod.splits sum.splits)

lemma register_moved:
  "moves c (token_view slots w) (token_view slots w') \<Longrightarrow> register_step (registers slots w c) call a (registers slots w' c) \<Longrightarrow>
   (\<forall>d. settled (token_view slots w) d) \<Longrightarrow>
   (\<forall>d. settled (token_view slots w') d) \<and> registers slots w' = (registers slots w)(c := registers slots w' c)"
  by (auto simp: moves_def registers_def fun_eq_iff) (metis settled_others)+

lemma moves_emptied:
  assumes "settled (P, S) c" "S' \<in> {S, S((c, ''token-slot-a'') := Empty), emptied c S}"
  shows "moves c (P, S) (P, S') \<and> moves c (P, S) (P(c := None), S')"
  using assms by (auto simp: moves_def settled_def others_same_def points_to_def in_place_def intro: exI [of _ None])

lemma register_emptied:
  assumes "S' \<in> {S, S((c, ''token-slot-a'') := Empty), emptied c S}"
  shows "register_step (register_of (P, S) c) Delete (Raised e) (register_of (P, S') c)"
proof -
  have "register_of (P, S') c = register_of (P, S) c \<or>
      (\<exists>v h. register_of (P, S) c = Some (v, h) \<and> register_of (P, S') c = Some (v, None))"
    using assms by (auto simp: register_of_def split: option.splits node.splits sum.splits if_splits)
  then show ?thesis by (auto intro: register_step.intros)
qed

lemma register_removed: "register_of (P(c := None), S) c = None" "P c = None \<Longrightarrow> register_of (P, S) c = None"
  by (simp_all add: register_of_def)

context secret_custody
begin

lemma perform_step:
  assumes s: "settled (token_view slots w) c" and d: "dated call" and r: "perform ops (c, call) w = (a, w')"
  shows "moves c (token_view slots w) (token_view slots w') \<and>
    register_step (registers slots w c) call a (registers slots w' c)"
proof -
  obtain P S where v: "token_view slots w = (P, S)" by fastforce
  then have w: "seen slots False P S w" and s': "settled (P, S) c" using s by (simp_all add: seen_def)
  show ?thesis
  proof (cases call)
    case Read
    then show ?thesis
      using triple_answered [OF triple_read [OF s'] w] r moves_refl [OF s']
      by (fastforce simp: perform_def registers_def v intro: register_step.intros)
  next
    case (Update i x t)
    then show ?thesis
      using triple_answered [OF triple_update [OF s'] w] d r
      by (fastforce simp: perform_def registers_def v updated_def update_raised_def attempted_def
          intro: register_step.intros split: if_splits)
  next
    case (Refresh f t)
    then show ?thesis
      using triple_answered [OF triple_refresh [OF s'] w] d r
      by (fastforce simp: perform_def registers_def v refreshed_def refresh_raised_def intro: register_step.intros)
  next
    case (Import b t)
    then show ?thesis
      using triple_answered [OF triple_import [OF s'] w] d r
      by (fastforce simp: perform_def registers_def v imported_def import_raised_def intro: register_step.intros)
  next
    case Delete
    then have "answered Gone (delete_token ops (PStr c)) w = (a, w')" using r by (simp add: perform_def)
    from triple_answered [OF triple_delete w this]
    consider (gone) x where "a = Gone x" "token_view slots w' = (P(c := None), emptied c S)" "x \<or> P c = None"
      | (raised) e where "a = Raised e" "token_view slots w' \<in> {(P, S), (P, S((c, ''token-slot-a'') := Empty)),
        (P, emptied c S), (P(c := None), emptied c S)}" by blast
    then show ?thesis
    proof cases
      case gone
      then show ?thesis
        using Delete moves_emptied [OF s', of "emptied c S"] register_removed
        by (auto simp: registers_def v intro!: register_step.delete)
    next
      case raised
      then obtain S' where S': "S' \<in> {S, S((c, ''token-slot-a'') := Empty), emptied c S}"
        and v': "token_view slots w' = (P, S') \<or> token_view slots w' = (P(c := None), S')" by blast
      from v' show ?thesis
        using raised(1) Delete moves_emptied [OF s' S'] register_emptied [OF S'] register_step.delete_late
        by (auto simp: registers_def v register_removed)
    qed
  qed
qed

text \<open>
  A pointer that names the slot of the next version, which the decoder accepts: publishing writes the
  new credential there and then deletes it as the prior one.
\<close>

lemma misplaced_published:
  assumes finish: "publish_done slots p P S c (Some st) value t next w"
    and pointer: "points_to P c (Some st)" "ref_name (token_reference st) = slot_for_version (token_version st + 1)"
    and "connection_id c" "valid_datetime t"
  shows "register_of (token_view slots w) c = Some (token_version st + 1, None)" "settled (token_view slots w) c"
proof -
  from finish obtain b enc where d: "utc_offset t = Some 0" "encode_state (next_state c (Some st) t) = Inr enc"
    "seen slots p (P(c \<mapsto> File enc)) (cleared (S(next_slot c (Some st) := Sealed b)) (Some st)) w"
    by (auto simp: publish_done_def)
  have next_pointer: "points_to (P(c \<mapsto> File enc)) c (Some (next_state c (Some st) t))"
    by (rule loaded_published [OF next_state_wf [OF assms(4,5) d(1) pointer(1)] d(2)]) (simp add: next_state_def)
  from register_loaded(2) [OF this] show "register_of (token_view slots w) c = Some (token_version st + 1, None)"
    using seen_view [OF d(3)] loaded_connection [OF pointer(1)] pointer(2)
    by (simp add: next_state_def next_version_def cleared_def)
  from next_pointer show "settled (token_view slots w) c"
    using seen_view [OF d(3)] by (auto simp: settled_def in_place_def next_state_def)
qed

lemma triple_update_misplaced:
  assumes pointer: "points_to P c (Some st)" "ref_name (token_reference st) = slot_for_version (token_version st + 1)"
    and t: "valid_datetime t"
  defines "lost \<equiv> \<lambda>result v. token_version result = token_version st + 1 \<and>
    register_of v c = Some (token_version st + 1, None) \<and> settled v c"
  shows "triple (seen slots p P S) (update_token ops (PStr c) (PInt i) value t) (\<lambda>x. view_post slots p (lost x)) (\<lambda>_ _. True)"
proof (cases rule: update_token_checks [of ops c i "value" t])
  case (1 e)
  then show ?thesis by (simp add: triple_def pure_def)
next
  case 2
  have publish: "triple (seen slots p P S) (publish_unlocked ops c (Some st) value t) (\<lambda>x. view_post slots p (lost x)) (\<lambda>_ _. True)"
  proof (rule triple_conseq [OF triple_publish [OF 2(1) t pointer(1)]])
    fix result w
    assume finish: "publish_done slots p P S c (Some st) value t result w"
    then have "p \<longrightarrow> plain_faults w" "result = next_state c (Some st) t" by (auto simp: publish_done_def seen_def)
    with misplaced_published [OF finish pointer 2(1) t] show "view_post slots p (lost result) w"
      by (simp add: lost_def next_state_def next_version_def)
  qed simp_all
  have load: "triple (seen slots p P S) (load_unlocked c) (\<lambda>r w. seen slots p P S w \<and> r = Some st) (\<lambda>_ _. True)"
    by (rule triple_conseq [OF triple_load]) (auto dest: loaded_functional [OF pointer(1)])
  have "triple (seen slots p P S) (andthen (load_unlocked c) (\<lambda>current.
      andthen (require ((case current of Some st \<Rightarrow> token_version st | None \<Rightarrow> 0) = i)
        (ConflictError ''connector token changed; reload before updating'')) (\<lambda>_.
      publish_unlocked ops c current value t))) (\<lambda>x. view_post slots p (lost x)) (\<lambda>_ _. True)"
    by (rule triple_andthen [OF load]) (use publish in \<open>auto simp: triple_def require_def pure_def\<close>)
  then show ?thesis unfolding 2(2) by (rule triple_locked) simp_all
qed

theorem perform_all_runs:
  assumes "\<forall>d. settled (token_view slots w) d" "list_all (\<lambda>cc. dated (snd cc)) calls"
    and "perform_all ops calls w = (answers, w')"
  shows "registers_run (registers slots w) (zip calls answers) (registers slots w') \<and> (\<forall>d. settled (token_view slots w') d)"
  using assms
proof (induction calls arbitrary: w answers)
  case (Cons cc calls)
  obtain c call where cc: "cc = (c, call)" by fastforce
  from Cons.prems(3) obtain a w1 rest where p: "perform ops (c, call) w = (a, w1)"
    and q: "perform_all ops calls w1 = (rest, w')" and answers: "answers = a # rest"
    by (auto simp: cc split: prod.splits)
  have step: "moves c (token_view slots w) (token_view slots w1)"
    "register_step (registers slots w c) call a (registers slots w1 c)"
    using perform_step [OF _ _ p] Cons.prems by (simp_all add: cc)
  note moved = register_moved [OF step Cons.prems(1)]
  show ?case
    using Cons.IH [OF _ _ q] moved step(2) Cons.prems(2)
    by (auto simp: answers cc intro!: registers_run.call)
qed (simp add: registers_run.finished)

end

end
