(* ===== verification/Token_Claims.thy ===== *)
theory Token_Claims
  imports Token_Spec
begin

section \<open>What the token store guarantees\<close>

subsection \<open>A sample store\<close>

definition sample_connection :: string where
  "sample_connection = ''con-'' @ replicate 32 CHR ''A''"

definition sample_date :: datetime where
  "sample_date = \<lparr>year = 2024, month = 2, day = 29, hour = 12, minute = 30, second = 5, microsecond = 0, utc_offset = Some 0\<rparr>"

definition sample_keyring :: keyring where
  "sample_keyring = \<lparr>service = ''continuity-kernel'', loaded = None, environment = Some (5, ''keyring.backends.macOS''),
     passwords = Map.empty, keyring_faults = []\<rparr>"

definition sample_world :: "fault list \<Rightarrow> keyring token_world" where
  "sample_world faults = \<lparr>secrets = sample_keyring, pointers = Map.empty, disk_faults = faults\<rparr>"

definition sample_update :: "string \<times> token_call" where
  "sample_update = (sample_connection, Update 0 (Some ''secret'') sample_date)"

lemma sample_settled: "\<forall>d. settled (token_view keyring_slots (sample_world fs)) d"
  by (auto simp: settled_def token_view_def sample_world_def points_to_def in_place_def intro: exI [of _ None])

lemma sample_date_valid: "valid_datetime sample_date"
  by code_simp

lemma sample_updated: "fst (perform keyring_store sample_update (sample_world [])) = Wrote 1"
  by code_simp

lemma sample_read_back:
  "fst (perform_all keyring_store [sample_update, (sample_connection, Read)] (sample_world [])) = [Wrote 1, Got 1 ''secret'']"
  by code_simp

lemma sample_wf: "wf_state (next_state sample_connection None sample_date)"
  by code_simp

subsection \<open>Registers\<close>

text \<open>
  C5: whatever operations are called on the keyring token store, for whatever connections and with
  whatever faults of the disk and of the keyring, it behaves as a family of versioned registers, one
  for each connection: every call is a step of its register, and the store stays well formed.
\<close>

theorem token_store_refines_registers:
  assumes "\<forall>d. settled (token_view keyring_slots w) d" "list_all (\<lambda>cc. dated (snd cc)) calls"
  shows "registers_run (registers keyring_slots w) (zip calls (fst (perform_all keyring_store calls w)))
      (registers keyring_slots (snd (perform_all keyring_store calls w))) \<and>
    (\<forall>d. settled (token_view keyring_slots (snd (perform_all keyring_store calls w))) d)"
  by (rule keyring.perform_all_runs [OF assms]) simp

theorem token_store_refines_registers_witness:
  "registers_run (registers keyring_slots (sample_world []))
     [(sample_update, Wrote 1), ((sample_connection, Read), Got 1 ''secret'')]
     (registers keyring_slots (snd (perform_all keyring_store [sample_update, (sample_connection, Read)] (sample_world []))))"
proof -
  have "list_all (\<lambda>cc. dated (snd cc)) [sample_update, (sample_connection, Read)]"
    by (simp add: sample_update_def sample_date_valid)
  from token_store_refines_registers [OF sample_settled [of "[]"] this] show ?thesis
    by (simp only: sample_read_back zip_Cons_Cons zip_Nil)
qed

text \<open>
  C8: an acknowledged credential is never lost: after an update answered its version, and whatever
  is called next short of a deletion of that connection, successful or not, the register of the
  connection holds a credential, which is the acknowledged one or one of a later version.
\<close>

theorem acknowledged_update_survives:
  assumes "\<forall>d. settled (token_view keyring_slots w) d" "valid_datetime t" "list_all (\<lambda>cc. dated (snd cc)) calls"
    and "perform keyring_store (c, Update i (Some b) t) w = (Wrote v, w')" "(c, Delete) \<notin> set calls"
  shows "v = i + 1 \<and> (\<exists>v' b'. registers keyring_slots (snd (perform_all keyring_store calls w')) c = Some (v', Some b') \<and>
    v \<le> v' \<and> (v' = v \<longrightarrow> b' = b))"
proof -
  have step: "moves c (token_view keyring_slots w) (token_view keyring_slots w')"
    "register_step (registers keyring_slots w c) (Update i (Some b) t) (Wrote v) (registers keyring_slots w' c)"
    using keyring.perform_step [OF _ _ assms(4)] assms(1,2) by simp_all
  have v: "v = i + 1" "advanced v b (registers keyring_slots w' c)"
    using step(2) by (auto elim: register_updateE simp: advanced_def)
  let ?calls = "zip calls (fst (perform_all keyring_store calls w'))"
  have "registers_run (registers keyring_slots w') ?calls (registers keyring_slots (snd (perform_all keyring_store calls w')))"
    using keyring.perform_all_runs [OF _ assms(3)] register_moved [OF step assms(1)] by (metis prod.collapse)
  moreover have "(c, Delete) \<notin> fst ` set ?calls"
    using assms(5) by (auto dest: set_zip_leftD)
  ultimately show ?thesis
    using advanced_run v by (auto simp: advanced_def)
qed

theorem acknowledged_update_survives_witness:
  "\<exists>v b. registers keyring_slots (snd (perform_all keyring_store
     [(sample_connection, Update 1 (Some ''newer'') sample_date), (sample_connection, Read)]
     (snd (perform keyring_store sample_update (sample_world [])))))
     sample_connection = Some (v, Some b) \<and> 1 \<le> v"
proof -
  let ?w = "snd (perform keyring_store sample_update (sample_world []))"
  have "perform keyring_store (sample_connection, Update 0 (Some ''secret'') sample_date) (sample_world []) = (Wrote 1, ?w)"
    using sample_updated by (metis prod.collapse sample_update_def)
  then show ?thesis
    using acknowledged_update_survives [OF sample_settled sample_date_valid,
        of "[(sample_connection, Update 1 (Some ''newer'') sample_date), (sample_connection, Read)]"]
    by (fastforce simp: sample_date_valid)
qed

text \<open>
  C11: an update made for another version than the register's is refused and changes no register.
\<close>

theorem stale_update_refused:
  assumes "\<forall>d. settled (token_view keyring_slots w) d" "valid_datetime t"
    and "perform keyring_store (c, Update i x t) w = (a, w')" "version_of (registers keyring_slots w c) \<noteq> i"
  shows "(\<exists>e. a = Raised e) \<and> registers keyring_slots w' = registers keyring_slots w"
proof -
  have step: "moves c (token_view keyring_slots w) (token_view keyring_slots w')"
    "register_step (registers keyring_slots w c) (Update i x t) a (registers keyring_slots w' c)"
    using keyring.perform_step [OF _ _ assms(3)] assms(1,2) by simp_all
  then have "(\<exists>e. a = Raised e) \<and> registers keyring_slots w' c = registers keyring_slots w c"
    using assms(4) by (auto elim: register_updateE)
  then show ?thesis
    using register_moved [OF step assms(1)] by auto
qed

theorem stale_update_refused_witness:
  "\<exists>e. fst (perform keyring_store (sample_connection, Update 3 (Some ''x'') sample_date) (sample_world [])) = Raised e"
proof -
  have "version_of (registers keyring_slots (sample_world []) sample_connection) \<noteq> 3" by code_simp
  then show ?thesis
    using stale_update_refused [OF sample_settled sample_date_valid _] by (metis prod.collapse)
qed

text \<open>
  C9: an error says what happened: when an update raises \<open>MutationCommittedError\<close>, then, provided
  the disk raises no such error by itself, the new credential is the one the register holds.
\<close>

theorem committed_error_tells_truth:
  assumes "settled (token_view keyring_slots w) c" "valid_datetime t" "plain_faults w"
    and "update_token keyring_store (PStr c) (PInt i) x t w = (Inl (MutationCommittedError m), w')"
  shows "version_of (registers keyring_slots w c) = i \<and>
    (\<exists>b. x = Some b \<and> registers keyring_slots w' c = Some (i + 1, Some b))"
proof -
  obtain P S where v: "token_view keyring_slots w = (P, S)" by fastforce
  then have "seen keyring_slots True P S w" "settled (P, S) c" using assms(1,3) by (simp_all add: seen_def)
  from tripleD(2) [OF keyring.triple_update [OF this(2) assms(2)] this(1) assms(4)]
  show ?thesis
    by (auto simp: update_raised_def attempted_def is_committed_def registers_def v split: if_splits)
qed

theorem committed_error_tells_truth_witness:
  "registers keyring_slots (snd (update_token keyring_store (PStr sample_connection) (PInt 0) (Some ''secret'') sample_date
     (sample_world [No_Fault, No_Fault, After (OtherError ''OSError'')]))) sample_connection = Some (1, Some ''secret'')"
proof -
  let ?w = "sample_world [No_Fault, No_Fault, After (OtherError ''OSError'')]"
  let ?m = "''token update is visible, but durable publication reported a failure; reload''"
  have "fst (update_token keyring_store (PStr sample_connection) (PInt 0) (Some ''secret'') sample_date ?w) =
      Inl (MutationCommittedError ?m)" "plain_faults ?w" by code_simp+
  then show ?thesis
    using committed_error_tells_truth [OF _ sample_date_valid, of ?w sample_connection 0 "Some ''secret''" ?m] sample_settled
    by (metis add_0 option.inject prod.collapse)
qed

text \<open>
  C10: deletion leaves nothing behind, whatever the pointer says, even when it is not readable: when
  it returns, the pointer is gone and both slots are empty; the pointer never goes before the slots;
  and other connections keep theirs.
\<close>

theorem deletion_is_complete:
  assumes "delete_token keyring_store (PStr c) w = (r, w')"
    and "(\<exists>x. r = Inr x) \<or> pointers w' c \<noteq> pointers w c"
  shows "pointers w' c = None \<and> keyring_slots (secrets w') (c, ''token-slot-a'') = Empty \<and>
    keyring_slots (secrets w') (c, ''token-slot-b'') = Empty \<and>
    others_same c (token_view keyring_slots w) (token_view keyring_slots w')"
proof -
  have w: "seen keyring_slots False (pointers w) (keyring_slots (secrets w)) w"
    by (simp add: seen_def token_view_def)
  note t = keyring.triple_delete [where c = c]
  have "token_view keyring_slots w' = ((pointers w)(c := None), emptied c (keyring_slots (secrets w)))"
  proof (cases r)
    case (Inl e)
    then show ?thesis
      using tripleD(2) [OF t w] assms by (auto simp: token_view_def)
  qed (use tripleD(1) [OF t w] assms(1) in auto)
  then show ?thesis by (auto simp: token_view_def others_same_def)
qed

theorem deletion_is_complete_witness:
  "keyring_slots (secrets (snd (delete_token keyring_store (PStr sample_connection)
     (snd (perform keyring_store sample_update (sample_world [])))))) (sample_connection, ''token-slot-a'') = Empty"
proof -
  let ?w = "snd (perform keyring_store sample_update (sample_world []))"
  have "fst (delete_token keyring_store (PStr sample_connection) ?w) = Inr True" by code_simp
  then show ?thesis using deletion_is_complete by (metis prod.collapse)
qed

subsection \<open>Stored texts\<close>

text \<open>
  C27: a pointer file that is written is read back: the JSON text of a well-formed state, if it fits
  its bound, decodes to the same state, its time included.
\<close>

theorem token_pointer_round_trip:
  assumes "wf_state st" "encode_state st = Inr b"
  shows "decode_state b (token_connection st) = Inr st"
  by (rule decode_encode_state(1) [OF assms])

definition sample_pointer :: string where
  "sample_pointer = (case encode_state (next_state sample_connection None sample_date) of Inr b \<Rightarrow> b | Inl _ \<Rightarrow> [])"

lemma sample_pointer_encoded: "encode_state (next_state sample_connection None sample_date) = Inr sample_pointer"
  by code_simp

theorem token_pointer_round_trip_witness:
  "decode_state sample_pointer sample_connection = Inr (next_state sample_connection None sample_date)"
  using token_pointer_round_trip [OF sample_wf sample_pointer_encoded] by (simp add: next_state_def)

text \<open>
  C28: only well-formed states come out of a pointer file: whatever bytes it holds, a state that is
  decoded from it belongs to the connection it was read for, has a positive version, a reference
  within that connection and a time of the calendar in UTC.
\<close>

theorem decoded_state_typed:
  assumes "decode_state b c = Inr st"
  shows "token_connection st = c \<and> connection_id c \<and> 1 \<le> token_version st \<and> ref_connection (token_reference st) = c \<and>
    secret_name (ref_name (token_reference st)) \<and> valid_datetime (updated_at st) \<and> utc_offset (updated_at st) = Some 0"
  using decode_state_Inr [OF assms] by (auto simp: wf_state_def wf_reference_def)

theorem decoded_state_typed_witness:
  "token_version (next_state sample_connection None sample_date) \<ge> 1"
proof -
  have "decode_state sample_pointer sample_connection = Inr (next_state sample_connection None sample_date)"
    by code_simp
  from decoded_state_typed [OF this] show ?thesis by simp
qed

text \<open>
  C29: a secret of any bytes within the bound comes back from the text kept in the keyring.
\<close>

theorem keyring_text_round_trip:
  assumes "v \<noteq> []" "ilen v \<le> MAX_SECRET_BYTES"
  shows "keyring_value (keyring_text v) = Inr v"
  using assms by (intro keyring_round_trip) (simp add: secret_bytes_def)

theorem keyring_text_round_trip_witness: "keyring_value (keyring_text ''a?b~c'') = Inr ''a?b~c''"
  by (rule keyring_text_round_trip) (simp_all add: MAX_SECRET_BYTES_def)

text \<open>
  C30: times survive storage: a UTC time of the calendar, microseconds included, is read back by the
  connector parser from what the connector writes, and by the record parser from what a record
  stores.
\<close>

theorem stored_times_read_back:
  assumes "valid_datetime t" "utc_offset t = Some 0"
  shows "\<exists>s. format_utc t = Inr s \<and> parse_utc (PStr s) label = Inr t \<and> format_time t = Inr s \<and> parse_time s = Inr t"
proof -
  have f: "format_utc t = Inr (utc_text t)" using assms(2) by (simp add: format_utc_def validate_utc_def)
  moreover have "format_time t = Inr (utc_text t)" using assms by (simp add: format_time_utc)
  moreover have "parse_time (utc_text t) = Inr t"
    using stored_utc_text(1) [OF assms(1)] assms(2) by (cases t) simp
  ultimately show ?thesis using parse_format_utc [OF assms(1) f] by blast
qed

theorem stored_times_read_back_witness: "\<exists>s. format_utc sample_date = Inr s \<and> parse_time s = Inr sample_date"
  using stored_times_read_back [OF sample_date_valid] by (auto simp: sample_date_def)

text \<open>
  C31: identifiers made by the program are accepted by it: a fresh connection identifier parses, and
  so does the text of a reference to any secret of it.
\<close>

theorem fresh_identifiers_parse:
  assumes "length random = 24" "secret_name n"
  shows "parse_connection_id (PStr (new_connection_id random)) = Inr (new_connection_id random) \<and>
    parse_secret_reference (PStr (reference_text \<lparr>ref_connection = new_connection_id random, ref_name = n\<rparr>)) =
      Inr \<lparr>ref_connection = new_connection_id random, ref_name = n\<rparr>"
  using new_connection_id_valid [OF assms(1)] parse_reference_text assms(2) by (simp add: wf_reference_def)

theorem fresh_identifiers_parse_witness:
  "\<exists>r. parse_secret_reference (PStr (reference_text r)) = Inr r \<and> ref_name r = ''token-slot-a''"
proof -
  have "secret_name ''token-slot-a''" by code_simp
  then show ?thesis
    using fresh_identifiers_parse [of "replicate 24 CHR ''x''" "''token-slot-a''"] by fastforce
qed

subsection \<open>A pointer to the wrong slot\<close>

text \<open>
  C32: the decoder accepts a pointer that names the slot of the other parity, the one the next version
  belongs in, and then an update loses the credential. Whatever the state and the faults, an update of
  such a connection that is acknowledged has written the new credential over the old one and then
  deleted it as the prior secret: the register holds no credential, and the next read raises.
\<close>

theorem misplaced_pointer_loses_credential:
  assumes "points_to (pointers w) c (Some st)"
    and "ref_name (token_reference st) = slot_for_version (token_version st + 1)" and "valid_datetime t"
    and "perform keyring_store (c, Update i (Some b) t) w = (Wrote v, w')"
  shows "v = token_version st + 1 \<and> registers keyring_slots w' c = Some (v, None) \<and>
    (\<exists>e. fst (perform keyring_store (c, Read) w') = Raised e)"
proof -
  let ?view = "token_view keyring_slots w"
  have "points_to (fst ?view) c (Some st)" using assms(1) by (simp add: token_view_def)
  note step = keyring.triple_update_misplaced [OF this assms(2,3), where p = False and S = "snd ?view"]
  have "seen keyring_slots False (fst ?view) (snd ?view) w" by (simp add: seen_def)
  moreover have "answered (\<lambda>st. Wrote (token_version st)) (update_token keyring_store (PStr c) (PInt i) (Some b) t) w = (Wrote v, w')"
    using assms(4) by (simp add: perform_def)
  ultimately have lost: "v = token_version st + 1" "registers keyring_slots w' c = Some (v, None)"
    "settled (token_view keyring_slots w') c"
    by (auto simp: registers_def dest!: triple_answered [OF step])
  obtain a w2 where read: "perform keyring_store (c, Read) w' = (a, w2)" by fastforce
  show ?thesis
    using keyring.perform_step [OF lost(3) _ read] read lost by (auto elim: register_readE)
qed

definition misplaced_state :: token_state where
  "misplaced_state = (next_state sample_connection None sample_date)\<lparr>token_version := 2\<rparr>"

definition misplaced_world :: "keyring token_world" where
  "misplaced_world = \<lparr>secrets = sample_keyring\<lparr>passwords := [(''continuity-kernel'', sample_connection @ ''/token-slot-a'') \<mapsto> keyring_text ''old'']\<rparr>,
     pointers = [sample_connection \<mapsto> File (case encode_state misplaced_state of Inr b \<Rightarrow> b | Inl _ \<Rightarrow> [])], disk_faults = []\<rparr>"

lemma misplaced_checks:
  "ilen (case encode_state misplaced_state of Inr b \<Rightarrow> b | Inl _ \<Rightarrow> []) \<le> MAX_TOKEN_STATE_BYTES"
  "decode_state (case encode_state misplaced_state of Inr b \<Rightarrow> b | Inl _ \<Rightarrow> []) sample_connection = Inr misplaced_state"
  "ref_name (token_reference misplaced_state) = slot_for_version (token_version misplaced_state + 1)"
  "fst (perform_all keyring_store [(sample_connection, Read), (sample_connection, Update 2 (Some ''new'') sample_date)] misplaced_world) =
     [Got 2 ''old'', Wrote 3]"
  "fst (perform keyring_store (sample_connection, Update 2 (Some ''new'') sample_date) misplaced_world) = Wrote 3"
  by code_simp+

theorem misplaced_pointer_loses_credential_witness:
  "\<exists>w'. perform keyring_store (sample_connection, Update 2 (Some ''new'') sample_date) misplaced_world = (Wrote 3, w') \<and>
     registers keyring_slots w' sample_connection = Some (3, None) \<and>
     (\<exists>e. fst (perform keyring_store (sample_connection, Read) w') = Raised e)"
proof -
  have "points_to (pointers misplaced_world) sample_connection (Some misplaced_state)"
    using misplaced_checks(1,2) by (simp add: points_to_def misplaced_world_def)
  moreover obtain w' where w': "perform keyring_store (sample_connection, Update 2 (Some ''new'') sample_date) misplaced_world = (Wrote 3, w')"
    using misplaced_checks(5) by (metis prod.collapse)
  ultimately show ?thesis
    using misplaced_pointer_loses_credential [OF _ misplaced_checks(3) sample_date_valid w'] by blast
qed

end
