(* ===== verification/Uuid.thy ===== *)
theory Uuid
  imports PyText Digest
begin

section \<open>UUID texts (\<open>uuid.UUID\<close>, \<open>uuid.uuid4\<close>)\<close>

text \<open>\<open>s.replace(t, '')\<close> for a non-empty \<open>t\<close>.\<close>

fun remove_all :: "string \<Rightarrow> string \<Rightarrow> string" where
  "remove_all t [] = []"
| "remove_all t (c # cs) =
     (if t \<noteq> [] \<and> take (length t) (c # cs) = t then remove_all t (drop (length t - 1) cs) else c # remove_all t cs)"

subsection \<open>\<open>int(s, 16)\<close>\<close>

text \<open>
  On the code points: other decimal digits and white space count as their ASCII forms if the text is
  not ASCII; white space at the ends, a sign, a \<open>0x\<close> and single underscores between digits are allowed.
\<close>

definition ascii_space :: "int \<Rightarrow> bool" where
  "ascii_space p = (p = 32 \<or> 9 \<le> p \<and> p \<le> 13)"

definition fold_digit :: "int \<Rightarrow> int" where
  "fold_digit p =
     (if p < 127 then p else if is_space p then 32
      else case find (\<lambda>(lo, hi). lo \<le> p \<and> p \<le> hi) digit_ranges of
        Some (lo, _) \<Rightarrow> 48 + (p - lo) | None \<Rightarrow> 63)"

definition point_hex :: "int \<Rightarrow> int option" where
  "point_hex p = (if 0 \<le> p \<and> p < 128 then hex_value (char_of p) else None)"

text \<open>The digits after the first; an underscore must stand between two of them.\<close>

fun more_hex :: "int \<Rightarrow> int list \<Rightarrow> int option" where
  "more_hex acc [] = Some acc"
| "more_hex acc [p] = (case point_hex p of Some d \<Rightarrow> Some (acc * 16 + d) | None \<Rightarrow> None)"
| "more_hex acc (p # q # ps) =
     (if p = 95 then (case point_hex q of Some d \<Rightarrow> more_hex (acc * 16 + d) ps | None \<Rightarrow> None)
      else case point_hex p of Some d \<Rightarrow> more_hex (acc * 16 + d) (q # ps) | None \<Rightarrow> None)"

definition read_hex :: "int list \<Rightarrow> int option" where
  "read_hex ps =
     (case ps of p # rest \<Rightarrow> (case point_hex p of Some d \<Rightarrow> more_hex d rest | None \<Rightarrow> None) | [] \<Rightarrow> None)"

definition skip_prefix :: "int list \<Rightarrow> int list" where
  "skip_prefix ps =
     (if take 1 ps = [48] \<and> (take 1 (tl ps) = [120] \<or> take 1 (tl ps) = [88])
      then (if take 1 (drop 2 ps) = [95] then drop 3 ps else drop 2 ps) else ps)"

definition parse_hex :: "string \<Rightarrow> int option" where
  "parse_hex s =
     (let ps = trim ascii_space (if ascii s then map byte s else map fold_digit (utf8_points s)) in
      case ps of
        p # rest \<Rightarrow>
          (if p = 45 then map_option uminus (read_hex (skip_prefix rest))
           else read_hex (skip_prefix (if p = 43 then rest else ps)))
      | [] \<Rightarrow> None)"

subsection \<open>UUIDs\<close>

definition bare_uuid :: "string \<Rightarrow> string" where
  "bare_uuid s =
     filter (\<lambda>c. c \<noteq> CHR ''-'')
       (trim (\<lambda>c. c = CHR ''{'' \<or> c = CHR ''}'') (remove_all ''uuid:'' (remove_all ''urn:'' s)))"

definition parse_uuid :: "string \<Rightarrow> int option" where
  "parse_uuid s =
     (if length (utf8_points (bare_uuid s)) \<noteq> 32 then None
      else case parse_hex (bare_uuid s) of
        Some n \<Rightarrow> if 0 \<le> n \<and> n < 2 ^ 128 then Some n else None
      | None \<Rightarrow> None)"

fun pad_hex :: "nat \<Rightarrow> int \<Rightarrow> string" where
  "pad_hex 0 n = []"
| "pad_hex (Suc k) n = pad_hex k (n div 16) @ [hex_char (n mod 16)]"

definition dashed :: "string \<Rightarrow> string" where
  "dashed h =
     take 8 h @ ''-'' @ take 4 (drop 8 h) @ ''-'' @ take 4 (drop 12 h) @ ''-'' @ take 4 (drop 16 h) @ ''-'' @ drop 20 h"

definition uuid_text :: "int \<Rightarrow> string" where
  "uuid_text n = dashed (pad_hex 32 n)"

text \<open>\<open>str(uuid.UUID(s)) == s\<close>; \<open>None\<close> where the constructor raises \<open>ValueError\<close>.\<close>

definition canonical_uuid :: "string \<Rightarrow> bool option" where
  "canonical_uuid s = (case parse_uuid s of None \<Rightarrow> None | Some n \<Rightarrow> Some (uuid_text n = s))"

text \<open>\<open>str(uuid.uuid4())\<close> from sixteen random bytes: version 4, variant 10.\<close>

definition uuid4 :: "string \<Rightarrow> string" where
  "uuid4 random =
     dashed (hex_text (random[6 := char_of (byte (random ! 6) mod 16 + 64), 8 := char_of (byte (random ! 8) mod 64 + 128)]))"

subsection \<open>A canonical text is read back\<close>

definition hex_lower :: "char \<Rightarrow> bool" where
  "hex_lower c = (json_digit c \<or> 97 \<le> byte c \<and> byte c \<le> 102)"

fun hex_number :: "int \<Rightarrow> string \<Rightarrow> int" where
  "hex_number acc [] = acc"
| "hex_number acc (c # cs) = hex_number (acc * 16 + the (hex_value c)) cs"

lemma hex_lower_value: "hex_lower c \<Longrightarrow> \<exists>d. hex_value c = Some d \<and> 0 \<le> d \<and> d < 16 \<and> hex_char d = c"
  by (auto simp: hex_lower_def json_digit_def hex_value_def Let_def hex_char_def)

lemma hex_lower_byte: "hex_lower c \<Longrightarrow> 48 \<le> byte c \<and> byte c < 103 \<and> (byte c < 58 \<or> 97 \<le> byte c)"
  by (auto simp: hex_lower_def json_digit_def)

lemma hex_lower_ascii: "hex_lower c \<Longrightarrow> \<not> digit7 c"
proof
  assume h: "hex_lower c" and "digit7 c"
  then obtain b0 b1 b2 b3 b4 b5 b6 where c: "c = Char b0 b1 b2 b3 b4 b5 b6 True" by (cases c) auto
  have "byte c = byte (Char b0 b1 b2 b3 b4 b5 b6 False) + 128" by (simp add: c)
  then show False using hex_lower_byte [OF h] byte_nonneg [of "Char b0 b1 b2 b3 b4 b5 b6 False"] by linarith
qed

lemma hex_lower_char: "0 \<le> d \<Longrightarrow> d < 16 \<Longrightarrow> hex_lower (hex_char d)"
  by (auto simp: hex_char_def hex_lower_def json_digit_def byte_char_of)

lemma point_hex_byte: "hex_lower c \<Longrightarrow> point_hex (byte c) = hex_value c"
  using hex_lower_byte [of c] by (simp add: point_hex_def)

lemma more_hex_lower: "list_all hex_lower cs \<Longrightarrow> more_hex acc (map byte cs) = Some (hex_number acc cs)"
proof (induction cs arbitrary: acc)
  case (Cons c cs)
  then obtain d where d: "hex_value c = Some d" using hex_lower_value by fastforce
  have c: "point_hex (byte c) = Some d" "byte c \<noteq> 95"
    using Cons.prems d hex_lower_byte [of c] by (auto simp: point_hex_byte)
  then show ?case
    using Cons d by (cases cs) simp_all
qed simp

lemma pad_hex_number:
  assumes "list_all hex_lower cs" "0 \<le> acc"
  shows "pad_hex (length cs + k) (hex_number acc cs) = pad_hex k acc @ cs"
  using assms
proof (induction cs arbitrary: acc k)
  case (Cons c cs)
  then obtain d where d: "hex_value c = Some d" "0 \<le> d" "d < 16" "hex_char d = c" using hex_lower_value by fastforce
  have "pad_hex (length cs + Suc k) (hex_number (acc * 16 + d) cs) = pad_hex (Suc k) (acc * 16 + d) @ cs"
    using Cons d by (intro Cons.IH) simp_all
  then show ?case using d by simp
qed simp

lemma hex_number_bound:
  "list_all hex_lower cs \<Longrightarrow> 0 \<le> acc \<Longrightarrow> acc < m \<Longrightarrow> 0 \<le> hex_number acc cs \<and> hex_number acc cs < m * 16 ^ length cs"
proof (induction cs arbitrary: acc m)
  case (Cons c cs)
  then obtain d where d: "hex_value c = Some d" "0 \<le> d" "d < 16" using hex_lower_value by fastforce
  then show ?case using Cons.IH [of "acc * 16 + d" "m * 16"] Cons.prems by simp
qed simp

lemma remove_all_absent: "t \<noteq> [] \<Longrightarrow> hd t \<notin> set s \<Longrightarrow> remove_all t s = s"
proof (induction t s rule: remove_all.induct)
  case (2 t c cs)
  then have "take (length t) (c # cs) \<noteq> t" by (cases t) auto
  then show ?case using 2 by auto
qed simp

lemma parse_hex_lower:
  assumes h: "list_all hex_lower h" "h \<noteq> []"
  shows "parse_hex h = Some (hex_number 0 h)"
proof -
  obtain c cs where hc: "h = c # cs" using h(2) by (cases h) auto
  let ?ps = "map byte h"
  have b: "48 \<le> p \<and> p < 103 \<and> (p < 58 \<or> 97 \<le> p)" if "p \<in> set ?ps" for p
    using that h(1) hex_lower_byte by (auto simp: list_all_iff)
  have "\<not> ascii_space p" if "p \<in> set ?ps" for p
    using b [OF that] by (auto simp: ascii_space_def)
  then have t: "trim ascii_space ?ps = ?ps"
    using h(2) by (intro trim_id) (metis hd_in_set last_in_set map_is_Nil_conv)
  have "take 1 (tl ?ps) \<noteq> [p]" if "p = 120 \<or> p = 88" for p
    using b [of p] that hc by (cases cs) auto
  then have s: "skip_prefix ?ps = ?ps" by (simp add: skip_prefix_def)
  have "ascii h" using h(1) hex_lower_ascii by (auto simp: ascii_def list_all_iff)
  moreover have "byte c \<noteq> 45" "byte c \<noteq> 43" using b [of "byte c"] hc by auto
  ultimately have "parse_hex h = read_hex ?ps"
    using t s by (simp add: parse_hex_def Let_def hc)
  also have "\<dots> = Some (hex_number 0 h)"
    using h hex_lower_value [of c] by (auto simp: read_hex_def hc more_hex_lower point_hex_byte)
  finally show ?thesis .
qed

lemma canonical_dashed:
  assumes h: "list_all hex_lower h" "length h = 32"
  shows "canonical_uuid (dashed h) = Some True"
proof -
  have c: "hex_lower c \<or> c = CHR ''-''" if "c \<in> set (dashed h)" for c
    using that h(1) by (auto simp: dashed_def list_all_iff dest: in_set_takeD in_set_dropD)
  then have no: "CHR ''u'' \<notin> set (dashed h)" "CHR ''{'' \<notin> set (dashed h)" "CHR ''}'' \<notin> set (dashed h)"
    using hex_lower_byte [of "CHR ''u''"] hex_lower_byte [of "CHR ''{''"] hex_lower_byte [of "CHR ''}''"] by fastforce+
  have d: "CHR ''-'' \<notin> set h" using h(1) hex_lower_byte [of "CHR ''-''"] by (auto simp: list_all_iff)
  have keep: "filter (\<lambda>c. c \<noteq> CHR ''-'') g = g" if "set g \<subseteq> set h" for g
    using that d by (auto simp: filter_id_conv)
  have sub: "set (take i (drop j h)) \<subseteq> set h" "set (drop j h) \<subseteq> set h" "set (take i h) \<subseteq> set h" for i j
    by (auto dest: in_set_takeD in_set_dropD)
  have "filter (\<lambda>c. c \<noteq> CHR ''-'') (dashed h) = take 8 h @ take 4 (drop 8 h) @ take 4 (drop 12 h) @ take 4 (drop 16 h) @ drop 20 h"
    by (simp add: dashed_def keep sub)
  also have "\<dots> = h"
  proof -
    have j: "take i (drop j h) @ drop (j + i) h = drop j h" for i j
      by (metis append_take_drop_id add.commute drop_drop)
    show ?thesis using j [of 4 16] j [of 4 12] j [of 4 8] j [of 8 0] by simp
  qed
  finally have f: "filter (\<lambda>c. c \<noteq> CHR ''-'') (dashed h) = h" .
  have "trim (\<lambda>c. c = CHR ''{'' \<or> c = CHR ''}'') (dashed h) = dashed h"
    using no by (intro trim_id) (metis hd_in_set last_in_set)
  then have bare: "bare_uuid (dashed h) = h"
    using no by (simp add: bare_uuid_def remove_all_absent f)
  have a: "ascii h" using h(1) hex_lower_ascii by (auto simp: ascii_def list_all_iff)
  have "parse_hex h = Some (hex_number 0 h)"
    by (rule parse_hex_lower [OF h(1)]) (use h(2) in auto)
  moreover have "0 \<le> hex_number 0 h \<and> hex_number 0 h < 2 ^ 128"
    using hex_number_bound [OF h(1), of 0 1] h(2) by simp
  ultimately have "parse_uuid (dashed h) = Some (hex_number 0 h)"
    using utf8_points_decode [OF utf8_decode_ascii [OF a]] h(2) by (simp add: parse_uuid_def bare)
  moreover have "pad_hex 32 (hex_number 0 h) = h"
    using pad_hex_number [OF h(1), of 0 0] h(2) by simp
  ultimately show ?thesis by (simp add: canonical_uuid_def uuid_text_def)
qed

lemma canonical_uuid4:
  assumes "length random = 16"
  shows "canonical_uuid (uuid4 random) = Some True"
proof -
  have d: "0 \<le> byte c div 16 \<and> byte c div 16 < 16" for c
    using byte_bounds [of c] by (simp add: div_less_iff_less_mult pos_imp_zdiv_nonneg_iff)
  have "list_all hex_lower (hex_text s)" for s
    using d by (auto simp: hex_text_def list_all_iff intro!: hex_lower_char)
  moreover have "length (hex_text s) = 2 * length s" for s
    by (induction s) (simp_all add: hex_text_def)
  ultimately show ?thesis
    using assms by (simp add: uuid4_def canonical_dashed)
qed

end
