(* ===== verification/ControlQueue.thy ===== *)
theory ControlQueue
  imports Timestamps Uuid
begin

section \<open>Control queue documents (\<open>control_queue.py\<close>)\<close>

text \<open>
  The queue is a text file: a header line and one line for every event the Bridge appended. The
  functions that check fields, and the parser and the encoder of the file.
\<close>

definition CONTROL_SCHEMA_VERSION :: int where "CONTROL_SCHEMA_VERSION = 1"
definition EXPANDED_CONTROL_SCHEMA_VERSION :: int where "EXPANDED_CONTROL_SCHEMA_VERSION = 2"
definition MAX_QUEUE_BYTES :: int where "MAX_QUEUE_BYTES = 1024 * 1024"
definition MAX_CONTROL_TEXT_BYTES :: int where "MAX_CONTROL_TEXT_BYTES = 4096"
definition MAX_REVIEW_CONTROL_TEXT_BYTES :: int where "MAX_REVIEW_CONTROL_TEXT_BYTES = 24000"
definition MAX_EVENTS :: int where "MAX_EVENTS = 2000"
definition MAX_GENERATIONS :: int where "MAX_GENERATIONS = 1024"

subsection \<open>Data\<close>

datatype control_kind = SETUP_CHOICE | APPROVAL | CORRECTION | UNDO_REQUEST

fun kind_value :: "control_kind \<Rightarrow> string" where
  "kind_value SETUP_CHOICE = ''setup_choice''"
| "kind_value APPROVAL = ''approval''"
| "kind_value CORRECTION = ''correction''"
| "kind_value UNDO_REQUEST = ''undo_request''"

record control_event =
  event_version :: int
  event_id :: string
  event_kind :: control_kind
  subject :: string
  choice :: string
  target_revision :: "string option"
  created_at :: string
  event_source :: string

record queue_header =
  header_version :: int
  generation :: int
  previous_revision :: "string option"
  disposition_head :: "string option"
  opened_at :: string
  event_count :: int
  events_digest :: string

record control_snapshot =
  snapshot_events :: "control_event list"
  snapshot_generation :: int
  snapshot_previous :: "string option"
  snapshot_head :: "string option"
  revision :: string

subsection \<open>Fields\<close>

definition sha256_bytes :: "string \<Rightarrow> string" where
  "sha256_bytes s = hex_text (sha256 s)"

definition EMPTY_REVISION :: string where "EMPTY_REVISION = sha256_bytes []"

definition empty_snapshot :: control_snapshot where
  "empty_snapshot = \<lparr>snapshot_events = [], snapshot_generation = 0, snapshot_previous = None, snapshot_head = None,
     revision = EMPTY_REVISION\<rparr>"

definition control_kind_of :: "pyobj \<Rightarrow> control_kind result" where
  "control_kind_of v =
     (case v of
        PStr s \<Rightarrow> (case find (\<lambda>k. kind_value k = s) [SETUP_CHOICE, APPROVAL, CORRECTION, UNDO_REQUEST] of
            Some k \<Rightarrow> Inr k | None \<Rightarrow> Inl (ValidationError ''kind is not an allowed Bridge control event''))
      | _ \<Rightarrow> Inl (ValidationError ''kind must be a string''))"

text \<open>Stripping removes no surrogate, so the text is encodable when it was before.\<close>

definition bounded_text :: "pyobj \<Rightarrow> string \<Rightarrow> int \<Rightarrow> string result" where
  "bounded_text v name max_bytes =
     (case v of
        PStr s \<Rightarrow>
          (let cleaned = py_strip s in
           if \<not> valid_utf8 s then Inl (ValidationError (name @ '' contains invalid Unicode text''))
           else if cleaned = [] \<or> has_nul cleaned \<or> max_bytes < ilen cleaned
           then Inl (ValidationError (name @ '' is empty, unsafe, or exceeds its size bound''))
           else Inr cleaned)
      | _ \<Rightarrow> Inl (ValidationError (name @ '' must be a string'')))"

text \<open>\<open>^[0-9a-fA-F]{64}$\<close> in full, then \<open>lower()\<close>.\<close>

definition to_lower_hex :: "char \<Rightarrow> char" where
  "to_lower_hex c = (if 65 \<le> byte c \<and> byte c \<le> 70 then char_of (byte c + 32) else c)"

definition parse_revision :: "pyobj \<Rightarrow> string \<Rightarrow> string result" where
  "parse_revision v name =
     (case v of
        PStr s \<Rightarrow> if length s = 64 \<and> list_all (\<lambda>c. hex_value c \<noteq> None) s then Inr (map to_lower_hex s)
          else Inl (ValidationError (name @ '' must be a SHA-256 revision''))
      | _ \<Rightarrow> Inl (ValidationError (name @ '' must be a SHA-256 revision'')))"

definition optional_revision :: "pyobj \<Rightarrow> string \<Rightarrow> string option result" where
  "optional_revision v name =
     (if v = PNone then Inr None else bindE (parse_revision v name) (\<lambda>r. Inr (Some r)))"

text \<open>\<open>^[a-z][a-z0-9-]{0,31}:[A-Za-z0-9][A-Za-z0-9._/-]{0,479}$\<close>: the namespace ends at the first colon.\<close>

definition word_char :: "char \<Rightarrow> bool" where
  "word_char c = (json_digit c \<or> 65 \<le> byte c \<and> byte c \<le> 90 \<or> 97 \<le> byte c \<and> byte c \<le> 122)"

definition namespace_text :: "string \<Rightarrow> bool" where
  "namespace_text s =
     (case s of c # cs \<Rightarrow> 97 \<le> byte c \<and> byte c \<le> 122 \<and> length cs \<le> 31 \<and>
        list_all (\<lambda>d. 97 \<le> byte d \<and> byte d \<le> 122 \<or> json_digit d \<or> d = CHR ''-'') cs | [] \<Rightarrow> False)"

definition identifier_text :: "string \<Rightarrow> bool" where
  "identifier_text s =
     (case s of c # cs \<Rightarrow> word_char c \<and> length cs \<le> 479 \<and>
        list_all (\<lambda>d. word_char d \<or> d \<in> {CHR ''.'', CHR ''_'', CHR ''/'', CHR ''-''}) cs | [] \<Rightarrow> False)"

definition subject_namespace :: "string \<Rightarrow> string option" where
  "subject_namespace s =
     (let ns = takeWhile (\<lambda>c. c \<noteq> CHR '':'') s; rest = drop (length ns) s in
      if namespace_text ns \<and> take 1 rest = '':'' \<and> identifier_text (drop 1 rest) then Some ns else None)"

fun allowed_namespaces :: "control_kind \<Rightarrow> string list" where
  "allowed_namespaces SETUP_CHOICE = [''source'']"
| "allowed_namespaces APPROVAL = [''operation'']"
| "allowed_namespaces CORRECTION = [''mind'', ''record'']"
| "allowed_namespaces UNDO_REQUEST = [''operation'']"

definition subject_reference :: "pyobj \<Rightarrow> control_kind \<Rightarrow> string result" where
  "subject_reference v kind =
     bindE (bounded_text v ''subject'' 512) (\<lambda>s.
     case subject_namespace s of
       None \<Rightarrow> Inl (ValidationError ''subject must be a bounded namespaced reference'')
     | Some ns \<Rightarrow>
         if ns \<in> set (allowed_namespaces kind) then Inr s
         else Inl (ValidationError (kind_value kind @ '' subject must use '' @
           join_text '' or '' [] (map (\<lambda>p. p @ '':'') (allowed_namespaces kind)))))"

definition uuid_field :: "pyobj \<Rightarrow> string \<Rightarrow> string result" where
  "uuid_field v name =
     (case v of
        PStr s \<Rightarrow> (case canonical_uuid s of
            None \<Rightarrow> Inl (ValidationError (name @ '' must be a UUID''))
          | Some False \<Rightarrow> Inl (ValidationError (name @ '' must be a canonical UUID''))
          | Some True \<Rightarrow> Inr s)
      | _ \<Rightarrow> Inl (ValidationError (name @ '' must be a UUID'')))"

fun control_version :: "pyobj \<Rightarrow> int option" where
  "control_version (PInt i) = (if i = CONTROL_SCHEMA_VERSION \<or> i = EXPANDED_CONTROL_SCHEMA_VERSION then Some i else None)"
| "control_version _ = None"

fun bounded_int :: "int \<Rightarrow> pyobj \<Rightarrow> int option" where
  "bounded_int limit (PInt i) = (if i < 0 \<or> limit < i then None else Some i)"
| "bounded_int limit _ = None"

subsection \<open>Writing\<close>

definition optional_str :: "string option \<Rightarrow> pyobj" where
  "optional_str r = (case r of None \<Rightarrow> PNone | Some s \<Rightarrow> PStr s)"

text \<open>Members in the order of \<open>sort_keys\<close>.\<close>

definition event_dict :: "control_event \<Rightarrow> (string \<times> pyobj) list" where
  "event_dict e =
     [(''choice'', PStr (choice e)), (''created_at'', PStr (created_at e)), (''event_id'', PStr (event_id e)),
      (''kind'', PStr (kind_value (event_kind e))), (''schema_version'', PInt (event_version e)),
      (''source'', PStr (event_source e)), (''subject'', PStr (subject e)),
      (''target_revision'', optional_str (target_revision e))]"

definition event_line :: "control_event \<Rightarrow> string" where
  "event_line e = dumps compact 0 (obj (event_dict e)) @ [CHR 0x0A]"

definition header_dict :: "queue_header \<Rightarrow> (string \<times> pyobj) list" where
  "header_dict h =
     [(''disposition_head_revision'', optional_str (disposition_head h)), (''event_count'', PInt (event_count h)),
      (''events_digest'', PStr (events_digest h)), (''generation'', PInt (generation h)),
      (''opened_at'', PStr (opened_at h)), (''previous_revision'', optional_str (previous_revision h)),
      (''record_type'', PStr ''generation''), (''schema_version'', PInt (header_version h))]"

definition header_line :: "queue_header \<Rightarrow> string" where
  "header_line h = dumps compact_ascii 0 (obj (header_dict h)) @ [CHR 0x0A]"

definition encode_queue ::
    "int \<Rightarrow> int \<Rightarrow> string option \<Rightarrow> string option \<Rightarrow> string \<Rightarrow> control_event list \<Rightarrow> string result" where
  "encode_queue version gen prev head opened events =
     (if \<not> (version = CONTROL_SCHEMA_VERSION \<or> version = EXPANDED_CONTROL_SCHEMA_VERSION)
      then Inl (ValidationError ''control queue generation version is unsupported'')
      else if version = CONTROL_SCHEMA_VERSION \<and> list_ex (\<lambda>e. event_version e \<noteq> CONTROL_SCHEMA_VERSION) events
      then Inl (ValidationError ''control queue version 1 generation cannot encode version 2 events'')
      else if MAX_EVENTS < ilen events then Inl (ValidationError ''control queue exceeds its bounded event count'')
      else
        let event_bytes = concat (map event_line events) in
        Inr (header_line \<lparr>header_version = version, generation = gen, previous_revision = prev, disposition_head = head,
          opened_at = opened, event_count = ilen events, events_digest = sha256_bytes event_bytes\<rparr> @ event_bytes))"

subsection \<open>Reading\<close>

text \<open>\<open>bytes.splitlines(keepends=True)\<close>.\<close>

fun take_line :: "string \<Rightarrow> string \<times> string" where
  "take_line [] = ([], [])"
| "take_line (c # cs) =
     (if c = CHR 0x0A then ([c], cs)
      else if c = CHR 0x0D then (if take 1 cs = [CHR 0x0A] then ([c, CHR 0x0A], drop 1 cs) else ([c], cs))
      else case take_line cs of (l, rest) \<Rightarrow> (c # l, rest))"

lemma take_line_length: "length (snd (take_line s)) \<le> length s"
  by (induction s rule: take_line.induct) (auto split: prod.splits)

lemma take_line_shorter: "length (snd (take_line (c # cs))) < length (c # cs)"
  using take_line_length [of cs] by (auto split: prod.splits)

function split_lines :: "string \<Rightarrow> string list" where
  "split_lines [] = []"
| "split_lines (c # cs) = fst (take_line (c # cs)) # split_lines (snd (take_line (c # cs)))"
  by pat_completeness auto

termination
  by (relation "measure length") (simp_all only: in_measure take_line_shorter wf_measure)

definition event_error :: "int \<Rightarrow> string \<Rightarrow> 'a result" where
  "event_error n m = Inl (ValidationError (''control queue event '' @ int_text n @ m))"

definition EVENT_KEYS :: "string list" where
  "EVENT_KEYS = [''choice'', ''created_at'', ''event_id'', ''kind'', ''schema_version'', ''source'', ''subject'', ''target_revision'']"

text \<open>A value that is not a string is not converted: the callers have checked it.\<close>

definition text_of :: "pyobj \<Rightarrow> string" where
  "text_of v = (case v of PStr s \<Rightarrow> s | _ \<Rightarrow> [])"

definition event_time :: "int \<Rightarrow> pyobj \<Rightarrow> string result" where
  "event_time n v =
     (if as_str v = None then event_error n '' has an invalid timestamp''
      else case stored_time (text_of v) ''control queue event timestamp'' of
        Inl e \<Rightarrow> if is_ValidationError e then event_error n '' has an invalid timestamp'' else Inl e
      | Inr t \<Rightarrow> Inr t)"

definition expanded_review :: "int \<Rightarrow> control_kind \<Rightarrow> string \<Rightarrow> bool" where
  "expanded_review version kind s =
     (version = EXPANDED_CONTROL_SCHEMA_VERSION \<and> kind = CORRECTION \<and> starts_with s ''record:task/'')"

definition parse_event_fields :: "int \<Rightarrow> string \<Rightarrow> items \<Rightarrow> control_event result" where
  "parse_event_fields n raw d =
     (if set (map fst d) \<noteq> set (map PStr EVENT_KEYS) then event_error n '' has an unsupported shape''
      else case control_version (payload_field d ''schema_version'') of
        None \<Rightarrow> event_error n '' has an unsupported version''
      | Some version \<Rightarrow>
          if \<not> py_eq_str (payload_field d ''source'') ''bridge'' then event_error n '' has an unsupported source''
          else if as_str (payload_field d ''event_id'') = None \<or>
              canonical_uuid (text_of (payload_field d ''event_id'')) \<noteq> Some True
          then event_error n '' has an invalid ID''
          else
            bindE (event_time n (payload_field d ''created_at'')) (\<lambda>t.
            bindE (control_kind_of (payload_field d ''kind'')) (\<lambda>kind.
            bindE (subject_reference (payload_field d ''subject'') kind) (\<lambda>s.
            let expanded = expanded_review version kind s in
            bindE (bounded_text (payload_field d ''choice'') ''choice''
              (if expanded then MAX_REVIEW_CONTROL_TEXT_BYTES else MAX_CONTROL_TEXT_BYTES)) (\<lambda>x.
            bindE (optional_revision (payload_field d ''target_revision'') ''target_revision'') (\<lambda>target.
            let event = \<lparr>event_version = version, event_id = text_of (payload_field d ''event_id''), event_kind = kind,
              subject = s, choice = x, target_revision = target, created_at = t, event_source = ''bridge''\<rparr> in
            if version = EXPANDED_CONTROL_SCHEMA_VERSION \<and> (\<not> expanded \<or> ilen x \<le> MAX_CONTROL_TEXT_BYTES)
            then event_error n '' uses version 2 without an expanded review choice''
            else if event_line event \<noteq> raw then event_error n '' is not canonically encoded''
            else Inr event))))))"

definition parse_event :: "int \<Rightarrow> string \<Rightarrow> control_event result" where
  "parse_event n raw =
     (if \<not> valid_utf8 raw then event_error n '' is invalid JSON''
      else case json_loads default_decoder raw of
        Inl Malformed \<Rightarrow> event_error n '' is invalid JSON''
      | Inl _ \<Rightarrow> Inl (OtherError ''ValueError'')
      | Inr (PDict d) \<Rightarrow> parse_event_fields n raw d
      | Inr _ \<Rightarrow> event_error n '' has an unsupported shape'')"

fun parse_events :: "int \<Rightarrow> string list \<Rightarrow> control_event list result" where
  "parse_events n [] = Inr []"
| "parse_events n (raw # rest) =
     bindE (parse_event n raw) (\<lambda>e.
     if MAX_EVENTS < n then Inl (ValidationError ''control queue exceeds its bounded event count'')
     else bindE (parse_events (n + 1) rest) (\<lambda>es. Inr (e # es)))"

definition HEADER_KEYS :: "string list" where
  "HEADER_KEYS = [''disposition_head_revision'', ''event_count'', ''events_digest'', ''generation'', ''opened_at'',
     ''previous_revision'', ''record_type'', ''schema_version'']"

definition header_time :: "pyobj \<Rightarrow> string result" where
  "header_time v =
     (if as_str v = None then Inl (ValidationError ''control queue generation timestamp is invalid'')
      else case stored_time (text_of v) ''control queue generation timestamp'' of
        Inl e \<Rightarrow> if is_ValidationError e then Inl (ValidationError ''control queue generation timestamp is invalid'') else Inl e
      | Inr t \<Rightarrow> Inr t)"

definition parse_header_fields :: "items \<Rightarrow> string \<Rightarrow> queue_header result" where
  "parse_header_fields d event_bytes =
     (if set (map fst d) \<noteq> set (map PStr HEADER_KEYS)
      then Inl (ValidationError ''control queue generation header has an unsupported shape'')
      else if \<not> py_eq_str (payload_field d ''record_type'') ''generation''
      then Inl (ValidationError ''control queue generation header has an unsupported record type'')
      else case control_version (payload_field d ''schema_version'') of
        None \<Rightarrow> Inl (ValidationError ''control queue generation header has an unsupported version'')
      | Some version \<Rightarrow>
        (case bounded_int MAX_GENERATIONS (payload_field d ''generation'') of
           None \<Rightarrow> Inl (ValidationError ''control queue generation is invalid'')
         | Some gen \<Rightarrow>
           bindE (if gen = 0
               then (if payload_field d ''previous_revision'' = PNone then Inr None
                     else Inl (ValidationError ''initial control queue generation cannot name a predecessor''))
               else bindE (parse_revision (payload_field d ''previous_revision'') ''previous_revision'') (\<lambda>r. Inr (Some r)))
             (\<lambda>prev.
           bindE (optional_revision (payload_field d ''disposition_head_revision'') ''disposition_head_revision'') (\<lambda>head.
           bindE (header_time (payload_field d ''opened_at'')) (\<lambda>opened.
           case bounded_int MAX_EVENTS (payload_field d ''event_count'') of
             None \<Rightarrow> Inl (ValidationError ''control queue event count exceeds its bounded limit'')
           | Some n \<Rightarrow>
             bindE (parse_revision (payload_field d ''events_digest'') ''events_digest'') (\<lambda>digest.
             if sha256_bytes event_bytes \<noteq> digest
             then Inl (ValidationError ''control queue event digest does not match its stored events'')
             else Inr \<lparr>header_version = version, generation = gen, previous_revision = prev, disposition_head = head,
               opened_at = opened, event_count = n, events_digest = digest\<rparr>))))))"

definition parse_header :: "string \<Rightarrow> string \<Rightarrow> queue_header result" where
  "parse_header line event_bytes =
     (if \<not> valid_utf8 line then Inl (ValidationError ''control queue generation header is invalid JSON'')
      else case json_loads default_decoder line of
        Inl Malformed \<Rightarrow> Inl (ValidationError ''control queue generation header is invalid JSON'')
      | Inl _ \<Rightarrow> Inl (OtherError ''ValueError'')
      | Inr (PDict d) \<Rightarrow> parse_header_fields d event_bytes
      | Inr _ \<Rightarrow> Inl (ValidationError ''control queue generation header has an unsupported shape''))"

definition parse_queue_document :: "string \<Rightarrow> (queue_header option \<times> control_event list) result" where
  "parse_queue_document stored =
     (if stored = [] then Inr (None, [])
      else if last stored \<noteq> CHR 0x0A then Inl (ValidationError ''control queue ends with a partial event'')
      else
        let lines = split_lines stored in
        bindE (parse_header (hd lines) (concat (tl lines))) (\<lambda>header.
        bindE (parse_events 1 (tl lines)) (\<lambda>events.
        if ilen events \<noteq> event_count header
        then Inl (ValidationError ''control queue event count does not match its header'')
        else if \<not> distinct (map event_id events) then Inl (ValidationError ''control queue contains duplicate event IDs'')
        else if header_version header = CONTROL_SCHEMA_VERSION \<and>
            list_ex (\<lambda>e. event_version e \<noteq> CONTROL_SCHEMA_VERSION) events
        then Inl (ValidationError ''control queue version 1 generation contains a version 2 event'')
        else Inr (Some header, events))))"

end
