(* ===== verification/ControlStore.thy ===== *)
theory ControlStore
  imports ControlQueue Effects
begin

section \<open>The control store (\<open>ControlQueue\<close> of \<open>control_queue.py\<close>)\<close>

text \<open>
  The state is the files below the vault that the queue uses, whether their directory exists, and the
  faults of the file operations to come. Reading and replacing a file are calls of the pinned store
  of \<open>atomic.py\<close>; each takes a fault and may fail before or after its change is visible. Opening the
  store, taking and checking the locks, checking the vault that is bound and creating a directory are
  single calls that may fail.
\<close>

datatype leaf = Regular string | Irregular

record control_world =
  files :: "string \<rightharpoonup> leaf"
  has_directory :: bool
  store_faults :: "fault list"

definition QUEUE :: string where "QUEUE = ''.gsv/control/queue.jsonl''"
definition MARKER :: string where "MARKER = ''.gsv/control/initialized''"

definition marker_text :: "string \<Rightarrow> string" where
  "marker_text state = dumps compact_ascii 0 (obj [(''schema_version'', PInt 1), (''state'', PStr state)]) @ [CHR 0x0A]"

definition MARKER_PREPARING :: string where "MARKER_PREPARING = marker_text ''preparing''"
definition MARKER_INITIALIZED :: string where "MARKER_INITIALIZED = marker_text ''initialized''"
definition MAX_MARKER_BYTES :: int where "MAX_MARKER_BYTES = 128"

definition archive_path :: "int \<Rightarrow> string \<Rightarrow> string" where
  "archive_path gen digest = ''.gsv/control/archive/queue-'' @ int_text gen @ ''-'' @ digest @ ''.jsonl''"

subsection \<open>Errors of the pinned store\<close>

datatype publish_outcome = UNPUBLISHED | COMMITTED | UNKNOWN

text \<open>\<open>DurablePublishError\<close> is an \<open>OSError\<close> with an outcome.\<close>

fun durable_error :: "publish_outcome \<Rightarrow> exc" where
  "durable_error UNPUBLISHED = OtherError ''DurablePublishError: unpublished''"
| "durable_error COMMITTED = OtherError ''DurablePublishError: committed''"
| "durable_error UNKNOWN = OtherError ''DurablePublishError: unknown''"

definition outcome_of :: "exc \<Rightarrow> publish_outcome option" where
  "outcome_of e = find (\<lambda>p. durable_error p = e) [UNPUBLISHED, COMMITTED, UNKNOWN]"

definition is_OSError :: "exc \<Rightarrow> bool" where
  "is_OSError e = (outcome_of e \<noteq> None \<or> e = OtherError ''OSError'')"

fun message_of :: "exc \<Rightarrow> string" where
  "message_of (ValidationError m) = m"
| "message_of (OAuthPermissionGrantError m) = m"
| "message_of (ControlStorageError m) = m"
| "message_of (ConflictError m) = m"
| "message_of (NotFoundError m) = m"
| "message_of (MutationCommittedError m) = m"
| "message_of (DegradedIntegrityError m) = m"
| "message_of (SetupError m) = m"
| "message_of (OtherError m) = m"

text \<open>\<open>except ValidationError as exc: raise ControlStorageError(prefix + str(exc))\<close>.\<close>

definition storage_error :: "string \<Rightarrow> exc \<Rightarrow> exc" where
  "storage_error prefix e = (if is_ValidationError e then ControlStorageError (prefix @ message_of e) else e)"

subsection \<open>Calls of the pinned store\<close>

definition store_step :: "(control_world \<Rightarrow> control_world) \<Rightarrow> (control_world, unit) action" where
  "store_step change w =
     with_fault (next_fault (store_faults w)) change (w\<lparr>store_faults := tl (store_faults w)\<rparr>)"

definition read_regular_file :: "string \<Rightarrow> string \<Rightarrow> int \<Rightarrow> bool \<Rightarrow> (control_world, string option) action" where
  "read_regular_file path label max_bytes missing_ok =
     andthen (store_step id) (\<lambda>_. andthen (observe (\<lambda>w. files w path)) (\<lambda>leaf.
     case leaf of
       None \<Rightarrow> if missing_ok then give None else fail (ValidationError (label @ '' is missing beneath the pinned root''))
     | Some Irregular \<Rightarrow> fail (ValidationError (label @ '' must be a regular file, not a link''))
     | Some (Regular b) \<Rightarrow>
         if max_bytes < ilen b then fail (ValidationError (label @ '' exceeds its size bound'')) else give (Some b)))"

definition atomic_write :: "string \<Rightarrow> string \<Rightarrow> (control_world, unit) action" where
  "atomic_write path content = store_step (files_update (\<lambda>f. f(path \<mapsto> Regular content)))"

definition compare_and_swap_regular_file ::
    "string \<Rightarrow> string option \<Rightarrow> string \<Rightarrow> string \<Rightarrow> int \<Rightarrow> (control_world, unit) action" where
  "compare_and_swap_regular_file path expected replacement label max_bytes =
     catch
       (andthen (read_regular_file path label max_bytes True) (\<lambda>current.
        if current \<noteq> expected then fail (ConflictError (label @ '' changed before compare-and-swap publication''))
        else andthen (store_step id) (\<lambda>_. atomic_write path replacement)))
       (\<lambda>e. fail (if is_ValidationError e then durable_error UNKNOWN else e))"

text \<open>After an error that leaves the outcome open, the file is read again.\<close>

definition report_visible :: "string \<Rightarrow> string \<Rightarrow> string \<Rightarrow> (control_world, unit) action" where
  "report_visible path content label =
     attempt (read_regular_file path label MAX_QUEUE_BYTES True)
       (\<lambda>r. fail (if is_ValidationError r
          then DegradedIntegrityError (label @ '' publication has an unknown visible state'') else r))
       (\<lambda>visible.
          if visible = Some content
          then fail (MutationCommittedError (label @ '' is visible, but directory durability is unconfirmed''))
          else fail (DegradedIntegrityError (label @ '' publication has an unknown visible state'')))"

definition write_verified :: "string \<Rightarrow> string \<Rightarrow> string \<Rightarrow> string option \<Rightarrow> (control_world, unit) action" where
  "write_verified path content label expected =
     catch (compare_and_swap_regular_file path expected content label MAX_QUEUE_BYTES) (\<lambda>e.
       case outcome_of e of
         Some UNPUBLISHED \<Rightarrow> fail (ControlStorageError (label @ '' was not published''))
       | Some _ \<Rightarrow> report_visible path content label
       | None \<Rightarrow> fail (if is_OSError e then ControlStorageError (label @ '' was not published'') else e))"

subsection \<open>The marker and the queue file\<close>

datatype marker = Preparing | Initialized

definition read_marker_bytes :: "(control_world, string option) action" where
  "read_marker_bytes =
     catch (read_regular_file MARKER ''control queue initialization marker'' MAX_MARKER_BYTES True)
       (\<lambda>e. fail (storage_error [] e))"

definition marker_state :: "(control_world, marker option) action" where
  "marker_state =
     andthen read_marker_bytes (\<lambda>stored.
     case stored of None \<Rightarrow> give None
     | Some b \<Rightarrow>
         if b = MARKER_PREPARING then give (Some Preparing)
         else if b = MARKER_INITIALIZED then give (Some Initialized)
         else fail (ControlStorageError ''control queue initialization marker is invalid''))"

definition read_optional_bytes :: "(control_world, string option) action" where
  "read_optional_bytes =
     andthen (catch (read_regular_file QUEUE ''control queue'' MAX_QUEUE_BYTES True) (\<lambda>e. fail (storage_error [] e)))
       (\<lambda>stored. if stored = Some [] then fail (ControlStorageError ''stored control queue is empty'') else give stored)"

definition read_bytes :: "(control_world, string) action" where
  "read_bytes =
     andthen read_optional_bytes (\<lambda>stored.
     case stored of Some b \<Rightarrow> give b | None \<Rightarrow> fail (ControlStorageError ''control queue disappeared after initialization''))"

definition write_preparing_marker :: "(control_world, unit) action" where
  "write_preparing_marker =
     catch (compare_and_swap_regular_file MARKER None MARKER_PREPARING ''control queue initialization marker'' MAX_MARKER_BYTES)
       (\<lambda>e. case outcome_of e of
          Some COMMITTED \<Rightarrow>
            andthen read_marker_bytes (\<lambda>visible.
              if visible \<noteq> Some MARKER_PREPARING
              then fail (DegradedIntegrityError ''control queue preparation marker has an unknown visible state'')
              else give ())
        | Some _ \<Rightarrow> fail e
        | None \<Rightarrow> fail (if is_OSError e then ControlStorageError ''control queue preparation marker was not published'' else e))"

definition finalize_marker :: "string \<Rightarrow> string option \<Rightarrow> (control_world, unit) action" where
  "finalize_marker expected_queue expected_current =
     catch (write_verified MARKER MARKER_INITIALIZED ''control queue initialization marker'' expected_current) (\<lambda>_.
       andthen read_optional_bytes (\<lambda>visible.
       if visible \<noteq> Some expected_queue
       then fail (DegradedIntegrityError ''control queue initialization failed after an unknown queue mutation'')
       else fail (MutationCommittedError
         ''control queue mutation was committed, but initialization durability could not be confirmed'')))"

text \<open>\<open>if marker != "initialized": self._finalize_marker(...)\<close>.\<close>

definition complete_marker :: "marker option \<Rightarrow> string \<Rightarrow> (control_world, unit) action" where
  "complete_marker marker after =
     (if marker = Some Initialized then give ()
      else finalize_marker after (if marker = Some Preparing then Some MARKER_PREPARING else None))"

definition stored_document :: "string \<Rightarrow> (queue_header option \<times> control_event list) result" where
  "stored_document b =
     (case parse_queue_document b of Inl e \<Rightarrow> Inl (storage_error ''stored control queue is invalid: '' e) | Inr d \<Rightarrow> Inr d)"

subsection \<open>The lineage of archived generations\<close>

text \<open>One archived generation: the predecessor of a header.\<close>

definition predecessor :: "queue_header \<Rightarrow> string \<Rightarrow> (control_world, queue_header) action" where
  "predecessor current digest =
     andthen
       (catch (read_regular_file (archive_path (generation current - 1) digest) ''previous control queue generation'' MAX_QUEUE_BYTES False)
         (\<lambda>e. fail (if is_ValidationError e
            then ControlStorageError ''control queue generation has no valid archived predecessor'' else e)))
       (\<lambda>read. let previous = (case read of Some b \<Rightarrow> b | None \<Rightarrow> []) in
        if sha256_bytes previous \<noteq> digest
        then fail (ControlStorageError ''control queue predecessor archive hash does not match'')
        else case parse_queue_document previous of
          Inl e \<Rightarrow> fail (if is_ValidationError e
            then ControlStorageError ''control queue predecessor archive is invalid'' else e)
        | Inr (Some h, events) \<Rightarrow>
            if generation h \<noteq> generation current - 1 \<or> events = []
            then fail (ControlStorageError ''control queue predecessor archive has invalid lineage'') else give h
        | Inr (None, _) \<Rightarrow> fail (ControlStorageError ''control queue predecessor archive has invalid lineage''))"

text \<open>The loop; every predecessor it accepts is one generation older.\<close>

lemma predecessor_generation: "predecessor current digest w = (Inr h, w') \<Longrightarrow> generation h = generation current - 1"
  by (auto simp: predecessor_def andthen_def catch_def pure_def Let_def
      split: prod.splits sum.splits option.splits if_splits)

function walk_lineage :: "int option \<Rightarrow> queue_header \<Rightarrow> string list \<Rightarrow> int \<Rightarrow> (control_world, unit) action" where
  "walk_lineage max_depth current seen depth w =
     (if generation current \<le> 0 \<or> (case max_depth of Some m \<Rightarrow> m \<le> depth | None \<Rightarrow> False) then (Inr (), w)
      else case previous_revision current of
        None \<Rightarrow> (Inl (OtherError ''AssertionError''), w)
      | Some digest \<Rightarrow>
          if digest \<in> set seen then (Inl (ControlStorageError ''control queue archive lineage contains a cycle''), w)
          else case predecessor current digest w of
            (Inl e, w') \<Rightarrow> (Inl e, w')
          | (Inr h, w') \<Rightarrow> walk_lineage max_depth h (digest # seen) (depth + 1) w')"
  by pat_completeness auto

termination
  by (relation "measure (\<lambda>(_, h, _). nat (generation h))") (auto dest!: predecessor_generation [OF sym])

definition validate_lineage :: "queue_header option \<Rightarrow> int option \<Rightarrow> (control_world, unit) action" where
  "validate_lineage header max_depth =
     (case header of None \<Rightarrow> give () | Some h \<Rightarrow> walk_lineage max_depth h [] 0)"

subsection \<open>Operations\<close>

definition header_generation :: "queue_header option \<Rightarrow> int" where
  "header_generation header = (case header of Some h \<Rightarrow> generation h | None \<Rightarrow> 0)"

definition snapshot_with_store :: "bool \<Rightarrow> bool \<Rightarrow> (control_world, control_snapshot) action" where
  "snapshot_with_store allow_missing full_lineage =
     andthen marker_state (\<lambda>marker. andthen read_optional_bytes (\<lambda>stored.
     case stored of
       None \<Rightarrow>
         if marker = Some Initialized then fail (ControlStorageError ''control queue disappeared after initialization'')
         else if allow_missing then give empty_snapshot
         else fail (ControlStorageError ''control queue has not been initialized'')
     | Some b \<Rightarrow>
         andthen (pure (stored_document b)) (\<lambda>(header, events).
         andthen (validate_lineage header (if full_lineage then None else Some 1)) (\<lambda>_.
         give \<lparr>snapshot_events = events, snapshot_generation = header_generation header,
           snapshot_previous = (case header of Some h \<Rightarrow> previous_revision h | None \<Rightarrow> None),
           snapshot_head = (case header of Some h \<Rightarrow> disposition_head h | None \<Rightarrow> None), revision = sha256_bytes b\<rparr>))))"

definition control_store :: "(control_world, 'a) action \<Rightarrow> (control_world, 'a) action" where
  "control_store body = andthen (store_step id) (\<lambda>_. body)"

definition queue_snapshot :: "(control_world, control_snapshot) action" where
  "queue_snapshot =
     control_store (andthen (store_step id) (\<lambda>_. andthen (observe has_directory) (\<lambda>exists.
       if exists then andthen (store_step id) (\<lambda>_. snapshot_with_store True False) else give empty_snapshot)))"

text \<open>Entering checks the vault, takes both locks and checks again; leaving checks the locks.\<close>

definition locked_control_store :: "(control_world, 'a) action \<Rightarrow> (control_world, 'a) action" where
  "locked_control_store body =
     control_store (andthen (store_step id) (\<lambda>_. andthen (store_step id) (\<lambda>_.
     andthen body (\<lambda>x. andthen (store_step id) (\<lambda>_. give x)))))"

definition new_event ::
    "control_kind \<Rightarrow> string \<Rightarrow> string \<Rightarrow> string option \<Rightarrow> string \<Rightarrow> string \<Rightarrow> control_event" where
  "new_event kind s x target random time =
     \<lparr>event_version = (if MAX_CONTROL_TEXT_BYTES < ilen x then EXPANDED_CONTROL_SCHEMA_VERSION else CONTROL_SCHEMA_VERSION),
      event_id = uuid4 random, event_kind = kind, subject = s, choice = x, target_revision = target, created_at = time,
      event_source = ''bridge''\<rparr>"

definition publish_event ::
    "control_event \<Rightarrow> string option \<Rightarrow> queue_header option \<Rightarrow> control_event list \<Rightarrow> marker option \<Rightarrow>
     (control_world, control_snapshot) action" where
  "publish_event event stored header events marker =
     (let previous = (case header of Some h \<Rightarrow> previous_revision h | None \<Rightarrow> None);
          head = (case header of Some h \<Rightarrow> disposition_head h | None \<Rightarrow> None) in
      andthen (pure (encode_queue
          (max (case header of Some h \<Rightarrow> header_version h | None \<Rightarrow> CONTROL_SCHEMA_VERSION) (event_version event))
          (header_generation header) previous head (case header of Some h \<Rightarrow> opened_at h | None \<Rightarrow> created_at event)
          (events @ [event])))
        (\<lambda>after.
        if MAX_QUEUE_BYTES < ilen after then fail (ValidationError ''control queue exceeds its size bound'')
        else andthen (write_verified QUEUE after ''control queue'' stored) (\<lambda>_.
          andthen (complete_marker marker after) (\<lambda>_.
          give \<lparr>snapshot_events = events @ [event], snapshot_generation = header_generation header,
            snapshot_previous = previous, snapshot_head = head, revision = sha256_bytes after\<rparr>))))"

definition append_to_stored ::
    "marker option \<Rightarrow> string option \<Rightarrow> control_kind \<Rightarrow> string \<Rightarrow> string \<Rightarrow> string option \<Rightarrow> string \<Rightarrow> string \<Rightarrow> datetime \<Rightarrow>
     (control_world, control_snapshot) action" where
  "append_to_stored marker stored kind s x target expected random t =
     (let before = (case stored of Some b \<Rightarrow> b | None \<Rightarrow> []) in
      andthen (pure (stored_document before)) (\<lambda>(header, events).
      andthen (validate_lineage header None) (\<lambda>_.
      if sha256_bytes before \<noteq> expected
      then fail (ConflictError ''control queue changed; reload it and append against the latest revision'')
      else andthen (if stored = None \<and> marker = None then andthen write_preparing_marker (\<lambda>_. give (Some Preparing)) else give marker)
        (\<lambda>marker'.
        if MAX_EVENTS \<le> ilen events then fail (ValidationError ''control queue reached its bounded event limit'')
        else andthen (pure (format_time t)) (\<lambda>time.
          publish_event (new_event kind s x target random time) stored header events marker')))))"

definition append_with_store ::
    "control_kind \<Rightarrow> string \<Rightarrow> string \<Rightarrow> string option \<Rightarrow> string \<Rightarrow> string \<Rightarrow> datetime \<Rightarrow> (control_world, control_snapshot) action" where
  "append_with_store kind s x target expected random t =
     andthen marker_state (\<lambda>marker. andthen read_optional_bytes (\<lambda>stored.
     if stored = None \<and> marker = Some Initialized
     then fail (ControlStorageError ''control queue disappeared after initialization'')
     else append_to_stored marker stored kind s x target expected random t))"

text \<open>The checks of the arguments; \<open>expected_vault_id\<close> is checked if it is given.\<close>

definition append_arguments ::
    "pyobj \<Rightarrow> pyobj \<Rightarrow> pyobj \<Rightarrow> pyobj \<Rightarrow> pyobj \<Rightarrow> pyobj \<Rightarrow> int \<Rightarrow>
     (control_kind \<times> string \<times> string \<times> string option \<times> string) result" where
  "append_arguments kind s x expected target vault_id max_bytes =
     bindE (control_kind_of kind) (\<lambda>k.
     bindE (subject_reference s k) (\<lambda>s'.
     if max_bytes \<noteq> MAX_CONTROL_TEXT_BYTES \<and> max_bytes \<noteq> MAX_REVIEW_CONTROL_TEXT_BYTES
     then Inl (ValidationError ''control choice bound is unsupported'')
     else if max_bytes = MAX_REVIEW_CONTROL_TEXT_BYTES \<and> \<not> (k = CORRECTION \<and> starts_with s' ''record:task/'')
     then Inl (ValidationError ''the larger control choice bound is review-correction only'')
     else bindE (bounded_text x ''choice'' max_bytes) (\<lambda>x'.
       bindE (optional_revision target ''target_revision'') (\<lambda>target'.
       bindE (parse_revision expected ''expected_revision'') (\<lambda>expected'.
       bindE (if vault_id = PNone then Inr [] else uuid_field vault_id ''expected vault ID'') (\<lambda>_.
       Inr (k, s', x', target', expected')))))))"

definition queue_append ::
    "pyobj \<Rightarrow> pyobj \<Rightarrow> pyobj \<Rightarrow> pyobj \<Rightarrow> pyobj \<Rightarrow> pyobj \<Rightarrow> int \<Rightarrow> string \<Rightarrow> datetime \<Rightarrow> (control_world, control_snapshot) action" where
  "queue_append kind s x expected target vault_id max_bytes random t =
     andthen (pure (append_arguments kind s x expected target vault_id max_bytes)) (\<lambda>(k, s', x', target', expected').
     locked_control_store
       (andthen (store_step (has_directory_update (\<lambda>_. True))) (\<lambda>_. andthen (store_step id) (\<lambda>_.
        append_with_store k s' x' target' expected' random t))))"

record rotation =
  rotation_archive :: string
  archived_events :: int
  rotation_generation :: int
  rotation_previous :: string
  rotation_revision :: string
  rotated_at :: string

definition save_archive :: "string \<Rightarrow> string \<Rightarrow> (control_world, unit) action" where
  "save_archive path before =
     andthen (read_regular_file path ''control queue archive'' MAX_QUEUE_BYTES True) (\<lambda>existing.
     case existing of
       Some b \<Rightarrow> if b \<noteq> before then fail (ValidationError ''control queue archive path already contains other data'') else give ()
     | None \<Rightarrow> write_verified path before ''control queue archive'' None)"

definition rotate_stored ::
    "marker option \<Rightarrow> string \<Rightarrow> queue_header \<Rightarrow> control_event list \<Rightarrow> datetime \<Rightarrow> (control_world, rotation) action" where
  "rotate_stored marker before h events t =
     (let path = archive_path (generation h) (sha256_bytes before) in
      andthen (store_step id) (\<lambda>_. andthen (save_archive path before) (\<lambda>_.
      andthen (pure (format_time t)) (\<lambda>time.
      andthen (pure (encode_queue (header_version h) (generation h + 1) (Some (sha256_bytes before)) None time [])) (\<lambda>after.
      andthen (write_verified QUEUE after ''control queue'' (Some before)) (\<lambda>_.
      andthen (complete_marker marker after) (\<lambda>_.
      give \<lparr>rotation_archive = path, archived_events = ilen events, rotation_generation = generation h + 1,
        rotation_previous = sha256_bytes before, rotation_revision = sha256_bytes after, rotated_at = time\<rparr>)))))))"

definition rotate_closed_in_bound_store :: "pyobj \<Rightarrow> string set \<Rightarrow> datetime \<Rightarrow> (control_world, rotation) action" where
  "rotate_closed_in_bound_store expected closed_ids t =
     andthen (pure (parse_revision expected ''expected_revision'')) (\<lambda>expected'.
     andthen marker_state (\<lambda>marker. andthen read_bytes (\<lambda>before.
     if sha256_bytes before \<noteq> expected'
     then fail (ConflictError ''control queue changed; reload it before archiving closed events'')
     else andthen (pure (stored_document before)) (\<lambda>(header, events).
       case header of None \<Rightarrow> fail (ControlStorageError ''initialized control queue has no generation header'')
       | Some h \<Rightarrow>
         andthen (validate_lineage header None) (\<lambda>_.
         if MAX_GENERATIONS \<le> generation h
         then fail (ValidationError (''control queue reached its audited generation limit; preserve this vault and '' @
           ''start a new vault until authenticated compaction is supported''))
         else if events = [] then fail (ValidationError ''control queue has no events to archive'')
         else if set (map event_id events) \<noteq> closed_ids
         then fail (ConflictError ''control queue still contains undispositioned events'')
         else rotate_stored marker before h events t)))))"

text \<open>\<open>with store.bind_directory(...)\<close>, if the directory exists.\<close>

definition in_directory :: "(control_world, 'a) action \<Rightarrow> (control_world, 'a) action" where
  "in_directory body =
     andthen (store_step id) (\<lambda>_. andthen (observe has_directory) (\<lambda>exists.
     if exists then andthen (store_step id) (\<lambda>_. body)
     else fail (ControlStorageError ''control queue directory is missing'')))"

definition rotate_closed_with_store :: "pyobj \<Rightarrow> string set \<Rightarrow> datetime \<Rightarrow> (control_world, rotation) action" where
  "rotate_closed_with_store expected closed_ids t = in_directory (rotate_closed_in_bound_store expected closed_ids t)"

definition bind_disposition_head_in_bound_store ::
    "pyobj \<Rightarrow> int \<Rightarrow> pyobj \<Rightarrow> pyobj \<Rightarrow> (control_world, control_snapshot) action" where
  "bind_disposition_head_in_bound_store expected gen expected_head new_head =
     andthen (pure (parse_revision expected ''expected_revision'')) (\<lambda>expected'.
     andthen (pure (optional_revision expected_head ''target_revision'')) (\<lambda>head.
     andthen (pure (parse_revision new_head ''new_head_revision'')) (\<lambda>new.
     andthen read_bytes (\<lambda>before.
     if sha256_bytes before \<noteq> expected' then fail (ConflictError ''control queue changed before disposition head binding'')
     else andthen (pure (stored_document before)) (\<lambda>(header, events).
       case header of
         None \<Rightarrow> fail (ControlStorageError ''control queue generation changed before head binding'')
       | Some h \<Rightarrow>
           if generation h \<noteq> gen then fail (ControlStorageError ''control queue generation changed before head binding'')
           else andthen (validate_lineage header None) (\<lambda>_.
             if disposition_head h \<noteq> head then fail (ConflictError ''control queue disposition head binding changed'')
             else andthen (pure (encode_queue (header_version h) (generation h) (previous_revision h) (Some new) (opened_at h) events))
               (\<lambda>after.
               andthen (write_verified QUEUE after ''control queue'' (Some before)) (\<lambda>_.
               give \<lparr>snapshot_events = events, snapshot_generation = generation h, snapshot_previous = previous_revision h,
                 snapshot_head = Some new, revision = sha256_bytes after\<rparr>))))))))"

definition bind_disposition_head_with_store ::
    "pyobj \<Rightarrow> int \<Rightarrow> pyobj \<Rightarrow> pyobj \<Rightarrow> (control_world, control_snapshot) action" where
  "bind_disposition_head_with_store expected gen expected_head new_head =
     in_directory (bind_disposition_head_in_bound_store expected gen expected_head new_head)"

end
