(* ===== verification/Control_Codec.thy ===== *)
theory Control_Codec
  imports ControlQueue
begin

section \<open>Queue documents are read back\<close>

subsection \<open>Fields that pass their check pass it again\<close>

definition fixed_time :: "string \<Rightarrow> bool" where
  "fixed_time s = (stored_time s [] = Inr s)"

definition fixed_revision :: "string option \<Rightarrow> bool" where
  "fixed_revision r = (case r of None \<Rightarrow> True | Some s \<Rightarrow> parse_revision (PStr s) [] = Inr s)"

definition text_bound :: "int \<Rightarrow> control_kind \<Rightarrow> string \<Rightarrow> int" where
  "text_bound version kind s =
     (if expanded_review version kind s then MAX_REVIEW_CONTROL_TEXT_BYTES else MAX_CONTROL_TEXT_BYTES)"

definition wf_event :: "control_event \<Rightarrow> bool" where
  "wf_event e =
     (event_version e \<in> {CONTROL_SCHEMA_VERSION, EXPANDED_CONTROL_SCHEMA_VERSION} \<and> event_source e = ''bridge''
      \<and> canonical_uuid (event_id e) = Some True \<and> fixed_time (created_at e)
      \<and> subject_reference (PStr (subject e)) (event_kind e) = Inr (subject e)
      \<and> bounded_text (PStr (choice e)) ''choice'' (text_bound (event_version e) (event_kind e) (subject e)) = Inr (choice e)
      \<and> fixed_revision (target_revision e)
      \<and> (event_version e = EXPANDED_CONTROL_SCHEMA_VERSION \<longrightarrow>
          expanded_review (event_version e) (event_kind e) (subject e) \<and> MAX_CONTROL_TEXT_BYTES < ilen (choice e)))"

lemma stored_time_label: "stored_time s l = Inr t \<longleftrightarrow> stored_time s [] = Inr t"
  by (simp add: stored_time_def Let_def bindE_Inr_iff)

lemma stored_time_again:
  assumes "stored_time s l = Inr t"
  shows "fixed_time t" "valid_utf8 t"
proof -
  from assms have t: "t = py_strip s" "valid_utf8 s" "timestamp_match (py_strip s)" "\<exists>d. parse_time (py_strip s) = Inr d"
    by (auto simp: stored_time_def Let_def bindE_Inr_iff split: if_splits)
  then show "fixed_time t" "valid_utf8 t"
    using py_strip_idem [OF t(2)] valid_py_strip [OF t(2)] by (auto simp: fixed_time_def stored_time_def Let_def bindE_Inr_iff)
qed

lemma fixed_time_stored: "fixed_time s \<Longrightarrow> stored_time s l = Inr s" "fixed_time s \<Longrightarrow> valid_utf8 s"
  using stored_time_again(2) by (auto simp: fixed_time_def stored_time_label [of s l])

lemma to_lower_hex_value: "hex_value c \<noteq> None \<Longrightarrow> hex_value (to_lower_hex c) \<noteq> None \<and> to_lower_hex (to_lower_hex c) = to_lower_hex c"
  by (auto simp: to_lower_hex_def hex_value_def Let_def byte_char_of split: if_splits)

lemma parse_revision_again:
  assumes "parse_revision v l = Inr r"
  shows "fixed_revision (Some r)"
proof -
  from assms obtain s where s: "v = PStr s" "length s = 64" "list_all (\<lambda>c. hex_value c \<noteq> None) s" "r = map to_lower_hex s"
    by (auto simp: parse_revision_def split: pyobj.splits if_splits)
  have "list_all (\<lambda>c. hex_value (to_lower_hex c) \<noteq> None \<and> to_lower_hex (to_lower_hex c) = to_lower_hex c) s"
    using s(3) to_lower_hex_value by (auto simp: list_all_iff)
  then show ?thesis
    using s by (auto simp: fixed_revision_def parse_revision_def list_all_iff)
qed

lemma fixed_revision_parse: "fixed_revision (Some r) \<Longrightarrow> parse_revision (PStr r) l = Inr r"
  by (auto simp: fixed_revision_def parse_revision_def split: if_splits)

lemma fixed_revision_optional: "fixed_revision r \<Longrightarrow> optional_revision (optional_str r) l = Inr r"
  using fixed_revision_parse by (cases r) (auto simp: optional_revision_def optional_str_def)

lemma optional_revision_again: "optional_revision v l = Inr r \<Longrightarrow> fixed_revision r"
  using parse_revision_again by (auto simp: optional_revision_def bindE_Inr_iff fixed_revision_def [of None] split: if_splits)

lemma hex_value_ascii: "hex_value c \<noteq> None \<Longrightarrow> \<not> digit7 c"
proof
  assume h: "hex_value c \<noteq> None" and "digit7 c"
  then obtain b0 b1 b2 b3 b4 b5 b6 where c: "c = Char b0 b1 b2 b3 b4 b5 b6 True" by (cases c) auto
  have "byte c = byte (Char b0 b1 b2 b3 b4 b5 b6 False) + 128" by (simp add: c)
  then have "128 \<le> byte c" using byte_nonneg [of "Char b0 b1 b2 b3 b4 b5 b6 False"] by linarith
  then show False using h by (simp add: hex_value_def Let_def split: if_splits)
qed

lemma fixed_revision_ascii: "fixed_revision (Some r) \<Longrightarrow> ascii r"
proof -
  assume "fixed_revision (Some r)"
  then have "list_all (\<lambda>c. hex_value c \<noteq> None) r"
    by (auto simp: fixed_revision_def parse_revision_def split: if_splits)
  then show "ascii r"
    using hex_value_ascii by (auto simp: ascii_def list_all_iff)
qed

lemma bounded_text_again:
  assumes "bounded_text v l m = Inr t"
  shows "bounded_text (PStr t) l' m = Inr t" "valid_utf8 t" "ilen t \<le> m"
proof -
  from assms obtain s where s: "v = PStr s" "valid_utf8 s" "t = py_strip s" "t \<noteq> []" "\<not> has_nul t" "ilen t \<le> m"
    by (auto simp: bounded_text_def Let_def split: pyobj.splits if_splits)
  then show "bounded_text (PStr t) l' m = Inr t" "valid_utf8 t" "ilen t \<le> m"
    using py_strip_idem [OF s(2)] valid_py_strip [OF s(2)] by (auto simp: bounded_text_def Let_def)
qed

lemma subject_reference_again:
  assumes "subject_reference v k = Inr s"
  shows "subject_reference (PStr s) k = Inr s" "valid_utf8 s"
  using assms bounded_text_again
  by (fastforce simp: subject_reference_def bindE_Inr_iff split: option.splits if_splits)+

lemma parse_event_fields_Inr:
  assumes "parse_event_fields n raw d = Inr e"
  shows "wf_event e" "event_line e = raw"
proof -
  from assms obtain version t kind s x target where
    v: "control_version (payload_field d ''schema_version'') = Some version"
    and i: "as_str (payload_field d ''event_id'') \<noteq> None" "canonical_uuid (text_of (payload_field d ''event_id'')) = Some True"
    and t: "event_time n (payload_field d ''created_at'') = Inr t"
    and s: "subject_reference (payload_field d ''subject'') kind = Inr s"
    and x: "bounded_text (payload_field d ''choice'') ''choice'' (text_bound version kind s) = Inr x"
    and target: "optional_revision (payload_field d ''target_revision'') ''target_revision'' = Inr target"
    and two: "\<not> (version = EXPANDED_CONTROL_SCHEMA_VERSION \<and> (\<not> expanded_review version kind s \<or> ilen x \<le> MAX_CONTROL_TEXT_BYTES))"
    and e: "e = \<lparr>event_version = version, event_id = text_of (payload_field d ''event_id''), event_kind = kind,
              subject = s, choice = x, target_revision = target, created_at = t, event_source = ''bridge''\<rparr>"
    and raw: "event_line e = raw"
    by (auto simp: parse_event_fields_def event_error_def Let_def bindE_Inr_iff split: option.splits if_splits
        simp flip: text_bound_def)
  have "version \<in> {CONTROL_SCHEMA_VERSION, EXPANDED_CONTROL_SCHEMA_VERSION}"
    using v by (cases "payload_field d ''schema_version''") (auto split: if_splits)
  moreover have "fixed_time t"
    using t stored_time_again by (auto simp: event_time_def event_error_def split: if_splits sum.splits)
  ultimately show "wf_event e"
    using i s x target two subject_reference_again bounded_text_again optional_revision_again
    by (auto simp: wf_event_def e)
  show "event_line e = raw" by (rule raw)
qed

subsection \<open>Lines\<close>

lemma canonical_uuid_ascii: "canonical_uuid s = Some True \<Longrightarrow> ascii s"
proof -
  assume "canonical_uuid s = Some True"
  then obtain n where s: "s = uuid_text n" by (auto simp: canonical_uuid_def split: option.splits)
  have "list_all hex_lower (pad_hex k n)" for k
    by (induction k n rule: pad_hex.induct) (simp_all add: hex_lower_char)
  then have "ascii (pad_hex 32 n)" using hex_lower_ascii by (auto simp: ascii_def list_all_iff simp del: pad_hex.simps)
  then show "ascii s"
    by (auto simp: s uuid_text_def dashed_def ascii_def list_all_iff simp del: pad_hex.simps dest: in_set_takeD in_set_dropD)
qed

lemma nat_text_short: "0 \<le> n \<Longrightarrow> n < 10 ^ Suc k \<Longrightarrow> length (nat_text n) \<le> Suc k"
proof (induction k arbitrary: n)
  case 0
  then show ?case by (subst nat_text.simps) simp
next
  case (Suc k)
  show ?case
  proof (cases "n < 10")
    case False
    then have "n div 10 < 10 ^ Suc k" "0 \<le> n div 10" using Suc.prems by (simp_all add: div_less_iff_less_mult)
    then show ?thesis using Suc.IH [of "n div 10"] by (subst nat_text.simps) simp
  qed (subst nat_text.simps, simp)
qed

lemma small_int_plain: "0 \<le> i \<Longrightarrow> i < 10000 \<Longrightarrow> ilen (nat_text \<bar>i\<bar>) \<le> MAX_STR_DIGITS"
  using nat_text_short [of i 3] by (simp add: ilen_def MAX_STR_DIGITS_def)

definition line_value :: "pyobj \<Rightarrow> bool" where
  "line_value v = (case v of PNone \<Rightarrow> True | PInt i \<Rightarrow> 0 \<le> i \<and> i < 10000 | PStr s \<Rightarrow> valid_utf8 s | _ \<Rightarrow> False)"

lemma line_value_plain: "line_value v \<Longrightarrow> plain_json v \<and> encodable v"
  using small_int_plain by (cases v) (fastforce simp: line_value_def)+

lemma line_object_plain:
  assumes "list_all (\<lambda>kv. valid_utf8 (fst kv) \<and> line_value (snd kv)) kvs" "distinct (map fst kvs)"
  shows "plain_json (obj kvs)" "encodable (obj kvs)"
  using assms line_value_plain by (auto simp: plain_obj encodable_obj list_all_iff)

text \<open>Nothing is escaped to a line break, so a text is one line.\<close>

definition one_line :: "string \<Rightarrow> bool" where
  "one_line s = (CHR 0x0A \<notin> set s \<and> CHR 0x0D \<notin> set s)"

lemma one_line_simps [simp]:
  "one_line []" "one_line (c # s) \<longleftrightarrow> c \<noteq> CHR 0x0A \<and> c \<noteq> CHR 0x0D \<and> one_line s"
  "one_line (s @ t) \<longleftrightarrow> one_line s \<and> one_line t"
  by (auto simp: one_line_def)

lemma one_line_high: "list_all (\<lambda>c. 32 \<le> byte c) s \<Longrightarrow> one_line s"
  by (auto simp: one_line_def list_all_iff)

lemma take_line_one: "one_line s \<Longrightarrow> take_line (s @ CHR 0x0A # r) = (s @ [CHR 0x0A], r)"
  by (induction s) simp_all

lemma split_lines_one:
  assumes "one_line s"
  shows "split_lines ((s @ [CHR 0x0A]) @ r) = (s @ [CHR 0x0A]) # split_lines r"
proof -
  obtain c cs where c: "(s @ [CHR 0x0A]) @ r = c # cs" by (cases s) auto
  show ?thesis unfolding c split_lines.simps unfolding c [symmetric] using take_line_one [OF assms] by simp
qed

lemma split_lines_all: "list_all (\<lambda>l. \<exists>s. one_line s \<and> l = s @ [CHR 0x0A]) ls \<Longrightarrow> split_lines (concat ls) = ls"
proof (induction ls)
  case (Cons l ls)
  then obtain s where "one_line s" "l = s @ [CHR 0x0A]" by auto
  then show ?case using split_lines_one [of s "concat ls"] Cons by simp
qed simp

lemma take_line_append: "fst (take_line s) @ snd (take_line s) = s"
proof (induction s)
  case (Cons c cs)
  then show ?case by (cases cs) (auto split: prod.splits)
qed simp

lemma concat_split_lines: "concat (split_lines s) = s"
proof (induction s rule: split_lines.induct)
  case (2 c cs)
  then show ?case using take_line_append [of "c # cs"] by simp
qed simp

text \<open>What the encoder writes of a line value has no byte below a space.\<close>

definition visible :: "string \<Rightarrow> bool" where
  "visible s = list_all (\<lambda>c. 32 \<le> byte c) s"

lemma visible_simps [simp]:
  "visible []" "visible (c # s) \<longleftrightarrow> 32 \<le> byte c \<and> visible s" "visible (s @ t) \<longleftrightarrow> visible s \<and> visible t"
  by (simp_all add: visible_def)

lemma visible_concat: "(\<And>s. s \<in> set ss \<Longrightarrow> visible s) \<Longrightarrow> visible (concat ss)"
  by (induction ss) simp_all

lemma visible_one_line: "visible s \<Longrightarrow> one_line s"
  unfolding visible_def by (rule one_line_high)

lemma hex_char_visible: "0 \<le> d \<Longrightarrow> d < 16 \<Longrightarrow> 32 \<le> byte (hex_char d)"
  by (simp add: hex_char_def byte_char_of)

lemma escape_char_visible: "visible (escape_char c)"
proof -
  have "0 \<le> byte c div 16 \<and> byte c div 16 < 16"
    using byte_bounds [of c] by (simp add: div_less_iff_less_mult pos_imp_zdiv_nonneg_iff)
  then show ?thesis by (simp add: escape_char_def hex_char_visible)
qed

lemma unicode_escape_visible: "0 \<le> u \<Longrightarrow> u < 65536 \<Longrightarrow> visible (unicode_escape u)"
  by (simp add: unicode_escape_def hex_char_visible div_less_iff_less_mult pos_imp_zdiv_nonneg_iff)

lemma escape_point_visible:
  assumes "scalar_value p"
  shows "visible (escape_point p)"
proof -
  have p: "0 \<le> p" "p \<le> 1114111" using assms by (simp_all add: scalar_value_def)
  have "0 \<le> (p - 65536) div 1024 \<and> (p - 65536) div 1024 < 1024" if "65536 \<le> p"
    using that p by (simp add: pos_imp_zdiv_nonneg_iff div_less_iff_less_mult)
  moreover have "0 \<le> (p - 65536) mod 1024 \<and> (p - 65536) mod 1024 < 1024" by simp
  ultimately show ?thesis
    using p by (simp add: escape_point_def escape_char_visible unicode_escape_visible)
qed

lemma string_token_visible:
  assumes "valid_utf8 s"
  shows "visible (string_token a s)"
proof -
  obtain ps where "utf8_points s = ps" "list_all scalar_value ps"
    using assms utf8_points_decode by (fastforce simp: valid_utf8_def)
  then show ?thesis
    by (auto simp: string_token_def escape_string_def list_all_iff intro!: visible_concat escape_char_visible escape_point_visible)
qed

lemma line_value_visible: "line_value v \<Longrightarrow> visible (dumps st l v)"
proof (cases v)
  case (PInt i)
  moreover assume "line_value v"
  ultimately show ?thesis
    using nat_text_digits [of i] by (auto simp: line_value_def int_text_def visible_def list_all_iff json_digit_def)
qed (auto simp: line_value_def string_token_visible)

lemma join_visible: "list_all visible ts \<Longrightarrow> visible sep \<Longrightarrow> visible close \<Longrightarrow> visible (join_text sep close ts)"
  by (induction sep close ts rule: join_text.induct) auto

lemma line_object_visible:
  assumes "list_all (\<lambda>kv. valid_utf8 (fst kv) \<and> line_value (snd kv)) kvs" "indent st = None"
  shows "visible (dumps st l (obj kvs))"
proof -
  have sep: "visible (key_separator st)" "visible (item_separator st l')" "visible (new_line st l')" for l'
    using assms(2) by (simp_all add: key_separator_def item_separator_def new_line_def)
  have "visible (member_text st l' kv)" if "kv \<in> set kvs" for kv l'
    using assms(1) that sep by (auto simp: member_text_def list_all_iff string_token_visible line_value_visible)
  then show ?thesis
    using sep by (auto simp: dumps_obj bracketed_def list_all_iff intro!: join_visible)
qed

subsection \<open>The round trip of a line\<close>

lemma line_read_back:
  assumes "list_all (\<lambda>kv. valid_utf8 (fst kv) \<and> line_value (snd kv)) kvs" "distinct (map fst kvs)" "indent st = None"
  shows "json_loads default_decoder (dumps st 0 (obj kvs) @ [CHR 0x0A]) = Inr (obj kvs)"
    "valid_utf8 (dumps st 0 (obj kvs) @ [CHR 0x0A])"
    "\<exists>s. one_line s \<and> dumps st 0 (obj kvs) @ [CHR 0x0A] = s @ [CHR 0x0A]"
proof -
  note p = line_object_plain [OF assms(1,2)]
  show "json_loads default_decoder (dumps st 0 (obj kvs) @ [CHR 0x0A]) = Inr (obj kvs)"
    by (rule loads_dumps) (simp_all add: default_decoder_def p white_def)
  show "valid_utf8 (dumps st 0 (obj kvs) @ [CHR 0x0A])"
    using valid_utf8_dumps [OF p] by (intro valid_utf8_append) (simp_all add: valid_utf8_Cons)
  show "\<exists>s. one_line s \<and> dumps st 0 (obj kvs) @ [CHR 0x0A] = s @ [CHR 0x0A]"
    using line_object_visible [OF assms(1,3)] visible_one_line by blast
qed

lemma optional_line_value: "fixed_revision r \<Longrightarrow> line_value (optional_str r)"
  using fixed_revision_ascii by (cases r) (auto simp: line_value_def optional_str_def valid_utf8_ascii)

lemma event_line_values:
  assumes "wf_event e"
  shows "list_all (\<lambda>kv. valid_utf8 (fst kv) \<and> line_value (snd kv)) (event_dict e)"
proof -
  have "valid_utf8 (choice e)" "valid_utf8 (subject e)" "valid_utf8 (created_at e)" "valid_utf8 (event_id e)"
    using assms bounded_text_again(2) subject_reference_again(2) fixed_time_stored canonical_uuid_ascii
    by (auto simp: wf_event_def valid_utf8_ascii)
  moreover have "line_value (PInt (event_version e))"
    using assms by (auto simp: wf_event_def line_value_def CONTROL_SCHEMA_VERSION_def EXPANDED_CONTROL_SCHEMA_VERSION_def)
  moreover have "line_value (optional_str (target_revision e))"
    using assms by (simp add: wf_event_def optional_line_value)
  moreover have "valid_utf8 (kind_value (event_kind e))" by (cases "event_kind e") (simp_all add: valid_utf8_ascii ascii_def)
  ultimately show ?thesis
    using assms by (simp add: event_dict_def wf_event_def line_value_def [of "PStr _"] valid_utf8_ascii ascii_def)
qed

lemma obj_field: "payload_field (items kvs) k = (case map_of kvs k of Some v \<Rightarrow> v | None \<Rightarrow> PNone)"
  by (simp add: payload_field_def dget_items)

lemma obj_keys: "fst ` set (items kvs) = PStr ` fst ` set kvs"
  by (force simp: items_def)

lemma find_kind: "find (\<lambda>k. kind_value k = kind_value kind) [SETUP_CHOICE, APPROVAL, CORRECTION, UNDO_REQUEST] = Some kind"
  by (cases kind) simp_all

lemma optional_str_None: "optional_str r = PNone \<longleftrightarrow> r = None"
  by (cases r) (simp_all add: optional_str_def)

lemma event_fields:
  "payload_field (items (event_dict e)) ''choice'' = PStr (choice e)"
  "payload_field (items (event_dict e)) ''created_at'' = PStr (created_at e)"
  "payload_field (items (event_dict e)) ''event_id'' = PStr (event_id e)"
  "payload_field (items (event_dict e)) ''kind'' = PStr (kind_value (event_kind e))"
  "payload_field (items (event_dict e)) ''schema_version'' = PInt (event_version e)"
  "payload_field (items (event_dict e)) ''source'' = PStr (event_source e)"
  "payload_field (items (event_dict e)) ''subject'' = PStr (subject e)"
  "payload_field (items (event_dict e)) ''target_revision'' = optional_str (target_revision e)"
  unfolding obj_field by (simp_all add: event_dict_def)

lemma header_fields:
  "payload_field (items (header_dict h)) ''disposition_head_revision'' = optional_str (disposition_head h)"
  "payload_field (items (header_dict h)) ''event_count'' = PInt (event_count h)"
  "payload_field (items (header_dict h)) ''events_digest'' = PStr (events_digest h)"
  "payload_field (items (header_dict h)) ''generation'' = PInt (generation h)"
  "payload_field (items (header_dict h)) ''opened_at'' = PStr (opened_at h)"
  "payload_field (items (header_dict h)) ''previous_revision'' = optional_str (previous_revision h)"
  "payload_field (items (header_dict h)) ''record_type'' = PStr ''generation''"
  "payload_field (items (header_dict h)) ''schema_version'' = PInt (header_version h)"
  unfolding obj_field by (simp_all add: header_dict_def)

theorem parse_event_line:
  assumes "wf_event e"
  shows "parse_event n (event_line e) = Inr e"
proof -
  have keys: "set (map fst (items (event_dict e))) = set (map PStr EVENT_KEYS)"
    by (simp add: obj_keys event_dict_def EVENT_KEYS_def)
  have v: "control_version (PInt (event_version e)) = Some (event_version e)"
    and two: "\<not> (event_version e = EXPANDED_CONTROL_SCHEMA_VERSION \<and>
      (\<not> expanded_review (event_version e) (event_kind e) (subject e) \<or> ilen (choice e) \<le> MAX_CONTROL_TEXT_BYTES))"
    using assms by (auto simp: wf_event_def)
  have k: "control_kind_of (PStr (kind_value (event_kind e))) = Inr (event_kind e)"
    unfolding control_kind_of_def by (simp add: find_kind del: find.simps)
  have t: "event_time n (PStr (created_at e)) = Inr (created_at e)"
    using assms fixed_time_stored(1) by (simp add: event_time_def text_of_def wf_event_def)
  have e: "\<lparr>event_version = event_version e, event_id = event_id e, event_kind = event_kind e, subject = subject e,
      choice = choice e, target_revision = target_revision e, created_at = created_at e, event_source = ''bridge''\<rparr> = e"
    using assms by (simp add: wf_event_def)
  have "parse_event_fields n (event_line e) (items (event_dict e)) = Inr e"
    unfolding parse_event_fields_def keys
    using assms v k t e two fixed_revision_optional
    by (cases e) (auto simp: event_fields text_of_def wf_event_def text_bound_def Let_def)
  moreover have "distinct (map fst (event_dict e))" by (simp add: event_dict_def)
  note line_read_back [OF event_line_values [OF assms] this, of compact]
  ultimately show ?thesis
    by (simp add: parse_event_def event_line_def compact_def obj_def)
qed

lemma event_line_one: "wf_event e \<Longrightarrow> \<exists>s. one_line s \<and> event_line e = s @ [CHR 0x0A]"
  using line_read_back(3) [OF event_line_values, of e compact] by (simp add: event_line_def compact_def event_dict_def)

subsection \<open>Headers\<close>

definition wf_header :: "queue_header \<Rightarrow> bool" where
  "wf_header h =
     (header_version h \<in> {CONTROL_SCHEMA_VERSION, EXPANDED_CONTROL_SCHEMA_VERSION}
      \<and> 0 \<le> generation h \<and> generation h \<le> MAX_GENERATIONS \<and> (generation h = 0 \<longleftrightarrow> previous_revision h = None)
      \<and> fixed_revision (previous_revision h) \<and> fixed_revision (disposition_head h) \<and> fixed_time (opened_at h)
      \<and> 0 \<le> event_count h \<and> event_count h \<le> MAX_EVENTS \<and> fixed_revision (Some (events_digest h)))"

lemma header_line_values:
  assumes "wf_header h"
  shows "list_all (\<lambda>kv. valid_utf8 (fst kv) \<and> line_value (snd kv)) (header_dict h)"
  using assms optional_line_value [of "previous_revision h"] optional_line_value [of "disposition_head h"]
    fixed_time_stored(2) [of "opened_at h"] fixed_revision_ascii [of "events_digest h"]
  by (auto simp: header_dict_def wf_header_def line_value_def [of "PStr _"] line_value_def [of "PInt _"] valid_utf8_ascii ascii_def
      MAX_GENERATIONS_def MAX_EVENTS_def CONTROL_SCHEMA_VERSION_def EXPANDED_CONTROL_SCHEMA_VERSION_def)

lemma header_line_one: "wf_header h \<Longrightarrow> \<exists>s. one_line s \<and> header_line h = s @ [CHR 0x0A]"
  using line_read_back(3) [OF header_line_values, of h compact_ascii]
  by (simp add: header_line_def compact_ascii_def header_dict_def)

theorem parse_header_line:
  assumes "wf_header h" "events_digest h = sha256_bytes event_bytes"
  shows "parse_header (header_line h) event_bytes = Inr h"
proof -
  have keys: "set (map fst (items (header_dict h))) = set (map PStr HEADER_KEYS)"
    by (simp add: obj_keys header_dict_def HEADER_KEYS_def)
  have v: "control_version (PInt (header_version h)) = Some (header_version h)"
    using assms(1) by (auto simp: wf_header_def)
  have t: "header_time (PStr (opened_at h)) = Inr (opened_at h)"
    using assms(1) fixed_time_stored(1) by (simp add: header_time_def text_of_def wf_header_def)
  have r: "parse_revision (PStr (events_digest h)) ''events_digest'' = Inr (events_digest h)"
    using assms(1) fixed_revision_parse by (simp add: wf_header_def)
  have p: "optional_str None = PNone" "\<And>r l. previous_revision h = Some r \<Longrightarrow> parse_revision (optional_str (Some r)) l = Inr r"
    using assms(1) fixed_revision_parse by (simp_all add: wf_header_def optional_str_def)
  have "parse_header_fields (items (header_dict h)) event_bytes = Inr h"
    unfolding parse_header_fields_def keys
    using assms v t r p fixed_revision_optional
    by (cases "previous_revision h") (simp_all add: header_fields wf_header_def)
  moreover have "distinct (map fst (header_dict h))" by (simp add: header_dict_def)
  note line_read_back [OF header_line_values [OF assms(1)] this, of compact_ascii]
  ultimately show ?thesis
    by (simp add: parse_header_def header_line_def compact_ascii_def obj_def)
qed

lemma parse_header_fields_Inr:
  assumes "parse_header_fields d event_bytes = Inr h"
  shows "wf_header h" "events_digest h = sha256_bytes event_bytes"
proof -
  from assms obtain version gen prev head opened n digest where
    v: "control_version (payload_field d ''schema_version'') = Some version"
    and g: "bounded_int MAX_GENERATIONS (payload_field d ''generation'') = Some gen"
    and p: "(if gen = 0 then prev = None else \<exists>r. prev = Some r \<and> parse_revision (payload_field d ''previous_revision'') ''previous_revision'' = Inr r)"
    and hd: "optional_revision (payload_field d ''disposition_head_revision'') ''disposition_head_revision'' = Inr head"
    and t: "header_time (payload_field d ''opened_at'') = Inr opened"
    and c: "bounded_int MAX_EVENTS (payload_field d ''event_count'') = Some n"
    and digest: "parse_revision (payload_field d ''events_digest'') ''events_digest'' = Inr digest" "sha256_bytes event_bytes = digest"
    and h: "h = \<lparr>header_version = version, generation = gen, previous_revision = prev, disposition_head = head,
               opened_at = opened, event_count = n, events_digest = digest\<rparr>"
    by (fastforce simp: parse_header_fields_def bindE_Inr_iff split: option.splits if_splits)
  have "version \<in> {CONTROL_SCHEMA_VERSION, EXPANDED_CONTROL_SCHEMA_VERSION}"
    using v by (cases "payload_field d ''schema_version''") (auto split: if_splits)
  moreover have "0 \<le> gen \<and> gen \<le> MAX_GENERATIONS" "0 \<le> n \<and> n \<le> MAX_EVENTS"
    using g c by (cases "payload_field d ''generation''"; cases "payload_field d ''event_count''"; auto split: if_splits)+
  moreover have "fixed_revision prev" "gen = 0 \<longleftrightarrow> prev = None"
    using p parse_revision_again by (auto simp: fixed_revision_def [of None] split: if_splits)
  moreover have "fixed_time opened"
    using t stored_time_again by (auto simp: header_time_def split: if_splits sum.splits)
  ultimately show "wf_header h"
    using hd optional_revision_again parse_revision_again [OF digest(1)] by (auto simp: wf_header_def h)
  show "events_digest h = sha256_bytes event_bytes" by (simp add: h digest)
qed

lemma parse_header_Inr:
  assumes "parse_header line event_bytes = Inr h"
  shows "wf_header h" "events_digest h = sha256_bytes event_bytes"
proof -
  from assms obtain d where "parse_header_fields d event_bytes = Inr h"
    by (auto simp: parse_header_def split: if_splits sum.splits json_error.splits pyobj.splits)
  then show "wf_header h" "events_digest h = sha256_bytes event_bytes" by (rule parse_header_fields_Inr)+
qed

lemma parse_event_Inr:
  assumes "parse_event n raw = Inr e"
  shows "wf_event e" "event_line e = raw"
proof -
  from assms obtain d where "parse_event_fields n raw d = Inr e"
    by (auto simp: parse_event_def event_error_def split: if_splits sum.splits json_error.splits pyobj.splits)
  then show "wf_event e" "event_line e = raw" by (rule parse_event_fields_Inr)+
qed

subsection \<open>Documents\<close>

definition wf_document :: "queue_header \<Rightarrow> control_event list \<Rightarrow> bool" where
  "wf_document h es =
     (wf_header h \<and> list_all wf_event es \<and> event_count h = ilen es
      \<and> events_digest h = sha256_bytes (concat (map event_line es)) \<and> distinct (map event_id es)
      \<and> (header_version h = CONTROL_SCHEMA_VERSION \<longrightarrow> list_all (\<lambda>e. event_version e = CONTROL_SCHEMA_VERSION) es))"

definition document :: "queue_header \<Rightarrow> control_event list \<Rightarrow> string" where
  "document h es = header_line h @ concat (map event_line es)"

lemma parse_events_lines:
  "list_all wf_event es \<Longrightarrow> n + ilen es \<le> MAX_EVENTS + 1 \<Longrightarrow> parse_events n (map event_line es) = Inr es"
proof (induction es arbitrary: n)
  case (Cons e es)
  then have "parse_events (n + 1) (map event_line es) = Inr es" by (intro Cons.IH) (simp_all add: ilen_def)
  moreover have "n \<le> MAX_EVENTS" using Cons.prems(2) by (simp add: ilen_def)
  ultimately show ?case using Cons.prems(1) parse_event_line [of e n] by simp
qed simp

lemma parse_events_Inr: "parse_events n raws = Inr es \<Longrightarrow> list_all wf_event es \<and> map event_line es = raws"
proof (induction n raws arbitrary: es rule: parse_events.induct)
  case (2 n raw rest)
  from 2(2) obtain e where e: "parse_event n raw = Inr e" by (auto simp: bindE_Inr_iff)
  from 2(2) e obtain es' where es': "parse_events (n + 1) rest = Inr es'" "es = e # es'" "\<not> MAX_EVENTS < n"
    by (auto simp: bindE_Inr_iff split: if_splits)
  show ?case using 2(1) [OF e es'(3,1)] parse_event_Inr [OF e] es' by simp
qed simp

lemma last_lines: "list_all (\<lambda>l. \<exists>s. l = s @ [CHR 0x0A]) ls \<Longrightarrow> ls \<noteq> [] \<Longrightarrow> last (concat ls) = CHR 0x0A \<and> concat ls \<noteq> []"
proof (induction ls)
  case (Cons l ls)
  then show ?case by (cases "ls = []") (auto simp: last_append simp del: concat_eq_Nil_conv)
qed simp

theorem parse_document:
  assumes "wf_document h es"
  shows "parse_queue_document (document h es) = Inr (Some h, es)"
proof -
  let ?ls = "header_line h # map event_line es"
  have one: "list_all (\<lambda>l. \<exists>s. one_line s \<and> l = s @ [CHR 0x0A]) ?ls"
    using assms header_line_one event_line_one by (auto simp: wf_document_def list_all_iff)
  have d: "document h es = concat ?ls" by (simp add: document_def)
  have lines: "split_lines (document h es) = ?ls" unfolding d by (rule split_lines_all [OF one])
  have "list_all (\<lambda>l. \<exists>s. l = s @ [CHR 0x0A]) ?ls" using one by (auto simp: list_all_iff)
  then have "last (document h es) = CHR 0x0A \<and> document h es \<noteq> []"
    unfolding d by (rule last_lines) simp
  moreover have "parse_header (header_line h) (concat (map event_line es)) = Inr h"
    using assms by (intro parse_header_line) (simp_all add: wf_document_def)
  moreover have "parse_events 1 (map event_line es) = Inr es"
    using assms by (intro parse_events_lines) (auto simp: wf_document_def wf_header_def)
  ultimately show ?thesis
    using assms lines by (simp add: parse_queue_document_def Let_def wf_document_def list_ex_iff list_all_iff)
qed

theorem parse_document_Inr:
  assumes "parse_queue_document stored = Inr (Some h, es)"
  shows "wf_document h es" "\<exists>first. stored = first @ concat (map event_line es)"
proof -
  let ?lines = "split_lines stored"
  from assms have ne: "stored \<noteq> []" and h: "parse_header (hd ?lines) (concat (tl ?lines)) = Inr h"
    and es: "parse_events 1 (tl ?lines) = Inr es" and c: "ilen es = event_count h" "distinct (map event_id es)"
      "\<not> (header_version h = CONTROL_SCHEMA_VERSION \<and> list_ex (\<lambda>e. event_version e \<noteq> CONTROL_SCHEMA_VERSION) es)"
    by (auto simp: parse_queue_document_def Let_def bindE_Inr_iff split: if_splits)
  have l: "list_all wf_event es" "map event_line es = tl ?lines" using parse_events_Inr [OF es] by simp_all
  then show "wf_document h es"
    using parse_header_Inr [OF h] c by (auto simp: wf_document_def list_ex_iff list_all_iff)
  from ne have "?lines \<noteq> []" by (cases stored) simp_all
  then have "stored = hd ?lines @ concat (tl ?lines)"
    using concat_split_lines [of stored] by (cases ?lines) simp_all
  then show "\<exists>first. stored = first @ concat (map event_line es)" using l by auto
qed

lemma parse_document_None: "parse_queue_document stored = Inr (None, es) \<longleftrightarrow> stored = [] \<and> es = []"
  by (auto simp: parse_queue_document_def Let_def bindE_Inr_iff split: if_splits)

lemma encode_queue_Inr:
  "encode_queue version gen prev head opened es = Inr b \<Longrightarrow>
   b = document \<lparr>header_version = version, generation = gen, previous_revision = prev, disposition_head = head,
          opened_at = opened, event_count = ilen es, events_digest = sha256_bytes (concat (map event_line es))\<rparr> es \<and>
   version \<in> {CONTROL_SCHEMA_VERSION, EXPANDED_CONTROL_SCHEMA_VERSION} \<and> ilen es \<le> MAX_EVENTS \<and>
   (version = CONTROL_SCHEMA_VERSION \<longrightarrow> list_all (\<lambda>e. event_version e = CONTROL_SCHEMA_VERSION) es)"
  by (auto simp: encode_queue_def document_def Let_def list_ex_iff list_all_iff split: if_splits)

lemma sha256_bytes_revision: "fixed_revision (Some (sha256_bytes s))"
proof -
  have d: "0 \<le> byte c div 16 \<and> byte c div 16 < 16" for c
    using byte_bounds [of c] by (simp add: div_less_iff_less_mult pos_imp_zdiv_nonneg_iff)
  have h: "hex_value (hex_char d) \<noteq> None \<and> to_lower_hex (hex_char d) = hex_char d" if "0 \<le> d" "d < 16" for d
    using that hex_value_hex_char [OF that] by (auto simp: to_lower_hex_def hex_char_def byte_char_of)
  have "length (hex_text t) = 2 * length t" for t by (induction t) (simp_all add: hex_text_def)
  moreover have "list_all (\<lambda>c. hex_value c \<noteq> None \<and> to_lower_hex c = c) (hex_text t)" for t
    using d h by (induction t) (simp_all add: hex_text_def)
  ultimately show ?thesis
    by (auto simp: fixed_revision_def parse_revision_def sha256_bytes_def list_all_iff map_idI)
qed

end
