(* ===== verification/Control_History.thy ===== *)
theory Control_History
  imports ControlStore Control_Codec
begin

section \<open>The history of a control queue\<close>

text \<open>
  What a vault has recorded, as a specification of the files and not of a reader: the events of the
  archived generations, oldest first, and those of the current one. It is defined only if every archive
  is there, has the digest its successor names and parses to the generation before. The bound on the
  size of an archive is part of it, as the archive's digest is fixed once it is written; the bound on the
  current file is not, because binding a head to a queue that is nearly full writes a file no reader
  accepts any more, and the events are recorded there all the same.
\<close>

fun past_events :: "(string \<rightharpoonup> leaf) \<Rightarrow> nat \<Rightarrow> string option \<Rightarrow> control_event list option" where
  "past_events F 0 prev = Some []"
| "past_events F (Suc g) prev =
     (case prev of None \<Rightarrow> None
      | Some digest \<Rightarrow>
          (case F (archive_path (int g) digest) of
             Some (Regular b) \<Rightarrow>
               (if ilen b \<le> MAX_QUEUE_BYTES \<and> sha256_bytes b = digest then
                  (case parse_queue_document b of
                     Inr (Some h, es) \<Rightarrow>
                       (if generation h = int g \<and> es \<noteq> []
                        then map_option (\<lambda>past. past @ es) (past_events F g (previous_revision h)) else None)
                   | _ \<Rightarrow> None)
                else None)
           | _ \<Rightarrow> None))"

definition document_history :: "(string \<rightharpoonup> leaf) \<Rightarrow> queue_header option \<times> control_event list \<Rightarrow> control_event list option" where
  "document_history F d =
     (case d of
        (None, es) \<Rightarrow> Some es
      | (Some h, es) \<Rightarrow> map_option (\<lambda>past. past @ es) (past_events F (nat (generation h)) (previous_revision h)))"

definition queue_history :: "(string \<rightharpoonup> leaf) \<Rightarrow> control_event list option" where
  "queue_history F =
     (case F QUEUE of
        None \<Rightarrow> Some []
      | Some Irregular \<Rightarrow> None
      | Some (Regular b) \<Rightarrow> (case parse_queue_document b of Inl _ \<Rightarrow> None | Inr d \<Rightarrow> document_history F d))"

subsection \<open>Archive paths\<close>

lemma int_text_no_dash: "0 \<le> g \<Longrightarrow> CHR ''-'' \<notin> set (int_text g)"
  using nat_text_digits [of g] by (auto simp: int_text_def list_all_iff json_digit_def)

lemma split_at_dash: "CHR ''-'' \<notin> set a \<Longrightarrow> CHR ''-'' \<notin> set b \<Longrightarrow> a @ CHR ''-'' # x = b @ CHR ''-'' # y \<Longrightarrow> a = b"
proof (induction a arbitrary: b)
  case Nil
  then show ?case by (cases b) auto
next
  case (Cons c a)
  then show ?case by (cases b) auto
qed

lemma nat_text_inj: "0 \<le> g \<Longrightarrow> 0 \<le> g' \<Longrightarrow> int_text g = int_text g' \<Longrightarrow> g = g'"
  by (metis int_text_def nat_text_value not_less)

lemma archive_path_generation:
  assumes "archive_path g d = archive_path g' d'" "0 \<le> g" "0 \<le> g'"
  shows "g = g'"
proof -
  have "int_text g @ CHR ''-'' # (d @ ''.jsonl'') = int_text g' @ CHR ''-'' # (d' @ ''.jsonl'')"
    using assms(1) by (simp add: archive_path_def)
  then show ?thesis
    using split_at_dash int_text_no_dash assms(2,3) nat_text_inj by blast
qed

lemma archive_path_other [simp]:
  "archive_path g d \<noteq> QUEUE" "QUEUE \<noteq> archive_path g d" "archive_path g d \<noteq> MARKER" "MARKER \<noteq> archive_path g d"
  "QUEUE \<noteq> MARKER" "MARKER \<noteq> QUEUE"
  by (simp_all add: archive_path_def QUEUE_def MARKER_def)

text \<open>The past of a generation is read from older archives only.\<close>

lemma past_events_cong:
  "(\<And>i d. i < g \<Longrightarrow> F' (archive_path (int i) d) = F (archive_path (int i) d)) \<Longrightarrow> past_events F' g prev = past_events F g prev"
proof (induction g arbitrary: prev)
  case (Suc g)
  have "past_events F' g p = past_events F g p" for p by (rule Suc.IH) (simp add: Suc.prems)
  then show ?case using Suc.prems [of g] by (auto split: option.split leaf.split sum.split prod.split)
qed simp

lemma document_history_cong:
  "(\<And>p. p \<noteq> QUEUE \<Longrightarrow> p \<noteq> MARKER \<Longrightarrow> F' p = F p) \<Longrightarrow> document_history F' d = document_history F d"
  using past_events_cong [of _ F' F] by (auto simp: document_history_def split: prod.splits option.splits)

subsection \<open>What the calls do to the files\<close>

definition has_content :: "(string \<rightharpoonup> leaf) \<Rightarrow> string \<Rightarrow> string option \<Rightarrow> bool" where
  "has_content F path x = (F path = map_option Regular x)"

abbreviation with_files :: "(string \<rightharpoonup> leaf) \<Rightarrow> control_world \<Rightarrow> bool" where
  "with_files F w \<equiv> files w = F"

lemma triple_store_idle: "triple (with_files F) (store_step id) (\<lambda>_. with_files F) (\<lambda>_. with_files F)"
  by (auto simp: triple_def store_step_def with_fault_def split: fault.splits)

lemma triple_directory: "triple (with_files F) (store_step (has_directory_update f)) (\<lambda>_. with_files F) (\<lambda>_. with_files F)"
  by (auto simp: triple_def store_step_def with_fault_def split: fault.splits)

lemma triple_atomic_write:
  "triple (with_files F) (atomic_write path b) (\<lambda>_. with_files (F(path \<mapsto> Regular b))) (\<lambda>_ w. with_files F w \<or> with_files (F(path \<mapsto> Regular b)) w)"
  by (auto simp: triple_def atomic_write_def store_step_def with_fault_def split: fault.splits)

lemma triple_read_file:
  "triple (with_files F) (read_regular_file path label m ok)
    (\<lambda>r w. with_files F w \<and> has_content F path r \<and> (ok \<or> r \<noteq> None) \<and> (case r of Some b \<Rightarrow> ilen b \<le> m | None \<Rightarrow> True)) (\<lambda>_. with_files F)"
proof -
  have "triple (with_files F) (andthen (observe (\<lambda>w. files w path)) (\<lambda>leaf. case leaf of
       None \<Rightarrow> if ok then give None else fail (ValidationError (label @ '' is missing beneath the pinned root''))
     | Some Irregular \<Rightarrow> fail (ValidationError (label @ '' must be a regular file, not a link''))
     | Some (Regular b) \<Rightarrow>
         if m < ilen b then fail (ValidationError (label @ '' exceeds its size bound'')) else give (Some b)))
    (\<lambda>r w. with_files F w \<and> has_content F path r \<and> (ok \<or> r \<noteq> None) \<and> (case r of Some b \<Rightarrow> ilen b \<le> m | None \<Rightarrow> True)) (\<lambda>_. with_files F)"
    by (auto simp: triple_def andthen_def observe_def pure_def has_content_def split: option.splits leaf.splits)
  then show ?thesis
    unfolding read_regular_file_def by (rule triple_andthen [OF triple_store_idle])
qed

lemma triple_compare_and_swap:
  "triple (with_files F) (compare_and_swap_regular_file path expected b label m)
    (\<lambda>_ w. with_files (F(path \<mapsto> Regular b)) w \<and> has_content F path expected)
    (\<lambda>_ w. with_files F w \<or> with_files (F(path \<mapsto> Regular b)) w \<and> has_content F path expected)"
    (is "triple _ _ ?Q ?E")
  unfolding compare_and_swap_regular_file_def
proof (rule triple_catch [where R = ?E])
  show "triple (with_files F) (andthen (read_regular_file path label m True) (\<lambda>current.
        if current \<noteq> expected then fail (ConflictError (label @ '' changed before compare-and-swap publication''))
        else andthen (store_step id) (\<lambda>_. atomic_write path b))) ?Q ?E"
  proof (rule triple_andthen [OF triple_conseq [OF triple_read_file [of F path label m True]], where R = "\<lambda>r w. with_files F w \<and> has_content F path r"])
    show "triple (\<lambda>w. with_files F w \<and> has_content F path current)
        (if current \<noteq> expected then fail (ConflictError (label @ '' changed before compare-and-swap publication''))
         else andthen (store_step id) (\<lambda>_. atomic_write path b)) ?Q ?E" for current
    proof (rule triple_fact [where A = "has_content F path current"])
      assume c: "has_content F path current"
      have step: "triple (with_files F) (andthen (store_step id) (\<lambda>_. atomic_write path b))
        (\<lambda>_. with_files (F(path \<mapsto> Regular b))) (\<lambda>_ w. with_files F w \<or> with_files (F(path \<mapsto> Regular b)) w)"
        by (rule triple_then [OF triple_store_idle _ triple_atomic_write]) auto
      show "triple (\<lambda>w. with_files F w \<and> has_content F path current)
        (if current \<noteq> expected then fail (ConflictError (label @ '' changed before compare-and-swap publication''))
         else andthen (store_step id) (\<lambda>_. atomic_write path b)) ?Q ?E"
        by (rule triple_if, rule triple_fail, simp, rule triple_conseq [OF step]) (use c in auto)
    qed simp
  qed auto
qed (auto simp: triple_def pure_def)

lemma triple_report_visible: "triple (with_files F) (report_visible path b label) (\<lambda>_ _. False) (\<lambda>_. with_files F)"
  unfolding report_visible_def by (rule triple_attempt [OF triple_read_file]) (auto simp: triple_def pure_def)

lemma triple_write_verified:
  "triple (with_files F) (write_verified path b label expected)
    (\<lambda>_ w. with_files (F(path \<mapsto> Regular b)) w \<and> has_content F path expected)
    (\<lambda>_ w. with_files F w \<or> with_files (F(path \<mapsto> Regular b)) w \<and> has_content F path expected)"
    (is "triple _ _ ?Q ?E")
  unfolding write_verified_def
proof (rule triple_catch [OF triple_compare_and_swap])
  have "triple (\<lambda>w. with_files F w \<or> with_files (F(path \<mapsto> Regular b)) w \<and> has_content F path expected)
      (report_visible path b label) ?Q ?E"
    by (rule triple_disj, rule triple_conseq [OF triple_report_visible]; (rule triple_fact [where A = "has_content F path expected"])?)
      (auto intro: triple_conseq [OF triple_report_visible])
  then show "triple (\<lambda>w. with_files F w \<or> with_files (F(path \<mapsto> Regular b)) w \<and> has_content F path expected)
      (case outcome_of e of
         Some UNPUBLISHED \<Rightarrow> fail (ControlStorageError (label @ '' was not published''))
       | Some _ \<Rightarrow> report_visible path b label
       | None \<Rightarrow> fail (if is_OSError e then ControlStorageError (label @ '' was not published'') else e)) ?Q ?E" for e
    by (auto split: option.split publish_outcome.split intro: triple_fail)
qed

subsection \<open>What is appended\<close>

lemma to_utc_valid:
  assumes v: "valid_datetime t" and z: "- DAY_MICROSECONDS < z" "z < DAY_MICROSECONDS" and u: "to_utc t z = Inr u"
  shows "valid_datetime u"
proof -
  let ?c = "clock_microseconds t - z" and ?date = "(year t, month t, day t)"
  obtain y m d where date: "(if ?c < 0 then previous_date ?date else if DAY_MICROSECONDS \<le> ?c then next_date ?date else ?date) = (y, m, d)"
    by (metis prod_cases3)
  have vd: "1 \<le> year t" "year t \<le> 9999" "1 \<le> month t" "month t \<le> 12" "1 \<le> day t" "day t \<le> days_in_month (year t) (month t)"
    using v by (simp_all add: valid_datetime_def valid_date_def)
  have y: "1 \<le> y" "y \<le> 9999" and ud: "u = \<lparr>year = y, month = m, day = d, hour = ?c mod DAY_MICROSECONDS div 3600000000,
      minute = ?c mod DAY_MICROSECONDS div 60000000 mod 60, second = ?c mod DAY_MICROSECONDS div 1000000 mod 60,
      microsecond = ?c mod DAY_MICROSECONDS mod 1000000, utc_offset = Some 0\<rparr>"
    using u date by (auto simp: to_utc_def Let_def split: if_splits)
  have one: "1 \<le> days_in_month y m" and december: "days_in_month y 12 = 31" for y m
    by (simp_all add: days_in_month_def)
  have "1 \<le> m \<and> m \<le> 12 \<and> 1 \<le> d \<and> d \<le> days_in_month y m"
    using date vd by (auto simp: previous_date_def next_date_def one december split: if_splits)
  moreover have "0 \<le> ?c mod DAY_MICROSECONDS" "?c mod DAY_MICROSECONDS < DAY_MICROSECONDS"
    by (simp_all add: DAY_MICROSECONDS_def)
  then have "0 \<le> ?c mod DAY_MICROSECONDS div 3600000000" "?c mod DAY_MICROSECONDS div 3600000000 < 24"
    by (simp_all add: DAY_MICROSECONDS_def div_less_iff_less_mult pos_imp_zdiv_nonneg_iff)
  ultimately show ?thesis
    using y by (simp add: ud valid_datetime_def valid_date_def DAY_MICROSECONDS_def)
qed

lemma format_time_fixed:
  assumes "valid_datetime t" "format_time t = Inr s"
  shows "fixed_time s"
proof -
  from assms(2) obtain u where u: "to_utc t (case utc_offset t of None \<Rightarrow> 0 | Some z \<Rightarrow> z) = Inr u" "s = utc_text u"
    by (auto simp: format_time_def bindE_Inr_iff)
  have "valid_datetime u"
    by (rule to_utc_valid [OF assms(1) _ _ u(1)])
      (use assms(1) in \<open>auto simp: valid_datetime_def DAY_MICROSECONDS_def split: option.splits\<close>)
  then show ?thesis using stored_utc_text(2) u(2) by (simp add: fixed_time_def)
qed


text \<open>The queue file is replaced by a document; archives stay.\<close>

definition replaced :: "(string \<rightharpoonup> leaf) \<Rightarrow> string \<Rightarrow> (string \<rightharpoonup> leaf) \<Rightarrow> bool" where
  "replaced F after F' = (F' QUEUE = Some (Regular after) \<and> (\<forall>p. p \<noteq> QUEUE \<longrightarrow> p \<noteq> MARKER \<longrightarrow> F' p = F p))"

definition untouched :: "(string \<rightharpoonup> leaf) \<Rightarrow> (string \<rightharpoonup> leaf) \<Rightarrow> bool" where
  "untouched F F' = (\<forall>p. p \<noteq> MARKER \<longrightarrow> F' p = F p)"

lemma untouched_history: "untouched F F' \<Longrightarrow> queue_history F' = queue_history F"
  using document_history_cong [of F' F] by (auto simp: untouched_def queue_history_def split: option.split leaf.split sum.split)

lemma replaced_history:
  assumes "replaced F (document h es) F'" "wf_document h es"
  shows "queue_history F' = document_history F (Some h, es)"
proof -
  have "document_history F' (Some h, es) = document_history F (Some h, es)"
    using assms(1) by (intro document_history_cong) (simp add: replaced_def)
  then show ?thesis
    using assms parse_document by (simp add: queue_history_def replaced_def)
qed

lemma stored_history:
  "has_content F QUEUE stored \<Longrightarrow> parse_queue_document (case stored of Some b \<Rightarrow> b | None \<Rightarrow> []) = Inr d \<Longrightarrow>
   queue_history F = document_history F d"
  by (auto simp: has_content_def queue_history_def document_history_def parse_queue_document_def split: option.splits)

definition next_header :: "queue_header option \<Rightarrow> control_event list \<Rightarrow> control_event \<Rightarrow> queue_header" where
  "next_header header events e =
     \<lparr>header_version = max (case header of Some h \<Rightarrow> header_version h | None \<Rightarrow> CONTROL_SCHEMA_VERSION) (event_version e),
      generation = header_generation header,
      previous_revision = (case header of Some h \<Rightarrow> previous_revision h | None \<Rightarrow> None),
      disposition_head = (case header of Some h \<Rightarrow> disposition_head h | None \<Rightarrow> None),
      opened_at = (case header of Some h \<Rightarrow> opened_at h | None \<Rightarrow> created_at e),
      event_count = ilen (events @ [e]), events_digest = sha256_bytes (concat (map event_line (events @ [e])))\<rparr>"

lemma next_document_wf:
  assumes "parse_queue_document before = Inr (header, events)" "wf_event e" "event_id e \<notin> event_id ` set events"
    and "ilen events < MAX_EVENTS"
  shows "wf_document (next_header header events e) (events @ [e])"
proof -
  have wf: "(case header of None \<Rightarrow> events = [] | Some h \<Rightarrow> wf_document h events)"
  proof (cases header)
    case None
    then show ?thesis using assms(1) by (simp add: parse_document_None)
  next
    case (Some h)
    then show ?thesis using assms(1) parse_document_Inr(1) by simp
  qed
  have v: "event_version e = CONTROL_SCHEMA_VERSION \<or> event_version e = EXPANDED_CONTROL_SCHEMA_VERSION" "fixed_time (created_at e)"
    using assms(2) by (auto simp: wf_event_def)
  have n: "0 \<le> ilen (events @ [e]) \<and> ilen (events @ [e]) \<le> MAX_EVENTS" using assms(4) by (simp add: ilen_def)
  have "max x (event_version e) = CONTROL_SCHEMA_VERSION \<or> max x (event_version e) = EXPANDED_CONTROL_SCHEMA_VERSION"
    if "x = CONTROL_SCHEMA_VERSION \<or> x = EXPANDED_CONTROL_SCHEMA_VERSION" for x
    using v(1) that by (auto simp: max_def)
  then have "wf_header (next_header header events e)"
    using wf v(2) n sha256_bytes_revision
    by (cases header)
      (simp_all add: wf_header_def next_header_def header_generation_def wf_document_def fixed_revision_def [of None] MAX_GENERATIONS_def)
  moreover have "list_all (\<lambda>e. event_version e = CONTROL_SCHEMA_VERSION) (events @ [e])"
    if "header_version (next_header header events e) = CONTROL_SCHEMA_VERSION"
    using that wf v
    by (cases header) (auto simp: next_header_def wf_document_def wf_header_def CONTROL_SCHEMA_VERSION_def EXPANDED_CONTROL_SCHEMA_VERSION_def max_def split: if_splits)
  ultimately show ?thesis
    using wf assms(2,3) by (cases header) (auto simp: wf_document_def next_header_def)
qed

lemma next_document_history:
  assumes "parse_queue_document before = Inr (header, events)"
  shows "document_history F (Some (next_header header events e), events @ [e]) =
    map_option (\<lambda>old. old @ [e]) (document_history F (header, events))"
  using assms parse_document_None [of before events]
  by (cases header) (auto simp: document_history_def next_header_def header_generation_def option.map_comp comp_def)

end
