(* ===== verification/Control_Steps.thy ===== *)
theory Control_Steps
  imports Control_History
begin

section \<open>The operations of the control queue and its history\<close>

text \<open>
  What each operation does to the files, whatever faults its calls meet: reading leaves them as they
  were, the marker operations change the marker only, an append or a head binding replaces the queue by
  one known document, and a rotation saves the archive before it does.
\<close>

subsection \<open>Reading\<close>

definition only_reads :: "(control_world, 'a) action \<Rightarrow> bool" where
  "only_reads m = (\<forall>w. files (snd (m w)) = files w)"

lemma only_readsD: "only_reads m \<Longrightarrow> m w = (r, w') \<Longrightarrow> files w' = files w"
  by (metis only_reads_def snd_conv)

lemma only_readsI: "(\<And>w r w'. m w = (r, w') \<Longrightarrow> files w' = files w) \<Longrightarrow> only_reads m"
  by (metis only_reads_def prod.collapse)

named_theorems reading \<open>operations that leave the files as they were\<close>

lemma only_reads_pure [reading]: "only_reads (pure r)"
  by (simp add: only_reads_def pure_def)

lemma only_reads_observe [reading]: "only_reads (observe f)"
  by (simp add: only_reads_def observe_def)

lemma only_reads_idle [reading]: "only_reads (store_step id)"
  by (simp add: only_reads_def store_step_def with_fault_def split: fault.split)

lemma only_reads_andthen [reading]: "only_reads m \<Longrightarrow> (\<And>x. only_reads (f x)) \<Longrightarrow> only_reads (andthen m f)"
  by (rule only_readsI) (fastforce simp: andthen_def dest: only_readsD split: prod.splits sum.splits)

lemma only_reads_catch [reading]: "only_reads m \<Longrightarrow> (\<And>e. only_reads (h e)) \<Longrightarrow> only_reads (catch m h)"
  by (rule only_readsI) (fastforce simp: catch_def dest: only_readsD split: prod.splits sum.splits)

lemma only_reads_if [reading]: "only_reads m \<Longrightarrow> only_reads m' \<Longrightarrow> only_reads (if c then m else m')"
  by simp

lemma only_reads_read [reading]: "only_reads (read_regular_file path label m ok)"
  unfolding read_regular_file_def by (auto intro!: reading split: option.split leaf.split)

lemma only_reads_read_marker [reading]: "only_reads read_marker_bytes"
  unfolding read_marker_bytes_def by (intro reading)

lemma only_reads_marker_state [reading]: "only_reads marker_state"
  unfolding marker_state_def by (auto intro!: reading split: option.split)

lemma only_reads_read_optional [reading]: "only_reads read_optional_bytes"
  unfolding read_optional_bytes_def by (intro reading)

lemma only_reads_read_bytes [reading]: "only_reads read_bytes"
  unfolding read_bytes_def by (auto intro!: reading split: option.split)

lemma only_reads_predecessor [reading]: "only_reads (predecessor current digest)"
  unfolding predecessor_def Let_def
  by (intro only_reads_andthen only_reads_catch only_reads_read) (auto intro!: reading split: sum.split prod.split option.split)

lemma triple_only_reads: "only_reads m \<Longrightarrow> triple (\<lambda>w. I (files w)) m (\<lambda>_ w. I (files w)) (\<lambda>_ w. I (files w))"
  by (rule tripleI) (simp_all add: only_readsD)

declare walk_lineage.simps [simp del]

lemma walk_steps:
  "generation h \<le> 0 \<Longrightarrow> walk_lineage m h seen n w = (Inr (), w)"
  "0 < generation h \<Longrightarrow> m = Some k \<Longrightarrow> k \<le> n \<Longrightarrow> walk_lineage m h seen n w = (Inr (), w)"
  "\<not> (generation h \<le> 0 \<or> (case m of Some k \<Rightarrow> k \<le> n | None \<Rightarrow> False)) \<Longrightarrow>
   walk_lineage m h seen n w = (case previous_revision h of
      None \<Rightarrow> (Inl (OtherError ''AssertionError''), w)
    | Some digest \<Rightarrow>
        if digest \<in> set seen then (Inl (ControlStorageError ''control queue archive lineage contains a cycle''), w)
        else case predecessor h digest w of
          (Inl e, w') \<Rightarrow> (Inl e, w')
        | (Inr p, w') \<Rightarrow> walk_lineage m p (digest # seen) (n + 1) w')"
  by (subst walk_lineage.simps, simp)+

lemma files_walk: "walk_lineage m h seen n w = (r, w') \<Longrightarrow> files w' = files w"
proof (induction m h seen n w arbitrary: r w' rule: walk_lineage.induct)
  case (1 m h seen n w)
  show ?case
  proof (cases "generation h \<le> 0 \<or> (case m of Some k \<Rightarrow> k \<le> n | None \<Rightarrow> False)")
    case True
    then have "walk_lineage m h seen n w = (Inr (), w)" by (subst walk_lineage.simps) simp
    then show ?thesis using 1(2) by simp
  next
    case go: False
    show ?thesis
    proof (cases "previous_revision h")
      case None
      then show ?thesis using 1(2) walk_steps(3) [OF go, of seen w] by simp
    next
      case (Some digest)
      obtain r1 w1 where p: "predecessor h digest w = (r1, w1)" by fastforce
      have same: "files w1 = files w" using only_readsD [OF only_reads_predecessor p] .
      show ?thesis
      proof (cases "digest \<in> set seen")
        case True
        then show ?thesis using 1(2) walk_steps(3) [OF go, of seen w] Some by simp
      next
        case new: False
        show ?thesis
        proof (cases r1)
          case (Inl e)
          then show ?thesis using 1(2) walk_steps(3) [OF go, of seen w] Some new p same by simp
        next
          case (Inr q)
          then have "walk_lineage m q (digest # seen) (n + 1) w1 = (r, w')"
            using 1(2) walk_steps(3) [OF go, of seen w] Some new p by simp
          then show ?thesis using 1(1) [OF go Some new p [symmetric] Inr] same by simp
        qed
      qed
    qed
  qed
qed

lemma only_reads_walk [reading]: "only_reads (walk_lineage m h seen n)"
  by (rule only_readsI) (rule files_walk)

lemma only_reads_validate [reading]: "only_reads (validate_lineage header m)"
  by (auto simp: validate_lineage_def intro!: reading split: option.split)

text \<open>A generation that is accepted is the archive its successor names.\<close>

lemma predecessor_archive:
  assumes "predecessor h digest w = (Inr p, w')" "0 < generation h"
  obtains b es where "files w (archive_path (generation p) digest) = Some (Regular b)" "ilen b \<le> MAX_QUEUE_BYTES"
    "sha256_bytes b = digest" "parse_queue_document b = Inr (Some p, es)" "es \<noteq> []" "generation p = generation h - 1"
proof -
  note g = predecessor_generation [OF assms(1)]
  obtain r w1 where rd: "read_regular_file (archive_path (generation h - 1) digest) ''previous control queue generation'' MAX_QUEUE_BYTES False w = (Inr r, w1)"
    using assms(1) by (auto simp: predecessor_def andthen_def catch_def pure_def split: prod.splits sum.splits if_splits)
  obtain b where b: "r = Some b" "files w (archive_path (generation h - 1) digest) = Some (Regular b)" "ilen b \<le> MAX_QUEUE_BYTES"
    using tripleD(1) [OF triple_read_file refl rd] by (cases r) (auto simp: has_content_def)
  have "sha256_bytes b = digest" "\<exists>es. parse_queue_document b = Inr (Some p, es) \<and> es \<noteq> []"
    using assms(1) rd b(1) by (auto simp: predecessor_def andthen_def catch_def pure_def Let_def split: sum.splits option.splits if_splits)
  then show ?thesis using that b g by auto
qed

lemma walk_history:
  "walk_lineage None h seen n w = (Inr (), w') \<Longrightarrow> past_events (files w) (nat (generation h)) (previous_revision h) \<noteq> None"
proof (induction "None :: int option" h seen n w arbitrary: w' rule: walk_lineage.induct)
  case (1 h seen n w)
  show ?case
  proof (cases "generation h \<le> 0")
    case False
    note step = walk_steps(3) [where h = h and m = None and n = n and seen = seen and w = w]
    obtain digest where d: "previous_revision h = Some digest" "digest \<notin> set seen"
      using 1(2) False step by (auto split: option.splits if_splits)
    obtain p w1 where p: "predecessor h digest w = (Inr p, w1)"
      using 1(2) False d step by (auto split: prod.splits sum.splits)
    have next_walk: "walk_lineage None p (digest # seen) (n + 1) w1 = (Inr (), w')"
      using 1(2) False d p step by simp
    have same: "files w1 = files w" using only_readsD [OF only_reads_predecessor p] .
    obtain b es where b: "files w (archive_path (generation p) digest) = Some (Regular b)" "ilen b \<le> MAX_QUEUE_BYTES"
      "sha256_bytes b = digest" "parse_queue_document b = Inr (Some p, es)" "es \<noteq> []" "generation p = generation h - 1"
      using predecessor_archive [OF p] False by auto
    have "past_events (files w) (nat (generation p)) (previous_revision p) \<noteq> None"
      using 1(1) [OF _ d p [symmetric] refl next_walk] False same by simp
    moreover have "nat (generation h) = Suc (nat (generation p))" "int (nat (generation p)) = generation p"
      using b(6) False by simp_all
    ultimately show ?thesis using b d by simp
  qed simp
qed

lemma validate_history:
  assumes "validate_lineage header None w = (Inr (), w')"
  shows "document_history (files w) (header, es) \<noteq> None"
  using assms walk_history [of _ "[]" 0 w w'] by (cases header) (auto simp: validate_lineage_def document_history_def)

subsection \<open>The marker and the queue\<close>

lemma triple_each: "(\<And>F. I F \<Longrightarrow> triple (with_files F) m Q E) \<Longrightarrow> triple (\<lambda>w. I (files w)) m Q E"
  by (fastforce simp: triple_def)

text \<open>A property of the files that does not read the marker.\<close>

definition ignores_marker :: "((string \<rightharpoonup> leaf) \<Rightarrow> bool) \<Rightarrow> bool" where
  "ignores_marker I = (\<forall>F x. I F \<longrightarrow> I (F(MARKER \<mapsto> x)))"

lemma ignores_marker_simps [simp]: "ignores_marker (untouched F)" "ignores_marker (replaced F b)"
  by (simp_all add: ignores_marker_def untouched_def replaced_def)

lemma triple_swap_marker:
  assumes "ignores_marker I"
  shows "triple (\<lambda>w. I (files w)) (compare_and_swap_regular_file MARKER e b l m) (\<lambda>_ w. I (files w)) (\<lambda>_ w. I (files w))"
  by (rule triple_each, rule triple_conseq [OF triple_compare_and_swap]) (use assms in \<open>auto simp: ignores_marker_def\<close>)

lemma triple_verify_marker:
  assumes "ignores_marker I"
  shows "triple (\<lambda>w. I (files w)) (write_verified MARKER b l e) (\<lambda>_ w. I (files w)) (\<lambda>_ w. I (files w))"
  by (rule triple_each, rule triple_conseq [OF triple_write_verified]) (use assms in \<open>auto simp: ignores_marker_def\<close>)

lemma triple_preparing:
  assumes "ignores_marker I"
  shows "triple (\<lambda>w. I (files w)) write_preparing_marker (\<lambda>_ w. I (files w)) (\<lambda>_ w. I (files w))"
  unfolding write_preparing_marker_def
  by (rule triple_catch [OF triple_swap_marker [OF assms]])
    (auto split: option.split publish_outcome.split intro!: triple_only_reads reading)

lemma triple_complete_marker:
  assumes "ignores_marker I"
  shows "triple (\<lambda>w. I (files w)) (complete_marker m b) (\<lambda>_ w. I (files w)) (\<lambda>_ w. I (files w))"
proof -
  have "triple (\<lambda>w. I (files w)) (finalize_marker b e) (\<lambda>_ w. I (files w)) (\<lambda>_ w. I (files w))" for e
    unfolding finalize_marker_def
    by (rule triple_catch [OF triple_verify_marker [OF assms]]) (intro triple_only_reads reading)
  then show ?thesis by (auto simp: complete_marker_def intro!: triple_only_reads reading)
qed

lemma triple_read_optional:
  "triple (with_files F) read_optional_bytes
    (\<lambda>stored w. with_files F w \<and> has_content F QUEUE stored \<and> stored \<noteq> Some [] \<and> (\<forall>b. stored = Some b \<longrightarrow> ilen b \<le> MAX_QUEUE_BYTES))
    (\<lambda>_. with_files F)"
proof -
  have "triple (with_files F) (catch (read_regular_file QUEUE ''control queue'' MAX_QUEUE_BYTES True) (\<lambda>e. fail (storage_error [] e)))
    (\<lambda>r w. with_files F w \<and> has_content F QUEUE r \<and> (True \<or> r \<noteq> None) \<and> (case r of Some b \<Rightarrow> ilen b \<le> MAX_QUEUE_BYTES | None \<Rightarrow> True))
    (\<lambda>_. with_files F)"
    by (rule triple_catch [OF triple_read_file]) (rule triple_fail)
  then show ?thesis
    unfolding read_optional_bytes_def by (rule triple_andthen) (auto simp: triple_def pure_def)
qed

lemma triple_marker_state: "triple (with_files F) marker_state (\<lambda>_. with_files F) (\<lambda>_. with_files F)"
  by (rule triple_only_reads [OF only_reads_marker_state, where I = "\<lambda>G. G = F"])

lemma triple_validate:
  "triple (with_files F) (validate_lineage header None) (\<lambda>_ w. with_files F w \<and> document_history F (header, es) \<noteq> None) (\<lambda>_. with_files F)"
proof (rule tripleI)
  show "with_files F w' \<and> document_history F (header, es) \<noteq> None" if "with_files F w" "validate_lineage header None w = (Inr x, w')" for w x w'
    using that validate_history [of header w w'] only_readsD [OF only_reads_validate that(2)] by auto
qed (simp add: only_readsD [OF only_reads_validate])

lemma triple_write_queue:
  "triple (\<lambda>w. untouched F (files w)) (write_verified QUEUE after l e) (\<lambda>_ w. replaced F after (files w))
    (\<lambda>_ w. untouched F (files w) \<or> replaced F after (files w))"
  by (rule triple_each, rule triple_conseq [OF triple_write_verified]) (auto simp: untouched_def replaced_def)

text \<open>The queue is written, then the marker.\<close>

lemma triple_commit:
  "triple (\<lambda>w. untouched F (files w)) (andthen (write_verified QUEUE after l e) (\<lambda>_. andthen (complete_marker m after) (\<lambda>_. give r)))
    (\<lambda>x w. x = r \<and> replaced F after (files w)) (\<lambda>_ w. untouched F (files w) \<or> replaced F after (files w))"
proof (rule triple_andthen [OF triple_write_queue])
  show "triple (\<lambda>w. replaced F after (files w)) (andthen (complete_marker m after) (\<lambda>_. give r))
      (\<lambda>x w. x = r \<and> replaced F after (files w)) (\<lambda>_ w. untouched F (files w) \<or> replaced F after (files w))"
    by (rule triple_then [OF triple_complete_marker]) (auto simp: triple_def pure_def)
qed

subsection \<open>Appending\<close>

text \<open>The revision a caller names: the digest of the queue.\<close>

definition queue_revision :: "(string \<rightharpoonup> leaf) \<Rightarrow> string" where
  "queue_revision F = sha256_bytes (case F QUEUE of Some (Regular b) \<Rightarrow> b | _ \<Rightarrow> [])"

text \<open>A snapshot is what the queue file says.\<close>

definition shows_queue :: "control_snapshot \<Rightarrow> (string \<rightharpoonup> leaf) \<Rightarrow> bool" where
  "shows_queue s F =
     (case F QUEUE of
        Some (Regular b) \<Rightarrow>
          (case parse_queue_document b of
             Inr (Some h, es) \<Rightarrow> s = \<lparr>snapshot_events = es, snapshot_generation = generation h,
               snapshot_previous = previous_revision h, snapshot_head = disposition_head h, revision = sha256_bytes b\<rparr>
           | _ \<Rightarrow> False)
      | Some Irregular \<Rightarrow> False
      | None \<Rightarrow> s = empty_snapshot)"

definition extended :: "(string \<rightharpoonup> leaf) \<Rightarrow> control_event \<Rightarrow> (string \<rightharpoonup> leaf) \<Rightarrow> bool" where
  "extended F e F' = (\<exists>old. queue_history F = Some old \<and> queue_history F' = Some (old @ [e]))"

lemma stored_document_Inr: "stored_document b = Inr d \<longleftrightarrow> parse_queue_document b = Inr d"
  by (auto simp: stored_document_def split: sum.splits)

lemma replaced_extended:
  assumes parse: "parse_queue_document (case stored of Some b \<Rightarrow> b | None \<Rightarrow> []) = Inr (header, events)"
    and stored: "has_content F QUEUE stored" and past: "document_history F (header, events) \<noteq> None"
    and wf: "wf_event e" "event_id e \<notin> event_id ` set events" "ilen events < MAX_EVENTS"
    and r: "replaced F (document (next_header header events e) (events @ [e])) F'"
  shows "extended F e F'"
    "shows_queue \<lparr>snapshot_events = events @ [e], snapshot_generation = header_generation header,
      snapshot_previous = (case header of Some h \<Rightarrow> previous_revision h | None \<Rightarrow> None),
      snapshot_head = (case header of Some h \<Rightarrow> disposition_head h | None \<Rightarrow> None),
      revision = sha256_bytes (document (next_header header events e) (events @ [e]))\<rparr> F'"
proof -
  note d = next_document_wf [OF parse wf]
  show "extended F e F'"
    using replaced_history [OF r d] next_document_history [OF parse, of F e] stored_history [OF stored parse] past
    by (auto simp: extended_def)
  show "shows_queue \<lparr>snapshot_events = events @ [e], snapshot_generation = header_generation header,
      snapshot_previous = (case header of Some h \<Rightarrow> previous_revision h | None \<Rightarrow> None),
      snapshot_head = (case header of Some h \<Rightarrow> disposition_head h | None \<Rightarrow> None),
      revision = sha256_bytes (document (next_header header events e) (events @ [e]))\<rparr> F'"
    using r parse_document [OF d] by (simp add: shows_queue_def replaced_def next_header_def)
qed

lemma new_event_wf:
  assumes "append_arguments k s x ex target vault m = Inr (kind, s', x', target', expected)"
    and "valid_datetime t" "format_time t = Inr time" "length random = 16"
  shows "wf_event (new_event kind s' x' target' random time)"
proof -
  from assms(1) have a: "subject_reference s kind = Inr s'" "bounded_text x ''choice'' m = Inr x'"
      "optional_revision target ''target_revision'' = Inr target'"
    and m: "m = MAX_CONTROL_TEXT_BYTES \<or> m = MAX_REVIEW_CONTROL_TEXT_BYTES \<and> kind = CORRECTION \<and> starts_with s' ''record:task/''"
    by (auto simp: append_arguments_def bindE_Inr_iff split: if_splits)
  note subject = subject_reference_again(1) [OF a(1)] and b = bounded_text_again [OF a(2)]
  have "bounded_text (PStr x') ''choice'' (if MAX_CONTROL_TEXT_BYTES < ilen x' then MAX_REVIEW_CONTROL_TEXT_BYTES else MAX_CONTROL_TEXT_BYTES) = Inr x'"
    using b(1) [of "''choice''"] b(3) m by (auto simp: bounded_text_def Let_def split: if_splits)
  moreover have "kind = CORRECTION \<and> starts_with s' ''record:task/''" if "MAX_CONTROL_TEXT_BYTES < ilen x'"
    using that m b(3) by auto
  ultimately show ?thesis
    using subject canonical_uuid4 [OF assms(4)] format_time_fixed [OF assms(2,3)] optional_revision_again [OF a(3)]
    by (auto simp: wf_event_def new_event_def text_bound_def expanded_review_def CONTROL_SCHEMA_VERSION_def EXPANDED_CONTROL_SCHEMA_VERSION_def)
qed

definition fresh_event :: "(string \<rightharpoonup> leaf) \<Rightarrow> string \<Rightarrow> bool" where
  "fresh_event F i =
     (case F QUEUE of Some (Regular b) \<Rightarrow>
        (case parse_queue_document b of Inr (_, es) \<Rightarrow> i \<notin> event_id ` set es | Inl _ \<Rightarrow> True) | _ \<Rightarrow> True)"

definition appended ::
    "control_kind \<Rightarrow> string \<Rightarrow> string \<Rightarrow> string option \<Rightarrow> string \<Rightarrow> string \<Rightarrow> datetime \<Rightarrow> (string \<rightharpoonup> leaf) \<Rightarrow> (string \<rightharpoonup> leaf) \<Rightarrow> bool" where
  "appended kind s x target expected random t F F' =
     (queue_revision F = expected \<and>
      (\<exists>time. format_time t = Inr time \<and> extended F (new_event kind s x target random time) F'))"

lemma has_content_bytes:
  "has_content F QUEUE stored \<Longrightarrow> queue_revision F = sha256_bytes (case stored of Some b \<Rightarrow> b | None \<Rightarrow> [])"
  "has_content F QUEUE stored \<Longrightarrow> fresh_event F i \<Longrightarrow>
   parse_queue_document (case stored of Some b \<Rightarrow> b | None \<Rightarrow> []) = Inr (header, events) \<Longrightarrow> i \<notin> event_id ` set events"
  by (auto simp: has_content_def queue_revision_def fresh_event_def parse_queue_document_def split: option.splits)

lemma triple_publish_event:
  assumes parse: "parse_queue_document (case stored of Some b \<Rightarrow> b | None \<Rightarrow> []) = Inr (header, events)"
    and stored: "has_content F QUEUE stored" and past: "document_history F (header, events) \<noteq> None"
    and wf: "wf_event e" "event_id e \<notin> event_id ` set events" "ilen events < MAX_EVENTS"
  shows "triple (\<lambda>w. untouched F (files w)) (publish_event e stored header events marker)
    (\<lambda>snap w. extended F e (files w) \<and> shows_queue snap (files w))
    (\<lambda>_ w. queue_history (files w) = queue_history F \<or> extended F e (files w))"
  unfolding publish_event_def Let_def
proof (rule triple_guard)
  fix after
  assume "encode_queue (max (case header of Some h \<Rightarrow> header_version h | None \<Rightarrow> CONTROL_SCHEMA_VERSION) (event_version e))
          (header_generation header) (case header of Some h \<Rightarrow> previous_revision h | None \<Rightarrow> None)
          (case header of Some h \<Rightarrow> disposition_head h | None \<Rightarrow> None)
          (case header of Some h \<Rightarrow> opened_at h | None \<Rightarrow> created_at e) (events @ [e]) = Inr after"
  then have after: "after = document (next_header header events e) (events @ [e])"
    unfolding next_header_def by (rule encode_queue_Inr [THEN conjunct1])
  note done_facts = replaced_extended [OF parse stored past wf]
  show "triple (\<lambda>w. untouched F (files w))
     (if MAX_QUEUE_BYTES < ilen after then fail (ValidationError ''control queue exceeds its size bound'')
      else andthen (write_verified QUEUE after ''control queue'' stored) (\<lambda>_.
        andthen (complete_marker marker after) (\<lambda>_.
        give \<lparr>snapshot_events = events @ [e], snapshot_generation = header_generation header,
          snapshot_previous = (case header of Some h \<Rightarrow> previous_revision h | None \<Rightarrow> None),
          snapshot_head = (case header of Some h \<Rightarrow> disposition_head h | None \<Rightarrow> None), revision = sha256_bytes after\<rparr>)))
    (\<lambda>snap w. extended F e (files w) \<and> shows_queue snap (files w))
    (\<lambda>_ w. queue_history (files w) = queue_history F \<or> extended F e (files w))"
    by (rule triple_if, rule triple_fail, simp add: untouched_history, rule triple_conseq [OF triple_commit])
      (use done_facts untouched_history in \<open>auto simp: after\<close>)
qed (simp add: untouched_history)

lemma triple_append_to_stored:
  assumes event: "\<And>time. format_time t = Inr time \<Longrightarrow> wf_event (new_event kind s x target random time)"
    and stored: "has_content F QUEUE stored" and fresh: "fresh_event F (uuid4 random)"
  shows "triple (with_files F) (append_to_stored marker stored kind s x target expected random t)
    (\<lambda>snap w. appended kind s x target expected random t F (files w) \<and> shows_queue snap (files w))
    (\<lambda>_ w. queue_history (files w) = queue_history F \<or> appended kind s x target expected random t F (files w))"
    (is "triple _ _ ?Q ?E")
  unfolding append_to_stored_def Let_def
proof (rule triple_guard)
  let ?before = "case stored of Some b \<Rightarrow> b | None \<Rightarrow> []"
  fix d
  assume "stored_document ?before = Inr d"
  then obtain header events where d: "d = (header, events)" and parse: "parse_queue_document ?before = Inr (header, events)"
    by (cases d) (simp add: stored_document_Inr)
  have main: "triple (\<lambda>w. untouched F (files w))
      (if MAX_EVENTS \<le> ilen events then fail (ValidationError ''control queue reached its bounded event limit'')
        else andthen (pure (format_time t)) (\<lambda>time.
          publish_event (new_event kind s x target random time) stored header events marker')) ?Q ?E"
    if past: "document_history F (header, events) \<noteq> None" and rev: "sha256_bytes ?before = expected" for marker'
  proof (rule triple_if, rule triple_fail, simp add: untouched_history, rule triple_guard)
    fix time
    assume room: "\<not> MAX_EVENTS \<le> ilen events" and time: "format_time t = Inr time"
    show "triple (\<lambda>w. untouched F (files w)) (publish_event (new_event kind s x target random time) stored header events marker') ?Q ?E"
      by (rule triple_conseq [OF triple_publish_event [OF parse stored past event [OF time]]])
        (use room time rev has_content_bytes [OF stored] fresh parse in \<open>auto simp: appended_def new_event_def\<close>)
  qed (simp add: untouched_history)
  show "triple (with_files F) (case d of (header, events) \<Rightarrow> andthen (validate_lineage header None) (\<lambda>_.
      if sha256_bytes ?before \<noteq> expected
      then fail (ConflictError ''control queue changed; reload it and append against the latest revision'')
      else andthen (if stored = None \<and> marker = None then andthen write_preparing_marker (\<lambda>_. give (Some Preparing)) else give marker)
        (\<lambda>marker'.
        if MAX_EVENTS \<le> ilen events then fail (ValidationError ''control queue reached its bounded event limit'')
        else andthen (pure (format_time t)) (\<lambda>time.
          publish_event (new_event kind s x target random time) stored header events marker')))) ?Q ?E"
    unfolding d prod.case
  proof (rule triple_then [OF triple_validate [of F header events]], simp, rule triple_if, rule triple_fail, simp,
      rule triple_fact [where A = "document_history F (header, events) \<noteq> None"], simp)
    assume past: "document_history F (header, events) \<noteq> None" and rev: "\<not> sha256_bytes ?before \<noteq> expected"
    have "triple (\<lambda>w. untouched F (files w))
        (if stored = None \<and> marker = None then andthen write_preparing_marker (\<lambda>_. give (Some Preparing)) else give marker)
        (\<lambda>_ w. untouched F (files w)) (\<lambda>_ w. untouched F (files w))"
      by (rule triple_if, rule triple_andthen [OF triple_preparing]) (auto simp: triple_def pure_def)
    then have "triple (\<lambda>w. with_files F w \<and> document_history F (header, events) \<noteq> None)
        (if stored = None \<and> marker = None then andthen write_preparing_marker (\<lambda>_. give (Some Preparing)) else give marker)
        (\<lambda>_ w. untouched F (files w)) (\<lambda>_ w. untouched F (files w))"
      by (rule triple_conseq) (auto simp: untouched_def)
    then show "triple (\<lambda>w. with_files F w \<and> document_history F (header, events) \<noteq> None)
      (andthen (if stored = None \<and> marker = None then andthen write_preparing_marker (\<lambda>_. give (Some Preparing)) else give marker)
        (\<lambda>marker'.
        if MAX_EVENTS \<le> ilen events then fail (ValidationError ''control queue reached its bounded event limit'')
        else andthen (pure (format_time t)) (\<lambda>time.
          publish_event (new_event kind s x target random time) stored header events marker'))) ?Q ?E"
      by (rule triple_then) (use main past rev in \<open>auto simp: untouched_history\<close>)
  qed
qed simp

lemma triple_append_with_store:
  assumes event: "\<And>time. format_time t = Inr time \<Longrightarrow> wf_event (new_event kind s x target random time)"
    and fresh: "fresh_event F (uuid4 random)"
  shows "triple (with_files F) (append_with_store kind s x target expected random t)
    (\<lambda>snap w. appended kind s x target expected random t F (files w) \<and> shows_queue snap (files w))
    (\<lambda>_ w. queue_history (files w) = queue_history F \<or> appended kind s x target expected random t F (files w))"
  unfolding append_with_store_def
proof (rule triple_then [OF triple_marker_state], simp, rule triple_then [OF triple_read_optional], simp,
    rule triple_if, rule triple_fail, simp)
  fix marker stored
  show "triple (\<lambda>w. with_files F w \<and> has_content F QUEUE stored \<and> stored \<noteq> Some [] \<and> (\<forall>b. stored = Some b \<longrightarrow> ilen b \<le> MAX_QUEUE_BYTES))
    (append_to_stored marker stored kind s x target expected random t)
    (\<lambda>snap w. appended kind s x target expected random t F (files w) \<and> shows_queue snap (files w))
    (\<lambda>_ w. queue_history (files w) = queue_history F \<or> appended kind s x target expected random t F (files w))"
    by (rule triple_fact [where A = "has_content F QUEUE stored"], simp,
        rule triple_conseq [OF triple_append_to_stored [OF event _ fresh]]) auto
qed

end
