(* ===== verification/Control_Rotation.thy ===== *)
theory Control_Rotation
  imports Control_Steps
begin

section \<open>Rotation, head binding and the snapshot\<close>

text \<open>
  A rotation moves the events of the queue to an archive, which no older generation uses; binding a
  head replaces the header. Neither changes what the vault has recorded.
\<close>

subsection \<open>Rotation\<close>

text \<open>The archive that a rotation writes holds the queue it replaces.\<close>

lemma archived_history:
  assumes parse: "parse_queue_document before = Inr (Some h, events)" "events \<noteq> []" "ilen before \<le> MAX_QUEUE_BYTES"
    and past: "document_history F (Some h, events) = Some old"
    and G: "\<And>p. p \<noteq> QUEUE \<Longrightarrow> p \<noteq> MARKER \<Longrightarrow> p \<noteq> archive_path (generation h) (sha256_bytes before) \<Longrightarrow> G p = F p"
    and archive: "G (archive_path (generation h) (sha256_bytes before)) = Some (Regular before)"
  shows "past_events G (nat (generation h + 1)) (Some (sha256_bytes before)) = Some old"
proof -
  have g: "0 \<le> generation h" using parse_document_Inr(1) [OF parse(1)] by (simp add: wf_document_def wf_header_def)
  have same: "past_events G (nat (generation h)) p = past_events F (nat (generation h)) p" for p
  proof (rule past_events_cong)
    fix i d assume "i < nat (generation h)"
    then have "archive_path (int i) d \<noteq> archive_path (generation h) (sha256_bytes before)"
      using archive_path_generation g by fastforce
    then show "G (archive_path (int i) d) = F (archive_path (int i) d)" by (simp add: G)
  qed
  have n: "nat (generation h + 1) = Suc (nat (generation h))" "int (nat (generation h)) = generation h" using g by simp_all
  show ?thesis unfolding n(1) using past parse archive same n(2) by (auto simp: document_history_def)
qed

lemma rotated_header:
  assumes "wf_document h events" "generation h < MAX_GENERATIONS" "fixed_time time"
  shows "wf_document \<lparr>header_version = header_version h, generation = generation h + 1, previous_revision = Some (sha256_bytes before),
    disposition_head = None, opened_at = time, event_count = ilen ([] :: control_event list), events_digest = sha256_bytes (concat (map event_line []))\<rparr> []"
  using assms sha256_bytes_revision
  by (auto simp: wf_document_def wf_header_def fixed_revision_def [of None] ilen_def MAX_EVENTS_def)

text \<open>Only the archive, the queue and the marker change, and the queue only after the archive.\<close>

definition archived :: "(string \<rightharpoonup> leaf) \<Rightarrow> string \<Rightarrow> string \<Rightarrow> (string \<rightharpoonup> leaf) \<Rightarrow> bool" where
  "archived F path before G = (G path = Some (Regular before) \<and> (\<forall>p. p \<noteq> MARKER \<longrightarrow> p \<noteq> path \<longrightarrow> G p = F p))"

lemma triple_save_archive:
  "triple (with_files F) (save_archive path before) (\<lambda>_ w. archived F path before (files w))
    (\<lambda>_ w. with_files F w \<or> F path = None \<and> archived F path before (files w))"
  unfolding save_archive_def
proof (rule triple_then [OF triple_read_file], simp)
  fix existing
  have saving: "triple (with_files F) (write_verified path before ''control queue archive'' None) (\<lambda>_ w. archived F path before (files w))
      (\<lambda>_ w. with_files F w \<or> F path = None \<and> archived F path before (files w))"
    by (rule triple_conseq [OF triple_write_verified]) (auto simp: archived_def has_content_def)
  show "triple (\<lambda>w. with_files F w \<and> has_content F path existing \<and> (True \<or> existing \<noteq> None) \<and>
        (case existing of Some b \<Rightarrow> ilen b \<le> MAX_QUEUE_BYTES | None \<Rightarrow> True))
     (case existing of
       Some b \<Rightarrow> if b \<noteq> before then fail (ValidationError ''control queue archive path already contains other data'') else give ()
     | None \<Rightarrow> write_verified path before ''control queue archive'' None)
     (\<lambda>_ w. archived F path before (files w)) (\<lambda>_ w. with_files F w \<or> F path = None \<and> archived F path before (files w))"
  proof (cases existing)
    case None
    then show ?thesis by (auto intro: triple_conseq [OF saving])
  qed (auto simp: triple_def pure_def archived_def has_content_def)
qed


definition rotated :: "(string \<rightharpoonup> leaf) \<Rightarrow> rotation \<Rightarrow> (string \<rightharpoonup> leaf) \<Rightarrow> bool" where
  "rotated F r F' =
     (queue_history F' = queue_history F \<and> F' (rotation_archive r) = F QUEUE \<and> rotation_previous r = queue_revision F \<and>
      (\<exists>b h. F' QUEUE = Some (Regular b) \<and> parse_queue_document b = Inr (Some h, []) \<and> rotation_revision r = sha256_bytes b \<and>
        generation h = rotation_generation r \<and> previous_revision h = Some (queue_revision F)))"

lemma archived_same_history:
  assumes parse: "parse_queue_document before = Inr (Some h, events)" and q: "F QUEUE = Some (Regular before)"
    and a: "archived F (archive_path (generation h) (sha256_bytes before)) before G"
  shows "queue_history G = queue_history F"
proof -
  have g: "0 \<le> generation h" using parse_document_Inr(1) [OF parse] by (simp add: wf_document_def wf_header_def)
  have "past_events G (nat (generation h)) p = past_events F (nat (generation h)) p" for p
  proof (rule past_events_cong)
    fix i d assume "i < nat (generation h)"
    then have "archive_path (int i) d \<noteq> archive_path (generation h) (sha256_bytes before)"
      using archive_path_generation g by fastforce
    then show "G (archive_path (int i) d) = F (archive_path (int i) d)" using a by (simp add: archived_def)
  qed
  moreover have "G QUEUE = F QUEUE" using a by (simp add: archived_def)
  ultimately show ?thesis using q parse by (simp add: queue_history_def document_history_def)
qed

lemma triple_rotate_stored:
  assumes parse: "parse_queue_document before = Inr (Some h, events)" "events \<noteq> []" "ilen before \<le> MAX_QUEUE_BYTES"
    and past: "document_history F (Some h, events) \<noteq> None" and room: "generation h < MAX_GENERATIONS"
    and q: "F QUEUE = Some (Regular before)" and t: "valid_datetime t"
  shows "triple (with_files F) (rotate_stored marker before h events t) (\<lambda>r w. rotated F r (files w))
    (\<lambda>_ w. queue_history (files w) = queue_history F)" (is "triple _ _ ?Q ?E")
proof -
  let ?path = "archive_path (generation h) (sha256_bytes before)"
  note same = archived_same_history [where F = F, OF parse(1) q]
  have commit: "triple (\<lambda>w. archived F ?path before (files w))
      (andthen (write_verified QUEUE after ''control queue'' (Some before)) (\<lambda>_. andthen (complete_marker marker after) (\<lambda>_.
        give \<lparr>rotation_archive = ?path, archived_events = ilen events, rotation_generation = generation h + 1,
          rotation_previous = sha256_bytes before, rotation_revision = sha256_bytes after, rotated_at = time\<rparr>))) ?Q ?E"
    if time: "format_time t = Inr time"
      and after: "encode_queue (header_version h) (generation h + 1) (Some (sha256_bytes before)) None time [] = Inr after" for time after
  proof (rule triple_each)
    fix G assume G: "archived F ?path before G"
    let ?h = "\<lparr>header_version = header_version h, generation = generation h + 1, previous_revision = Some (sha256_bytes before),
      disposition_head = None, opened_at = time, event_count = ilen ([] :: control_event list), events_digest = sha256_bytes (concat (map event_line []))\<rparr>"
    have doc: "after = document ?h []" by (rule encode_queue_Inr [OF after, THEN conjunct1])
    have wf: "wf_document ?h []"
      using rotated_header [OF parse_document_Inr(1) [OF parse(1)] room format_time_fixed [OF t time]] .
    obtain old where old: "document_history F (Some h, events) = Some old" using past by auto
    have F: "queue_history F = Some old" using q parse(1) old by (simp add: queue_history_def)
    have "past_events G (nat (generation h + 1)) (Some (sha256_bytes before)) = Some old"
      by (rule archived_history [OF parse old]) (use G in \<open>auto simp: archived_def\<close>)
    then have new: "document_history G (Some ?h, []) = Some old" by (simp add: document_history_def del: past_events.simps)
    have r: "queue_history F' = queue_history F" if "replaced G after F'" for F'
      using replaced_history [of G ?h "[]" F'] that wf doc new F by simp
    have Q: "rotated F \<lparr>rotation_archive = ?path, archived_events = ilen events, rotation_generation = generation h + 1,
          rotation_previous = sha256_bytes before, rotation_revision = sha256_bytes after, rotated_at = time\<rparr> F'"
      if "replaced G after F'" for F'
      using r [OF that] that parse_document [OF wf] doc G q
      by (auto simp: rotated_def replaced_def archived_def queue_revision_def)
    have E: "queue_history F' = queue_history F" if "untouched G F'" for F'
      using untouched_history [OF that] same [OF G] by simp
    show "triple (with_files G)
      (andthen (write_verified QUEUE after ''control queue'' (Some before)) (\<lambda>_. andthen (complete_marker marker after) (\<lambda>_.
        give \<lparr>rotation_archive = ?path, archived_events = ilen events, rotation_generation = generation h + 1,
          rotation_previous = sha256_bytes before, rotation_revision = sha256_bytes after, rotated_at = time\<rparr>))) ?Q ?E"
      by (rule triple_conseq [OF triple_commit [of G]]) (use Q E r in \<open>auto simp: untouched_def\<close>)
  qed
  show ?thesis
    unfolding rotate_stored_def Let_def
    by (rule triple_then [OF triple_store_idle], simp, rule triple_then [OF triple_save_archive], use same in blast,
        rule triple_guard, rule triple_guard, rule commit) (auto simp: same)
qed

lemma triple_read_bytes:
  "triple (with_files F) read_bytes (\<lambda>b w. with_files F w \<and> F QUEUE = Some (Regular b) \<and> ilen b \<le> MAX_QUEUE_BYTES) (\<lambda>_. with_files F)"
  unfolding read_bytes_def
proof (rule triple_then [OF triple_read_optional], simp)
  fix stored
  show "triple (\<lambda>w. with_files F w \<and> has_content F QUEUE stored \<and> stored \<noteq> Some [] \<and> (\<forall>b. stored = Some b \<longrightarrow> ilen b \<le> MAX_QUEUE_BYTES))
     (case stored of Some b \<Rightarrow> give b | None \<Rightarrow> fail (ControlStorageError ''control queue disappeared after initialization''))
     (\<lambda>b w. with_files F w \<and> F QUEUE = Some (Regular b) \<and> ilen b \<le> MAX_QUEUE_BYTES) (\<lambda>_. with_files F)"
    by (cases stored) (auto simp: triple_def pure_def has_content_def)
qed


lemma triple_parsed:
  assumes q: "F QUEUE = Some (Regular b)"
    and main: "\<And>h events. parse_queue_document b = Inr (Some h, events) \<Longrightarrow> triple (with_files F) (f h events) Q E"
    and err: "\<And>e w. with_files F w \<Longrightarrow> E e w"
  shows "triple (with_files F) (andthen (pure (stored_document b)) (\<lambda>(header, events).
     case header of None \<Rightarrow> fail e | Some h \<Rightarrow> f h events)) Q E"
proof (rule triple_guard)
  fix d
  assume "stored_document b = Inr d"
  then have d: "parse_queue_document b = Inr d" by (simp add: stored_document_Inr)
  show "triple (with_files F) (case d of (header, events) \<Rightarrow> case header of None \<Rightarrow> fail e | Some h \<Rightarrow> f h events) Q E"
  proof (cases d)
    case (Pair header events)
    then show ?thesis using main [of _ events] d by (cases header) (auto intro: triple_fail err)
  qed
qed (rule err)

lemma triple_rotate_bound:
  assumes "valid_datetime t"
  shows "triple (with_files F) (rotate_closed_in_bound_store expected ids t) (\<lambda>r w. rotated F r (files w))
    (\<lambda>_ w. queue_history (files w) = queue_history F)" (is "triple _ _ ?Q ?E")
  unfolding rotate_closed_in_bound_store_def
proof (rule triple_guard, rule triple_then [OF triple_marker_state], simp, rule triple_then [OF triple_read_bytes], simp,
    rule triple_if, rule triple_fail, simp)
  fix marker before
  let ?tail = "\<lambda>header h events. andthen (validate_lineage header None) (\<lambda>_.
         if MAX_GENERATIONS \<le> generation h
         then fail (ValidationError (''control queue reached its audited generation limit; preserve this vault and '' @
           ''start a new vault until authenticated compaction is supported''))
         else if events = [] then fail (ValidationError ''control queue has no events to archive'')
         else if set (map event_id events) \<noteq> ids
         then fail (ConflictError ''control queue still contains undispositioned events'')
         else rotate_stored marker before h events t)"
  have tail: "triple (with_files F) (?tail (Some h) h events) ?Q ?E"
    if q: "F QUEUE = Some (Regular before)" and n: "ilen before \<le> MAX_QUEUE_BYTES"
      and parse: "parse_queue_document before = Inr (Some h, events)" for h events
    by (rule triple_then [OF triple_validate [of F "Some h" events]], simp, rule triple_fact [where A = "document_history F (Some h, events) \<noteq> None"],
        simp, (rule triple_if, rule triple_fail, simp)+, rule triple_conseq [OF triple_rotate_stored [where F = F, OF parse _ n _ _ q assms]]) auto
  show "triple (\<lambda>w. with_files F w \<and> F QUEUE = Some (Regular before) \<and> ilen before \<le> MAX_QUEUE_BYTES)
     (andthen (pure (stored_document before)) (\<lambda>(header, events).
       case header of None \<Rightarrow> fail (ControlStorageError ''initialized control queue has no generation header'')
       | Some h \<Rightarrow> ?tail header h events)) ?Q ?E"
  proof (rule triple_fact [where A = "F QUEUE = Some (Regular before) \<and> ilen before \<le> MAX_QUEUE_BYTES"], simp)
    assume q: "F QUEUE = Some (Regular before) \<and> ilen before \<le> MAX_QUEUE_BYTES"
    have "triple (with_files F) (andthen (pure (stored_document before)) (\<lambda>(header, events).
       case header of None \<Rightarrow> fail (ControlStorageError ''initialized control queue has no generation header'')
       | Some h \<Rightarrow> ?tail (Some h) h events)) ?Q ?E"
      by (rule triple_parsed) (use q tail in auto)
    moreover have "(\<lambda>(header, events).
       case header of None \<Rightarrow> fail (ControlStorageError ''initialized control queue has no generation header'')
       | Some h \<Rightarrow> ?tail header h events) = (\<lambda>(header, events).
       case header of None \<Rightarrow> fail (ControlStorageError ''initialized control queue has no generation header'')
       | Some h \<Rightarrow> ?tail (Some h) h events)"
      by (auto simp: fun_eq_iff split: option.split)
    ultimately show "triple (\<lambda>w. with_files F w \<and> F QUEUE = Some (Regular before) \<and> ilen before \<le> MAX_QUEUE_BYTES)
     (andthen (pure (stored_document before)) (\<lambda>(header, events).
       case header of None \<Rightarrow> fail (ControlStorageError ''initialized control queue has no generation header'')
       | Some h \<Rightarrow> ?tail header h events)) ?Q ?E"
      using q by simp
  qed
qed simp_all

lemma triple_in_directory:
  assumes "\<And>F. triple (with_files F) m (Q F) (E F)" "\<And>F e w. with_files F w \<Longrightarrow> E F e w"
  shows "triple (with_files F) (in_directory m) (Q F) (E F)"
  unfolding in_directory_def
proof (rule triple_then [OF triple_store_idle], rule assms(2), assumption)
  have main: "triple (with_files F) (if x then andthen (store_step id) (\<lambda>_. m)
      else fail (ControlStorageError ''control queue directory is missing'')) (Q F) (E F)" for x
    by (rule triple_if, rule triple_then [OF triple_store_idle _ assms(1)]) (auto intro: assms(2) triple_fail)
  show "triple (with_files F) (andthen (observe has_directory) (\<lambda>x. if x then andthen (store_step id) (\<lambda>_. m)
      else fail (ControlStorageError ''control queue directory is missing''))) (Q F) (E F)"
    using main [of True] main [of False] by (auto simp: triple_def andthen_def observe_def)
qed

subsection \<open>Binding the head of the dispositions\<close>

definition bound :: "(string \<rightharpoonup> leaf) \<Rightarrow> control_snapshot \<Rightarrow> (string \<rightharpoonup> leaf) \<Rightarrow> bool" where
  "bound F snap F' =
     (queue_history F' = queue_history F \<and> shows_queue snap F' \<and>
      (\<exists>before h. F QUEUE = Some (Regular before) \<and> parse_queue_document before = Inr (Some h, snapshot_events snap) \<and>
        snapshot_generation snap = generation h \<and> snapshot_previous snap = previous_revision h))"

lemma triple_bind_stored:
  assumes q: "F QUEUE = Some (Regular before)" and parse: "parse_queue_document before = Inr (Some h, events)"
    and new: "fixed_revision (Some new)"
  shows "triple (with_files F)
     (andthen (pure (encode_queue (header_version h) (generation h) (previous_revision h) (Some new) (opened_at h) events)) (\<lambda>after.
      andthen (write_verified QUEUE after ''control queue'' (Some before)) (\<lambda>_.
      give \<lparr>snapshot_events = events, snapshot_generation = generation h, snapshot_previous = previous_revision h,
        snapshot_head = Some new, revision = sha256_bytes after\<rparr>)))
     (\<lambda>snap w. bound F snap (files w) \<and> snapshot_head snap = Some new) (\<lambda>_ w. queue_history (files w) = queue_history F)"
    (is "triple _ _ ?Q ?E")
proof (rule triple_guard)
  fix after
  assume after: "encode_queue (header_version h) (generation h) (previous_revision h) (Some new) (opened_at h) events = Inr after"
  let ?h = "\<lparr>header_version = header_version h, generation = generation h, previous_revision = previous_revision h,
      disposition_head = Some new, opened_at = opened_at h, event_count = ilen events, events_digest = sha256_bytes (concat (map event_line events))\<rparr>"
  have doc: "after = document ?h events" by (rule encode_queue_Inr [OF after, THEN conjunct1])
  have wf: "wf_document ?h events"
    using parse_document_Inr(1) [OF parse] new by (auto simp: wf_document_def wf_header_def)
  have same: "queue_history F' = queue_history F" if "replaced F after F'" for F'
    using replaced_history [of F ?h events F'] that wf doc q parse by (simp add: queue_history_def document_history_def)
  have Q: "bound F \<lparr>snapshot_events = events, snapshot_generation = generation h, snapshot_previous = previous_revision h,
        snapshot_head = Some new, revision = sha256_bytes after\<rparr> F'" if "replaced F after F'" for F'
    using same [OF that] that parse_document [OF wf] doc q parse by (auto simp: bound_def shows_queue_def replaced_def)
  have publish: "triple (with_files F) (write_verified QUEUE after ''control queue'' (Some before)) (\<lambda>_ w. replaced F after (files w))
    (\<lambda>_ w. untouched F (files w) \<or> replaced F after (files w))"
    by (rule triple_conseq [OF triple_write_queue [of F]]) (auto simp: untouched_def)
  show "triple (with_files F) (andthen (write_verified QUEUE after ''control queue'' (Some before)) (\<lambda>_.
      give \<lparr>snapshot_events = events, snapshot_generation = generation h, snapshot_previous = previous_revision h,
        snapshot_head = Some new, revision = sha256_bytes after\<rparr>)) ?Q ?E"
    by (rule triple_then [OF publish]) (use same untouched_history Q in \<open>auto simp: triple_def pure_def\<close>)
qed simp


lemma triple_bind_bound:
  "triple (with_files F) (bind_disposition_head_in_bound_store expected gen head new)
     (\<lambda>snap w. bound F snap (files w) \<and> (\<exists>r. parse_revision new ''new_head_revision'' = Inr r \<and> snapshot_head snap = Some r))
     (\<lambda>_ w. queue_history (files w) = queue_history F)" (is "triple _ _ ?Q ?E")
  unfolding bind_disposition_head_in_bound_store_def
proof (rule triple_guard, rule triple_guard, rule triple_guard, rule triple_then [OF triple_read_bytes], simp,
    rule triple_if, rule triple_fail, simp)
  fix expected' head' new' before
  assume new: "parse_revision new ''new_head_revision'' = Inr new'"
  let ?tail = "\<lambda>header h events. if generation h \<noteq> gen then fail (ControlStorageError ''control queue generation changed before head binding'')
           else andthen (validate_lineage header None) (\<lambda>_.
             if disposition_head h \<noteq> head' then fail (ConflictError ''control queue disposition head binding changed'')
             else andthen (pure (encode_queue (header_version h) (generation h) (previous_revision h) (Some new') (opened_at h) events))
               (\<lambda>after.
               andthen (write_verified QUEUE after ''control queue'' (Some before)) (\<lambda>_.
               give \<lparr>snapshot_events = events, snapshot_generation = generation h, snapshot_previous = previous_revision h,
                 snapshot_head = Some new', revision = sha256_bytes after\<rparr>)))"
  have tail: "triple (with_files F) (?tail (Some h) h events) ?Q ?E"
    if q: "F QUEUE = Some (Regular before)" and parse: "parse_queue_document before = Inr (Some h, events)" for h events
    by (rule triple_if, rule triple_fail, simp, rule triple_then [OF triple_validate [of F "Some h" events]], simp,
        rule triple_if, rule triple_fail, simp,
        rule triple_conseq [OF triple_bind_stored [where F = F, OF q parse parse_revision_again [OF new]]]) (use new in auto)
  show "triple (\<lambda>w. with_files F w \<and> F QUEUE = Some (Regular before) \<and> ilen before \<le> MAX_QUEUE_BYTES)
     (andthen (pure (stored_document before)) (\<lambda>(header, events).
       case header of None \<Rightarrow> fail (ControlStorageError ''control queue generation changed before head binding'')
       | Some h \<Rightarrow> ?tail header h events)) ?Q ?E"
  proof (rule triple_fact [where A = "F QUEUE = Some (Regular before)"], simp)
    assume q: "F QUEUE = Some (Regular before)"
    have t0: "triple (with_files F) (andthen (pure (stored_document before)) (\<lambda>(header, events).
       case header of None \<Rightarrow> fail (ControlStorageError ''control queue generation changed before head binding'')
       | Some h \<Rightarrow> ?tail (Some h) h events)) ?Q ?E"
      by (rule triple_parsed) (use q tail in auto)
    have eq: "(\<lambda>(header, events).
       case header of None \<Rightarrow> fail (ControlStorageError ''control queue generation changed before head binding'')
       | Some h \<Rightarrow> ?tail header h events) = (\<lambda>(header, events).
       case header of None \<Rightarrow> fail (ControlStorageError ''control queue generation changed before head binding'')
       | Some h \<Rightarrow> ?tail (Some h) h events)"
      by (auto simp: fun_eq_iff split: option.split)
    show "triple (\<lambda>w. with_files F w \<and> F QUEUE = Some (Regular before) \<and> ilen before \<le> MAX_QUEUE_BYTES)
     (andthen (pure (stored_document before)) (\<lambda>(header, events).
       case header of None \<Rightarrow> fail (ControlStorageError ''control queue generation changed before head binding'')
       | Some h \<Rightarrow> ?tail header h events)) ?Q ?E"
      unfolding eq by (rule triple_conseq [OF t0]) auto
  qed
qed simp_all

lemma triple_rotate:
  "valid_datetime t \<Longrightarrow> triple (with_files F) (rotate_closed_with_store expected ids t) (\<lambda>r w. rotated F r (files w))
    (\<lambda>_ w. queue_history (files w) = queue_history F)"
  unfolding rotate_closed_with_store_def
  by (rule triple_in_directory [where Q = "\<lambda>F r w. rotated F r (files w)" and E = "\<lambda>F _ w. queue_history (files w) = queue_history F"])
    (auto intro: triple_rotate_bound)

lemma triple_bind:
  "triple (with_files F) (bind_disposition_head_with_store expected gen head new)
     (\<lambda>snap w. bound F snap (files w) \<and> (\<exists>r. parse_revision new ''new_head_revision'' = Inr r \<and> snapshot_head snap = Some r))
     (\<lambda>_ w. queue_history (files w) = queue_history F)"
  unfolding bind_disposition_head_with_store_def
  by (rule triple_in_directory [where Q = "\<lambda>F snap w. bound F snap (files w) \<and>
        (\<exists>r. parse_revision new ''new_head_revision'' = Inr r \<and> snapshot_head snap = Some r)"
      and E = "\<lambda>F _ w. queue_history (files w) = queue_history F"])
    (auto intro: triple_bind_bound)

subsection \<open>The locked append\<close>

lemma triple_under_locks:
  assumes "triple (with_files F) body Q (\<lambda>_ w. E w)" "\<And>w. with_files F w \<Longrightarrow> E w" "\<And>x w. Q x w \<Longrightarrow> E w"
    "\<And>x w w'. Q x w \<Longrightarrow> files w' = files w \<Longrightarrow> Q x w'" "\<And>w w'. E w \<Longrightarrow> files w' = files w \<Longrightarrow> E w'"
  shows "triple (with_files F) (locked_control_store body) Q (\<lambda>_ w. E w)"
proof -
  have check: "triple (Q x) (andthen (store_step id) (\<lambda>_. give x)) Q (\<lambda>_ w. E w)" for x
  proof (rule tripleI)
    fix w y w'
    assume w: "Q x w"
    have f: "files w' = files w \<and> y = x" if "andthen (store_step id) (\<lambda>_. give x) w = (Inr y, w')"
      using that by (auto simp: andthen_def pure_def store_step_def with_fault_def split: prod.splits sum.splits fault.splits)
    show "Q y w'" if "andthen (store_step id) (\<lambda>_. give x) w = (Inr y, w')"
      using f [OF that] assms(4) w by blast
  next
    fix w e w'
    assume q: "Q x w" and run: "andthen (store_step id) (\<lambda>_. give x) w = (Inl e, w')"
    have o: "only_reads (andthen (store_step id) (\<lambda>_. give x))" by (intro reading)
    show "E w'" by (rule assms(5) [OF assms(3) [OF q] only_readsD [OF o run]])
  qed
  show ?thesis
    unfolding locked_control_store_def control_store_def
    by (rule triple_then [OF triple_store_idle], rule assms(2), assumption)+
      (rule triple_andthen [OF assms(1) check])
qed

lemma appended_event_wf:
  assumes "append_arguments k s x ex target vault m = Inr (kind, s', x', target', expected)"
    and "valid_datetime t" "length random = 16" "format_time t = Inr time"
  shows "wf_event (new_event kind s' x' target' random time)"
  using new_event_wf [OF assms(1,2,4,3)] .

lemma triple_queue_append:
  assumes args: "append_arguments k s x ex target vault m = Inr (kind, s', x', target', expected)"
    and t: "valid_datetime t" and n: "length random = 16" and fresh: "fresh_event F (uuid4 random)"
  shows "triple (with_files F) (queue_append k s x ex target vault m random t)
    (\<lambda>snap w. appended kind s' x' target' expected random t F (files w) \<and> shows_queue snap (files w))
    (\<lambda>_ w. queue_history (files w) = queue_history F \<or> appended kind s' x' target' expected random t F (files w))"
    (is "triple _ _ ?Q ?E")
proof -
  note step = triple_append_with_store [OF appended_event_wf [OF args t n] fresh]
  have body: "triple (with_files F) (andthen (store_step (has_directory_update (\<lambda>_. True))) (\<lambda>_. andthen (store_step id) (\<lambda>_.
        append_with_store kind s' x' target' expected random t))) ?Q ?E"
    by (rule triple_then [OF triple_directory], simp, rule triple_then [OF triple_store_idle _ step]) simp
  have "triple (with_files F) (locked_control_store (andthen (store_step (has_directory_update (\<lambda>_. True))) (\<lambda>_. andthen (store_step id) (\<lambda>_.
        append_with_store kind s' x' target' expected random t)))) ?Q ?E"
    by (rule triple_under_locks [OF body]) auto
  then show ?thesis by (simp add: queue_append_def args triple_def andthen_def pure_def)
qed

subsection \<open>The snapshot\<close>

lemma snapshot_only_reads: "only_reads (snapshot_with_store missing full)"
  unfolding snapshot_with_store_def by (auto intro!: reading split: option.split prod.split)

text \<open>
  The first \<open>k\<close> archives below generation \<open>g\<close> are there, have the digests their successors name and
  parse to the generations before.
\<close>

fun archives_intact :: "(string \<rightharpoonup> leaf) \<Rightarrow> nat \<Rightarrow> nat \<Rightarrow> string option \<Rightarrow> bool" where
  "archives_intact F 0 g prev = True"
| "archives_intact F (Suc k) 0 prev = True"
| "archives_intact F (Suc k) (Suc g) prev =
     (case prev of None \<Rightarrow> False
      | Some digest \<Rightarrow>
          (case F (archive_path (int g) digest) of
             Some (Regular b) \<Rightarrow>
               ilen b \<le> MAX_QUEUE_BYTES \<and> sha256_bytes b = digest \<and>
               (case parse_queue_document b of
                  Inr (Some h, es) \<Rightarrow> generation h = int g \<and> es \<noteq> [] \<and> archives_intact F k g (previous_revision h)
                | _ \<Rightarrow> False)
           | _ \<Rightarrow> False))"

lemma validate_one:
  assumes "validate_lineage (Some h) (Some 1) w = (Inr (), w')"
  shows "archives_intact (files w) 1 (nat (generation h)) (previous_revision h)"
proof (cases "generation h \<le> 0")
  case False
  then have go: "\<not> (generation h \<le> 0 \<or> (case Some 1 of Some k \<Rightarrow> k \<le> (0 :: int) | None \<Rightarrow> False))" by simp
  obtain digest p w1 where d: "previous_revision h = Some digest" "predecessor h digest w = (Inr p, w1)"
    using assms walk_steps(3) [OF go, of "[]" w]
    by (auto simp: validate_lineage_def split: option.splits prod.splits sum.splits)
  obtain b es where "files w (archive_path (generation p) digest) = Some (Regular b)" "ilen b \<le> MAX_QUEUE_BYTES"
    "sha256_bytes b = digest" "parse_queue_document b = Inr (Some p, es)" "es \<noteq> []" "generation p = generation h - 1"
    using predecessor_archive [OF d(2)] False by auto
  moreover from this have "nat (generation h) = Suc (nat (generation p))" "int (nat (generation p)) = generation p"
    using False by simp_all
  ultimately show ?thesis by (simp add: d(1))
qed simp

text \<open>What the walk of either depth has established of a snapshot.\<close>

definition lineage_checked :: "bool \<Rightarrow> (string \<rightharpoonup> leaf) \<Rightarrow> control_snapshot \<Rightarrow> bool" where
  "lineage_checked full F snap =
     (if full then queue_history F \<noteq> None
      else archives_intact F 1 (nat (snapshot_generation snap)) (snapshot_previous snap))"

lemma snapshot_shows:
  assumes "snapshot_with_store missing full w = (Inr snap, w')"
  shows "shows_queue snap (files w)" "lineage_checked full (files w) snap"
proof -
  let ?P = "\<lambda>F snap. shows_queue snap F \<and> lineage_checked full F snap"
  let ?Q = "\<lambda>snap _. ?P (files w) snap"
  have stored: "triple (with_files F) (andthen (pure (stored_document b)) (\<lambda>(header, events).
       andthen (validate_lineage header (if full then None else Some 1)) (\<lambda>_.
         give \<lparr>snapshot_events = events, snapshot_generation = header_generation header,
           snapshot_previous = (case header of Some h \<Rightarrow> previous_revision h | None \<Rightarrow> None),
           snapshot_head = (case header of Some h \<Rightarrow> disposition_head h | None \<Rightarrow> None), revision = sha256_bytes b\<rparr>)))
     (\<lambda>snap _. ?P F snap) (\<lambda>_ _. True)"
    if q: "F QUEUE = Some (Regular b)" and ne: "b \<noteq> []" for F b
  proof (rule triple_guard)
    fix d
    assume "stored_document b = Inr d"
    then have d: "parse_queue_document b = Inr d" by (simp add: stored_document_Inr)
    then obtain h events where dh: "d = (Some h, events)" using ne parse_document_None [of b] by (cases d; cases "fst d") auto
    let ?checked = "if full then document_history F (Some h, events) \<noteq> None
      else archives_intact F 1 (nat (generation h)) (previous_revision h)"
    have v: "triple (with_files F) (validate_lineage (Some h) (if full then None else Some 1)) (\<lambda>_ w. ?checked) (\<lambda>_ _. True)"
      using validate_one [of h] triple_validate [of F "Some h" events]
      by (cases full) (auto simp: triple_def split: sum.split prod.split)
    show "triple (with_files F) (case d of (header, events) \<Rightarrow> andthen (validate_lineage header (if full then None else Some 1)) (\<lambda>_.
         give \<lparr>snapshot_events = events, snapshot_generation = header_generation header,
           snapshot_previous = (case header of Some h \<Rightarrow> previous_revision h | None \<Rightarrow> None),
           snapshot_head = (case header of Some h \<Rightarrow> disposition_head h | None \<Rightarrow> None), revision = sha256_bytes b\<rparr>))
      (\<lambda>snap _. ?P F snap) (\<lambda>_ _. True)"
      unfolding dh prod.case
      by (rule triple_then [OF v])
         (use d dh q in \<open>auto simp: triple_def pure_def shows_queue_def header_generation_def queue_history_def lineage_checked_def\<close>)
  qed simp
  have "triple (with_files (files w)) (snapshot_with_store missing full) ?Q (\<lambda>_ _. True)"
    unfolding snapshot_with_store_def
  proof (rule triple_then [OF triple_marker_state], simp, rule triple_then [OF triple_read_optional], simp)
    fix marker stored'
    show "triple (\<lambda>v. with_files (files w) v \<and> has_content (files w) QUEUE stored' \<and> stored' \<noteq> Some [] \<and>
        (\<forall>b. stored' = Some b \<longrightarrow> ilen b \<le> MAX_QUEUE_BYTES))
      (case stored' of
       None \<Rightarrow>
         if marker = Some Initialized then fail (ControlStorageError ''control queue disappeared after initialization'')
         else if missing then give empty_snapshot
         else fail (ControlStorageError ''control queue has not been initialized'')
     | Some b \<Rightarrow>
         andthen (pure (stored_document b)) (\<lambda>(header, events).
         andthen (validate_lineage header (if full then None else Some 1)) (\<lambda>_.
         give \<lparr>snapshot_events = events, snapshot_generation = header_generation header,
           snapshot_previous = (case header of Some h \<Rightarrow> previous_revision h | None \<Rightarrow> None),
           snapshot_head = (case header of Some h \<Rightarrow> disposition_head h | None \<Rightarrow> None), revision = sha256_bytes b\<rparr>))) ?Q (\<lambda>_ _. True)"
    proof (cases stored')
      case None
      then show ?thesis
        by (auto simp: triple_def pure_def has_content_def shows_queue_def queue_history_def lineage_checked_def empty_snapshot_def)
    next
      case (Some b)
      show ?thesis
        unfolding Some option.case
        by (rule triple_fact [where A = "files w QUEUE = Some (Regular b) \<and> b \<noteq> []"], simp add: has_content_def,
            rule triple_conseq [OF stored [of "files w" b]]) auto
    qed
  qed
  from tripleD(1) [OF this refl assms]
  show "shows_queue snap (files w)" "lineage_checked full (files w) snap" by auto
qed

lemma queue_snapshot_only_reads: "only_reads queue_snapshot"
  unfolding queue_snapshot_def control_store_def by (auto intro!: reading snapshot_only_reads)

lemma queue_snapshot_shows:
  assumes "queue_snapshot w = (Inr snap, w')"
  shows "snap = empty_snapshot \<or> shows_queue snap (files w) \<and> lineage_checked False (files w) snap"
proof -
  let ?Q = "\<lambda>F snap _. snap = empty_snapshot \<or> shows_queue snap F \<and> lineage_checked False F snap"
  have inner: "triple (with_files F) (snapshot_with_store True False) (?Q F) (\<lambda>_ _. True)" for F
    using snapshot_shows [of True False] by (fastforce simp: triple_def split: prod.split sum.split)
  have branch: "triple (with_files F) (if exists then andthen (store_step id) (\<lambda>_. snapshot_with_store True False)
      else give empty_snapshot) (?Q F) (\<lambda>_ _. True)" for F exists
    using triple_then [OF triple_store_idle _ inner] by (auto simp: triple_def pure_def)
  have look: "triple (with_files F) (andthen (observe has_directory) (\<lambda>exists. if exists
      then andthen (store_step id) (\<lambda>_. snapshot_with_store True False) else give empty_snapshot)) (?Q F) (\<lambda>_ _. True)" for F
    using branch by (simp add: triple_def andthen_def observe_def)
  have "triple (with_files (files w)) queue_snapshot (?Q (files w)) (\<lambda>_ _. True)"
    unfolding queue_snapshot_def control_store_def
    by (rule triple_then [OF triple_store_idle], simp, rule triple_then [OF triple_store_idle], simp, rule look)
  from tripleD(1) [OF this refl assms] show ?thesis .
qed

end
