(* ===== verification/Control_Runs.thy ===== *)
theory Control_Runs
  imports Control_Rotation
begin

section \<open>Appends that meet no fault\<close>

text \<open>
  Runs of the operations when the file system does what is asked, so that an append that the checks
  allow is seen to succeed.
\<close>

named_theorems quiet_runs \<open>runs of operations without faults\<close>

lemma quiet_step [quiet_runs]: "store_faults w = [] \<Longrightarrow> store_step f w = (Inr (), f w)"
  by (cases w) (simp add: store_step_def with_fault_def)

lemma quiet_read [quiet_runs]:
  "store_faults w = [] \<Longrightarrow> has_content (files w) path stored \<Longrightarrow> ok \<or> stored \<noteq> None \<Longrightarrow>
   (case stored of Some b \<Rightarrow> ilen b \<le> m | None \<Rightarrow> True) \<Longrightarrow> read_regular_file path label m ok w = (Inr stored, w)"
  by (auto simp: read_regular_file_def effect_simps quiet_step has_content_def andthen_def observe_def pure_def split: option.splits)

lemma quiet_swap [quiet_runs]:
  assumes "store_faults w = []" "has_content (files w) path stored" "case stored of Some b \<Rightarrow> ilen b \<le> m | None \<Rightarrow> True"
  shows "compare_and_swap_regular_file path stored b label m w = (Inr (), w\<lparr>files := (files w)(path \<mapsto> Regular b)\<rparr>)"
proof -
  have "read_regular_file path label m True w = (Inr stored, w)" using assms by (intro quiet_read) simp_all
  then show ?thesis
    using assms(1) by (simp add: compare_and_swap_regular_file_def catch_def andthen_def quiet_step atomic_write_def)
qed

lemma quiet_verified [quiet_runs]:
  assumes "store_faults w = []" "has_content (files w) path stored" "case stored of Some b \<Rightarrow> ilen b \<le> MAX_QUEUE_BYTES | None \<Rightarrow> True"
  shows "write_verified path b label stored w = (Inr (), w\<lparr>files := (files w)(path \<mapsto> Regular b)\<rparr>)"
  using quiet_swap [OF assms] by (simp add: write_verified_def catch_def)

text \<open>The content of the marker file in each of its states.\<close>

fun marker_bytes :: "marker option \<Rightarrow> string option" where
  "marker_bytes None = None"
| "marker_bytes (Some Preparing) = Some MARKER_PREPARING"
| "marker_bytes (Some Initialized) = Some MARKER_INITIALIZED"

lemma marker_lengths: "ilen MARKER_PREPARING \<le> MAX_MARKER_BYTES" "ilen MARKER_INITIALIZED \<le> MAX_MARKER_BYTES"
  "MARKER_PREPARING \<noteq> MARKER_INITIALIZED" "ilen MARKER_PREPARING \<le> MAX_QUEUE_BYTES"
  by code_simp+

lemma quiet_marker [quiet_runs]:
  assumes "store_faults w = []" "has_content (files w) MARKER (marker_bytes m)"
  shows "marker_state w = (Inr m, w)"
proof -
  have "read_regular_file MARKER ''control queue initialization marker'' MAX_MARKER_BYTES True w = (Inr (marker_bytes m), w)"
    by (rule quiet_read [OF assms]) (use marker_lengths in \<open>cases m rule: marker_bytes.cases; simp\<close>)+
  then show ?thesis
    using marker_lengths(3)
    by (cases m rule: marker_bytes.cases) (simp_all add: marker_state_def read_marker_bytes_def andthen_def catch_def pure_def)
qed

lemma quiet_optional [quiet_runs]:
  assumes "store_faults w = []" "has_content (files w) QUEUE stored" "stored \<noteq> Some []"
    "case stored of Some b \<Rightarrow> ilen b \<le> MAX_QUEUE_BYTES | None \<Rightarrow> True"
  shows "read_optional_bytes w = (Inr stored, w)"
  using quiet_read [OF assms(1,2) _ assms(4)] assms(3) by (simp add: read_optional_bytes_def andthen_def catch_def pure_def)

lemma quiet_preparing [quiet_runs]:
  assumes "store_faults w = []" "files w MARKER = None"
  shows "write_preparing_marker w = (Inr (), w\<lparr>files := (files w)(MARKER \<mapsto> Regular MARKER_PREPARING)\<rparr>)"
  using quiet_swap [OF assms(1), of MARKER None] assms(2) by (simp add: write_preparing_marker_def catch_def has_content_def)

lemma quiet_complete:
  assumes "store_faults w = []" "has_content (files w) MARKER (marker_bytes m)"
  shows "\<exists>v. complete_marker m b w = (Inr (), v) \<and> store_faults v = []"
proof (cases m rule: marker_bytes.cases)
  case 1
  then show ?thesis using quiet_verified [OF assms(1), of MARKER None] assms(2) by (simp add: complete_marker_def finalize_marker_def catch_def assms(1))
next
  case 2
  then show ?thesis
    using quiet_verified [OF assms(1), of MARKER "Some MARKER_PREPARING"] assms marker_lengths(4)
    by (simp add: complete_marker_def finalize_marker_def catch_def)
qed (simp add: complete_marker_def pure_def assms(1))

subsection \<open>Publishing an event\<close>

lemma encode_wf:
  assumes "wf_document h es"
  shows "encode_queue (header_version h) (generation h) (previous_revision h) (disposition_head h) (opened_at h) es = Inr (document h es)"
proof -
  have "\<lparr>header_version = header_version h, generation = generation h, previous_revision = previous_revision h,
      disposition_head = disposition_head h, opened_at = opened_at h, event_count = ilen es,
      events_digest = sha256_bytes (concat (map event_line es))\<rparr> = h"
    using assms by (simp add: wf_document_def)
  moreover have "header_version h = CONTROL_SCHEMA_VERSION \<or> header_version h = EXPANDED_CONTROL_SCHEMA_VERSION"
    "ilen es \<le> MAX_EVENTS" "header_version h = CONTROL_SCHEMA_VERSION \<Longrightarrow> \<not> list_ex (\<lambda>e. event_version e \<noteq> CONTROL_SCHEMA_VERSION) es"
    using assms by (auto simp: wf_document_def wf_header_def list_all_iff list_ex_iff)
  ultimately show ?thesis by (simp add: encode_queue_def document_def Let_def)
qed

lemma encode_next:
  assumes parse: "parse_queue_document before = Inr (header, events)" and wf: "wf_event e" "event_id e \<notin> event_id ` set events" "ilen events < MAX_EVENTS"
  shows "encode_queue (max (case header of Some h \<Rightarrow> header_version h | None \<Rightarrow> CONTROL_SCHEMA_VERSION) (event_version e))
          (header_generation header) (case header of Some h \<Rightarrow> previous_revision h | None \<Rightarrow> None)
          (case header of Some h \<Rightarrow> disposition_head h | None \<Rightarrow> None)
          (case header of Some h \<Rightarrow> opened_at h | None \<Rightarrow> created_at e) (events @ [e]) =
    Inr (document (next_header header events e) (events @ [e]))"
  using encode_wf [OF next_document_wf [OF assms]] by (simp only: next_header_def queue_header.simps)

lemma quiet_publish:
  assumes w: "store_faults w = []" "has_content (files w) QUEUE stored" "case stored of Some b \<Rightarrow> ilen b \<le> MAX_QUEUE_BYTES | None \<Rightarrow> True"
      "has_content (files w) MARKER (marker_bytes m)"
    and parse: "parse_queue_document (case stored of Some b \<Rightarrow> b | None \<Rightarrow> []) = Inr (header, events)"
    and wf: "wf_event e" "event_id e \<notin> event_id ` set events" "ilen events < MAX_EVENTS"
    and size: "ilen (document (next_header header events e) (events @ [e])) \<le> MAX_QUEUE_BYTES"
  shows "\<exists>snap v. publish_event e stored header events m w = (Inr snap, v) \<and> store_faults v = []"
proof -
  let ?b = "document (next_header header events e) (events @ [e])"
  let ?v = "w\<lparr>files := (files w)(QUEUE \<mapsto> Regular ?b)\<rparr>"
  have "write_verified QUEUE ?b ''control queue'' stored w = (Inr (), ?v)" by (rule quiet_verified [OF w(1-3)])
  moreover have "\<exists>v. complete_marker m ?b ?v = (Inr (), v) \<and> store_faults v = []" by (rule quiet_complete) (use w in \<open>simp_all add: has_content_def\<close>)
  ultimately show ?thesis
    using size unfolding publish_event_def Let_def encode_next [OF parse wf]
    by (auto simp: andthen_def pure_def not_less split: prod.splits sum.splits)
qed

subsection \<open>The whole append\<close>

lemma quiet_append_to_stored:
  assumes w: "store_faults w = []" "has_content (files w) QUEUE stored" "case stored of Some b \<Rightarrow> ilen b \<le> MAX_QUEUE_BYTES | None \<Rightarrow> True"
      "has_content (files w) MARKER (marker_bytes m)"
    and parse: "parse_queue_document (case stored of Some b \<Rightarrow> b | None \<Rightarrow> []) = Inr (header, events)"
    and lineage: "validate_lineage header None w = (Inr (), w)"
    and time: "format_time t = Inr time"
    and wf: "wf_event (new_event kind s x target random time)" "uuid4 random \<notin> event_id ` set events" "ilen events < MAX_EVENTS"
    and size: "ilen (document (next_header header events (new_event kind s x target random time))
      (events @ [new_event kind s x target random time])) \<le> MAX_QUEUE_BYTES"
    and expected: "queue_revision (files w) = expected"
  shows "\<exists>snap v. append_to_stored m stored kind s x target expected random t w = (Inr snap, v) \<and> store_faults v = []"
proof -
  let ?before = "case stored of Some b \<Rightarrow> b | None \<Rightarrow> []" and ?e = "new_event kind s x target random time"
  obtain m' v where v: "(if stored = None \<and> m = None then andthen write_preparing_marker (\<lambda>_. give (Some Preparing)) else give m) w = (Inr m', v)"
      "store_faults v = []" "has_content (files v) QUEUE stored" "has_content (files v) MARKER (marker_bytes m')"
  proof (cases "stored = None \<and> m = None")
    case True
    then have "write_preparing_marker w = (Inr (), w\<lparr>files := (files w)(MARKER \<mapsto> Regular MARKER_PREPARING)\<rparr>)"
      using w by (intro quiet_preparing) (simp_all add: has_content_def)
    then show ?thesis
      using True w by (intro that [of "Some Preparing" "w\<lparr>files := (files w)(MARKER \<mapsto> Regular MARKER_PREPARING)\<rparr>"])
        (simp_all add: andthen_def pure_def has_content_def)
  next
    case False
    then have "(if stored = None \<and> m = None then andthen write_preparing_marker (\<lambda>_. give (Some Preparing)) else give m) w = (Inr m, w)"
      by (auto simp: pure_def)
    then show ?thesis using w(1,2,4) by (intro that)
  qed
  obtain snap v' where snap: "publish_event ?e stored header events m' v = (Inr snap, v')" "store_faults v' = []"
    using quiet_publish [OF v(2,3) w(3) v(4) parse wf(1) _ wf(3) size] wf(2) by (auto simp: new_event_def)
  have parse': "stored_document ?before = Inr (header, events)" using parse by (simp add: stored_document_Inr)
  have "append_to_stored m stored kind s x target expected random t w = publish_event ?e stored header events m' v"
    unfolding append_to_stored_def Let_def
    using parse' lineage v(1) time wf(3) expected has_content_bytes(1) [OF w(2)]
    by (simp add: andthen_def pure_def not_le)
  then show ?thesis using snap by simp
qed

lemma quiet_append:
  assumes args: "append_arguments k s x ex target vault n = Inr (kind, s', x', target', expected)"
    and t: "valid_datetime t" "format_time t = Inr time" and r: "length random = 16" "fresh_event (files w) (uuid4 random)"
    and w: "store_faults w = []" "has_content (files w) QUEUE stored" "stored \<noteq> Some []" "has_content (files w) MARKER (marker_bytes m)"
      "case stored of Some b \<Rightarrow> ilen b \<le> MAX_QUEUE_BYTES | None \<Rightarrow> m \<noteq> Some Initialized"
    and parse: "parse_queue_document (case stored of Some b \<Rightarrow> b | None \<Rightarrow> []) = Inr (header, events)"
    and lineage: "\<forall>v. files v = files w \<longrightarrow> store_faults v = [] \<longrightarrow> validate_lineage header None v = (Inr (), v)"
    and room: "ilen events < MAX_EVENTS"
    and size: "ilen (document (next_header header events (new_event kind s' x' target' random time))
      (events @ [new_event kind s' x' target' random time])) \<le> MAX_QUEUE_BYTES"
    and expected: "queue_revision (files w) = expected"
  shows "\<exists>snap. fst (queue_append k s x ex target vault n random t w) = Inr snap"
proof -
  let ?v = "w\<lparr>has_directory := True\<rparr>"
  have bound: "case stored of Some b \<Rightarrow> ilen b \<le> MAX_QUEUE_BYTES | None \<Rightarrow> True" using w(5) by (auto split: option.splits)
  have opened: "marker_state ?v = (Inr m, ?v)" "read_optional_bytes ?v = (Inr stored, ?v)"
    by (rule quiet_marker, use w in simp, use w in simp, rule quiet_optional) (use w bound in simp_all)
  obtain snap v where snap: "append_to_stored m stored kind s' x' target' expected random t ?v = (Inr snap, v)" "store_faults v = []"
    using quiet_append_to_stored [of ?v stored m header events t time kind s' x' target' random expected]
      w bound parse lineage t room size expected new_event_wf [OF args t r(1)] has_content_bytes(2) [OF w(2) r(2) parse]
    by auto
  have run: "append_with_store kind s' x' target' expected random t ?v = (Inr snap, v)"
    using opened snap w(5) by (auto simp: append_with_store_def andthen_def split: option.splits)
  have "queue_append k s x ex target vault n random t w = (Inr snap, v)"
    using args w(1) snap(2) run
    by (simp add: queue_append_def locked_control_store_def control_store_def andthen_def pure_def quiet_step)
  then show ?thesis by simp
qed

end
