(* ===== verification/Control_Claims.thy ===== *)
theory Control_Claims
  imports Control_Runs
begin

section \<open>What the control queue guarantees\<close>

subsection \<open>Lemmas\<close>

text \<open>A walk over the lineage makes one call of the store for each generation it visits.\<close>

lemma predecessor_calls: "store_faults (snd (predecessor h digest w)) = drop 1 (store_faults w)"
  by (auto simp: predecessor_def andthen_def catch_def pure_def read_regular_file_def store_step_def with_fault_def observe_def
      Let_def drop_Suc split: prod.splits sum.splits option.splits leaf.splits fault.splits if_splits)

lemma walk_calls:
  "walk_lineage m h seen n w = (r, w') \<Longrightarrow>
   \<exists>k. store_faults w' = drop k (store_faults w) \<and> k \<le> nat (generation h) \<and> (\<forall>d. m = Some d \<longrightarrow> k \<le> nat (d - n))"
proof (induction m h seen n w arbitrary: r w' rule: walk_lineage.induct)
  case (1 m h seen n w)
  show ?case
  proof (cases "generation h \<le> 0 \<or> (case m of Some k \<Rightarrow> k \<le> n | None \<Rightarrow> False)")
    case True
    then have "walk_lineage m h seen n w = (Inr (), w)" by (subst walk_lineage.simps) simp
    then show ?thesis using 1(2) by (intro exI [of _ 0]) simp
  next
    case go: False
    note step = walk_steps(3) [OF go, of seen w]
    have one: "1 \<le> nat (generation h) \<and> (\<forall>d. m = Some d \<longrightarrow> 1 \<le> nat (d - n))" using go by auto
    show ?thesis
    proof (cases "\<exists>digest. previous_revision h = Some digest \<and> digest \<notin> set seen")
      case False
      then have "w' = w" using 1(2) step by (auto split: option.splits if_splits)
      then show ?thesis by (intro exI [of _ 0]) simp
    next
      case True
      then obtain digest where d: "previous_revision h = Some digest" "digest \<notin> set seen" by blast
      obtain r1 w1 where p: "predecessor h digest w = (r1, w1)" by fastforce
      have calls: "store_faults w1 = drop 1 (store_faults w)" using predecessor_calls [of h digest w] p by simp
      show ?thesis
      proof (cases r1)
        case (Inl e)
        then have "w' = w1" using 1(2) step d p by simp
        then show ?thesis using calls one by (intro exI [of _ 1]) simp
      next
        case (Inr q)
        then have walk: "walk_lineage m q (digest # seen) (n + 1) w1 = (r, w')" using 1(2) step d p by simp
        have g: "generation q = generation h - 1" using predecessor_generation p Inr by simp
        from 1(1) [OF go d p [symmetric] Inr walk] obtain k where
          k: "store_faults w' = drop k (store_faults w1)" "k \<le> nat (generation q)" "\<forall>d. m = Some d \<longrightarrow> k \<le> nat (d - (n + 1))"
          by blast
        have "store_faults w' = drop (Suc k) (store_faults w)" using k(1) calls by (simp add: drop_Suc drop_tl)
        moreover have "Suc k \<le> nat (generation h) \<and> (\<forall>d. m = Some d \<longrightarrow> Suc k \<le> nat (d - n))"
          using k(2,3) g one by auto
        ultimately show ?thesis by blast
      qed
    qed
  qed
qed

text \<open>An append that names another revision than that of the queue stops before it writes.\<close>

lemma stale_to_stored:
  assumes "has_content F QUEUE stored" "queue_revision F \<noteq> expected"
  shows "triple (with_files F) (append_to_stored marker stored kind s x target expected random t) (\<lambda>_ _. False) (\<lambda>_. with_files F)"
proof -
  let ?before = "case stored of Some b \<Rightarrow> b | None \<Rightarrow> []"
  have stale: "sha256_bytes ?before \<noteq> expected" using assms has_content_bytes(1) by simp
  show ?thesis
    unfolding append_to_stored_def Let_def
  proof (rule triple_guard)
    fix d
    show "triple (with_files F) (case d of (header, events) \<Rightarrow> andthen (validate_lineage header None) (\<lambda>_.
      if sha256_bytes ?before \<noteq> expected
      then fail (ConflictError ''control queue changed; reload it and append against the latest revision'')
      else andthen (if stored = None \<and> marker = None then andthen write_preparing_marker (\<lambda>_. give (Some Preparing)) else give marker)
        (\<lambda>marker'.
        if MAX_EVENTS \<le> ilen events then fail (ValidationError ''control queue reached its bounded event limit'')
        else andthen (pure (format_time t)) (\<lambda>time.
          publish_event (new_event kind s x target random time) stored header events marker')))) (\<lambda>_ _. False) (\<lambda>_. with_files F)"
    proof (cases d)
      case (Pair header events)
      show ?thesis
        unfolding Pair prod.case
        by (rule triple_then [OF triple_validate [of F header events]], simp) (use stale in \<open>auto intro: triple_fail\<close>)
    qed
  qed simp
qed

lemma stale_append:
  assumes "queue_revision F \<noteq> expected"
  shows "triple (with_files F) (append_with_store kind s x target expected random t) (\<lambda>_ _. False) (\<lambda>_. with_files F)"
  unfolding append_with_store_def
proof (rule triple_then [OF triple_marker_state], simp, rule triple_then [OF triple_read_optional], simp,
    rule triple_if, rule triple_fail, simp)
  fix marker stored
  show "triple (\<lambda>w. with_files F w \<and> has_content F QUEUE stored \<and> stored \<noteq> Some [] \<and> (\<forall>b. stored = Some b \<longrightarrow> ilen b \<le> MAX_QUEUE_BYTES))
    (append_to_stored marker stored kind s x target expected random t) (\<lambda>_ _. False) (\<lambda>_. with_files F)"
    by (rule triple_fact [where A = "has_content F QUEUE stored"], simp,
        rule triple_conseq [OF stale_to_stored [OF _ assms]]) auto
qed

lemma stale_queue_append:
  assumes args: "append_arguments k s x ex target vault m = Inr (kind, s', x', target', expected)"
    and stale: "queue_revision F \<noteq> expected"
  shows "triple (with_files F) (queue_append k s x ex target vault m random t) (\<lambda>_ _. False) (\<lambda>_. with_files F)"
proof -
  have body: "triple (with_files F) (andthen (store_step (has_directory_update (\<lambda>_. True))) (\<lambda>_. andthen (store_step id) (\<lambda>_.
        append_with_store kind s' x' target' expected random t))) (\<lambda>_ _. False) (\<lambda>_. with_files F)"
    by (rule triple_then [OF triple_directory], simp, rule triple_then [OF triple_store_idle _ stale_append [OF stale]]) simp
  have "triple (with_files F) (locked_control_store (andthen (store_step (has_directory_update (\<lambda>_. True))) (\<lambda>_. andthen (store_step id) (\<lambda>_.
        append_with_store kind s' x' target' expected random t)))) (\<lambda>_ _. False) (\<lambda>_. with_files F)"
    by (rule triple_under_locks [OF body]) auto
  then show ?thesis by (simp add: queue_append_def args triple_def andthen_def pure_def)
qed

subsection \<open>A sample queue\<close>

definition queue_date :: datetime where
  "queue_date = \<lparr>year = 2024, month = 2, day = 29, hour = 12, minute = 30, second = 5, microsecond = 0, utc_offset = Some 0\<rparr>"

definition empty_world :: "fault list \<Rightarrow> control_world" where
  "empty_world fs = \<lparr>files = Map.empty, has_directory = False, store_faults = fs\<rparr>"

definition queue_random :: string where
  "queue_random = replicate 16 CHR ''A''"

definition sample_event :: control_event where
  "sample_event = \<lparr>event_version = 1, event_id = ''41414141-4141-4141-8141-414141414141'', event_kind = APPROVAL,
     subject = ''operation:op-1'', choice = ''yes'', target_revision = None, created_at = ''2024-02-29T12:30:05.000000Z'',
     event_source = ''bridge''\<rparr>"

lemma queue_date_valid: "valid_datetime queue_date" "format_time queue_date = Inr ''2024-02-29T12:30:05.000000Z''"
  by code_simp+

lemma sample_new: "new_event APPROVAL ''operation:op-1'' ''yes'' None queue_random ''2024-02-29T12:30:05.000000Z'' = sample_event"
  by code_simp

lemma sample_event_wf: "wf_event sample_event"
  by code_simp

lemma sample_arguments:
  "append_arguments (PStr ''approval'') (PStr ''operation:op-1'') (PStr '' yes '') (PStr (sha256_bytes b)) PNone PNone MAX_CONTROL_TEXT_BYTES =
     Inr (APPROVAL, ''operation:op-1'', ''yes'', None, sha256_bytes b)"
proof -
  have "control_kind_of (PStr ''approval'') = Inr APPROVAL" "subject_reference (PStr ''operation:op-1'') APPROVAL = Inr ''operation:op-1''"
    "bounded_text (PStr '' yes '') ''choice'' MAX_CONTROL_TEXT_BYTES = Inr ''yes''" "optional_revision PNone ''target_revision'' = Inr None"
    "MAX_CONTROL_TEXT_BYTES \<noteq> MAX_REVIEW_CONTROL_TEXT_BYTES"
    by code_simp+
  then show ?thesis
    using fixed_revision_parse [OF sha256_bytes_revision, of b "''expected_revision''"] by (simp add: append_arguments_def)
qed

text \<open>A digest is written as it is.\<close>

lemma digest_written: "escape_string a (sha256_bytes b) = sha256_bytes b"
proof -
  have hex: "escape_char (hex_char d) = [hex_char d] \<and> byte (hex_char d) < 127" if "0 \<le> d" "d < 16" for d
  proof -
    have "d \<in> {0, 1, 2, 3, 4, 5, 6, 7, 8, 9, 10, 11, 12, 13, 14, 15}" using that by simp presburger
    moreover have "\<forall>d \<in> {0, 1, 2, 3, 4, 5, 6, 7, 8, 9, 10, 11, 12, 13, 14, 15}. escape_char (hex_char d) = [hex_char d] \<and> byte (hex_char d) < 127"
      by code_simp
    ultimately show ?thesis by blast
  qed
  have d: "0 \<le> byte c div 16 \<and> byte c div 16 < 16" for c
    using byte_bounds [of c] by (simp add: div_less_iff_less_mult pos_imp_zdiv_nonneg_iff)
  have chars: "list_all (\<lambda>c. escape_char c = [c] \<and> byte c < 127) (hex_text t)" for t
    using hex d by (induction t) (simp_all add: hex_text_def)
  have points: "utf8_points (sha256_bytes b) = map byte (sha256_bytes b)"
    using utf8_points_decode [OF utf8_decode_ascii [OF fixed_revision_ascii [OF sha256_bytes_revision]]] by blast
  have "list_all (\<lambda>c. escape_char c = [c] \<and> escape_point (byte c) = [c]) (hex_text t)" for t
    using chars [of t] by (auto simp: list_all_iff escape_point_def)
  moreover have "list_all (\<lambda>c. escape_char c = [c] \<and> escape_point (byte c) = [c]) t \<Longrightarrow>
      concat (map escape_char t) = t \<and> concat (map (escape_point \<circ> byte) t) = t" for t
    by (induction t) simp_all
  ultimately have "concat (map escape_char (sha256_bytes b)) = sha256_bytes b \<and> concat (map (escape_point \<circ> byte) (sha256_bytes b)) = sha256_bytes b"
    by (simp add: sha256_bytes_def)
  then show ?thesis using points by (simp add: escape_string_def)
qed

lemma digest_length: "length (sha256_bytes b) = 64"
  by (simp add: sha256_bytes_def)

lemma sample_size: "ilen (document (next_header None [] sample_event) ([] @ [sample_event])) \<le> MAX_QUEUE_BYTES"
proof -
  let ?d = "sha256_bytes (concat (map event_line ([] @ [sample_event])))"
  have keys: "escape_string True ''disposition_head_revision'' = ''disposition_head_revision''"
    "escape_string True ''event_count'' = ''event_count''"
    "escape_string True ''events_digest'' = ''events_digest''"
    "escape_string True ''generation'' = ''generation''"
    "escape_string True ''opened_at'' = ''opened_at''"
    "escape_string True ''previous_revision'' = ''previous_revision''"
    "escape_string True ''record_type'' = ''record_type''"
    "escape_string True ''schema_version'' = ''schema_version''"
    "escape_string True ''2024-02-29T12:30:05.000000Z'' = ''2024-02-29T12:30:05.000000Z''"
    "int_text 0 = ''0''" "int_text 1 = ''1''" "max CONTROL_SCHEMA_VERSION (event_version sample_event) = 1"
    "created_at sample_event = ''2024-02-29T12:30:05.000000Z''"
    by code_simp+
  have "ilen (header_line (next_header None [] sample_event)) \<le> 1000"
    unfolding header_line_def header_dict_def dumps_obj next_header_def
    by (simp add: member_text_def string_token_def digest_written digest_length keys compact_ascii_def key_separator_def bracketed_def
        item_separator_def new_line_def header_generation_def optional_str_def ilen_def [of "sha256_bytes _"])
  moreover have "ilen (event_line sample_event) \<le> 1000" by code_simp
  ultimately show ?thesis by (simp add: document_def MAX_QUEUE_BYTES_def)
qed

definition sample_header :: queue_header where
  "sample_header = next_header None [] sample_event"

definition sample_files :: "string \<rightharpoonup> leaf" where
  "sample_files = [QUEUE \<mapsto> Regular (document sample_header [sample_event]), MARKER \<mapsto> Regular MARKER_INITIALIZED]"

lemma sample_document_wf: "wf_document sample_header [sample_event]"
  using next_document_wf [of "[]" None "[]" sample_event] sample_event_wf
  by (simp add: sample_header_def parse_queue_document_def ilen_def MAX_EVENTS_def)

lemma sample_files_history: "queue_history sample_files = Some [sample_event]"
  using parse_document [OF sample_document_wf]
  by (simp add: sample_files_def queue_history_def document_history_def sample_header_def next_header_def header_generation_def)

lemma sample_fresh: "fresh_event (files (empty_world fs)) i" "queue_revision (files (empty_world fs)) = sha256_bytes []"
  by (simp_all add: fresh_event_def queue_revision_def empty_world_def)

lemmas sample_world_simps = sample_new sample_fresh has_content_def empty_world_def queue_revision_def parse_queue_document_def
  validate_lineage_def pure_def ilen_def MAX_EVENTS_def

lemma queue_random_length: "length queue_random = 16"
  by (simp add: queue_random_def)

lemma sample_run:
  "\<exists>snap. fst (queue_append (PStr ''approval'') (PStr ''operation:op-1'') (PStr '' yes '') (PStr (sha256_bytes [])) PNone PNone
     MAX_CONTROL_TEXT_BYTES queue_random queue_date (empty_world [])) = Inr snap"
  by (rule quiet_append [OF sample_arguments queue_date_valid queue_random_length sample_fresh(1), where stored = None and m = None and header = None and events = "[]"])
    (use sample_size in \<open>simp_all add: sample_world_simps\<close>)

subsection \<open>Documents\<close>

text \<open>
  C35: a queue whose header and events are well formed is read back from its file exactly as it was
  written, each event from its own line.
\<close>

theorem control_document_round_trip:
  assumes "wf_document h es"
  shows "parse_queue_document (header_line h @ concat (map event_line es)) = Inr (Some h, es)"
  using parse_document [OF assms] by (simp add: document_def)

theorem control_document_round_trip_witness:
  "parse_queue_document (header_line sample_header @ concat (map event_line [sample_event])) = Inr (Some sample_header, [sample_event])"
  by (rule control_document_round_trip [OF sample_document_wf])

text \<open>
  C34: whatever bytes the queue file holds, if they are accepted then the header and every event are
  well formed, the identifiers of the events are distinct, the header counts and digests the events, and
  the bytes after the header line are the canonical encoding of the events.
\<close>

theorem accepted_document_wf:
  assumes "parse_queue_document stored = Inr (Some h, es)"
  shows "wf_document h es \<and> (\<exists>first. stored = first @ concat (map event_line es))"
  using parse_document_Inr [OF assms] by blast

theorem accepted_document_wf_witness:
  "wf_document sample_header [sample_event] \<and>
   (\<exists>first. document sample_header [sample_event] = first @ concat (map event_line [sample_event]))"
  by (rule accepted_document_wf [OF parse_document [OF sample_document_wf]])

subsection \<open>Operations\<close>

text \<open>
  C6: an append that succeeds adds its event to the end of everything the vault has recorded, over all
  archived generations, only if the queue had the revision the caller named, and returns the queue as it
  is now stored; one that fails, through whatever faults, has done exactly this or recorded nothing.
\<close>

theorem append_extends_history:
  assumes "append_arguments k s x ex target vault m = Inr (kind, s', x', target', expected)"
    and "valid_datetime t" "length random = 16" "fresh_event (files w) (uuid4 random)"
  shows "case queue_append k s x ex target vault m random t w of
      (Inr snap, w') \<Rightarrow> appended kind s' x' target' expected random t (files w) (files w') \<and> shows_queue snap (files w')
    | (Inl e, w') \<Rightarrow> queue_history (files w') = queue_history (files w) \<or>
        appended kind s' x' target' expected random t (files w) (files w')"
  using triple_queue_append [OF assms] by (auto simp: triple_def split: prod.split sum.split)

theorem append_extends_history_witness:
  "\<exists>snap w'. queue_append (PStr ''approval'') (PStr ''operation:op-1'') (PStr '' yes '') (PStr (sha256_bytes [])) PNone PNone
       MAX_CONTROL_TEXT_BYTES queue_random queue_date (empty_world []) = (Inr snap, w') \<and>
     queue_history (files w') = Some [sample_event] \<and> shows_queue snap (files w')"
proof -
  obtain snap w' where run: "queue_append (PStr ''approval'') (PStr ''operation:op-1'') (PStr '' yes '') (PStr (sha256_bytes [])) PNone PNone
       MAX_CONTROL_TEXT_BYTES queue_random queue_date (empty_world []) = (Inr snap, w')"
    using sample_run by (metis prod.collapse)
  have "queue_history (files (empty_world [])) = Some []"
    by (simp add: queue_history_def empty_world_def)
  then show ?thesis
    using append_extends_history [OF sample_arguments [of "[]"] queue_date_valid(1) queue_random_length sample_fresh(1), of "[]"]
      run queue_date_valid(2) sample_new
    by (auto simp: appended_def extended_def)
qed

text \<open>
  C33: without faults, an append succeeds whenever the queue can be read and its lineage is accepted,
  the caller names its revision, and there is room for one more event.
\<close>

theorem append_succeeds:
  assumes "append_arguments k s x ex target vault n = Inr (kind, s', x', target', expected)"
    and "valid_datetime t" "format_time t = Inr time" "length random = 16" "fresh_event (files w) (uuid4 random)"
    and "store_faults w = []" "has_content (files w) QUEUE stored" "stored \<noteq> Some []" "has_content (files w) MARKER (marker_bytes m)"
      "case stored of Some b \<Rightarrow> ilen b \<le> MAX_QUEUE_BYTES | None \<Rightarrow> m \<noteq> Some Initialized"
    and "parse_queue_document (case stored of Some b \<Rightarrow> b | None \<Rightarrow> []) = Inr (header, events)"
    and "\<forall>v. files v = files w \<longrightarrow> store_faults v = [] \<longrightarrow> validate_lineage header None v = (Inr (), v)"
    and "ilen events < MAX_EVENTS"
    and "ilen (document (next_header header events (new_event kind s' x' target' random time))
      (events @ [new_event kind s' x' target' random time])) \<le> MAX_QUEUE_BYTES"
    and "queue_revision (files w) = expected"
  shows "\<exists>snap. fst (queue_append k s x ex target vault n random t w) = Inr snap"
  by (rule quiet_append [OF assms])

theorem append_succeeds_witness:
  "\<exists>snap. fst (queue_append (PStr ''approval'') (PStr ''operation:op-1'') (PStr '' yes '') (PStr (sha256_bytes [])) PNone PNone
     MAX_CONTROL_TEXT_BYTES queue_random queue_date (empty_world [])) = Inr snap"
  by (rule append_succeeds [OF sample_arguments queue_date_valid queue_random_length sample_fresh(1), where stored = None and m = None and header = None and events = "[]"])
    (use sample_size in \<open>simp_all add: sample_world_simps\<close>)

text \<open>
  C36: an append that names another revision than that of the stored queue is refused, and no file is
  changed, not even the marker.
\<close>

theorem stale_append_refused:
  assumes "append_arguments k s x ex target vault m = Inr (kind, s', x', target', expected)" "queue_revision (files w) \<noteq> expected"
  shows "\<exists>e w'. queue_append k s x ex target vault m random t w = (Inl e, w') \<and> files w' = files w"
proof -
  note t = stale_queue_append [OF assms, of random t]
  obtain r w' where run: "queue_append k s x ex target vault m random t w = (r, w')" by fastforce
  show ?thesis
  proof (cases r)
    case (Inl e)
    then show ?thesis using tripleD(2) [OF t refl] run by blast
  next
    case (Inr snap)
    then show ?thesis using tripleD(1) [OF t refl] run by blast
  qed
qed

text \<open>Of two different digests one is not the queue's.\<close>

theorem stale_append_refused_witness:
  "\<exists>d \<in> {replicate 64 CHR ''0'', replicate 64 CHR ''1''}. \<exists>e w'.
     queue_append (PStr ''approval'') (PStr ''operation:op-1'') (PStr '' yes '') (PStr d) PNone PNone MAX_CONTROL_TEXT_BYTES
       queue_random queue_date (empty_world []) = (Inl e, w') \<and> files w' = Map.empty"
proof -
  have args: "append_arguments (PStr ''approval'') (PStr ''operation:op-1'') (PStr '' yes '') (PStr (replicate 64 c)) PNone PNone
      MAX_CONTROL_TEXT_BYTES = Inr (APPROVAL, ''operation:op-1'', ''yes'', None, replicate 64 c)" if "c = CHR ''0'' \<or> c = CHR ''1''" for c
  proof -
    have "append_arguments (PStr ''approval'') (PStr ''operation:op-1'') (PStr '' yes '') (PStr (replicate 64 CHR ''0'')) PNone PNone
      MAX_CONTROL_TEXT_BYTES = Inr (APPROVAL, ''operation:op-1'', ''yes'', None, replicate 64 CHR ''0'')"
      "append_arguments (PStr ''approval'') (PStr ''operation:op-1'') (PStr '' yes '') (PStr (replicate 64 CHR ''1'')) PNone PNone
      MAX_CONTROL_TEXT_BYTES = Inr (APPROVAL, ''operation:op-1'', ''yes'', None, replicate 64 CHR ''1'')"
      by code_simp+
    then show ?thesis using that by blast
  qed
  have two: "queue_revision (files (empty_world [])) \<noteq> replicate 64 CHR ''0'' \<or> queue_revision (files (empty_world [])) \<noteq> replicate 64 CHR ''1''"
    by (auto simp: replicate_eq_replicate)
  have empty: "files (empty_world []) = Map.empty" by (simp add: empty_world_def)
  show ?thesis
    using two stale_append_refused [OF args, of "CHR ''0''" "empty_world []" queue_random queue_date]
      stale_append_refused [OF args, of "CHR ''1''" "empty_world []" queue_random queue_date]
    unfolding empty by blast
qed

text \<open>
  C7: archiving a closed queue loses nothing: whatever fails on the way, the vault has recorded the
  same events as before; when it succeeds, the archive it names is the queue it replaced and the queue
  is an empty successor that names this archive's digest.
\<close>

theorem rotation_keeps_history:
  assumes "valid_datetime t"
  shows "case rotate_closed_with_store expected ids t w of
      (Inr r, w') \<Rightarrow> rotated (files w) r (files w')
    | (Inl e, w') \<Rightarrow> queue_history (files w') = queue_history (files w)"
  using triple_rotate [OF assms, of "files w" expected ids] by (auto simp: triple_def split: prod.split sum.split)

theorem rotation_keeps_history_witness:
  "queue_history (files (snd (rotate_closed_with_store (PStr (queue_revision sample_files)) {event_id sample_event} queue_date
     \<lparr>files = sample_files, has_directory = True, store_faults = [No_Fault, No_Fault, No_Fault, After (OtherError ''OSError'')]\<rparr>))) = Some [sample_event]"
  using rotation_keeps_history [OF queue_date_valid(1), where expected = "PStr (queue_revision sample_files)" and ids = "{event_id sample_event}" and
      w = "\<lparr>files = sample_files, has_directory = True, store_faults = [No_Fault, No_Fault, No_Fault, After (OtherError ''OSError'')]\<rparr>"]
    sample_files_history
  by (auto simp: rotated_def split: prod.splits sum.splits)

text \<open>
  C37: binding the head of the dispositions changes the header only: the recorded events stay the same
  whatever fails, and on success the queue has the new head and the events, generation and predecessor
  it had.
\<close>

theorem head_binding_keeps_history:
  "case bind_disposition_head_with_store expected gen head new w of
      (Inr snap, w') \<Rightarrow> bound (files w) snap (files w') \<and>
        (\<exists>r. parse_revision new ''new_head_revision'' = Inr r \<and> snapshot_head snap = Some r)
    | (Inl e, w') \<Rightarrow> queue_history (files w') = queue_history (files w)"
  using triple_bind [of "files w" expected gen head new] by (auto simp: triple_def split: prod.split sum.split)

subsection \<open>Reading\<close>


text \<open>
  C39: the walk over the archived generations ends: it reads one archive for each generation it visits,
  at most as many as the header's generation, and at most the depth it is given.
\<close>

theorem lineage_walk_bounded:
  "\<exists>k \<le> (case depth of None \<Rightarrow> nat (generation h) | Some d \<Rightarrow> min (nat (generation h)) (nat d)).
     store_faults (snd (validate_lineage (Some h) depth w)) = drop k (store_faults w)"
proof -
  obtain k where "store_faults (snd (walk_lineage depth h [] 0 w)) = drop k (store_faults w)" "k \<le> nat (generation h)"
    "\<forall>d. depth = Some d \<longrightarrow> k \<le> nat (d - 0)"
    using walk_calls [of depth h "[]" 0 w] by (metis prod.collapse)
  then show ?thesis by (intro exI [of _ k]) (auto simp: validate_lineage_def split: option.split)
qed

end
