(* ===== verification/Spec2Isabelle.thy ===== *)
theory Spec2Isabelle
  imports Contract_Claims Session_Claims Token_Claims Control_Claims
begin

section \<open>Verification of the connector boundary and the stores of the Seld kernel\<close>

text \<open>
  The kernel (\<open>src/src/continuity_kernel\<close>, Python) lets an assistant read and change accounts of
  Google, Microsoft and collaboration providers through a closed catalogue of operations. It keeps
  the credentials of these accounts, and the decisions a person makes in the Bridge, in stores that
  must survive crashes. This development models the code that decides what a request may be and when
  it may take effect, the store of credentials and the queue of decisions, and proves what that code
  guarantees. The parts meet in the canonical texts, times and digests they share. File and function
  names below are those of the source; a definition keeps the name of its function without the leading
  underscore.

  \<^bold>\<open>Python.\<close> \<open>Prelude\<close> has the exceptions of \<open>errors.py\<close>
  (\<open>exc\<close>; a raise is \<open>Inl\<close>, a value \<open>Inr\<close>) and sequencing
  (\<open>bindE\<close>, \<open>mapE\<close>). \<open>PyStr\<close> is \<open>str\<close> as UTF-8
  bytes, \<open>PyObj\<close> dynamically typed values. \<open>Regex\<close> is \<open>re\<close> on the
  syntax the schemas use and more: compiling a pattern gives an expression, \<open>re.error\<close>
  (\<open>Invalid\<close>), \<open>OverflowError\<close> (\<open>Too_Large\<close>), or
  \<open>Unmodelled\<close> where it meets syntax outside the model. \<open>PyFloat\<close> is IEEE
  double arithmetic on rationals, \<open>JsonNumber\<close>, \<open>Json\<close>,
  \<open>Utf8_Text\<close> and \<open>Json_Text\<close> are \<open>json.dumps\<close> and
  \<open>json.loads\<close> with their round trip, \<open>Digest\<close> is SHA-256, HMAC and base64,
  \<open>PyText\<close> white space and stripping, \<open>PyTime\<close> the ISO forms of
  \<open>datetime\<close>, \<open>Uuid\<close> the texts of \<open>uuid\<close>. Nothing here is
  assumed: all of it computes. \<open>Effects\<close> is code that changes a store and may raise: an
  action returns its result and the state it leaves, each call of the operating system takes a fault
  (none, before the change, after it), and properties hold for every sequence of faults. Triples with
  two postconditions carry the proofs.

  \<^bold>\<open>Contracts\<close> (\<open>connector_contract.py\<close>, \<open>connector_operations*.py\<close>). \<open>Contract\<close> holds canonical
  values, the normalisation and the meaning of schemas, operation specifications and the
  catalogue. \<open>Schema_Wf\<close> states what a well-formed schema is without reference to the
  normalising code and \<open>Normalize\<close> shows the code accepts exactly those, \<open>Schema_Errors\<close> which exceptions
  refuse the others; \<open>Canonical\<close> has the fixed points, \<open>Validate\<close> shows that accepted input comes back
  unchanged, \<open>Conform\<close> that it is closed at every level of its schema (\<open>conforms\<close>), \<open>Edge_Inputs\<close> what
  patterns that close with a dollar and integers beyond the floats do. \<open>Catalog_Base\<close>, \<open>Catalog_Google\<close>,
  \<open>Catalog_Microsoft\<close> and \<open>Catalog_Collaboration\<close> hold the 218 operation rows of the providers, the
  \<open>_Wf\<close> theories their well-formedness, \<open>Catalog\<close> the assembled catalogue and the fourteen tools.
  The properties are in \<open>Contract_Claims\<close>.

  \<^bold>\<open>Sessions\<close> (\<open>connector_session.py\<close>). \<open>Session\<close> models sealed cursors and confirmations; the state
  is the record \<open>session\<close> of the two dictionaries, and every operation takes its clock readings and
  random bytes as arguments. A consumption is split where the code takes its lock
  (\<open>check_confirmation\<close>, \<open>spend_nonce\<close>). \<open>Session_Seal\<close> and \<open>Session_Facts\<close> read tokens back,
  \<open>Session_Store\<close> states the contract of an expiring store as a locale and interprets it for both
  dictionaries, \<open>Session_Machine\<close> has the transitions and invariants, \<open>Session_Issue\<close> what an issued
  token is, \<open>Session_Sample\<close> concrete tokens. The properties are in \<open>Session_Claims\<close>.

  \<^bold>\<open>Credentials\<close> (\<open>connector_identifiers.py\<close>, \<open>connector_time.py\<close>, \<open>connector_secrets.py\<close>,
  \<open>connector_token_store.py\<close>). \<open>Identifiers\<close> and \<open>Timestamps\<close> are the parsers and printers; \<open>Secrets\<close> the two
  custody implementations as a record of operations; \<open>TokenStore\<close> the versioned pointer file and its two
  slots. \<open>Token_Codec\<close> shows the pointer file round trip, \<open>Token_Safety\<close> states custody as a locale with the
  laws of a secret store and interprets it on both implementations, \<open>Token_Register\<close> is the abstract
  specification (one versioned register for each connection), \<open>Token_Steps\<close> and \<open>Token_Spec\<close> the
  simulation of every operation by it. The properties are in \<open>Token_Claims\<close>.

  \<^bold>\<open>Decisions\<close> (\<open>control_queue.py\<close>). \<open>ControlQueue\<close> holds the records of events and headers, the field checks,
  the parser and the encoder of the queue file; \<open>ControlStore\<close> the class of that name: reading and
  compare-and-swap of files (\<open>atomic.py\<close>), the initialisation marker, the walk over archived
  generations, and the append, rotation, head-binding and snapshot operations over the record
  \<open>control_world\<close> of the files, the directory and the faults to come. \<open>Control_Codec\<close> says which
  documents are well formed and shows that exactly these are read back. \<open>Control_History\<close> is the abstract
  state, the list of all events recorded over all generations (\<open>queue_history\<close>), and the triples of the
  file calls; \<open>Control_Steps\<close> shows that an append extends the history by one event, \<open>Control_Rotation\<close>
  that archiving and head binding keep it and what a snapshot has checked, at either depth, \<open>Control_Runs\<close> the runs without
  faults. The properties are in \<open>Control_Claims\<close>.

  \<^bold>\<open>Bounds and fuel.\<close> The JSON decoder runs on fuel twice the length of the text plus one, which
  \<open>Json_Text\<close> shows to be enough for every text the encoder writes. Schema and value
  recursion is bounded by the depth the code itself checks. The regular-expression parser runs
  on fuel three times the length of the pattern plus three, one for each character and for each of the
  three levels of its grammar, and answers \<open>Unmodelled\<close> should it run out; the matcher terminates by
  structure. The search for the shortest decimal of a float tries 17 digits and then
  its exact expansion. The walk over archives terminates because each accepted predecessor is one
  generation older.

  \<^bold>\<open>Not modelled.\<close> Patterns with \<open>\w\<close>, word boundaries, references, numeric and named characters,
  possessive quantifiers and other forms of \<open>(?...)\<close>: the model raises an error of its own for them, which
  the program does not, and the property that is exact about errors assumes they do not occur
  (\<open>modelled_patterns\<close>; no schema of the catalogue has one). Minus zero (identified with zero), the interpreter's recursion limit, the paths in
  messages, and the identity of an exception that leaving a lock raises in place of another. Opening a
  store, its locks and checks of the vault's identity are single calls that may fail. The parts of the
  kernel that are input and output are left out: provider adapters, HTTP and OAuth transports,
  the descriptors, links and \<open>fsync\<close> of the file-system store, the databases and the command line. No property assumes
  that digests do not collide.
\<close>

end
